(* ===== verification/Parsec_Prelude.thy ===== *)
theory Parsec_Prelude
  imports
    Main
    "HOL-Library.Word"
    "HOL-Library.AList"
    "HOL-Library.Multiset"
    "HOL-Library.Char_ord"
    "HOL-Library.List_Lexorder"
    "HOL-Library.FSet"
begin

text \<open>
  What every component of the library shares: the names of the machine types, the
  translation of Rust's \<open>?\<close> operator, and the parts of Rust's standard library the sources
  use (\<open>HashMap\<close>, \<open>String\<close> with its UTF-8 invariant, decimal printing and parsing,
  little-endian conversion, \<open>Vec\<close>).

  A fallible Rust function of type \<open>Result<T, E>\<close> is a HOL function into \<open>'e + 't\<close> with
  \<open>Inl\<close> for \<open>Err\<close>. A method with \<open>&self\<close> and interior mutability is a function of the
  state that also returns the state. Log output and zeroisation of dropped memory have no effect on
  results and are left out everywhere. So is lock poisoning, except for the TPM context, where a
  panic while the lock is held can happen.
\<close>

section \<open>Machine types\<close>

type_synonym u8 = "8 word"
type_synonym u16 = "16 word"
type_synonym u32 = "32 word"
type_synonym usize = "64 word"
type_synonym bytes = "u8 list"

named_theorems hm_simps \<open>lookup in a hash map after an update\<close>
named_theorems try_simps \<open>evaluation of the question mark operator\<close>

section \<open>The question mark operator\<close>

text \<open>A stateful operation that may fail; the state change of a failed call is kept.\<close>

type_synonym ('w, 'e, 'a) rust_op = "'w \<Rightarrow> ('e + 'a) \<times> 'w"

definition try_op :: "('w, 'e, 'a) rust_op \<Rightarrow> ('a \<Rightarrow> ('w, 'e, 'b) rust_op) \<Rightarrow> ('w, 'e, 'b) rust_op" where
  "try_op f k w = (case f w of (Inl e, w') \<Rightarrow> (Inl e, w') | (Inr x, w') \<Rightarrow> k x w')"

definition read_op :: "('w \<Rightarrow> 'e + 'a) \<Rightarrow> ('w, 'e, 'a) rust_op" where
  "read_op f w = (f w, w)"

definition ok_op :: "'a \<Rightarrow> ('w, 'e, 'a) rust_op" where
  "ok_op x w = (Inr x, w)"

definition err_op :: "'e \<Rightarrow> ('w, 'e, 'a) rust_op" where
  "err_op e w = (Inl e, w)"

text \<open>The same operator on a result without state, and \<open>Option::ok_or\<close>.\<close>

definition try_res :: "'e + 'a \<Rightarrow> ('a \<Rightarrow> 'e + 'b) \<Rightarrow> 'e + 'b" where
  "try_res r k = (case r of Inl e \<Rightarrow> Inl e | Inr x \<Rightarrow> k x)"

definition ok_or :: "'a option \<Rightarrow> 'e \<Rightarrow> 'e + 'a" where
  "ok_or r e = (case r of None \<Rightarrow> Inl e | Some x \<Rightarrow> Inr x)"

definition map_err :: "('e \<Rightarrow> 'f) \<Rightarrow> 'e + 'a \<Rightarrow> 'f + 'a" where
  "map_err f r = (case r of Inl e \<Rightarrow> Inl (f e) | Inr x \<Rightarrow> Inr x)"

lemma try_op_Inl [try_simps]: "f w = (Inl e, w') \<Longrightarrow> try_op f k w = (Inl e, w')"
  by (simp add: try_op_def)

lemma try_op_Inr [try_simps]: "f w = (Inr x, w') \<Longrightarrow> try_op f k w = k x w'"
  by (simp add: try_op_def)

lemma try_op_read [try_simps, simp]:
  "try_op (read_op f) k w = (case f w of Inl e \<Rightarrow> (Inl e, w) | Inr x \<Rightarrow> k x w)"
  by (simp add: try_op_def read_op_def split: sum.splits)

lemma try_op_err [try_simps, simp]: "try_op (err_op e) k w = (Inl e, w)"
  by (simp add: try_op_def err_op_def)

lemma try_op_ok [try_simps, simp]: "try_op (ok_op x) k w = k x w"
  by (simp add: try_op_def ok_op_def)

lemma try_op_eq_Inr:
  "try_op f k w = (Inr y, w2) \<longleftrightarrow> (\<exists>x w1. f w = (Inr x, w1) \<and> k x w1 = (Inr y, w2))"
  by (auto simp: try_op_def split: prod.splits sum.splits)

lemma try_op_eq_Inl:
  "try_op f k w = (Inl e, w2) \<longleftrightarrow>
     f w = (Inl e, w2) \<or> (\<exists>x w1. f w = (Inr x, w1) \<and> k x w1 = (Inl e, w2))"
  by (auto simp: try_op_def split: prod.splits sum.splits)

lemma try_res_simps [try_simps, simp]:
  "try_res (Inl e) k = Inl e" "try_res (Inr x) k = k x"
  by (simp_all add: try_res_def)

lemma try_res_eq_Inr: "try_res r k = Inr y \<longleftrightarrow> (\<exists>x. r = Inr x \<and> k x = Inr y)"
  by (cases r) simp_all

lemma ok_or_eq_Inr [simp]: "ok_or x e = Inr y \<longleftrightarrow> x = Some y"
  by (cases x) (simp_all add: ok_or_def)

lemma ok_or_simps [simp]: "ok_or None e = Inl e" "ok_or (Some x) e = Inr x"
  by (simp_all add: ok_or_def)

lemma map_err_simps [simp]: "map_err f (Inl e) = Inl (f e)" "map_err f (Inr x) = Inr x"
  by (simp_all add: map_err_def)

lemma ok_op_apply [simp]: "ok_op x w = (Inr x, w)"
  by (simp add: ok_op_def)

lemma err_op_apply [simp]: "err_op e w = (Inl e, w)"
  by (simp add: err_op_def)

section \<open>Hash maps\<close>

text \<open>
  A \<open>HashMap<K, V>\<close> is an association list with distinct keys. Its iteration order depends on
  the map's hasher; operations that iterate take that order as a function on the list of
  keys, of which only \<open>iteration_order\<close> may be assumed: it permutes the keys.
\<close>

type_synonym ('k, 'v) hash_map = "('k \<times> 'v) list"

definition hm_wf :: "('k, 'v) hash_map \<Rightarrow> bool" where
  "hm_wf m \<longleftrightarrow> distinct (map fst m)"

definition hm_get :: "('k, 'v) hash_map \<Rightarrow> 'k \<Rightarrow> 'v option" where
  "hm_get m k = map_of m k"

definition hm_insert :: "'k \<Rightarrow> 'v \<Rightarrow> ('k, 'v) hash_map \<Rightarrow> ('k, 'v) hash_map" where
  "hm_insert k v m = AList.update k v m"

definition hm_remove :: "'k \<Rightarrow> ('k, 'v) hash_map \<Rightarrow> ('k, 'v) hash_map" where
  "hm_remove k m = AList.delete k m"

definition hm_keys :: "('k, 'v) hash_map \<Rightarrow> 'k list" where
  "hm_keys m = map fst m"

definition iteration_order :: "('k list \<Rightarrow> 'k list) \<Rightarrow> bool" where
  "iteration_order ord \<longleftrightarrow> (\<forall>ks. mset (ord ks) = mset ks)"

lemma iteration_order_set [simp]: "iteration_order ord \<Longrightarrow> set (ord ks) = set ks"
  unfolding iteration_order_def by (metis set_mset_mset)

lemma iteration_order_distinct [simp]:
  "iteration_order ord \<Longrightarrow> distinct (ord ks) \<longleftrightarrow> distinct ks"
  unfolding iteration_order_def by (metis mset_eq_imp_distinct_iff)

lemma iteration_order_id [simp]: "iteration_order (\<lambda>ks. ks)" "iteration_order id"
  by (simp_all add: iteration_order_def)

lemma iteration_order_rev [simp]: "iteration_order rev"
  by (simp add: iteration_order_def)

lemma hm_wf_Nil [simp]: "hm_wf []"
  by (simp add: hm_wf_def)

lemma hm_wf_insert [simp]: "hm_wf m \<Longrightarrow> hm_wf (hm_insert k v m)"
  by (simp add: hm_wf_def hm_insert_def distinct_update)

lemma hm_wf_remove [simp]: "hm_wf m \<Longrightarrow> hm_wf (hm_remove k m)"
  by (simp add: hm_wf_def hm_remove_def distinct_delete)

lemma hm_get_Nil [hm_simps, simp]: "hm_get [] k = None"
  by (simp add: hm_get_def)

lemma hm_get_insert [hm_simps]: "hm_get (hm_insert k v m) = (hm_get m)(k \<mapsto> v)"
  by (rule ext) (simp add: hm_get_def hm_insert_def update_conv)

lemma hm_get_remove [hm_simps]: "hm_get (hm_remove k m) = (hm_get m)(k := None)"
  by (rule ext) (simp add: hm_get_def hm_remove_def delete_conv')

lemma hm_keys_set [simp]: "set (hm_keys m) = dom (hm_get m)"
  by (simp add: hm_keys_def hm_get_def[abs_def] dom_map_of_conv_image_fst)

lemma hm_keys_distinct [simp]: "hm_wf m \<Longrightarrow> distinct (hm_keys m)"
  by (simp add: hm_keys_def hm_wf_def)

lemma finite_dom_hm_get [simp]: "finite (dom (hm_get m))"
  by (simp flip: hm_keys_set)

lemma hm_get_fold_insert:
  "hm_get (fold (\<lambda>(k, v). hm_insert k v) xs acc) = hm_get acc ++ map_of (rev xs)"
  by (induction xs arbitrary: acc) (auto simp: hm_simps fun_eq_iff map_add_def split: option.splits)

lemma hm_get_fold_self: "hm_wf m \<Longrightarrow> hm_get (fold (\<lambda>(k, v). hm_insert k v) m []) = hm_get m"
proof -
  assume "hm_wf m"
  then have "map_of (rev m) = map_of m"
    by (simp add: hm_wf_def map_of_inject_set rev_map [symmetric])
  then show ?thesis by (simp add: hm_get_fold_insert fun_eq_iff hm_get_def map_add_def split: option.splits)
qed

section \<open>Strings and bytes\<close>

text \<open>
  A Rust \<open>String\<close> is a HOL \<^typ>\<open>string\<close> holding the bytes of its UTF-8 encoding, with the
  invariant \<open>utf8_string\<close>. \<open>utf8_valid\<close> is the well-formedness table of the Unicode
  standard (table 3-7), which \<open>str::from_utf8\<close> checks.
\<close>

definition byte_of_char :: "char \<Rightarrow> u8" where
  "byte_of_char c = word_of_nat (of_char c)"

definition char_of_byte :: "u8 \<Rightarrow> char" where
  "char_of_byte b = char_of (unat b)"

definition as_bytes :: "string \<Rightarrow> bytes" where
  "as_bytes s = map byte_of_char s"

definition utf8_cont :: "u8 \<Rightarrow> bool" where
  "utf8_cont b \<longleftrightarrow> 0x80 \<le> b \<and> b \<le> 0xBF"

fun utf8_valid :: "bytes \<Rightarrow> bool" where
  "utf8_valid [] = True"
| "utf8_valid (b # bs) =
     (if b \<le> 0x7F then utf8_valid bs
      else if 0xC2 \<le> b \<and> b \<le> 0xDF then
        (case bs of c # r \<Rightarrow> utf8_cont c \<and> utf8_valid r | _ \<Rightarrow> False)
      else if 0xE0 \<le> b \<and> b \<le> 0xEF then
        (case bs of c # d # r \<Rightarrow>
           utf8_cont c \<and> (b = 0xE0 \<longrightarrow> 0xA0 \<le> c) \<and> (b = 0xED \<longrightarrow> c \<le> 0x9F) \<and>
           utf8_cont d \<and> utf8_valid r
         | _ \<Rightarrow> False)
      else if 0xF0 \<le> b \<and> b \<le> 0xF4 then
        (case bs of c # d # e # r \<Rightarrow>
           utf8_cont c \<and> (b = 0xF0 \<longrightarrow> 0x90 \<le> c) \<and> (b = 0xF4 \<longrightarrow> c \<le> 0x8F) \<and>
           utf8_cont d \<and> utf8_cont e \<and> utf8_valid r
         | _ \<Rightarrow> False)
      else False)"

definition from_utf8 :: "bytes \<Rightarrow> string option" where
  "from_utf8 bs = (if utf8_valid bs then Some (map char_of_byte bs) else None)"

definition utf8_string :: "string \<Rightarrow> bool" where
  "utf8_string s \<longleftrightarrow> utf8_valid (as_bytes s)"

lemma char_of_byte_of_char [simp]: "char_of_byte (byte_of_char c) = c"
  by (simp add: byte_of_char_def char_of_byte_def unat_of_nat)

lemma byte_of_char_of_byte [simp]: "byte_of_char (char_of_byte b) = b"
proof -
  have "unat b < 256"
    using unsigned_less [of b, where ?'a = nat] by simp
  then show ?thesis
    by (simp add: byte_of_char_def char_of_byte_def)
qed

lemma char_map_byte_of_char [simp]: "map char_of_byte (as_bytes s) = s"
  by (simp add: as_bytes_def comp_def)

lemma as_bytes_inject [simp]: "as_bytes s = as_bytes t \<longleftrightarrow> s = t"
  by (metis char_map_byte_of_char)

lemma from_utf8_as_bytes [simp]: "utf8_string s \<Longrightarrow> from_utf8 (as_bytes s) = Some s"
  by (simp add: from_utf8_def utf8_string_def)

lemma from_utf8_Some: "from_utf8 bs = Some s \<longleftrightarrow> utf8_string s \<and> as_bytes s = bs"
  by (auto simp: from_utf8_def utf8_string_def as_bytes_def comp_def)

lemma as_bytes_Nil [simp]: "as_bytes s = [] \<longleftrightarrow> s = []"
  by (simp add: as_bytes_def)

section \<open>Decimal numbers\<close>

text \<open>
  \<open>u8::to_string\<close> and \<open>u32::to_string\<close> print without leading zeros. \<open>str::parse::<u8>\<close>
  accepts an optional plus sign followed by at least one decimal digit and fails as soon as
  the value leaves the type.
\<close>

definition dec_char :: "nat \<Rightarrow> char" where
  "dec_char d = char_of (48 + d)"

definition dec_value :: "char \<Rightarrow> nat option" where
  "dec_value c =
     (let n = of_char c in if 48 \<le> n \<and> n \<le> 57 then Some (n - 48) else None)"

fun dec_string :: "nat \<Rightarrow> string" where
  "dec_string n =
     (if n < 10 then [dec_char n] else dec_string (n div 10) @ [dec_char (n mod 10)])"

declare dec_string.simps [simp del]

fun dec_parse :: "nat \<Rightarrow> nat \<Rightarrow> string \<Rightarrow> nat option" where
  "dec_parse limit acc [] = Some acc"
| "dec_parse limit acc (c # cs) =
     (case dec_value c of
        None \<Rightarrow> None
      | Some d \<Rightarrow> if limit < acc * 10 + d then None else dec_parse limit (acc * 10 + d) cs)"

definition parse_u8 :: "string \<Rightarrow> u8 option" where
  "parse_u8 s =
     (let digits = (case s of c # cs \<Rightarrow> if c = CHR ''+'' then cs else s | [] \<Rightarrow> s)
      in if digits = [] then None else map_option word_of_nat (dec_parse 255 0 digits))"

lemma dec_value_dec_char [simp]: "d < 10 \<Longrightarrow> dec_value (dec_char d) = Some d"
  by (simp add: dec_value_def dec_char_def)

lemma dec_char_not_plus [simp]: "d < 10 \<Longrightarrow> dec_char d \<noteq> CHR ''+''"
proof
  assume "d < 10" and "dec_char d = CHR ''+''"
  then have "dec_value CHR ''+'' = Some d"
    using dec_value_dec_char by metis
  then show False by (simp add: dec_value_def)
qed

lemma dec_string_set: "c \<in> set (dec_string n) \<Longrightarrow> \<exists>d<10. c = dec_char d"
proof (induction n rule: dec_string.induct)
  case (1 n)
  show ?case
  proof (cases "n < 10")
    case True
    with "1.prems" show ?thesis by (auto simp: dec_string.simps [of n])
  next
    case False
    with "1.prems" have "c \<in> set (dec_string (n div 10)) \<or> c = dec_char (n mod 10)"
      by (auto simp: dec_string.simps [of n])
    with "1.IH" [OF False] show ?thesis by (metis mod_less_divisor zero_less_numeral)
  qed
qed

lemma dec_string_nonempty [simp]: "dec_string n \<noteq> []"
  by (subst dec_string.simps) simp

lemma dec_parse_append:
  "dec_parse l a (xs @ ys) = Option.bind (dec_parse l a xs) (\<lambda>b. dec_parse l b ys)"
  by (induction l a xs rule: dec_parse.induct) (auto split: option.splits)

lemma dec_parse_dec_string: "n \<le> l \<Longrightarrow> dec_parse l 0 (dec_string n) = Some n"
proof (induction n rule: dec_string.induct)
  case (1 n)
  show ?case
  proof (cases "n < 10")
    case True
    with "1.prems" show ?thesis by (simp add: dec_string.simps [of n])
  next
    case False
    with "1" have "dec_parse l 0 (dec_string (n div 10)) = Some (n div 10)" by simp
    with False "1.prems" show ?thesis
      by (simp add: dec_string.simps [of n] dec_parse_append)
  qed
qed

lemma dec_string_inject [simp]: "dec_string m = dec_string n \<longleftrightarrow> m = n"
  by (metis dec_parse_dec_string max.cobounded1 max.cobounded2 option.inject)

lemma parse_u8_dec_string [simp]: "parse_u8 (dec_string (unat b)) = Some b"
proof -
  have le: "unat b \<le> 255"
    using unsigned_less [of b, where ?'a = nat] by simp
  obtain c cs where s: "dec_string (unat b) = c # cs"
    by (meson dec_string_nonempty neq_Nil_conv)
  then have "c \<noteq> CHR ''+''"
    using dec_string_set [of c "unat b"] by auto
  with s show ?thesis
    using dec_parse_dec_string [OF le] by (simp add: parse_u8_def)
qed

lemma as_bytes_dec_char: "d < 10 \<Longrightarrow> byte_of_char (dec_char d) \<le> 0x7F"
  by (simp add: byte_of_char_def dec_char_def word_le_nat_alt unat_of_nat del: of_nat_add)

lemma utf8_valid_ascii: "(\<And>b. b \<in> set bs \<Longrightarrow> b \<le> 0x7F) \<Longrightarrow> utf8_valid bs"
  by (induction bs) auto

lemma utf8_dec_string [simp]: "utf8_string (dec_string n)"
  unfolding utf8_string_def
  by (rule utf8_valid_ascii) (auto simp: as_bytes_def dest!: dec_string_set intro: as_bytes_dec_char)

section \<open>Integers as bytes, and vectors\<close>

text \<open>\<open>u32::from_le_bytes\<close> and \<open>u32::to_le_bytes\<close> on four bytes.\<close>

definition u32_from_le_bytes :: "u8 \<Rightarrow> u8 \<Rightarrow> u8 \<Rightarrow> u8 \<Rightarrow> u32" where
  "u32_from_le_bytes a b c d =
     word_of_nat (unat a + 256 * (unat b + 256 * (unat c + 256 * unat d)))"

definition u32_to_le_bytes :: "u32 \<Rightarrow> bytes" where
  "u32_to_le_bytes w =
     (let n = unat w in
      map word_of_nat [n, n div 256, n div 256 div 256, n div 256 div 256 div 256])"

text \<open>\<open>Vec::resize\<close>, with the fill value of the call.\<close>

definition vec_resize :: "nat \<Rightarrow> 'a \<Rightarrow> 'a list \<Rightarrow> 'a list" where
  "vec_resize n x xs = take n xs @ replicate (n - length xs) x"

lemma length_vec_resize [simp]: "length (vec_resize n x xs) = n"
  by (simp add: vec_resize_def)

lemma vec_resize_shrink: "n \<le> length xs \<Longrightarrow> vec_resize n x xs = take n xs"
  by (simp add: vec_resize_def)

lemma u8_bound: "unat (b :: u8) < 256"
  using unsigned_less [of b, where ?'a = nat] by simp

lemma unat_word_of_nat_u8: "unat (word_of_nat n :: u8) = n mod 256"
  by (simp add: unat_of_nat)

lemma le_bytes_recompose:
  assumes "(n::nat) < 4294967296"
  shows "n mod 256 + 256 * (n div 256 mod 256 + 256 * (n div 256 div 256 mod 256 +
    256 * (n div 256 div 256 div 256 mod 256))) = n"
proof -
  have "n div 256 div 256 div 256 < 256" using assms by linarith
  then have "n div 256 div 256 div 256 mod 256 = n div 256 div 256 div 256" by simp
  moreover have "k mod 256 + 256 * (k div 256) = k" for k :: nat by (rule mod_mult_div_eq)
  ultimately show ?thesis by (simp only:)
qed

lemma word_nat_inverse: "word_of_nat (unat w) = (w :: 'a::len word)"
  by simp

lemma u32_from_to_le_bytes:
  assumes "u32_to_le_bytes w = [a, b, c, d]"
  shows "u32_from_le_bytes a b c d = w"
proof -
  have "unat w < 4294967296"
    using unsigned_less [of w, where ?'a = nat] by simp
  note le_bytes_recompose [OF this]
  moreover from assms have "a = word_of_nat (unat w)" "b = word_of_nat (unat w div 256)"
    "c = word_of_nat (unat w div 256 div 256)" "d = word_of_nat (unat w div 256 div 256 div 256)"
    by (auto simp only: u32_to_le_bytes_def Let_def list.map list.inject)
  ultimately show ?thesis
    by (simp only: u32_from_le_bytes_def unat_word_of_nat_u8 word_nat_inverse)
qed

lemma low_byte: "(x::nat) < 256 \<Longrightarrow> (x + 256 * y) mod 256 = x"
  and high_bytes: "x < 256 \<Longrightarrow> (x + 256 * y) div 256 = y"
  by simp_all

lemma u32_to_from_le_bytes: "u32_to_le_bytes (u32_from_le_bytes a b c d) = [a, b, c, d]"
proof -
  have bnd: "unat a < 256" "unat b < 256" "unat c < 256" "unat d < 256"
    by (rule u8_bound)+
  let ?n = "unat a + 256 * (unat b + 256 * (unat c + 256 * unat d))"
  have "?n < 2 ^ LENGTH(32)" using bnd by simp
  then have n: "unat (word_of_nat ?n :: u32) = ?n" by (simp only: unat_of_nat mod_less)
  show ?thesis
    unfolding u32_to_le_bytes_def u32_from_le_bytes_def n Let_def
    by (simp only: list.map word_unat_eq_iff list.inject unat_word_of_nat_u8
        low_byte [OF bnd(1)] high_bytes [OF bnd(1)] low_byte [OF bnd(2)] high_bytes [OF bnd(2)]
        low_byte [OF bnd(3)] high_bytes [OF bnd(3)] mod_less [OF bnd(4)])
qed

lemma u32_to_le_bytes_inject [simp]: "u32_to_le_bytes v = u32_to_le_bytes w \<longleftrightarrow> v = w"
proof
  assume eq: "u32_to_le_bytes v = u32_to_le_bytes w"
  obtain a b c d where v: "u32_to_le_bytes v = [a, b, c, d]" by (simp add: u32_to_le_bytes_def Let_def)
  with eq have "u32_to_le_bytes w = [a, b, c, d]" by simp
  with u32_from_to_le_bytes [OF v] u32_from_to_le_bytes show "v = w" by metis
qed simp

text \<open>\<open>u32::to_be_bytes\<close>.\<close>

definition u32_to_be_bytes :: "u32 \<Rightarrow> bytes" where
  "u32_to_be_bytes w = rev (u32_to_le_bytes w)"

lemma u32_to_be_bytes_inject [simp]: "u32_to_be_bytes v = u32_to_be_bytes w \<longleftrightarrow> v = w"
  by (simp add: u32_to_be_bytes_def)

end
