(* ===== verification/Parsec_Interface.thy ===== *)
theory Parsec_Interface
  imports Parsec_Prelude
begin

text \<open>
  The data that the service exchanges with the \<open>parsec_interface\<close> and \<open>psa_crypto\<close> crates.
  Those crates are not part of the repository: this theory only names the types, variants and
  fields the sources mention. An enumeration has the variants the sources name and one
  constructor for the rest; a structure has the fields the sources read or write. A structure
  with a single field is represented by that field. Every function of the two crates is an
  argument of the definitions that call it.
\<close>

section \<open>Wire protocol\<close>

datatype response_status =
    Success | WrongProviderId | ContentTypeNotSupported | AcceptTypeNotSupported
  | ProviderNotRegistered | AuthenticatorNotRegistered | KeyInfoManagerError | InvalidEncoding
  | AuthenticationError | NotAuthenticated | AdminOperation | ResponseTooLarge
  | PsaErrorGenericError | PsaErrorNotPermitted | PsaErrorNotSupported
  | PsaErrorInvalidArgument | PsaErrorAlreadyExists | PsaErrorDoesNotExist
  | PsaErrorInsufficientMemory | PsaErrorInsufficientStorage | PsaErrorCommunicationFailure
  | PsaErrorStorageFailure | PsaErrorHardwareFailure | PsaErrorInsufficientEntropy
  | PsaErrorInvalidSignature | PsaErrorCorruptionDetected | OtherResponseStatus u16

text \<open>\<open>parsec_interface::requests::Result\<close>.\<close>

type_synonym 'a res = "response_status + 'a"
type_synonym ('w, 'a) res_op = "('w, response_status, 'a) rust_op"

datatype opcode =
    Ping | PsaGenerateKey | PsaDestroyKey | PsaSignHash | PsaVerifyHash | PsaImportKey
  | PsaExportPublicKey | PsaExportKey | ListProviders | ListOpcodes | ListAuthenticators
  | ListKeys | ListClients | DeleteClient | PsaAsymmetricEncrypt | PsaAsymmetricDecrypt
  | PsaAeadEncrypt | PsaAeadDecrypt | PsaHashCompute | PsaHashCompare | PsaRawKeyAgreement
  | PsaGenerateRandom | PsaSignMessage | PsaVerifyMessage | OtherOpcode u32

datatype provider_id =
  Core | MbedCrypto | Pkcs11 | Tpm | TrustedService | CryptoAuthLib | OtherProvider u8

datatype auth_type = NoAuth | Direct | JwtSvid | UnixPeerCredentials | OtherAuthType u8

datatype body_type = Protobuf | OtherBodyType u8

text \<open>The header fields that the sources never look at are kept as one opaque value.\<close>

record request_header =
  rh_provider :: provider_id
  rh_content_type :: body_type
  rh_accept_type :: body_type
  rh_auth_type :: auth_type
  rh_opcode :: opcode
  rh_other :: bytes

record request =
  req_header :: request_header
  req_body :: bytes
  req_auth :: bytes

record response =
  resp_status :: response_status
  resp_body :: bytes
  resp_other :: bytes

section \<open>Keys and algorithms\<close>

datatype ecc_family = SecpR1 | Montgomery | SecpK1 | BrainpoolPR1 | OtherEccFamily nat

datatype key_type =
    RawData | Hmac_key | Derive | Aes | RsaKeyPair | RsaPublicKey
  | EccKeyPair ecc_family | EccPublicKey ecc_family | DhKeyPair nat | DhPublicKey nat
  | OtherKeyType nat

datatype hash_alg =
  Sha1 | Sha224 | Sha256 | Sha384 | Sha512 | Sha3_256 | Sha3_384 | Sha3_512 | OtherHash nat

datatype sign_hash_alg = AnySignHash | Specific hash_alg

datatype full_length_mac = Hmac hash_alg | CbcMac | Cmac

datatype mac_alg = FullLength full_length_mac | Truncated full_length_mac usize

datatype cipher_alg = Ctr | Cfb | Ofb | CbcPkcs7 | OtherCipher nat

datatype aead_default_tag = Ccm | Gcm | OtherAead nat

datatype aead_alg =
  AeadWithDefaultLengthTag aead_default_tag | AeadWithShortenedTag aead_default_tag usize

datatype asymmetric_signature =
    RsaPkcs1v15Sign sign_hash_alg | Ecdsa sign_hash_alg | DeterministicEcdsa sign_hash_alg
  | OtherAsymmetricSignature nat

datatype asymmetric_encryption = RsaPkcs1v15Crypt | RsaOaep hash_alg

datatype raw_key_agreement = Ecdh | OtherRawKeyAgreement nat

datatype key_agreement = RawAgreement raw_key_agreement | WithKeyDerivation raw_key_agreement nat

datatype algorithm =
    NoAlgorithm | Alg_Hash hash_alg | Alg_Mac mac_alg | Alg_Cipher cipher_alg | Alg_Aead aead_alg
  | Alg_AsymmetricSignature asymmetric_signature
  | Alg_AsymmetricEncryption asymmetric_encryption
  | Alg_KeyAgreement key_agreement | OtherAlgorithm nat

record usage_flags =
  uf_export :: bool
  uf_copy :: bool
  uf_cache :: bool
  uf_encrypt :: bool
  uf_decrypt :: bool
  uf_sign_message :: bool
  uf_verify_message :: bool
  uf_sign_hash :: bool
  uf_verify_hash :: bool
  uf_derive :: bool

datatype lifetime = Volatile | Persistent | OtherLifetime u32

record attributes =
  attr_lifetime :: lifetime
  attr_key_type :: key_type
  attr_bits :: usize
  usage_flags :: usage_flags
  permitted_algorithms :: algorithm

section \<open>Operations and results\<close>

record provider_info =
  pi_uuid :: bytes
  pi_description :: string
  pi_vendor :: string
  pi_version_maj :: u32
  pi_version_min :: u32
  pi_version_rev :: u32
  pi_id :: provider_id

record authenticator_info =
  ai_description :: string
  ai_version_maj :: u32
  ai_version_min :: u32
  ai_version_rev :: u32
  ai_id :: auth_type

text \<open>\<open>list_keys::KeyInfo\<close>, what a client is told about a key.\<close>

record listed_key =
  lk_provider_id :: provider_id
  lk_name :: string
  lk_attributes :: attributes

record ping_result =
  ping_maj :: u8
  ping_min :: u8

record generate_key_op =
  gk_key_name :: string
  gk_attributes :: attributes

record import_key_op =
  ik_key_name :: string
  ik_attributes :: attributes
  ik_data :: bytes

record sign_hash_op =
  sh_key_name :: string
  sh_alg :: asymmetric_signature
  sh_hash :: bytes

record verify_hash_op =
  vh_key_name :: string
  vh_alg :: asymmetric_signature
  vh_hash :: bytes
  vh_signature :: bytes

record sign_message_op =
  sm_key_name :: string
  sm_alg :: asymmetric_signature
  sm_message :: bytes

record verify_message_op =
  vm_key_name :: string
  vm_alg :: asymmetric_signature
  vm_message :: bytes
  vm_signature :: bytes

record asymmetric_encrypt_op =
  ae_key_name :: string
  ae_alg :: asymmetric_encryption
  ae_plaintext :: bytes
  ae_salt :: "bytes option"

record asymmetric_decrypt_op =
  ad_key_name :: string
  ad_alg :: asymmetric_encryption
  ad_ciphertext :: bytes
  ad_salt :: "bytes option"

record aead_encrypt_op =
  aeo_key_name :: string
  aeo_alg :: aead_alg
  aeo_nonce :: bytes
  aeo_additional_data :: bytes
  aeo_plaintext :: bytes

record aead_decrypt_op =
  ado_key_name :: string
  ado_alg :: aead_alg
  ado_nonce :: bytes
  ado_additional_data :: bytes
  ado_ciphertext :: bytes

record hash_compute_op =
  hc_alg :: hash_alg
  hc_input :: bytes

record hash_compare_op =
  hx_alg :: hash_alg
  hx_input :: bytes
  hx_hash :: bytes

record raw_key_agreement_op =
  ka_private_key_name :: string
  ka_alg :: raw_key_agreement
  ka_peer_key :: bytes

datatype native_operation =
    OpListProviders | OpListOpcodes provider_id | OpPing
  | OpPsaGenerateKey generate_key_op | OpPsaImportKey import_key_op
  | OpPsaExportPublicKey string | OpPsaExportKey string | OpPsaDestroyKey string
  | OpPsaSignHash sign_hash_op | OpPsaVerifyHash verify_hash_op
  | OpPsaAsymmetricEncrypt asymmetric_encrypt_op | OpPsaAsymmetricDecrypt asymmetric_decrypt_op
  | OpPsaAeadEncrypt aead_encrypt_op | OpPsaAeadDecrypt aead_decrypt_op
  | OpListAuthenticators | OpListKeys | OpListClients | OpDeleteClient string
  | OpPsaHashCompute hash_compute_op | OpPsaHashCompare hash_compare_op
  | OpPsaRawKeyAgreement raw_key_agreement_op | OpPsaGenerateRandom usize
  | OpPsaSignMessage sign_message_op | OpPsaVerifyMessage verify_message_op

datatype native_result =
    ResListProviders "provider_info list" | ResListOpcodes "opcode fset"
  | ResPing ping_result | ResPsaGenerateKey | ResPsaImportKey | ResPsaExportPublicKey bytes
  | ResPsaExportKey bytes | ResPsaDestroyKey | ResPsaSignHash bytes | ResPsaVerifyHash
  | ResPsaAsymmetricEncrypt bytes | ResPsaAsymmetricDecrypt bytes | ResPsaAeadEncrypt bytes
  | ResPsaAeadDecrypt bytes | ResListAuthenticators "authenticator_info list"
  | ResListKeys "listed_key list" | ResListClients "string list" | ResDeleteClient
  | ResPsaHashCompute bytes | ResPsaHashCompare | ResPsaRawKeyAgreement bytes
  | ResPsaGenerateRandom bytes | ResPsaSignMessage bytes | ResPsaVerifyMessage

text \<open>
  The \<open>Convert\<close> trait: the marshalling functions of the interface crate that a back end handler
  holds.
\<close>

record convert =
  body_to_operation :: "bytes \<Rightarrow> opcode \<Rightarrow> native_operation res"
  result_to_body :: "native_result \<Rightarrow> bytes res"

text \<open>
  The functions of \<open>parsec_interface::requests\<close> that the front and back end call.
  \<open>from_request_header\<close> and \<open>from_status\<close> build a response with an empty body; their
  documentation promises the status that was passed in.
\<close>

record interface =
  is_core :: "opcode \<Rightarrow> bool"
  is_admin_opcode :: "opcode \<Rightarrow> bool"
  from_request_header :: "request_header \<Rightarrow> response_status \<Rightarrow> response"
  from_status :: "response_status \<Rightarrow> response"

definition keeps_status :: "interface \<Rightarrow> bool" where
  "keeps_status ifc \<longleftrightarrow>
     (\<forall>h s. resp_status (from_request_header ifc h s) = s) \<and>
     (\<forall>s. resp_status (from_status ifc s) = s)"

text \<open>The attributes of an RSA signing key, used in concrete evaluations.\<close>

definition sample_attributes :: attributes where
  "sample_attributes =
     \<lparr>attr_lifetime = Persistent, attr_key_type = RsaKeyPair, attr_bits = 2048,
      usage_flags = \<lparr>uf_export = False, uf_copy = False, uf_cache = False, uf_encrypt = False,
        uf_decrypt = False, uf_sign_message = True, uf_verify_message = True, uf_sign_hash = True,
        uf_verify_hash = True, uf_derive = False\<rparr>,
      permitted_algorithms = Alg_AsymmetricSignature (RsaPkcs1v15Sign (Specific Sha256))\<rparr>"

end
