(* ===== verification/Authenticators.thy ===== *)
theory Authenticators
  imports Parsec_Interface
begin

text \<open>
  The authenticators of \<open>src/src/authenticators\<close>: the application identity they produce, the
  administrator list, and the three implementations of the \<open>Authenticate\<close> trait (direct, Unix
  peer credentials, JWT-SVID). The trait is the record \<open>authenticate\<close>, and what the front end
  relies on is the locale \<open>admin_authority\<close>, interpreted for each implementation.
\<close>

section \<open>Connection metadata and application identity\<close>

text \<open>The single variant of \<open>ConnectionMetadata\<close>; the process id is an optional 32 bit integer.\<close>

datatype connection_metadata = UnixPeerCredentialsMeta u32 u32 "32 word option"

type_synonym application_name = string

record application =
  app_name :: application_name
  app_is_admin :: bool

definition from_name :: "string \<Rightarrow> application_name" where
  "from_name name = name"

definition application_new :: "string \<Rightarrow> bool \<Rightarrow> application" where
  "application_new name is_admin = \<lparr>app_name = from_name name, app_is_admin = is_admin\<rparr>"

text \<open>An \<open>Admin\<close> of the configuration is its name, an \<open>AdminList\<close> a vector of them.\<close>

type_synonym admin = string

definition admin_list_is_admin :: "admin list \<Rightarrow> string \<Rightarrow> bool" where
  "admin_list_is_admin admins name = list_ex (\<lambda>admin. admin = name) admins"

record authenticate =
  au_describe :: "authenticator_info res"
  au_authenticate :: "bytes \<Rightarrow> connection_metadata option \<Rightarrow> application res"

section \<open>Direct authenticator\<close>

record direct_authenticator = da_admins :: "admin list"

definition direct_new :: "admin list \<Rightarrow> direct_authenticator" where
  "direct_new admins = \<lparr>da_admins = admins\<rparr>"

definition direct_describe :: "direct_authenticator \<Rightarrow> authenticator_info res" where
  "direct_describe self =
     Inr \<lparr>ai_description = ''Directly parses the authentication field as a UTF-8 string and '' @
            ''uses that as the application identity. Should be used for testing only.'',
          ai_version_maj = 0, ai_version_min = 1, ai_version_rev = 0, ai_id = Direct\<rparr>"

definition direct_authenticate ::
  "direct_authenticator \<Rightarrow> bytes \<Rightarrow> connection_metadata option \<Rightarrow> application res" where
  "direct_authenticate self auth meta =
     (if auth = [] then Inl AuthenticationError
      else case from_utf8 auth of
        Some name \<Rightarrow>
          Inr (application_new name (admin_list_is_admin (da_admins self) name))
      | None \<Rightarrow> Inl AuthenticationError)"

definition direct_authenticator_impl :: "direct_authenticator \<Rightarrow> authenticate" where
  "direct_authenticator_impl self =
     \<lparr>au_describe = direct_describe self, au_authenticate = direct_authenticate self\<rparr>"

section \<open>Unix peer credentials authenticator\<close>

record unix_peer_authenticator = up_admins :: "admin list"

definition unix_peer_new :: "admin list \<Rightarrow> unix_peer_authenticator" where
  "unix_peer_new admins = \<lparr>up_admins = admins\<rparr>"

definition unix_peer_describe :: "unix_peer_authenticator \<Rightarrow> authenticator_info res" where
  "unix_peer_describe self =
     Inr \<lparr>ai_description = ''Uses Unix peer credentials to authenticate the client. Verifies '' @
            ''that the self-declared Unix user identifier (UID) in the request's authentication '' @
            ''header matches that which is found from the peer credentials.'',
          ai_version_maj = 0, ai_version_min = 1, ai_version_rev = 0, ai_id = UnixPeerCredentials\<rparr>"

definition unix_peer_authenticate ::
  "unix_peer_authenticator \<Rightarrow> bytes \<Rightarrow> connection_metadata option \<Rightarrow> application res" where
  "unix_peer_authenticate self auth meta =
     (case auth of
        [b0, b1, b2, b3] \<Rightarrow>
          (let expected_uid = u32_from_le_bytes b0 b1 b2 b3 in
           try_res (ok_or meta AuthenticationError) (\<lambda>meta.
             case meta of UnixPeerCredentialsMeta uid gid pid \<Rightarrow>
               if uid = expected_uid then
                 (let name = dec_string (unat uid) in
                  Inr (application_new name (admin_list_is_admin (up_admins self) name)))
               else Inl AuthenticationError))
      | _ \<Rightarrow> Inl AuthenticationError)"

definition unix_peer_authenticator_impl :: "unix_peer_authenticator \<Rightarrow> authenticate" where
  "unix_peer_authenticator_impl self =
     \<lparr>au_describe = unix_peer_describe self, au_authenticate = unix_peer_authenticate self\<rparr>"

section \<open>JWT-SVID authenticator\<close>

text \<open>
  The SPIFFE Workload API client is an external library: the record holds the function
  \<open>validate_jwt_token\<close> of the client, from audience and token to the printed SPIFFE id, or
  \<open>None\<close> when the validation fails.
\<close>

record jwt_svid_authenticator =
  js_validate_jwt_token :: "string \<Rightarrow> string \<Rightarrow> string option"
  js_admins :: "admin list"

definition jwt_svid_new ::
  "(string \<Rightarrow> (string \<Rightarrow> string \<Rightarrow> string option) option) \<Rightarrow> string \<Rightarrow> admin list \<Rightarrow>
   jwt_svid_authenticator option" where
  "jwt_svid_new workload_api_client_new workload_endpoint admins =
     (case workload_api_client_new workload_endpoint of
        None \<Rightarrow> None
      | Some client \<Rightarrow> Some \<lparr>js_validate_jwt_token = client, js_admins = admins\<rparr>)"

definition jwt_svid_describe :: "jwt_svid_authenticator \<Rightarrow> authenticator_info res" where
  "jwt_svid_describe self =
     Inr \<lparr>ai_description = ''Authenticator validating a JWT SPIFFE Verifiable Identity Document'',
          ai_version_maj = 0, ai_version_min = 1, ai_version_rev = 0, ai_id = JwtSvid\<rparr>"

definition jwt_svid_authenticate ::
  "jwt_svid_authenticator \<Rightarrow> bytes \<Rightarrow> connection_metadata option \<Rightarrow> application res" where
  "jwt_svid_authenticate self auth meta =
     try_res (ok_or (from_utf8 auth) InvalidEncoding) (\<lambda>svid.
     try_res (ok_or (js_validate_jwt_token self ''parsec'' svid) AuthenticationError) (\<lambda>name.
     Inr (application_new name (admin_list_is_admin (js_admins self) name))))"

definition jwt_svid_authenticator_impl :: "jwt_svid_authenticator \<Rightarrow> authenticate" where
  "jwt_svid_authenticator_impl self =
     \<lparr>au_describe = jwt_svid_describe self, au_authenticate = jwt_svid_authenticate self\<rparr>"

section \<open>The contract of an authenticator\<close>

text \<open>
  What the front end relies on: the administrator flag of a successful authentication is the
  membership of the name in the configured list, and the description carries the type under
  which the authenticator is registered.
\<close>

locale admin_authority =
  fixes auth :: authenticate
    and admins :: "admin list"
    and atype :: auth_type
  assumes admin_flag: "au_authenticate auth b m = Inr app \<Longrightarrow> app_is_admin app \<longleftrightarrow> app_name app \<in> set admins"
    and describe_ok: "\<exists>info. au_describe auth = Inr info \<and> ai_id info = atype"
begin

lemma admin_is_listed:
  "au_authenticate auth b m = Inr app \<Longrightarrow> app_is_admin app \<Longrightarrow> app_name app \<in> set admins"
  using admin_flag by blast

lemma no_admins_no_admin:
  "admins = [] \<Longrightarrow> au_authenticate auth b m = Inr app \<Longrightarrow> \<not> app_is_admin app"
  using admin_flag by fastforce

end

lemma admin_list_is_admin_iff [simp]: "admin_list_is_admin admins name \<longleftrightarrow> name \<in> set admins"
  by (auto simp: admin_list_is_admin_def list_ex_iff)

lemma application_new_sel [simp]:
  "app_name (application_new n a) = n" "app_is_admin (application_new n a) = a"
  by (simp_all add: application_new_def from_name_def)

lemma direct_authenticate_Inr:
  "direct_authenticate self auth meta = Inr app \<longleftrightarrow>
     auth \<noteq> [] \<and> utf8_valid auth \<and>
     app = application_new (map char_of_byte auth)
       (map char_of_byte auth \<in> set (da_admins self))"
  by (auto simp: direct_authenticate_def from_utf8_def)

lemma unix_peer_authenticate_Inr:
  "unix_peer_authenticate self auth meta = Inr app \<longleftrightarrow>
     (\<exists>uid gid pid. meta = Some (UnixPeerCredentialsMeta uid gid pid) \<and> auth = u32_to_le_bytes uid \<and>
        app = application_new (dec_string (unat uid))
          (dec_string (unat uid) \<in> set (up_admins self)))" (is "?l = ?r")
proof
  assume ?l
  then show ?r
    by (auto simp: unix_peer_authenticate_def Let_def try_res_def ok_or_def u32_to_from_le_bytes
        split: list.splits option.splits connection_metadata.splits if_splits)
next
  assume ?r
  then obtain uid gid pid where m: "meta = Some (UnixPeerCredentialsMeta uid gid pid)"
    and a: "auth = u32_to_le_bytes uid"
    and app: "app = application_new (dec_string (unat uid))
      (dec_string (unat uid) \<in> set (up_admins self))" by blast
  obtain b0 b1 b2 b3 where bs: "u32_to_le_bytes uid = [b0, b1, b2, b3]"
    by (simp add: u32_to_le_bytes_def Let_def)
  with m a app u32_from_to_le_bytes [OF bs] show ?l
    by (simp add: unix_peer_authenticate_def Let_def)
qed

lemma unix_peer_authenticate_Inl:
  "unix_peer_authenticate self auth meta = Inl e \<Longrightarrow> e = AuthenticationError"
  by (auto simp: unix_peer_authenticate_def Let_def try_res_def ok_or_def
      split: list.splits option.splits connection_metadata.splits if_splits)

lemma jwt_svid_authenticate_Inr:
  "jwt_svid_authenticate self auth meta = Inr app \<longleftrightarrow>
     (\<exists>svid name. from_utf8 auth = Some svid \<and>
        js_validate_jwt_token self ''parsec'' svid = Some name \<and>
        app = application_new name (name \<in> set (js_admins self)))"
  by (auto simp: jwt_svid_authenticate_def try_res_def ok_or_def split: option.splits)

lemmas authenticate_Inr =
  direct_authenticate_Inr unix_peer_authenticate_Inr jwt_svid_authenticate_Inr

interpretation direct_auth: admin_authority
  "direct_authenticator_impl d" "da_admins d" Direct for d
  by unfold_locales
    (auto simp: direct_authenticator_impl_def direct_describe_def authenticate_Inr)

interpretation unix_auth: admin_authority
  "unix_peer_authenticator_impl u" "up_admins u" UnixPeerCredentials for u
  by unfold_locales
    (auto simp: unix_peer_authenticator_impl_def unix_peer_describe_def authenticate_Inr)

interpretation jwt_auth: admin_authority
  "jwt_svid_authenticator_impl j" "js_admins j" JwtSvid for j
  by unfold_locales
    (auto simp: jwt_svid_authenticator_impl_def jwt_svid_describe_def authenticate_Inr)

section \<open>Properties\<close>

text \<open>
  The Unix peer credentials authenticator accepts a request exactly when the
  connection carries peer credentials and the authentication field is the four byte
  little-endian encoding of the peer's user id. The application name is then the decimal user
  id, the administrator flag its membership in the configured list, and every other request is
  refused with \<open>AuthenticationError\<close>.
\<close>

lemma unix_peer_authenticate_exact:
  "unix_peer_authenticate self auth meta =
     (case meta of
        Some (UnixPeerCredentialsMeta uid gid pid) \<Rightarrow>
          if auth = u32_to_le_bytes uid
          then Inr (application_new (dec_string (unat uid))
                 (dec_string (unat uid) \<in> set (up_admins self)))
          else Inl AuthenticationError
      | None \<Rightarrow> Inl AuthenticationError)"
proof (cases "unix_peer_authenticate self auth meta")
  case (Inl e)
  then have "unix_peer_authenticate self auth meta \<noteq> Inr app" for app by simp
  then have "meta = Some (UnixPeerCredentialsMeta uid gid pid) \<Longrightarrow> auth \<noteq> u32_to_le_bytes uid"
    for uid gid pid unfolding unix_peer_authenticate_Inr by blast
  with unix_peer_authenticate_Inl [OF Inl] Inl show ?thesis
    by (auto split: option.splits connection_metadata.splits)
next
  case (Inr app)
  then show ?thesis by (auto simp: unix_peer_authenticate_Inr)
qed

text \<open>
  Two connections that the Unix peer credentials authenticator accepts get the same
  application name exactly when their peers have the same user id, so that one user can never
  act under the name of another.
\<close>

lemma unix_peer_names_injective:
  assumes "unix_peer_authenticate self auth1 (Some (UnixPeerCredentialsMeta uid1 gid1 pid1)) = Inr app1"
    and "unix_peer_authenticate self auth2 (Some (UnixPeerCredentialsMeta uid2 gid2 pid2)) = Inr app2"
  shows "app_name app1 = app_name app2 \<longleftrightarrow> uid1 = uid2"
  using assms by (auto simp: unix_peer_authenticate_Inr word_unat_eq_iff)

lemma unix_peer_names_injective_witness:
  "\<exists>app1 app2.
     unix_peer_authenticate (unix_peer_new [''1000'']) [0xE8, 3, 0, 0]
       (Some (UnixPeerCredentialsMeta 1000 100 None)) = Inr app1 \<and>
     unix_peer_authenticate (unix_peer_new [''1000'']) [0xE9, 3, 0, 0]
       (Some (UnixPeerCredentialsMeta 1001 100 None)) = Inr app2 \<and>
     app_name app1 \<noteq> app_name app2"
proof -
  let ?a = "unix_peer_new [''1000'']"
  obtain app1 where 1: "unix_peer_authenticate ?a [0xE8, 3, 0, 0]
      (Some (UnixPeerCredentialsMeta 1000 100 None)) = Inr app1"
    by (simp add: unix_peer_authenticate_def u32_from_le_bytes_def Let_def)
  obtain app2 where 2: "unix_peer_authenticate ?a [0xE9, 3, 0, 0]
      (Some (UnixPeerCredentialsMeta 1001 100 None)) = Inr app2"
    by (simp add: unix_peer_authenticate_def u32_from_le_bytes_def Let_def)
  show ?thesis
    using 1 2 unix_peer_names_injective [OF 1 2] by auto
qed

text \<open>
  The direct authenticator accepts exactly the non-empty UTF-8 buffers, and the name
  it grants encodes back to the buffer that was presented: distinct tokens never share a name.
\<close>

lemma direct_authenticate_exact:
  "if auth \<noteq> [] \<and> utf8_valid auth
   then \<exists>app. direct_authenticate self auth meta = Inr app \<and> as_bytes (app_name app) = auth \<and>
          utf8_string (app_name app) \<and> (app_is_admin app \<longleftrightarrow> app_name app \<in> set (da_admins self))
   else direct_authenticate self auth meta = Inl AuthenticationError"
  by (auto simp: direct_authenticate_def from_utf8_def utf8_string_def as_bytes_def comp_def)

end
