(* ===== verification/Key_Info_Managers.thy ===== *)
theory Key_Info_Managers
  imports Authenticators
begin

text \<open>
  \<open>src/src/key_info_managers/mod.rs\<close>: key triples, the \<open>ManageKeyInfo\<close> trait and the client
  through which every provider uses a key info manager.

  The trait is the record \<open>manage_key_info\<close> of functions over the state \<open>'m\<close> of the manager.
  What its documentation promises is the locale \<open>key_info_manager\<close>; \<open>key_info_manager_mem\<close>
  extends it for a manager whose read operations never fail. The client is verified once,
  inside the locales. The lock around the manager is a write lock for the two mutating methods:
  each call is one step on the state.
\<close>

section \<open>Key triples and key information\<close>

record key_triple =
  kt_app_name :: application_name
  kt_provider_id :: provider_id
  kt_key_name :: string

record key_info =
  ki_id :: bytes
  ki_attributes :: attributes

definition key_triple_new :: "application_name \<Rightarrow> provider_id \<Rightarrow> string \<Rightarrow> key_triple" where
  "key_triple_new app pid name =
     \<lparr>kt_app_name = app, kt_provider_id = pid, kt_key_name = name\<rparr>"

definition belongs_to_provider :: "key_triple \<Rightarrow> provider_id \<Rightarrow> bool" where
  "belongs_to_provider kt pid \<longleftrightarrow> kt_provider_id kt = pid"

definition to_response_status :: "string \<Rightarrow> response_status" where
  "to_response_status error_string = KeyInfoManagerError"

section \<open>The trait\<close>

record 'm manage_key_info =
  mki_get :: "'m \<Rightarrow> key_triple \<Rightarrow> string + key_info option"
  mki_get_all :: "'m \<Rightarrow> provider_id \<Rightarrow> string + key_triple list"
  mki_insert :: "key_triple \<Rightarrow> key_info \<Rightarrow> ('m, string, key_info option) rust_op"
  mki_remove :: "key_triple \<Rightarrow> ('m, string, key_info option) rust_op"
  mki_exists :: "'m \<Rightarrow> key_triple \<Rightarrow> string + bool"

section \<open>The client\<close>

record 'm kim_client =
  kc_provider_id :: provider_id
  kc_impl :: "'m manage_key_info"

text \<open>
  The bincode encoding of a provider's key identifiers, with the conversion of its errors to a
  response status. Both functions belong to external crates; \<open>id_codec_ok\<close> is the round trip
  they document.
\<close>

record 'k id_codec =
  id_serialize :: "'k \<Rightarrow> bytes res"
  id_deserialize :: "bytes \<Rightarrow> 'k res"

definition id_codec_ok :: "'k id_codec \<Rightarrow> bool" where
  "id_codec_ok c \<longleftrightarrow> (\<forall>k. \<exists>b. id_serialize c k = Inr b \<and> id_deserialize c b = Inr k)"

definition get_key_triple :: "'m kim_client \<Rightarrow> application_name \<Rightarrow> string \<Rightarrow> key_triple" where
  "get_key_triple self app name = key_triple_new app (kc_provider_id self) name"

definition get_key_id :: "'k id_codec \<Rightarrow> 'm kim_client \<Rightarrow> 'm \<Rightarrow> key_triple \<Rightarrow> 'k res" where
  "get_key_id codec self m kt =
     (case mki_get (kc_impl self) m kt of
        Inr (Some info) \<Rightarrow> id_deserialize codec (ki_id info)
      | Inr None \<Rightarrow> Inl PsaErrorDoesNotExist
      | Inl s \<Rightarrow> Inl (to_response_status s))"

definition get_key_attributes :: "'m kim_client \<Rightarrow> 'm \<Rightarrow> key_triple \<Rightarrow> attributes res" where
  "get_key_attributes self m kt =
     (case mki_get (kc_impl self) m kt of
        Inr (Some info) \<Rightarrow> Inr (ki_attributes info)
      | Inr None \<Rightarrow> Inl PsaErrorDoesNotExist
      | Inl s \<Rightarrow> Inl (to_response_status s))"

definition kim_get_all :: "'m kim_client \<Rightarrow> 'm \<Rightarrow> key_triple list res" where
  "kim_get_all self m = map_err to_response_status (mki_get_all (kc_impl self) m (kc_provider_id self))"

definition remove_key_info :: "'m kim_client \<Rightarrow> key_triple \<Rightarrow> ('m, unit) res_op" where
  "remove_key_info self kt m =
     (case mki_remove (kc_impl self) kt m of
        (Inr (Some info), m') \<Rightarrow> (Inr (), m')
      | (Inr None, m') \<Rightarrow> (Inl PsaErrorDoesNotExist, m')
      | (Inl s, m') \<Rightarrow> (Inl (to_response_status s), m'))"

definition insert_key_info ::
  "'k id_codec \<Rightarrow> 'm kim_client \<Rightarrow> key_triple \<Rightarrow> 'k \<Rightarrow> attributes \<Rightarrow> ('m, unit) res_op" where
  "insert_key_info codec self kt key_id attrs m =
     (case id_serialize codec key_id of
        Inl e \<Rightarrow> (Inl e, m)
      | Inr b \<Rightarrow>
          (case mki_insert (kc_impl self) kt \<lparr>ki_id = b, ki_attributes = attrs\<rparr> m of
             (Inr None, m') \<Rightarrow> (Inr (), m')
           | (Inr (Some old), m') \<Rightarrow> (Inl PsaErrorAlreadyExists, m')
           | (Inl s, m') \<Rightarrow> (Inl (to_response_status s), m')))"

fun collect_clients :: "key_triple list \<Rightarrow> application_name list \<Rightarrow> application_name list" where
  "collect_clients [] clients = clients"
| "collect_clients (kt # kts) clients =
     collect_clients kts
       (if kt_app_name kt \<in> set clients then clients else clients @ [kt_app_name kt])"

definition kim_list_clients :: "'m kim_client \<Rightarrow> 'm \<Rightarrow> application_name list res" where
  "kim_list_clients self m =
     try_res (kim_get_all self m) (\<lambda>kts. Inr (collect_clients kts []))"

fun collect_keys ::
  "'m manage_key_info \<Rightarrow> 'm \<Rightarrow> application_name \<Rightarrow> key_triple list \<Rightarrow> listed_key list \<Rightarrow>
   listed_key list res" where
  "collect_keys ops m app [] keys = Inr keys"
| "collect_keys ops m app (kt # kts) keys =
     (if kt_app_name kt \<noteq> app then collect_keys ops m app kts keys
      else case mki_get ops m kt of
        Inl s \<Rightarrow> Inl (to_response_status s)
      | Inr None \<Rightarrow> collect_keys ops m app kts keys
      | Inr (Some info) \<Rightarrow>
          collect_keys ops m app kts
            (keys @ [\<lparr>lk_provider_id = kt_provider_id kt, lk_name = kt_key_name kt,
                      lk_attributes = ki_attributes info\<rparr>]))"

definition kim_list_keys :: "'m kim_client \<Rightarrow> 'm \<Rightarrow> application_name \<Rightarrow> listed_key list res" where
  "kim_list_keys self m app =
     try_res (kim_get_all self m) (\<lambda>kts. collect_keys (kc_impl self) m app kts [])"

definition does_not_exist :: "'m kim_client \<Rightarrow> 'm \<Rightarrow> key_triple \<Rightarrow> unit res" where
  "does_not_exist self m kt =
     try_res (map_err to_response_status (mki_exists (kc_impl self) m kt)) (\<lambda>b.
       if b then Inl PsaErrorAlreadyExists else Inr ())"

text \<open>The factory hands the shared manager to a client for one provider.\<close>

record 'm kim_factory = kf_impl :: "'m manage_key_info"

definition build_client :: "'m kim_factory \<Rightarrow> provider_id \<Rightarrow> 'm kim_client" where
  "build_client self provider = \<lparr>kc_provider_id = provider, kc_impl = kf_impl self\<rparr>"

section \<open>The contract of a key info manager\<close>

locale key_info_manager =
  fixes ops :: "'m manage_key_info"
    and inv :: "'m \<Rightarrow> bool"
    and abs :: "'m \<Rightarrow> key_triple \<Rightarrow> key_info option"
  assumes get_ok: "inv m \<Longrightarrow> mki_get ops m kt = Inr r \<Longrightarrow> r = abs m kt"
    and get_all_ok: "inv m \<Longrightarrow> mki_get_all ops m pid = Inr kts \<Longrightarrow>
      distinct kts \<and> set kts = {kt \<in> dom (abs m). kt_provider_id kt = pid}"
    and exists_ok: "inv m \<Longrightarrow> mki_exists ops m kt = Inr b \<Longrightarrow> b \<longleftrightarrow> kt \<in> dom (abs m)"
    and insert_ok: "inv m \<Longrightarrow> mki_insert ops kt info m = (Inr r, m') \<Longrightarrow>
      inv m' \<and> r = abs m kt \<and> abs m' = (abs m)(kt \<mapsto> info)"
    and insert_err: "inv m \<Longrightarrow> mki_insert ops kt info m = (Inl s, m') \<Longrightarrow> inv m' \<and> abs m' = abs m"
    and remove_ok: "inv m \<Longrightarrow> mki_remove ops kt m = (Inr r, m') \<Longrightarrow>
      inv m' \<and> r = abs m kt \<and> abs m' = (abs m)(kt := None)"
    and remove_err: "inv m \<Longrightarrow> mki_remove ops kt m = (Inl s, m') \<Longrightarrow> inv m' \<and> abs m' = abs m"

locale key_info_manager_mem = key_info_manager +
  assumes get_total: "inv m \<Longrightarrow> mki_get ops m kt = Inr (abs m kt)"
    and get_all_total: "inv m \<Longrightarrow> \<exists>kts. mki_get_all ops m pid = Inr kts"
    and exists_total: "inv m \<Longrightarrow> mki_exists ops m kt = Inr (kt \<in> dom (abs m))"

lemma set_collect_clients:
  "set (collect_clients kts cs) = set cs \<union> kt_app_name ` set kts"
  by (induction kts cs rule: collect_clients.induct) auto

lemma distinct_collect_clients: "distinct cs \<Longrightarrow> distinct (collect_clients kts cs)"
  by (induction kts cs rule: collect_clients.induct) auto

text \<open>The entry of the answer to \<open>ListKeys\<close> for one mapping.\<close>

definition listed :: "key_triple \<Rightarrow> key_info \<Rightarrow> listed_key" where
  "listed kt info = \<lparr>lk_provider_id = kt_provider_id kt, lk_name = kt_key_name kt,
                     lk_attributes = ki_attributes info\<rparr>"

lemma key_triple_new_sel [simp]:
  "kt_app_name (key_triple_new a p n) = a" "kt_provider_id (key_triple_new a p n) = p"
  "kt_key_name (key_triple_new a p n) = n"
  by (simp_all add: key_triple_new_def)

lemma key_triple_new_inject [simp]:
  "key_triple_new a p n = key_triple_new a' p' n' \<longleftrightarrow> a = a' \<and> p = p' \<and> n = n'"
  by (auto simp: key_triple_new_def)

lemma key_triple_new_collapse [simp]:
  "key_triple_new (kt_app_name kt) (kt_provider_id kt) (kt_key_name kt) = kt"
  by (simp add: key_triple_new_def)

section \<open>The client, for any manager\<close>

text \<open>Every update of a manager's map is one of these two, or none.\<close>

lemma id_codec_okD:
  assumes "id_codec_ok c"
  obtains b where "id_serialize c k = Inr b" "id_deserialize c b = Inr k"
  using assms unfolding id_codec_ok_def by blast

context key_info_manager
begin

lemma insert_inv: "inv m \<Longrightarrow> mki_insert ops kt info m = (x, m') \<Longrightarrow> inv m'"
  by (cases x) (auto dest: insert_ok insert_err)

lemma remove_inv: "inv m \<Longrightarrow> mki_remove ops kt m = (x, m') \<Longrightarrow> inv m'"
  by (cases x) (auto dest: remove_ok remove_err)

lemma get_key_id_Inr:
  assumes "inv m" and "kc_impl self = ops" and "get_key_id codec self m kt = Inr k"
  shows "\<exists>info. abs m kt = Some info \<and> id_deserialize codec (ki_id info) = Inr k"
  using assms get_ok [of m kt]
  by (auto simp: get_key_id_def split: sum.splits option.splits)

lemma get_key_attributes_Inr:
  assumes "inv m" and "kc_impl self = ops" and "get_key_attributes self m kt = Inr a"
  shows "\<exists>info. abs m kt = Some info \<and> a = ki_attributes info"
  using assms get_ok [of m kt]
  by (auto simp: get_key_attributes_def split: sum.splits option.splits)

lemma insert_key_info_inv:
  assumes "inv m" and "kc_impl self = ops" and "insert_key_info codec self kt k attrs m = (r, m')"
  shows "inv m'"
proof -
  from assms(2,3) consider "m' = m" | info x where "mki_insert ops kt info m = (x, m')"
    by (auto simp: insert_key_info_def split: sum.splits option.splits prod.splits)
  then show ?thesis
    by cases (use assms(1) insert_inv in auto)
qed

lemma insert_key_info_Inr:
  assumes "inv m" and "kc_impl self = ops"
    and "insert_key_info codec self kt k attrs m = (Inr (), m')"
  shows "\<exists>b. id_serialize codec k = Inr b \<and> abs m kt = None \<and>
    abs m' = (abs m)(kt \<mapsto> \<lparr>ki_id = b, ki_attributes = attrs\<rparr>)"
proof -
  obtain b where b: "id_serialize codec k = Inr b"
    and i: "mki_insert ops kt \<lparr>ki_id = b, ki_attributes = attrs\<rparr> m = (Inr None, m')"
    using assms(2,3) by (auto simp: insert_key_info_def split: sum.splits option.splits prod.splits)
  with insert_ok [OF assms(1) i] show ?thesis by auto
qed

text \<open>A failed insertion leaves the map alone, or has replaced an existing mapping.\<close>

lemma insert_key_info_Inl:
  assumes "inv m" and "kc_impl self = ops"
    and "insert_key_info codec self kt k attrs m = (Inl e, m')"
  shows "abs m' = abs m \<or>
    e = PsaErrorAlreadyExists \<and> kt \<in> dom (abs m) \<and>
    (\<exists>b. id_serialize codec k = Inr b \<and>
         abs m' = (abs m)(kt \<mapsto> \<lparr>ki_id = b, ki_attributes = attrs\<rparr>))"
proof (cases "id_serialize codec k")
  case (Inr b)
  let ?info = "\<lparr>ki_id = b, ki_attributes = attrs\<rparr>"
  from assms(2,3) Inr consider s where "mki_insert ops kt ?info m = (Inl s, m')"
    | old where "mki_insert ops kt ?info m = (Inr (Some old), m')" "e = PsaErrorAlreadyExists"
    by (auto simp: insert_key_info_def split: sum.splits option.splits prod.splits)
  then show ?thesis
  proof cases
    case 1
    from insert_err [OF assms(1) 1] show ?thesis by simp
  next
    case 2
    have "kt \<in> dom (abs m)" and "abs m' = (abs m)(kt \<mapsto> ?info)"
      using insert_ok [OF assms(1) 2(1)] by (auto simp: eq_commute)
    with 2(2) Inr show ?thesis by simp
  qed
qed (use assms in \<open>auto simp: insert_key_info_def\<close>)

lemma insert_key_info_fresh_Inl:
  assumes "inv m" and "kc_impl self = ops" and "kt \<notin> dom (abs m)"
    and "insert_key_info codec self kt k attrs m = (Inl e, m')"
  shows "abs m' = abs m"
  using insert_key_info_Inl [OF assms(1,2,4)] assms(3) by blast

lemma remove_key_info_inv:
  assumes "inv m" and "kc_impl self = ops" and "remove_key_info self kt m = (r, m')"
  shows "inv m'"
proof -
  from assms(2,3) obtain x where "mki_remove ops kt m = (x, m')"
    by (auto simp: remove_key_info_def split: sum.splits option.splits prod.splits)
  with assms(1) show ?thesis by (rule remove_inv)
qed

lemma remove_key_info_Inr:
  assumes "inv m" and "kc_impl self = ops" and "remove_key_info self kt m = (Inr (), m')"
  shows "kt \<in> dom (abs m) \<and> abs m' = (abs m)(kt := None)"
proof -
  from assms(2,3) obtain info where "mki_remove ops kt m = (Inr (Some info), m')"
    by (auto simp: remove_key_info_def split: sum.splits option.splits prod.splits)
  from remove_ok [OF assms(1) this] show ?thesis by (metis domI)
qed

lemma remove_key_info_Inl:
  assumes "inv m" and "kc_impl self = ops" and "remove_key_info self kt m = (Inl e, m')"
  shows "abs m' = abs m"
proof -
  from assms(2,3) consider s where "mki_remove ops kt m = (Inl s, m')"
    | "mki_remove ops kt m = (Inr None, m')"
    by (auto simp: remove_key_info_def split: sum.splits option.splits prod.splits)
  then show ?thesis
  proof cases
    case 1
    from remove_err [OF assms(1) 1] show ?thesis by simp
  next
    case 2
    from remove_ok [OF assms(1) 2] show ?thesis by auto
  qed
qed

lemma does_not_exist_Inr:
  assumes "inv m" and "kc_impl self = ops" and "does_not_exist self m kt = Inr ()"
  shows "kt \<notin> dom (abs m)"
  using assms exists_ok [of m kt]
  by (auto simp: does_not_exist_def try_res_def map_err_def split: sum.splits if_splits)

lemma kim_list_clients_Inr:
  assumes "inv m" and "kc_impl self = ops" and "kim_list_clients self m = Inr cs"
  shows "distinct cs \<and>
    set cs = kt_app_name ` {kt \<in> dom (abs m). kt_provider_id kt = kc_provider_id self}"
proof -
  obtain kts where "mki_get_all ops m (kc_provider_id self) = Inr kts"
    and "cs = collect_clients kts []"
    using assms(2,3)
    by (auto simp: kim_list_clients_def kim_get_all_def map_err_def try_res_def split: sum.splits)
  with get_all_ok [OF assms(1)] show ?thesis
    by (simp add: set_collect_clients distinct_collect_clients)
qed

text \<open>The entries of the keys among \<open>kts\<close> that belong to the application, in order.\<close>

lemma collect_keys_Inr:
  assumes "inv m" and "collect_keys ops m app kts keys = Inr r" and "set kts \<subseteq> dom (abs m)"
  shows "r = keys @ map (\<lambda>kt. listed kt (the (abs m kt))) (filter (\<lambda>kt. kt_app_name kt = app) kts)"
  using assms(2,3)
proof (induction kts arbitrary: keys)
  case (Cons kt kts)
  show ?case
  proof (cases "kt_app_name kt = app")
    case True
    obtain info where i: "abs m kt = Some info" using Cons.prems(2) by auto
    from Cons.prems(1) True obtain r' where g: "mki_get ops m kt = Inr r'"
      by (auto split: sum.splits)
    with get_ok [OF assms(1)] i have "mki_get ops m kt = Inr (Some info)" by metis
    with Cons.prems(1) True
    have "collect_keys ops m app kts (keys @ [listed kt info]) = Inr r" by (simp add: listed_def)
    from Cons.IH [OF this] Cons.prems(2) True i show ?thesis by simp
  qed (use Cons in auto)
qed simp

lemma kim_list_keys_Inr:
  assumes "inv m" and "kc_impl self = ops" and "kim_list_keys self m app = Inr keys"
  shows "distinct (map lk_name keys) \<and>
    set keys = {listed kt info | kt info. abs m kt = Some info \<and>
                  kt_provider_id kt = kc_provider_id self \<and> kt_app_name kt = app}"
proof -
  obtain kts where a: "mki_get_all ops m (kc_provider_id self) = Inr kts"
    and c: "collect_keys ops m app kts [] = Inr keys"
    using assms(2,3)
    by (auto simp: kim_list_keys_def kim_get_all_def map_err_def try_res_def split: sum.splits)
  note ok = get_all_ok [OF assms(1) a]
  then have keys: "keys = map (\<lambda>kt. listed kt (the (abs m kt))) (filter (\<lambda>kt. kt_app_name kt = app) kts)"
    using collect_keys_Inr [OF assms(1) c] by auto
  have "inj_on kt_key_name {kt \<in> set kts. kt_app_name kt = app}"
    using ok by (auto intro!: inj_onI key_triple.equality)
  with ok have "distinct (map lk_name keys)"
    by (simp add: keys distinct_map comp_def listed_def)
  moreover have "set keys = {listed kt info | kt info. abs m kt = Some info \<and>
                  kt_provider_id kt = kc_provider_id self \<and> kt_app_name kt = app}"
    (is "_ = ?R")
  proof
    show "set keys \<subseteq> ?R"
    proof
      fix x assume "x \<in> set keys"
      then obtain kt where x: "x = listed kt (the (abs m kt))" and "kt \<in> set kts" "kt_app_name kt = app"
        by (auto simp: keys)
      with ok have "abs m kt = Some (the (abs m kt)) \<and> kt_provider_id kt = kc_provider_id self"
        by (simp add: domIff)
      with x \<open>kt_app_name kt = app\<close> show "x \<in> ?R" by blast
    qed
    show "?R \<subseteq> set keys"
    proof
      fix x assume "x \<in> ?R"
      then obtain kt info where x: "x = listed kt info" and kt: "abs m kt = Some info"
        "kt_provider_id kt = kc_provider_id self" "kt_app_name kt = app" by blast
      then have "kt \<in> set kts" using ok by blast
      with x kt show "x \<in> set keys" by (force simp: keys)
    qed
  qed
  ultimately show ?thesis by simp
qed

end

text \<open>With a manager whose reads never fail, the read operations of the client are total.\<close>

context key_info_manager_mem
begin

lemma kim_get_all_total:
  assumes "inv m" and "kc_impl self = ops"
  shows "\<exists>kts. kim_get_all self m = Inr kts \<and> distinct kts \<and>
    set kts = {kt \<in> dom (abs m). kt_provider_id kt = kc_provider_id self}"
  using get_all_total [OF assms(1), of "kc_provider_id self"] get_all_ok [OF assms(1)] assms(2)
  by (auto simp: kim_get_all_def map_err_def)

lemma collect_keys_total: "inv m \<Longrightarrow> \<exists>r. collect_keys ops m app kts keys = Inr r"
  by (induction kts arbitrary: keys) (auto simp: get_total split: option.splits)

lemma kim_list_keys_total:
  assumes "inv m" and "kc_impl self = ops"
  shows "\<exists>keys. kim_list_keys self m app = Inr keys"
  using kim_get_all_total [OF assms] collect_keys_total [OF assms(1)] assms(2)
  by (auto simp: kim_list_keys_def)

lemma kim_list_clients_total:
  assumes "inv m" and "kc_impl self = ops"
  shows "\<exists>cs. kim_list_clients self m = Inr cs"
  using kim_get_all_total [OF assms] by (auto simp: kim_list_clients_def)

lemma get_key_id_total:
  assumes "inv m" and "kc_impl self = ops"
  shows "get_key_id codec self m kt =
    (case abs m kt of Some info \<Rightarrow> id_deserialize codec (ki_id info) | None \<Rightarrow> Inl PsaErrorDoesNotExist)"
  using assms by (simp add: get_key_id_def get_total split: option.splits)

lemma get_key_attributes_total:
  assumes "inv m" and "kc_impl self = ops"
  shows "get_key_attributes self m kt =
    (case abs m kt of Some info \<Rightarrow> Inr (ki_attributes info) | None \<Rightarrow> Inl PsaErrorDoesNotExist)"
  using assms by (simp add: get_key_attributes_def get_total split: option.splits)

lemma does_not_exist_total:
  assumes "inv m" and "kc_impl self = ops"
  shows "does_not_exist self m kt = (if kt \<in> dom (abs m) then Inl PsaErrorAlreadyExists else Inr ())"
  using assms by (simp add: does_not_exist_def exists_total)

text \<open>What was inserted is found again, under its triple only.\<close>

lemma get_after_insert:
  assumes "inv m" and "kc_impl self = ops" and "id_codec_ok codec"
    and "insert_key_info codec self kt k attrs m = (Inr (), m')"
  shows "get_key_id codec self m' kt = Inr k \<and> get_key_attributes self m' kt = Inr attrs \<and>
    (\<forall>kt'. kt' \<noteq> kt \<longrightarrow> get_key_id codec self m' kt' = get_key_id codec self m kt')"
proof -
  obtain b where b: "id_serialize codec k = Inr b" "id_deserialize codec b = Inr k"
    using id_codec_okD [OF assms(3)] .
  with insert_key_info_Inr [OF assms(1,2,4)]
  have "abs m' = (abs m)(kt \<mapsto> \<lparr>ki_id = b, ki_attributes = attrs\<rparr>)" by simp
  with b(2) insert_key_info_inv [OF assms(1,2,4)] assms(1,2) show ?thesis
    by (simp add: get_key_id_total get_key_attributes_total)
qed

end

end
