(* ===== verification/Providers.thy ===== *)
theory Providers
  imports Key_Info_Managers
begin

text \<open>
  The \<open>Provide\<close> trait of \<open>src/src/providers/mod.rs\<close> as the record \<open>provide\<close> of functions over
  the state \<open>'w\<close> of the service, with the default methods of the trait, and the two contracts that the
  rest of the service relies on: a provider keeps the keys of different applications apart
  (\<open>tenant_isolation\<close>), and a provider that lists and destroys keys does so exactly
  (\<open>key_provider\<close>).

  \<open>p_describe\<close> is \<open>None\<close> where the method panics, as the core provider's does.
\<close>

section \<open>The trait\<close>

record 'w provide =
  p_describe :: "(provider_info \<times> opcode fset) res option"
  p_list_providers :: "('w, provider_info list) res_op"
  p_list_opcodes :: "provider_id \<Rightarrow> ('w, opcode fset) res_op"
  p_list_authenticators :: "('w, authenticator_info list) res_op"
  p_list_keys :: "application_name \<Rightarrow> ('w, listed_key list) res_op"
  p_list_clients :: "('w, string list) res_op"
  p_delete_client :: "string \<Rightarrow> ('w, unit) res_op"
  p_ping :: "('w, ping_result) res_op"
  p_psa_generate_key :: "application_name \<Rightarrow> generate_key_op \<Rightarrow> ('w, unit) res_op"
  p_psa_import_key :: "application_name \<Rightarrow> import_key_op \<Rightarrow> ('w, unit) res_op"
  p_psa_export_public_key :: "application_name \<Rightarrow> string \<Rightarrow> ('w, bytes) res_op"
  p_psa_export_key :: "application_name \<Rightarrow> string \<Rightarrow> ('w, bytes) res_op"
  p_psa_destroy_key :: "application_name \<Rightarrow> string \<Rightarrow> ('w, unit) res_op"
  p_psa_sign_hash :: "application_name \<Rightarrow> sign_hash_op \<Rightarrow> ('w, bytes) res_op"
  p_psa_verify_hash :: "application_name \<Rightarrow> verify_hash_op \<Rightarrow> ('w, unit) res_op"
  p_psa_asymmetric_encrypt :: "application_name \<Rightarrow> asymmetric_encrypt_op \<Rightarrow> ('w, bytes) res_op"
  p_psa_asymmetric_decrypt :: "application_name \<Rightarrow> asymmetric_decrypt_op \<Rightarrow> ('w, bytes) res_op"
  p_psa_aead_encrypt :: "application_name \<Rightarrow> aead_encrypt_op \<Rightarrow> ('w, bytes) res_op"
  p_psa_aead_decrypt :: "application_name \<Rightarrow> aead_decrypt_op \<Rightarrow> ('w, bytes) res_op"
  p_psa_hash_compute :: "hash_compute_op \<Rightarrow> ('w, bytes) res_op"
  p_psa_hash_compare :: "hash_compare_op \<Rightarrow> ('w, unit) res_op"
  p_psa_raw_key_agreement :: "application_name \<Rightarrow> raw_key_agreement_op \<Rightarrow> ('w, bytes) res_op"
  p_psa_generate_random :: "usize \<Rightarrow> ('w, bytes) res_op"
  p_psa_sign_message :: "application_name \<Rightarrow> sign_message_op \<Rightarrow> ('w, bytes) res_op"
  p_psa_verify_message :: "application_name \<Rightarrow> verify_message_op \<Rightarrow> ('w, unit) res_op"

text \<open>The methods without a default are arguments, all others are not supported.\<close>

definition not_supported :: "('w, 'a) res_op" where
  "not_supported = err_op PsaErrorNotSupported"

definition default_provide ::
  "(provider_info \<times> opcode fset) res option \<Rightarrow> (application_name \<Rightarrow> ('w, listed_key list) res_op) \<Rightarrow>
   ('w, string list) res_op \<Rightarrow> 'w provide" where
  "default_provide describe list_keys list_clients =
     \<lparr>p_describe = describe,
      p_list_providers = not_supported,
      p_list_opcodes = (\<lambda>_. not_supported),
      p_list_authenticators = not_supported,
      p_list_keys = list_keys,
      p_list_clients = list_clients,
      p_delete_client = (\<lambda>_. not_supported),
      p_ping = not_supported,
      p_psa_generate_key = (\<lambda>_ _. not_supported),
      p_psa_import_key = (\<lambda>_ _. not_supported),
      p_psa_export_public_key = (\<lambda>_ _. not_supported),
      p_psa_export_key = (\<lambda>_ _. not_supported),
      p_psa_destroy_key = (\<lambda>_ _. not_supported),
      p_psa_sign_hash = (\<lambda>_ _. not_supported),
      p_psa_verify_hash = (\<lambda>_ _. not_supported),
      p_psa_asymmetric_encrypt = (\<lambda>_ _. not_supported),
      p_psa_asymmetric_decrypt = (\<lambda>_ _. not_supported),
      p_psa_aead_encrypt = (\<lambda>_ _. not_supported),
      p_psa_aead_decrypt = (\<lambda>_ _. not_supported),
      p_psa_hash_compute = (\<lambda>_. not_supported),
      p_psa_hash_compare = (\<lambda>_. not_supported),
      p_psa_raw_key_agreement = (\<lambda>_ _. not_supported),
      p_psa_generate_random = (\<lambda>_. not_supported),
      p_psa_sign_message = (\<lambda>_ _. not_supported),
      p_psa_verify_message = (\<lambda>_ _. not_supported)\<rparr>"

section \<open>Tenant isolation\<close>

text \<open>
  \<open>keeps inv view V f\<close>: from every state that satisfies the invariant, the operation keeps the
  invariant and what each tenant in \<open>V\<close> can see, whether it succeeds or fails.
\<close>

definition keeps :: "('w \<Rightarrow> bool) \<Rightarrow> ('n \<Rightarrow> 'w \<Rightarrow> 'v) \<Rightarrow> 'n set \<Rightarrow> ('w \<Rightarrow> 'r \<times> 'w) \<Rightarrow> bool" where
  "keeps I view V f \<longleftrightarrow>
     (\<forall>w r w'. I w \<longrightarrow> f w = (r, w') \<longrightarrow> I w' \<and> (\<forall>n \<in> V. view n w' = view n w))"

lemma keepsI:
  "(\<And>w r w'. I w \<Longrightarrow> f w = (r, w') \<Longrightarrow> I w' \<and> (\<forall>n \<in> V. view n w' = view n w)) \<Longrightarrow> keeps I view V f"
  by (simp add: keeps_def)

lemma keepsD:
  "keeps I view V f \<Longrightarrow> I w \<Longrightarrow> f w = (r, w') \<Longrightarrow> I w' \<and> (\<forall>n \<in> V. view n w' = view n w)"
  by (simp add: keeps_def)

lemma keeps_mono: "keeps I view V f \<Longrightarrow> U \<subseteq> V \<Longrightarrow> keeps I view U f"
  by (auto simp: keeps_def)

lemma keeps_read [intro]: "(\<And>w. snd (f w) = w) \<Longrightarrow> keeps I view V f"
  by (auto simp: keeps_def) (metis snd_conv)+

lemma keeps_not_supported [simp]: "keeps I view V not_supported"
  by (auto simp: keeps_def not_supported_def err_op_def)

lemma keeps_err_op [simp]: "keeps I view V (err_op e)"
  by (auto simp: keeps_def err_op_def)

lemma keeps_ok_op [simp]: "keeps I view V (ok_op x)"
  by (auto simp: keeps_def ok_op_def)

lemma keeps_read_op [simp]: "keeps J view V (read_op f)"
  by (rule keeps_read) (simp add: read_op_def)

lemma keeps_try_op:
  assumes "keeps I view V f" and "\<And>x. keeps I view V (k x)"
  shows "keeps I view V (try_op f k)"
proof (rule keepsI)
  fix w r w'
  assume I: "I w" and run: "try_op f k w = (r, w')"
  obtain r1 w1 where f: "f w = (r1, w1)" by fastforce
  note 1 = keepsD [OF assms(1) I f]
  show "I w' \<and> (\<forall>n \<in> V. view n w' = view n w)"
  proof (cases r1)
    case (Inr x)
    with run f have "k x w1 = (r, w')" by (simp add: try_op_def)
    from keepsD [OF assms(2) _ this] 1 show ?thesis by simp
  qed (use run f 1 in \<open>simp add: try_op_def\<close>)
qed

text \<open>
  What the back end relies on: an operation of one application leaves what the other
  applications see alone, and so do the operations that are not made for an application.
\<close>

locale tenant_isolation =
  fixes p :: "'w provide"
    and inv :: "'w \<Rightarrow> bool"
    and view :: "application_name \<Rightarrow> 'w \<Rightarrow> 'v"
  assumes iso_service:
    "keeps inv view UNIV (p_list_providers p)" "keeps inv view UNIV (p_list_opcodes p pid)"
    "keeps inv view UNIV (p_list_authenticators p)" "keeps inv view UNIV (p_ping p)"
    "keeps inv view UNIV (p_list_clients p)" "keeps inv view UNIV (p_psa_hash_compute p hc)"
    "keeps inv view UNIV (p_psa_hash_compare p hx)" "keeps inv view UNIV (p_psa_generate_random p sz)"
    and iso_delete_client: "keeps inv view (- {c}) (p_delete_client p c)"
    and iso_app:
    "keeps inv view (- {n}) (p_list_keys p n)"
    "keeps inv view (- {n}) (p_psa_generate_key p n x0)"
    "keeps inv view (- {n}) (p_psa_import_key p n x1)"
    "keeps inv view (- {n}) (p_psa_export_public_key p n x2)"
    "keeps inv view (- {n}) (p_psa_export_key p n x3)"
    "keeps inv view (- {n}) (p_psa_destroy_key p n x4)"
    "keeps inv view (- {n}) (p_psa_sign_hash p n x5)"
    "keeps inv view (- {n}) (p_psa_verify_hash p n x6)"
    "keeps inv view (- {n}) (p_psa_asymmetric_encrypt p n x7)"
    "keeps inv view (- {n}) (p_psa_asymmetric_decrypt p n x8)"
    "keeps inv view (- {n}) (p_psa_aead_encrypt p n x9)"
    "keeps inv view (- {n}) (p_psa_aead_decrypt p n x10)"
    "keeps inv view (- {n}) (p_psa_raw_key_agreement p n x11)"
    "keeps inv view (- {n}) (p_psa_sign_message p n x12)"
    "keeps inv view (- {n}) (p_psa_verify_message p n x13)"

section \<open>Listing and destroying keys\<close>

text \<open>
  What the core provider relies on. \<open>keys w pid n\<close> is the set of names of the keys that application \<open>n\<close>
  has with provider \<open>pid\<close>. \<open>only_loses\<close> says that nothing changed outside \<open>S\<close>, and that inside
  \<open>S\<close> keys have at most disappeared.
\<close>

definition only_loses :: "('p \<Rightarrow> 'n \<Rightarrow> 'k set) \<Rightarrow> ('p \<Rightarrow> 'n \<Rightarrow> 'k set) \<Rightarrow> ('p \<times> 'n) set \<Rightarrow> bool" where
  "only_loses K K' S \<longleftrightarrow> (\<forall>p n. K' p n \<subseteq> K p n) \<and> (\<forall>p n. (p, n) \<notin> S \<longrightarrow> K' p n = K p n)"

lemma only_loses_refl [simp]: "only_loses K K S"
  by (simp add: only_loses_def)

lemma only_loses_trans: "only_loses K K' S \<Longrightarrow> only_loses K' K'' S \<Longrightarrow> only_loses K K'' S"
  by (fastforce simp: only_loses_def)

lemma only_loses_mono: "only_loses K K' S \<Longrightarrow> S \<subseteq> T \<Longrightarrow> only_loses K K' T"
  unfolding only_loses_def by blast

lemma only_losesD: "only_loses K K' S \<Longrightarrow> K' p n \<subseteq> K p n" "only_loses K K' S \<Longrightarrow> (p, n) \<notin> S \<Longrightarrow> K' p n = K p n"
  unfolding only_loses_def by blast+

locale key_provider =
  fixes p :: "'w provide"
    and inv :: "'w \<Rightarrow> bool"
    and keys :: "'w \<Rightarrow> provider_id \<Rightarrow> application_name \<Rightarrow> string set"
    and pid :: provider_id
  assumes list_keys_law: "inv w \<Longrightarrow> p_list_keys p n w = (r, w') \<Longrightarrow> inv w' \<and> keys w' = keys w \<and>
      (\<forall>ks. r = Inr ks \<longrightarrow> distinct (map lk_name ks) \<and> lk_name ` set ks = keys w pid n)"
    and list_clients_law: "inv w \<Longrightarrow> p_list_clients p w = (rc, w') \<Longrightarrow> inv w' \<and> keys w' = keys w \<and>
      (\<forall>cs. rc = Inr cs \<longrightarrow> set cs = {n. keys w pid n \<noteq> {}})"
    and destroy_law: "inv w \<Longrightarrow> p_psa_destroy_key p n k w = (rd, w') \<Longrightarrow> inv w' \<and>
      only_loses (keys w) (keys w') {(pid, n)} \<and> keys w pid n - {k} \<subseteq> keys w' pid n"

text \<open>A provider that never fails to list keys, nor to forget a key it was asked to destroy.\<close>

locale sure_key_provider = key_provider +
  assumes list_keys_sure: "inv w \<Longrightarrow> \<exists>ks w'. p_list_keys p n w = (Inr ks, w')"
    and list_clients_sure: "inv w \<Longrightarrow> \<exists>cs w'. p_list_clients p w = (Inr cs, w')"
    and destroy_sure: "inv w \<Longrightarrow> p_psa_destroy_key p n k w = (rd, w') \<Longrightarrow> k \<notin> keys w' pid n"

section \<open>Start-up\<close>

text \<open>
  The end of \<open>Provider::new\<close> in the providers that keep mappings, the same in each of them: remove
  the mappings that were found to be invalid, up to the first failure.
\<close>

fun remove_triples :: "'m kim_client \<Rightarrow> key_triple list \<Rightarrow> 'm \<Rightarrow> bool \<times> 'm" where
  "remove_triples client [] m = (True, m)"
| "remove_triples client (kt # kts) m =
     (case remove_key_info client kt m of
        (Inl _, m') \<Rightarrow> (False, m')
      | (Inr _, m') \<Rightarrow> remove_triples client kts m')"

end
