(* ===== verification/Atecc_Slots.thy ===== *)
theory Atecc_Slots
  imports Parsec_Interface
begin

text \<open>
  \<open>src/src/providers/cryptoauthlib/key_slot.rs\<close> and \<open>key_slot_storage.rs\<close>: the software state of
  the key slots of an ATECC chip, the match of key attributes with the hardware configuration of a
  slot, and the allocation of slots.

  The enumerations and structures of \<open>rust_cryptoauthlib\<close> have the variants and fields that the
  sources mention, its constants are the fields of \<open>calib_consts\<close>. The array of slots is a list;
  an index out of its range is a panic, the outer \<open>None\<close> of an operation. The text of an
  error or warning is its fixed part, since it is only logged.
\<close>

section \<open>Hardware configuration\<close>

datatype calib_key_type = CalibAes | ShaOrText | P256EccKey | OtherCalibKeyType nat

datatype write_config = WriteAlways | WriteEncrypt | WriteNever | OtherWriteConfig nat

record slot_config =
  sc_key_type :: calib_key_type
  sc_no_mac :: bool
  sc_is_secret :: bool
  sc_pub_info :: bool
  sc_write_config :: write_config
  sc_is_private :: bool
  sc_ext_sign :: bool

record atca_slot =
  hw_id :: u8
  hw_is_valid :: bool
  hw_is_locked :: bool
  hw_config :: slot_config

record calib_consts =
  slots_count :: u8
  min_slot_idx_for_pub_key :: u8
  default_slot_config :: slot_config

section \<open>One slot\<close>

datatype key_slot_status = Free | Busy | Locked

record atecc_key_slot =
  ref_count :: u8
  slot_status :: key_slot_status
  slot_config :: slot_config

definition default_key_slot :: "calib_consts \<Rightarrow> atecc_key_slot" where
  "default_key_slot cc = \<lparr>ref_count = 0, slot_status = Free, slot_config = default_slot_config cc\<rparr>"

definition is_key_type_ok :: "calib_consts \<Rightarrow> atecc_key_slot \<Rightarrow> u8 \<Rightarrow> attributes \<Rightarrow> bool" where
  "is_key_type_ok cc self slot key_attr =
     (let cfg = slot_config self; bits = attr_bits key_attr in
      case attr_key_type key_attr of
        RawData \<Rightarrow> sc_key_type cfg = ShaOrText
      | Hmac_key \<Rightarrow> \<not> sc_no_mac cfg
      | Aes \<Rightarrow> sc_key_type cfg = CalibAes
      | EccKeyPair SecpR1 \<Rightarrow>
          (bits = 0 \<or> bits = 256) \<and> sc_key_type cfg = P256EccKey \<and> sc_is_private cfg \<and> sc_is_secret cfg
      | EccPublicKey SecpR1 \<Rightarrow>
          (bits = 0 \<or> bits = 256) \<and> sc_key_type cfg = P256EccKey \<and> slot \<ge> min_slot_idx_for_pub_key cc
      | _ \<Rightarrow> False)"

definition is_ecc_key_pair :: "key_type \<Rightarrow> bool" where
  "is_ecc_key_pair t \<longleftrightarrow> (case t of EccKeyPair _ \<Rightarrow> True | _ \<Rightarrow> False)"

text \<open>The early returns of \<open>is_usage_flags_ok\<close> only skip checks that cannot make the result true again.\<close>

definition is_usage_flags_ok :: "atecc_key_slot \<Rightarrow> attributes \<Rightarrow> bool" where
  "is_usage_flags_ok self key_attr =
     (let cfg = slot_config self; flags = usage_flags key_attr; pair = is_ecc_key_pair (attr_key_type key_attr);
          result1 =
            (if uf_export flags \<or> uf_copy flags
             then if pair
                  then sc_key_type cfg = P256EccKey \<and> (if sc_is_private cfg then sc_pub_info cfg else True)
                  else True
             else True)
      in if \<not> result1 then False
         else
           let result2 =
             (if uf_sign_hash flags \<or> uf_sign_message flags
              then sc_key_type cfg = P256EccKey \<and> sc_is_private cfg \<and> sc_ext_sign cfg \<and> pair
              else True)
           in if \<not> result2 then False
              else if uf_verify_hash flags \<or> uf_verify_message flags
              then sc_key_type cfg = P256EccKey \<and>
                   (if pair then (if sc_is_private cfg then sc_pub_info cfg else True) else True)
              else True)"

definition ecdsa_slot_ok :: "slot_config \<Rightarrow> key_type \<Rightarrow> opcode option \<Rightarrow> bool" where
  "ecdsa_slot_ok cfg kty op =
     (sc_key_type cfg = P256EccKey \<and>
      (case kty of
         EccKeyPair SecpR1 \<Rightarrow>
           sc_is_private cfg \<and> sc_ext_sign cfg \<and>
           (case op of
              Some PsaImportKey \<Rightarrow> sc_write_config cfg = WriteEncrypt
            | Some PsaGenerateKey \<Rightarrow> sc_write_config cfg = WriteEncrypt \<or> sc_write_config cfg = WriteNever
            | Some _ \<Rightarrow> False
            | None \<Rightarrow> True)
       | EccPublicKey SecpR1 \<Rightarrow>
           sc_write_config cfg = WriteEncrypt \<or> sc_write_config cfg = WriteNever \<or> sc_write_config cfg = WriteAlways
       | _ \<Rightarrow> False))"

definition is_permitted_algorithms_ok :: "atecc_key_slot \<Rightarrow> attributes \<Rightarrow> opcode option \<Rightarrow> bool" where
  "is_permitted_algorithms_ok self key_attr op =
     (let cfg = slot_config self;
          hmac = \<not> sc_no_mac cfg \<and> sc_key_type cfg \<noteq> P256EccKey \<and> \<not> sc_is_private cfg;
          block_mac = \<not> sc_no_mac cfg \<and> sc_key_type cfg = CalibAes in
      case permitted_algorithms key_attr of
        Alg_Hash Sha256 \<Rightarrow> True
      | Alg_Mac (Truncated (Hmac Sha256) _) \<Rightarrow> hmac
      | Alg_Mac (FullLength (Hmac Sha256)) \<Rightarrow> hmac
      | Alg_Mac (Truncated CbcMac _) \<Rightarrow> block_mac
      | Alg_Mac (FullLength CbcMac) \<Rightarrow> block_mac
      | Alg_Mac (Truncated Cmac _) \<Rightarrow> block_mac
      | Alg_Mac (FullLength Cmac) \<Rightarrow> block_mac
      | Alg_Cipher c \<Rightarrow> c \<in> {CbcPkcs7, Ctr, Cfb, Ofb} \<and> sc_key_type cfg = CalibAes
      | Alg_Aead (AeadWithDefaultLengthTag a) \<Rightarrow> a \<in> {Ccm, Gcm} \<and> sc_key_type cfg = CalibAes
      | Alg_Aead (AeadWithShortenedTag a _) \<Rightarrow> a \<in> {Ccm, Gcm} \<and> sc_key_type cfg = CalibAes
      | Alg_AsymmetricSignature (Ecdsa (Specific Sha256)) \<Rightarrow> ecdsa_slot_ok cfg (attr_key_type key_attr) op
      | Alg_KeyAgreement (RawAgreement Ecdh) \<Rightarrow> sc_key_type cfg = P256EccKey
      | Alg_KeyAgreement (WithKeyDerivation Ecdh _) \<Rightarrow> sc_key_type cfg = P256EccKey
      | _ \<Rightarrow> False)"

definition key_attr_vs_config ::
  "calib_consts \<Rightarrow> atecc_key_slot \<Rightarrow> u8 \<Rightarrow> attributes \<Rightarrow> opcode option \<Rightarrow> unit res" where
  "key_attr_vs_config cc self slot key_attr op =
     (if \<not> is_key_type_ok cc self slot key_attr then Inl PsaErrorNotSupported
      else if \<not> is_usage_flags_ok self key_attr then Inl PsaErrorNotSupported
      else if \<not> is_permitted_algorithms_ok self key_attr op then Inl PsaErrorNotSupported
      else Inr ())"

definition slot_set_status :: "key_slot_status \<Rightarrow> (atecc_key_slot, unit) res_op" where
  "slot_set_status status self =
     (if slot_status self = Locked then (Inl PsaErrorNotPermitted, self)
      else case status of
          Locked \<Rightarrow> (Inl PsaErrorNotPermitted, self)
        | _ \<Rightarrow> (Inr (), self\<lparr>slot_status := status\<rparr>))"

definition reference_check_and_set :: "(atecc_key_slot, unit, unit) rust_op" where
  "reference_check_and_set self =
     (if 0 < ref_count self then (Inl (), self) else (Inr (), self\<lparr>ref_count := 1\<rparr>))"

definition is_free :: "atecc_key_slot \<Rightarrow> bool" where
  "is_free self \<longleftrightarrow> slot_status self = Free"

section \<open>The array of slots\<close>

type_synonym key_slot_storage = "atecc_key_slot list"

definition storage_new :: "calib_consts \<Rightarrow> key_slot_storage" where
  "storage_new cc = replicate (unat (slots_count cc)) (default_key_slot cc)"

text \<open>Run an operation on the slot with the given index; a panic if there is none.\<close>

definition on_slot ::
  "nat \<Rightarrow> (atecc_key_slot, 'e, 'a) rust_op \<Rightarrow> key_slot_storage \<Rightarrow> (('e + 'a) \<times> key_slot_storage) option" where
  "on_slot i f slots =
     (if i < length slots then case f (slots ! i) of (r, s) \<Rightarrow> Some (r, slots[i := s]) else None)"

definition key_validate_and_mark_busy ::
  "calib_consts \<Rightarrow> u8 \<Rightarrow> attributes \<Rightarrow> key_slot_storage \<Rightarrow> ((string + string option) \<times> key_slot_storage) option" where
  "key_validate_and_mark_busy cc key_id key_attr =
     on_slot (unat key_id) (\<lambda>s.
       case key_attr_vs_config cc s key_id key_attr None of
         Inl _ \<Rightarrow> (Inl ''ATECC slot configuration mismatch'', s)
       | Inr _ \<Rightarrow>
           (case reference_check_and_set s of
              (Inl _, s1) \<Rightarrow> (Inr (Some ''Superfluous reference(s) to ATECC slot''), s1)
            | (Inr _, s1) \<Rightarrow>
                (case slot_set_status Busy s1 of
                   (Inr _, s2) \<Rightarrow> (Inr None, s2)
                 | (Inl _, s2) \<Rightarrow> (Inl ''Unable to set hardware slot status'', s2))))"

fun set_hw_config :: "atca_slot list \<Rightarrow> key_slot_storage \<Rightarrow> key_slot_storage option" where
  "set_hw_config [] slots = Some slots"
| "set_hw_config (slot # hw) slots =
     (if hw_is_valid slot
      then if unat (hw_id slot) < length slots
           then set_hw_config hw (slots[unat (hw_id slot) :=
                  \<lparr>ref_count = 0, slot_status = (if hw_is_locked slot then Locked else Free),
                   slot_config = hw_config slot\<rparr>])
           else None
      else set_hw_config hw slots)"

definition storage_set_slot_status ::
  "nat \<Rightarrow> key_slot_status \<Rightarrow> key_slot_storage \<Rightarrow> (unit res \<times> key_slot_storage) option" where
  "storage_set_slot_status slot_id status = on_slot slot_id (slot_set_status status)"

fun find_suitable_in ::
  "calib_consts \<Rightarrow> attributes \<Rightarrow> opcode option \<Rightarrow> nat list \<Rightarrow> key_slot_storage \<Rightarrow> (u8 res \<times> key_slot_storage) option" where
  "find_suitable_in cc key_attr op [] slots = Some (Inl PsaErrorInsufficientStorage, slots)"
| "find_suitable_in cc key_attr op (i # is) slots =
     (if i < length slots
      then if \<not> is_free (slots ! i) then find_suitable_in cc key_attr op is slots
           else case key_attr_vs_config cc (slots ! i) (word_of_nat i) key_attr op of
               Inr _ \<Rightarrow>
                 (case slot_set_status Busy (slots ! i) of
                    (Inr _, s) \<Rightarrow> Some (Inr (word_of_nat i), slots[i := s])
                  | (Inl e, s) \<Rightarrow> Some (Inl e, slots[i := s]))
             | Inl _ \<Rightarrow> find_suitable_in cc key_attr op is slots
      else None)"

definition find_suitable_slot ::
  "calib_consts \<Rightarrow> attributes \<Rightarrow> opcode option \<Rightarrow> key_slot_storage \<Rightarrow> (u8 res \<times> key_slot_storage) option" where
  "find_suitable_slot cc key_attr op = find_suitable_in cc key_attr op [0..<unat (slots_count cc)]"

section \<open>What the operations do\<close>

lemma key_attr_vs_config_Inr:
  "key_attr_vs_config cc s i a op = Inr u \<longleftrightarrow>
     is_key_type_ok cc s i a \<and> is_usage_flags_ok s a \<and> is_permitted_algorithms_ok s a op"
  by (simp add: key_attr_vs_config_def)

lemma slot_set_status_free [simp]:
  "is_free s \<Longrightarrow> st \<noteq> Locked \<Longrightarrow> slot_set_status st s = (Inr (), s\<lparr>slot_status := st\<rparr>)"
  by (cases st) (simp_all add: slot_set_status_def is_free_def)

text \<open>A slot that can take a new key.\<close>

definition fits :: "calib_consts \<Rightarrow> attributes \<Rightarrow> opcode option \<Rightarrow> key_slot_storage \<Rightarrow> nat \<Rightarrow> bool" where
  "fits cc a op slots i \<longleftrightarrow>
     i < length slots \<and> is_free (slots ! i) \<and> key_attr_vs_config cc (slots ! i) (word_of_nat i) a op = Inr ()"

lemma find_suitable_in_find:
  assumes "\<forall>i \<in> set is. i < length slots"
  shows "find_suitable_in cc a op is slots =
    Some (case find (fits cc a op slots) is of
            None \<Rightarrow> (Inl PsaErrorInsufficientStorage, slots)
          | Some i \<Rightarrow> (Inr (word_of_nat i), slots[i := (slots ! i)\<lparr>slot_status := Busy\<rparr>]))"
  using assms by (induction "is") (auto simp: fits_def split: sum.splits)

lemma find_upt_least: "find P [0..<n] = (if \<exists>i<n. P i then Some (LEAST i. P i) else None)"
proof (cases "\<exists>i<n. P i")
  case True
  define k where "k = (LEAST i. P i)"
  have k: "k < n" "P k" "\<And>j. j < k \<Longrightarrow> \<not> P j"
    using True unfolding k_def by (meson Least_le LeastI le_less_trans not_less_Least)+
  then have "k < length [0..<n] \<and> P ([0..<n] ! k) \<and> k = [0..<n] ! k \<and> (\<forall>j < k. \<not> P ([0..<n] ! j))"
    by simp
  then have "find P [0..<n] = Some k" unfolding find_Some_iff by blast
  with True show ?thesis unfolding k_def by simp
qed (auto simp: find_None_iff)

lemma find_suitable_slot_result:
  assumes "length slots = unat (slots_count cc)"
  shows "find_suitable_slot cc a op slots =
    Some (if \<exists>i. fits cc a op slots i
          then let i = LEAST i. fits cc a op slots i in
               (Inr (word_of_nat i), slots[i := (slots ! i)\<lparr>slot_status := Busy\<rparr>])
          else (Inl PsaErrorInsufficientStorage, slots))"
proof -
  have "(\<exists>i<unat (slots_count cc). fits cc a op slots i) \<longleftrightarrow> (\<exists>i. fits cc a op slots i)"
    using assms by (auto simp: fits_def)
  then show ?thesis
    by (simp add: find_suitable_slot_def find_suitable_in_find assms find_upt_least Let_def)
qed

lemma find_suitable_slot_cases:
  assumes "length slots = unat (slots_count cc)" and "find_suitable_slot cc a op slots = Some (r, slots')"
  shows "(\<exists>i. fits cc a op slots i \<and> r = Inr (word_of_nat i) \<and> unat (word_of_nat i :: u8) = i \<and>
            slots' = slots[i := (slots ! i)\<lparr>slot_status := Busy\<rparr>]) \<or>
    r = Inl PsaErrorInsufficientStorage \<and> slots' = slots"
proof (cases "\<exists>i. fits cc a op slots i")
  case True
  let ?i = "LEAST i. fits cc a op slots i"
  have f: "fits cc a op slots ?i" using True by (auto intro: LeastI_ex)
  then have "?i < 256" using assms(1) u8_bound [of "slots_count cc"] by (auto simp: fits_def)
  then have "unat (word_of_nat ?i :: u8) = ?i" by (simp add: unat_word_of_nat_u8)
  with True f assms find_suitable_slot_result [OF assms(1)] show ?thesis by (auto simp: Let_def)
qed (use assms find_suitable_slot_result [OF assms(1)] in simp)

lemma storage_set_slot_status_Some:
  assumes "storage_set_slot_status i st slots = Some (r, slots')"
  shows "i < length slots"
    and "slots' = (if slot_status (slots ! i) \<noteq> Locked \<and> st \<noteq> Locked then slots[i := (slots ! i)\<lparr>slot_status := st\<rparr>] else slots)"
    and "r = (if slot_status (slots ! i) \<noteq> Locked \<and> st \<noteq> Locked then Inr () else Inl PsaErrorNotPermitted)"
proof -
  show i: "i < length slots" using assms by (auto simp: storage_set_slot_status_def on_slot_def split: if_splits)
  show "slots' = (if slot_status (slots ! i) \<noteq> Locked \<and> st \<noteq> Locked then slots[i := (slots ! i)\<lparr>slot_status := st\<rparr>] else slots)"
    "r = (if slot_status (slots ! i) \<noteq> Locked \<and> st \<noteq> Locked then Inr () else Inl PsaErrorNotPermitted)"
    using assms i by (cases st; simp add: storage_set_slot_status_def on_slot_def slot_set_status_def split: if_splits)+
qed

section \<open>Runs\<close>

text \<open>One use of the array of slots by the provider.\<close>

inductive slot_step :: "calib_consts \<Rightarrow> key_slot_storage \<Rightarrow> key_slot_storage \<Rightarrow> bool" for cc where
  step_find: "find_suitable_slot cc a op s = Some (r, s') \<Longrightarrow> slot_step cc s s'"
| step_status: "storage_set_slot_status i st s = Some (r', s') \<Longrightarrow> slot_step cc s s'"
| step_validate: "key_validate_and_mark_busy cc k a s = Some (r'', s') \<Longrightarrow> slot_step cc s s'"

text \<open>What one step may do to a slot: nothing to the configuration, and nothing at all to a locked one.\<close>

definition slot_evolves :: "atecc_key_slot \<Rightarrow> atecc_key_slot \<Rightarrow> bool" where
  "slot_evolves s s' \<longleftrightarrow> slot_config s' = slot_config s \<and> (slot_status s' = Locked \<longleftrightarrow> slot_status s = Locked)"

definition slots_evolve :: "key_slot_storage \<Rightarrow> key_slot_storage \<Rightarrow> bool" where
  "slots_evolve s s' \<longleftrightarrow> length s' = length s \<and> (\<forall>i < length s. slot_evolves (s ! i) (s' ! i))"

lemma slots_evolve_refl [simp]: "slots_evolve s s"
  by (simp add: slots_evolve_def slot_evolves_def)

lemma slots_evolve_trans: "slots_evolve s s' \<Longrightarrow> slots_evolve s' s'' \<Longrightarrow> slots_evolve s s''"
  by (simp add: slots_evolve_def slot_evolves_def)

lemma slots_evolve_update: "slot_evolves (s ! i) x \<Longrightarrow> slots_evolve s (s[i := x])"
  by (cases "i < length s") (simp_all add: slots_evolve_def slot_evolves_def nth_list_update)

lemma on_slot_evolves:
  assumes "on_slot i f s = Some (r, s')" and "\<And>x. slot_evolves x (snd (f x))"
  shows "slots_evolve s s'"
  using assms(1) slots_evolve_update [of s i] assms(2) [of "s ! i"]
  by (auto simp: on_slot_def split: if_splits prod.splits)

lemma slot_set_status_evolves: "slot_evolves x (snd (slot_set_status st x))"
  by (cases st) (simp_all add: slot_set_status_def slot_evolves_def)

lemma find_suitable_in_evolves:
  "find_suitable_in cc a op is s = Some (r, s') \<Longrightarrow> slots_evolve s s'"
proof (induction "is")
  case (Cons i "is")
  obtain r1 s1 where st: "slot_set_status Busy (s ! i) = (r1, s1)" by fastforce
  have "slots_evolve s (s[i := s1])"
    using slots_evolve_update [OF slot_set_status_evolves, of s i Busy] st by simp
  with Cons st show ?case by (auto split: if_splits sum.splits)
qed simp

lemma slot_step_evolves: "slot_step cc s s' \<Longrightarrow> slots_evolve s s'"
proof (induction rule: slot_step.induct)
  case (step_find a op s r s')
  then show ?case unfolding find_suitable_slot_def by (rule find_suitable_in_evolves)
next
  case (step_status i st s r' s')
  then show ?case
    unfolding storage_set_slot_status_def by (rule on_slot_evolves) (rule slot_set_status_evolves)
next
  case (step_validate k a s r'' s')
  then show ?case
    unfolding key_validate_and_mark_busy_def
    by (rule on_slot_evolves)
      (auto simp: reference_check_and_set_def slot_set_status_def slot_evolves_def split: sum.splits prod.splits if_splits)
qed

section \<open>Properties\<close>

text \<open>A chip with two slots for P-256 key pairs, the first of them locked.\<close>

definition pair_config :: slot_config where
  "pair_config = \<lparr>sc_key_type = P256EccKey, sc_no_mac = True, sc_is_secret = True, sc_pub_info = True,
     sc_write_config = WriteEncrypt, sc_is_private = True, sc_ext_sign = True\<rparr>"

definition sample_consts :: calib_consts where
  "sample_consts = \<lparr>slots_count = 2, min_slot_idx_for_pub_key = 8, default_slot_config = pair_config\<rparr>"

definition sample_slots :: key_slot_storage where
  "sample_slots = [\<lparr>ref_count = 0, slot_status = Locked, slot_config = pair_config\<rparr>,
                   \<lparr>ref_count = 0, slot_status = Free, slot_config = pair_config\<rparr>]"

definition pair_attributes :: attributes where
  "pair_attributes = sample_attributes\<lparr>attr_key_type := EccKeyPair SecpR1, attr_bits := 256,
     permitted_algorithms := Alg_AsymmetricSignature (Ecdsa (Specific Sha256))\<rparr>"

lemma sample_fits: "fits sample_consts pair_attributes (Some PsaImportKey) sample_slots 1"
  by (simp add: fits_def key_attr_vs_config_def is_key_type_ok_def is_usage_flags_ok_def is_permitted_algorithms_ok_def
      ecdsa_slot_ok_def is_ecc_key_pair_def pair_attributes_def sample_attributes_def sample_slots_def pair_config_def
      is_free_def Let_def)

text \<open>
  C22: the allocation of a slot is exact. \<open>find_suitable_slot\<close> never panics; it returns the lowest free
  slot whose configuration matches the attributes and marks exactly that slot busy, and if there
  is none it changes nothing and returns \<open>PsaErrorInsufficientStorage\<close>.
\<close>

theorem find_suitable_slot_exact:
  assumes "length slots = unat (slots_count cc)"
  shows "find_suitable_slot cc a op slots =
    Some (if \<exists>i. fits cc a op slots i
          then let i = LEAST i. fits cc a op slots i in
               (Inr (word_of_nat i), slots[i := (slots ! i)\<lparr>slot_status := Busy\<rparr>])
          else (Inl PsaErrorInsufficientStorage, slots))"
  by (rule find_suitable_slot_result [OF assms])

theorem find_suitable_slot_exact_witness:
  "find_suitable_slot sample_consts pair_attributes (Some PsaImportKey) sample_slots =
     Some (Inr 1, sample_slots[1 := (sample_slots ! 1)\<lparr>slot_status := Busy\<rparr>])"
proof -
  have len: "length sample_slots = unat (slots_count sample_consts)"
    by (simp add: sample_slots_def sample_consts_def)
  have "\<not> fits sample_consts pair_attributes (Some PsaImportKey) sample_slots 0"
    by (simp add: fits_def sample_slots_def is_free_def)
  then have "(LEAST i. fits sample_consts pair_attributes (Some PsaImportKey) sample_slots i) = 1"
    using sample_fits by (intro Least_equality) (auto simp: Suc_le_eq intro!: gr0I)
  with find_suitable_slot_exact [OF len, of pair_attributes "Some PsaImportKey"] sample_fits show ?thesis
    by (auto simp: Let_def)
qed

text \<open>
  C30: locked slots are never touched. In any run of the operations on the slots, the number of
  slots and their hardware configuration stay as they are, a locked slot stays locked, and
  no other slot becomes locked.
\<close>

theorem locked_slots_stay:
  assumes "(slot_step cc)\<^sup>*\<^sup>* s s'"
  shows "length s' = length s \<and>
    (\<forall>i < length s. slot_config (s' ! i) = slot_config (s ! i) \<and>
       (slot_status (s' ! i) = Locked \<longleftrightarrow> slot_status (s ! i) = Locked))"
proof -
  from assms have "slots_evolve s s'"
    by (induction rule: rtranclp_induct) (auto intro: slots_evolve_trans slot_step_evolves)
  then show ?thesis by (simp add: slots_evolve_def slot_evolves_def)
qed

theorem locked_slots_stay_witness:
  "\<exists>s'. (slot_step sample_consts)\<^sup>*\<^sup>* sample_slots s' \<and> s' \<noteq> sample_slots \<and> slot_status (s' ! 0) = Locked"
proof -
  let ?s = "sample_slots[1 := (sample_slots ! 1)\<lparr>slot_status := Busy\<rparr>]"
  have "storage_set_slot_status 1 Busy sample_slots = Some (Inr (), ?s)"
    by (simp add: storage_set_slot_status_def on_slot_def slot_set_status_def sample_slots_def)
  then have step: "(slot_step sample_consts)\<^sup>*\<^sup>* sample_slots ?s" by (blast intro: step_status)
  from locked_slots_stay [OF this] have "slot_status (?s ! 0) = Locked" by (simp add: sample_slots_def)
  moreover have "?s \<noteq> sample_slots" by (simp add: sample_slots_def)
  ultimately show ?thesis using step by blast
qed

text \<open>
  C31: private keys only go to slots that protect them. If an imported P-256 signing key gets a slot,
  that slot is configured as private and secret and accepts encrypted writes only.
\<close>

theorem import_slot_protects_key:
  assumes "length slots = unat (slots_count cc)"
    and "find_suitable_slot cc a (Some PsaImportKey) slots = Some (Inr k, slots')"
    and "attr_key_type a = EccKeyPair SecpR1"
    and "permitted_algorithms a = Alg_AsymmetricSignature (Ecdsa (Specific Sha256))"
  shows "unat k < length slots \<and>
    (let cfg = slot_config (slots ! unat k) in
     sc_is_private cfg \<and> sc_is_secret cfg \<and> sc_write_config cfg = WriteEncrypt)"
proof -
  from find_suitable_slot_cases [OF assms(1,2)] obtain i where
    "fits cc a (Some PsaImportKey) slots i" "k = word_of_nat i" "unat k = i" by auto
  with assms(3,4) show ?thesis
    by (simp add: fits_def key_attr_vs_config_Inr is_key_type_ok_def is_permitted_algorithms_ok_def
        ecdsa_slot_ok_def Let_def)
qed

theorem import_slot_protects_key_witness:
  "\<exists>k slots'. find_suitable_slot sample_consts pair_attributes (Some PsaImportKey) sample_slots = Some (Inr k, slots') \<and>
     sc_is_secret (slot_config (sample_slots ! unat k))"
proof -
  have len: "length sample_slots = unat (slots_count sample_consts)"
    by (simp add: sample_slots_def sample_consts_def)
  have "\<exists>i. fits sample_consts pair_attributes (Some PsaImportKey) sample_slots i" using sample_fits by blast
  then obtain k slots' where
    f: "find_suitable_slot sample_consts pair_attributes (Some PsaImportKey) sample_slots = Some (Inr k, slots')"
    using find_suitable_slot_result [OF len, of pair_attributes "Some PsaImportKey"] by (simp add: Let_def)
  from import_slot_protects_key [OF len f] f show ?thesis
    by (auto simp: pair_attributes_def Let_def)
qed

end
