(* ===== verification/Cryptoauthlib_Provider.thy ===== *)
theory Cryptoauthlib_Provider
  imports Providers Atecc_Slots
begin

text \<open>
  \<open>src/src/providers/cryptoauthlib\<close>: the provider on top of an ATECC chip. The chip is the record
  \<open>atecc_device\<close> of the functions of \<open>rust_cryptoauthlib::AteccDevice\<close> that the sources call, over
  an opaque state \<open>'d\<close>.

  The state of the provider is the key info manager, the array of slots and the state of the chip.
  An operation that indexes the array is a \<open>panic_op\<close>, whose value \<open>None\<close> is a panic. The methods of
  the trait have no such value: there a panic sets the flag \<open>cs_panicked\<close> of the state, which no code
  reads, and the status that comes with it is returned to nobody.
\<close>

section \<open>The chip\<close>

datatype atca_status = AtcaSuccess | AtcaInvalidSize | AtcaInvalidId | AtcaBadParam | OtherAtcaStatus nat

datatype atca_device_type =
    ATECC508A | ATECC608A | ATECC108A | AtcaTestDevSuccess | AtcaTestDevFail | AtcaTestDevFailUnimplemented
  | OtherDeviceType nat

datatype verify_mode = VerifyExternal bytes | VerifyInternal u8

text \<open>
  A function that fills a vector takes the vector it is given and returns it filled; vectors that
  are passed empty are left out. \<open>sign_hash\<close> is called in mode \<open>External\<close> only.
\<close>

record 'd atecc_device =
  is_configuration_locked :: "'d \<Rightarrow> bool"
  get_config :: "'d \<Rightarrow> (atca_status \<times> atca_slot list) \<times> 'd"
  get_device_type :: "'d \<Rightarrow> atca_device_type"
  add_access_key :: "u8 \<Rightarrow> bytes \<Rightarrow> 'd \<Rightarrow> atca_status \<times> 'd"
  gen_key :: "calib_key_type \<Rightarrow> u8 \<Rightarrow> 'd \<Rightarrow> atca_status \<times> 'd"
  dev_import_key :: "calib_key_type \<Rightarrow> bytes \<Rightarrow> u8 \<Rightarrow> 'd \<Rightarrow> atca_status \<times> 'd"
  dev_export_key :: "calib_key_type \<Rightarrow> u8 \<Rightarrow> 'd \<Rightarrow> (atca_status \<times> bytes) \<times> 'd"
  get_public_key :: "u8 \<Rightarrow> 'd \<Rightarrow> (atca_status \<times> bytes) \<times> 'd"
  dev_sign_hash :: "bytes \<Rightarrow> u8 \<Rightarrow> bytes \<Rightarrow> 'd \<Rightarrow> (atca_status \<times> bytes) \<times> 'd"
  dev_verify_hash :: "verify_mode \<Rightarrow> bytes \<Rightarrow> bytes \<Rightarrow> 'd \<Rightarrow> (atca_status + bool) \<times> 'd"
  dev_sha :: "bytes \<Rightarrow> bytes \<Rightarrow> 'd \<Rightarrow> (atca_status \<times> bytes) \<times> 'd"
  dev_random :: "'d \<Rightarrow> (atca_status \<times> bytes) \<times> 'd"
  atca_sig_size :: nat
  atca_sha2_256_digest_size :: nat
  atca_random_buffer_size :: usize

text \<open>The methods of the interface crate that are called on attributes and operations.\<close>

record calib_interface =
  is_public_key :: "key_type \<Rightarrow> bool"
  is_exportable :: "attributes \<Rightarrow> bool"
  calib_hash_length :: "hash_alg \<Rightarrow> nat"
  validate_sign_hash :: "sign_hash_op \<Rightarrow> attributes \<Rightarrow> unit res"
  validate_verify_hash :: "verify_hash_op \<Rightarrow> attributes \<Rightarrow> unit res"
  validate_sign_message :: "sign_message_op \<Rightarrow> attributes \<Rightarrow> unit res"
  validate_verify_message :: "verify_message_op \<Rightarrow> attributes \<Rightarrow> unit res"

section \<open>State\<close>

record ('m, 'd) calib_provider =
  cl_device :: "'d atecc_device"
  cl_consts :: calib_consts
  cl_interface :: calib_interface
  cl_key_info_store :: "'m kim_client"
  cl_id_codec :: "u8 id_codec"
  cl_supported_opcodes :: "opcode fset"
  cl_uuid_parse :: "string \<Rightarrow> bytes option"

record ('m, 'd) calib_state =
  cs_kim :: 'm
  cs_slots :: key_slot_storage
  cs_device :: 'd
  cs_panicked :: bool

type_synonym ('w, 'a) panic_op = "'w \<Rightarrow> ('a res \<times> 'w) option"

definition no_panic :: "('w, 'a) res_op \<Rightarrow> ('w, 'a) panic_op" where
  "no_panic f w = Some (f w)"

definition try_panic :: "('w, 'a) panic_op \<Rightarrow> ('a \<Rightarrow> ('w, 'b) panic_op) \<Rightarrow> ('w, 'b) panic_op" where
  "try_panic f k w =
     (case f w of
        None \<Rightarrow> None
      | Some (Inl e, w') \<Rightarrow> Some (Inl e, w')
      | Some (Inr x, w') \<Rightarrow> k x w')"

definition catch_panic :: "(('m, 'd) calib_state, 'a) panic_op \<Rightarrow> (('m, 'd) calib_state, 'a) res_op" where
  "catch_panic f w = (case f w of Some x \<Rightarrow> x | None \<Rightarrow> (Inl PsaErrorGenericError, w\<lparr>cs_panicked := True\<rparr>))"

definition calib_on_kim :: "('m, 'a) res_op \<Rightarrow> (('m, 'd) calib_state, 'a) res_op" where
  "calib_on_kim f w = (case f (cs_kim w) of (r, m) \<Rightarrow> (r, w\<lparr>cs_kim := m\<rparr>))"

definition calib_ask_kim :: "('m \<Rightarrow> 'a res) \<Rightarrow> (('m, 'd) calib_state, 'a) res_op" where
  "calib_ask_kim f w = (f (cs_kim w), w)"

definition on_slots ::
  "(key_slot_storage \<Rightarrow> ('a res \<times> key_slot_storage) option) \<Rightarrow> (('m, 'd) calib_state, 'a) panic_op" where
  "on_slots f w = map_option (\<lambda>(r, s). (r, w\<lparr>cs_slots := s\<rparr>)) (f (cs_slots w))"

definition on_device :: "('d \<Rightarrow> 'r \<times> 'd) \<Rightarrow> ('r \<Rightarrow> 'a res) \<Rightarrow> (('m, 'd) calib_state, 'a) res_op" where
  "on_device f g w = (case f (cs_device w) of (r, d) \<Rightarrow> (g r, w\<lparr>cs_device := d\<rparr>))"

section \<open>Key management\<close>

definition raw_key_extract :: "key_type \<Rightarrow> bytes \<Rightarrow> bytes res" where
  "raw_key_extract kty key =
     (case kty of
        Aes \<Rightarrow> Inr key
      | RawData \<Rightarrow> Inr key
      | EccKeyPair SecpR1 \<Rightarrow> Inr key
      | EccPublicKey SecpR1 \<Rightarrow> if length key = 65 then Inr (drop 1 key) else Inl PsaErrorInvalidArgument
      | _ \<Rightarrow> Inl PsaErrorNotSupported)"

definition raw_key_wrap :: "key_type \<Rightarrow> bytes \<Rightarrow> bytes res" where
  "raw_key_wrap kty key =
     (let ecc = if length key = 64 then Inr (0x04 # key) else Inl PsaErrorInvalidArgument in
      case kty of
        Aes \<Rightarrow> Inr key
      | RawData \<Rightarrow> Inr key
      | EccPublicKey SecpR1 \<Rightarrow> ecc
      | EccKeyPair SecpR1 \<Rightarrow> ecc
      | _ \<Rightarrow> Inl PsaErrorNotSupported)"

definition get_calib_key_type :: "attributes \<Rightarrow> calib_key_type res" where
  "get_calib_key_type attrs =
     (let ecc = if attr_bits attrs = 256 \<or> attr_bits attrs = 0 then Inr P256EccKey else Inl PsaErrorNotSupported in
      case attr_key_type attrs of
        RawData \<Rightarrow> Inr ShaOrText
      | Aes \<Rightarrow> Inr CalibAes
      | EccKeyPair SecpR1 \<Rightarrow> ecc
      | EccPublicKey SecpR1 \<Rightarrow> ecc
      | _ \<Rightarrow> Inl PsaErrorNotSupported)"

text \<open>Give a slot back and return the error; a failure to do so is only logged.\<close>

definition free_slot_and_fail :: "u8 \<Rightarrow> response_status \<Rightarrow> (('m, 'd) calib_state, 'a) panic_op" where
  "free_slot_and_fail slot_id e w =
     map_option (\<lambda>(_, s). (Inl e, w\<lparr>cs_slots := s\<rparr>)) (storage_set_slot_status (unat slot_id) Free (cs_slots w))"

definition calib_store_key ::
  "('m, 'd) calib_provider \<Rightarrow> key_triple \<Rightarrow> u8 \<Rightarrow> attributes \<Rightarrow> (('m, 'd) calib_state, unit) res_op" where
  "calib_store_key self kt slot_id attrs =
     calib_on_kim (insert_key_info (cl_id_codec self) (cl_key_info_store self) kt slot_id attrs)"

definition calib_generate_key ::
  "('m, 'd) calib_provider \<Rightarrow> application_name \<Rightarrow> generate_key_op \<Rightarrow> (('m, 'd) calib_state, unit) panic_op" where
  "calib_generate_key self app op =
     (let kt = get_key_triple (cl_key_info_store self) app (gk_key_name op); attrs = gk_attributes op in
      try_panic (no_panic (calib_ask_kim (\<lambda>m. does_not_exist (cl_key_info_store self) m kt))) (\<lambda>_.
      if is_public_key (cl_interface self) (attr_key_type attrs) then no_panic (err_op PsaErrorInvalidArgument)
      else
      try_panic (no_panic (read_op (\<lambda>_. get_calib_key_type attrs))) (\<lambda>kty.
      try_panic (on_slots (find_suitable_slot (cl_consts self) attrs (Some PsaGenerateKey))) (\<lambda>slot_id w.
      case gen_key (cl_device self) kty slot_id (cs_device w) of
        (AtcaSuccess, d) \<Rightarrow>
          (case calib_store_key self kt slot_id attrs (w\<lparr>cs_device := d\<rparr>) of
             (Inr _, w') \<Rightarrow> Some (Inr (), w')
           | (Inl e, w') \<Rightarrow> free_slot_and_fail slot_id e w')
      | (_, d) \<Rightarrow> free_slot_and_fail slot_id PsaErrorInvalidArgument (w\<lparr>cs_device := d\<rparr>)))))"

definition calib_destroy_key ::
  "('m, 'd) calib_provider \<Rightarrow> application_name \<Rightarrow> string \<Rightarrow> (('m, 'd) calib_state, unit) panic_op" where
  "calib_destroy_key self app name =
     (let kt = get_key_triple (cl_key_info_store self) app name in
      try_panic (no_panic (calib_ask_kim (\<lambda>m. get_key_id (cl_id_codec self) (cl_key_info_store self) m kt))) (\<lambda>key_id.
      try_panic (no_panic (calib_on_kim (remove_key_info (cl_key_info_store self) kt))) (\<lambda>_ w.
      map_option (\<lambda>(_, s). (Inr (), w\<lparr>cs_slots := s\<rparr>))
        (storage_set_slot_status (unat key_id) Free (cs_slots w)))))"

definition import_error :: "atca_status \<Rightarrow> response_status" where
  "import_error st =
     (if st \<in> {AtcaInvalidSize, AtcaInvalidId, AtcaBadParam} then PsaErrorInvalidArgument
      else PsaErrorHardwareFailure)"

definition calib_import_key ::
  "('m, 'd) calib_provider \<Rightarrow> application_name \<Rightarrow> import_key_op \<Rightarrow> (('m, 'd) calib_state, unit) panic_op" where
  "calib_import_key self app op =
     (let kt = get_key_triple (cl_key_info_store self) app (ik_key_name op); attrs = ik_attributes op in
      try_panic (no_panic (calib_ask_kim (\<lambda>m. does_not_exist (cl_key_info_store self) m kt))) (\<lambda>_.
      try_panic (no_panic (read_op (\<lambda>_. get_calib_key_type attrs))) (\<lambda>kty.
      try_panic (on_slots (find_suitable_slot (cl_consts self) attrs (Some PsaImportKey))) (\<lambda>slot_id.
      try_panic (no_panic (read_op (\<lambda>_. raw_key_extract (attr_key_type attrs) (ik_data op)))) (\<lambda>key_data w.
      case dev_import_key (cl_device self) kty key_data slot_id (cs_device w) of
        (st, d) \<Rightarrow>
          if st = AtcaSuccess
          then case calib_store_key self kt slot_id attrs (w\<lparr>cs_device := d\<rparr>) of
              (Inr _, w') \<Rightarrow> Some (Inr (), w')
            | (Inl _, w') \<Rightarrow> free_slot_and_fail slot_id PsaErrorStorageFailure w'
          else free_slot_and_fail slot_id (import_error st) (w\<lparr>cs_device := d\<rparr>))))))"

definition calib_export_public_key ::
  "('m, 'd) calib_provider \<Rightarrow> application_name \<Rightarrow> string \<Rightarrow> (('m, 'd) calib_state, bytes) res_op" where
  "calib_export_public_key self app name =
     (let kt = get_key_triple (cl_key_info_store self) app name in
      try_op (calib_ask_kim (\<lambda>m. get_key_attributes (cl_key_info_store self) m kt)) (\<lambda>attrs.
      if attr_key_type attrs \<in> {EccPublicKey SecpR1, EccKeyPair SecpR1}
      then
        try_op (calib_ask_kim (\<lambda>m. get_key_id (cl_id_codec self) (cl_key_info_store self) m kt)) (\<lambda>slot_number.
        on_device (get_public_key (cl_device self) slot_number) (\<lambda>(st, raw).
          if st = AtcaSuccess then raw_key_wrap (attr_key_type attrs) raw else Inl PsaErrorHardwareFailure))
      else err_op PsaErrorInvalidArgument))"

definition calib_export_key ::
  "('m, 'd) calib_provider \<Rightarrow> application_name \<Rightarrow> string \<Rightarrow> (('m, 'd) calib_state, bytes) res_op" where
  "calib_export_key self app name =
     (let kt = get_key_triple (cl_key_info_store self) app name in
      try_op (calib_ask_kim (\<lambda>m. get_key_attributes (cl_key_info_store self) m kt)) (\<lambda>attrs.
      if \<not> is_exportable (cl_interface self) attrs then err_op PsaErrorNotPermitted
      else
      try_op (read_op (\<lambda>_. get_calib_key_type attrs)) (\<lambda>kty.
      if attr_key_type attrs \<in> {Aes, RawData, EccPublicKey SecpR1}
      then
        try_op (calib_ask_kim (\<lambda>m. get_key_id (cl_id_codec self) (cl_key_info_store self) m kt)) (\<lambda>slot_number.
        on_device (dev_export_key (cl_device self) kty slot_number) (\<lambda>(st, raw).
          if st = AtcaSuccess then raw_key_wrap (attr_key_type attrs) raw else Inl PsaErrorInvalidArgument))
      else err_op PsaErrorInvalidArgument)))"

section \<open>Hashes and random numbers\<close>

definition sha256 :: "('m, 'd) calib_provider \<Rightarrow> bytes \<Rightarrow> (('m, 'd) calib_state, bytes) res_op" where
  "sha256 self msg =
     on_device (dev_sha (cl_device self) msg (replicate (atca_sha2_256_digest_size (cl_device self)) 0))
       (\<lambda>(st, hash). if st = AtcaSuccess then Inr hash else Inl PsaErrorHardwareFailure)"

definition calib_hash_compute ::
  "('m, 'd) calib_provider \<Rightarrow> hash_compute_op \<Rightarrow> (('m, 'd) calib_state, bytes) res_op" where
  "calib_hash_compute self op =
     (if hc_alg op = Sha256 then sha256 self (hc_input op) else err_op PsaErrorNotSupported)"

definition calib_hash_compare ::
  "('m, 'd) calib_provider \<Rightarrow> hash_compare_op \<Rightarrow> (('m, 'd) calib_state, unit) res_op" where
  "calib_hash_compare self op =
     (if length (hx_hash op) \<noteq> calib_hash_length (cl_interface self) Sha256 then err_op PsaErrorInvalidArgument
      else if hx_alg op = Sha256
      then try_op (sha256 self (hx_input op)) (\<lambda>hash.
             if hx_hash op \<noteq> hash then err_op PsaErrorInvalidSignature else ok_op ())
      else err_op PsaErrorNotSupported)"

text \<open>The loop of \<open>psa_generate_random_internal\<close>, on the number of calls that are left.\<close>

primrec random_loop ::
  "('m, 'd) calib_provider \<Rightarrow> nat \<Rightarrow> bytes \<Rightarrow> (('m, 'd) calib_state, bytes) res_op" where
  "random_loop self 0 random_bytes = ok_op random_bytes"
| "random_loop self (Suc n) random_bytes =
     try_op (on_device (dev_random (cl_device self))
              (\<lambda>(st, buffer). if st = AtcaSuccess then Inr buffer else Inl PsaErrorGenericError))
       (\<lambda>buffer. random_loop self n (random_bytes @ buffer))"

definition random_call_count :: "usize \<Rightarrow> usize \<Rightarrow> usize" where
  "random_call_count buffer_size sz = (sz + buffer_size - 1) div buffer_size"

definition calib_generate_random ::
  "('m, 'd) calib_provider \<Rightarrow> usize \<Rightarrow> (('m, 'd) calib_state, bytes) res_op" where
  "calib_generate_random self sz =
     try_op (random_loop self (unat (random_call_count (atca_random_buffer_size (cl_device self)) sz)) [])
       (\<lambda>random_bytes. ok_op (take (unat sz) random_bytes))"

section \<open>Signatures\<close>

definition ecdsa_hash_sign ::
  "('m, 'd) calib_provider \<Rightarrow> u8 \<Rightarrow> bytes \<Rightarrow> (('m, 'd) calib_state, bytes) res_op" where
  "ecdsa_hash_sign self key_id hash =
     on_device (dev_sign_hash (cl_device self) hash key_id (replicate (atca_sig_size (cl_device self)) 0))
       (\<lambda>(st, signature). if st = AtcaSuccess then Inr signature else Inl PsaErrorHardwareFailure)"

definition ecdsa_verify_mode_get ::
  "('m, 'd) calib_provider \<Rightarrow> u8 \<Rightarrow> key_type \<Rightarrow> (('m, 'd) calib_state, verify_mode) res_op" where
  "ecdsa_verify_mode_get self key_id kty =
     (case kty of
        EccKeyPair SecpR1 \<Rightarrow>
          on_device (get_public_key (cl_device self) key_id)
            (\<lambda>(st, raw). if st = AtcaSuccess then Inr (VerifyExternal raw) else Inl PsaErrorHardwareFailure)
      | EccPublicKey SecpR1 \<Rightarrow> ok_op (VerifyInternal key_id)
      | _ \<Rightarrow> err_op PsaErrorNotSupported)"

definition ecdsa_hash_verify ::
  "('m, 'd) calib_provider \<Rightarrow> verify_mode \<Rightarrow> bytes \<Rightarrow> bytes \<Rightarrow> (('m, 'd) calib_state, unit) res_op" where
  "ecdsa_hash_verify self mode hash signature =
     on_device (dev_verify_hash (cl_device self) mode hash signature) (\<lambda>r. case r of
         Inr True \<Rightarrow> Inr ()
       | Inr False \<Rightarrow> Inl PsaErrorInvalidSignature
       | Inl AtcaInvalidSize \<Rightarrow> Inl PsaErrorInvalidSignature
       | Inl _ \<Rightarrow> Inl PsaErrorHardwareFailure)"

definition calib_sign_hash ::
  "('m, 'd) calib_provider \<Rightarrow> application_name \<Rightarrow> sign_hash_op \<Rightarrow> (('m, 'd) calib_state, bytes) res_op" where
  "calib_sign_hash self app op =
     (let kt = key_triple_new app CryptoAuthLib (sh_key_name op) in
      try_op (calib_ask_kim (\<lambda>m. get_key_attributes (cl_key_info_store self) m kt)) (\<lambda>attrs.
      try_op (read_op (\<lambda>_. validate_sign_hash (cl_interface self) op attrs)) (\<lambda>_.
      if length (sh_hash op) \<noteq> calib_hash_length (cl_interface self) Sha256 then err_op PsaErrorInvalidArgument
      else if sh_alg op = Ecdsa (Specific Sha256)
      then try_op (calib_ask_kim (\<lambda>m. get_key_id (cl_id_codec self) (cl_key_info_store self) m kt)) (\<lambda>key_id.
             ecdsa_hash_sign self key_id (sh_hash op))
      else err_op PsaErrorNotSupported)))"

definition calib_verify_hash ::
  "('m, 'd) calib_provider \<Rightarrow> application_name \<Rightarrow> verify_hash_op \<Rightarrow> (('m, 'd) calib_state, unit) res_op" where
  "calib_verify_hash self app op =
     (let kt = get_key_triple (cl_key_info_store self) app (vh_key_name op) in
      try_op (calib_ask_kim (\<lambda>m. get_key_attributes (cl_key_info_store self) m kt)) (\<lambda>attrs.
      try_op (read_op (\<lambda>_. validate_verify_hash (cl_interface self) op attrs)) (\<lambda>_.
      if length (vh_hash op) \<noteq> calib_hash_length (cl_interface self) Sha256 then err_op PsaErrorInvalidArgument
      else if vh_alg op = Ecdsa (Specific Sha256)
      then try_op (calib_ask_kim (\<lambda>m. get_key_id (cl_id_codec self) (cl_key_info_store self) m kt)) (\<lambda>key_id.
           try_op (ecdsa_verify_mode_get self key_id (attr_key_type attrs)) (\<lambda>mode.
             ecdsa_hash_verify self mode (vh_hash op) (vh_signature op)))
      else err_op PsaErrorNotSupported)))"

definition calib_sign_message ::
  "('m, 'd) calib_provider \<Rightarrow> application_name \<Rightarrow> sign_message_op \<Rightarrow> (('m, 'd) calib_state, bytes) res_op" where
  "calib_sign_message self app op =
     (let kt = get_key_triple (cl_key_info_store self) app (sm_key_name op) in
      try_op (calib_ask_kim (\<lambda>m. get_key_attributes (cl_key_info_store self) m kt)) (\<lambda>attrs.
      try_op (read_op (\<lambda>_. validate_sign_message (cl_interface self) op attrs)) (\<lambda>_.
      if sm_alg op = Ecdsa (Specific Sha256)
      then try_op (calib_ask_kim (\<lambda>m. get_key_id (cl_id_codec self) (cl_key_info_store self) m kt)) (\<lambda>key_id.
           try_op (sha256 self (sm_message op)) (\<lambda>hash. ecdsa_hash_sign self key_id hash))
      else err_op PsaErrorNotSupported)))"

definition calib_verify_message ::
  "('m, 'd) calib_provider \<Rightarrow> application_name \<Rightarrow> verify_message_op \<Rightarrow> (('m, 'd) calib_state, unit) res_op" where
  "calib_verify_message self app op =
     (let kt = get_key_triple (cl_key_info_store self) app (vm_key_name op) in
      try_op (calib_ask_kim (\<lambda>m. get_key_attributes (cl_key_info_store self) m kt)) (\<lambda>attrs.
      try_op (read_op (\<lambda>_. validate_verify_message (cl_interface self) op attrs)) (\<lambda>_.
      if vm_alg op = Ecdsa (Specific Sha256)
      then try_op (calib_ask_kim (\<lambda>m. get_key_id (cl_id_codec self) (cl_key_info_store self) m kt)) (\<lambda>key_id.
           try_op (sha256 self (vm_message op)) (\<lambda>hash.
           try_op (ecdsa_verify_mode_get self key_id (attr_key_type attrs)) (\<lambda>mode.
             ecdsa_hash_verify self mode hash (vm_signature op))))
      else err_op PsaErrorNotSupported)))"

section \<open>Start-up\<close>

record access_key =
  ak_slot :: u8
  ak_key :: bytes

text \<open>The loop of \<open>set_access_keys\<close>; what \<open>add_access_key\<close> reports is only logged.\<close>

fun add_access_keys :: "('m, 'd) calib_provider \<Rightarrow> access_key list \<Rightarrow> 'd \<Rightarrow> 'd" where
  "add_access_keys self [] d = d"
| "add_access_keys self (ak # aks) d =
     add_access_keys self aks
       (if slots_count (cl_consts self) > ak_slot ak
        then snd (add_access_key (cl_device self) (ak_slot ak) (ak_key ak) d) else d)"

text \<open>\<open>read_to_string\<close> and \<open>toml::from_str\<close> are the first two arguments.\<close>

definition set_access_keys ::
  "(string \<Rightarrow> string option) \<Rightarrow> (string \<Rightarrow> access_key list option) \<Rightarrow> ('m, 'd) calib_provider \<Rightarrow> string option \<Rightarrow>
   'd \<Rightarrow> atca_status option \<times> 'd" where
  "set_access_keys read_to_string from_toml self access_keys_file_name d =
     (case Option.bind access_keys_file_name read_to_string of
        None \<Rightarrow> (None, d)
      | Some config_string \<Rightarrow>
          (case from_toml config_string of
             None \<Rightarrow> (None, d)
           | Some access_keys \<Rightarrow> (Some AtcaSuccess, add_access_keys self access_keys d)))"

text \<open>
  \<open>HashSet::insert\<close> is true for a new element, so the chain of insertions into the empty set
  runs to its end.
\<close>

definition calib_chip_opcodes :: "opcode list" where
  "calib_chip_opcodes =
     [PsaGenerateKey, PsaDestroyKey, PsaHashCompute, PsaHashCompare, PsaGenerateRandom, PsaImportKey, PsaSignHash,
      PsaVerifyHash, PsaSignMessage, PsaVerifyMessage, PsaExportPublicKey, PsaExportKey]"

definition set_opcodes :: "'d atecc_device \<Rightarrow> 'd \<Rightarrow> opcode fset \<Rightarrow> unit option \<times> opcode fset" where
  "set_opcodes dev d supported =
     (let insert_all = (\<lambda>ops. fold (\<lambda>op (ok, s). if ok then (op |\<notin>| s, finsert op s) else (ok, s)) ops (True, supported)) in
      case get_device_type dev d of
        OtherDeviceType _ \<Rightarrow> (None, supported)
      | ATECC508A \<Rightarrow> (case insert_all calib_chip_opcodes of (ok, s) \<Rightarrow> (if ok then Some () else None, s))
      | ATECC608A \<Rightarrow> (case insert_all calib_chip_opcodes of (ok, s) \<Rightarrow> (if ok then Some () else None, s))
      | ATECC108A \<Rightarrow> (case insert_all calib_chip_opcodes of (ok, s) \<Rightarrow> (if ok then Some () else None, s))
      | _ \<Rightarrow> (Some (), finsert PsaGenerateRandom supported))"

text \<open>
  The validation of the stored triples against the slots. The value is the list of triples to remove and the
  new slots; \<open>None\<close> is a panic.
\<close>

fun calib_scan ::
  "('m, 'd) calib_provider \<Rightarrow> 'm \<Rightarrow> key_triple list \<Rightarrow> key_triple list \<Rightarrow> key_slot_storage \<Rightarrow>
   (key_triple list \<times> key_slot_storage) option" where
  "calib_scan self m [] to_remove slots = Some (to_remove, slots)"
| "calib_scan self m (kt # kts) to_remove slots =
     (case does_not_exist (cl_key_info_store self) m kt of
        Inl _ \<Rightarrow> calib_scan self m kts (to_remove @ [kt]) slots
      | Inr _ \<Rightarrow>
          (case get_key_id (cl_id_codec self) (cl_key_info_store self) m kt of
             Inl _ \<Rightarrow> calib_scan self m kts (to_remove @ [kt]) slots
           | Inr key_info_id \<Rightarrow>
               (case get_key_attributes (cl_key_info_store self) m kt of
                  Inl _ \<Rightarrow> calib_scan self m kts (to_remove @ [kt]) slots
                | Inr attrs \<Rightarrow>
                    (case key_validate_and_mark_busy (cl_consts self) key_info_id attrs slots of
                       None \<Rightarrow> None
                     | Some (Inr _, slots') \<Rightarrow> calib_scan self m kts to_remove slots'
                     | Some (Inl _, slots') \<Rightarrow> calib_scan self m kts (to_remove @ [kt]) slots'))))"

text \<open>
  \<open>Provider::new\<close> after the device was set up. The provider that is passed has no opcodes yet; the
  result has them. The inner \<open>None\<close> is the early return, the outer one a panic.
\<close>

definition calib_new ::
  "(string \<Rightarrow> string option) \<Rightarrow> (string \<Rightarrow> access_key list option) \<Rightarrow> ('m, 'd) calib_provider \<Rightarrow> string option \<Rightarrow>
   'm \<Rightarrow> 'd \<Rightarrow> ((('m, 'd) calib_provider \<times> ('m, 'd) calib_state) option \<times> 'm) option" where
  "calib_new read_to_string from_toml self access_key_file_name m d =
     (let dev = cl_device self in
      if \<not> is_configuration_locked dev d then Some (None, m)
      else case get_config dev d of
        ((st, atecc_config_vec), d1) \<Rightarrow>
          if st \<noteq> AtcaSuccess then Some (None, m)
          else
          Option.bind (set_hw_config atecc_config_vec (storage_new (cl_consts self))) (\<lambda>slots.
          case kim_get_all (cl_key_info_store self) m of
            Inl _ \<Rightarrow> Some (None, m)
          | Inr kts \<Rightarrow>
              Option.bind (calib_scan self m kts [] slots) (\<lambda>(to_remove, slots1).
              case remove_triples (cl_key_info_store self) to_remove m of
                (False, m1) \<Rightarrow> Some (None, m1)
              | (True, m1) \<Rightarrow>
                  Some (Some
                    (self\<lparr>cl_supported_opcodes := snd (set_opcodes dev d1 {||})\<rparr>,
                     \<lparr>cs_kim = m1, cs_slots = slots1,
                      cs_device = snd (set_access_keys read_to_string from_toml self access_key_file_name d1),
                      cs_panicked = False\<rparr>), m1))))"

section \<open>The trait implementation\<close>

definition calib_describe :: "('m, 'd) calib_provider \<Rightarrow> (provider_info \<times> opcode fset) res" where
  "calib_describe self =
     try_res (ok_or (cl_uuid_parse self ''b8ba81e2-e9f7-4bdd-b096-a29d0019960c'') InvalidEncoding) (\<lambda>uuid.
     Inr (\<lparr>pi_uuid = uuid,
           pi_description = ''User space hardware provider, utilizing MicrochipTech CryptoAuthentication '' @
             ''Library for ATECCx08 chips'',
           pi_vendor = ''Arm'', pi_version_maj = 0, pi_version_min = 1, pi_version_rev = 0,
           pi_id = CryptoAuthLib\<rparr>,
          cl_supported_opcodes self))"

definition calib_list_keys ::
  "('m, 'd) calib_provider \<Rightarrow> application_name \<Rightarrow> (('m, 'd) calib_state, listed_key list) res_op" where
  "calib_list_keys self app = calib_ask_kim (\<lambda>m. kim_list_keys (cl_key_info_store self) m app)"

definition calib_list_clients :: "('m, 'd) calib_provider \<Rightarrow> (('m, 'd) calib_state, string list) res_op" where
  "calib_list_clients self = calib_ask_kim (kim_list_clients (cl_key_info_store self))"

definition if_supported :: "('m, 'd) calib_provider \<Rightarrow> opcode \<Rightarrow> ('w, 'a) res_op \<Rightarrow> ('w, 'a) res_op" where
  "if_supported self op f = (if op |\<notin>| cl_supported_opcodes self then err_op PsaErrorNotSupported else f)"

definition calib_provide :: "('m, 'd) calib_provider \<Rightarrow> ('m, 'd) calib_state provide" where
  "calib_provide self =
     (default_provide (Some (calib_describe self)) (calib_list_keys self) (calib_list_clients self))
       \<lparr>p_psa_hash_compute := \<lambda>op. if_supported self PsaHashCompute (calib_hash_compute self op),
        p_psa_hash_compare := \<lambda>op. if_supported self PsaHashCompare (calib_hash_compare self op),
        p_psa_generate_random := \<lambda>sz. if_supported self PsaGenerateRandom (calib_generate_random self sz),
        p_psa_generate_key := \<lambda>app op. if_supported self PsaGenerateKey (catch_panic (calib_generate_key self app op)),
        p_psa_destroy_key := \<lambda>app k. if_supported self PsaDestroyKey (catch_panic (calib_destroy_key self app k)),
        p_psa_import_key := \<lambda>app op. if_supported self PsaImportKey (catch_panic (calib_import_key self app op)),
        p_psa_sign_hash := \<lambda>app op. if_supported self PsaSignHash (calib_sign_hash self app op),
        p_psa_verify_hash := \<lambda>app op. if_supported self PsaVerifyHash (calib_verify_hash self app op),
        p_psa_sign_message := \<lambda>app op. if_supported self PsaSignMessage (calib_sign_message self app op),
        p_psa_verify_message := \<lambda>app op. if_supported self PsaVerifyMessage (calib_verify_message self app op),
        p_psa_export_public_key := \<lambda>app k. if_supported self PsaExportPublicKey (calib_export_public_key self app k),
        p_psa_export_key := \<lambda>app k. if_supported self PsaExportKey (calib_export_key self app k)\<rparr>"

section \<open>The builder\<close>

record 'm calib_builder =
  cb_key_info_store :: "'m kim_client option"
  cb_device_type :: "string option"
  cb_iface_type :: "string option"
  cb_wake_delay :: "u16 option"
  cb_rx_retries :: "32 word option"
  cb_slave_address :: "u8 option"
  cb_bus :: "u8 option"
  cb_baud :: "u32 option"
  cb_access_key_file_name :: "string option"

definition calib_builder_new :: "'m calib_builder" where
  "calib_builder_new =
     \<lparr>cb_key_info_store = None, cb_device_type = None, cb_iface_type = None, cb_wake_delay = None,
      cb_rx_retries = None, cb_slave_address = None, cb_bus = None, cb_baud = None, cb_access_key_file_name = None\<rparr>"

definition calib_with_key_info_store :: "'m calib_builder \<Rightarrow> 'm kim_client \<Rightarrow> 'm calib_builder" where
  "calib_with_key_info_store self x = self\<lparr>cb_key_info_store := Some x\<rparr>"

definition calib_with_device_type :: "'m calib_builder \<Rightarrow> string \<Rightarrow> 'm calib_builder" where
  "calib_with_device_type self x = self\<lparr>cb_device_type := Some x\<rparr>"

definition calib_with_iface_type :: "'m calib_builder \<Rightarrow> string \<Rightarrow> 'm calib_builder" where
  "calib_with_iface_type self x = self\<lparr>cb_iface_type := Some x\<rparr>"

definition calib_with_wake_delay :: "'m calib_builder \<Rightarrow> u16 option \<Rightarrow> 'm calib_builder" where
  "calib_with_wake_delay self x = self\<lparr>cb_wake_delay := x\<rparr>"

definition calib_with_rx_retries :: "'m calib_builder \<Rightarrow> 32 word option \<Rightarrow> 'm calib_builder" where
  "calib_with_rx_retries self x = self\<lparr>cb_rx_retries := x\<rparr>"

definition calib_with_slave_address :: "'m calib_builder \<Rightarrow> u8 option \<Rightarrow> 'm calib_builder" where
  "calib_with_slave_address self x = self\<lparr>cb_slave_address := x\<rparr>"

definition calib_with_bus :: "'m calib_builder \<Rightarrow> u8 option \<Rightarrow> 'm calib_builder" where
  "calib_with_bus self x = self\<lparr>cb_bus := x\<rparr>"

definition calib_with_baud :: "'m calib_builder \<Rightarrow> u32 option \<Rightarrow> 'm calib_builder" where
  "calib_with_baud self x = self\<lparr>cb_baud := x\<rparr>"

definition calib_with_access_key_file :: "'m calib_builder \<Rightarrow> string option \<Rightarrow> 'm calib_builder" where
  "calib_with_access_key_file self x = self\<lparr>cb_access_key_file_name := x\<rparr>"

text \<open>The interface configurations that \<open>build\<close> assembles with the setters of the library.\<close>

datatype atca_iface_cfg =
    IfaceI2c (i2c_devtype: string) (i2c_wake_delay: u16) (i2c_rx_retries: "32 word") (i2c_slave_address: u8)
      (i2c_bus: u8) (i2c_baud: u32)
  | IfaceTest (test_devtype: string)

definition calib_iface_cfg :: "'m calib_builder \<Rightarrow> string + atca_iface_cfg" where
  "calib_iface_cfg self =
     (case cb_iface_type self of
        None \<Rightarrow> Inl ''Missing inteface type''
      | Some x \<Rightarrow>
          if x = ''i2c''
          then
            try_res (ok_or (cb_slave_address self) ''missing atecc i2c slave address'') (\<lambda>slave_address.
            try_res (ok_or (cb_bus self) ''missing atecc i2c bus'') (\<lambda>bus.
            try_res (ok_or (cb_baud self) ''missing atecc i2c baud rate'') (\<lambda>baud.
            try_res (ok_or (cb_device_type self) ''missing atecc device type'') (\<lambda>device_type.
            try_res (ok_or (cb_wake_delay self) ''missing atecc wake delay'') (\<lambda>wake_delay.
            try_res (ok_or (cb_rx_retries self) ''missing rx retries number for atecc'') (\<lambda>rx_retries.
            Inr (IfaceI2c device_type wake_delay rx_retries slave_address bus baud)))))))
          else if x = ''test-interface''
          then try_res (ok_or (cb_device_type self) ''missing atecc device type'') (\<lambda>device_type.
                 Inr (IfaceTest device_type))
          else Inl ''Unsupported inteface type'')"

text \<open>
  \<open>build\<close>. \<open>setup\<close> is \<open>setup_atecc_device\<close>, the first step of \<open>new\<close>; \<open>mk\<close> puts the key info store
  into a provider with no opcodes.
\<close>

definition calib_build ::
  "(string \<Rightarrow> string option) \<Rightarrow> (string \<Rightarrow> access_key list option) \<Rightarrow> (atca_iface_cfg \<Rightarrow> 'd option) \<Rightarrow>
   ('m kim_client \<Rightarrow> ('m, 'd) calib_provider) \<Rightarrow> 'm calib_builder \<Rightarrow> 'm \<Rightarrow>
   ((string + ('m, 'd) calib_provider \<times> ('m, 'd) calib_state) \<times> 'm) option" where
  "calib_build read_to_string from_toml setup mk self m =
     (case calib_iface_cfg self of
        Inl e \<Rightarrow> Some (Inl e, m)
      | Inr iface_cfg \<Rightarrow>
          (case cb_key_info_store self of
             None \<Rightarrow> Some (Inl ''missing key info store'', m)
           | Some store \<Rightarrow>
               (case setup iface_cfg of
                  None \<Rightarrow> Some (Inl ''CryptoAuthLib Provider initialization failed'', m)
                | Some d \<Rightarrow>
                    map_option
                      (\<lambda>(r, m'). (ok_or r ''CryptoAuthLib Provider initialization failed'', m'))
                      (calib_new read_to_string from_toml (mk store) (cb_access_key_file_name self) m d))))"

end
