(* ===== verification/File_System.thy ===== *)
theory File_System
  imports Parsec_Prelude
begin

text \<open>
  The part of \<open>std::fs\<close> that the on-disk key info manager uses, on a tree of directories and
  files. A path is the list of its components from the root. The tree is a map from non-empty
  paths to nodes, the root always being a directory.

  Any call can fail. Which calls fail is given by a schedule \<open>io_fault\<close>, consulted with the
  number of calls made so far: \<open>None\<close> lets the call proceed, \<open>Some k\<close> makes it fail after the
  first \<open>k\<close> bytes were written or the first \<open>k\<close> directories of the path were visited. Nothing is
  assumed about the schedule except where a statement says so. The order in which a
  directory is listed is a field of the disk as well.
\<close>

type_synonym path = "string list"

datatype node = Dir | File bytes

record disk =
  nodes :: "(path, node) hash_map"
  dir_order :: "string list \<Rightarrow> string list"
  io_fault :: "nat \<Rightarrow> nat option"
  clock :: nat

type_synonym io_error = string
type_synonym 'a io = "(disk, io_error, 'a) rust_op"

section \<open>Paths\<close>

text \<open>
  \<open>Path::join\<close> for a name without separators: joining the empty name denotes the directory
  itself.
\<close>

definition path_join :: "path \<Rightarrow> string \<Rightarrow> path" where
  "path_join p n = (if n = [] then p else p @ [n])"

definition file_name :: "path \<Rightarrow> string option" where
  "file_name p = (if p = [] then None else Some (last p))"

text \<open>\<open>OsStr::to_str\<close>: file names are bytes, of which only valid UTF-8 is a string.\<close>

definition to_str :: "string \<Rightarrow> string option" where
  "to_str n = (if utf8_string n then Some n else None)"

section \<open>Operations\<close>

definition node_at :: "disk \<Rightarrow> path \<Rightarrow> node option" where
  "node_at d p = (if p = [] then Some Dir else hm_get (nodes d) p)"

definition fault_now :: "disk \<Rightarrow> nat option" where
  "fault_now d = io_fault d (clock d)"

definition tick :: "disk \<Rightarrow> disk" where
  "tick d = d\<lparr>clock := Suc (clock d)\<rparr>"

fun make_dirs :: "path \<Rightarrow> string list \<Rightarrow> (path, node) hash_map \<Rightarrow> bool \<times> (path, node) hash_map" where
  "make_dirs pre [] ns = (True, ns)"
| "make_dirs pre (c # cs) ns =
     (case hm_get ns (pre @ [c]) of
        Some Dir \<Rightarrow> make_dirs (pre @ [c]) cs ns
      | Some (File _) \<Rightarrow> (False, ns)
      | None \<Rightarrow> make_dirs (pre @ [c]) cs (hm_insert (pre @ [c]) Dir ns))"

definition create_dir_all :: "path \<Rightarrow> unit io" where
  "create_dir_all p d =
     (case fault_now d of
        Some k \<Rightarrow> (Inl ''create_dir_all'', tick (d\<lparr>nodes := snd (make_dirs [] (take k p) (nodes d))\<rparr>))
      | None \<Rightarrow>
          (case make_dirs [] p (nodes d) of
             (ok, ns) \<Rightarrow> (if ok then Inr () else Inl ''create_dir_all'', tick (d\<lparr>nodes := ns\<rparr>))))"

text \<open>\<open>Path::exists\<close>, \<open>is_dir\<close> and \<open>is_file\<close> answer \<open>false\<close> when the query itself fails.\<close>

definition path_exists :: "path \<Rightarrow> disk \<Rightarrow> bool \<times> disk" where
  "path_exists p d = (fault_now d = None \<and> node_at d p \<noteq> None, tick d)"

definition is_dir :: "path \<Rightarrow> disk \<Rightarrow> bool \<times> disk" where
  "is_dir p d = (fault_now d = None \<and> node_at d p = Some Dir, tick d)"

definition is_file :: "path \<Rightarrow> disk \<Rightarrow> bool \<times> disk" where
  "is_file p d = (fault_now d = None \<and> (case node_at d p of Some (File c) \<Rightarrow> True | _ \<Rightarrow> False), tick d)"

definition remove_file :: "path \<Rightarrow> unit io" where
  "remove_file p d =
     (if fault_now d \<noteq> None then (Inl ''remove_file'', tick d)
      else case node_at d p of
        Some (File c) \<Rightarrow> (Inr (), tick (d\<lparr>nodes := hm_remove p (nodes d)\<rparr>))
      | _ \<Rightarrow> (Inl ''remove_file'', tick d))"

text \<open>\<open>File::create\<close> creates an empty file or truncates an existing one.\<close>

definition file_create :: "path \<Rightarrow> unit io" where
  "file_create p d =
     (if fault_now d \<noteq> None \<or> p = [] \<or> node_at d (butlast p) \<noteq> Some Dir \<or> node_at d p = Some Dir
      then (Inl ''create'', tick d)
      else (Inr (), tick (d\<lparr>nodes := hm_insert p (File []) (nodes d)\<rparr>)))"

definition append_bytes :: "path \<Rightarrow> bytes \<Rightarrow> disk \<Rightarrow> disk" where
  "append_bytes p bs d =
     (case node_at d p of
        Some (File c) \<Rightarrow> d\<lparr>nodes := hm_insert p (File (c @ bs)) (nodes d)\<rparr>
      | _ \<Rightarrow> d)"

definition write_all :: "path \<Rightarrow> bytes \<Rightarrow> unit io" where
  "write_all p bs d =
     (case fault_now d of
        Some k \<Rightarrow> (Inl ''write_all'', tick (append_bytes p (take k bs) d))
      | None \<Rightarrow> (Inr (), tick (append_bytes p bs d)))"

text \<open>\<open>Path::read_dir\<close>, all entries collected: the names of the children.\<close>

definition child_names :: "(path, node) hash_map \<Rightarrow> path \<Rightarrow> string list" where
  "child_names ns p = map last (filter (\<lambda>q. q \<noteq> [] \<and> butlast q = p) (hm_keys ns))"

definition read_dir :: "path \<Rightarrow> path list io" where
  "read_dir p d =
     (if fault_now d \<noteq> None \<or> node_at d p \<noteq> Some Dir then (Inl ''read_dir'', tick d)
      else (Inr (map (\<lambda>n. p @ [n]) (dir_order d (child_names (nodes d) p))), tick d))"

definition file_open :: "path \<Rightarrow> unit io" where
  "file_open p d =
     (if fault_now d \<noteq> None \<or> node_at d p = None then (Inl ''open'', tick d) else (Inr (), tick d))"

definition read_to_end :: "path \<Rightarrow> bytes io" where
  "read_to_end p d =
     (if fault_now d \<noteq> None then (Inl ''read'', tick d)
      else case node_at d p of
        Some (File c) \<Rightarrow> (Inr c, tick d)
      | _ \<Rightarrow> (Inl ''read'', tick d))"

section \<open>Well-formed trees\<close>

text \<open>
  A tree is well formed when its map is and every node hangs in a directory, and no node has an
  empty name. Every operation keeps this.
\<close>

definition fs_wf :: "disk \<Rightarrow> bool" where
  "fs_wf d \<longleftrightarrow> hm_wf (nodes d) \<and> iteration_order (dir_order d) \<and>
     (\<forall>p. hm_get (nodes d) p \<noteq> None \<longrightarrow> p \<noteq> [] \<and> [] \<notin> set p \<and> node_at d (butlast p) = Some Dir)"

text \<open>No call will fail any more.\<close>

definition quiet :: "disk \<Rightarrow> bool" where
  "quiet d \<longleftrightarrow> (\<forall>n \<ge> clock d. io_fault d n = None)"

lemma tick_sel [simp]:
  "nodes (tick d) = nodes d" "dir_order (tick d) = dir_order d" "io_fault (tick d) = io_fault d"
  "clock (tick d) = Suc (clock d)"
  by (simp_all add: tick_def)

lemma node_at_tick [simp]: "node_at (tick d) p = node_at d p"
  by (simp add: node_at_def)

lemma fs_wf_tick [simp]: "fs_wf (tick d) \<longleftrightarrow> fs_wf d"
  by (simp add: fs_wf_def)

lemma quiet_tick [simp]: "quiet d \<Longrightarrow> quiet (tick d)"
  by (simp add: quiet_def)

lemma io_fault_update [simp]:
  "node_at (d\<lparr>io_fault := f\<rparr>) p = node_at d p" "fs_wf (d\<lparr>io_fault := f\<rparr>) \<longleftrightarrow> fs_wf d"
  by (simp_all add: node_at_def fs_wf_def)

lemma quiet_now [simp]: "quiet d \<Longrightarrow> fault_now d = None"
  by (simp add: quiet_def fault_now_def)

lemma node_at_Nil [simp]: "node_at d [] = Some Dir"
  by (simp add: node_at_def)

lemma fs_wf_parent:
  "fs_wf d \<Longrightarrow> node_at d (p @ [n]) \<noteq> None \<Longrightarrow> node_at d p = Some Dir \<and> n \<noteq> []"
  unfolding fs_wf_def node_at_def by (metis (no_types, lifting) append_is_Nil_conv butlast_snoc
      in_set_conv_decomp not_Cons_self2)

lemma set_child_names:
  "set (child_names ns p) = {n. hm_get ns (p @ [n]) \<noteq> None}"
proof -
  have "n \<in> set (child_names ns p) \<longleftrightarrow> p @ [n] \<in> dom (hm_get ns)" for n
  proof
    assume "n \<in> set (child_names ns p)"
    then obtain q where "q \<in> dom (hm_get ns)" "q \<noteq> []" "butlast q = p" "n = last q"
      by (auto simp: child_names_def)
    then show "p @ [n] \<in> dom (hm_get ns)" by auto
  next
    assume "p @ [n] \<in> dom (hm_get ns)"
    then show "n \<in> set (child_names ns p)" by (force simp: child_names_def)
  qed
  then show ?thesis by auto
qed

section \<open>What the operations change\<close>

text \<open>The paths that \<open>make_dirs\<close> may create below a directory.\<close>

definition dir_chain :: "path \<Rightarrow> string list \<Rightarrow> path set" where
  "dir_chain pre cs = {pre @ take n cs | n. 0 < n \<and> n \<le> length cs}"

lemma dir_chain_Nil [simp]: "dir_chain pre [] = {}"
  by (auto simp: dir_chain_def)

lemma dir_chain_Cons: "dir_chain pre (c # cs) = insert (pre @ [c]) (dir_chain (pre @ [c]) cs)"
proof -
  have "{pre @ take n (c # cs) |n. 0 < n \<and> n \<le> length (c # cs)} =
    {pre @ c # take n cs |n. n \<le> length cs}"
    by (auto simp: gr0_conv_Suc) (metis Suc_le_mono take_Suc_Cons zero_less_Suc)
  also have "\<dots> = insert (pre @ [c]) {pre @ c # take n cs |n. 0 < n \<and> n \<le> length cs}"
    by (auto intro: exI [of _ 0])
  finally show ?thesis by (simp add: dir_chain_def)
qed

lemma make_dirs_get:
  assumes "make_dirs pre cs ns = (ok, ns')"
  shows "hm_get ns' p = hm_get ns p \<or>
    hm_get ns p = None \<and> hm_get ns' p = Some Dir \<and> p \<in> dir_chain pre cs"
  using assms
proof (induction pre cs ns rule: make_dirs.induct)
  case (2 pre c cs ns)
  show ?case
  proof (cases "hm_get ns (pre @ [c])")
    case None
    then have md: "make_dirs (pre @ [c]) cs (hm_insert (pre @ [c]) Dir ns) = (ok, ns')"
      using "2.prems" by simp
    show ?thesis
    proof (cases "p = pre @ [c]")
      case True
      with None "2.IH"(1) [OF None md] show ?thesis by (auto simp: hm_simps dir_chain_Cons)
    next
      case False
      with "2.IH"(1) [OF None md] show ?thesis by (simp add: hm_simps dir_chain_Cons)
    qed
  next
    case (Some x)
    then show ?thesis using "2.IH"(2) [OF Some] "2.prems"
      by (auto simp: dir_chain_Cons split: node.splits)
  qed
qed simp

lemma make_dirs_True:
  assumes "make_dirs pre cs ns = (True, ns')" and "p \<in> dir_chain pre cs"
  shows "hm_get ns' p = Some Dir"
  using assms
proof (induction pre cs ns rule: make_dirs.induct)
  case (2 pre c cs ns)
  show ?case
  proof (cases "p = pre @ [c]")
    case True
    show ?thesis
    proof (cases "hm_get ns (pre @ [c])")
      case None
      with "2.prems"(1) True make_dirs_get [of "pre @ [c]" cs "hm_insert (pre @ [c]) Dir ns" True ns' p]
      show ?thesis by (auto simp: hm_simps)
    next
      case (Some x)
      with "2.prems"(1) True make_dirs_get [of "pre @ [c]" cs ns True ns' p]
      show ?thesis by (auto split: node.splits)
    qed
  next
    case False
    with "2.prems"(2) have "p \<in> dir_chain (pre @ [c]) cs" by (simp add: dir_chain_Cons)
    with 2 show ?thesis by (auto split: option.splits node.splits)
  qed
qed simp

lemma make_dirs_wf: "make_dirs pre cs ns = (ok, ns') \<Longrightarrow> hm_wf ns \<Longrightarrow> hm_wf ns'"
  by (induction pre cs ns rule: make_dirs.induct) (auto split: option.splits node.splits)

text \<open>Every operation keeps a tree well formed.\<close>

lemma dir_chain_no_empty: "p \<in> dir_chain pre cs \<Longrightarrow> [] \<notin> set pre \<Longrightarrow> [] \<notin> set cs \<Longrightarrow> p \<noteq> [] \<and> [] \<notin> set p"
  by (auto simp: dir_chain_def dest: in_set_takeD)

lemma fs_wf_make_dirs:
  assumes "make_dirs pre cs (nodes d) = (ok, ns')" and "fs_wf d" and "[] \<notin> set cs"
    and "[] \<notin> set pre" and "node_at d pre = Some Dir"
  shows "fs_wf (d\<lparr>nodes := ns'\<rparr>)"
  using assms
proof (induction pre cs "nodes d" arbitrary: d rule: make_dirs.induct)
  case (2 pre c cs)
  show ?case
  proof (cases "hm_get (nodes d) (pre @ [c])")
    case None
    let ?d = "d\<lparr>nodes := hm_insert (pre @ [c]) Dir (nodes d)\<rparr>"
    have "fs_wf ?d" using "2.prems" None
      by (auto simp: fs_wf_def node_at_def hm_simps)
    moreover have "make_dirs (pre @ [c]) cs (nodes ?d) = (ok, ns')" using "2.prems"(1) None by simp
    ultimately have "fs_wf (?d\<lparr>nodes := ns'\<rparr>)"
      using "2.hyps"(1) [OF None, of ?d] "2.prems" by (simp add: node_at_def hm_simps)
    then show ?thesis by simp
  next
    case (Some x)
    show ?thesis
    proof (cases x)
      case Dir
      with Some 2 show ?thesis by (auto simp: node_at_def)
    next
      case (File bs)
      with Some "2.prems"(1) have "ns' = nodes d" by simp
      with "2.prems"(2) show ?thesis by simp
    qed
  qed
next
  case (1 pre)
  then have "ns' = nodes d" by simp
  with "1.prems"(2) show ?case by simp
qed

lemma fs_wf_create_dir_all:
  assumes "create_dir_all p d = (r, d')" and "fs_wf d" and "[] \<notin> set p"
  shows "fs_wf d'"
proof (cases "fault_now d")
  case None
  obtain ok ns where "make_dirs [] p (nodes d) = (ok, ns)" by fastforce
  with assms None fs_wf_make_dirs [of "[]" p d] show ?thesis by (auto simp: create_dir_all_def)
next
  case (Some k)
  obtain ok ns where "make_dirs [] (take k p) (nodes d) = (ok, ns)" by fastforce
  moreover have "[] \<notin> set (take k p)" using assms(3) by (blast dest: in_set_takeD)
  ultimately show ?thesis using assms Some fs_wf_make_dirs [of "[]" "take k p" d]
    by (auto simp: create_dir_all_def)
qed

lemma fs_wf_remove_file:
  assumes "remove_file p d = (r, d')" and "fs_wf d"
  shows "fs_wf d'"
proof -
  have "fs_wf (d\<lparr>nodes := hm_remove p (nodes d)\<rparr>)" if "node_at d p = Some (File c)" for c
  proof -
    have "hm_get (nodes d) q = None" if "p = butlast q" for q
      using that assms(2) \<open>node_at d p = Some (File c)\<close> by (auto simp: fs_wf_def)
    then show ?thesis using assms(2) by (auto simp: fs_wf_def node_at_def hm_simps)
  qed
  with assms show ?thesis by (auto simp: remove_file_def split: if_splits option.splits node.splits)
qed

lemma fs_wf_set_file:
  assumes "fs_wf d" and "node_at d (butlast p) = Some Dir" and "node_at d p \<noteq> Some Dir"
    and "p \<noteq> []" and "[] \<notin> set p"
  shows "fs_wf (d\<lparr>nodes := hm_insert p (File c) (nodes d)\<rparr>)"
proof -
  have "butlast p \<noteq> p" using assms(4)
    by (metis append_butlast_last_id not_Cons_self2 self_append_conv)
  moreover have "butlast q \<noteq> p" if "hm_get (nodes d) q \<noteq> None" for q
    using that assms(1,3) by (auto simp: fs_wf_def)
  ultimately show ?thesis using assms by (auto simp: fs_wf_def node_at_def hm_simps)
qed

lemma fs_wf_file_create:
  assumes "file_create p d = (r, d')" and "fs_wf d" and "[] \<notin> set p"
  shows "fs_wf d'"
  using assms fs_wf_set_file [of d p "[]"] by (auto simp: file_create_def split: if_splits)

lemma fs_wf_append_bytes: "fs_wf d \<Longrightarrow> fs_wf (append_bytes p bs d)"
proof (cases "node_at d p")
  case (Some x)
  assume wf: "fs_wf d"
  show ?thesis
  proof (cases x)
    case (File c)
    with Some have p: "hm_get (nodes d) p = Some (File c)" "p \<noteq> []" by (auto simp: node_at_def split: if_splits)
    with wf have "node_at d (butlast p) = Some Dir" "[] \<notin> set p" by (auto simp: fs_wf_def)
    with fs_wf_set_file [OF wf] p Some File show ?thesis by (simp add: append_bytes_def)
  qed (use Some wf in \<open>simp add: append_bytes_def\<close>)
qed (simp add: append_bytes_def)

lemma fs_wf_write_all: "write_all p bs d = (r, d') \<Longrightarrow> fs_wf d \<Longrightarrow> fs_wf d'"
  using fs_wf_append_bytes by (auto simp: write_all_def split: option.splits)

section \<open>Reading without faults\<close>

text \<open>The tree is the same, only calls have been made.\<close>

definition unchanged :: "disk \<Rightarrow> disk \<Rightarrow> bool" where
  "unchanged d d' \<longleftrightarrow> nodes d' = nodes d \<and> dir_order d' = dir_order d \<and>
     io_fault d' = io_fault d \<and> clock d \<le> clock d'"

lemma unchanged_refl [simp]: "unchanged d d"
  by (simp add: unchanged_def)

lemma unchanged_tick [simp]: "unchanged d (tick d)"
  by (simp add: unchanged_def)

lemma unchanged_trans: "unchanged d d' \<Longrightarrow> unchanged d' d'' \<Longrightarrow> unchanged d d''"
  by (simp add: unchanged_def)

lemma unchanged_quiet: "unchanged d d' \<Longrightarrow> quiet d \<Longrightarrow> quiet d'"
  by (auto simp: unchanged_def quiet_def)

lemma unchanged_node_at: "unchanged d d' \<Longrightarrow> node_at d' p = node_at d p"
  by (simp add: unchanged_def node_at_def)

lemma unchanged_fs_wf: "unchanged d d' \<Longrightarrow> fs_wf d' \<longleftrightarrow> fs_wf d"
  by (simp add: fs_wf_def unchanged_node_at) (simp add: unchanged_def)

lemmas unchanged_facts = unchanged_quiet unchanged_node_at unchanged_fs_wf

lemma read_dir_quiet:
  assumes "quiet d" and "node_at d p = Some Dir" and "fs_wf d"
  shows "\<exists>es. read_dir p d = (Inr es, tick d) \<and> set es = {p @ [n] | n. node_at d (p @ [n]) \<noteq> None}"
  using assms by (auto simp: read_dir_def set_child_names fs_wf_def node_at_def)

lemma file_open_quiet: "quiet d \<Longrightarrow> node_at d p = Some (File c) \<Longrightarrow> file_open p d = (Inr (), tick d)"
  by (simp add: file_open_def)

lemma read_to_end_quiet: "quiet d \<Longrightarrow> node_at d p = Some (File c) \<Longrightarrow> read_to_end p d = (Inr c, tick d)"
  by (simp add: read_to_end_def)

lemma make_dirs_existing:
  assumes "\<And>q. q \<in> dir_chain pre cs \<Longrightarrow> hm_get ns q = Some Dir"
  shows "make_dirs pre cs ns = (True, ns)"
  using assms by (induction pre cs ns rule: make_dirs.induct) (auto simp: dir_chain_Cons)

lemma fs_wf_ancestor:
  assumes "fs_wf d" and "node_at d (p @ q) = Some Dir"
  shows "node_at d p = Some Dir"
  using assms
proof (induction q rule: rev_induct)
  case (snoc n q)
  then have "node_at d ((p @ q) @ [n]) \<noteq> None" by simp
  from fs_wf_parent [OF snoc.prems(1) this] snoc show ?case by simp
qed simp

lemma dir_chain_prefix: "q \<in> dir_chain [] cs \<Longrightarrow> \<exists>r. cs = q @ r"
  by (auto simp: dir_chain_def) (metis append_take_drop_id)

lemma create_dir_all_existing:
  assumes "quiet d" and "fs_wf d" and "node_at d p = Some Dir"
  shows "create_dir_all p d = (Inr (), tick d)"
proof -
  have "hm_get (nodes d) q = Some Dir" if q: "q \<in> dir_chain [] p" for q
  proof -
    obtain r where "p = q @ r" using dir_chain_prefix [OF q] by blast
    with assms fs_wf_ancestor [of d q r] have "node_at d q = Some Dir" by simp
    moreover have "q \<noteq> []" using q by (auto simp: dir_chain_def)
    ultimately show ?thesis by (simp add: node_at_def)
  qed
  then have "make_dirs [] p (nodes d) = (True, nodes d)" by (rule make_dirs_existing)
  with assms show ?thesis by (simp add: create_dir_all_def)
qed

section \<open>Successful updates\<close>

lemma create_dir_all_Inr:
  assumes "create_dir_all p d = (Inr (), d')"
  shows "q \<in> dir_chain [] p \<Longrightarrow> node_at d' q = Some Dir"
    and "node_at d' q = node_at d q \<or> node_at d q = None \<and> node_at d' q = Some Dir \<and> q \<in> dir_chain [] p"
proof -
  obtain ns where ns: "make_dirs [] p (nodes d) = (True, ns)" and d': "d' = tick (d\<lparr>nodes := ns\<rparr>)"
    using assms by (auto simp: create_dir_all_def split: option.splits prod.splits if_splits)
  show "q \<in> dir_chain [] p \<Longrightarrow> node_at d' q = Some Dir"
    using make_dirs_True [OF ns] by (simp add: d' node_at_def)
  show "node_at d' q = node_at d q \<or> node_at d q = None \<and> node_at d' q = Some Dir \<and> q \<in> dir_chain [] p"
    using make_dirs_get [OF ns, of q] by (simp add: d' node_at_def)
qed

lemma remove_file_Inr:
  assumes "remove_file p d = (Inr (), d')"
  shows "\<exists>c. node_at d p = Some (File c)" and "node_at d' q = (if q = p then None else node_at d q)"
  using assms
  by (auto simp: remove_file_def node_at_def hm_simps split: if_splits option.splits node.splits)

lemma file_create_Inr:
  assumes "file_create p d = (Inr (), d')"
  shows "node_at d' q = (if q = p then Some (File []) else node_at d q)"
  using assms by (auto simp: file_create_def node_at_def hm_simps split: if_splits)

lemma write_all_Inr:
  assumes "write_all p bs d = (Inr (), d')" and "node_at d p = Some (File c)"
  shows "node_at d' q = (if q = p then Some (File (c @ bs)) else node_at d q)"
  using assms
  by (auto simp: write_all_def append_bytes_def node_at_def hm_simps split: option.splits if_splits)

lemma make_dirs_no_file:
  assumes "\<And>q c. q \<in> dir_chain pre cs \<Longrightarrow> hm_get ns q \<noteq> Some (File c)"
  shows "fst (make_dirs pre cs ns)"
  using assms
proof (induction pre cs ns rule: make_dirs.induct)
  case (2 pre c cs ns)
  show ?case
  proof (cases "hm_get ns (pre @ [c])")
    case None
    have "hm_get (hm_insert (pre @ [c]) Dir ns) q \<noteq> Some (File b)" if "q \<in> dir_chain (pre @ [c]) cs" for q b
      using "2.prems" [of q b] that by (auto simp: hm_simps dir_chain_Cons)
    with "2.IH"(1) [OF None] None show ?thesis by simp
  next
    case (Some x)
    then have "x = Dir" using "2.prems" [of "pre @ [c]"] by (cases x) (auto simp: dir_chain_Cons)
    moreover have "hm_get ns q \<noteq> Some (File b)" if "q \<in> dir_chain (pre @ [c]) cs" for q b
      using "2.prems" [of q b] that by (simp add: dir_chain_Cons)
    ultimately show ?thesis using "2.IH"(2) [OF Some] Some by simp
  qed
qed simp

lemma quiet_nodes [simp]: "quiet (d\<lparr>nodes := ns\<rparr>) \<longleftrightarrow> quiet d"
  by (simp add: quiet_def)

lemma create_dir_all_ok:
  assumes "fault_now d = None" and "\<And>q c. q \<in> dir_chain [] p \<Longrightarrow> node_at d q \<noteq> Some (File c)"
  shows "\<exists>ns. create_dir_all p d = (Inr (), tick (d\<lparr>nodes := ns\<rparr>))"
proof -
  have "hm_get (nodes d) q \<noteq> Some (File c)" if "q \<in> dir_chain [] p" for q c
    using assms(2) [OF that, of c] that by (auto simp: node_at_def dir_chain_def split: if_splits)
  then have "fst (make_dirs [] p (nodes d))" by (rule make_dirs_no_file)
  with assms(1) show ?thesis by (auto simp: create_dir_all_def split: prod.splits)
qed

lemma create_dir_all_quiet:
  assumes "quiet d" and "\<And>q c. q \<in> dir_chain [] p \<Longrightarrow> node_at d q \<noteq> Some (File c)"
  shows "\<exists>d'. create_dir_all p d = (Inr (), d') \<and> quiet d'"
  using create_dir_all_ok [OF quiet_now [OF assms(1)] assms(2)] assms(1) by fastforce

lemma remove_file_quiet:
  "quiet d \<Longrightarrow> node_at d p = Some (File c) \<Longrightarrow> \<exists>d'. remove_file p d = (Inr (), d') \<and> quiet d'"
  by (simp add: remove_file_def)

lemma file_create_quiet:
  "quiet d \<Longrightarrow> p \<noteq> [] \<Longrightarrow> node_at d (butlast p) = Some Dir \<Longrightarrow> node_at d p \<noteq> Some Dir \<Longrightarrow>
   \<exists>d'. file_create p d = (Inr (), d') \<and> quiet d'"
  by (simp add: file_create_def)

lemma write_all_quiet: "quiet d \<Longrightarrow> \<exists>d'. write_all p bs d = (Inr (), d') \<and> quiet d'"
  by (auto simp: write_all_def append_bytes_def split: option.splits node.splits)

end
