(* ===== verification/On_Disk_Manager.thy ===== *)
theory On_Disk_Manager
  imports Key_Info_Managers File_System
begin

text \<open>
  \<open>src/src/key_info_managers/on_disk_manager/mod.rs\<close>: the key info manager that keeps one file
  per mapping under \<open>mappings_dir/application/provider/key\<close>, and a copy of all mappings in
  memory.

  The manager interprets the contract \<open>key_info_manager_mem\<close>. Independently of it, \<open>synced\<close>
  relates the memory to the files: successful operations keep it, and starting the manager on a
  synced disk reads back exactly the mappings.
\<close>

section \<open>State\<close>

text \<open>
  The functions of the base64 and bincode crates and the numbering of the providers, which the
  manager takes from its dependencies.
\<close>

record codec =
  base64_encode :: "bytes \<Rightarrow> string"
  base64_decode :: "bytes \<Rightarrow> bytes option"
  ki_serialize :: "key_info \<Rightarrow> bytes option"
  ki_deserialize :: "bytes \<Rightarrow> key_info option"
  provider_as_u8 :: "provider_id \<Rightarrow> u8"
  provider_try_from :: "u8 \<Rightarrow> provider_id option"

text \<open>
  The manager; \<open>hash_order\<close> is the iteration order of its hash map and \<open>odm_disk\<close> the
  file system it works on.
\<close>

record on_disk_manager =
  key_store :: "(key_triple, key_info) hash_map"
  hash_order :: "key_triple list \<Rightarrow> key_triple list"
  mappings_dir_path :: path
  odm_disk :: disk

section \<open>File names\<close>

definition key_triple_to_base64_filenames :: "codec \<Rightarrow> key_triple \<Rightarrow> string \<times> string \<times> string" where
  "key_triple_to_base64_filenames c kt =
     (base64_encode c (as_bytes (kt_app_name kt)),
      dec_string (unat (provider_as_u8 c (kt_provider_id kt))),
      base64_encode c (as_bytes (kt_key_name kt)))"

definition base64_data_to_string :: "codec \<Rightarrow> bytes \<Rightarrow> string + string" where
  "base64_data_to_string c bs =
     (case base64_decode c bs of
        Some decoded \<Rightarrow>
          (case from_utf8 decoded of Some s \<Rightarrow> Inr s | None \<Rightarrow> Inl ''invalid utf-8 sequence'')
      | None \<Rightarrow> Inl ''invalid base64'')"

definition base64_data_triple_to_key_triple ::
  "codec \<Rightarrow> bytes \<Rightarrow> provider_id \<Rightarrow> bytes \<Rightarrow> string + key_triple" where
  "base64_data_triple_to_key_triple c app pid key =
     try_res (base64_data_to_string c app) (\<lambda>app_name.
     try_res (base64_data_to_string c key) (\<lambda>key_name.
     Inr (key_triple_new (from_name app_name) pid key_name)))"

definition os_str_to_u8_ref :: "string \<Rightarrow> io_error + bytes" where
  "os_str_to_u8_ref os_str =
     (case to_str os_str of
        Some s \<Rightarrow> Inr (as_bytes s)
      | None \<Rightarrow> Inl ''Conversion from PathBuf to String failed.'')"

definition os_str_to_provider_id :: "codec \<Rightarrow> string \<Rightarrow> io_error + provider_id" where
  "os_str_to_provider_id c os_str =
     (case to_str os_str of
        Some s \<Rightarrow>
          (case parse_u8 s of
             Some n \<Rightarrow>
               (case provider_try_from c n of
                  Some pid \<Rightarrow> Inr pid
                | None \<Rightarrow> Inl ''provider not registered'')
           | None \<Rightarrow> Inl ''Failed to convert Provider directory name to an u8 number.'')
      | None \<Rightarrow> Inl ''Conversion from PathBuf to String failed.'')"

section \<open>Start-up\<close>

fun filter_paths :: "(path \<Rightarrow> disk \<Rightarrow> bool \<times> disk) \<Rightarrow> path list \<Rightarrow> disk \<Rightarrow> path list \<times> disk" where
  "filter_paths test [] d = ([], d)"
| "filter_paths test (p # ps) d =
     (case test p d of (b, d1) \<Rightarrow>
      case filter_paths test ps d1 of (qs, d2) \<Rightarrow> (if b then p # qs else qs, d2))"

definition list_dirs :: "path \<Rightarrow> path list io" where
  "list_dirs p = try_op (read_dir p) (\<lambda>entries d.
     case filter_paths is_dir entries d of (ps, d') \<Rightarrow> (Inr ps, d'))"

definition list_files :: "path \<Rightarrow> path list io" where
  "list_files p = try_op (read_dir p) (\<lambda>entries d.
     case filter_paths is_file entries d of (ps, d') \<Rightarrow> (Inr ps, d'))"

text \<open>The key triple that the path of a mapping file stands for.\<close>

definition path_key_triple :: "codec \<Rightarrow> path \<Rightarrow> path \<Rightarrow> path \<Rightarrow> io_error + key_triple" where
  "path_key_triple c app_dir prov_dir key_file =
     try_res (ok_or (file_name app_dir) ''panic'') (\<lambda>app_str.
     try_res (os_str_to_u8_ref app_str) (\<lambda>app.
     try_res (ok_or (file_name prov_dir) ''panic'') (\<lambda>prov_str.
     try_res (os_str_to_provider_id c prov_str) (\<lambda>pid.
     try_res (ok_or (file_name key_file) ''panic'') (\<lambda>key_str.
     try_res (os_str_to_u8_ref key_str) (\<lambda>key.
     map_err (\<lambda>_. ''error parsing mapping path'') (base64_data_triple_to_key_triple c app pid key)))))))"

definition load_file ::
  "codec \<Rightarrow> path \<Rightarrow> path \<Rightarrow> path \<Rightarrow> (key_triple, key_info) hash_map \<Rightarrow>
   (key_triple, key_info) hash_map io" where
  "load_file c app_dir prov_dir key_file store =
     try_op (file_open key_file) (\<lambda>_.
     try_op (read_to_end key_file) (\<lambda>content d.
       (try_res (ok_or (ki_deserialize c content) ''error deserializing key info'') (\<lambda>info.
        try_res (path_key_triple c app_dir prov_dir key_file) (\<lambda>kt.
        Inr (hm_insert kt info store))), d)))"

fun load_files ::
  "codec \<Rightarrow> path \<Rightarrow> path \<Rightarrow> path list \<Rightarrow> (key_triple, key_info) hash_map \<Rightarrow>
   (key_triple, key_info) hash_map io" where
  "load_files c app_dir prov_dir [] store d = (Inr store, d)"
| "load_files c app_dir prov_dir (f # fs) store d =
     try_op (load_file c app_dir prov_dir f store) (load_files c app_dir prov_dir fs) d"

fun load_providers ::
  "codec \<Rightarrow> path \<Rightarrow> path list \<Rightarrow> (key_triple, key_info) hash_map \<Rightarrow>
   (key_triple, key_info) hash_map io" where
  "load_providers c app_dir [] store d = (Inr store, d)"
| "load_providers c app_dir (p # ps) store d =
     try_op (list_files p) (\<lambda>fs.
     try_op (load_files c app_dir p fs store) (load_providers c app_dir ps)) d"

fun load_apps ::
  "codec \<Rightarrow> path list \<Rightarrow> (key_triple, key_info) hash_map \<Rightarrow>
   (key_triple, key_info) hash_map io" where
  "load_apps c [] store d = (Inr store, d)"
| "load_apps c (a # as) store d =
     try_op (list_dirs a) (\<lambda>ps.
     try_op (load_providers c a ps store) (load_apps c as)) d"

definition on_disk_new ::
  "codec \<Rightarrow> (key_triple list \<Rightarrow> key_triple list) \<Rightarrow> path \<Rightarrow> disk \<Rightarrow> (io_error + on_disk_manager) \<times> disk" where
  "on_disk_new c ord dir d =
     (case try_op (create_dir_all dir) (\<lambda>_.
           try_op (list_dirs dir) (\<lambda>apps. load_apps c apps [])) d of
        (Inr store, d') \<Rightarrow>
          (Inr \<lparr>key_store = store, hash_order = ord, mappings_dir_path = dir, odm_disk = d'\<rparr>, d')
      | (Inl e, d') \<Rightarrow> (Inl e, d'))"

text \<open>The builder, with its default path.\<close>

definition default_mappings_path :: path where
  "default_mappings_path = [''var'', ''lib'', ''parsec'', ''mappings'']"

definition on_disk_build ::
  "codec \<Rightarrow> (key_triple list \<Rightarrow> key_triple list) \<Rightarrow> path option \<Rightarrow> disk \<Rightarrow>
   (io_error + on_disk_manager) \<times> disk" where
  "on_disk_build c ord dir d =
     on_disk_new c ord (case dir of Some p \<Rightarrow> p | None \<Rightarrow> default_mappings_path) d"

section \<open>Saving and deleting one mapping\<close>

definition save_mapping :: "codec \<Rightarrow> path \<Rightarrow> key_triple \<Rightarrow> key_info \<Rightarrow> unit io" where
  "save_mapping c dir kt info =
     (case key_triple_to_base64_filenames c kt of (app, prov, key) \<Rightarrow>
      let provider_dir_path = path_join (path_join dir app) prov;
          key_name_file_path = path_join provider_dir_path key
      in try_op (create_dir_all provider_dir_path) (\<lambda>_.
         try_op (\<lambda>d. case path_exists key_name_file_path d of
                   (b, d') \<Rightarrow> if b then remove_file key_name_file_path d' else (Inr (), d')) (\<lambda>_.
         try_op (file_create key_name_file_path) (\<lambda>_.
         case ki_serialize c info of
           None \<Rightarrow> err_op ''error serializing key info''
         | Some bs \<Rightarrow> write_all key_name_file_path bs))))"

definition delete_mapping :: "codec \<Rightarrow> path \<Rightarrow> key_triple \<Rightarrow> unit io" where
  "delete_mapping c dir kt d =
     (case key_triple_to_base64_filenames c kt of (app, prov, key) \<Rightarrow>
      let key_name_file_path = path_join (path_join (path_join dir app) prov) key
      in case path_exists key_name_file_path d of
           (b, d') \<Rightarrow> if b then remove_file key_name_file_path d' else (Inr (), d'))"

section \<open>The trait implementation\<close>

definition odm_get :: "on_disk_manager \<Rightarrow> key_triple \<Rightarrow> string + key_info option" where
  "odm_get self kt = (case hm_get (key_store self) kt of Some info \<Rightarrow> Inr (Some info) | None \<Rightarrow> Inr None)"

definition odm_get_all :: "on_disk_manager \<Rightarrow> provider_id \<Rightarrow> string + key_triple list" where
  "odm_get_all self pid =
     Inr (filter (\<lambda>kt. belongs_to_provider kt pid) (hash_order self (hm_keys (key_store self))))"

definition odm_insert ::
  "codec \<Rightarrow> key_triple \<Rightarrow> key_info \<Rightarrow> (on_disk_manager, string, key_info option) rust_op" where
  "odm_insert c kt info self =
     (case save_mapping c (mappings_dir_path self) kt info (odm_disk self) of
        (Inl e, d) \<Rightarrow> (Inl e, self\<lparr>odm_disk := d\<rparr>)
      | (Inr _, d) \<Rightarrow>
          (Inr (hm_get (key_store self) kt),
           self\<lparr>odm_disk := d, key_store := hm_insert kt info (key_store self)\<rparr>))"

definition odm_remove ::
  "codec \<Rightarrow> key_triple \<Rightarrow> (on_disk_manager, string, key_info option) rust_op" where
  "odm_remove c kt self =
     (case delete_mapping c (mappings_dir_path self) kt (odm_disk self) of
        (Inl e, d) \<Rightarrow> (Inl e, self\<lparr>odm_disk := d\<rparr>)
      | (Inr _, d) \<Rightarrow>
          (case hm_get (key_store self) kt of
             Some info \<Rightarrow> (Inr (Some info), self\<lparr>odm_disk := d, key_store := hm_remove kt (key_store self)\<rparr>)
           | None \<Rightarrow> (Inr None, self\<lparr>odm_disk := d\<rparr>)))"

definition odm_exists :: "on_disk_manager \<Rightarrow> key_triple \<Rightarrow> string + bool" where
  "odm_exists self kt = Inr (hm_get (key_store self) kt \<noteq> None)"

definition on_disk_impl :: "codec \<Rightarrow> on_disk_manager manage_key_info" where
  "on_disk_impl c =
     \<lparr>mki_get = odm_get, mki_get_all = odm_get_all, mki_insert = odm_insert c,
      mki_remove = odm_remove c, mki_exists = odm_exists\<rparr>"

text \<open>The factory of key info managers, for the only manager type there is.\<close>

definition kim_factory_new ::
  "codec \<Rightarrow> (key_triple list \<Rightarrow> key_triple list) \<Rightarrow> path option \<Rightarrow> disk \<Rightarrow>
   (io_error + on_disk_manager kim_factory \<times> on_disk_manager) \<times> disk" where
  "kim_factory_new c ord store_path d =
     (case on_disk_build c ord store_path d of
        (Inr m, d') \<Rightarrow> (Inr (\<lparr>kf_impl = on_disk_impl c\<rparr>, m), d')
      | (Inl e, d') \<Rightarrow> (Inl e, d'))"

section \<open>The contract of the trait\<close>

definition odm_inv :: "on_disk_manager \<Rightarrow> bool" where
  "odm_inv m \<longleftrightarrow> hm_wf (key_store m) \<and> iteration_order (hash_order m)"

definition odm_abs :: "on_disk_manager \<Rightarrow> key_triple \<Rightarrow> key_info option" where
  "odm_abs m = hm_get (key_store m)"

interpretation odm: key_info_manager_mem "on_disk_impl c" odm_inv odm_abs for c
  by unfold_locales
    (auto simp: on_disk_impl_def odm_inv_def odm_abs_def odm_get_def odm_get_all_def odm_exists_def
      odm_insert_def odm_remove_def belongs_to_provider_def hm_simps
      split: option.splits sum.splits prod.splits)

section \<open>Mappings on disk\<close>

text \<open>
  What the manager relies on from the base64 crate: decoding inverts encoding, the encoding is
  text, and only nothing is encoded as nothing.
\<close>

definition base64_ok :: "codec \<Rightarrow> bool" where
  "base64_ok c \<longleftrightarrow>
     (\<forall>b. base64_decode c (as_bytes (base64_encode c b)) = Some b) \<and>
     (\<forall>b. utf8_string (base64_encode c b)) \<and>
     (\<forall>b. b \<noteq> [] \<longrightarrow> base64_encode c b \<noteq> [])"

text \<open>A triple that has a file of its own, and the encoding of a key info that can be read back.\<close>

definition valid_triple :: "codec \<Rightarrow> key_triple \<Rightarrow> bool" where
  "valid_triple c kt \<longleftrightarrow>
     utf8_string (kt_app_name kt) \<and> kt_app_name kt \<noteq> [] \<and>
     utf8_string (kt_key_name kt) \<and> kt_key_name kt \<noteq> [] \<and>
     provider_try_from c (provider_as_u8 c (kt_provider_id kt)) = Some (kt_provider_id kt)"

definition encodes :: "codec \<Rightarrow> key_info \<Rightarrow> bytes \<Rightarrow> bool" where
  "encodes c info b \<longleftrightarrow> ki_serialize c info = Some b \<and> ki_deserialize c b = Some info"

definition app_path :: "codec \<Rightarrow> path \<Rightarrow> key_triple \<Rightarrow> path" where
  "app_path c dir kt = dir @ [fst (key_triple_to_base64_filenames c kt)]"

definition prov_path :: "codec \<Rightarrow> path \<Rightarrow> key_triple \<Rightarrow> path" where
  "prov_path c dir kt = app_path c dir kt @ [fst (snd (key_triple_to_base64_filenames c kt))]"

definition triple_path :: "codec \<Rightarrow> path \<Rightarrow> key_triple \<Rightarrow> path" where
  "triple_path c dir kt = prov_path c dir kt @ [snd (snd (key_triple_to_base64_filenames c kt))]"

lemmas path_defs = triple_path_def prov_path_def app_path_def key_triple_to_base64_filenames_def

text \<open>
  The tree below \<open>dir\<close> holds exactly the mappings of \<open>M\<close>: one readable file for each, and
  besides those files only application and provider directories.
\<close>

definition stored :: "codec \<Rightarrow> path \<Rightarrow> (key_triple \<Rightarrow> key_info option) \<Rightarrow> disk \<Rightarrow> bool" where
  "stored c dir M d \<longleftrightarrow>
     fs_wf d \<and> [] \<notin> set dir \<and> node_at d dir = Some Dir \<and>
     (\<forall>kt info. M kt = Some info \<longrightarrow> valid_triple c kt \<and>
        (\<exists>b. encodes c info b \<and> node_at d (triple_path c dir kt) = Some (File b))) \<and>
     (\<forall>rel. rel \<noteq> [] \<longrightarrow> node_at d (dir @ rel) \<noteq> None \<longrightarrow>
        length rel < 3 \<and> node_at d (dir @ rel) = Some Dir \<or>
        (\<exists>kt \<in> dom M. dir @ rel = triple_path c dir kt))"

definition synced :: "codec \<Rightarrow> on_disk_manager \<Rightarrow> bool" where
  "synced c m \<longleftrightarrow> stored c (mappings_dir_path m) (odm_abs m) (odm_disk m)"

lemma storedD:
  assumes "stored c dir M d"
  shows "fs_wf d" "[] \<notin> set dir" "node_at d dir = Some Dir"
    and "M kt = Some info \<Longrightarrow> valid_triple c kt"
    and "M kt = Some info \<Longrightarrow> \<exists>b. encodes c info b \<and> node_at d (triple_path c dir kt) = Some (File b)"
    and "rel \<noteq> [] \<Longrightarrow> node_at d (dir @ rel) \<noteq> None \<Longrightarrow>
      length rel < 3 \<and> node_at d (dir @ rel) = Some Dir \<or> (\<exists>kt \<in> dom M. dir @ rel = triple_path c dir kt)"
  using assms unfolding stored_def by blast+

lemma stored_unchanged: "unchanged d d' \<Longrightarrow> stored c dir M d \<Longrightarrow> stored c dir M d'"
  by (simp add: stored_def unchanged_node_at unchanged_fs_wf)

lemma stored_io_fault [simp]: "stored c dir M (d\<lparr>io_fault := f\<rparr>) \<longleftrightarrow> stored c dir M d"
  by (simp add: stored_def)

lemma base64_encode_inject: "base64_ok c \<Longrightarrow> base64_encode c a = base64_encode c b \<longleftrightarrow> a = b"
  unfolding base64_ok_def by (metis option.inject)

lemma triple_path_inject:
  assumes "base64_ok c" and "valid_triple c kt" and "valid_triple c kt'"
  shows "triple_path c dir kt = triple_path c dir kt' \<longleftrightarrow> kt = kt'"
proof
  assume eq: "triple_path c dir kt = triple_path c dir kt'"
  then have "as_bytes (kt_app_name kt) = as_bytes (kt_app_name kt')"
    and "as_bytes (kt_key_name kt) = as_bytes (kt_key_name kt')"
    and "provider_as_u8 c (kt_provider_id kt) = provider_as_u8 c (kt_provider_id kt')"
    using base64_encode_inject [OF assms(1)] by (simp_all add: path_defs word_unat_eq_iff)
  moreover from this(3) have "kt_provider_id kt = kt_provider_id kt'"
    using assms(2,3) by (metis option.inject valid_triple_def)
  ultimately show "kt = kt'" by (simp add: key_triple.equality)
qed simp

lemma path_key_triple_path:
  assumes "base64_ok c" and "valid_triple c kt"
  shows "path_key_triple c (app_path c dir kt) (prov_path c dir kt) (triple_path c dir kt) = Inr kt"
proof -
  have "to_str (dec_string (unat (provider_as_u8 c (kt_provider_id kt)))) =
      Some (dec_string (unat (provider_as_u8 c (kt_provider_id kt))))"
    by (simp add: to_str_def utf8_dec_string)
  with assms show ?thesis
    by (simp add: path_key_triple_def file_name_def path_defs os_str_to_u8_ref_def to_str_def
        os_str_to_provider_id_def base64_data_triple_to_key_triple_def base64_data_to_string_def
        base64_ok_def valid_triple_def from_name_def)
qed

section \<open>Reading the mappings back\<close>

lemma filter_paths_quiet:
  assumes "quiet d" and "\<And>p d'. unchanged d d' \<Longrightarrow> quiet d' \<Longrightarrow> test p d' = (P p, tick d')"
  shows "\<exists>d'. filter_paths test ps d = (filter P ps, d') \<and> unchanged d d'"
  using assms
proof (induction ps arbitrary: d)
  case (Cons p ps)
  have "\<exists>d'. filter_paths test ps (tick d) = (filter P ps, d') \<and> unchanged (tick d) d'"
    by (rule Cons.IH) (use Cons.prems unchanged_trans [OF unchanged_tick] in auto)
  then obtain d' where "filter_paths test ps (tick d) = (filter P ps, d')" "unchanged (tick d) d'"
    by blast
  moreover have "test p d = (P p, tick d)" using Cons.prems by simp
  ultimately show ?case by (auto intro: unchanged_trans [OF unchanged_tick])
qed simp

lemma list_dirs_quiet:
  assumes "quiet d" and "node_at d p = Some Dir" and "fs_wf d"
  shows "\<exists>ps d'. list_dirs p d = (Inr ps, d') \<and> unchanged d d' \<and>
    set ps = {p @ [n] | n. node_at d (p @ [n]) = Some Dir}"
proof -
  obtain es where es: "read_dir p d = (Inr es, tick d)"
    "set es = {p @ [n] | n. node_at d (p @ [n]) \<noteq> None}"
    using read_dir_quiet [OF assms] by blast
  obtain d' where d': "filter_paths is_dir es (tick d) = (filter (\<lambda>q. node_at d q = Some Dir) es, d')"
    "unchanged (tick d) d'"
    using filter_paths_quiet [of "tick d" is_dir "\<lambda>q. node_at d q = Some Dir" es] assms(1)
    by (auto simp: is_dir_def unchanged_node_at)
  have "set (filter (\<lambda>q. node_at d q = Some Dir) es) = {p @ [n] | n. node_at d (p @ [n]) = Some Dir}"
    using es(2) by auto
  with es(1) d' unchanged_trans [OF unchanged_tick] show ?thesis
    by (simp add: list_dirs_def try_op_def)
qed

lemma list_files_quiet:
  assumes "quiet d" and "node_at d p = Some Dir" and "fs_wf d"
  shows "\<exists>ps d'. list_files p d = (Inr ps, d') \<and> unchanged d d' \<and>
    set ps = {p @ [n] | n. \<exists>c. node_at d (p @ [n]) = Some (File c)}"
proof -
  let ?f = "\<lambda>q. case node_at d q of Some (File c) \<Rightarrow> True | _ \<Rightarrow> False"
  obtain es where es: "read_dir p d = (Inr es, tick d)"
    "set es = {p @ [n] | n. node_at d (p @ [n]) \<noteq> None}"
    using read_dir_quiet [OF assms] by blast
  obtain d' where d': "filter_paths is_file es (tick d) = (filter ?f es, d')" "unchanged (tick d) d'"
    using filter_paths_quiet [of "tick d" is_file ?f es] assms(1)
    by (auto simp: is_file_def unchanged_node_at)
  have "set (filter ?f es) = {p @ [n] | n. \<exists>c. node_at d (p @ [n]) = Some (File c)}"
  proof -
    have "?f q \<longleftrightarrow> (\<exists>c. node_at d q = Some (File c))" for q
      by (auto split: option.splits node.splits)
    then show ?thesis using es(2) by auto
  qed
  with es(1) d' unchanged_trans [OF unchanged_tick] show ?thesis
    by (simp add: list_files_def try_op_def)
qed

text \<open>The map \<open>s\<close> with the mappings of \<open>M\<close> whose triple satisfies \<open>P\<close> written over it.\<close>

definition overlay ::
  "(key_triple \<Rightarrow> key_info option) \<Rightarrow> (key_triple \<Rightarrow> bool) \<Rightarrow> (key_triple \<Rightarrow> key_info option) \<Rightarrow>
   key_triple \<Rightarrow> key_info option" where
  "overlay M P s kt = (if P kt \<and> kt \<in> dom M then M kt else s kt)"

lemma overlay_overlay:
  "overlay M P (overlay M Q s) = overlay M (\<lambda>kt. P kt \<or> Q kt) s"
  by (auto simp: overlay_def)

lemma load_file_quiet:
  assumes "quiet d" and "base64_ok c" and "stored c dir M d" and "M kt = Some info"
  shows "\<exists>d'. load_file c (app_path c dir kt) (prov_path c dir kt) (triple_path c dir kt) store d =
    (Inr (hm_insert kt info store), d') \<and> unchanged d d'"
proof -
  obtain b where b: "encodes c info b" "node_at d (triple_path c dir kt) = Some (File b)"
    using storedD(5) [OF assms(3,4)] by blast
  have v: "valid_triple c kt" using storedD(4) [OF assms(3,4)] .
  have "file_open (triple_path c dir kt) d = (Inr (), tick d)"
    and "read_to_end (triple_path c dir kt) (tick d) = (Inr b, tick (tick d))"
    using assms(1) b(2) by (simp_all add: file_open_quiet read_to_end_quiet)
  then show ?thesis using b(1) path_key_triple_path [OF assms(2) v]
    unchanged_trans [OF unchanged_tick unchanged_tick]
    by (simp add: load_file_def try_op_def encodes_def)
qed

lemma load_files_quiet:
  assumes "quiet d" and "base64_ok c" and "stored c dir M d"
    and "\<And>f. f \<in> set fs \<Longrightarrow> \<exists>kt \<in> dom M. f = triple_path c dir kt \<and>
      a = app_path c dir kt \<and> p = prov_path c dir kt"
  shows "\<exists>store' d'. load_files c a p fs store d = (Inr store', d') \<and> unchanged d d' \<and>
    hm_get store' = overlay M (\<lambda>kt. triple_path c dir kt \<in> set fs) (hm_get store) \<and>
    (hm_wf store \<longrightarrow> hm_wf store')"
  using assms
proof (induction fs arbitrary: store d)
  case Nil
  then show ?case by (auto simp: overlay_def)
next
  case (Cons f fs)
  obtain kt info where kt: "M kt = Some info" "f = triple_path c dir kt" "a = app_path c dir kt"
    "p = prov_path c dir kt" using Cons.prems(4) [of f] by auto
  obtain d1 where d1: "load_file c a p f store d = (Inr (hm_insert kt info store), d1)" "unchanged d d1"
    using load_file_quiet [OF Cons.prems(1-3) kt(1)] kt by blast
  obtain store' d2 where s: "load_files c a p fs (hm_insert kt info store) d1 = (Inr store', d2)"
    "unchanged d1 d2"
    "hm_get store' = overlay M (\<lambda>kt. triple_path c dir kt \<in> set fs) (hm_get (hm_insert kt info store))"
    "hm_wf (hm_insert kt info store) \<longrightarrow> hm_wf store'"
    using Cons.IH [of d1 "hm_insert kt info store"] Cons.prems d1(2) unchanged_quiet stored_unchanged
    by fastforce
  have eq: "triple_path c dir kt' = f \<longleftrightarrow> kt' = kt" if "kt' \<in> dom M" for kt'
    using that kt triple_path_inject [OF Cons.prems(2)] storedD(4) [OF Cons.prems(3)] by (metis domD)
  have "hm_get store' = overlay M (\<lambda>kt. triple_path c dir kt \<in> set (f # fs)) (hm_get store)"
    unfolding s(3) by (rule ext) (use kt(1) eq in \<open>auto simp: overlay_def hm_simps\<close>)
  with d1 s show ?case by (auto simp: try_op_def intro: unchanged_trans)
qed

lemma path_levels:
  "butlast (triple_path c dir kt) = prov_path c dir kt"
  "butlast (prov_path c dir kt) = app_path c dir kt"
  "butlast (app_path c dir kt) = dir"
  by (simp_all add: triple_path_def prov_path_def app_path_def butlast_append)

lemma path_neq [simp]:
  "app_path c dir kt \<noteq> triple_path c dir kt'" "prov_path c dir kt \<noteq> triple_path c dir kt'"
  "dir \<noteq> triple_path c dir kt" "dir \<noteq> app_path c dir kt" "dir \<noteq> prov_path c dir kt"
  "triple_path c dir kt' \<noteq> app_path c dir kt" "triple_path c dir kt' \<noteq> prov_path c dir kt"
  by (simp_all add: path_defs)

lemma stored_dirs:
  assumes "stored c dir M d" and "kt \<in> dom M"
  shows "node_at d (prov_path c dir kt) = Some Dir" "node_at d (app_path c dir kt) = Some Dir"
proof -
  obtain info where "M kt = Some info" using assms(2) by auto
  then have "node_at d (triple_path c dir kt) \<noteq> None" using storedD(5) [OF assms(1)] by fastforce
  with fs_wf_parent [OF storedD(1) [OF assms(1)]]
  show p: "node_at d (prov_path c dir kt) = Some Dir" by (simp add: triple_path_def)
  then show "node_at d (app_path c dir kt) = Some Dir"
    unfolding prov_path_def by (rule fs_wf_ancestor [OF storedD(1) [OF assms(1)]])
qed

text \<open>The files in a provider directory are the mappings of that provider directory.\<close>

lemma stored_level3:
  assumes "stored c dir M d" and "node_at d (dir @ [a, p, k]) \<noteq> None"
  shows "\<exists>kt \<in> dom M. dir @ [a, p, k] = triple_path c dir kt"
  using storedD(6) [OF assms(1), of "[a, p, k]"] assms(2) by simp

lemma load_providers_quiet:
  assumes "quiet d" and "base64_ok c" and "stored c dir M d"
    and "\<And>q. q \<in> set ps \<Longrightarrow> node_at d q = Some Dir \<and> (\<exists>n. q = a @ [n])" and "\<exists>n. a = dir @ [n]"
  shows "\<exists>store' d'. load_providers c a ps store d = (Inr store', d') \<and> unchanged d d' \<and>
    hm_get store' = overlay M (\<lambda>kt. prov_path c dir kt \<in> set ps) (hm_get store) \<and>
    (hm_wf store \<longrightarrow> hm_wf store')"
  using assms
proof (induction ps arbitrary: store d)
  case Nil
  then show ?case by (auto simp: overlay_def)
next
  case (Cons q ps)
  note st = Cons.prems(3)
  obtain n n' where q: "node_at d q = Some Dir" "q = a @ [n]" "a = dir @ [n']"
    using Cons.prems(4) [of q] Cons.prems(5) by auto
  obtain fs d1 where fs: "list_files q d = (Inr fs, d1)" "unchanged d d1"
    "set fs = {q @ [n] | n. \<exists>c. node_at d (q @ [n]) = Some (File c)}"
    using list_files_quiet [OF Cons.prems(1) q(1) storedD(1) [OF st]] by blast
  have "\<exists>kt \<in> dom M. f = triple_path c dir kt \<and> a = app_path c dir kt \<and> q = prov_path c dir kt"
    if f: "f \<in> set fs" for f
  proof -
    obtain k where k: "f = dir @ [n', n, k]" "node_at d f \<noteq> None" using f fs(3) q by auto
    then obtain kt where "kt \<in> dom M" "f = triple_path c dir kt" using stored_level3 [OF st] by metis
    moreover from this(2) k q have "q = prov_path c dir kt" "a = app_path c dir kt"
      by (simp_all add: path_defs)
    ultimately show ?thesis by blast
  qed
  then obtain store1 d2 where s1: "load_files c a q fs store d1 = (Inr store1, d2)" "unchanged d1 d2"
    "hm_get store1 = overlay M (\<lambda>kt. triple_path c dir kt \<in> set fs) (hm_get store)"
    "hm_wf store \<longrightarrow> hm_wf store1"
    using load_files_quiet [of d1 c dir M fs a q store] Cons.prems(1,2) fs(2) st
      unchanged_quiet stored_unchanged by blast
  note u2 = unchanged_trans [OF fs(2) s1(2)]
  obtain store' d' where s2: "load_providers c a ps store1 d2 = (Inr store', d')" "unchanged d2 d'"
    "hm_get store' = overlay M (\<lambda>kt. prov_path c dir kt \<in> set ps) (hm_get store1)"
    "hm_wf store1 \<longrightarrow> hm_wf store'"
    using Cons.IH [of d2 store1] Cons.prems unchanged_quiet [OF u2] stored_unchanged [OF u2]
    by (auto simp: unchanged_node_at [OF u2])
  have files: "triple_path c dir kt \<in> set fs \<longleftrightarrow> prov_path c dir kt = q" if "kt \<in> dom M" for kt
    using that storedD(5) [OF st] fs(3) by (fastforce simp: triple_path_def)
  have "hm_get store' = overlay M (\<lambda>kt. prov_path c dir kt \<in> set (q # ps)) (hm_get store)"
    unfolding s2(3) s1(3) overlay_overlay by (rule ext) (use files in \<open>auto simp: overlay_def\<close>)
  with fs s1 s2 u2 show ?case by (auto simp: try_op_def intro: unchanged_trans)
qed

lemma load_apps_quiet:
  assumes "quiet d" and "base64_ok c" and "stored c dir M d"
    and "\<And>a. a \<in> set as \<Longrightarrow> node_at d a = Some Dir \<and> (\<exists>n. a = dir @ [n])"
  shows "\<exists>store' d'. load_apps c as store d = (Inr store', d') \<and> unchanged d d' \<and>
    hm_get store' = overlay M (\<lambda>kt. app_path c dir kt \<in> set as) (hm_get store) \<and>
    (hm_wf store \<longrightarrow> hm_wf store')"
  using assms
proof (induction as arbitrary: store d)
  case Nil
  then show ?case by (auto simp: overlay_def)
next
  case (Cons a as)
  note st = Cons.prems(3)
  have a: "node_at d a = Some Dir" "\<exists>n. a = dir @ [n]" using Cons.prems(4) [of a] by simp_all
  obtain ps d1 where ps: "list_dirs a d = (Inr ps, d1)" "unchanged d d1"
    "set ps = {a @ [n] | n. node_at d (a @ [n]) = Some Dir}"
    using list_dirs_quiet [OF Cons.prems(1) a(1) storedD(1) [OF st]] by blast
  have psd: "node_at d1 q = Some Dir \<and> (\<exists>n. q = a @ [n])" if "q \<in> set ps" for q
    using that ps(3) by (auto simp: unchanged_node_at [OF ps(2)])
  obtain store1 d2 where s1: "load_providers c a ps store d1 = (Inr store1, d2)" "unchanged d1 d2"
    "hm_get store1 = overlay M (\<lambda>kt. prov_path c dir kt \<in> set ps) (hm_get store)"
    "hm_wf store \<longrightarrow> hm_wf store1"
    using load_providers_quiet [of d1 c dir M ps a store, OF unchanged_quiet [OF ps(2) Cons.prems(1)]
        Cons.prems(2) stored_unchanged [OF ps(2) st] psd a(2)] by blast
  note u2 = unchanged_trans [OF ps(2) s1(2)]
  have asd: "node_at d2 q = Some Dir \<and> (\<exists>n. q = dir @ [n])" if "q \<in> set as" for q
    using that Cons.prems(4) by (simp add: unchanged_node_at [OF u2])
  obtain store' d' where s2: "load_apps c as store1 d2 = (Inr store', d')" "unchanged d2 d'"
    "hm_get store' = overlay M (\<lambda>kt. app_path c dir kt \<in> set as) (hm_get store1)"
    "hm_wf store1 \<longrightarrow> hm_wf store'"
    using Cons.IH [of d2 store1, OF unchanged_quiet [OF u2 Cons.prems(1)] Cons.prems(2)
        stored_unchanged [OF u2 st] asd] by blast
  have provs: "prov_path c dir kt \<in> set ps \<longleftrightarrow> app_path c dir kt = a" if "kt \<in> dom M" for kt
    using stored_dirs [OF st that] ps(3) by (auto simp: prov_path_def)
  have "hm_get store' = overlay M (\<lambda>kt. app_path c dir kt \<in> set (a # as)) (hm_get store)"
    unfolding s2(3) s1(3) overlay_overlay by (rule ext) (use provs in \<open>auto simp: overlay_def\<close>)
  with ps s1 s2 u2 show ?case by (auto simp: try_op_def intro: unchanged_trans)
qed

text \<open>Starting the manager on a disk that stores \<open>M\<close> reads back \<open>M\<close>.\<close>

lemma on_disk_new_stored:
  assumes "quiet d" and "base64_ok c" and "stored c dir M d" and "iteration_order ord"
  shows "\<exists>m d'. on_disk_new c ord dir d = (Inr m, d') \<and> odm_inv m \<and> odm_abs m = M \<and>
    mappings_dir_path m = dir \<and> odm_disk m = d' \<and> unchanged d d'"
proof -
  note st = assms(3)
  have 1: "create_dir_all dir d = (Inr (), tick d)"
    by (rule create_dir_all_existing [OF assms(1) storedD(1) [OF st] storedD(3) [OF st]])
  obtain as d1 where as: "list_dirs dir (tick d) = (Inr as, d1)" "unchanged (tick d) d1"
    "set as = {dir @ [n] | n. node_at d (dir @ [n]) = Some Dir}"
    using list_dirs_quiet [of "tick d" dir] assms(1) storedD(1,3) [OF st] by auto
  have u: "unchanged d d1" by (rule unchanged_trans [OF unchanged_tick as(2)])
  have asd: "node_at d1 a = Some Dir \<and> (\<exists>n. a = dir @ [n])" if "a \<in> set as" for a
    using that as(3) by (auto simp: unchanged_node_at [OF u])
  obtain store d2 where s: "load_apps c as [] d1 = (Inr store, d2)" "unchanged d1 d2" "hm_wf store"
    "hm_get store = overlay M (\<lambda>kt. app_path c dir kt \<in> set as) (hm_get [])"
    using load_apps_quiet [of d1 c dir M as "[]", OF unchanged_quiet [OF u assms(1)] assms(2)
        stored_unchanged [OF u st] asd] hm_wf_Nil by blast
  have "app_path c dir kt \<in> set as" if "kt \<in> dom M" for kt
    using stored_dirs(2) [OF st that] as(3) by (auto simp: app_path_def)
  then have "hm_get store kt = M kt" for kt
    by (cases "kt \<in> dom M") (auto simp: s(4) overlay_def domIff)
  then have "hm_get store = M" ..
  with 1 as(1) s assms(4) unchanged_trans [OF u s(2)] show ?thesis
    by (simp add: on_disk_new_def try_op_def odm_inv_def odm_abs_def)
qed

section \<open>Keeping memory and disk together\<close>

lemma valid_filenames:
  assumes "base64_ok c" and "valid_triple c kt" and "[] \<notin> set dir"
  shows "path_join (path_join dir (fst (key_triple_to_base64_filenames c kt)))
      (fst (snd (key_triple_to_base64_filenames c kt))) = prov_path c dir kt"
    and "path_join (prov_path c dir kt) (snd (snd (key_triple_to_base64_filenames c kt))) = triple_path c dir kt"
    and "[] \<notin> set (triple_path c dir kt)" and "[] \<notin> set (prov_path c dir kt)"
proof -
  have ne: "base64_encode c (as_bytes (kt_app_name kt)) \<noteq> []" "base64_encode c (as_bytes (kt_key_name kt)) \<noteq> []"
    "[] \<noteq> base64_encode c (as_bytes (kt_app_name kt))" "[] \<noteq> base64_encode c (as_bytes (kt_key_name kt))"
    "[] \<noteq> dec_string n" for n
    using assms(1,2) by (auto simp: base64_ok_def valid_triple_def dest: sym)
  then show "path_join (path_join dir (fst (key_triple_to_base64_filenames c kt)))
      (fst (snd (key_triple_to_base64_filenames c kt))) = prov_path c dir kt"
    and "path_join (prov_path c dir kt) (snd (snd (key_triple_to_base64_filenames c kt))) = triple_path c dir kt"
    and "[] \<notin> set (triple_path c dir kt)" and "[] \<notin> set (prov_path c dir kt)"
    using assms(3) by (simp_all add: path_join_def path_defs)
qed

text \<open>Replacing the file of one mapping, or removing it, in a tree that stores a map.\<close>

lemma stored_insert_file:
  assumes "stored c dir M d" and "base64_ok c" and "valid_triple c kt" and "encodes c info b"
    and d': "fs_wf d'" "node_at d' (triple_path c dir kt) = Some (File b)"
    and dirs: "node_at d' (app_path c dir kt) = Some Dir" "node_at d' (prov_path c dir kt) = Some Dir"
    and rest: "\<And>p. p \<noteq> triple_path c dir kt \<Longrightarrow> p \<noteq> app_path c dir kt \<Longrightarrow> p \<noteq> prov_path c dir kt \<Longrightarrow>
      node_at d' p = node_at d p"
  shows "stored c dir (M(kt \<mapsto> info)) d'"
proof -
  note st = assms(1)
  have other: "node_at d' (triple_path c dir kt') = node_at d (triple_path c dir kt')"
    if "M kt' = Some i" "kt' \<noteq> kt" for kt' i
    using rest triple_path_inject [OF assms(2) storedD(4) [OF st that(1)] assms(3)] that(2)
    by (simp add: path_defs)
  have "\<exists>b. encodes c i b \<and> node_at d' (triple_path c dir kt') = Some (File b)"
    if "(M(kt \<mapsto> info)) kt' = Some i" for kt' i
    using that d'(2) assms(4) storedD(5) [OF st] other by (cases "kt' = kt") auto
  moreover have "valid_triple c kt'" if "(M(kt \<mapsto> info)) kt' = Some i" for kt' i
    using that assms(3) storedD(4) [OF st] by (auto split: if_splits)
  moreover have "node_at d' dir = Some Dir"
    using rest [of dir] storedD(3) [OF st] by (simp add: path_defs)
  moreover have "length rel < 3 \<and> node_at d' (dir @ rel) = Some Dir \<or>
      (\<exists>kt' \<in> dom (M(kt \<mapsto> info)). dir @ rel = triple_path c dir kt')"
    if "rel \<noteq> []" "node_at d' (dir @ rel) \<noteq> None" for rel
  proof -
    consider "dir @ rel = triple_path c dir kt" | "dir @ rel = app_path c dir kt"
      | "dir @ rel = prov_path c dir kt" | "node_at d' (dir @ rel) = node_at d (dir @ rel)"
      using rest by blast
    then show ?thesis
    proof cases
      case 4
      with that storedD(6) [OF st that(1)] show ?thesis by auto
    qed (use dirs in \<open>auto simp: path_defs\<close>)
  qed
  ultimately show ?thesis using storedD(2) [OF st] d'(1) unfolding stored_def by blast
qed

text \<open>
  A successful \<open>save_mapping\<close>, whatever calls were allowed to fail in it, leaves exactly the new
  file and its directories behind.
\<close>

lemma dir_chain_prov_path:
  "q \<in> dir_chain [] (prov_path c dir kt) \<longleftrightarrow>
     q \<in> dir_chain [] dir \<or> q = app_path c dir kt \<or> q = prov_path c dir kt"
proof -
  have snoc: "dir_chain [] (cs @ [x]) = insert (cs @ [x]) (dir_chain [] cs)" for cs :: path and x
    by (auto simp: dir_chain_def take_append le_Suc_eq intro: exI [of _ "Suc (length cs)"])
      (metis append_Nil2 diff_is_0_eq take_0)
  show ?thesis by (auto simp: prov_path_def app_path_def snoc simp del: append_assoc)
qed

lemma save_mapping_unfold:
  assumes "base64_ok c" and "valid_triple c kt" and "[] \<notin> set dir"
  shows "save_mapping c dir kt info =
    try_op (create_dir_all (prov_path c dir kt)) (\<lambda>_.
    try_op (delete_mapping c dir kt) (\<lambda>_.
    try_op (file_create (triple_path c dir kt)) (\<lambda>_.
      case ki_serialize c info of
        None \<Rightarrow> err_op ''error serializing key info''
      | Some bs \<Rightarrow> write_all (triple_path c dir kt) bs)))"
proof -
  obtain app prov key where n: "key_triple_to_base64_filenames c kt = (app, prov, key)"
    using prod_cases3 by blast
  note names = valid_filenames [OF assms, unfolded n fst_conv snd_conv]
  have "delete_mapping c dir kt = (\<lambda>d. case path_exists (triple_path c dir kt) d of
      (b, d') \<Rightarrow> if b then remove_file (triple_path c dir kt) d' else (Inr (), d'))"
    by (rule ext) (simp add: delete_mapping_def n names Let_def split: prod.split)
  then show ?thesis unfolding save_mapping_def n Let_def prod.case names by simp
qed

lemma delete_mapping_Inr:
  assumes "delete_mapping c dir kt d = (Inr (), d')" and "base64_ok c" and "valid_triple c kt"
    and "[] \<notin> set dir" and "fs_wf d"
  shows "fs_wf d'" and "q \<noteq> triple_path c dir kt \<Longrightarrow> node_at d' q = node_at d q"
    and "fault_now d = None \<Longrightarrow> node_at d' (triple_path c dir kt) = None"
proof -
  let ?p = "triple_path c dir kt"
  have cases: "d' = tick d \<and> \<not> (fault_now d = None \<and> node_at d ?p \<noteq> None) \<or>
      remove_file ?p (tick d) = (Inr (), d')"
    using assms(1) valid_filenames [OF assms(2-4)]
    by (auto simp: delete_mapping_def Let_def path_exists_def split: prod.splits if_splits)
  show "fs_wf d'" using cases fs_wf_remove_file assms(5) by auto
  show "q \<noteq> ?p \<Longrightarrow> node_at d' q = node_at d q" using cases remove_file_Inr(2) by fastforce
  show "fault_now d = None \<Longrightarrow> node_at d' ?p = None" using cases remove_file_Inr(2) by fastforce
qed

lemma save_mapping_Inr:
  assumes "save_mapping c dir kt info d = (Inr (), d')" and "base64_ok c" and "valid_triple c kt"
    and "[] \<notin> set dir" and "fs_wf d" and "node_at d dir = Some Dir"
  shows "fs_wf d' \<and> (\<exists>b. ki_serialize c info = Some b \<and> node_at d' (triple_path c dir kt) = Some (File b)) \<and>
    node_at d' (app_path c dir kt) = Some Dir \<and> node_at d' (prov_path c dir kt) = Some Dir \<and>
    (\<forall>p. p \<noteq> triple_path c dir kt \<longrightarrow> p \<noteq> app_path c dir kt \<longrightarrow> p \<noteq> prov_path c dir kt \<longrightarrow>
      node_at d' p = node_at d p)"
proof -
  let ?p = "triple_path c dir kt"
  obtain d1 d2 d3 b where
    1: "create_dir_all (prov_path c dir kt) d = (Inr (), d1)" and
    2: "delete_mapping c dir kt d1 = (Inr (), d2)" and
    3: "file_create ?p d2 = (Inr (), d3)" and
    b: "ki_serialize c info = Some b" and
    4: "write_all ?p b d3 = (Inr (), d')"
    using assms(1) unfolding save_mapping_unfold [OF assms(2-4)]
    by (auto simp: try_op_eq_Inr split: option.splits)
  note nonempty = valid_filenames(3,4) [OF assms(2-4)]
  have wf1: "fs_wf d1" by (rule fs_wf_create_dir_all [OF 1 assms(5) nonempty(2)])
  note del = delete_mapping_Inr [OF 2 assms(2-4) wf1]
  have wf3: "fs_wf d3" by (rule fs_wf_file_create [OF 3 del(1) nonempty(1)])
  have n3: "node_at d3 ?p = Some (File [])" using file_create_Inr [OF 3] by simp
  have n': "node_at d' q = (if q = ?p then Some (File b) else node_at d1 q)" for q
    using write_all_Inr [OF 4 n3, of q] file_create_Inr [OF 3, of q] del(2) [of q] by simp
  have chain: "node_at d q = Some Dir" if "q \<in> dir_chain [] dir" for q
    using dir_chain_prefix [OF that] fs_wf_ancestor [OF assms(5)] assms(6) by metis
  have "node_at d' (app_path c dir kt) = Some Dir" "node_at d' (prov_path c dir kt) = Some Dir"
    using create_dir_all_Inr(1) [OF 1] by (simp_all add: n' dir_chain_prov_path)
  moreover have "node_at d' q = node_at d q"
    if "q \<noteq> ?p" "q \<noteq> app_path c dir kt" "q \<noteq> prov_path c dir kt" for q
    using create_dir_all_Inr(2) [OF 1, of q] chain that by (auto simp: n' dir_chain_prov_path)
  ultimately show ?thesis using fs_wf_write_all [OF 4 wf3] b n' by simp
qed

lemma stored_remove_file:
  assumes "stored c dir M d" and "base64_ok c" and "valid_triple c kt"
    and d': "fs_wf d'" "node_at d' (triple_path c dir kt) = None"
    and rest: "\<And>p. p \<noteq> triple_path c dir kt \<Longrightarrow> node_at d' p = node_at d p"
  shows "stored c dir (M(kt := None)) d'"
proof -
  note st = assms(1)
  have other: "node_at d' (triple_path c dir kt') = node_at d (triple_path c dir kt')"
    if "M kt' = Some i" "kt' \<noteq> kt" for kt' i
    using rest triple_path_inject [OF assms(2) storedD(4) [OF st that(1)] assms(3)] that(2) by simp
  have "node_at d' dir = Some Dir" using rest [of dir] storedD(3) [OF st] by (simp add: path_defs)
  moreover have "length rel < 3 \<and> node_at d' (dir @ rel) = Some Dir \<or>
      (\<exists>kt' \<in> dom (M(kt := None)). dir @ rel = triple_path c dir kt')"
    if "rel \<noteq> []" "node_at d' (dir @ rel) \<noteq> None" for rel
  proof -
    have "dir @ rel \<noteq> triple_path c dir kt" using that d'(2) by auto
    with rest [of "dir @ rel"] that storedD(6) [OF st that(1)] show ?thesis by auto
  qed
  ultimately show ?thesis
    using storedD(1,2,4,5) [OF st] d'(1) other unfolding stored_def by (fastforce split: if_splits)
qed

section \<open>The manager keeps memory and disk together\<close>

lemma odm_insert_synced:
  assumes "odm_insert c kt info m = (Inr r, m')" and "base64_ok c" and "synced c m"
    and "valid_triple c kt" and "encodes c info b"
  shows "synced c m' \<and> odm_abs m' = (odm_abs m)(kt \<mapsto> info) \<and>
    mappings_dir_path m' = mappings_dir_path m"
proof -
  let ?dir = "mappings_dir_path m"
  obtain d' where d': "save_mapping c ?dir kt info (odm_disk m) = (Inr (), d')"
    and m': "m' = m\<lparr>odm_disk := d', key_store := hm_insert kt info (key_store m)\<rparr>"
    using assms(1) by (auto simp: odm_insert_def split: prod.splits sum.splits)
  note st = assms(3) [unfolded synced_def]
  from save_mapping_Inr [OF d' assms(2,4) storedD(2) [OF st] storedD(1) [OF st] storedD(3) [OF st]]
  have "stored c ?dir ((odm_abs m)(kt \<mapsto> info)) d'"
    using assms(5) stored_insert_file [OF st assms(2,4,5)] by (auto simp: encodes_def)
  then show ?thesis by (simp add: m' synced_def odm_abs_def hm_simps)
qed

lemma odm_remove_synced:
  assumes "odm_remove c kt m = (Inr r, m')" and "base64_ok c" and "synced c m"
    and "valid_triple c kt" and "fault_now (odm_disk m) = None"
  shows "synced c m' \<and> odm_abs m' = (odm_abs m)(kt := None) \<and>
    mappings_dir_path m' = mappings_dir_path m"
proof -
  let ?dir = "mappings_dir_path m"
  obtain d' where d': "delete_mapping c ?dir kt (odm_disk m) = (Inr (), d')"
    and m': "mappings_dir_path m' = ?dir" "odm_disk m' = d'"
    using assms(1) by (auto simp: odm_remove_def split: prod.splits sum.splits option.splits)
  have abs: "odm_abs m' = (odm_abs m)(kt := None)"
    using assms(1) by (auto simp: odm_remove_def odm_abs_def hm_simps fun_upd_idem
        split: prod.splits sum.splits option.splits)
  note st = assms(3) [unfolded synced_def]
  note del = delete_mapping_Inr [OF d' assms(2,4) storedD(2) [OF st] storedD(1) [OF st]]
  have "stored c ?dir ((odm_abs m)(kt := None)) d'"
    using stored_remove_file [OF st assms(2,4) del(1) del(3) [OF assms(5)]] del(2) by blast
  with m' abs show ?thesis by (simp add: synced_def)
qed

text \<open>Without faults, both operations succeed.\<close>

lemma delete_mapping_quiet:
  assumes "quiet d" and "base64_ok c" and "valid_triple c kt" and "[] \<notin> set dir"
    and "node_at d (triple_path c dir kt) \<noteq> Some Dir"
  shows "\<exists>d'. delete_mapping c dir kt d = (Inr (), d') \<and> quiet d'"
proof (cases "node_at d (triple_path c dir kt)")
  case None
  then show ?thesis using assms(1) valid_filenames [OF assms(2-4)]
    by (auto simp: delete_mapping_def Let_def path_exists_def split: prod.splits)
next
  case (Some x)
  then obtain b where "node_at (tick d) (triple_path c dir kt) = Some (File b)"
    using assms(5) by (cases x) auto
  with remove_file_quiet [OF quiet_tick [OF assms(1)] this] Some show ?thesis
    using assms(1) valid_filenames [OF assms(2-4)]
    by (auto simp: delete_mapping_def Let_def path_exists_def split: prod.splits)
qed

text \<open>In a tree that stores a map, no directory is in the way of a mapping and no file in that of its directories.\<close>

lemma stored_not_dir: "stored c dir M d \<Longrightarrow> node_at d (triple_path c dir kt) \<noteq> Some Dir"
  using stored_level3 [of c dir M d] storedD(5) [of c dir M d]
  by (fastforce simp: triple_path_def prov_path_def app_path_def)

lemma stored_chain_not_file:
  assumes "stored c dir M d" and "q \<in> dir_chain [] (prov_path c dir kt)"
  shows "node_at d q \<noteq> Some (File x)"
proof -
  note st = assms(1)
  have dirs: "node_at d (dir @ rel) \<noteq> Some (File x)" if "rel \<noteq> []" "length rel < 3" for rel
    using storedD(6) [OF st, of rel] that by (auto simp: path_defs)
  consider "q \<in> dir_chain [] dir" | rel where "rel \<noteq> []" "length rel < 3" "q = dir @ rel"
    using assms(2) unfolding dir_chain_prov_path by (fastforce simp: path_defs)
  then show ?thesis
  proof cases
    case 1
    then obtain r where "dir = q @ r" using dir_chain_prefix by blast
    then show ?thesis using fs_wf_ancestor [OF storedD(1) [OF st]] storedD(3) [OF st] by fastforce
  qed (use dirs in auto)
qed

lemma save_mapping_quiet:
  assumes "stored c dir M d" and "quiet d" and "base64_ok c" and "valid_triple c kt"
    and "encodes c info b"
  shows "\<exists>d'. save_mapping c dir kt info d = (Inr (), d') \<and> quiet d'"
proof -
  let ?p = "triple_path c dir kt"
  note st = assms(1)
  obtain d1 where 1: "create_dir_all (prov_path c dir kt) d = (Inr (), d1)" "quiet d1"
    using create_dir_all_quiet [OF assms(2)] stored_chain_not_file [OF st] by blast
  have fs1: "fs_wf d1"
    by (rule fs_wf_create_dir_all [OF 1(1) storedD(1) [OF st] valid_filenames(4) [OF assms(3,4) storedD(2) [OF st]]])
  have "?p \<notin> dir_chain [] (prov_path c dir kt)"
    using dir_chain_prefix [of ?p "prov_path c dir kt"] by (auto simp: path_defs)
  then have "node_at d1 ?p \<noteq> Some Dir"
    using create_dir_all_Inr(2) [OF 1(1), of ?p] stored_not_dir [OF st] by metis
  then obtain d2 where 2: "delete_mapping c dir kt d1 = (Inr (), d2)" "quiet d2"
    using delete_mapping_quiet [OF 1(2) assms(3,4) storedD(2) [OF st]] by blast
  note del = delete_mapping_Inr [OF 2(1) assms(3,4) storedD(2) [OF st] fs1]
  have "node_at d2 (butlast ?p) = Some Dir"
    using del(2) [of "butlast ?p"] create_dir_all_Inr(1) [OF 1(1)]
    by (simp add: path_levels dir_chain_prov_path)
  moreover have "node_at d2 ?p = None" using del(3) 1(2) by simp
  ultimately obtain d3 where 3: "file_create ?p d2 = (Inr (), d3)" "quiet d3"
    using file_create_quiet [OF 2(2), of ?p] by (auto simp: triple_path_def)
  obtain d4 where "write_all ?p b d3 = (Inr (), d4)" "quiet d4" using write_all_quiet [OF 3(2)] by blast
  with 1 2 3 assms(5) show ?thesis
    by (simp add: save_mapping_unfold [OF assms(3,4) storedD(2) [OF st]] try_op_def encodes_def)
qed

section \<open>Unreadable files\<close>

text \<open>Start-up only reads, and it succeeds only if it could read every file it met.\<close>

lemma filter_paths_unchanged:
  assumes "filter_paths test ps d = (qs, d')" and "\<And>p d. unchanged d (snd (test p d))"
  shows "unchanged d d'"
  using assms(1)
proof (induction ps arbitrary: d qs)
  case (Cons p ps)
  obtain b d1 where t: "test p d = (b, d1)" by fastforce
  with Cons.prems obtain qs1 where "filter_paths test ps d1 = (qs1, d')"
    by (auto split: prod.splits if_splits)
  from Cons.IH [OF this] assms(2) [of d p] t show ?case by (auto intro: unchanged_trans)
qed simp

lemma list_dirs_unchanged: "list_dirs p d = (r, d') \<Longrightarrow> unchanged d d'"
  by (auto simp: list_dirs_def try_op_def read_dir_def is_dir_def
      intro: unchanged_trans [OF unchanged_tick] dest!: filter_paths_unchanged split: prod.splits sum.splits if_splits)

lemma list_files_unchanged: "list_files p d = (r, d') \<Longrightarrow> unchanged d d'"
  by (auto simp: list_files_def try_op_def read_dir_def is_file_def
      intro: unchanged_trans [OF unchanged_tick] dest!: filter_paths_unchanged split: prod.splits sum.splits if_splits)

lemma try_op_unchanged:
  assumes "try_op f k d = (r, d')" and "\<And>r d'. f d = (r, d') \<Longrightarrow> unchanged d d'"
    and "\<And>x d1. f d = (Inr x, d1) \<Longrightarrow> k x d1 = (r, d') \<Longrightarrow> unchanged d1 d'"
  shows "unchanged d d'"
  using assms by (auto simp: try_op_def split: prod.splits sum.splits intro: unchanged_trans)

lemma load_file_unchanged: "load_file c a p f store d = (r, d') \<Longrightarrow> unchanged d d'"
  unfolding load_file_def
  by (erule try_op_unchanged)
    (auto simp: file_open_def split: if_splits elim!: try_op_unchanged,
     auto simp: read_to_end_def split: if_splits option.splits node.splits)

lemma load_files_unchanged: "load_files c a p fs store d = (r, d') \<Longrightarrow> unchanged d d'"
  by (induction fs arbitrary: store d) (auto elim!: try_op_unchanged load_file_unchanged)

lemma load_providers_unchanged: "load_providers c a ps store d = (r, d') \<Longrightarrow> unchanged d d'"
  by (induction ps arbitrary: store d)
    (auto elim!: try_op_unchanged list_files_unchanged load_files_unchanged)

lemma load_files_reads:
  assumes "load_files c a p fs store d = (Inr s, d')" and "f \<in> set fs"
    and "node_at d f = Some (File b)"
  shows "ki_deserialize c b \<noteq> None"
  using assms
proof (induction fs arbitrary: store d)
  case (Cons g fs)
  from Cons.prems(1) obtain s1 d1 where 1: "load_file c a p g store d = (Inr s1, d1)"
    "load_files c a p fs s1 d1 = (Inr s, d')" by (auto simp: try_op_eq_Inr)
  show ?case
  proof (cases "f = g")
    case True
    with 1(1) Cons.prems(3) show ?thesis
      by (auto simp: load_file_def try_op_eq_Inr file_open_def read_to_end_def try_res_def ok_or_def
          split: if_splits option.splits)
  next
    case False
    with Cons 1 unchanged_node_at [OF load_file_unchanged [OF 1(1)]] show ?thesis by auto
  qed
qed simp

lemma load_providers_reads:
  assumes "load_providers c a ps store d = (Inr s, d')" and "q \<in> set ps" and "quiet d" and "fs_wf d"
    and "node_at d q = Some Dir" and "node_at d (q @ [k]) = Some (File b)"
  shows "ki_deserialize c b \<noteq> None"
  using assms
proof (induction ps arbitrary: store d)
  case (Cons r ps)
  from Cons.prems(1) obtain fs d1 s1 d2 where 1: "list_files r d = (Inr fs, d1)"
    "load_files c a r fs store d1 = (Inr s1, d2)" "load_providers c a ps s1 d2 = (Inr s, d')"
    by (auto simp: try_op_eq_Inr)
  note u1 = list_files_unchanged [OF 1(1)]
  note u2 = unchanged_trans [OF u1 load_files_unchanged [OF 1(2)]]
  show ?case
  proof (cases "q = r")
    case True
    with list_files_quiet [of d r] Cons.prems 1(1) have "q @ [k] \<in> set fs" by auto
    then show ?thesis
      using load_files_reads [OF 1(2)] Cons.prems(6) unchanged_node_at [OF u1] by metis
  next
    case False
    with Cons.prems(2) have "q \<in> set ps" by simp
    from Cons.IH [OF 1(3) this] Cons.prems u2 show ?thesis by (simp add: unchanged_facts [OF u2])
  qed
qed simp

lemma load_apps_reads:
  assumes "load_apps c as store d = (Inr s, d')" and "a \<in> set as" and "quiet d" and "fs_wf d"
    and "node_at d (a @ [p, k]) = Some (File b)"
  shows "ki_deserialize c b \<noteq> None"
  using assms
proof (induction as arbitrary: store d)
  case (Cons r as)
  from Cons.prems(1) obtain ps d1 s1 d2 where 1: "list_dirs r d = (Inr ps, d1)"
    "load_providers c r ps store d1 = (Inr s1, d2)" "load_apps c as s1 d2 = (Inr s, d')"
    by (auto simp: try_op_eq_Inr)
  note u1 = list_dirs_unchanged [OF 1(1)]
  note u2 = unchanged_trans [OF u1 load_providers_unchanged [OF 1(2)]]
  have dirs: "node_at d (a @ [p]) = Some Dir" "node_at d a = Some Dir"
    using fs_wf_parent [OF Cons.prems(4), of "a @ [p]" k] fs_wf_parent [OF Cons.prems(4), of a p] Cons.prems(5)
    by simp_all
  show ?case
  proof (cases "a = r")
    case True
    with list_dirs_quiet [of d r] Cons.prems dirs 1(1) have "a @ [p] \<in> set ps" by auto
    from load_providers_reads [OF 1(2) this, of k b] Cons.prems dirs show ?thesis
      by (simp add: unchanged_facts [OF u1])
  next
    case False
    with Cons.prems(2) have "a \<in> set as" by simp
    from Cons.IH [OF 1(3) this] Cons.prems u2 show ?thesis by (simp add: unchanged_facts [OF u2])
  qed
qed simp

lemma on_disk_new_unreadable:
  assumes "quiet d" and "fs_wf d" and "node_at d (dir @ [a, p, k]) = Some (File b)"
    and "ki_deserialize c b = None"
  shows "\<exists>e d'. on_disk_new c ord dir d = (Inl e, d')"
proof -
  have dirs: "node_at d (dir @ [a, p]) = Some Dir" "node_at d (dir @ [a]) = Some Dir" "node_at d dir = Some Dir"
    using fs_wf_parent [OF assms(2), of "dir @ [a, p]" k] fs_wf_ancestor [OF assms(2), of "dir @ [a]" "[p]"]
      fs_wf_ancestor [OF assms(2), of dir "[a, p]"] assms(3) by simp_all
  have 1: "create_dir_all dir d = (Inr (), tick d)"
    by (rule create_dir_all_existing [OF assms(1,2) dirs(3)])
  obtain as d1 where as: "list_dirs dir (tick d) = (Inr as, d1)" "unchanged (tick d) d1" "dir @ [a] \<in> set as"
    using list_dirs_quiet [of "tick d" dir] assms(1,2) dirs by auto
  note u = unchanged_trans [OF unchanged_tick as(2)]
  have "load_apps c as [] d1 \<noteq> (Inr s, d')" for s d'
    using load_apps_reads [of c as "[]" d1 s d' "dir @ [a]" p k b] as(3) assms
    by (auto simp: unchanged_facts [OF u])
  then obtain e d' where "load_apps c as [] d1 = (Inl e, d')" by (metis sum.exhaust surj_pair)
  with 1 as(1) show ?thesis by (simp add: on_disk_new_def try_op_def)
qed

text \<open>A mapping whose file cannot be written leaves that file behind, empty.\<close>

lemma stored_absent:
  assumes "stored c dir M d" and "base64_ok c" and "valid_triple c kt" and "M kt = None"
  shows "node_at d (triple_path c dir kt) = None"
proof (rule ccontr)
  assume "node_at d (triple_path c dir kt) \<noteq> None"
  then obtain kt' where "kt' \<in> dom M" "triple_path c dir kt = triple_path c dir kt'"
    using stored_level3 [OF assms(1)] by (fastforce simp: triple_path_def prov_path_def app_path_def)
  moreover from this(1) have "valid_triple c kt'" using storedD(4) [OF assms(1)] by blast
  ultimately show False using triple_path_inject [OF assms(2,3)] assms(4) by auto
qed

lemma save_mapping_write_fault:
  assumes st: "stored c dir M d" and "base64_ok c" and "valid_triple c kt" and "M kt = None"
    and "encodes c info b" and fl: "io_fault d = (\<lambda>n. if n = clock d + 3 then Some 0 else None)"
  shows "\<exists>d'. save_mapping c dir kt info d = (Inl ''write_all'', d') \<and> fs_wf d' \<and>
    node_at d' (triple_path c dir kt) = Some (File [])"
proof -
  let ?p = "triple_path c dir kt"
  note names = valid_filenames [OF assms(2,3) storedD(2) [OF st]]
  have "fault_now d = None" by (simp add: fault_now_def fl)
  then obtain ns where
    1: "create_dir_all (prov_path c dir kt) d = (Inr (), tick (d\<lparr>nodes := ns\<rparr>))"
    using create_dir_all_ok [of d "prov_path c dir kt"] stored_chain_not_file [OF st] by blast
  let ?d1 = "tick (d\<lparr>nodes := ns\<rparr>)" and ?d3 = "tick (tick (tick (d\<lparr>nodes := hm_insert ?p (File []) ns\<rparr>)))"
  have wf1: "fs_wf ?d1" by (rule fs_wf_create_dir_all [OF 1 storedD(1) [OF st] names(4)])
  have "?p \<notin> dir_chain [] (prov_path c dir kt)"
    using dir_chain_prefix [of ?p "prov_path c dir kt"] by (auto simp: path_defs)
  then have p1: "node_at ?d1 ?p = None"
    using create_dir_all_Inr(2) [OF 1, of ?p] stored_absent [OF assms(1-4)] by simp
  have 2: "delete_mapping c dir kt ?d1 = (Inr (), tick ?d1)"
    using p1 names
    by (auto simp: delete_mapping_def Let_def path_exists_def fault_now_def fl split: prod.splits)
  have "node_at ?d1 (prov_path c dir kt) = Some Dir"
    using create_dir_all_Inr(1) [OF 1] by (simp add: dir_chain_prov_path)
  with p1 have 3: "file_create ?p (tick ?d1) = (Inr (), ?d3)"
    by (simp add: file_create_def fault_now_def fl path_levels) (simp add: triple_path_def tick_def)
  have n3: "node_at ?d3 ?p = Some (File [])" using file_create_Inr [OF 3, of ?p] by simp
  then have "append_bytes ?p [] ?d3 = ?d3\<lparr>nodes := hm_insert ?p (File []) (nodes ?d3)\<rparr>"
    by (simp add: append_bytes_def)
  then have n4: "node_at (append_bytes ?p [] ?d3) ?p = Some (File [])"
    by (simp add: node_at_def hm_simps triple_path_def)
  have "write_all ?p b ?d3 = (Inl ''write_all'', tick (append_bytes ?p [] ?d3))"
    by (simp add: write_all_def fault_now_def fl)
  then have "save_mapping c dir kt info d = (Inl ''write_all'', tick (append_bytes ?p [] ?d3))"
    using 1 2 3 assms(5)
    by (simp add: save_mapping_unfold [OF assms(2,3) storedD(2) [OF st]] try_op_def encodes_def)
  moreover have "fs_wf (tick (append_bytes ?p [] ?d3))"
    using fs_wf_append_bytes [OF fs_wf_file_create [OF 3 _ names(3)]] wf1 by simp
  ultimately show ?thesis using n4 by auto
qed

section \<open>Sequences of updates\<close>

text \<open>
  A run of updates of the manager, and the same run on an abstract map. \<open>run_updates\<close> is \<open>None\<close> as
  soon as one of the updates returns an error.
\<close>

datatype update = Insert key_triple key_info | Remove key_triple

definition run_update :: "codec \<Rightarrow> update \<Rightarrow> (on_disk_manager, string, key_info option) rust_op" where
  "run_update c u m =
     (case u of
        Insert kt info \<Rightarrow> mki_insert (on_disk_impl c) kt info m
      | Remove kt \<Rightarrow> mki_remove (on_disk_impl c) kt m)"

fun run_updates :: "codec \<Rightarrow> update list \<Rightarrow> on_disk_manager \<Rightarrow> on_disk_manager option" where
  "run_updates c [] m = Some m"
| "run_updates c (u # us) m =
     (case run_update c u m of (Inr _, m') \<Rightarrow> run_updates c us m' | (Inl _, _) \<Rightarrow> None)"

fun spec_updates ::
  "update list \<Rightarrow> (key_triple \<Rightarrow> key_info option) \<Rightarrow> key_triple \<Rightarrow> key_info option" where
  "spec_updates [] M = M"
| "spec_updates (Insert kt info # us) M = spec_updates us (M(kt \<mapsto> info))"
| "spec_updates (Remove kt # us) M = spec_updates us (M(kt := None))"

fun valid_update :: "codec \<Rightarrow> update \<Rightarrow> bool" where
  "valid_update c (Insert kt info) \<longleftrightarrow>
     valid_triple c kt \<and> (case ki_serialize c info of None \<Rightarrow> False | Some b \<Rightarrow> ki_deserialize c b = Some info)"
| "valid_update c (Remove kt) \<longleftrightarrow> valid_triple c kt"

lemma valid_update_encodes:
  "valid_update c (Insert kt info) \<Longrightarrow> valid_triple c kt \<and> (\<exists>b. encodes c info b)"
  by (auto simp: encodes_def split: option.splits)

lemma run_update_quiet:
  assumes "base64_ok c" and "synced c m" and "quiet (odm_disk m)" and "odm_inv m" and "valid_update c u"
  shows "\<exists>r m'. run_update c u m = (Inr r, m') \<and> synced c m' \<and> quiet (odm_disk m') \<and> odm_inv m' \<and>
    odm_abs m' = spec_updates [u] (odm_abs m) \<and> mappings_dir_path m' = mappings_dir_path m"
proof (cases u)
  case (Insert kt info)
  then obtain b where v: "valid_triple c kt" "encodes c info b"
    using assms(5) valid_update_encodes by blast
  obtain d' where d': "save_mapping c (mappings_dir_path m) kt info (odm_disk m) = (Inr (), d')" "quiet d'"
    using save_mapping_quiet [OF assms(2) [unfolded synced_def] assms(3,1) v] by blast
  then obtain r m' where run: "odm_insert c kt info m = (Inr r, m')" "odm_disk m' = d'"
    by (simp add: odm_insert_def)
  then have "odm_inv m'" using odm.insert_ok [OF assms(4)] by (simp add: on_disk_impl_def)
  with run d'(2) odm_insert_synced [OF run(1) assms(1,2) v] Insert show ?thesis
    by (simp add: run_update_def on_disk_impl_def)
next
  case (Remove kt)
  then have v: "valid_triple c kt" using assms(5) by simp
  note st = assms(2) [unfolded synced_def]
  obtain d' where d': "delete_mapping c (mappings_dir_path m) kt (odm_disk m) = (Inr (), d')" "quiet d'"
    using delete_mapping_quiet [OF assms(3,1) v storedD(2) [OF st] stored_not_dir [OF st]] by blast
  then have "\<exists>r m'. odm_remove c kt m = (Inr r, m') \<and> odm_disk m' = d'"
    by (auto simp: odm_remove_def split: option.splits)
  then obtain r m' where run: "odm_remove c kt m = (Inr r, m')" "odm_disk m' = d'" by blast
  then have "odm_inv m'" using odm.remove_ok [OF assms(4)] by (simp add: on_disk_impl_def)
  with run d'(2) odm_remove_synced [OF run(1) assms(1,2) v quiet_now [OF assms(3)]] Remove show ?thesis
    by (simp add: run_update_def on_disk_impl_def)
qed

lemma run_updates_quiet:
  assumes "base64_ok c" and "synced c m" and "quiet (odm_disk m)" and "odm_inv m"
    and "list_all (valid_update c) us"
  shows "\<exists>m'. run_updates c us m = Some m' \<and> synced c m' \<and> quiet (odm_disk m') \<and> odm_inv m' \<and>
    odm_abs m' = spec_updates us (odm_abs m) \<and> mappings_dir_path m' = mappings_dir_path m"
  using assms(2-5)
proof (induction us arbitrary: m)
  case (Cons u us)
  have "valid_update c u" using Cons.prems(4) by simp
  then obtain r m1 where 1: "run_update c u m = (Inr r, m1)" "synced c m1" "quiet (odm_disk m1)" "odm_inv m1"
    "odm_abs m1 = spec_updates [u] (odm_abs m)" "mappings_dir_path m1 = mappings_dir_path m"
    using run_update_quiet [OF assms(1) Cons.prems(1-3)] by blast
  have "spec_updates us (odm_abs m1) = spec_updates (u # us) (odm_abs m)" using 1(5) by (cases u) auto
  with Cons.IH [OF 1(2-4)] Cons.prems(4) 1 show ?case by auto
qed simp

text \<open>A manager started in a fresh directory has no mappings and is in step with its disk.\<close>

definition blank_disk :: "disk \<Rightarrow> path \<Rightarrow> bool" where
  "blank_disk d dir \<longleftrightarrow> fs_wf d \<and> [] \<notin> set dir \<and> node_at d dir = Some Dir \<and>
     (\<forall>rel. rel \<noteq> [] \<longrightarrow> node_at d (dir @ rel) = None)"

lemma blank_disk_stored: "blank_disk d dir \<Longrightarrow> stored c dir (\<lambda>_. None) d"
  by (simp add: blank_disk_def stored_def)

section \<open>A codec that meets the assumptions\<close>

definition nibble_encode :: "bytes \<Rightarrow> string" where
  "nibble_encode bs = concat (map (\<lambda>b. [char_of (97 + unat b div 16), char_of (97 + unat b mod 16)]) bs)"

fun nibble_decode :: "bytes \<Rightarrow> bytes option" where
  "nibble_decode [] = Some []"
| "nibble_decode (x # y # r) =
     map_option (\<lambda>bs. word_of_nat ((unat x - 97) * 16 + (unat y - 97)) # bs) (nibble_decode r)"
| "nibble_decode [x] = None"

definition sample_codec :: codec where
  "sample_codec =
     \<lparr>base64_encode = nibble_encode, base64_decode = nibble_decode,
      ki_serialize = (\<lambda>info. Some (1 # ki_id info)),
      ki_deserialize = (\<lambda>bs. case bs of [] \<Rightarrow> None
                          | _ # r \<Rightarrow> Some \<lparr>ki_id = r, ki_attributes = sample_attributes\<rparr>),
      provider_as_u8 = (\<lambda>p. case p of Core \<Rightarrow> 0 | MbedCrypto \<Rightarrow> 1 | Pkcs11 \<Rightarrow> 2 | Tpm \<Rightarrow> 3
        | TrustedService \<Rightarrow> 4 | CryptoAuthLib \<Rightarrow> 5 | OtherProvider n \<Rightarrow> n),
      provider_try_from = (\<lambda>n. if n = 0 then Some Core else if n = 1 then Some MbedCrypto
        else if n = 2 then Some Pkcs11 else if n = 3 then Some Tpm
        else if n = 4 then Some TrustedService else if n = 5 then Some CryptoAuthLib else None)\<rparr>"

lemma unat_byte_of_char_of: "n < 256 \<Longrightarrow> unat (byte_of_char (char_of n)) = n"
  by (simp add: byte_of_char_def unat_of_nat)

lemma nibble_bytes:
  "unat (byte_of_char (char_of (97 + unat (b::u8) div 16))) = 97 + unat b div 16"
  "unat (byte_of_char (char_of (97 + unat b mod 16))) = 97 + unat b mod 16"
  by (rule unat_byte_of_char_of, use u8_bound [of b] in simp)+

lemma nibble_decode_encode: "nibble_decode (as_bytes (nibble_encode bs)) = Some bs"
  by (induction bs) (simp_all add: nibble_encode_def as_bytes_def nibble_bytes)

lemma nibble_utf8: "utf8_string (nibble_encode bs)"
proof (induction bs)
  case (Cons b bs)
  have "byte_of_char (char_of (97 + unat b div 16)) \<le> 0x7F" "byte_of_char (char_of (97 + unat b mod 16)) \<le> 0x7F"
    using u8_bound [of b] by (simp_all add: word_le_nat_alt nibble_bytes)
  with Cons show ?case by (simp add: utf8_string_def as_bytes_def nibble_encode_def)
qed (simp add: utf8_string_def as_bytes_def nibble_encode_def)

lemma sample_codec_ok: "base64_ok sample_codec"
proof -
  have "nibble_encode b \<noteq> []" if "b \<noteq> []" for b
    using that by (cases b) (simp_all add: nibble_encode_def)
  then show ?thesis by (simp add: base64_ok_def sample_codec_def nibble_decode_encode nibble_utf8)
qed

definition sample_disk :: disk where
  "sample_disk = \<lparr>nodes = [([''m''], Dir)], dir_order = id, io_fault = (\<lambda>_. None), clock = 0\<rparr>"

definition sample_manager :: on_disk_manager where
  "sample_manager =
     \<lparr>key_store = [], hash_order = id, mappings_dir_path = [''m''], odm_disk = sample_disk\<rparr>"

definition sample_triple :: "string \<Rightarrow> key_triple" where
  "sample_triple name = key_triple_new ''app'' MbedCrypto name"

definition sample_info :: key_info where
  "sample_info = \<lparr>ki_id = [7, 0, 0, 0], ki_attributes = sample_attributes\<rparr>"

lemma sample_facts:
  "synced sample_codec sample_manager" "quiet (odm_disk sample_manager)" "odm_inv sample_manager"
  "valid_update sample_codec (Insert (sample_triple ''k'') sample_info)"
  "valid_update sample_codec (Remove (sample_triple ''k''))"
  by (auto simp: synced_def odm_abs_def sample_manager_def sample_disk_def stored_def fs_wf_def
      node_at_def hm_get_def hm_wf_def quiet_def odm_inv_def sample_codec_def sample_info_def
      sample_triple_def valid_triple_def utf8_string_def as_bytes_def byte_of_char_def
      split: if_splits)

lemma sample_valid_insert:
  assumes "pid \<in> {MbedCrypto, Pkcs11, Tpm, TrustedService, CryptoAuthLib}"
  shows "valid_update sample_codec (Insert (key_triple_new ''app'' pid ''k'') \<lparr>ki_id = bs, ki_attributes = sample_attributes\<rparr>)"
  using assms by (auto simp: sample_codec_def valid_triple_def utf8_string_def as_bytes_def byte_of_char_def)

section \<open>Properties\<close>

text \<open>
  C3: persistence. On a disk whose calls do not fail, every sequence of insertions and
  removals of well-formed mappings succeeds, the in-memory map afterwards is the one the
  updates describe, and a manager started afterwards on the same directory reads back exactly that
  map, whatever the listing order of directories and the iteration order of hash maps.
\<close>

theorem updates_persist:
  assumes "base64_ok c" and "synced c m" and "odm_inv m" and "quiet (odm_disk m)"
    and "list_all (valid_update c) us" and "iteration_order ord"
  shows "\<exists>m' m'' d''. run_updates c us m = Some m' \<and>
    odm_abs m' = spec_updates us (odm_abs m) \<and>
    on_disk_new c ord (mappings_dir_path m) (odm_disk m') = (Inr m'', d'') \<and>
    odm_abs m'' = spec_updates us (odm_abs m)"
proof -
  obtain m' where m': "run_updates c us m = Some m'" "synced c m'" "quiet (odm_disk m')"
    "odm_abs m' = spec_updates us (odm_abs m)" "mappings_dir_path m' = mappings_dir_path m"
    using run_updates_quiet [OF assms(1,2,4,3,5)] by blast
  then show ?thesis
    using on_disk_new_stored [OF m'(3) assms(1) m'(2) [unfolded synced_def] assms(6)] by auto
qed

theorem updates_persist_witness:
  "\<exists>m' m'' d''.
     run_updates sample_codec [Insert (sample_triple ''k'') sample_info] sample_manager = Some m' \<and>
     on_disk_new sample_codec rev [''m''] (odm_disk m') = (Inr m'', d'') \<and>
     odm_abs m'' (sample_triple ''k'') = Some sample_info"
proof -
  have "list_all (valid_update sample_codec) [Insert (sample_triple ''k'') sample_info]"
    using sample_facts(4) by simp
  from updates_persist [OF sample_codec_ok sample_facts(1,3,2) this iteration_order_rev]
  show ?thesis by (auto simp: sample_manager_def)
qed

text \<open>
  C6: durability under faults. Whatever input/output calls fail, an insertion that returns
  success has put the mapping on disk: once the disk answers again, a fresh manager starts, finds
  the new mapping and every earlier one, and nothing else.
\<close>

theorem insert_durable:
  assumes "base64_ok c" and "synced c m" and "valid_update c (Insert kt info)" and "iteration_order ord"
    and "odm_insert c kt info m = (Inr old, m')"
    and "d = (odm_disk m')\<lparr>io_fault := (\<lambda>_. None)\<rparr>"
  shows "old = odm_abs m kt \<and>
    (\<exists>m'' d''. on_disk_new c ord (mappings_dir_path m) d = (Inr m'', d'') \<and>
       odm_abs m'' = (odm_abs m)(kt \<mapsto> info))"
proof -
  obtain b where v: "valid_triple c kt" "encodes c info b"
    using assms(3) valid_update_encodes by blast
  have "synced c m'" and abs: "odm_abs m' = (odm_abs m)(kt \<mapsto> info)"
    and dir: "mappings_dir_path m' = mappings_dir_path m"
    using odm_insert_synced [OF assms(5,1,2) v] by simp_all
  then have st: "stored c (mappings_dir_path m) (odm_abs m') d"
    by (simp add: synced_def assms(6))
  have "quiet d" by (simp add: assms(6) quiet_def)
  from on_disk_new_stored [OF this assms(1) st assms(4)]
  have "\<exists>m'' d''. on_disk_new c ord (mappings_dir_path m) d = (Inr m'', d'') \<and>
      odm_abs m'' = (odm_abs m)(kt \<mapsto> info)" unfolding abs by blast
  moreover have "old = odm_abs m kt"
    using assms(5) by (auto simp: odm_insert_def odm_abs_def split: prod.splits sum.splits)
  ultimately show ?thesis by simp
qed

text \<open>A disk on which the second call, the query for an existing file, fails.\<close>

definition faulty_manager :: on_disk_manager where
  "faulty_manager = sample_manager\<lparr>odm_disk := sample_disk\<lparr>io_fault := (\<lambda>n. if n = 1 then Some 0 else None)\<rparr>\<rparr>"

theorem insert_durable_witness:
  "\<exists>m' m'' d''. odm_insert sample_codec (sample_triple ''k'') sample_info faulty_manager = (Inr None, m') \<and>
     on_disk_new sample_codec id [''m''] ((odm_disk m')\<lparr>io_fault := (\<lambda>_. None)\<rparr>) = (Inr m'', d'') \<and>
     odm_abs m'' (sample_triple ''k'') = Some sample_info"
proof -
  let ?i = "odm_insert sample_codec (sample_triple ''k'') sample_info faulty_manager"
  have ok: "fst ?i = Inr None" by code_simp
  then obtain m' where m': "?i = (Inr None, m')" by (cases ?i) simp
  have "synced sample_codec faulty_manager"
    using sample_facts(1) by (simp add: synced_def faulty_manager_def sample_manager_def odm_abs_def)
  from insert_durable [OF sample_codec_ok this sample_facts(4) iteration_order_id(2) m' refl] m'
  show ?thesis by (auto simp: faulty_manager_def sample_manager_def)
qed

text \<open>
  C39: a failed write is not rolled back. If the write of the file of a new mapping fails before
  the first byte, the insertion reports an error and the memory keeps its mappings, but an empty
  file stays on disk, and the next start of the manager fails although the disk works again.
\<close>

theorem failed_insert_blocks_restart:
  assumes "base64_ok c" and "synced c m" and "valid_update c (Insert kt info)" and "odm_abs m kt = None"
    and "ki_deserialize c [] = None"
    and "io_fault (odm_disk m) = (\<lambda>n. if n = clock (odm_disk m) + 3 then Some 0 else None)"
  shows "\<exists>e m'. odm_insert c kt info m = (Inl e, m') \<and> odm_abs m' = odm_abs m \<and>
    (\<exists>e' d'. on_disk_new c ord (mappings_dir_path m) ((odm_disk m')\<lparr>io_fault := (\<lambda>_. None)\<rparr>) = (Inl e', d'))"
proof -
  let ?dir = "mappings_dir_path m"
  obtain b where v: "valid_triple c kt" "encodes c info b"
    using assms(3) valid_update_encodes by blast
  obtain d' where d': "save_mapping c ?dir kt info (odm_disk m) = (Inl ''write_all'', d')" "fs_wf d'"
    "node_at d' (triple_path c ?dir kt) = Some (File [])"
    using save_mapping_write_fault [OF assms(2) [unfolded synced_def] assms(1) v(1) assms(4) v(2) assms(6)]
    by blast
  have "\<exists>e' d''. on_disk_new c ord ?dir (d'\<lparr>io_fault := (\<lambda>_. None)\<rparr>) = (Inl e', d'')"
    using on_disk_new_unreadable [of "d'\<lparr>io_fault := (\<lambda>_. None)\<rparr>" ?dir _ _ _ "[]"] d'(2,3) assms(5)
    by (auto simp: quiet_def path_defs)
  with d'(1) show ?thesis by (simp add: odm_insert_def odm_abs_def)
qed

definition write_fault_manager :: on_disk_manager where
  "write_fault_manager =
     sample_manager\<lparr>odm_disk := sample_disk\<lparr>io_fault := (\<lambda>n. if n = 3 then Some 0 else None)\<rparr>\<rparr>"

theorem failed_insert_blocks_restart_witness:
  "\<exists>e m'. odm_insert sample_codec (sample_triple ''k'') sample_info write_fault_manager = (Inl e, m') \<and>
     odm_abs m' = odm_abs write_fault_manager \<and>
     (\<exists>e' d'. on_disk_new sample_codec id [''m''] ((odm_disk m')\<lparr>io_fault := (\<lambda>_. None)\<rparr>) = (Inl e', d'))"
proof -
  have "synced sample_codec write_fault_manager"
    using sample_facts(1) by (simp add: synced_def write_fault_manager_def sample_manager_def odm_abs_def)
  moreover have "odm_abs write_fault_manager (sample_triple ''k'') = None"
    by (simp add: write_fault_manager_def sample_manager_def odm_abs_def)
  ultimately show ?thesis
    using failed_insert_blocks_restart [OF sample_codec_ok _ sample_facts(4), of write_fault_manager id]
    by (simp add: write_fault_manager_def sample_manager_def sample_disk_def sample_codec_def)
qed

text \<open>
  A removal can be undone by a restart. \<open>delete_mapping\<close> asks whether the file exists, and a
  failing query counts as no. The removal then returns the old key info and forgets the
  mapping in memory, but the file stays, and the next start of the manager brings the mapping back.
\<close>

lemma failed_query_resurrects_mapping:
  assumes "base64_ok c" and "synced c m" and "odm_abs m kt = Some info" and "iteration_order ord"
    and "fault_now (odm_disk m) \<noteq> None"
  shows "\<exists>m'. odm_remove c kt m = (Inr (Some info), m') \<and> odm_abs m' kt = None \<and>
    (\<exists>m'' d''. on_disk_new c ord (mappings_dir_path m) ((odm_disk m')\<lparr>io_fault := (\<lambda>_. None)\<rparr>) = (Inr m'', d'') \<and>
       odm_abs m'' kt = Some info)"
proof -
  let ?d = "tick (odm_disk m)"
  note st = assms(2) [unfolded synced_def]
  have "delete_mapping c (mappings_dir_path m) kt (odm_disk m) = (Inr (), ?d)"
    using assms(5) by (auto simp: delete_mapping_def path_exists_def Let_def split: prod.splits)
  with assms(3) have rem: "odm_remove c kt m =
      (Inr (Some info), m\<lparr>odm_disk := ?d, key_store := hm_remove kt (key_store m)\<rparr>)"
    by (simp add: odm_remove_def odm_abs_def)
  have "stored c (mappings_dir_path m) (odm_abs m) (?d\<lparr>io_fault := (\<lambda>_. None)\<rparr>)"
    using stored_unchanged [OF unchanged_tick st] by simp
  from on_disk_new_stored [OF _ assms(1) this assms(4)] obtain m'' d'' where
    "on_disk_new c ord (mappings_dir_path m) (?d\<lparr>io_fault := (\<lambda>_. None)\<rparr>) = (Inr m'', d'')"
    "odm_abs m'' = odm_abs m" by (auto simp: quiet_def)
  with assms(3) rem show ?thesis by (simp add: odm_abs_def hm_simps)
qed

definition query_fault_manager :: on_disk_manager where
  "query_fault_manager =
     (case odm_insert sample_codec (sample_triple ''k'') sample_info sample_manager of
        (_, m) \<Rightarrow> m\<lparr>odm_disk := (odm_disk m)\<lparr>io_fault := (\<lambda>_. Some 0)\<rparr>\<rparr>)"

lemma failed_query_resurrects_mapping_witness:
  "\<exists>m'. odm_remove sample_codec (sample_triple ''k'') query_fault_manager = (Inr (Some sample_info), m') \<and>
     odm_abs m' (sample_triple ''k'') = None \<and>
     (\<exists>m'' d''. on_disk_new sample_codec id (mappings_dir_path query_fault_manager)
          ((odm_disk m')\<lparr>io_fault := (\<lambda>_. None)\<rparr>) = (Inr m'', d'') \<and>
        odm_abs m'' (sample_triple ''k'') = Some sample_info)"
proof -
  obtain r m where i: "odm_insert sample_codec (sample_triple ''k'') sample_info sample_manager = (Inr r, m)"
    using run_update_quiet [OF sample_codec_ok sample_facts(1,2,3,4)] by (auto simp: run_update_def on_disk_impl_def)
  obtain b where v: "valid_triple sample_codec (sample_triple ''k'')" "encodes sample_codec sample_info b"
    using valid_update_encodes [OF sample_facts(4)] by blast
  have "synced sample_codec query_fault_manager"
    and "odm_abs query_fault_manager (sample_triple ''k'') = Some sample_info"
    using odm_insert_synced [OF i sample_codec_ok sample_facts(1) v]
    by (auto simp: query_fault_manager_def i synced_def odm_abs_def)
  moreover have "fault_now (odm_disk query_fault_manager) \<noteq> None"
    by (simp add: query_fault_manager_def i fault_now_def)
  ultimately show ?thesis
    using failed_query_resurrects_mapping [OF sample_codec_ok _ _ iteration_order_id(2)] by blast
qed

text \<open>
  What a client is told about its keys is exact. With the on-disk manager, \<open>list_keys\<close> always
  succeeds and returns one entry for each key of that application and that provider, with
  its attributes, and no entry of any other application or provider.
\<close>

lemma list_keys_exact:
  assumes "odm_inv m" and "self = build_client \<lparr>kf_impl = on_disk_impl c\<rparr> pid"
  shows "\<exists>keys. kim_list_keys self m app = Inr keys \<and> distinct (map lk_name keys) \<and>
    set keys = {listed kt info | kt info. odm_abs m kt = Some info \<and> kt_provider_id kt = pid \<and> kt_app_name kt = app}"
proof -
  have impl: "kc_impl self = on_disk_impl c" "kc_provider_id self = pid"
    by (simp_all add: assms(2) build_client_def)
  obtain keys where "kim_list_keys self m app = Inr keys"
    using odm.kim_list_keys_total [OF assms(1) impl(1)] by blast
  with odm.kim_list_keys_Inr [OF assms(1) impl(1) this] impl(2) show ?thesis by simp
qed

definition two_keys_manager :: on_disk_manager where
  "two_keys_manager = sample_manager\<lparr>key_store :=
     [(sample_triple ''k'', sample_info), (key_triple_new ''other'' MbedCrypto ''k'', sample_info)]\<rparr>"

lemma list_keys_exact_witness:
  "\<exists>keys. kim_list_keys (build_client \<lparr>kf_impl = on_disk_impl sample_codec\<rparr> MbedCrypto) two_keys_manager ''app'' = Inr keys \<and>
     listed (sample_triple ''k'') sample_info \<in> set keys \<and> length keys = 1"
proof -
  have inv: "odm_inv two_keys_manager"
    by (simp add: odm_inv_def two_keys_manager_def sample_manager_def hm_wf_def sample_triple_def)
  obtain keys where k: "kim_list_keys (build_client \<lparr>kf_impl = on_disk_impl sample_codec\<rparr> MbedCrypto) two_keys_manager ''app'' = Inr keys"
    "distinct (map lk_name keys)"
    "set keys = {listed kt info | kt info. odm_abs two_keys_manager kt = Some info \<and>
       kt_provider_id kt = MbedCrypto \<and> kt_app_name kt = ''app''}"
    using list_keys_exact [OF inv refl] by blast
  have "set keys = {listed (sample_triple ''k'') sample_info}"
  proof -
    have "odm_abs two_keys_manager kt = Some info \<and> kt_provider_id kt = MbedCrypto \<and> kt_app_name kt = ''app'' \<longleftrightarrow>
        kt = sample_triple ''k'' \<and> info = sample_info" for kt info
      by (auto simp: odm_abs_def two_keys_manager_def hm_get_def sample_triple_def)
    then show ?thesis unfolding k(3) by simp
  qed
  moreover from this have "length keys = 1"
    using k(2) distinct_card [of keys] by (simp add: distinct_map)
  ultimately show ?thesis using k(1) by blast
qed


text \<open>Identifiers of one byte, stored as that byte.\<close>

definition byte_id_codec :: "u8 id_codec" where
  "byte_id_codec = \<lparr>id_serialize = (\<lambda>k. Inr [k]),
     id_deserialize = (\<lambda>bs. case bs of [k] \<Rightarrow> Inr k | _ \<Rightarrow> Inl InvalidEncoding)\<rparr>"


text \<open>
  Inserting over an existing mapping reports \<open>PsaErrorAlreadyExists\<close> but has replaced it. If the
  manager can write its files, \<open>insert_key_info\<close> for a triple that has a key already fails, and
  afterwards the triple refers to the new identifier.
\<close>

lemma insert_key_info_overwrites:
  assumes "odm_inv m" and "self = build_client \<lparr>kf_impl = on_disk_impl c\<rparr> pid"
    and "id_codec_ok ic" and "odm_abs m kt = Some old"
    and "insert_key_info ic self kt k attrs m = (Inl e, m')" and "e \<noteq> KeyInfoManagerError"
  shows "e = PsaErrorAlreadyExists \<and> get_key_id ic self m' kt = Inr k"
proof -
  have impl: "kc_impl self = on_disk_impl c" by (simp add: assms(2) build_client_def)
  obtain b where b: "id_serialize ic k = Inr b" "id_deserialize ic b = Inr k"
    using id_codec_okD [OF assms(3)] .
  let ?info = "\<lparr>ki_id = b, ki_attributes = attrs\<rparr>"
  have "\<exists>r. mki_insert (on_disk_impl c) kt ?info m = (Inr r, m')" and e: "e = PsaErrorAlreadyExists"
    using assms(5,6) b impl
    by (auto simp: insert_key_info_def to_response_status_def split: sum.splits option.splits prod.splits)
  then have "odm_inv m' \<and> odm_abs m' = (odm_abs m)(kt \<mapsto> ?info)"
    using odm.insert_ok [OF assms(1)] by blast
  with e b impl show ?thesis by (simp add: odm.get_key_id_total)
qed

lemma insert_key_info_overwrites_witness:
  "\<exists>m'. insert_key_info byte_id_codec (build_client \<lparr>kf_impl = on_disk_impl sample_codec\<rparr> MbedCrypto)
       (sample_triple ''k'') 9 sample_attributes two_keys_manager = (Inl PsaErrorAlreadyExists, m') \<and>
     get_key_id byte_id_codec (build_client \<lparr>kf_impl = on_disk_impl sample_codec\<rparr> MbedCrypto) m' (sample_triple ''k'') = Inr 9"
proof -
  let ?c = "build_client \<lparr>kf_impl = on_disk_impl sample_codec\<rparr> MbedCrypto"
  let ?i = "insert_key_info byte_id_codec ?c (sample_triple ''k'') 9 sample_attributes two_keys_manager"
  have "fst ?i = Inl PsaErrorAlreadyExists" by code_simp
  then obtain m' where m': "?i = (Inl PsaErrorAlreadyExists, m')" by (cases ?i) simp
  have ok: "id_codec_ok byte_id_codec" by (simp add: id_codec_ok_def byte_id_codec_def)
  have "odm_inv two_keys_manager" "odm_abs two_keys_manager (sample_triple ''k'') = Some sample_info"
    by (simp_all add: odm_inv_def two_keys_manager_def sample_manager_def hm_wf_def sample_triple_def
        odm_abs_def hm_get_def)
  from insert_key_info_overwrites [OF this(1) refl ok this(2) m'] m' show ?thesis by simp
qed

end
