(* ===== verification/Key_Numbers.thy ===== *)
theory Key_Numbers
  imports Providers On_Disk_Manager
begin

text \<open>
  What the providers that keep their keys in numbered places have in common: the number that a stored
  mapping decodes to, what an application sees through its mappings, and the names of an
  application's keys as the key info manager lists them. The lemmas about a manager are proved in its
  locale, and thereby hold for the on-disk manager through the interpretation \<open>odm\<close>.
\<close>

section \<open>Numbers and views\<close>

text \<open>The number of the key behind a triple of provider \<open>pid\<close>.\<close>

definition key_number ::
  "provider_id \<Rightarrow> 'k id_codec \<Rightarrow> (key_triple \<Rightarrow> key_info option) \<Rightarrow> key_triple \<Rightarrow> 'k option" where
  "key_number pid codec f kt =
     (if kt_provider_id kt = pid
      then case f kt of
             None \<Rightarrow> None
           | Some info \<Rightarrow> (case id_deserialize codec (ki_id info) of Inl _ \<Rightarrow> None | Inr k \<Rightarrow> Some k)
      else None)"

text \<open>Every mapping of the provider decodes, and no two of them to the same number.\<close>

definition decodable :: "provider_id \<Rightarrow> 'k id_codec \<Rightarrow> (key_triple \<Rightarrow> key_info option) \<Rightarrow> bool" where
  "decodable pid codec f \<longleftrightarrow> (\<forall>kt \<in> dom f. kt_provider_id kt = pid \<longrightarrow> key_number pid codec f kt \<noteq> None)"

definition unshared :: "provider_id \<Rightarrow> 'k id_codec \<Rightarrow> (key_triple \<Rightarrow> key_info option) \<Rightarrow> bool" where
  "unshared pid codec f \<longleftrightarrow>
     (\<forall>kt kt' k. key_number pid codec f kt = Some k \<longrightarrow> key_number pid codec f kt' = Some k \<longrightarrow> kt = kt')"

text \<open>What an application sees: its mappings, with every provider, and the material of its keys.\<close>

definition seen ::
  "provider_id \<Rightarrow> 'k id_codec \<Rightarrow> (key_triple \<Rightarrow> key_info option) \<Rightarrow> ('k \<Rightarrow> 'kd option) \<Rightarrow> application_name \<Rightarrow>
   (provider_id \<Rightarrow> string \<Rightarrow> key_info option) \<times> (string \<Rightarrow> 'kd option)" where
  "seen pid codec f K n =
     (\<lambda>pid name. f (key_triple_new n pid name),
      \<lambda>name. Option.bind (key_number pid codec f (key_triple_new n pid name)) K)"

lemma key_number_upd [simp]:
  "key_number pid codec (f(kt := v)) kt' =
     (if kt' = kt then key_number pid codec (\<lambda>_. v) kt else key_number pid codec f kt')"
  by (simp add: key_number_def)

lemma key_number_const [simp]: "key_number pid codec (\<lambda>_. None) kt = None"
  by (simp add: key_number_def)

lemma key_number_None [simp]: "f kt = None \<Longrightarrow> key_number pid codec f kt = None"
  by (simp add: key_number_def)

lemma key_number_info:
  "id_deserialize codec (ki_id info) = Inr k \<Longrightarrow>
   key_number pid codec (\<lambda>_. Some info) kt = (if kt_provider_id kt = pid then Some k else None)"
  by (simp add: key_number_def)

lemma decodable_remove: "decodable pid codec f \<Longrightarrow> decodable pid codec (f(kt := None))"
  by (auto simp: decodable_def)

lemma decodable_insert:
  "decodable pid codec f \<Longrightarrow> id_deserialize codec (ki_id info) = Inr k \<Longrightarrow> decodable pid codec (f(kt \<mapsto> info))"
  by (auto simp: decodable_def key_number_info)

lemma unsharedD:
  "unshared pid codec f \<Longrightarrow> key_number pid codec f kt = Some k \<Longrightarrow> key_number pid codec f kt' = Some k \<Longrightarrow> kt = kt'"
  by (simp add: unshared_def)

lemma unshared_remove: "unshared pid codec f \<Longrightarrow> unshared pid codec (f(kt := None))"
  by (auto simp: unshared_def)

lemma unshared_insert:
  "unshared pid codec f \<Longrightarrow> id_deserialize codec (ki_id info) = Inr k \<Longrightarrow>
   (\<And>kt'. key_number pid codec f kt' \<noteq> Some k) \<Longrightarrow> unshared pid codec (f(kt \<mapsto> info))"
  by (auto simp: unshared_def key_number_info split: if_splits)

lemma seen_key_upd:
  assumes "\<And>kt. key_number pid codec f kt \<noteq> Some k"
  shows "seen pid codec f (K(k := v)) n = seen pid codec f K n"
proof -
  have "Option.bind x (K(k := v)) = Option.bind x K" if "x \<noteq> Some k" for x
    using that by (cases x) auto
  with assms show ?thesis by (simp add: seen_def)
qed

lemma seen_upd_other:
  "kt_app_name kt \<noteq> n \<Longrightarrow> seen pid codec (f(kt := v)) K n = seen pid codec f K n"
  by (auto simp: seen_def fun_eq_iff)

section \<open>Names\<close>

definition names_of :: "(key_triple \<Rightarrow> key_info option) \<Rightarrow> provider_id \<Rightarrow> application_name \<Rightarrow> string set" where
  "names_of f pid n = {name. key_triple_new n pid name \<in> dom f}"

lemma names_of_remove:
  "only_loses (names_of f) (names_of (f(key_triple_new n pid name := None))) {(pid, n)}"
  "names_of (f(key_triple_new n pid name := None)) pid n = names_of f pid n - {name}"
  by (auto simp: only_loses_def names_of_def)

lemma names_of_listed:
  "lk_name ` {listed kt info | kt info. f kt = Some info \<and> kt_provider_id kt = pid \<and> kt_app_name kt = n} =
   names_of f pid n" (is "lk_name ` ?L = ?N")
proof
  show "?N \<subseteq> lk_name ` ?L"
  proof
    fix name assume "name \<in> ?N"
    then obtain info where "f (key_triple_new n pid name) = Some info" by (auto simp: names_of_def)
    then have "listed (key_triple_new n pid name) info \<in> ?L" by fastforce
    then show "name \<in> lk_name ` ?L" by (force simp: listed_def)
  qed
  show "lk_name ` ?L \<subseteq> ?N"
    by (auto simp: listed_def names_of_def)
qed

lemma names_of_clients:
  "kt_app_name ` {kt \<in> dom f. kt_provider_id kt = pid} = {n. names_of f pid n \<noteq> {}}" (is "?L = ?R")
proof
  show "?L \<subseteq> ?R"
  proof
    fix n assume "n \<in> ?L"
    then obtain kt where "kt \<in> dom f" "kt_provider_id kt = pid" "n = kt_app_name kt" by blast
    then have "kt_key_name kt \<in> names_of f pid n"
      by (simp add: names_of_def) (metis domD key_triple_new_collapse)
    then show "n \<in> ?R" by blast
  qed
  show "?R \<subseteq> ?L"
    by (auto simp: names_of_def) (metis (mono_tags, lifting) domI image_eqI key_triple_new_sel(1,2) mem_Collect_eq)
qed

context key_info_manager
begin

lemma list_keys_names:
  assumes "inv m" and "kc_impl self = ops" and "kc_provider_id self = pid" and "kim_list_keys self m n = Inr ks"
  shows "distinct (map lk_name ks) \<and> lk_name ` set ks = names_of (abs m) pid n"
  using kim_list_keys_Inr [OF assms(1,2,4)] assms(3) names_of_listed [of "abs m" pid n] by simp

lemma list_clients_names:
  assumes "inv m" and "kc_impl self = ops" and "kc_provider_id self = pid" and "kim_list_clients self m = Inr cs"
  shows "set cs = {n. names_of (abs m) pid n \<noteq> {}}"
  using kim_list_clients_Inr [OF assms(1,2,4)] assms(3) names_of_clients [of "abs m" pid] by simp

lemma key_number_get:
  assumes "inv m" and "kc_impl self = ops" and "get_key_id codec self m kt = Inr k" and "kt_provider_id kt = pid"
  shows "key_number pid codec (abs m) kt = Some k"
  using get_key_id_Inr [OF assms(1-3)] assms(4) by (auto simp: key_number_def)

lemma remove_triples_result:
  assumes "kc_impl client = ops" and "inv m" and "remove_triples client kts m = (True, m')"
  shows "inv m' \<and> abs m' = (\<lambda>kt. if kt \<in> set kts then None else abs m kt)"
  using assms(2,3)
proof (induction kts arbitrary: m)
  case (Cons kt kts)
  from Cons.prems(2) obtain m1 where
    rem: "remove_key_info client kt m = (Inr (), m1)" and run: "remove_triples client kts m1 = (True, m')"
    by (auto split: prod.splits sum.splits)
  have "abs m1 = (abs m)(kt := None)" using remove_key_info_Inr [OF Cons.prems(1) assms(1) rem] by simp
  with Cons.IH [OF remove_key_info_inv [OF Cons.prems(1) assms(1) rem] run] show ?case
    by (auto simp: fun_eq_iff)
qed simp

end

context key_info_manager_mem
begin

lemma get_key_id_iff_number:
  assumes "inv m" and "kc_impl self = ops" and "kt_provider_id kt = pid"
  shows "get_key_id codec self m kt = Inr k \<longleftrightarrow> key_number pid codec (abs m) kt = Some k"
  unfolding get_key_id_total [OF assms(1,2)] using assms(3)
  by (auto simp: key_number_def split: option.splits sum.splits)

end

section \<open>On a disk that answers\<close>

lemma remove_key_info_quiet:
  assumes "base64_ok c" and "synced c m" and "quiet (odm_disk m)" and "odm_inv m"
    and "kc_impl client = on_disk_impl c" and "kt \<in> dom (odm_abs m)"
  shows "\<exists>m'. remove_key_info client kt m = (Inr (), m') \<and> synced c m' \<and> quiet (odm_disk m') \<and>
    odm_inv m' \<and> odm_abs m' = (odm_abs m)(kt := None)"
proof -
  obtain info where info: "odm_abs m kt = Some info" using assms(6) by blast
  then have "valid_update c (Remove kt)"
    using storedD(4) [OF assms(2) [unfolded synced_def]] by simp
  from run_update_quiet [OF assms(1-4) this] obtain r m' where
    run: "mki_remove (on_disk_impl c) kt m = (Inr r, m')" and m': "synced c m'" "quiet (odm_disk m')"
    "odm_inv m'" "odm_abs m' = (odm_abs m)(kt := None)" by (auto simp: run_update_def)
  have "r = Some info" using odm.remove_ok [OF assms(4) run] info by simp
  with run m' assms(5) show ?thesis by (simp add: remove_key_info_def)
qed

lemma remove_triples_quiet:
  assumes "base64_ok c" and "kc_impl client = on_disk_impl c" and "distinct kts"
    and "synced c m" and "quiet (odm_disk m)" and "odm_inv m" and "set kts \<subseteq> dom (odm_abs m)"
  shows "\<exists>m'. remove_triples client kts m = (True, m') \<and> synced c m' \<and> quiet (odm_disk m')"
  using assms(3-)
proof (induction kts arbitrary: m)
  case (Cons kt kts)
  then have "kt \<in> dom (odm_abs m)" by simp
  from remove_key_info_quiet [OF assms(1) Cons.prems(2-4) assms(2) this] obtain m1 where
    m1: "remove_key_info client kt m = (Inr (), m1)" "synced c m1" "quiet (odm_disk m1)" "odm_inv m1"
    "odm_abs m1 = (odm_abs m)(kt := None)" by blast
  have "set kts \<subseteq> dom (odm_abs m1)" using Cons.prems(1,5) m1(5) by auto
  with Cons.IH [OF _ m1(2-4)] Cons.prems(1) m1(1) show ?case by simp
qed simp

lemma insert_key_info_quiet:
  assumes "base64_ok c" and "synced c m" and "quiet (odm_disk m)" and "odm_inv m"
    and "kc_impl client = on_disk_impl c" and "odm_abs m kt = None"
    and "id_serialize codec k = Inr bs" and "valid_update c (Insert kt \<lparr>ki_id = bs, ki_attributes = attrs\<rparr>)"
  shows "\<exists>m'. insert_key_info codec client kt k attrs m = (Inr (), m') \<and> synced c m' \<and> quiet (odm_disk m')"
proof -
  let ?info = "\<lparr>ki_id = bs, ki_attributes = attrs\<rparr>"
  from run_update_quiet [OF assms(1-4,8)] obtain r m' where
    run: "mki_insert (on_disk_impl c) kt ?info m = (Inr r, m')" and m': "synced c m'" "quiet (odm_disk m')"
    by (auto simp: run_update_def)
  have "r = None" using odm.insert_ok [OF assms(4) run] assms(6) by simp
  with run m' assms(5,7) show ?thesis by (simp add: insert_key_info_def)
qed

lemma sample_manager_empty: "odm_abs sample_manager = (\<lambda>_. None)"
  by (simp add: odm_abs_def sample_manager_def fun_eq_iff)

text \<open>Key numbers stored as four bytes.\<close>

definition u32_codec :: "u32 id_codec" where
  "u32_codec = \<lparr>id_serialize = (\<lambda>k. Inr (u32_to_le_bytes k)),
     id_deserialize = (\<lambda>bs. case bs of [a, b, c, d] \<Rightarrow> Inr (u32_from_le_bytes a b c d) | _ \<Rightarrow> Inl InvalidEncoding)\<rparr>"

lemma u32_codec_ok: "id_codec_ok u32_codec"
proof -
  have "\<exists>a b c d. u32_to_le_bytes k = [a, b, c, d]" for k by (simp add: u32_to_le_bytes_def Let_def)
  then have "\<exists>b. id_serialize u32_codec k = Inr b \<and> id_deserialize u32_codec b = Inr k" for k
    using u32_from_to_le_bytes [of k] by (fastforce simp: u32_codec_def)
  then show ?thesis by (simp add: id_codec_ok_def)
qed

end
