(* ===== verification/Cryptoauthlib_Keys.thy ===== *)
theory Cryptoauthlib_Keys
  imports Cryptoauthlib_Provider Key_Numbers
begin

text \<open>
  The keys of the CryptoAuthLib provider: the invariant that ties the stored mappings to the busy slots of the
  chip, that every operation keeps it and never panics, that no operation touches the keys of another
  application, and what key creation, key destruction and start-up do.

  Everything is proved for an arbitrary key info manager, inside \<open>key_info_manager\<close>.
\<close>

section \<open>The chip\<close>

text \<open>
  \<open>content d k\<close> is what slot \<open>k\<close> of the chip holds. \<open>chip_contract\<close> is what is relied on of the library: creating
  a key in a slot writes to that slot only, and all other functions leave the slots alone.
\<close>

definition chip_reads :: "('d \<Rightarrow> u8 \<Rightarrow> 'kd option) \<Rightarrow> ('d \<Rightarrow> 'r \<times> 'd) \<Rightarrow> bool" where
  "chip_reads content f \<longleftrightarrow> (\<forall>d r d'. f d = (r, d') \<longrightarrow> content d' = content d)"

definition chip_writes :: "('d \<Rightarrow> u8 \<Rightarrow> 'kd option) \<Rightarrow> u8 \<Rightarrow> ('d \<Rightarrow> 'r \<times> 'd) \<Rightarrow> bool" where
  "chip_writes content k f \<longleftrightarrow> (\<forall>d r d'. f d = (r, d') \<longrightarrow> (\<exists>v. content d' = (content d)(k := v)))"

definition chip_contract :: "'d atecc_device \<Rightarrow> ('d \<Rightarrow> u8 \<Rightarrow> 'kd option) \<Rightarrow> bool" where
  "chip_contract dev content \<longleftrightarrow>
     (\<forall>kty k. chip_writes content k (gen_key dev kty k)) \<and>
     (\<forall>kty data k. chip_writes content k (dev_import_key dev kty data k)) \<and>
     (\<forall>kty k. chip_reads content (dev_export_key dev kty k)) \<and>
     (\<forall>k. chip_reads content (get_public_key dev k)) \<and>
     (\<forall>h k b. chip_reads content (dev_sign_hash dev h k b)) \<and>
     (\<forall>m h s. chip_reads content (dev_verify_hash dev m h s)) \<and>
     (\<forall>m b. chip_reads content (dev_sha dev m b)) \<and>
     chip_reads content (dev_random dev)"

lemma chip_readsD: "chip_reads content f \<Longrightarrow> f d = (r, d') \<Longrightarrow> content d' = content d"
  by (simp add: chip_reads_def)

lemma chip_contractD:
  assumes "chip_contract dev content"
  shows "chip_writes content k (gen_key dev kty k)" "chip_writes content k (dev_import_key dev kty data k)"
    "chip_reads content (dev_export_key dev kty k)" "chip_reads content (get_public_key dev k)"
    "chip_reads content (dev_sign_hash dev h k b)" "chip_reads content (dev_verify_hash dev md h s)"
    "chip_reads content (dev_sha dev h b)" "chip_reads content (dev_random dev)"
  using assms unfolding chip_contract_def by blast+

section \<open>Mappings and slots\<close>

text \<open>Every mapping decodes to a busy slot, and no two mappings to the same one.\<close>

definition slotted :: "u8 id_codec \<Rightarrow> (key_triple \<Rightarrow> key_info option) \<Rightarrow> key_slot_storage \<Rightarrow> bool" where
  "slotted codec f slots \<longleftrightarrow>
     decodable CryptoAuthLib codec f \<and> unshared CryptoAuthLib codec f \<and>
     (\<forall>kt k. key_number CryptoAuthLib codec f kt = Some k \<longrightarrow>
        unat k < length slots \<and> slot_status (slots ! unat k) = Busy)"

text \<open>A slot that is taken for a key whose mapping is not stored yet.\<close>

definition reserved :: "u8 id_codec \<Rightarrow> (key_triple \<Rightarrow> key_info option) \<Rightarrow> key_slot_storage \<Rightarrow> u8 \<Rightarrow> bool" where
  "reserved codec f slots k \<longleftrightarrow>
     unat k < length slots \<and> slot_status (slots ! unat k) = Busy \<and>
     (\<forall>kt. key_number CryptoAuthLib codec f kt \<noteq> Some k)"

lemma slottedD:
  assumes "slotted codec f slots"
  shows "decodable CryptoAuthLib codec f" "unshared CryptoAuthLib codec f"
    "key_number CryptoAuthLib codec f kt = Some k \<Longrightarrow> unat k < length slots \<and> slot_status (slots ! unat k) = Busy"
  using assms unfolding slotted_def by blast+

lemma slotted_reserve:
  assumes "slotted codec f slots" and "unat k < length slots" and "is_free (slots ! unat k)"
  shows "slotted codec f (slots[unat k := (slots ! unat k)\<lparr>slot_status := Busy\<rparr>])"
    "reserved codec f (slots[unat k := (slots ! unat k)\<lparr>slot_status := Busy\<rparr>]) k"
proof -
  have "key_number CryptoAuthLib codec f kt \<noteq> Some k" for kt
    using slottedD(3) [OF assms(1), of kt k] assms(3) by (auto simp: is_free_def)
  then show "reserved codec f (slots[unat k := (slots ! unat k)\<lparr>slot_status := Busy\<rparr>]) k"
    using assms(2) by (simp add: reserved_def)
  show "slotted codec f (slots[unat k := (slots ! unat k)\<lparr>slot_status := Busy\<rparr>])"
    using assms by (auto simp: slotted_def nth_list_update)
qed

lemma slotted_release:
  assumes "slotted codec f slots" and "\<And>kt. key_number CryptoAuthLib codec f kt \<noteq> Some k"
  shows "slotted codec f (slots[unat k := s])"
proof -
  have "key_number CryptoAuthLib codec f kt = Some j \<Longrightarrow> unat j \<noteq> unat k" for kt j
    using assms(2) by (auto simp flip: word_unat_eq_iff)
  with assms(1) show ?thesis by (fastforce simp: slotted_def)
qed

lemma slotted_remove: "slotted codec f slots \<Longrightarrow> slotted codec (f(kt := None)) slots"
  by (simp add: slotted_def decodable_remove unshared_remove)

lemma slotted_insert:
  assumes "slotted codec f slots" and "reserved codec f slots k" and "id_deserialize codec (ki_id info) = Inr k"
  shows "slotted codec (f(kt \<mapsto> info)) slots"
  using assms decodable_insert [OF slottedD(1) [OF assms(1)] assms(3)]
    unshared_insert [OF slottedD(2) [OF assms(1)] assms(3)]
  by (auto simp: slotted_def reserved_def key_number_info split: if_splits)

section \<open>The invariant\<close>

definition calib_setup :: "'m manage_key_info \<Rightarrow> ('m, 'd) calib_provider \<Rightarrow> ('d \<Rightarrow> u8 \<Rightarrow> 'kd option) \<Rightarrow> bool" where
  "calib_setup ops self content \<longleftrightarrow>
     kc_impl (cl_key_info_store self) = ops \<and> kc_provider_id (cl_key_info_store self) = CryptoAuthLib \<and>
     chip_contract (cl_device self) content \<and> id_codec_ok (cl_id_codec self)"

definition calib_inv ::
  "'m manage_key_info \<Rightarrow> ('m \<Rightarrow> bool) \<Rightarrow> ('m \<Rightarrow> key_triple \<Rightarrow> key_info option) \<Rightarrow> ('m, 'd) calib_provider \<Rightarrow>
   ('d \<Rightarrow> u8 \<Rightarrow> 'kd option) \<Rightarrow> ('m, 'd) calib_state \<Rightarrow> bool" where
  "calib_inv ops I mp self content w \<longleftrightarrow>
     calib_setup ops self content \<and> I (cs_kim w) \<and> \<not> cs_panicked w \<and>
     length (cs_slots w) = unat (slots_count (cl_consts self)) \<and>
     slotted (cl_id_codec self) (mp (cs_kim w)) (cs_slots w)"

definition calib_view ::
  "('m \<Rightarrow> key_triple \<Rightarrow> key_info option) \<Rightarrow> ('m, 'd) calib_provider \<Rightarrow> ('d \<Rightarrow> u8 \<Rightarrow> 'kd option) \<Rightarrow>
   application_name \<Rightarrow> ('m, 'd) calib_state \<Rightarrow>
   (provider_id \<Rightarrow> string \<Rightarrow> key_info option) \<times> (string \<Rightarrow> 'kd option)" where
  "calib_view mp self content n w =
     seen CryptoAuthLib (cl_id_codec self) (mp (cs_kim w)) (content (cs_device w)) n"

lemma calib_setupD:
  assumes "calib_setup ops self content"
  shows "kc_impl (cl_key_info_store self) = ops" "kc_provider_id (cl_key_info_store self) = CryptoAuthLib"
    "chip_contract (cl_device self) content" "id_codec_ok (cl_id_codec self)"
  using assms by (simp_all add: calib_setup_def)

lemma calib_invD:
  assumes "calib_inv ops I mp self content w"
  shows "calib_setup ops self content" "I (cs_kim w)" "\<not> cs_panicked w"
    "length (cs_slots w) = unat (slots_count (cl_consts self))"
    "slotted (cl_id_codec self) (mp (cs_kim w)) (cs_slots w)"
  using assms by (simp_all add: calib_inv_def)

subsection \<open>Operations that only use the chip\<close>

lemma keeps_on_device:
  assumes "chip_contract (cl_device self) content \<Longrightarrow> chip_reads content f"
  shows "keeps (calib_inv ops I mp self content) (calib_view mp self content) V (on_device f g)"
proof (rule keepsI)
  fix w r w'
  assume w: "calib_inv ops I mp self content w" and run: "on_device f g w = (r, w')"
  obtain x d where f: "f (cs_device w) = (x, d)" by fastforce
  have "chip_reads content f" using assms calib_setupD(3) [OF calib_invD(1) [OF w]] by blast
  with f have "content d = content (cs_device w)" by (simp add: chip_reads_def)
  moreover from run f have "w' = w\<lparr>cs_device := d\<rparr>" by (simp add: on_device_def)
  ultimately show "calib_inv ops I mp self content w' \<and>
      (\<forall>n \<in> V. calib_view mp self content n w' = calib_view mp self content n w)"
    using w by (simp add: calib_inv_def calib_view_def)
qed

lemma keeps_calib_ask [simp]: "keeps J view V (calib_ask_kim f)"
  by (rule keeps_read) (simp add: calib_ask_kim_def)

lemma keeps_if_supported: "keeps J view V f \<Longrightarrow> keeps J view V (if_supported self op f)"
  by (simp add: if_supported_def)

lemmas keeps_chip_steps = keeps_try_op keeps_on_device keeps_calib_ask keeps_read_op chip_contractD keeps_ok_op keeps_err_op

lemma keeps_chip_parts:
  "keeps (calib_inv ops I mp self content) (calib_view mp self content) V (sha256 self m)"
  "keeps (calib_inv ops I mp self content) (calib_view mp self content) V (ecdsa_hash_sign self k h)"
  "keeps (calib_inv ops I mp self content) (calib_view mp self content) V (ecdsa_hash_verify self md h s)"
  unfolding sha256_def ecdsa_hash_sign_def ecdsa_hash_verify_def
  by (intro keeps_chip_steps; assumption)+

lemma keeps_verify_mode_get:
  "keeps (calib_inv ops I mp self content) (calib_view mp self content) V (ecdsa_verify_mode_get self k kty)"
  unfolding ecdsa_verify_mode_get_def
  by (auto intro!: keeps_chip_steps split: key_type.split ecc_family.split)

lemma keeps_random_loop:
  "keeps (calib_inv ops I mp self content) (calib_view mp self content) V (random_loop self n bs)"
  by (induction n arbitrary: bs) (auto intro!: keeps_chip_steps)

lemma keeps_chip_ops:
  "keeps (calib_inv ops I mp self content) (calib_view mp self content) V (calib_hash_compute self x1)"
  "keeps (calib_inv ops I mp self content) (calib_view mp self content) V (calib_hash_compare self x2)"
  "keeps (calib_inv ops I mp self content) (calib_view mp self content) V (calib_generate_random self x3)"
  "keeps (calib_inv ops I mp self content) (calib_view mp self content) V (calib_sign_hash self app x4)"
  "keeps (calib_inv ops I mp self content) (calib_view mp self content) V (calib_verify_hash self app x5)"
  "keeps (calib_inv ops I mp self content) (calib_view mp self content) V (calib_sign_message self app x6)"
  "keeps (calib_inv ops I mp self content) (calib_view mp self content) V (calib_verify_message self app x7)"
  "keeps (calib_inv ops I mp self content) (calib_view mp self content) V (calib_export_public_key self app x8)"
  "keeps (calib_inv ops I mp self content) (calib_view mp self content) V (calib_export_key self app x9)"
  unfolding calib_hash_compute_def calib_hash_compare_def calib_generate_random_def calib_sign_hash_def
    calib_verify_hash_def calib_sign_message_def calib_verify_message_def calib_export_public_key_def
    calib_export_key_def Let_def
  by (auto intro!: keeps_chip_steps keeps_chip_parts keeps_verify_mode_get keeps_random_loop)

subsection \<open>Slots\<close>

abbreviation calib_number ::
  "('m \<Rightarrow> key_triple \<Rightarrow> key_info option) \<Rightarrow> ('m, 'd) calib_provider \<Rightarrow> ('m, 'd) calib_state \<Rightarrow> key_triple \<Rightarrow> u8 option" where
  "calib_number mp self w \<equiv> key_number CryptoAuthLib (cl_id_codec self) (mp (cs_kim w))"

abbreviation calib_reserved ::
  "('m \<Rightarrow> key_triple \<Rightarrow> key_info option) \<Rightarrow> ('m, 'd) calib_provider \<Rightarrow> ('m, 'd) calib_state \<Rightarrow> u8 \<Rightarrow> bool" where
  "calib_reserved mp self w \<equiv> reserved (cl_id_codec self) (mp (cs_kim w)) (cs_slots w)"

text \<open>
  Allocation: the state in which slot \<open>k\<close> is taken, and that \<open>find_suitable_slot\<close> reaches it for
  the first slot that fits.
\<close>

definition take_slot :: "u8 \<Rightarrow> ('m, 'd) calib_state \<Rightarrow> ('m, 'd) calib_state" where
  "take_slot k w = w\<lparr>cs_slots := (cs_slots w)[unat k := (cs_slots w ! unat k)\<lparr>slot_status := Busy\<rparr>]\<rparr>"

lemma allocate:
  fixes w :: "('m, 'd) calib_state" and a op
  assumes w: "calib_inv ops I mp self content w"
  defines "P \<equiv> fits (cl_consts self) a op (cs_slots w)"
  obtains (full) "\<And>i. \<not> P i"
      "on_slots (find_suitable_slot (cl_consts self) a op) w = Some (Inl PsaErrorInsufficientStorage, w)"
    | (slot) k where "P (unat k)" "\<forall>i < unat k. \<not> P i"
      "on_slots (find_suitable_slot (cl_consts self) a op) w = Some (Inr k, take_slot k w)"
proof (cases "\<exists>i. P i")
  case True
  define i where "i = (LEAST i. P i)"
  note F = find_suitable_slot_result [OF calib_invD(4) [OF w], of a op, folded P_def]
  have i: "P i" "\<forall>j < i. \<not> P j" using True not_less_Least unfolding i_def by (auto intro: LeastI_ex)
  then have "i < 256" using calib_invD(4) [OF w] u8_bound [of "slots_count (cl_consts self)"]
    by (auto simp: P_def fits_def)
  then have u: "unat (word_of_nat i :: u8) = i" by (simp add: unat_word_of_nat_u8)
  show thesis
  proof (rule slot [of "word_of_nat i"])
    show "on_slots (find_suitable_slot (cl_consts self) a op) w = Some (Inr (word_of_nat i), take_slot (word_of_nat i) w)"
      using True u unfolding on_slots_def F by (simp add: take_slot_def Let_def i_def [symmetric])
  qed (simp_all add: u i)
next
  case False
  have "on_slots (find_suitable_slot (cl_consts self) a op) w = Some (Inl PsaErrorInsufficientStorage, w)"
    using False find_suitable_slot_result [OF calib_invD(4) [OF w], of a op, folded P_def] by (simp add: on_slots_def)
  with False show thesis by (intro full) simp_all
qed

lemma take_slot_keeps:
  assumes w: "calib_inv ops I mp self content w" and f: "fits (cl_consts self) a op (cs_slots w) (unat k)"
  shows "calib_inv ops I mp self content (take_slot k w)" "calib_reserved mp self (take_slot k w) k"
    "calib_view mp self content n (take_slot k w) = calib_view mp self content n w"
    "cs_kim (take_slot k w) = cs_kim w" "cs_device (take_slot k w) = cs_device w"
proof -
  have "unat k < length (cs_slots w)" "is_free (cs_slots w ! unat k)" using f by (simp_all add: fits_def)
  note R = slotted_reserve [OF calib_invD(5) [OF w] this]
  show "calib_inv ops I mp self content (take_slot k w)" using R(1) w by (simp add: calib_inv_def take_slot_def)
  show "calib_reserved mp self (take_slot k w) k" using R(2) by (simp add: take_slot_def)
qed (simp_all add: take_slot_def calib_view_def)

lemma chip_step_keeps:
  assumes w: "calib_inv ops I mp self content w" and k: "calib_reserved mp self w k"
    and d: "content d = (content (cs_device w))(k := v)"
  shows "calib_inv ops I mp self content (w\<lparr>cs_device := d\<rparr>)" "calib_reserved mp self (w\<lparr>cs_device := d\<rparr>) k"
    "calib_view mp self content n (w\<lparr>cs_device := d\<rparr>) = calib_view mp self content n w"
  using w k d by (simp_all add: calib_inv_def calib_view_def reserved_def seen_key_upd)

text \<open>Giving a slot back undoes the allocation.\<close>

definition release_slot :: "u8 \<Rightarrow> ('m, 'd) calib_state \<Rightarrow> ('m, 'd) calib_state" where
  "release_slot k w = w\<lparr>cs_slots := (cs_slots w)[unat k := (cs_slots w ! unat k)\<lparr>slot_status := Free\<rparr>]\<rparr>"

lemma set_free:
  assumes "unat k < length slots" and "slot_status (slots ! unat k) = Busy"
  shows "storage_set_slot_status (unat k) Free slots =
    Some (Inr (), slots[unat k := (slots ! unat k)\<lparr>slot_status := Free\<rparr>])"
  using assms by (simp add: storage_set_slot_status_def on_slot_def slot_set_status_def)

lemma free_slot_and_fail_reserved:
  "reserved codec f (cs_slots w) k \<Longrightarrow> free_slot_and_fail k e w = Some (Inl e, release_slot k w)"
  by (simp add: free_slot_and_fail_def release_slot_def reserved_def set_free)

lemma release_slot_keeps:
  assumes w: "calib_inv ops I mp self content w" and k: "\<And>kt. calib_number mp self w kt \<noteq> Some k"
  shows "calib_inv ops I mp self content (release_slot k w)"
    "calib_view mp self content n (release_slot k w) = calib_view mp self content n w"
    "cs_kim (release_slot k w) = cs_kim w" "cs_device (release_slot k w) = cs_device w"
  using w slotted_release [OF calib_invD(5) [OF w] k] by (simp_all add: calib_inv_def calib_view_def release_slot_def)

lemma release_take:
  assumes "is_free (cs_slots w ! unat k)" and "cs_slots w' = cs_slots (take_slot k w)"
  shows "cs_slots (release_slot k w') = cs_slots w"
proof (cases "unat k < length (cs_slots w)")
  case True
  have "(cs_slots w ! unat k)\<lparr>slot_status := Free\<rparr> = cs_slots w ! unat k"
    using assms(1) by (simp add: is_free_def)
  with True assms(2) show ?thesis by (simp add: release_slot_def take_slot_def)
qed (use assms(2) in \<open>simp add: release_slot_def take_slot_def list_update_beyond\<close>)

subsection \<open>Operations that create or destroy keys\<close>

text \<open>As \<open>keeps\<close>, and the operation does not panic.\<close>

definition safely :: "('w \<Rightarrow> bool) \<Rightarrow> ('n \<Rightarrow> 'w \<Rightarrow> 'v) \<Rightarrow> 'n set \<Rightarrow> ('w, 'a) panic_op \<Rightarrow> bool" where
  "safely J view V f \<longleftrightarrow>
     (\<forall>w. J w \<longrightarrow> (\<exists>r w'. f w = Some (r, w') \<and> J w' \<and> (\<forall>n \<in> V. view n w' = view n w)))"

lemma safely_keeps: "safely J view V f \<Longrightarrow> keeps J view V (catch_panic f)"
  unfolding safely_def by (intro keepsI) (force simp: catch_panic_def split: option.splits)

text \<open>
  What creating a key may do. On success the key has the first slot that fits, that slot is taken, and one mapping was
  added; on failure mappings and slots are as before. Nobody else sees a difference.
\<close>

definition calib_created ::
  "('m \<Rightarrow> key_triple \<Rightarrow> key_info option) \<Rightarrow> ('m, 'd) calib_provider \<Rightarrow> key_triple \<Rightarrow> attributes \<Rightarrow> opcode option \<Rightarrow>
   ('m, 'd) calib_state \<Rightarrow> ('m, 'd) calib_state \<Rightarrow> bool" where
  "calib_created mp self kt attrs op w w' \<longleftrightarrow>
     kt \<notin> dom (mp (cs_kim w)) \<and>
     (\<exists>k b. fits (cl_consts self) attrs op (cs_slots w) (unat k) \<and>
        (\<forall>i < unat k. \<not> fits (cl_consts self) attrs op (cs_slots w) i) \<and>
        id_deserialize (cl_id_codec self) b = Inr k \<and>
        mp (cs_kim w') = (mp (cs_kim w))(kt \<mapsto> \<lparr>ki_id = b, ki_attributes = attrs\<rparr>) \<and>
        cs_slots w' = cs_slots (take_slot k w))"

definition calib_unchanged ::
  "('m \<Rightarrow> key_triple \<Rightarrow> key_info option) \<Rightarrow> ('m, 'd) calib_state \<Rightarrow> ('m, 'd) calib_state \<Rightarrow> bool" where
  "calib_unchanged mp w w' \<longleftrightarrow> mp (cs_kim w') = mp (cs_kim w) \<and> cs_slots w' = cs_slots w"

definition settled ::
  "'m manage_key_info \<Rightarrow> ('m \<Rightarrow> bool) \<Rightarrow> ('m \<Rightarrow> key_triple \<Rightarrow> key_info option) \<Rightarrow> ('m, 'd) calib_provider \<Rightarrow>
   ('d \<Rightarrow> u8 \<Rightarrow> 'kd option) \<Rightarrow> key_triple \<Rightarrow> attributes \<Rightarrow> opcode option \<Rightarrow> ('m, 'd) calib_state \<Rightarrow>
   (unit res \<times> ('m, 'd) calib_state) option \<Rightarrow> bool" where
  "settled ops I mp self content kt attrs op w x \<longleftrightarrow>
     (\<exists>r w'. x = Some (r, w') \<and> calib_inv ops I mp self content w' \<and>
        (\<forall>n. n \<noteq> kt_app_name kt \<longrightarrow> calib_view mp self content n w' = calib_view mp self content n w) \<and>
        (case r of Inl _ \<Rightarrow> calib_unchanged mp w w' | Inr _ \<Rightarrow> calib_created mp self kt attrs op w w'))"

lemma settled_same:
  "calib_inv ops I mp self content w \<Longrightarrow> settled ops I mp self content kt attrs op w (Some (Inl e, w))"
  by (simp add: settled_def calib_unchanged_def)

text \<open>A failure after the slot was taken, whatever has been done to the chip's slot.\<close>

lemma settled_fail:
  assumes w: "calib_inv ops I mp self content w" and f: "fits (cl_consts self) a op (cs_slots w) (unat k)"
    and w1: "calib_inv ops I mp self content w1" "calib_reserved mp self w1 k"
    and v1: "\<And>n. n \<noteq> kt_app_name kt \<Longrightarrow> calib_view mp self content n w1 = calib_view mp self content n w"
    and k1: "mp (cs_kim w1) = mp (cs_kim w)" "cs_slots w1 = cs_slots (take_slot k w)"
  shows "settled ops I mp self content kt attrs op w (free_slot_and_fail k e w1)"
proof -
  have free: "\<And>kt'. calib_number mp self w1 kt' \<noteq> Some k" using w1(2) by (simp add: reserved_def)
  have "is_free (cs_slots w ! unat k)" using f by (simp add: fits_def)
  from release_take [OF this k1(2)] release_slot_keeps [OF w1(1) free] v1 k1(1) show ?thesis
    by (simp add: settled_def free_slot_and_fail_reserved [OF w1(2)] calib_unchanged_def)
qed

context key_info_manager
begin

lemma store_reserved:
  assumes w: "calib_inv ops inv abs self content w" and k: "calib_reserved abs self w k"
    and kt: "kt \<notin> dom (abs (cs_kim w))" "kt_provider_id kt = CryptoAuthLib"
    and run: "calib_store_key self kt k attrs w = (r, w')"
  shows "calib_inv ops inv abs self content w'"
    "n \<noteq> kt_app_name kt \<Longrightarrow> calib_view abs self content n w' = calib_view abs self content n w"
    "cs_slots w' = cs_slots w" "cs_device w' = cs_device w"
    "r = Inl e \<Longrightarrow> abs (cs_kim w') = abs (cs_kim w)"
    "r = Inr () \<Longrightarrow> \<exists>b. id_deserialize (cl_id_codec self) b = Inr k \<and>
       abs (cs_kim w') = (abs (cs_kim w))(kt \<mapsto> \<lparr>ki_id = b, ki_attributes = attrs\<rparr>)"
proof -
  let ?c = "cl_id_codec self"
  note D = calib_invD [OF w]
  note S = calib_setupD [OF D(1)]
  obtain m where ins: "insert_key_info ?c (cl_key_info_store self) kt k attrs (cs_kim w) = (r, m)"
    and w': "w' = w\<lparr>cs_kim := m\<rparr>"
    using run by (auto simp: calib_store_key_def calib_on_kim_def split: prod.splits)
  note m = insert_key_info_inv [OF D(2) S(1) ins]
  show "cs_slots w' = cs_slots w" "cs_device w' = cs_device w" using w' by simp_all
  show err: "abs (cs_kim w') = abs (cs_kim w)" if "r = Inl e" for e
    using insert_key_info_fresh_Inl [OF D(2) S(1) kt(1) ins [unfolded that]] w' by simp
  show ok: "\<exists>b. id_deserialize ?c b = Inr k \<and>
       abs (cs_kim w') = (abs (cs_kim w))(kt \<mapsto> \<lparr>ki_id = b, ki_attributes = attrs\<rparr>)" if "r = Inr ()"
  proof -
    obtain b where b: "id_serialize ?c k = Inr b" "id_deserialize ?c b = Inr k" using id_codec_okD [OF S(4)] .
    with insert_key_info_Inr [OF D(2) S(1) ins [unfolded that]] w' show ?thesis by auto
  qed
  have "slotted ?c (abs m) (cs_slots w) \<and>
      (n \<noteq> kt_app_name kt \<longrightarrow> calib_view abs self content n w' = calib_view abs self content n w)"
  proof (cases r)
    case (Inl e)
    with err [of e] D(5) w' show ?thesis by (simp add: calib_view_def)
  next
    case (Inr u)
    with ok obtain b where b: "id_deserialize ?c b = Inr k"
      and a: "abs m = (abs (cs_kim w))(kt \<mapsto> \<lparr>ki_id = b, ki_attributes = attrs\<rparr>)" using w' by auto
    have "slotted ?c (abs m) (cs_slots w)" unfolding a by (rule slotted_insert [OF D(5) k]) (simp add: b)
    with a w' show ?thesis by (simp add: calib_view_def seen_upd_other)
  qed
  then show "calib_inv ops inv abs self content w'"
    and "n \<noteq> kt_app_name kt \<Longrightarrow> calib_view abs self content n w' = calib_view abs self content n w"
    using D m w' by (simp_all add: calib_inv_def)
qed

text \<open>
  The common end of \<open>generate\<close> and \<open>import\<close>, from the state in which the slot is taken and the chip has run.
\<close>

lemma settled_store:
  assumes w: "calib_inv ops inv abs self content w" and f: "fits (cl_consts self) attrs op (cs_slots w) (unat k)"
    and least: "\<forall>i < unat k. \<not> fits (cl_consts self) attrs op (cs_slots w) i"
    and d: "content d = (content (cs_device w))(k := v)"
    and kt: "kt \<notin> dom (abs (cs_kim w))" "kt_provider_id kt = CryptoAuthLib"
  shows "settled ops inv abs self content kt attrs op w (free_slot_and_fail k e ((take_slot k w)\<lparr>cs_device := d\<rparr>))"
    "settled ops inv abs self content kt attrs op w
       (case calib_store_key self kt k attrs ((take_slot k w)\<lparr>cs_device := d\<rparr>) of
          (Inr _, w') \<Rightarrow> Some (Inr (), w')
        | (Inl e, w') \<Rightarrow> free_slot_and_fail k (g e) w')"
proof -
  let ?w = "(take_slot k w)\<lparr>cs_device := d\<rparr>"
  note T = take_slot_keeps [OF w f]
  have d': "content d = (content (cs_device (take_slot k w)))(k := v)" using d T(5) by simp
  note C = chip_step_keeps [OF T(1,2) d']
  have w1: "calib_view abs self content n ?w = calib_view abs self content n w" "cs_kim ?w = cs_kim w"
    "cs_slots ?w = cs_slots (take_slot k w)" for n
    using C(3) T(3,4) by simp_all
  show "settled ops inv abs self content kt attrs op w (free_slot_and_fail k e ?w)"
    by (rule settled_fail [OF w f C(1,2)]) (use w1 in simp_all)
  obtain r w2 where st: "calib_store_key self kt k attrs ?w = (r, w2)" by fastforce
  have fresh: "kt \<notin> dom (abs (cs_kim ?w))" using kt(1) w1(2) by simp
  note R = store_reserved [OF C(1,2) fresh kt(2) st]
  have v2: "n \<noteq> kt_app_name kt \<Longrightarrow> calib_view abs self content n w2 = calib_view abs self content n w" for n
    using R(2) w1(1) by simp
  show "settled ops inv abs self content kt attrs op w
       (case calib_store_key self kt k attrs ?w of
          (Inr _, w') \<Rightarrow> Some (Inr (), w') | (Inl e, w') \<Rightarrow> free_slot_and_fail k (g e) w')"
  proof (cases r)
    case (Inl e)
    have a2: "abs (cs_kim w2) = abs (cs_kim w)" using R(5) [OF Inl] w1(2) by simp
    have res: "calib_reserved abs self w2 k" using C(2) R(3) R(5) [OF Inl] by simp
    have "settled ops inv abs self content kt attrs op w (free_slot_and_fail k (g e) w2)"
      by (rule settled_fail [OF w f R(1) res v2 a2]) (use R(3) w1(3) in simp_all)
    with st Inl show ?thesis by simp
  next
    case (Inr u)
    then obtain b where "id_deserialize (cl_id_codec self) b = Inr k"
      "abs (cs_kim w2) = (abs (cs_kim w))(kt \<mapsto> \<lparr>ki_id = b, ki_attributes = attrs\<rparr>)" using R(6) w1(2) by auto
    with kt(1) f least R(3) w1(3) have "calib_created abs self kt attrs op w w2"
      unfolding calib_created_def by auto
    with st Inr R(1) v2 show ?thesis by (simp add: settled_def)
  qed
qed

lemma calib_generate_key_settled:
  assumes w: "calib_inv ops inv abs self content w"
  shows "settled ops inv abs self content (key_triple_new app CryptoAuthLib (gk_key_name op)) (gk_attributes op)
    (Some PsaGenerateKey) w (calib_generate_key self app op w)"
proof -
  let ?kt = "key_triple_new app CryptoAuthLib (gk_key_name op)" and ?a = "gk_attributes op"
  let ?find = "on_slots (find_suitable_slot (cl_consts self) ?a (Some PsaGenerateKey)) w"
  note D = calib_invD [OF w]
  note S = calib_setupD [OF D(1)]
  have kt: "get_key_triple (cl_key_info_store self) app (gk_key_name op) = ?kt" by (simp add: get_key_triple_def S(2))
  note defs = calib_generate_key_def Let_def kt try_panic_def no_panic_def calib_ask_kim_def read_op_def
  show ?thesis
  proof (cases "does_not_exist (cl_key_info_store self) (cs_kim w) ?kt = Inr () \<and>
      \<not> is_public_key (cl_interface self) (attr_key_type ?a) \<and> (\<exists>kty. get_calib_key_type ?a = Inr kty)")
    case True
    from True obtain kty where y: "get_calib_key_type ?a = Inr kty" by blast
    have fresh: "?kt \<notin> dom (abs (cs_kim w))" using does_not_exist_Inr [OF D(2) S(1)] True by blast
    show ?thesis
    proof (rule allocate [OF w, of ?a "Some PsaGenerateKey"])
      assume "?find = Some (Inl PsaErrorInsufficientStorage, w)"
      with True y have "calib_generate_key self app op w = Some (Inl PsaErrorInsufficientStorage, w)" by (simp add: defs)
      with settled_same [OF w] show ?thesis by simp
    next
      fix k
      assume f: "fits (cl_consts self) ?a (Some PsaGenerateKey) (cs_slots w) (unat k)"
        "\<forall>i < unat k. \<not> fits (cl_consts self) ?a (Some PsaGenerateKey) (cs_slots w) i"
        and find: "?find = Some (Inr k, take_slot k w)"
      obtain st d where g: "gen_key (cl_device self) kty k (cs_device w) = (st, d)" by fastforce
      obtain v where v: "content d = (content (cs_device w))(k := v)"
        using chip_contractD(1) [OF S(3)] g unfolding chip_writes_def by blast
      have "calib_generate_key self app op w =
        (if st = AtcaSuccess
         then case calib_store_key self ?kt k ?a ((take_slot k w)\<lparr>cs_device := d\<rparr>) of
             (Inr _, w') \<Rightarrow> Some (Inr (), w') | (Inl e, w') \<Rightarrow> free_slot_and_fail k e w'
         else free_slot_and_fail k PsaErrorInvalidArgument ((take_slot k w)\<lparr>cs_device := d\<rparr>))"
        using True y g find take_slot_keeps(5) [OF w f(1)] by (cases st) (simp_all add: defs)
      with settled_store(1) [OF w f v fresh, of PsaErrorInvalidArgument] settled_store(2) [OF w f v fresh, of "\<lambda>e. e"]
      show ?thesis by (simp split: if_splits)
    qed
  next
    case False
    then have "\<exists>e. calib_generate_key self app op w = Some (Inl e, w)"
      by (auto simp: defs split: sum.splits)
    with settled_same [OF w] show ?thesis by metis
  qed
qed

text \<open>An import settles too, unless the key data cannot be converted: then the slot stays taken.\<close>

lemma calib_import_key_settled:
  assumes w: "calib_inv ops inv abs self content w"
  shows "settled ops inv abs self content (key_triple_new app CryptoAuthLib (ik_key_name op)) (ik_attributes op)
      (Some PsaImportKey) w (calib_import_key self app op w) \<or>
    (\<exists>k e. raw_key_extract (attr_key_type (ik_attributes op)) (ik_data op) = Inl e \<and>
       fits (cl_consts self) (ik_attributes op) (Some PsaImportKey) (cs_slots w) (unat k) \<and>
       calib_import_key self app op w = Some (Inl e, take_slot k w))"
proof -
  let ?kt = "key_triple_new app CryptoAuthLib (ik_key_name op)" and ?a = "ik_attributes op"
  let ?find = "on_slots (find_suitable_slot (cl_consts self) ?a (Some PsaImportKey)) w"
    and ?raw = "raw_key_extract (attr_key_type ?a) (ik_data op)"
  note D = calib_invD [OF w]
  note S = calib_setupD [OF D(1)]
  have kt: "get_key_triple (cl_key_info_store self) app (ik_key_name op) = ?kt" by (simp add: get_key_triple_def S(2))
  note defs = calib_import_key_def Let_def kt try_panic_def no_panic_def calib_ask_kim_def read_op_def
  show ?thesis
  proof (cases "does_not_exist (cl_key_info_store self) (cs_kim w) ?kt = Inr () \<and> (\<exists>kty. get_calib_key_type ?a = Inr kty)")
    case True
    from True obtain kty where y: "get_calib_key_type ?a = Inr kty" by blast
    have fresh: "?kt \<notin> dom (abs (cs_kim w))" using does_not_exist_Inr [OF D(2) S(1)] True by blast
    show ?thesis
    proof (rule allocate [OF w, of ?a "Some PsaImportKey"])
      assume "?find = Some (Inl PsaErrorInsufficientStorage, w)"
      with True y have "calib_import_key self app op w = Some (Inl PsaErrorInsufficientStorage, w)" by (simp add: defs)
      with settled_same [OF w] show ?thesis by simp
    next
      fix k
      assume f: "fits (cl_consts self) ?a (Some PsaImportKey) (cs_slots w) (unat k)"
        "\<forall>i < unat k. \<not> fits (cl_consts self) ?a (Some PsaImportKey) (cs_slots w) i"
        and find: "?find = Some (Inr k, take_slot k w)"
      show ?thesis
      proof (cases ?raw)
        case (Inl e)
        with True y find f(1) show ?thesis by (auto simp: defs)
      next
        case (Inr data)
        obtain st d where g: "dev_import_key (cl_device self) kty data k (cs_device w) = (st, d)" by fastforce
        obtain v where v: "content d = (content (cs_device w))(k := v)"
          using chip_contractD(2) [OF S(3)] g unfolding chip_writes_def by blast
        have "calib_import_key self app op w =
          (if st = AtcaSuccess
           then case calib_store_key self ?kt k ?a ((take_slot k w)\<lparr>cs_device := d\<rparr>) of
               (Inr _, w') \<Rightarrow> Some (Inr (), w') | (Inl _, w') \<Rightarrow> free_slot_and_fail k PsaErrorStorageFailure w'
           else free_slot_and_fail k (import_error st) ((take_slot k w)\<lparr>cs_device := d\<rparr>))"
          using True y g find Inr take_slot_keeps(5) [OF w f(1)] by (simp add: defs)
        with settled_store(1) [OF w f v fresh, of "import_error st"]
          settled_store(2) [OF w f v fresh, of "\<lambda>_. PsaErrorStorageFailure"]
        show ?thesis by (simp split: if_splits)
      qed
    qed
  next
    case False
    then have "\<exists>e. calib_import_key self app op w = Some (Inl e, w)"
      by (auto simp: defs split: sum.splits)
    with settled_same [OF w] show ?thesis by metis
  qed
qed

text \<open>Destroying a key removes its mapping and frees its slot, or changes neither.\<close>

lemma calib_destroy_key_result:
  fixes app name
  assumes w: "calib_inv ops inv abs self content w"
  defines "kt \<equiv> key_triple_new app CryptoAuthLib name"
  obtains (failed) e w' where "calib_destroy_key self app name w = Some (Inl e, w')" "calib_unchanged abs w w'"
      "cs_device w' = cs_device w" "calib_inv ops inv abs self content w'"
    | (destroyed) k w' where "calib_destroy_key self app name w = Some (Inr (), w')" "calib_number abs self w kt = Some k"
      "abs (cs_kim w') = (abs (cs_kim w))(kt := None)" "cs_slots w' = cs_slots (release_slot k w)"
      "cs_device w' = cs_device w" "calib_inv ops inv abs self content w'"
proof -
  note D = calib_invD [OF w]
  note S = calib_setupD [OF D(1)]
  let ?get = "get_key_id (cl_id_codec self) (cl_key_info_store self) (cs_kim w) kt"
  obtain r m where rem: "remove_key_info (cl_key_info_store self) kt (cs_kim w) = (r, m)" by fastforce
  note m = remove_key_info_inv [OF D(2) S(1) rem]
  have kt: "get_key_triple (cl_key_info_store self) app name = kt" by (simp add: get_key_triple_def S(2) kt_def)
  note defs = calib_destroy_key_def Let_def kt try_panic_def no_panic_def calib_ask_kim_def calib_on_kim_def rem
  consider e where "?get = Inl e" | k e where "?get = Inr k" "r = Inl e" | k where "?get = Inr k" "r = Inr ()"
    by (cases ?get; cases r) auto
  then show thesis
  proof cases
    case 1
    with w show thesis by (intro failed [of e w]) (simp_all add: defs calib_unchanged_def)
  next
    case 2
    note a = remove_key_info_Inl [OF D(2) S(1) rem [unfolded 2(2)]]
    show thesis
      by (rule failed [of e "w\<lparr>cs_kim := m\<rparr>"]) (use 2 a m D in \<open>simp_all add: defs calib_unchanged_def calib_inv_def\<close>)
  next
    case 3
    note a = remove_key_info_Inr [OF D(2) S(1) rem [unfolded 3(2)]]
    have num: "calib_number abs self w kt = Some k"
      by (rule key_number_get [OF D(2) S(1) 3(1)]) (simp add: kt_def)
    let ?w = "w\<lparr>cs_kim := m\<rparr>"
    have w1: "calib_inv ops inv abs self content ?w"
      using D m a slotted_remove [OF D(5)] by (simp add: calib_inv_def)
    have free: "calib_number abs self ?w kt' \<noteq> Some k" for kt'
    proof (cases "kt' = kt")
      case False
      with conjunct2 [OF a] unsharedD [OF slottedD(2) [OF D(5)] num, of kt'] show ?thesis by auto
    qed (use conjunct2 [OF a] in simp)
    note sl = slottedD(3) [OF D(5) num]
    have "calib_destroy_key self app name w = Some (Inr (), release_slot k ?w)"
      using 3 sl by (simp add: defs set_free release_slot_def)
    moreover have "cs_slots (release_slot k ?w) = cs_slots (release_slot k w)" by (simp add: release_slot_def)
    moreover note release_slot_keeps [OF w1 free]
    ultimately show thesis
      by (intro destroyed [OF _ num, of "release_slot k ?w"]) (simp_all add: conjunct2 [OF a])
  qed
qed

subsection \<open>Isolation\<close>

lemma safely_settled:
  assumes "\<And>w. calib_inv ops inv abs self content w \<Longrightarrow>
      settled ops inv abs self content kt attrs op w (f w) \<or>
      (\<exists>k e. fits (cl_consts self) attrs op (cs_slots w) (unat k) \<and> f w = Some (Inl e, take_slot k w))"
  shows "safely (calib_inv ops inv abs self content) (calib_view abs self content) (- {kt_app_name kt}) f"
  unfolding safely_def
proof (intro allI impI)
  fix w assume w: "calib_inv ops inv abs self content w"
  from assms [OF w] show "\<exists>r w'. f w = Some (r, w') \<and> calib_inv ops inv abs self content w' \<and>
      (\<forall>n \<in> - {kt_app_name kt}. calib_view abs self content n w' = calib_view abs self content n w)"
  proof
    assume "\<exists>k e. fits (cl_consts self) attrs op (cs_slots w) (unat k) \<and> f w = Some (Inl e, take_slot k w)"
    then obtain k e where "fits (cl_consts self) attrs op (cs_slots w) (unat k)" "f w = Some (Inl e, take_slot k w)" by blast
    with take_slot_keeps [OF w this(1)] show ?thesis by simp
  qed (auto simp: settled_def)
qed

lemma calib_create_safely:
  "safely (calib_inv ops inv abs self content) (calib_view abs self content) (- {app}) (calib_generate_key self app gop)"
  "safely (calib_inv ops inv abs self content) (calib_view abs self content) (- {app}) (calib_import_key self app iop)"
proof -
  show "safely (calib_inv ops inv abs self content) (calib_view abs self content) (- {app}) (calib_generate_key self app gop)"
    using safely_settled [OF disjI1 [OF calib_generate_key_settled [where op = gop and app = app]]] by simp
  have "settled ops inv abs self content (key_triple_new app CryptoAuthLib (ik_key_name iop)) (ik_attributes iop)
      (Some PsaImportKey) w (calib_import_key self app iop w) \<or>
    (\<exists>k e. fits (cl_consts self) (ik_attributes iop) (Some PsaImportKey) (cs_slots w) (unat k) \<and>
       calib_import_key self app iop w = Some (Inl e, take_slot k w))"
    if "calib_inv ops inv abs self content w" for w
    using calib_import_key_settled [OF that, of app iop] by blast
  from safely_settled [OF this] show
    "safely (calib_inv ops inv abs self content) (calib_view abs self content) (- {app}) (calib_import_key self app iop)"
    by simp
qed

lemma calib_destroy_safely:
  "safely (calib_inv ops inv abs self content) (calib_view abs self content) (- {app}) (calib_destroy_key self app name)"
  unfolding safely_def
proof (intro allI impI)
  fix w assume w: "calib_inv ops inv abs self content w"
  show "\<exists>r w'. calib_destroy_key self app name w = Some (r, w') \<and> calib_inv ops inv abs self content w' \<and>
      (\<forall>n \<in> - {app}. calib_view abs self content n w' = calib_view abs self content n w)"
    by (rule calib_destroy_key_result [OF w, of app name])
      (simp_all add: calib_view_def calib_unchanged_def seen_upd_other)
qed

lemma calib_isolated:
  "tenant_isolation (calib_provide self) (calib_inv ops inv abs self content) (calib_view abs self content)"
  by unfold_locales
    (simp_all add: calib_provide_def default_provide_def calib_list_keys_def calib_list_clients_def
      keeps_if_supported keeps_chip_ops safely_keeps calib_create_safely calib_destroy_safely)

end

text \<open>The names of an application's keys.\<close>

definition calib_names ::
  "('m \<Rightarrow> key_triple \<Rightarrow> key_info option) \<Rightarrow> ('m, 'd) calib_state \<Rightarrow> provider_id \<Rightarrow> application_name \<Rightarrow> string set" where
  "calib_names mp w = names_of (mp (cs_kim w))"

lemma calib_provide_sel:
  "p_list_keys (calib_provide self) = calib_list_keys self"
  "p_list_clients (calib_provide self) = calib_list_clients self"
  "p_psa_destroy_key (calib_provide self) = (\<lambda>app k. if_supported self PsaDestroyKey (catch_panic (calib_destroy_key self app k)))"
  by (simp_all add: calib_provide_def default_provide_def)

context key_info_manager
begin

lemma calib_list_keys_law:
  assumes w: "calib_inv ops inv abs self content w" and run: "calib_list_keys self n w = (r, w')"
  shows "w' = w" "r = Inr ks \<Longrightarrow> distinct (map lk_name ks) \<and> lk_name ` set ks = calib_names abs w CryptoAuthLib n"
  using run list_keys_names [OF calib_invD(2) [OF w] calib_setupD(1,2) [OF calib_invD(1) [OF w]], of n ks]
  by (auto simp: calib_list_keys_def calib_ask_kim_def calib_names_def)

lemma calib_list_clients_law:
  assumes w: "calib_inv ops inv abs self content w" and run: "calib_list_clients self w = (r, w')"
  shows "w' = w" "r = Inr cs \<Longrightarrow> set cs = {n. calib_names abs w CryptoAuthLib n \<noteq> {}}"
  using run list_clients_names [OF calib_invD(2) [OF w] calib_setupD(1,2) [OF calib_invD(1) [OF w]], of cs]
  by (auto simp: calib_list_clients_def calib_ask_kim_def calib_names_def)

lemma calib_destroy_law:
  assumes w: "calib_inv ops inv abs self content w"
    and run: "if_supported self PsaDestroyKey (catch_panic (calib_destroy_key self n k)) w = (r, w')"
  shows "calib_inv ops inv abs self content w' \<and>
    only_loses (calib_names abs w) (calib_names abs w') {(CryptoAuthLib, n)} \<and>
    calib_names abs w CryptoAuthLib n - {k} \<subseteq> calib_names abs w' CryptoAuthLib n"
proof (cases "PsaDestroyKey |\<in>| cl_supported_opcodes self")
  case True
  with run have run': "catch_panic (calib_destroy_key self n k) w = (r, w')" by (simp add: if_supported_def)
  show ?thesis
    by (rule calib_destroy_key_result [OF w, of n k])
      (use run' names_of_remove [of "abs (cs_kim w)" n CryptoAuthLib k]
       in \<open>auto simp: catch_panic_def calib_names_def calib_unchanged_def\<close>)
qed (use run w in \<open>simp add: if_supported_def\<close>)

lemma calib_key_provider:
  "key_provider (calib_provide self) (calib_inv ops inv abs self content) (calib_names abs) CryptoAuthLib"
proof (unfold_locales, unfold calib_provide_sel)
  fix w w' n r
  assume a: "calib_inv ops inv abs self content w" "calib_list_keys self n w = (r, w')"
  show "calib_inv ops inv abs self content w' \<and> calib_names abs w' = calib_names abs w \<and>
      (\<forall>ks. r = Inr ks \<longrightarrow> distinct (map lk_name ks) \<and> lk_name ` set ks = calib_names abs w CryptoAuthLib n)"
    using calib_list_keys_law [OF a] a(1) by auto
next
  fix w w' r
  assume a: "calib_inv ops inv abs self content w" "calib_list_clients self w = (r, w')"
  show "calib_inv ops inv abs self content w' \<and> calib_names abs w' = calib_names abs w \<and>
      (\<forall>cs. r = Inr cs \<longrightarrow> set cs = {n. calib_names abs w CryptoAuthLib n \<noteq> {}})"
    using calib_list_clients_law [OF a] a(1) by auto
qed (rule calib_destroy_law)

end

section \<open>Start-up\<close>

lemma set_hw_config_length: "set_hw_config hw slots = Some slots' \<Longrightarrow> length slots' = length slots"
  by (induction hw slots rule: set_hw_config.induct) (auto split: if_splits)

lemma set_hw_config_total:
  "\<forall>h \<in> set hw. unat (hw_id h) < length slots \<Longrightarrow> \<exists>slots'. set_hw_config hw slots = Some slots'"
  by (induction hw slots rule: set_hw_config.induct) auto

text \<open>The mappings without those of the provider.\<close>

definition without_provider :: "provider_id \<Rightarrow> (key_triple \<Rightarrow> key_info option) \<Rightarrow> key_triple \<Rightarrow> key_info option" where
  "without_provider pid f kt = (if kt_provider_id kt = pid then None else f kt)"

lemma slotted_none: "slotted codec (without_provider CryptoAuthLib f) slots"
proof -
  have "key_number CryptoAuthLib codec (without_provider CryptoAuthLib f) kt = None" for kt
    by (simp add: key_number_def without_provider_def)
  then show ?thesis
    by (auto simp: slotted_def decodable_def unshared_def without_provider_def split: if_splits)
qed

context key_info_manager_mem
begin

text \<open>The check for the existence of a stored mapping is the wrong way round: every mapping fails it.\<close>

lemma calib_scan_all:
  assumes "inv m" and "kc_impl (cl_key_info_store self) = ops" and "set kts \<subseteq> dom (abs m)"
  shows "calib_scan self m kts rem slots = Some (rem @ kts, slots)"
  using assms(3) by (induction kts arbitrary: rem) (auto simp: does_not_exist_total [OF assms(1,2)])

lemma calib_new_result:
  assumes su: "calib_setup ops self content" and inv: "inv m"
    and run: "calib_new rd tm self file m d = Some (Some (self', w), m')"
  shows "calib_inv ops inv abs self' content w" "abs (cs_kim w) = without_provider CryptoAuthLib (abs m)" "m' = cs_kim w"
    "set_hw_config (snd (fst (get_config (cl_device self) d))) (storage_new (cl_consts self)) = Some (cs_slots w)"
    "cl_supported_opcodes self' = snd (set_opcodes (cl_device self) (snd (get_config (cl_device self) d)) {||})"
proof -
  note S = calib_setupD [OF su]
  obtain kts where kts: "kim_get_all (cl_key_info_store self) m = Inr kts" "distinct kts"
    "set kts = {kt \<in> dom (abs m). kt_provider_id kt = CryptoAuthLib}"
    using kim_get_all_total [OF inv S(1)] S(2) by auto
  have scan: "calib_scan self m kts [] slots = Some (kts, slots)" for slots
    using calib_scan_all [OF inv S(1), of kts "[]"] kts(3) by auto
  obtain st hw d1 where gc: "get_config (cl_device self) d = ((st, hw), d1)" by (metis prod.collapse)
  obtain slots where hw: "set_hw_config hw (storage_new (cl_consts self)) = Some slots"
    using run gc by (auto simp: calib_new_def Let_def split: if_splits Option.bind_splits)
  obtain ok m1 where rt: "remove_triples (cl_key_info_store self) kts m = (ok, m1)" by fastforce
  have res: "ok" "m' = m1" "w = \<lparr>cs_kim = m1, cs_slots = slots, cs_device = snd (set_access_keys rd tm self file d1), cs_panicked = False\<rparr>"
    "self' = self\<lparr>cl_supported_opcodes := snd (set_opcodes (cl_device self) d1 {||})\<rparr>"
    using run gc hw kts(1) scan rt by (auto simp: calib_new_def Let_def split: if_splits bool.splits)
  have m1: "inv m1 \<and> abs m1 = (\<lambda>kt. if kt \<in> set kts then None else abs m kt)"
    using remove_triples_result [OF S(1) inv] rt res(1) by simp
  then have a: "abs m1 = without_provider CryptoAuthLib (abs m)"
    using kts(3) by (auto simp: without_provider_def fun_eq_iff domIff)
  have len: "length slots = unat (slots_count (cl_consts self))"
    using set_hw_config_length [OF hw] by (simp add: storage_new_def)
  show "abs (cs_kim w) = without_provider CryptoAuthLib (abs m)" "m' = cs_kim w"
    "set_hw_config (snd (fst (get_config (cl_device self) d))) (storage_new (cl_consts self)) = Some (cs_slots w)"
    "cl_supported_opcodes self' = snd (set_opcodes (cl_device self) (snd (get_config (cl_device self) d)) {||})"
    using a hw gc by (simp_all add: res(2-4))
  show "calib_inv ops inv abs self' content w"
    using su m1 len slotted_none [of "cl_id_codec self" "abs m" slots]
    by (simp add: res(2-4) calib_inv_def calib_setup_def a [symmetric])
qed

end

end
