(* ===== verification/Cryptoauthlib_Properties.thy ===== *)
theory Cryptoauthlib_Properties
  imports Cryptoauthlib_Keys
begin

text \<open>
  What the CryptoAuthLib provider promises on the on-disk key info manager, and two things it does
  that it should not. Each property has a concrete instance, with a small chip of two slots.
\<close>

section \<open>The contracts of a provider\<close>

interpretation calib: tenant_isolation "calib_provide self"
    "calib_inv (on_disk_impl c) odm_inv odm_abs self content" "calib_view odm_abs self content"
  for self :: "(on_disk_manager, 'd) calib_provider" and content :: "'d \<Rightarrow> u8 \<Rightarrow> 'kd option" and c
  by (rule odm.calib_isolated)

interpretation calib_keys: key_provider "calib_provide self"
    "calib_inv (on_disk_impl c) odm_inv odm_abs self content" "calib_names odm_abs" CryptoAuthLib
  for self :: "(on_disk_manager, 'd) calib_provider" and content :: "'d \<Rightarrow> u8 \<Rightarrow> 'kd option" and c
  by (rule odm.calib_key_provider)

section \<open>A small chip\<close>

text \<open>Two slots for P-256 keys, which hold byte strings. All random bytes are zero.\<close>

definition chip_codec :: codec where
  "chip_codec =
     sample_codec\<lparr>ki_deserialize := (\<lambda>bs. case bs of [] \<Rightarrow> None | _ # r \<Rightarrow> Some \<lparr>ki_id = r, ki_attributes = pair_attributes\<rparr>),
       provider_as_u8 := (\<lambda>p. if p = CryptoAuthLib then 5 else 0),
       provider_try_from := (\<lambda>n. if n = 5 then Some CryptoAuthLib else None)\<rparr>"

lemma chip_codec_facts:
  "base64_ok chip_codec" "synced chip_codec sample_manager"
  "valid_update chip_codec (Insert (key_triple_new ''app'' CryptoAuthLib ''k'') \<lparr>ki_id = [0], ki_attributes = pair_attributes\<rparr>)"
proof -
  show "base64_ok chip_codec" using sample_codec_ok by (simp add: base64_ok_def chip_codec_def)
  show "synced chip_codec sample_manager"
    by (auto simp: synced_def odm_abs_def sample_manager_def sample_disk_def stored_def fs_wf_def node_at_def hm_get_def
        hm_wf_def split: if_splits)
  show "valid_update chip_codec (Insert (key_triple_new ''app'' CryptoAuthLib ''k'') \<lparr>ki_id = [0], ki_attributes = pair_attributes\<rparr>)"
    by (simp add: chip_codec_def sample_codec_def valid_triple_def utf8_string_def as_bytes_def byte_of_char_def)
qed

definition toy_chip :: "(u8 \<Rightarrow> bytes option) atecc_device" where
  "toy_chip =
     \<lparr>is_configuration_locked = (\<lambda>_. True), get_config = (\<lambda>d. ((AtcaSuccess, []), d)), get_device_type = (\<lambda>_. ATECC608A),
      add_access_key = (\<lambda>_ _ d. (AtcaSuccess, d)), gen_key = (\<lambda>_ k d. (AtcaSuccess, d(k \<mapsto> [1, 2, 3]))),
      dev_import_key = (\<lambda>_ x k d. (AtcaSuccess, d(k \<mapsto> x))),
      dev_export_key = (\<lambda>_ k d. ((AtcaSuccess, case d k of None \<Rightarrow> [] | Some x \<Rightarrow> x), d)),
      get_public_key = (\<lambda>k d. ((AtcaSuccess, case d k of None \<Rightarrow> [] | Some x \<Rightarrow> x), d)),
      dev_sign_hash = (\<lambda>h k _ d. ((AtcaSuccess, h), d)), dev_verify_hash = (\<lambda>_ _ _ d. (Inr True, d)),
      dev_sha = (\<lambda>m _ d. ((AtcaSuccess, take 32 (m @ replicate 32 0)), d)), dev_random = (\<lambda>d. ((AtcaSuccess, replicate 32 0), d)),
      atca_sig_size = 64, atca_sha2_256_digest_size = 32, atca_random_buffer_size = 32\<rparr>"

definition toy_calib :: "(on_disk_manager, u8 \<Rightarrow> bytes option) calib_provider" where
  "toy_calib =
     \<lparr>cl_device = toy_chip,
      cl_consts = \<lparr>slots_count = 2, min_slot_idx_for_pub_key = 0, default_slot_config = pair_config\<rparr>,
      cl_interface = \<lparr>is_public_key = (\<lambda>t. case t of EccPublicKey _ \<Rightarrow> True | _ \<Rightarrow> False), is_exportable = (\<lambda>_. False),
        calib_hash_length = (\<lambda>_. 32), validate_sign_hash = (\<lambda>_ _. Inr ()), validate_verify_hash = (\<lambda>_ _. Inr ()),
        validate_sign_message = (\<lambda>_ _. Inr ()), validate_verify_message = (\<lambda>_ _. Inr ())\<rparr>,
      cl_key_info_store = build_client \<lparr>kf_impl = on_disk_impl chip_codec\<rparr> CryptoAuthLib,
      cl_id_codec = byte_id_codec, cl_supported_opcodes = fset_of_list calib_chip_opcodes,
      cl_uuid_parse = (\<lambda>_. Some [])\<rparr>"

definition toy_calib_state :: "(on_disk_manager, u8 \<Rightarrow> bytes option) calib_state" where
  "toy_calib_state =
     \<lparr>cs_kim = sample_manager, cs_slots = storage_new (cl_consts toy_calib), cs_device = Map.empty, cs_panicked = False\<rparr>"

lemma byte_id_codec_ok: "id_codec_ok byte_id_codec"
  by (simp add: id_codec_ok_def byte_id_codec_def)

lemma toy_chip_ok: "chip_contract toy_chip id"
  by (auto simp: chip_contract_def toy_chip_def chip_writes_def chip_reads_def)

lemma toy_calib_setup: "calib_setup (on_disk_impl chip_codec) toy_calib id"
  by (simp add: calib_setup_def toy_calib_def build_client_def byte_id_codec_ok toy_chip_ok)

lemma toy_calib_inv: "calib_inv (on_disk_impl chip_codec) odm_inv odm_abs toy_calib id toy_calib_state"
  using sample_facts(3) toy_calib_setup
  by (simp add: calib_inv_def toy_calib_state_def slotted_def decodable_def unshared_def sample_manager_empty
      storage_new_def)

definition pub_attributes :: attributes where
  "pub_attributes = pair_attributes\<lparr>attr_key_type := EccPublicKey SecpR1,
     usage_flags := (usage_flags pair_attributes)\<lparr>uf_sign_hash := False, uf_sign_message := False\<rparr>\<rparr>"

lemma toy_slots: "cs_slots toy_calib_state = [default_key_slot (cl_consts toy_calib), default_key_slot (cl_consts toy_calib)]"
  by (simp add: toy_calib_state_def toy_calib_def storage_new_def) (simp add: numeral_2_eq_2)

lemma toy_calib_fits:
  "fits (cl_consts toy_calib) pair_attributes (Some PsaGenerateKey) (cs_slots toy_calib_state) 0"
  "fits (cl_consts toy_calib) pub_attributes (Some PsaImportKey) (cs_slots toy_calib_state) 0"
  unfolding toy_slots
  by (simp_all add: fits_def key_attr_vs_config_def is_key_type_ok_def is_usage_flags_ok_def is_permitted_algorithms_ok_def
      ecdsa_slot_ok_def is_ecc_key_pair_def pub_attributes_def pair_attributes_def sample_attributes_def toy_calib_def
      default_key_slot_def pair_config_def is_free_def Let_def)

text \<open>The first slot is the first that fits.\<close>

lemma toy_first_slot:
  assumes "fits (cl_consts toy_calib) a op (cs_slots toy_calib_state) 0"
  shows "on_slots (find_suitable_slot (cl_consts toy_calib) a op) toy_calib_state = Some (Inr 0, take_slot 0 toy_calib_state)"
proof (rule allocate [OF toy_calib_inv, of a op])
  fix k :: u8
  assume "\<forall>i < unat k. \<not> fits (cl_consts toy_calib) a op (cs_slots toy_calib_state) i"
    and run: "on_slots (find_suitable_slot (cl_consts toy_calib) a op) toy_calib_state = Some (Inr k, take_slot k toy_calib_state)"
  with assms have "unat k = 0" by (metis gr0I)
  then have "k = 0" by (simp add: unat_eq_0)
  with run show ?thesis by simp
qed (use assms in blast)

text \<open>One key made on the small chip.\<close>

definition toy_generate_op :: generate_key_op where
  "toy_generate_op = \<lparr>gk_key_name = ''k'', gk_attributes = pair_attributes\<rparr>"

lemma toy_calib_generate:
  "\<exists>w'. calib_generate_key toy_calib ''app'' toy_generate_op toy_calib_state = Some (Inr (), w') \<and>
     synced chip_codec (cs_kim w') \<and> quiet (odm_disk (cs_kim w'))"
proof -
  let ?kt = "key_triple_new ''app'' CryptoAuthLib ''k''" and ?c = "cl_key_info_store toy_calib"
  have impl: "kc_impl ?c = on_disk_impl chip_codec" by (simp add: toy_calib_def build_client_def)
  have kt: "get_key_triple ?c ''app'' ''k'' = ?kt" by (simp add: get_key_triple_def toy_calib_def build_client_def)
  have new: "does_not_exist ?c sample_manager ?kt = Inr ()"
    using odm.does_not_exist_total [OF sample_facts(3) impl] by (simp add: sample_manager_empty)
  from insert_key_info_quiet [OF chip_codec_facts(1,2) sample_facts(2,3) impl _ _ chip_codec_facts(3), of byte_id_codec 0] obtain m' where
    m': "insert_key_info byte_id_codec ?c ?kt 0 pair_attributes sample_manager = (Inr (), m')" "synced chip_codec m'"
    "quiet (odm_disk m')" by (auto simp: sample_manager_empty byte_id_codec_def)
  have g: "get_calib_key_type pair_attributes = Inr P256EccKey" "attr_key_type pair_attributes = EccKeyPair SecpR1"
    by (simp_all add: get_calib_key_type_def pair_attributes_def)
  have t: "cs_kim (take_slot 0 toy_calib_state) = sample_manager" "cl_id_codec toy_calib = byte_id_codec"
    "\<not> is_public_key (cl_interface toy_calib) (EccKeyPair SecpR1)"
    "\<exists>d. gen_key (cl_device toy_calib) kty 0 (cs_device (take_slot 0 toy_calib_state)) = (AtcaSuccess, d)" for kty
    by (simp_all add: take_slot_def toy_calib_state_def toy_calib_def toy_chip_def)
  have "does_not_exist ?c (cs_kim toy_calib_state) ?kt = Inr ()" using new by (simp add: toy_calib_state_def)
  with m' g t(1-3) t(4) [of P256EccKey] toy_first_slot [OF toy_calib_fits(1)] show ?thesis
    by (auto simp: calib_generate_key_def toy_generate_op_def Let_def kt try_panic_def no_panic_def calib_ask_kim_def
        read_op_def calib_store_key_def calib_on_kim_def)
qed

section \<open>Creating and destroying keys\<close>

text \<open>
  C21: generating a key on the chip. \<open>psa_generate_key\<close> never panics, keeps the invariant, and no other
  application sees a change. If it succeeds, the name was free, the key has the lowest free slot whose
  configuration fits, exactly this slot became busy and exactly this mapping was added. If it fails, the
  mappings and the slots are what they were: no slot is lost.
\<close>

theorem calib_generate_key_exact:
  assumes "calib_inv (on_disk_impl c) odm_inv odm_abs self content w"
  shows "\<exists>r w'. calib_generate_key self app op w = Some (r, w') \<and>
    calib_inv (on_disk_impl c) odm_inv odm_abs self content w' \<and>
    (\<forall>n. n \<noteq> app \<longrightarrow> calib_view odm_abs self content n w' = calib_view odm_abs self content n w) \<and>
    (case r of
       Inl _ \<Rightarrow> odm_abs (cs_kim w') = odm_abs (cs_kim w) \<and> cs_slots w' = cs_slots w
     | Inr _ \<Rightarrow> calib_created odm_abs self (key_triple_new app CryptoAuthLib (gk_key_name op)) (gk_attributes op)
         (Some PsaGenerateKey) w w')"
  using odm.calib_generate_key_settled [OF assms, of app op] unfolding settled_def calib_unchanged_def by simp

theorem calib_generate_key_exact_witness:
  "\<exists>w'. calib_generate_key toy_calib ''app'' toy_generate_op toy_calib_state = Some (Inr (), w') \<and>
     calib_created odm_abs toy_calib (key_triple_new ''app'' CryptoAuthLib ''k'') pair_attributes (Some PsaGenerateKey)
       toy_calib_state w'"
proof -
  obtain w' where "calib_generate_key toy_calib ''app'' toy_generate_op toy_calib_state = Some (Inr (), w')"
    using toy_calib_generate by blast
  with calib_generate_key_exact [OF toy_calib_inv, of "''app''" toy_generate_op] show ?thesis
    by (simp add: toy_generate_op_def)
qed

lemma toy_calib_key_state:
  "\<exists>w. calib_inv (on_disk_impl chip_codec) odm_inv odm_abs toy_calib id w \<and> synced chip_codec (cs_kim w) \<and>
     quiet (odm_disk (cs_kim w)) \<and> odm_abs (cs_kim w) (key_triple_new ''app'' CryptoAuthLib ''k'') \<noteq> None"
proof -
  obtain w' where g: "calib_generate_key toy_calib ''app'' toy_generate_op toy_calib_state = Some (Inr (), w')"
    and s: "synced chip_codec (cs_kim w')" "quiet (odm_disk (cs_kim w'))" using toy_calib_generate by blast
  from odm.calib_generate_key_settled [OF toy_calib_inv, of "''app''" toy_generate_op] g
  have "calib_inv (on_disk_impl chip_codec) odm_inv odm_abs toy_calib id w'"
    "calib_created odm_abs toy_calib (key_triple_new ''app'' CryptoAuthLib ''k'') pair_attributes (Some PsaGenerateKey)
       toy_calib_state w'" by (auto simp: settled_def toy_generate_op_def)
  with s show ?thesis by (auto simp: calib_created_def)
qed

text \<open>
  Destroying a key on the chip. \<open>psa_destroy_key\<close> never panics and keeps the invariant. If it succeeds, the
  name had a key, exactly its mapping is gone and exactly its slot is free again; if it fails, neither mappings nor
  slots have changed. In no case does another application see a change.
\<close>

lemma calib_destroy_key_exact:
  assumes "calib_inv (on_disk_impl c) odm_inv odm_abs self content w"
  shows "\<exists>r w'. calib_destroy_key self app name w = Some (r, w') \<and>
    calib_inv (on_disk_impl c) odm_inv odm_abs self content w' \<and>
    (\<forall>n. n \<noteq> app \<longrightarrow> calib_view odm_abs self content n w' = calib_view odm_abs self content n w) \<and>
    (case r of
       Inl _ \<Rightarrow> odm_abs (cs_kim w') = odm_abs (cs_kim w) \<and> cs_slots w' = cs_slots w
     | Inr _ \<Rightarrow> \<exists>k. key_number CryptoAuthLib (cl_id_codec self) (odm_abs (cs_kim w)) (key_triple_new app CryptoAuthLib name) = Some k \<and>
         odm_abs (cs_kim w') = (odm_abs (cs_kim w))(key_triple_new app CryptoAuthLib name := None) \<and>
         cs_slots w' = (cs_slots w)[unat k := (cs_slots w ! unat k)\<lparr>slot_status := Free\<rparr>])"
  by (rule odm.calib_destroy_key_result [OF assms, of app name])
    (simp_all add: calib_unchanged_def calib_view_def seen_upd_other release_slot_def)

lemma calib_destroy_key_exact_witness:
  "\<exists>w r w'. odm_abs (cs_kim w) (key_triple_new ''app'' CryptoAuthLib ''k'') \<noteq> None \<and>
     calib_destroy_key toy_calib ''app'' ''k'' w = Some (r, w') \<and>
     calib_inv (on_disk_impl chip_codec) odm_inv odm_abs toy_calib id w'"
  using toy_calib_key_state calib_destroy_key_exact [of chip_codec toy_calib id _ "''app''" "''k''"] by meson

text \<open>
  C38: a rejected public key costs a slot. If the imported data for a P-256 public key does not have 65 bytes, and a slot
  fits, then \<open>psa_import_key\<close> returns \<open>PsaErrorInvalidArgument\<close>, adds no mapping, and leaves a free
  slot marked busy that no mapping refers to, so that no request can free it.
\<close>

theorem calib_import_leaks_slot:
  assumes "calib_inv (on_disk_impl c) odm_inv odm_abs self content w"
    and "odm_abs (cs_kim w) (key_triple_new app CryptoAuthLib (ik_key_name op)) = None"
    and "attr_key_type (ik_attributes op) = EccPublicKey SecpR1" and "attr_bits (ik_attributes op) = 256"
    and "length (ik_data op) \<noteq> 65"
    and "fits (cl_consts self) (ik_attributes op) (Some PsaImportKey) (cs_slots w) i"
  shows "\<exists>k w'. calib_import_key self app op w = Some (Inl PsaErrorInvalidArgument, w') \<and> cs_kim w' = cs_kim w \<and>
    slot_status (cs_slots w ! unat k) = Free \<and> slot_status (cs_slots w' ! unat k) = Busy \<and>
    (\<forall>kt. key_number CryptoAuthLib (cl_id_codec self) (odm_abs (cs_kim w')) kt \<noteq> Some k)"
proof (rule allocate [OF assms(1), of "ik_attributes op" "Some PsaImportKey"])
  fix k
  assume f: "fits (cl_consts self) (ik_attributes op) (Some PsaImportKey) (cs_slots w) (unat k)"
    and find: "on_slots (find_suitable_slot (cl_consts self) (ik_attributes op) (Some PsaImportKey)) w = Some (Inr k, take_slot k w)"
  note S = calib_setupD [OF calib_invD(1) [OF assms(1)]]
  have "does_not_exist (cl_key_info_store self) (cs_kim w) (key_triple_new app CryptoAuthLib (ik_key_name op)) = Inr ()"
    using odm.does_not_exist_total [OF calib_invD(2) [OF assms(1)] S(1)] assms(2) by (simp add: domIff)
  with find assms(3-5) S(2) have "calib_import_key self app op w = Some (Inl PsaErrorInvalidArgument, take_slot k w)"
    by (simp add: calib_import_key_def Let_def get_key_triple_def try_panic_def no_panic_def calib_ask_kim_def read_op_def
        get_calib_key_type_def raw_key_extract_def)
  moreover note take_slot_keeps [OF assms(1) f]
  ultimately show ?thesis
    using f by (intro exI [of _ k] exI [of _ "take_slot k w"]) (simp add: fits_def is_free_def reserved_def)
qed (use assms(6) in blast)

theorem calib_import_leaks_slot_witness:
  "\<exists>k w'. calib_import_key toy_calib ''app'' \<lparr>ik_key_name = ''k'', ik_attributes = pub_attributes, ik_data = [4]\<rparr>
       toy_calib_state = Some (Inl PsaErrorInvalidArgument, w') \<and>
     slot_status (cs_slots toy_calib_state ! unat (k :: u8)) = Free \<and> slot_status (cs_slots w' ! unat k) = Busy"
proof -
  let ?op = "\<lparr>ik_key_name = ''k'', ik_attributes = pub_attributes, ik_data = [4]\<rparr>"
  have "odm_abs (cs_kim toy_calib_state) (key_triple_new ''app'' CryptoAuthLib (ik_key_name ?op)) = None"
    by (simp add: toy_calib_state_def sample_manager_empty)
  note L = calib_import_leaks_slot [OF toy_calib_inv this, of 0]
  from L toy_calib_fits(2) obtain k :: u8 and w' where
    "calib_import_key toy_calib ''app'' ?op toy_calib_state = Some (Inl PsaErrorInvalidArgument, w')"
    "slot_status (cs_slots toy_calib_state ! unat k) = Free" "slot_status (cs_slots w' ! unat k) = Busy"
    by (auto simp: pub_attributes_def pair_attributes_def)
  then show ?thesis by blast
qed

section \<open>Start-up\<close>

text \<open>
  C37: starting the provider forgets every key on the chip. If the chip answers and the disk does, start-up succeeds
  and establishes the invariant, but the check for stored mappings is inverted, so that afterwards no mapping of this provider is left,
  while the mappings of other providers are kept; the slots have the status the hardware reports.
\<close>

theorem calib_start_forgets_keys:
  assumes "calib_setup (on_disk_impl c) self content"
    and "base64_ok c" and "synced c m" and "quiet (odm_disk m)" and "odm_inv m"
    and "is_configuration_locked (cl_device self) d" and "get_config (cl_device self) d = ((AtcaSuccess, hw), d1)"
    and "\<forall>h \<in> set hw. hw_id h < slots_count (cl_consts self)"
  shows "\<exists>self' w. calib_new read from_toml self file m d = Some (Some (self', w), cs_kim w) \<and>
    calib_inv (on_disk_impl c) odm_inv odm_abs self' content w \<and>
    odm_abs (cs_kim w) = without_provider CryptoAuthLib (odm_abs m) \<and>
    set_hw_config hw (storage_new (cl_consts self)) = Some (cs_slots w)"
proof -
  note S = calib_setupD [OF assms(1)]
  obtain kts where kts: "kim_get_all (cl_key_info_store self) m = Inr kts" "distinct kts"
    "set kts = {kt \<in> dom (odm_abs m). kt_provider_id kt = CryptoAuthLib}"
    using odm.kim_get_all_total [OF assms(5) S(1)] S(2) by auto
  have scan: "calib_scan self m kts [] slots = Some (kts, slots)" for slots
    using odm.calib_scan_all [OF assms(5) S(1), of kts "[]"] kts(3) by auto
  obtain slots where "set_hw_config hw (storage_new (cl_consts self)) = Some slots"
    using set_hw_config_total [of hw "storage_new (cl_consts self)"] assms(8)
    by (auto simp: storage_new_def word_less_nat_alt)
  moreover obtain m1 where "remove_triples (cl_key_info_store self) kts m = (True, m1)"
    using remove_triples_quiet [OF assms(2) S(1) kts(2) assms(3-5)] kts(3) by blast
  ultimately obtain self' w where "calib_new read from_toml self file m d = Some (Some (self', w), m1)"
    using assms(6,7) kts(1) scan by (simp add: calib_new_def Let_def)
  with odm.calib_new_result [OF assms(1,5) this] assms(7) show ?thesis by auto
qed

theorem calib_start_forgets_keys_witness:
  "\<exists>m self' w. odm_abs m (key_triple_new ''app'' CryptoAuthLib ''k'') \<noteq> None \<and>
     calib_new (\<lambda>_. None) (\<lambda>_. None) toy_calib None m Map.empty = Some (Some (self', w), cs_kim w) \<and>
     odm_abs (cs_kim w) (key_triple_new ''app'' CryptoAuthLib ''k'') = None"
proof -
  obtain w where w: "calib_inv (on_disk_impl chip_codec) odm_inv odm_abs toy_calib id w" "synced chip_codec (cs_kim w)"
    "quiet (odm_disk (cs_kim w))" "odm_abs (cs_kim w) (key_triple_new ''app'' CryptoAuthLib ''k'') \<noteq> None"
    using toy_calib_key_state by blast
  have chip: "is_configuration_locked (cl_device toy_calib) Map.empty"
    "get_config (cl_device toy_calib) Map.empty = ((AtcaSuccess, []), Map.empty)" by (simp_all add: toy_calib_def toy_chip_def)
  from calib_start_forgets_keys [OF toy_calib_setup chip_codec_facts(1) w(2,3) calib_invD(2) [OF w(1)] chip,
      of "\<lambda>_. None" "\<lambda>_. None" None] obtain self' w' where
    "calib_new (\<lambda>_. None) (\<lambda>_. None) toy_calib None (cs_kim w) Map.empty = Some (Some (self', w'), cs_kim w')"
    "odm_abs (cs_kim w') = without_provider CryptoAuthLib (odm_abs (cs_kim w))" by auto
  with w(4) show ?thesis by (intro exI [of _ "cs_kim w"]) (auto simp: without_provider_def)
qed

section \<open>Conversions and bounds\<close>



lemma random_loop_length:
  assumes "\<And>d b d'. dev_random (cl_device self) d = ((AtcaSuccess, b), d') \<Longrightarrow> length b = n"
    and "random_loop self k bs w = (Inr r, w')"
  shows "length r = length bs + k * n"
  using assms(2)
proof (induction k arbitrary: bs w)
  case (Suc k)
  obtain st b d where d: "dev_random (cl_device self) (cs_device w) = ((st, b), d)" by (metis prod.collapse)
  with Suc.prems have "st = AtcaSuccess" and "random_loop self k (bs @ b) (w\<lparr>cs_device := d\<rparr>) = (Inr r, w')"
    by (auto simp: try_op_def on_device_def split: if_splits)
  with Suc.IH [OF this(2)] assms(1) d show ?case by auto
qed simp

lemma unat_random_call_count:
  assumes "0 < unat b"
  shows "unat (random_call_count b sz) = ((unat sz + unat b - 1) mod 2 ^ 64) div unat b"
proof -
  have "sz + b - 1 = word_of_nat (unat sz + unat b - 1)"
    using assms by (simp add: of_nat_diff Suc_le_eq)
  then show ?thesis
    by (simp add: random_call_count_def unat_div_distrib unat_of_nat)
qed

text \<open>
  The number of random bytes. If every successful call of the chip returns a full buffer, a successful
  \<open>psa_generate_random\<close> returns exactly the requested number of bytes as long as the rounded-up size does not exceed the
  range of \<open>usize\<close>; above that, the addition wraps around and the result is empty.
\<close>

lemma calib_generate_random_length:
  assumes "\<And>d b d'. dev_random (cl_device self) d = ((AtcaSuccess, b), d') \<Longrightarrow> length b = unat bs"
    and "bs = atca_random_buffer_size (cl_device self)" and "0 < unat bs"
    and "calib_generate_random self sz w = (Inr bytes, w')"
  shows "length bytes = (if unat sz + unat bs \<le> 2 ^ 64 then unat sz else 0)"
proof -
  let ?k = "unat (random_call_count bs sz)" and ?n = "unat sz" and ?b = "unat bs"
  obtain r where r: "random_loop self ?k [] w = (Inr r, w')" "bytes = take ?n r"
    using assms(2,4) by (auto simp: calib_generate_random_def try_op_eq_Inr)
  have len: "length r = ?k * ?b" using random_loop_length [OF assms(1) r(1)] by simp
  have k: "?k = ((?n + ?b - 1) mod 2 ^ 64) div ?b" by (rule unat_random_call_count [OF assms(3)])
  have n: "?n < 2 ^ 64" using unsigned_less [of sz] by simp
  show ?thesis
  proof (cases "?n + ?b \<le> 2 ^ 64")
    case True
    with k assms(3) have "?k = (?n + ?b - 1) div ?b" by simp
    moreover have "?n \<le> ((?n + ?b - 1) div ?b) * ?b"
      using assms(3) div_mult_mod_eq [of "?n + ?b - 1" ?b] mod_less_divisor [OF assms(3), of "?n + ?b - 1"] by linarith
    ultimately show ?thesis using True len r(2) by simp
  next
    case False
    then have "(?n + ?b - 1) mod 2 ^ 64 = (?n + ?b - 1 - 2 ^ 64) mod 2 ^ 64" by (intro le_mod_geq) linarith
    also have "\<dots> \<le> ?n + ?b - 1 - 2 ^ 64" by (rule mod_less_eq_dividend)
    also have "\<dots> < ?b" using n assms(3) by linarith
    finally have "(?n + ?b - 1) mod 2 ^ 64 < ?b" .
    with k have "?k = 0" by simp
    with False len r(2) show ?thesis by simp
  qed
qed

lemma calib_generate_random_length_witness:
  "(\<exists>bytes w'. calib_generate_random toy_calib 40 toy_calib_state = (Inr bytes, w') \<and> length bytes = 40) \<and>
   (\<exists>bytes w'. calib_generate_random toy_calib 0xFFFFFFFFFFFFFFFF toy_calib_state = (Inr bytes, w') \<and> length bytes = 0)"
proof -
  have chip: "length b = unat (32 :: usize)" if "dev_random (cl_device toy_calib) d = ((AtcaSuccess, b), d')" for d b d'
    using that by (auto simp: toy_calib_def toy_chip_def)
  have "(32 :: usize) = atca_random_buffer_size (cl_device toy_calib)" "0 < unat (32 :: usize)"
    by (simp_all add: toy_calib_def toy_chip_def)
  note L = calib_generate_random_length [OF chip this]
  have d: "dev_random (cl_device toy_calib) d = ((AtcaSuccess, replicate 32 0), d)" for d
    by (simp add: toy_calib_def toy_chip_def)
  have run: "\<exists>r w'. random_loop toy_calib k acc w = (Inr r, w')" for k acc w
    by (induction k arbitrary: acc w) (auto simp: d on_device_def ok_op_def try_op_def)
  obtain b1 w1 where r1: "calib_generate_random toy_calib 40 toy_calib_state = (Inr b1, w1)"
    using run [of "unat (random_call_count (atca_random_buffer_size (cl_device toy_calib)) 40)" "[]" toy_calib_state]
    by (auto simp: calib_generate_random_def try_op_def ok_op_def)
  obtain b2 w2 where r2: "calib_generate_random toy_calib 0xFFFFFFFFFFFFFFFF toy_calib_state = (Inr b2, w2)"
    using run [of "unat (random_call_count (atca_random_buffer_size (cl_device toy_calib)) 0xFFFFFFFFFFFFFFFF)" "[]" toy_calib_state]
    by (auto simp: calib_generate_random_def try_op_def ok_op_def)
  from r1 r2 L [OF _ r1] L [OF _ r2] show ?thesis by simp
qed

section \<open>Messages and hashes\<close>

lemma calib_kt: "calib_setup ops self content \<Longrightarrow> get_key_triple (cl_key_info_store self) app name = key_triple_new app CryptoAuthLib name"
  by (simp add: get_key_triple_def calib_setup_def)



end
