(* ===== verification/Psa_Crypto.thy ===== *)
theory Psa_Crypto
  imports Parsec_Interface
begin

text \<open>
  The functions of the \<open>psa_crypto\<close> crate that the sources call, over an opaque state \<open>'b\<close> of the
  library, and what its documentation says about the set of persistent keys: \<open>psa_contract\<close>.
\<close>

section \<open>The crate\<close>

datatype psa_status = DoesNotExist | OtherPsaError nat

type_synonym ('b, 'a) psa_op = "('b, psa_status, 'a) rust_op"

text \<open>
  A function that fills a caller's buffer takes the buffer and returns it together with the number of
  bytes written.
\<close>

record ('b, 'id) psa_crypto =
  psa_init :: "('b, unit) psa_op"
  key_id_user_min :: u32
  key_id_user_max :: u32
  response_status_from :: "psa_status \<Rightarrow> response_status"
  from_persistent_key_id :: "u32 \<Rightarrow> ('b, 'id) psa_op"
  attributes_from_key_id :: "'id \<Rightarrow> ('b, attributes) psa_op"
  psa_generate :: "attributes \<Rightarrow> u32 option \<Rightarrow> ('b, 'id) psa_op"
  psa_import :: "attributes \<Rightarrow> u32 option \<Rightarrow> bytes \<Rightarrow> ('b, 'id) psa_op"
  psa_destroy :: "'id \<Rightarrow> ('b, unit) psa_op"
  psa_export_public :: "'id \<Rightarrow> bytes \<Rightarrow> ('b, bytes \<times> usize) psa_op"
  psa_export :: "'id \<Rightarrow> bytes \<Rightarrow> ('b, bytes \<times> usize) psa_op"
  psa_sign_hash :: "'id \<Rightarrow> asymmetric_signature \<Rightarrow> bytes \<Rightarrow> bytes \<Rightarrow> ('b, bytes \<times> usize) psa_op"
  psa_verify_hash :: "'id \<Rightarrow> asymmetric_signature \<Rightarrow> bytes \<Rightarrow> bytes \<Rightarrow> ('b, unit) psa_op"
  psa_encrypt :: "'id \<Rightarrow> asymmetric_encryption \<Rightarrow> bytes \<Rightarrow> bytes option \<Rightarrow> bytes \<Rightarrow> ('b, bytes \<times> usize) psa_op"
  psa_decrypt :: "'id \<Rightarrow> asymmetric_encryption \<Rightarrow> bytes \<Rightarrow> bytes option \<Rightarrow> bytes \<Rightarrow> ('b, bytes \<times> usize) psa_op"
  aead_encrypt :: "'id \<Rightarrow> aead_alg \<Rightarrow> bytes \<Rightarrow> bytes \<Rightarrow> bytes \<Rightarrow> bytes \<Rightarrow> ('b, bytes \<times> usize) psa_op"
  aead_decrypt :: "'id \<Rightarrow> aead_alg \<Rightarrow> bytes \<Rightarrow> bytes \<Rightarrow> bytes \<Rightarrow> bytes \<Rightarrow> ('b, bytes \<times> usize) psa_op"
  hash_compute :: "hash_alg \<Rightarrow> bytes \<Rightarrow> bytes \<Rightarrow> ('b, bytes \<times> usize) psa_op"
  hash_compare :: "hash_alg \<Rightarrow> bytes \<Rightarrow> bytes \<Rightarrow> ('b, unit) psa_op"
  raw_key_agreement :: "raw_key_agreement \<Rightarrow> 'id \<Rightarrow> bytes \<Rightarrow> bytes \<Rightarrow> ('b, bytes \<times> usize) psa_op"
  generate_random :: "bytes \<Rightarrow> ('b, bytes) psa_op"
  hash_length :: "hash_alg \<Rightarrow> usize"
  export_public_key_output_size :: "attributes \<Rightarrow> psa_status + usize"
  export_key_output_size :: "attributes \<Rightarrow> psa_status + usize"
  sign_output_size :: "attributes \<Rightarrow> asymmetric_signature \<Rightarrow> psa_status + usize"
  asymmetric_encrypt_output_size :: "attributes \<Rightarrow> asymmetric_encryption \<Rightarrow> psa_status + usize"
  asymmetric_decrypt_output_size :: "attributes \<Rightarrow> asymmetric_encryption \<Rightarrow> psa_status + usize"
  aead_encrypt_output_size :: "attributes \<Rightarrow> aead_alg \<Rightarrow> usize \<Rightarrow> psa_status + usize"
  aead_decrypt_output_size :: "attributes \<Rightarrow> aead_alg \<Rightarrow> usize \<Rightarrow> psa_status + usize"
  raw_key_agreement_output_size :: "attributes \<Rightarrow> raw_key_agreement \<Rightarrow> psa_status + usize"

text \<open>The validation methods of the operations, from the interface crate.\<close>

record validators =
  validate_asymmetric_encrypt :: "asymmetric_encrypt_op \<Rightarrow> attributes \<Rightarrow> unit res"
  validate_asymmetric_decrypt :: "asymmetric_decrypt_op \<Rightarrow> attributes \<Rightarrow> unit res"
  validate_aead_encrypt :: "aead_encrypt_op \<Rightarrow> attributes \<Rightarrow> unit res"
  validate_aead_decrypt :: "aead_decrypt_op \<Rightarrow> attributes \<Rightarrow> unit res"
  validate_raw_key_agreement :: "raw_key_agreement_op \<Rightarrow> attributes \<Rightarrow> unit res"

section \<open>Persistent keys\<close>

text \<open>
  \<open>keys_of b\<close> are the persistent keys in state \<open>b\<close> with their material, \<open>id_of\<close> the number of an opened
  key. A key can be opened only if it exists, and the answer that it does not exist is true. A key is created under the requested identifier, which must be free; destroying a key
  removes it, or fails and may or may not have removed it; nothing else changes the set of keys.
\<close>

definition psa_reads :: "('b \<Rightarrow> u32 \<Rightarrow> 'kd option) \<Rightarrow> ('b, 'a) psa_op \<Rightarrow> bool" where
  "psa_reads keys_of f \<longleftrightarrow> (\<forall>b r b'. f b = (r, b') \<longrightarrow> keys_of b' = keys_of b)"

definition psa_creates ::
  "('b \<Rightarrow> u32 \<Rightarrow> 'kd option) \<Rightarrow> ('id \<Rightarrow> u32) \<Rightarrow> u32 \<Rightarrow> ('b, 'id) psa_op \<Rightarrow> bool" where
  "psa_creates keys_of id_of k f \<longleftrightarrow>
     (\<forall>b r b'. f b = (r, b') \<longrightarrow>
        (case r of
           Inl _ \<Rightarrow> keys_of b' = keys_of b
         | Inr key \<Rightarrow> id_of key = k \<and> keys_of b k = None \<and> (\<exists>x. keys_of b' = (keys_of b)(k \<mapsto> x))))"

definition psa_use_laws :: "('b, 'id) psa_crypto \<Rightarrow> ('b \<Rightarrow> u32 \<Rightarrow> 'kd option) \<Rightarrow> bool" where
  "psa_use_laws psa keys_of \<longleftrightarrow>
     psa_reads keys_of (psa_init psa) \<and>
     (\<forall>k. psa_reads keys_of (from_persistent_key_id psa k)) \<and>
     (\<forall>key. psa_reads keys_of (attributes_from_key_id psa key)) \<and>
     (\<forall>key d. psa_reads keys_of (psa_export_public psa key d)) \<and>
     (\<forall>key d. psa_reads keys_of (psa_export psa key d)) \<and>
     (\<forall>key a h d. psa_reads keys_of (psa_sign_hash psa key a h d)) \<and>
     (\<forall>key a h d. psa_reads keys_of (psa_verify_hash psa key a h d)) \<and>
     (\<forall>key a x y d. psa_reads keys_of (psa_encrypt psa key a x y d)) \<and>
     (\<forall>key a x y d. psa_reads keys_of (psa_decrypt psa key a x y d)) \<and>
     (\<forall>key a x y z d. psa_reads keys_of (aead_encrypt psa key a x y z d)) \<and>
     (\<forall>key a x y z d. psa_reads keys_of (aead_decrypt psa key a x y z d)) \<and>
     (\<forall>a x d. psa_reads keys_of (hash_compute psa a x d)) \<and>
     (\<forall>a x d. psa_reads keys_of (hash_compare psa a x d)) \<and>
     (\<forall>a key x d. psa_reads keys_of (raw_key_agreement psa a key x d)) \<and>
     (\<forall>d. psa_reads keys_of (generate_random psa d))"

text \<open>The PSA Crypto API reserves the identifiers above this one.\<close>

definition psa_key_id_vendor_max :: u32 where
  "psa_key_id_vendor_max = 0x7fffffff"

definition psa_contract ::
  "('b, 'id) psa_crypto \<Rightarrow> ('b \<Rightarrow> u32 \<Rightarrow> 'kd option) \<Rightarrow> ('id \<Rightarrow> u32) \<Rightarrow> bool" where
  "psa_contract psa keys_of id_of \<longleftrightarrow>
     psa_use_laws psa keys_of \<and>
     (\<forall>k b key b'. from_persistent_key_id psa k b = (Inr key, b') \<longrightarrow> id_of key = k \<and> keys_of b k \<noteq> None) \<and>
     (\<forall>k b b'. from_persistent_key_id psa k b = (Inl DoesNotExist, b') \<longrightarrow> keys_of b k = None) \<and>
     (\<forall>a k. psa_creates keys_of id_of k (psa_generate psa a (Some k))) \<and>
     (\<forall>a k d. psa_creates keys_of id_of k (psa_import psa a (Some k) d)) \<and>
     (\<forall>key b r b'. psa_destroy psa key b = (r, b') \<longrightarrow>
        keys_of b' = (keys_of b)(id_of key := None) \<or> (\<exists>e. r = Inl e) \<and> keys_of b' = keys_of b) \<and>
     (\<forall>b k. keys_of b k \<noteq> None \<longrightarrow> k \<le> psa_key_id_vendor_max) \<and>
     key_id_user_max psa \<le> psa_key_id_vendor_max"

lemma psa_use_lawsD:
  assumes "psa_use_laws psa keys_of"
  shows "psa_reads keys_of (psa_init psa)"
    "psa_reads keys_of (from_persistent_key_id psa k)"
    "psa_reads keys_of (attributes_from_key_id psa key)"
    "psa_reads keys_of (psa_export_public psa key d)"
    "psa_reads keys_of (psa_export psa key d)"
    "psa_reads keys_of (psa_sign_hash psa key asig h d)"
    "psa_reads keys_of (psa_verify_hash psa key asig h d)"
    "psa_reads keys_of (psa_encrypt psa key aenc x y' d)"
    "psa_reads keys_of (psa_decrypt psa key aenc x y' d)"
    "psa_reads keys_of (aead_encrypt psa key aad x y z d)"
    "psa_reads keys_of (aead_decrypt psa key aad x y z d)"
    "psa_reads keys_of (hash_compute psa ah x d)"
    "psa_reads keys_of (hash_compare psa ah x d)"
    "psa_reads keys_of (raw_key_agreement psa ka key x d)"
    "psa_reads keys_of (generate_random psa d)"
  using assms by (simp_all add: psa_use_laws_def)

lemma psa_contract_use: "psa_contract psa keys_of id_of \<Longrightarrow> psa_use_laws psa keys_of"
  by (simp add: psa_contract_def)

lemma psa_open_Inr:
  "psa_contract psa keys_of id_of \<Longrightarrow> from_persistent_key_id psa k b = (Inr key, b') \<Longrightarrow>
   id_of key = k \<and> keys_of b k \<noteq> None"
  unfolding psa_contract_def by (elim conjE) metis

lemma psa_open_DoesNotExist:
  "psa_contract psa keys_of id_of \<Longrightarrow> from_persistent_key_id psa k b = (Inl DoesNotExist, b') \<Longrightarrow>
   keys_of b k = None"
  unfolding psa_contract_def by (elim conjE) metis

lemma psa_generate_creates:
  "psa_contract psa keys_of id_of \<Longrightarrow> psa_creates keys_of id_of k (psa_generate psa a (Some k))"
  by (simp add: psa_contract_def)

lemma psa_import_creates:
  "psa_contract psa keys_of id_of \<Longrightarrow> psa_creates keys_of id_of k (psa_import psa a (Some k) d)"
  by (simp add: psa_contract_def)

lemma psa_destroy_result:
  "psa_contract psa keys_of id_of \<Longrightarrow> psa_destroy psa key b = (r, b') \<Longrightarrow>
   keys_of b' = (keys_of b)(id_of key := None) \<or> (\<exists>e. r = Inl e) \<and> keys_of b' = keys_of b"
  by (simp add: psa_contract_def)

lemma psa_key_bound:
  "psa_contract psa keys_of id_of \<Longrightarrow> keys_of b k \<noteq> None \<Longrightarrow> k \<le> psa_key_id_vendor_max"
  by (simp add: psa_contract_def)

lemma psa_user_max_bound: "psa_contract psa keys_of id_of \<Longrightarrow> key_id_user_max psa \<le> psa_key_id_vendor_max"
  by (simp add: psa_contract_def)

lemma vendor_max_succ: "c \<le> psa_key_id_vendor_max \<Longrightarrow> c < c + 1"
  by (simp add: psa_key_id_vendor_max_def word_le_nat_alt word_less_nat_alt unat_word_ariths)

end
