(* ===== verification/Trusted_Service_Provider.thy ===== *)
theory Trusted_Service_Provider
  imports Providers Psa_Crypto
begin

text \<open>
  The Trusted Service provider (\<open>src/src/providers/trusted_service\<close>) and its context, the client of the crypto
  service in the secure world (\<open>context/\<close>).

  The C functions of the client library and the Protobuf messages are generated or external: they
  are the fields of the record \<open>ts_binding\<close>, over a state \<open>'r\<close> of the secure world and with
  pointers of type \<open>'h\<close>, where \<open>None\<close> is the null pointer. The conversions of the \<open>psa_crypto\<close> crate are
  fields of the record \<open>ts_convert\<close>. The mutex of the context only serialises calls.
\<close>

section \<open>Errors\<close>

datatype rpc_caller_error =
    EndpointDoesNotExist | InvalidOpcode | SerializationNotSupported | InvalidRequestBody | InvalidResponseBody
  | ResourceFailure | NotReady | InvalidTransaction | Internal | InvalidParameter

datatype wrapper_error = CallHandleNull | CallBufferNull | FailedPbConversion | InvalidParam

datatype ts_error = PsaCryptoError psa_status | RpcCallerErr rpc_caller_error | WrapperErr wrapper_error

definition rpc_caller_error_from :: "int \<Rightarrow> rpc_caller_error" where
  "rpc_caller_error_from e =
     (if e = -1 then EndpointDoesNotExist else if e = -2 then InvalidOpcode
      else if e = -3 then SerializationNotSupported else if e = -4 then InvalidRequestBody
      else if e = -5 then InvalidResponseBody else if e = -6 then ResourceFailure
      else if e = -7 then NotReady else if e = -8 then InvalidTransaction
      else if e = -9 then Internal else if e = -10 then InvalidParameter else Internal)"

fun rpc_caller_response_status :: "rpc_caller_error \<Rightarrow> response_status" where
  "rpc_caller_response_status InvalidRequestBody = PsaErrorInvalidArgument"
| "rpc_caller_response_status _ = PsaErrorCommunicationFailure"

fun wrapper_response_status :: "wrapper_error \<Rightarrow> response_status" where
  "wrapper_response_status _ = PsaErrorCommunicationFailure"

section \<open>Messages\<close>

record pb_key_attributes =
  pb_type :: u32
  pb_key_bits :: u32
  pb_lifetime :: u32
  pb_id :: u32
  pb_usage :: u32
  pb_alg :: u32

datatype ts_request =
    GenerateKeyIn pb_key_attributes
  | ImportKeyIn pb_key_attributes bytes
  | ExportPublicKeyIn u32
  | DestroyKeyIn u32
  | SignHashIn u32 bytes u32
  | VerifyHashIn u32 bytes bytes u32

datatype ts_opcode = TsGenerateKey | TsDestroyKey | TsSignHash | TsVerifyHash | TsImportKey | TsExportPublicKey

fun get_opcode :: "ts_request \<Rightarrow> ts_opcode" where
  "get_opcode (GenerateKeyIn _) = TsGenerateKey"
| "get_opcode (DestroyKeyIn _) = TsDestroyKey"
| "get_opcode (SignHashIn _ _ _) = TsSignHash"
| "get_opcode (VerifyHashIn _ _ _ _) = TsVerifyHash"
| "get_opcode (ImportKeyIn _ _) = TsImportKey"
| "get_opcode (ExportPublicKeyIn _) = TsExportPublicKey"

text \<open>
  \<open>rpc_caller_begin\<close> returns the call handle and whether the request buffer is there; \<open>rpc_caller_invoke\<close> gets the content of the
  buffer and returns the status, the operation status and the response. The decoders are those of the response types that
  the callers ask for.
\<close>

record ('r, 'h) ts_binding =
  service_locator_init :: "'r \<Rightarrow> 'r"
  service_locator_query :: "string \<Rightarrow> 'r \<Rightarrow> ('h option \<times> int) \<times> 'r"
  service_context_open :: "'h \<Rightarrow> 'r \<Rightarrow> ('h option \<times> 'h option) \<times> 'r"
  service_context_close :: "'h \<Rightarrow> 'h \<Rightarrow> 'r \<Rightarrow> 'r"
  service_context_relinquish :: "'h \<Rightarrow> 'r \<Rightarrow> 'r"
  rpc_caller_begin :: "'h \<Rightarrow> usize \<Rightarrow> 'r \<Rightarrow> ('h option \<times> bool) \<times> 'r"
  rpc_caller_invoke :: "'h \<Rightarrow> 'h \<Rightarrow> u32 \<Rightarrow> bytes \<Rightarrow> 'r \<Rightarrow> (int \<times> int \<times> bytes) \<times> 'r"
  rpc_caller_end :: "'h \<Rightarrow> 'h \<Rightarrow> 'r \<Rightarrow> 'r"
  ts_opcode_number :: "ts_opcode \<Rightarrow> u32"
  encoded_len :: "ts_request \<Rightarrow> usize"
  pb_encode :: "ts_request \<Rightarrow> bytes option"
  merge_empty :: "bytes \<Rightarrow> unit option"
  merge_bytes :: "bytes \<Rightarrow> bytes option"
  merge_sign_hash_out :: "bytes \<Rightarrow> bytes option"
  merge_destroy_key_out :: "bytes \<Rightarrow> unit option"
  persistent_lifetime :: u32

record ts_convert =
  psa_error_from :: "int \<Rightarrow> psa_status"
  psa_response_status :: "psa_status \<Rightarrow> response_status"
  u16_from_key_type :: "key_type \<Rightarrow> psa_status + 16 word"
  u32_from_usage_flags :: "usage_flags \<Rightarrow> u32"
  u32_from_algorithm :: "algorithm \<Rightarrow> psa_status + u32"
  u32_from_signature_algorithm :: "asymmetric_signature \<Rightarrow> psa_status + u32"
  psa_key_id_user_min :: u32
  psa_key_id_user_max :: u32

definition from_status_opstatus :: "ts_convert \<Rightarrow> int \<Rightarrow> int \<Rightarrow> ts_error + unit" where
  "from_status_opstatus cv status opstatus =
     (if opstatus \<noteq> 0 then Inl (PsaCryptoError (psa_error_from cv opstatus))
      else if status \<noteq> 0 then Inl (RpcCallerErr (rpc_caller_error_from status))
      else Inr ())"

fun ts_response_status :: "ts_convert \<Rightarrow> ts_error \<Rightarrow> response_status" where
  "ts_response_status cv (PsaCryptoError e) = psa_response_status cv e"
| "ts_response_status cv (RpcCallerErr e) = rpc_caller_response_status e"
| "ts_response_status cv (WrapperErr e) = wrapper_response_status e"

section \<open>The context\<close>

record 'h ts_context =
  tc_rpc_caller :: 'h
  tc_service_context :: 'h
  tc_rpc_session_handle :: 'h

definition ts_connect :: "('r, 'h) ts_binding \<Rightarrow> ('r, string, 'h ts_context) rust_op" where
  "ts_connect ts r =
     (case service_locator_query ts ''sn:trustedfirmware.org:crypto:0'' (service_locator_init ts r) of
        ((None, status), r1) \<Rightarrow> (Inl ''Failed to obtain a Trusted Service context'', r1)
      | ((Some service_context, status), r1) \<Rightarrow>
          if status \<noteq> 0 then (Inl ''Failed to connect to Trusted Service'', r1)
          else case service_context_open ts service_context r1 of
            ((Some rpc_caller, Some rpc_session_handle), r2) \<Rightarrow>
              (Inr \<lparr>tc_rpc_caller = rpc_caller, tc_service_context = service_context,
                    tc_rpc_session_handle = rpc_session_handle\<rparr>, r2)
          | (_, r2) \<Rightarrow> (Inl ''Failed to start Trusted Service context'', r2))"

definition ts_drop :: "('r, 'h) ts_binding \<Rightarrow> 'h ts_context \<Rightarrow> 'r \<Rightarrow> 'r" where
  "ts_drop ts self r =
     service_context_relinquish ts (tc_service_context self)
       (service_context_close ts (tc_service_context self) (tc_rpc_session_handle self) r)"

definition send_request ::
  "('r, 'h) ts_binding \<Rightarrow> ts_convert \<Rightarrow> 'h ts_context \<Rightarrow> (bytes \<Rightarrow> 'a option) \<Rightarrow> ts_request \<Rightarrow> ('r, ts_error, 'a) rust_op" where
  "send_request ts cv self merge req r =
     (let caller = tc_rpc_caller self in
      case rpc_caller_begin ts caller (encoded_len ts req) r of
        ((None, _), r1) \<Rightarrow> (Inl (WrapperErr CallHandleNull), r1)
      | ((Some call_handle, False), r1) \<Rightarrow> (Inl (WrapperErr CallBufferNull), r1)
      | ((Some call_handle, True), r1) \<Rightarrow>
          (case pb_encode ts req of
             None \<Rightarrow> (Inl (WrapperErr FailedPbConversion), rpc_caller_end ts caller call_handle r1)
           | Some buf_out \<Rightarrow>
               (case rpc_caller_invoke ts caller call_handle (ts_opcode_number ts (get_opcode req)) buf_out r1 of
                  ((status, opstatus, resp_buf), r2) \<Rightarrow>
                    (case from_status_opstatus cv status opstatus of
                       Inl e \<Rightarrow> (Inl e, rpc_caller_end ts caller call_handle r2)
                     | Inr _ \<Rightarrow>
                         (case merge resp_buf of
                            None \<Rightarrow> (Inl (WrapperErr FailedPbConversion), rpc_caller_end ts caller call_handle r2)
                          | Some resp \<Rightarrow> (Inr resp, rpc_caller_end ts caller call_handle r2))))))"

text \<open>The attributes of a new key; the lifetime is always persistent. A \<open>usize\<close> that does not fit 32 bits is an error.\<close>

definition usize_to_u32 :: "usize \<Rightarrow> ts_error + u32" where
  "usize_to_u32 x = (if x \<le> 0xFFFFFFFF then Inr (ucast x) else Inl (WrapperErr InvalidParam))"

definition pb_attributes ::
  "('r, 'h) ts_binding \<Rightarrow> ts_convert \<Rightarrow> attributes \<Rightarrow> u32 \<Rightarrow> ts_error + pb_key_attributes" where
  "pb_attributes ts cv key_attrs key_id =
     try_res (map_err PsaCryptoError (u16_from_key_type cv (attr_key_type key_attrs))) (\<lambda>ty.
     try_res (usize_to_u32 (attr_bits key_attrs)) (\<lambda>bits.
     try_res (map_err PsaCryptoError (u32_from_algorithm cv (permitted_algorithms key_attrs))) (\<lambda>alg.
     Inr \<lparr>pb_type = ucast ty, pb_key_bits = bits, pb_lifetime = persistent_lifetime ts, pb_id = key_id,
          pb_usage = u32_from_usage_flags cv (usage_flags key_attrs), pb_alg = alg\<rparr>)))"

definition ctx_generate_key ::
  "('r, 'h) ts_binding \<Rightarrow> ts_convert \<Rightarrow> 'h ts_context \<Rightarrow> attributes \<Rightarrow> u32 \<Rightarrow> ('r, ts_error, unit) rust_op" where
  "ctx_generate_key ts cv self key_attrs key_id =
     try_op (read_op (\<lambda>_. pb_attributes ts cv key_attrs key_id)) (\<lambda>attrs.
     send_request ts cv self (merge_empty ts) (GenerateKeyIn attrs))"

definition ctx_import_key ::
  "('r, 'h) ts_binding \<Rightarrow> ts_convert \<Rightarrow> 'h ts_context \<Rightarrow> attributes \<Rightarrow> u32 \<Rightarrow> bytes \<Rightarrow> ('r, ts_error, unit) rust_op" where
  "ctx_import_key ts cv self key_attrs key_id key_data =
     try_op (read_op (\<lambda>_. pb_attributes ts cv key_attrs key_id)) (\<lambda>attrs.
     send_request ts cv self (merge_empty ts) (ImportKeyIn attrs key_data))"

definition ctx_export_public_key ::
  "('r, 'h) ts_binding \<Rightarrow> ts_convert \<Rightarrow> 'h ts_context \<Rightarrow> u32 \<Rightarrow> ('r, ts_error, bytes) rust_op" where
  "ctx_export_public_key ts cv self key_id = send_request ts cv self (merge_bytes ts) (ExportPublicKeyIn key_id)"

definition ctx_destroy_key ::
  "('r, 'h) ts_binding \<Rightarrow> ts_convert \<Rightarrow> 'h ts_context \<Rightarrow> u32 \<Rightarrow> ('r, ts_error, unit) rust_op" where
  "ctx_destroy_key ts cv self key_id = send_request ts cv self (merge_destroy_key_out ts) (DestroyKeyIn key_id)"

definition ctx_sign_hash ::
  "('r, 'h) ts_binding \<Rightarrow> ts_convert \<Rightarrow> 'h ts_context \<Rightarrow> u32 \<Rightarrow> bytes \<Rightarrow> asymmetric_signature \<Rightarrow>
   ('r, ts_error, bytes) rust_op" where
  "ctx_sign_hash ts cv self key_id hash algorithm =
     try_op (read_op (\<lambda>_. map_err PsaCryptoError (u32_from_signature_algorithm cv algorithm))) (\<lambda>alg.
     send_request ts cv self (merge_sign_hash_out ts) (SignHashIn key_id hash alg))"

definition ctx_verify_hash ::
  "('r, 'h) ts_binding \<Rightarrow> ts_convert \<Rightarrow> 'h ts_context \<Rightarrow> u32 \<Rightarrow> bytes \<Rightarrow> bytes \<Rightarrow> asymmetric_signature \<Rightarrow>
   ('r, ts_error, unit) rust_op" where
  "ctx_verify_hash ts cv self key_id hash signature algorithm =
     try_op (read_op (\<lambda>_. map_err PsaCryptoError (u32_from_signature_algorithm cv algorithm))) (\<lambda>alg.
     send_request ts cv self (merge_empty ts) (VerifyHashIn key_id hash signature alg))"

section \<open>The provider\<close>

record ('m, 'r, 'h) ts_provider =
  tp_key_info_store :: "'m kim_client"
  tp_context :: "'h ts_context"
  tp_binding :: "('r, 'h) ts_binding"
  tp_convert :: ts_convert
  tp_id_codec :: "u32 id_codec"
  tp_uuid_parse :: "string \<Rightarrow> bytes option"

record ('m, 'r) ts_state =
  tst_kim :: 'm
  tst_id_counter :: u32
  tst_world :: 'r

definition ts_supported_opcodes :: "opcode list" where
  "ts_supported_opcodes =
     [PsaDestroyKey, PsaGenerateKey, PsaSignHash, PsaVerifyHash, PsaImportKey, PsaExportPublicKey]"

definition ts_on_kim :: "('m, 'a) res_op \<Rightarrow> (('m, 'r) ts_state, 'a) res_op" where
  "ts_on_kim f w = (case f (tst_kim w) of (r, m) \<Rightarrow> (r, w\<lparr>tst_kim := m\<rparr>))"

definition ts_ask_kim :: "('m \<Rightarrow> 'a res) \<Rightarrow> (('m, 'r) ts_state, 'a) res_op" where
  "ts_ask_kim f w = (f (tst_kim w), w)"

definition on_context ::
  "('m, 'r, 'h) ts_provider \<Rightarrow>
   (('r, 'h) ts_binding \<Rightarrow> ts_convert \<Rightarrow> 'h ts_context \<Rightarrow> ('r, ts_error, 'a) rust_op) \<Rightarrow> (('m, 'r) ts_state, 'a) res_op" where
  "on_context self f w =
     (case f (tp_binding self) (tp_convert self) (tp_context self) (tst_world w) of
        (r, x) \<Rightarrow> (map_err (ts_response_status (tp_convert self)) r, w\<lparr>tst_world := x\<rparr>))"

text \<open>\<open>fetch_add\<close> wraps around.\<close>

definition ts_create_key_id :: "ts_convert \<Rightarrow> u32 \<Rightarrow> u32 res \<times> u32" where
  "ts_create_key_id cv max_current_id =
     (let new_key_id = max_current_id + 1 in
      if new_key_id > psa_key_id_user_max cv
      then (Inl PsaErrorInsufficientMemory, psa_key_id_user_max cv)
      else (Inr new_key_id, new_key_id))"

definition ts_next_key_id :: "('m, 'r, 'h) ts_provider \<Rightarrow> (('m, 'r) ts_state, u32) res_op" where
  "ts_next_key_id self w =
     (case ts_create_key_id (tp_convert self) (tst_id_counter w) of (r, c) \<Rightarrow> (r, w\<lparr>tst_id_counter := c\<rparr>))"

text \<open>The common end of \<open>generate\<close> and \<open>import\<close>: store the mapping, or destroy the new key again.\<close>

definition ts_store_new_key ::
  "('m, 'r, 'h) ts_provider \<Rightarrow> key_triple \<Rightarrow> u32 \<Rightarrow> attributes \<Rightarrow> (('m, 'r) ts_state, unit) res_op" where
  "ts_store_new_key self kt key_id attrs w =
     (case ts_on_kim (insert_key_info (tp_id_codec self) (tp_key_info_store self) kt key_id attrs) w of
        (Inl e, w') \<Rightarrow> (Inl e, snd (on_context self (\<lambda>ts cv ctx. ctx_destroy_key ts cv ctx key_id) w'))
      | (Inr _, w') \<Rightarrow> (Inr (), w'))"

definition ts_generate_key ::
  "('m, 'r, 'h) ts_provider \<Rightarrow> application_name \<Rightarrow> generate_key_op \<Rightarrow> (('m, 'r) ts_state, unit) res_op" where
  "ts_generate_key self app op =
     (let kt = key_triple_new app TrustedService (gk_key_name op); attrs = gk_attributes op in
      try_op (ts_ask_kim (\<lambda>m. does_not_exist (tp_key_info_store self) m kt)) (\<lambda>_.
      try_op (ts_next_key_id self) (\<lambda>key_id.
      try_op (on_context self (\<lambda>ts cv ctx. ctx_generate_key ts cv ctx attrs key_id)) (\<lambda>_.
      ts_store_new_key self kt key_id attrs))))"

definition ts_import_key ::
  "('m, 'r, 'h) ts_provider \<Rightarrow> application_name \<Rightarrow> import_key_op \<Rightarrow> (('m, 'r) ts_state, unit) res_op" where
  "ts_import_key self app op =
     (let kt = key_triple_new app TrustedService (ik_key_name op); attrs = ik_attributes op in
      try_op (ts_ask_kim (\<lambda>m. does_not_exist (tp_key_info_store self) m kt)) (\<lambda>_.
      try_op (ts_next_key_id self) (\<lambda>key_id.
      try_op (on_context self (\<lambda>ts cv ctx. ctx_import_key ts cv ctx attrs key_id (ik_data op))) (\<lambda>_.
      ts_store_new_key self kt key_id attrs))))"

definition ts_key_id ::
  "('m, 'r, 'h) ts_provider \<Rightarrow> application_name \<Rightarrow> string \<Rightarrow> (('m, 'r) ts_state, u32) res_op" where
  "ts_key_id self app name =
     ts_ask_kim (\<lambda>m. get_key_id (tp_id_codec self) (tp_key_info_store self) m (key_triple_new app TrustedService name))"

definition ts_export_public_key ::
  "('m, 'r, 'h) ts_provider \<Rightarrow> application_name \<Rightarrow> string \<Rightarrow> (('m, 'r) ts_state, bytes) res_op" where
  "ts_export_public_key self app name =
     try_op (ts_key_id self app name) (\<lambda>key_id.
     on_context self (\<lambda>ts cv ctx. ctx_export_public_key ts cv ctx key_id))"

definition ts_destroy_key ::
  "('m, 'r, 'h) ts_provider \<Rightarrow> application_name \<Rightarrow> string \<Rightarrow> (('m, 'r) ts_state, unit) res_op" where
  "ts_destroy_key self app name =
     (let kt = key_triple_new app TrustedService name in
      try_op (ts_key_id self app name) (\<lambda>key_id.
      try_op (ts_on_kim (remove_key_info (tp_key_info_store self) kt)) (\<lambda>_.
      on_context self (\<lambda>ts cv ctx. ctx_destroy_key ts cv ctx key_id))))"

definition ts_sign_hash ::
  "('m, 'r, 'h) ts_provider \<Rightarrow> application_name \<Rightarrow> sign_hash_op \<Rightarrow> (('m, 'r) ts_state, bytes) res_op" where
  "ts_sign_hash self app op =
     try_op (ts_key_id self app (sh_key_name op)) (\<lambda>key_id.
     on_context self (\<lambda>ts cv ctx. ctx_sign_hash ts cv ctx key_id (sh_hash op) (sh_alg op)))"

definition ts_verify_hash ::
  "('m, 'r, 'h) ts_provider \<Rightarrow> application_name \<Rightarrow> verify_hash_op \<Rightarrow> (('m, 'r) ts_state, unit) res_op" where
  "ts_verify_hash self app op =
     try_op (ts_key_id self app (vh_key_name op)) (\<lambda>key_id.
     on_context self (\<lambda>ts cv ctx. ctx_verify_hash ts cv ctx key_id (vh_hash op) (vh_signature op) (vh_alg op)))"

section \<open>Start-up and the trait implementation\<close>

fun ts_scan ::
  "u32 id_codec \<Rightarrow> 'm kim_client \<Rightarrow> 'm \<Rightarrow> key_triple list \<Rightarrow> u32 \<Rightarrow> key_triple list \<Rightarrow> u32 \<times> key_triple list" where
  "ts_scan codec store m [] max_key_id to_remove = (max_key_id, to_remove)"
| "ts_scan codec store m (kt # kts) max_key_id to_remove =
     (case get_key_id codec store m kt of
        Inl _ \<Rightarrow> ts_scan codec store m kts max_key_id (to_remove @ [kt])
      | Inr key_id \<Rightarrow> ts_scan codec store m kts (if key_id > max_key_id then key_id else max_key_id) to_remove)"

text \<open>The context of \<open>self\<close> is set once the connection is there; the other fields are the given ones.\<close>

definition ts_new ::
  "('m, 'r, 'h) ts_provider \<Rightarrow> 'm \<Rightarrow> 'r \<Rightarrow> (string + ('m, 'r, 'h) ts_provider \<times> ('m, 'r) ts_state) \<times> 'm \<times> 'r" where
  "ts_new self m r =
     (let ts = tp_binding self; store = tp_key_info_store self; cv = tp_convert self in
      case ts_connect ts r of
        (Inl e, r1) \<Rightarrow> (Inl e, m, r1)
      | (Inr context, r1) \<Rightarrow>
          (case kim_get_all store m of
             Inl s \<Rightarrow> (Inl ''Key Info Manager error when obtaining handles'', m, ts_drop ts context r1)
           | Inr kts \<Rightarrow>
               (case ts_scan (tp_id_codec self) store m kts (psa_key_id_user_min cv) [] of
                  (max_key_id, to_remove) \<Rightarrow>
                    (case remove_triples store to_remove m of
                       (False, m') \<Rightarrow> (Inl ''Key Info Manager error when removing handles'', m', ts_drop ts context r1)
                     | (True, m') \<Rightarrow>
                         (Inr (self\<lparr>tp_context := context\<rparr>,
                               \<lparr>tst_kim = m', tst_id_counter = max_key_id, tst_world = r1\<rparr>),
                          m', r1)))))"

definition ts_describe :: "('m, 'r, 'h) ts_provider \<Rightarrow> (provider_info \<times> opcode fset) res" where
  "ts_describe self =
     try_res (ok_or (tp_uuid_parse self ''71129441-508a-4da6-b6e8-7b98a777e4c0'') InvalidEncoding) (\<lambda>uuid.
     Inr (\<lparr>pi_uuid = uuid,
           pi_description = ''Provider exposing functionality provided by the Crypto Trusted Service running in '' @
             ''a Trusted Execution Environment'',
           pi_vendor = ''Arm'', pi_version_maj = 0, pi_version_min = 1, pi_version_rev = 0,
           pi_id = TrustedService\<rparr>,
          fset_of_list ts_supported_opcodes))"

definition ts_list_keys ::
  "('m, 'r, 'h) ts_provider \<Rightarrow> application_name \<Rightarrow> (('m, 'r) ts_state, listed_key list) res_op" where
  "ts_list_keys self app = ts_ask_kim (\<lambda>m. kim_list_keys (tp_key_info_store self) m app)"

definition ts_list_clients :: "('m, 'r, 'h) ts_provider \<Rightarrow> (('m, 'r) ts_state, string list) res_op" where
  "ts_list_clients self = ts_ask_kim (kim_list_clients (tp_key_info_store self))"

definition ts_provide :: "('m, 'r, 'h) ts_provider \<Rightarrow> ('m, 'r) ts_state provide" where
  "ts_provide self =
     (default_provide (Some (ts_describe self)) (ts_list_keys self) (ts_list_clients self))
       \<lparr>p_psa_generate_key := ts_generate_key self, p_psa_destroy_key := ts_destroy_key self,
        p_psa_import_key := ts_import_key self, p_psa_export_public_key := ts_export_public_key self,
        p_psa_sign_hash := ts_sign_hash self, p_psa_verify_hash := ts_verify_hash self\<rparr>"

record 'm ts_builder_state = tb_key_info_store :: "'m kim_client option"

definition ts_builder_new :: "'m ts_builder_state" where
  "ts_builder_new = \<lparr>tb_key_info_store = None\<rparr>"

definition ts_with_key_info_store :: "'m ts_builder_state \<Rightarrow> 'm kim_client \<Rightarrow> 'm ts_builder_state" where
  "ts_with_key_info_store self store = self\<lparr>tb_key_info_store := Some store\<rparr>"

text \<open>\<open>mk\<close> gives the provider that \<open>ts_new\<close> starts from, with the library and the conversions in use.\<close>

definition ts_build ::
  "('m kim_client \<Rightarrow> ('m, 'r, 'h) ts_provider) \<Rightarrow> 'm ts_builder_state \<Rightarrow> 'm \<Rightarrow> 'r \<Rightarrow>
   (string + ('m, 'r, 'h) ts_provider \<times> ('m, 'r) ts_state) \<times> 'm \<times> 'r" where
  "ts_build mk self m r =
     (case tb_key_info_store self of
        None \<Rightarrow> (Inl ''missing key info store'', m, r)
      | Some store \<Rightarrow> ts_new (mk store) m r)"

end
