(* ===== verification/Trusted_Service_Keys.thy ===== *)
theory Trusted_Service_Keys
  imports Trusted_Service_Provider Key_Numbers
begin

text \<open>
  The keys of the Trusted Service provider: what a call changes in the secure world, the invariant of the stored
  mappings and of the counter, that every operation keeps it and leaves the keys of other applications alone, and
  what start-up does. As for the other providers, everything is proved for an arbitrary key info
  manager and holds for the on-disk manager through \<open>odm\<close>.
\<close>

section \<open>What a call changes\<close>

text \<open>
  \<open>keys_of r\<close> are the keys of the crypto service in state \<open>r\<close>. A request has an effect on them that depends on whether the service
  reported success; after an error a key may or may not have been created or destroyed.
\<close>

definition creates_at_id :: "u32 \<Rightarrow> bool \<Rightarrow> (u32 \<Rightarrow> 'kd option) \<Rightarrow> (u32 \<Rightarrow> 'kd option) \<Rightarrow> bool" where
  "creates_at_id k ok K K' \<longleftrightarrow> K k = None \<and> (\<exists>x. K' = K(k \<mapsto> x)) \<or> \<not> ok \<and> K' = K"

definition destroys_id :: "u32 \<Rightarrow> bool \<Rightarrow> (u32 \<Rightarrow> 'kd option) \<Rightarrow> (u32 \<Rightarrow> 'kd option) \<Rightarrow> bool" where
  "destroys_id k ok K K' \<longleftrightarrow> K' = K(k := None) \<or> \<not> ok \<and> K' = K"

fun ts_effect :: "ts_request \<Rightarrow> bool \<Rightarrow> (u32 \<Rightarrow> 'kd option) \<Rightarrow> (u32 \<Rightarrow> 'kd option) \<Rightarrow> bool" where
  "ts_effect (GenerateKeyIn a) ok K K' = creates_at_id (pb_id a) ok K K'"
| "ts_effect (ImportKeyIn a d) ok K K' = creates_at_id (pb_id a) ok K K'"
| "ts_effect (DestroyKeyIn k) ok K K' = destroys_id k ok K K'"
| "ts_effect (ExportPublicKeyIn k) ok K K' = (K' = K)"
| "ts_effect (SignHashIn k h a) ok K K' = (K' = K)"
| "ts_effect (VerifyHashIn k h s a) ok K K' = (K' = K)"

lemma ts_effect_fail [simp]: "ts_effect req False K K"
  by (cases req) (simp_all add: creates_at_id_def destroys_id_def)

lemma ts_effect_weaken: "ts_effect req ok K K' \<Longrightarrow> ts_effect req False K K'"
  by (cases req) (auto simp: creates_at_id_def destroys_id_def)

definition leaves_keys :: "('r \<Rightarrow> u32 \<Rightarrow> 'kd option) \<Rightarrow> ('r \<Rightarrow> 'r) \<Rightarrow> bool" where
  "leaves_keys keys_of f \<longleftrightarrow> (\<forall>r. keys_of (f r) = keys_of r)"

definition ts_contract :: "('r, 'h) ts_binding \<Rightarrow> ('r \<Rightarrow> u32 \<Rightarrow> 'kd option) \<Rightarrow> bool" where
  "ts_contract ts keys_of \<longleftrightarrow>
     leaves_keys keys_of (service_locator_init ts) \<and>
     (\<forall>s. leaves_keys keys_of (\<lambda>r. snd (service_locator_query ts s r))) \<and>
     (\<forall>c. leaves_keys keys_of (\<lambda>r. snd (service_context_open ts c r))) \<and>
     (\<forall>c n. leaves_keys keys_of (\<lambda>r. snd (rpc_caller_begin ts c n r))) \<and>
     (\<forall>c h. leaves_keys keys_of (rpc_caller_end ts c h)) \<and>
     (\<forall>c h req body r st ost resp r'.
        pb_encode ts req = Some body \<longrightarrow>
        rpc_caller_invoke ts c h (ts_opcode_number ts (get_opcode req)) body r = ((st, ost, resp), r') \<longrightarrow>
        ts_effect req (st = 0 \<and> ost = 0) (keys_of r) (keys_of r'))"

lemma ts_contractD:
  assumes "ts_contract ts keys_of"
  shows "keys_of (service_locator_init ts r) = keys_of r"
    "service_locator_query ts s r = (q, r') \<Longrightarrow> keys_of r' = keys_of r"
    "service_context_open ts c r = (q', r') \<Longrightarrow> keys_of r' = keys_of r"
    "rpc_caller_begin ts c n r = (b, r') \<Longrightarrow> keys_of r' = keys_of r"
    "keys_of (rpc_caller_end ts c h r) = keys_of r"
  using assms unfolding ts_contract_def leaves_keys_def by (metis snd_conv)+

lemma ts_contract_invoke:
  assumes "ts_contract ts keys_of" and "pb_encode ts req = Some body"
    and "rpc_caller_invoke ts c h (ts_opcode_number ts (get_opcode req)) body r = ((st, ost, resp), r')"
  shows "ts_effect req (st = 0 \<and> ost = 0) (keys_of r) (keys_of r')"
  using assms unfolding ts_contract_def by simp

lemma from_status_opstatus_Inr: "from_status_opstatus cv st ost = Inr () \<longleftrightarrow> st = 0 \<and> ost = 0"
  by (simp add: from_status_opstatus_def)

lemma send_request_effect:
  assumes "ts_contract ts keys_of" and "send_request ts cv self merge req r = (res, r')"
  shows "ts_effect req (\<not> isl res) (keys_of r) (keys_of r')"
proof -
  let ?caller = "tc_rpc_caller self"
  obtain ho buf r1 where b: "rpc_caller_begin ts ?caller (encoded_len ts req) r = ((ho, buf), r1)"
    by (metis prod.collapse)
  have k1: "keys_of r1 = keys_of r" by (rule ts_contractD(4) [OF assms(1) b])
  consider "ho = None" | h where "ho = Some h" "\<not> buf" | h where "ho = Some h" buf "pb_encode ts req = None"
    | h body where "ho = Some h" buf "pb_encode ts req = Some body" by (cases ho; cases "pb_encode ts req") auto
  then show ?thesis
  proof cases
    case (4 h body)
    obtain st ost resp r2 where
      i: "rpc_caller_invoke ts ?caller h (ts_opcode_number ts (get_opcode req)) body r1 = ((st, ost, resp), r2)"
      by (metis prod.collapse)
    note e = ts_contract_invoke [OF assms(1) 4(3) i, unfolded k1]
    have r': "r' = rpc_caller_end ts ?caller h r2" and "\<not> isl res \<Longrightarrow> st = 0 \<and> ost = 0"
      using assms(2) b 4 i from_status_opstatus_Inr [of cv st ost]
      by (auto simp: send_request_def Let_def split: sum.splits option.splits)
    with e ts_effect_weaken [OF e] show ?thesis by (cases "\<not> isl res") (auto simp: ts_contractD(5) [OF assms(1)])
  qed (use assms(2) b k1 ts_contractD(5) [OF assms(1)] in \<open>auto simp: send_request_def Let_def\<close>)
qed

lemma pb_attributes_id: "pb_attributes ts cv attrs k = Inr a \<Longrightarrow> pb_id a = k"
  by (auto simp: pb_attributes_def try_res_eq_Inr)

lemma ctx_create_effect:
  fixes keys_of :: "'r \<Rightarrow> u32 \<Rightarrow> 'kd option"
  assumes "ts_contract ts keys_of"
  shows "ctx_generate_key ts cv self attrs k r = (res, r') \<Longrightarrow> creates_at_id k (\<not> isl res) (keys_of r) (keys_of r')"
    "ctx_import_key ts cv self attrs k d r = (res, r') \<Longrightarrow> creates_at_id k (\<not> isl res) (keys_of r) (keys_of r')"
proof -
  have E: "creates_at_id k (\<not> isl res) (keys_of r) (keys_of r')"
    if "try_op (read_op (\<lambda>_. pb_attributes ts cv attrs k)) (\<lambda>a. send_request ts cv self (merge_empty ts) (req a)) r = (res, r')"
      "\<And>a ok K K'. ts_effect (req a) ok K K' = creates_at_id (pb_id a) ok K (K' :: u32 \<Rightarrow> 'kd option)" for req
  proof (cases "pb_attributes ts cv attrs k")
    case (Inl e)
    with that(1) show ?thesis by (auto simp: try_op_def read_op_def creates_at_id_def)
  next
    case (Inr a)
    with that(1) have "send_request ts cv self (merge_empty ts) (req a) r = (res, r')" by (simp add: try_op_def read_op_def)
    from send_request_effect [OF assms this] show ?thesis by (simp add: that(2) pb_attributes_id [OF Inr])
  qed
  show "ctx_generate_key ts cv self attrs k r = (res, r') \<Longrightarrow> creates_at_id k (\<not> isl res) (keys_of r) (keys_of r')"
    using E [of GenerateKeyIn] by (simp add: ctx_generate_key_def)
  show "ctx_import_key ts cv self attrs k d r = (res, r') \<Longrightarrow> creates_at_id k (\<not> isl res) (keys_of r) (keys_of r')"
    using E [of "\<lambda>a. ImportKeyIn a d"] by (simp add: ctx_import_key_def)
qed

lemma ctx_destroy_effect:
  assumes "ts_contract ts keys_of" and "ctx_destroy_key ts cv self k r = (res, r')"
  shows "destroys_id k (\<not> isl res) (keys_of r) (keys_of r')"
  using send_request_effect [OF assms(1) assms(2) [unfolded ctx_destroy_key_def]] by simp

lemma send_request_uses:
  fixes keys_of :: "'r \<Rightarrow> u32 \<Rightarrow> 'kd option"
  assumes "ts_contract ts keys_of" and "\<And>ok K K'. ts_effect req ok K (K' :: u32 \<Rightarrow> 'kd option) \<Longrightarrow> K' = K"
  shows "keys_of (snd (send_request ts cv self merge req r)) = keys_of r"
  using send_request_effect [OF assms(1) prod.collapse [symmetric]] assms(2) by blast

lemma ctx_use_keys:
  assumes "ts_contract ts keys_of"
  shows "keys_of (snd (ctx_export_public_key ts cv self k r)) = keys_of r"
    "keys_of (snd (ctx_sign_hash ts cv self k h alg r)) = keys_of r"
    "keys_of (snd (ctx_verify_hash ts cv self k h s alg r)) = keys_of r"
  by (auto simp: ctx_export_public_key_def ctx_sign_hash_def ctx_verify_hash_def try_op_def read_op_def
      intro!: send_request_uses [OF assms] split: sum.split)

section \<open>The invariant\<close>

text \<open>Every mapping decodes, no two to the same number, and the counter is past all of them.\<close>

definition numbered :: "u32 id_codec \<Rightarrow> (key_triple \<Rightarrow> key_info option) \<Rightarrow> u32 \<Rightarrow> bool" where
  "numbered codec f c \<longleftrightarrow>
     decodable TrustedService codec f \<and> unshared TrustedService codec f \<and>
     (\<forall>kt k. key_number TrustedService codec f kt = Some k \<longrightarrow> k \<le> c)"

lemma numberedD:
  assumes "numbered codec f c"
  shows "decodable TrustedService codec f" "unshared TrustedService codec f"
    "key_number TrustedService codec f kt = Some k \<Longrightarrow> k \<le> c"
  using assms unfolding numbered_def by blast+

lemma numbered_counter: "numbered codec f c \<Longrightarrow> c \<le> c' \<Longrightarrow> numbered codec f c'"
  unfolding numbered_def by (meson order.trans)

lemma numbered_remove: "numbered codec f c \<Longrightarrow> numbered codec (f(kt := None)) c"
  by (auto simp: numbered_def decodable_remove unshared_remove)

lemma numbered_insert:
  assumes "numbered codec f c" and "id_deserialize codec (ki_id info) = Inr k"
    and "\<And>kt'. key_number TrustedService codec f kt' \<noteq> Some k" and "k \<le> c"
  shows "numbered codec (f(kt \<mapsto> info)) c"
  using assms unfolding numbered_def
  by (auto simp: decodable_insert unshared_insert key_number_info split: if_splits)

definition ts_setup :: "'m manage_key_info \<Rightarrow> ('m, 'r, 'h) ts_provider \<Rightarrow> ('r \<Rightarrow> u32 \<Rightarrow> 'kd option) \<Rightarrow> bool" where
  "ts_setup ops self keys_of \<longleftrightarrow>
     kc_impl (tp_key_info_store self) = ops \<and> kc_provider_id (tp_key_info_store self) = TrustedService \<and>
     ts_contract (tp_binding self) keys_of \<and> id_codec_ok (tp_id_codec self) \<and>
     psa_key_id_user_max (tp_convert self) \<le> psa_key_id_vendor_max"

definition ts_inv ::
  "'m manage_key_info \<Rightarrow> ('m \<Rightarrow> bool) \<Rightarrow> ('m \<Rightarrow> key_triple \<Rightarrow> key_info option) \<Rightarrow>
   ('m, 'r, 'h) ts_provider \<Rightarrow> ('r \<Rightarrow> u32 \<Rightarrow> 'kd option) \<Rightarrow> ('m, 'r) ts_state \<Rightarrow> bool" where
  "ts_inv ops I mp self keys_of w \<longleftrightarrow>
     ts_setup ops self keys_of \<and> I (tst_kim w) \<and> tst_id_counter w \<le> psa_key_id_user_max (tp_convert self) \<and>
     numbered (tp_id_codec self) (mp (tst_kim w)) (tst_id_counter w)"

definition ts_view ::
  "('m \<Rightarrow> key_triple \<Rightarrow> key_info option) \<Rightarrow> ('m, 'r, 'h) ts_provider \<Rightarrow> ('r \<Rightarrow> u32 \<Rightarrow> 'kd option) \<Rightarrow>
   application_name \<Rightarrow> ('m, 'r) ts_state \<Rightarrow>
   (provider_id \<Rightarrow> string \<Rightarrow> key_info option) \<times> (string \<Rightarrow> 'kd option)" where
  "ts_view mp self keys_of n w =
     seen TrustedService (tp_id_codec self) (mp (tst_kim w)) (keys_of (tst_world w)) n"

lemma ts_setupD:
  assumes "ts_setup ops self keys_of"
  shows "kc_impl (tp_key_info_store self) = ops" "kc_provider_id (tp_key_info_store self) = TrustedService"
    "ts_contract (tp_binding self) keys_of" "id_codec_ok (tp_id_codec self)"
    "psa_key_id_user_max (tp_convert self) \<le> psa_key_id_vendor_max"
  using assms by (simp_all add: ts_setup_def)

lemma ts_invD:
  assumes "ts_inv ops I mp self keys_of w"
  shows "ts_setup ops self keys_of" "I (tst_kim w)" "tst_id_counter w \<le> psa_key_id_user_max (tp_convert self)"
    "numbered (tp_id_codec self) (mp (tst_kim w)) (tst_id_counter w)"
  using assms by (simp_all add: ts_inv_def)

lemma keeps_ts_ask_kim [simp]: "keeps J view V (ts_ask_kim f)"
  by (rule keeps_read) (simp add: ts_ask_kim_def)

lemma keeps_on_context:
  assumes "\<And>r. ts_contract (tp_binding self) keys_of \<Longrightarrow>
    keys_of (snd (f (tp_binding self) (tp_convert self) (tp_context self) r)) = keys_of r"
  shows "keeps (ts_inv ops I mp self keys_of) (ts_view mp self keys_of) V (on_context self f)"
proof (rule keepsI)
  fix w r w'
  assume w: "ts_inv ops I mp self keys_of w" and run: "on_context self f w = (r, w')"
  have "keys_of (tst_world w') = keys_of (tst_world w)"
    using assms [OF ts_setupD(3) [OF ts_invD(1) [OF w]], of "tst_world w"] run
    by (auto simp: on_context_def split: prod.splits)
  moreover have "tst_kim w' = tst_kim w" "tst_id_counter w' = tst_id_counter w"
    using run by (auto simp: on_context_def split: prod.splits)
  ultimately show "ts_inv ops I mp self keys_of w' \<and> (\<forall>n \<in> V. ts_view mp self keys_of n w' = ts_view mp self keys_of n w)"
    using w by (simp add: ts_inv_def ts_view_def)
qed

lemma keeps_ts_use:
  "keeps (ts_inv ops I mp self keys_of) (ts_view mp self keys_of) V (ts_export_public_key self app name)"
  "keeps (ts_inv ops I mp self keys_of) (ts_view mp self keys_of) V (ts_sign_hash self app x)"
  "keeps (ts_inv ops I mp self keys_of) (ts_view mp self keys_of) V (ts_verify_hash self app y)"
  unfolding ts_export_public_key_def ts_sign_hash_def ts_verify_hash_def ts_key_id_def
  by (intro keeps_try_op keeps_ts_ask_kim keeps_on_context ctx_use_keys; assumption)+

text \<open>A change of a key that no mapping names is not seen by any application.\<close>

lemma ts_inv_unmapped:
  assumes w: "ts_inv ops I mp self keys_of w"
    and free: "\<And>kt. key_number TrustedService (tp_id_codec self) (mp (tst_kim w)) kt \<noteq> Some k"
    and x: "keys_of x = (keys_of (tst_world w))(k := v) \<or> keys_of x = keys_of (tst_world w)"
  shows "ts_inv ops I mp self keys_of (w\<lparr>tst_world := x\<rparr>)"
    "ts_view mp self keys_of n (w\<lparr>tst_world := x\<rparr>) = ts_view mp self keys_of n w"
  using w x seen_key_upd [OF free] by (auto simp: ts_inv_def ts_view_def)

lemma ts_next_key_id_result:
  assumes w: "ts_inv ops I mp self keys_of w" and run: "ts_next_key_id self w = (r, w')"
  shows "ts_inv ops I mp self keys_of w'" "tst_kim w' = tst_kim w" "tst_world w' = tst_world w"
    "r = Inr k \<Longrightarrow> k = tst_id_counter w' \<and> k = tst_id_counter w + 1 \<and>
       (\<forall>kt. key_number TrustedService (tp_id_codec self) (mp (tst_kim w)) kt \<noteq> Some k)"
proof -
  note D = ts_invD [OF w]
  have up: "tst_id_counter w < tst_id_counter w + 1"
    using D(3) ts_setupD(5) [OF D(1)] by (intro vendor_max_succ) (rule order.trans)
  show kim: "tst_kim w' = tst_kim w" "tst_world w' = tst_world w"
    using run by (auto simp: ts_next_key_id_def split: prod.splits)
  have c: "tst_id_counter w \<le> tst_id_counter w'" "tst_id_counter w' \<le> psa_key_id_user_max (tp_convert self)"
    using run D(3) up by (auto simp: ts_next_key_id_def ts_create_key_id_def Let_def split: if_splits)
  show "ts_inv ops I mp self keys_of w'"
    using D(1,2) c(2) numbered_counter [OF D(4) c(1)] kim by (simp add: ts_inv_def)
  assume "r = Inr k"
  with run have k: "k = tst_id_counter w + 1" "k = tst_id_counter w'"
    by (auto simp: ts_next_key_id_def ts_create_key_id_def Let_def split: if_splits)
  have "key_number TrustedService (tp_id_codec self) (mp (tst_kim w)) kt \<noteq> Some k" for kt
    using numberedD(3) [OF D(4), of kt k] up k(1) by auto
  with k show "k = tst_id_counter w' \<and> k = tst_id_counter w + 1 \<and>
       (\<forall>kt. key_number TrustedService (tp_id_codec self) (mp (tst_kim w)) kt \<noteq> Some k)" by blast
qed

section \<open>Creating and destroying keys\<close>

lemma on_context_eq:
  "on_context self f w = (r, w') \<longleftrightarrow>
     (\<exists>q x. f (tp_binding self) (tp_convert self) (tp_context self) (tst_world w) = (q, x) \<and>
        r = map_err (ts_response_status (tp_convert self)) q \<and> w' = w\<lparr>tst_world := x\<rparr>)"
  by (auto simp: on_context_def split: prod.splits)

text \<open>
  A created key is new, has the next number and is reachable under the given name only.
\<close>

definition ts_created ::
  "('m \<Rightarrow> key_triple \<Rightarrow> key_info option) \<Rightarrow> ('m, 'r, 'h) ts_provider \<Rightarrow> ('r \<Rightarrow> u32 \<Rightarrow> 'kd option) \<Rightarrow>
   key_triple \<Rightarrow> attributes \<Rightarrow> ('m, 'r) ts_state \<Rightarrow> ('m, 'r) ts_state \<Rightarrow> bool" where
  "ts_created mp self keys_of kt attrs w w' \<longleftrightarrow>
     (\<exists>k x info. k = tst_id_counter w + 1 \<and> kt \<notin> dom (mp (tst_kim w)) \<and> keys_of (tst_world w) k = None \<and>
        mp (tst_kim w') = (mp (tst_kim w))(kt \<mapsto> info) \<and> ki_attributes info = attrs \<and>
        id_deserialize (tp_id_codec self) (ki_id info) = Inr k \<and> keys_of (tst_world w') = (keys_of (tst_world w))(k \<mapsto> x))"

context key_info_manager
begin

lemma ts_store_new_key_result:
  assumes w: "ts_inv ops inv abs self keys_of w"
    and run: "ts_store_new_key self kt k attrs w = (r, w')"
    and fresh: "kt \<notin> dom (abs (tst_kim w))"
    and free: "\<And>kt'. key_number TrustedService (tp_id_codec self) (abs (tst_kim w)) kt' \<noteq> Some k"
    and k: "k \<le> tst_id_counter w"
  shows "ts_inv ops inv abs self keys_of w'"
    "n \<noteq> kt_app_name kt \<Longrightarrow> ts_view abs self keys_of n w' = ts_view abs self keys_of n w"
    "r = Inl e \<Longrightarrow> abs (tst_kim w') = abs (tst_kim w)"
    "r = Inr () \<Longrightarrow> tst_world w' = tst_world w \<and>
       (\<exists>info. abs (tst_kim w') = (abs (tst_kim w))(kt \<mapsto> info) \<and> ki_attributes info = attrs \<and>
          id_deserialize (tp_id_codec self) (ki_id info) = Inr k)"
proof -
  let ?c = "tp_id_codec self"
  note D = ts_invD [OF w]
  note S = ts_setupD [OF D(1)]
  obtain x m where ins: "insert_key_info ?c (tp_key_info_store self) kt k attrs (tst_kim w) = (x, m)" by fastforce
  note m = insert_key_info_inv [OF D(2) S(1) ins]
  have "ts_inv ops inv abs self keys_of w' \<and>
    (n \<noteq> kt_app_name kt \<longrightarrow> ts_view abs self keys_of n w' = ts_view abs self keys_of n w) \<and>
    (r = Inl e \<longrightarrow> abs (tst_kim w') = abs (tst_kim w)) \<and>
    (r = Inr () \<longrightarrow> tst_world w' = tst_world w \<and>
       (\<exists>info. abs (tst_kim w') = (abs (tst_kim w))(kt \<mapsto> info) \<and> ki_attributes info = attrs \<and>
          id_deserialize ?c (ki_id info) = Inr k))"
  proof (cases x)
    case (Inl e)
    let ?w = "w\<lparr>tst_kim := m\<rparr>"
    have a: "abs m = abs (tst_kim w)"
      by (rule insert_key_info_fresh_Inl [OF D(2) S(1) fresh ins [unfolded Inl]])
    then have w1: "ts_inv ops inv abs self keys_of ?w" and v: "ts_view abs self keys_of n ?w = ts_view abs self keys_of n w"
      and free1: "key_number TrustedService ?c (abs (tst_kim ?w)) kt' \<noteq> Some k" for kt'
      using D m free by (simp_all add: ts_inv_def ts_view_def)
    obtain q y where d: "ctx_destroy_key (tp_binding self) (tp_convert self) (tp_context self) k (tst_world ?w) = (q, y)"
      by fastforce
    have "r = Inl e" "w' = ?w\<lparr>tst_world := y\<rparr>"
      using run ins Inl d by (simp_all add: ts_store_new_key_def ts_on_kim_def on_context_def)
    moreover have "keys_of y = (keys_of (tst_world ?w))(k := None) \<or> keys_of y = keys_of (tst_world ?w)"
      using ctx_destroy_effect [OF S(3) d] by (auto simp: destroys_id_def)
    ultimately show ?thesis using ts_inv_unmapped [OF w1 free1, of y None] v a by simp
  next
    case (Inr u)
    with run ins have r: "r = Inr ()" "w' = w\<lparr>tst_kim := m\<rparr>" by (simp_all add: ts_store_new_key_def ts_on_kim_def)
    from ins Inr insert_key_info_Inr [OF D(2) S(1)] obtain b where
      b: "id_serialize ?c k = Inr b" and a: "abs m = (abs (tst_kim w))(kt \<mapsto> \<lparr>ki_id = b, ki_attributes = attrs\<rparr>)"
      by fastforce
    from b have des: "id_deserialize ?c (ki_id \<lparr>ki_id = b, ki_attributes = attrs\<rparr>) = Inr k"
      using id_codec_okD [OF S(4), of k] by auto
    from numbered_insert [OF D(4) des free k] a have "numbered ?c (abs m) (tst_id_counter w)" by simp
    with D m a des show ?thesis by (auto simp: r ts_inv_def ts_view_def seen_upd_other)
  qed
  then show "ts_inv ops inv abs self keys_of w'"
    "n \<noteq> kt_app_name kt \<Longrightarrow> ts_view abs self keys_of n w' = ts_view abs self keys_of n w"
    "r = Inl e \<Longrightarrow> abs (tst_kim w') = abs (tst_kim w)"
    "r = Inr () \<Longrightarrow> tst_world w' = tst_world w \<and>
       (\<exists>info. abs (tst_kim w') = (abs (tst_kim w))(kt \<mapsto> info) \<and> ki_attributes info = attrs \<and>
          id_deserialize (tp_id_codec self) (ki_id info) = Inr k)" by blast+
qed

text \<open>The common course of \<open>generate\<close> and \<open>import\<close>.\<close>

lemma ts_create_key_result:
  assumes w: "ts_inv ops inv abs self keys_of w"
    and cr: "\<And>k r q r'. cre k (tp_binding self) (tp_convert self) (tp_context self) r = (q, r') \<Longrightarrow>
      creates_at_id k (\<not> isl q) (keys_of r) (keys_of r')"
    and run: "try_op (ts_ask_kim (\<lambda>m. does_not_exist (tp_key_info_store self) m kt)) (\<lambda>_.
      try_op (ts_next_key_id self) (\<lambda>k.
      try_op (on_context self (cre k)) (\<lambda>_. ts_store_new_key self kt k attrs))) w = (r, w')"
  shows "ts_inv ops inv abs self keys_of w' \<and>
    (\<forall>n. n \<noteq> kt_app_name kt \<longrightarrow> ts_view abs self keys_of n w' = ts_view abs self keys_of n w) \<and>
    (case r of Inl e \<Rightarrow> abs (tst_kim w') = abs (tst_kim w) | Inr u \<Rightarrow> ts_created abs self keys_of kt attrs w w')"
proof -
  note D = ts_invD [OF w]
  note S = ts_setupD [OF D(1)]
  obtain a where a: "does_not_exist (tp_key_info_store self) (tst_kim w) kt = a" by simp
  obtain rk w1 where nx: "ts_next_key_id self w = (rk, w1)" by fastforce
  note N = ts_next_key_id_result [OF w nx]
  have v1: "ts_view abs self keys_of n w1 = ts_view abs self keys_of n w" for n using N(2,3) by (simp add: ts_view_def)
  consider e where "a = Inl e" | e where "a = Inr ()" "rk = Inl e" | k where "a = Inr ()" "rk = Inr k"
    by (cases a; cases rk) auto
  then show ?thesis
  proof cases
    case 1
    with run a have "r = Inl e" "w' = w" by (simp_all add: try_op_def ts_ask_kim_def)
    with w show ?thesis by simp
  next
    case 2
    with run a nx N(1,2) v1 show ?thesis by (auto simp: try_op_def ts_ask_kim_def)
  next
    case (3 k)
    have fresh: "kt \<notin> dom (abs (tst_kim w))" using does_not_exist_Inr [OF D(2) S(1)] a 3(1) by simp
    note K = N(4) [OF 3(2)]
    have free: "key_number TrustedService (tp_id_codec self) (abs (tst_kim w1)) kt' \<noteq> Some k" for kt'
      using K unfolding N(2) by blast
    obtain q x where c: "cre k (tp_binding self) (tp_convert self) (tp_context self) (tst_world w1) = (q, x)" by fastforce
    let ?w = "w1\<lparr>tst_world := x\<rparr>"
    note E = cr [OF c]
    obtain y where y: "keys_of x = (keys_of (tst_world w1))(k := y) \<or> keys_of x = keys_of (tst_world w1)"
      using E by (auto simp: creates_at_id_def)
    note W = ts_inv_unmapped [OF N(1) free y]
    show ?thesis
    proof (cases q)
      case (Inl e)
      with run a nx c 3 have "w' = ?w" "isl r" by (auto simp: try_op_def ts_ask_kim_def on_context_def)
      with W v1 N(2) show ?thesis by (cases r) auto
    next
      case (Inr u)
      have st: "ts_store_new_key self kt k attrs ?w = (r, w')"
        using run a nx c 3 Inr by (simp add: try_op_def ts_ask_kim_def on_context_def)
      have f: "kt \<notin> dom (abs (tst_kim ?w))" and k: "k \<le> tst_id_counter ?w" using fresh N(2) K by simp_all
      have free': "key_number TrustedService (tp_id_codec self) (abs (tst_kim ?w)) kt' \<noteq> Some k" for kt' using free by simp
      note R = ts_store_new_key_result [OF W(1) st f free' k]
      have "ts_created abs self keys_of kt attrs w w'" if r: "r = Inr ()"
      proof -
        obtain v where v: "keys_of (tst_world w) k = None" "keys_of x = (keys_of (tst_world w))(k \<mapsto> v)"
          using E Inr N(3) by (auto simp: creates_at_id_def)
        obtain info where "abs (tst_kim w') = (abs (tst_kim w))(kt \<mapsto> info)" "ki_attributes info = attrs"
          "id_deserialize (tp_id_codec self) (ki_id info) = Inr k" "tst_world w' = x"
          using R(4) [OF r] N(2) by auto
        with v fresh K show ?thesis unfolding ts_created_def by metis
      qed
      then show ?thesis using R(1,2,3) W(2) v1 N(2) by (cases r) auto
    qed
  qed
qed

lemma ts_generate_key_result:
  assumes w: "ts_inv ops inv abs self keys_of w" and run: "ts_generate_key self app op w = (r, w')"
  shows "ts_inv ops inv abs self keys_of w' \<and>
    (\<forall>n. n \<noteq> app \<longrightarrow> ts_view abs self keys_of n w' = ts_view abs self keys_of n w) \<and>
    (case r of
       Inl e \<Rightarrow> abs (tst_kim w') = abs (tst_kim w)
     | Inr u \<Rightarrow> ts_created abs self keys_of (key_triple_new app TrustedService (gk_key_name op)) (gk_attributes op) w w')"
  using ts_create_key_result [OF w _ run [unfolded ts_generate_key_def Let_def]]
    ctx_create_effect(1) [OF ts_setupD(3) [OF ts_invD(1) [OF w]]] by simp

lemma ts_import_key_result:
  assumes w: "ts_inv ops inv abs self keys_of w" and run: "ts_import_key self app op w = (r, w')"
  shows "ts_inv ops inv abs self keys_of w' \<and>
    (\<forall>n. n \<noteq> app \<longrightarrow> ts_view abs self keys_of n w' = ts_view abs self keys_of n w) \<and>
    (case r of
       Inl e \<Rightarrow> abs (tst_kim w') = abs (tst_kim w)
     | Inr u \<Rightarrow> ts_created abs self keys_of (key_triple_new app TrustedService (ik_key_name op)) (ik_attributes op) w w')"
  using ts_create_key_result [OF w _ run [unfolded ts_import_key_def Let_def]]
    ctx_create_effect(2) [OF ts_setupD(3) [OF ts_invD(1) [OF w]]] by simp

text \<open>Removing the mapping of a key.\<close>

lemma ts_remove_mapping:
  assumes w: "ts_inv ops inv abs self keys_of w"
    and run: "ts_on_kim (remove_key_info (tp_key_info_store self) kt) w = (r, w')"
  shows "ts_inv ops inv abs self keys_of w'"
    "n \<noteq> kt_app_name kt \<Longrightarrow> ts_view abs self keys_of n w' = ts_view abs self keys_of n w"
    "case r of Inl e \<Rightarrow> abs (tst_kim w') = abs (tst_kim w) | Inr u \<Rightarrow> abs (tst_kim w') = (abs (tst_kim w))(kt := None)"
    "tst_world w' = tst_world w"
proof -
  note D = ts_invD [OF w]
  note S = ts_setupD [OF D(1)]
  from run obtain m where rem: "remove_key_info (tp_key_info_store self) kt (tst_kim w) = (r, m)"
    and w': "w' = w\<lparr>tst_kim := m\<rparr>" by (auto simp: ts_on_kim_def split: prod.splits)
  note m = remove_key_info_inv [OF D(2) S(1) rem]
  show "tst_world w' = tst_world w" by (simp add: w')
  show a: "case r of Inl e \<Rightarrow> abs (tst_kim w') = abs (tst_kim w) | Inr u \<Rightarrow> abs (tst_kim w') = (abs (tst_kim w))(kt := None)"
    using remove_key_info_Inl [OF D(2) S(1)] remove_key_info_Inr [OF D(2) S(1)] rem by (cases r) (simp_all add: w')
  from a D m numbered_remove [OF D(4)] show "ts_inv ops inv abs self keys_of w'"
    by (cases r) (simp_all add: w' ts_inv_def)
  from a show "n \<noteq> kt_app_name kt \<Longrightarrow> ts_view abs self keys_of n w' = ts_view abs self keys_of n w"
    by (cases r) (simp_all add: w' ts_view_def seen_upd_other)
qed

text \<open>
  Destroying a key: the mapping goes first; then the service is asked, and whatever it answers, no other key can be
  affected.
\<close>

lemma ts_destroy_key_result:
  assumes w: "ts_inv ops inv abs self keys_of w" and run: "ts_destroy_key self app name w = (r, w')"
    and kt: "kt = key_triple_new app TrustedService name"
  shows "ts_inv ops inv abs self keys_of w' \<and>
    (\<forall>n. n \<noteq> app \<longrightarrow> ts_view abs self keys_of n w' = ts_view abs self keys_of n w) \<and>
    (abs (tst_kim w') = (abs (tst_kim w))(kt := None) \<or> (\<exists>e. r = Inl e) \<and> abs (tst_kim w') = abs (tst_kim w)) \<and>
    (r = Inr () \<longrightarrow> abs (tst_kim w') = (abs (tst_kim w))(kt := None) \<and>
       (\<exists>k. key_number TrustedService (tp_id_codec self) (abs (tst_kim w)) kt = Some k \<and>
            keys_of (tst_world w') = (keys_of (tst_world w))(k := None)))"
proof (cases "get_key_id (tp_id_codec self) (tp_key_info_store self) (tst_kim w) kt")
  case (Inl e)
  with run have "r = Inl e" "w' = w"
    by (simp_all add: ts_destroy_key_def ts_key_id_def try_op_def ts_ask_kim_def kt)
  with w show ?thesis by simp
next
  case get: (Inr k)
  let ?c = "tp_id_codec self"
  note D = ts_invD [OF w]
  note S = ts_setupD [OF D(1)]
  have num: "key_number TrustedService ?c (abs (tst_kim w)) kt = Some k"
    using key_number_get [OF D(2) S(1) get] by (simp add: kt)
  obtain r1 w1 where rem: "ts_on_kim (remove_key_info (tp_key_info_store self) kt) w = (r1, w1)" by fastforce
  note R = ts_remove_mapping [OF w rem]
  show ?thesis
  proof (cases r1)
    case (Inl e)
    with run rem get have "r = Inl e" "w' = w1"
      by (simp_all add: ts_destroy_key_def ts_key_id_def try_op_def ts_ask_kim_def kt)
    with R Inl show ?thesis by (simp add: kt)
  next
    case (Inr u)
    with R(3) have a1: "abs (tst_kim w1) = (abs (tst_kim w))(kt := None)" by simp
    have free: "key_number TrustedService ?c (abs (tst_kim w1)) kt' \<noteq> Some k" for kt'
      using unsharedD [OF numberedD(2) [OF D(4)] num] by (auto simp: a1)
    obtain q x where d: "ctx_destroy_key (tp_binding self) (tp_convert self) (tp_context self) k (tst_world w1) = (q, x)"
      by fastforce
    have r: "r = map_err (ts_response_status (tp_convert self)) q" "w' = w1\<lparr>tst_world := x\<rparr>"
      using run rem get Inr d
      by (simp_all add: ts_destroy_key_def ts_key_id_def try_op_def ts_ask_kim_def kt on_context_def)
    note E = ctx_destroy_effect [OF S(3) d, unfolded destroys_id_def]
    have "keys_of x = (keys_of (tst_world w1))(k := None) \<or> keys_of x = keys_of (tst_world w1)" using E by blast
    note U = ts_inv_unmapped [OF R(1) free this]
    have "r = Inr () \<longrightarrow> keys_of x = (keys_of (tst_world w))(k := None)" using E R(4) r(1) by (cases q) auto
    with U R(2) a1 num show ?thesis by (auto simp: r(2) kt)
  qed
qed

text \<open>The provider keeps its invariant and the view of every other application.\<close>

lemma ts_isolated:
  "tenant_isolation (ts_provide self) (ts_inv ops inv abs self keys_of) (ts_view abs self keys_of)"
proof -
  have gen: "keeps (ts_inv ops inv abs self keys_of) (ts_view abs self keys_of) (- {n}) (ts_generate_key self n op)" for n op
    using ts_generate_key_result unfolding keeps_def by (metis ComplD singletonI)
  have imp: "keeps (ts_inv ops inv abs self keys_of) (ts_view abs self keys_of) (- {n}) (ts_import_key self n op)" for n op
    using ts_import_key_result unfolding keeps_def by (metis ComplD singletonI)
  have des: "keeps (ts_inv ops inv abs self keys_of) (ts_view abs self keys_of) (- {n}) (ts_destroy_key self n k)" for n k
    using ts_destroy_key_result [OF _ _ refl] unfolding keeps_def by (metis ComplD singletonI)
  show ?thesis
    by unfold_locales
      (simp_all add: ts_provide_def default_provide_def ts_list_keys_def ts_list_clients_def gen imp des keeps_ts_use)
qed

end

text \<open>The names of an application's keys.\<close>

definition ts_names ::
  "('m \<Rightarrow> key_triple \<Rightarrow> key_info option) \<Rightarrow> ('m, 'r) ts_state \<Rightarrow> provider_id \<Rightarrow> application_name \<Rightarrow> string set" where
  "ts_names mp w = names_of (mp (tst_kim w))"

lemma ts_provide_sel:
  "p_list_keys (ts_provide self) = ts_list_keys self"
  "p_list_clients (ts_provide self) = ts_list_clients self"
  "p_psa_destroy_key (ts_provide self) = ts_destroy_key self"
  by (simp_all add: ts_provide_def default_provide_def)

context key_info_manager
begin

lemma ts_key_provider:
  "key_provider (ts_provide self) (ts_inv ops inv abs self keys_of) (ts_names abs) TrustedService"
proof (unfold_locales, unfold ts_provide_sel)
  fix w w' n r
  assume w: "ts_inv ops inv abs self keys_of w" and "ts_list_keys self n w = (r, w')"
  then have "w' = w" "r = kim_list_keys (tp_key_info_store self) (tst_kim w) n"
    by (auto simp: ts_list_keys_def ts_ask_kim_def)
  with w list_keys_names [OF ts_invD(2) [OF w] ts_setupD(1,2) [OF ts_invD(1) [OF w]]]
  show "ts_inv ops inv abs self keys_of w' \<and> ts_names abs w' = ts_names abs w \<and>
      (\<forall>ks. r = Inr ks \<longrightarrow> distinct (map lk_name ks) \<and> lk_name ` set ks = ts_names abs w TrustedService n)"
    by (simp add: ts_names_def)
next
  fix w w' r
  assume w: "ts_inv ops inv abs self keys_of w" and "ts_list_clients self w = (r, w')"
  then have "w' = w" "r = kim_list_clients (tp_key_info_store self) (tst_kim w)"
    by (auto simp: ts_list_clients_def ts_ask_kim_def)
  with w list_clients_names [OF ts_invD(2) [OF w] ts_setupD(1,2) [OF ts_invD(1) [OF w]]]
  show "ts_inv ops inv abs self keys_of w' \<and> ts_names abs w' = ts_names abs w \<and>
      (\<forall>cs. r = Inr cs \<longrightarrow> set cs = {n. ts_names abs w TrustedService n \<noteq> {}})"
    by (simp add: ts_names_def)
next
  fix w w' n k r
  assume w: "ts_inv ops inv abs self keys_of w" and run: "ts_destroy_key self n k w = (r, w')"
  note R = ts_destroy_key_result [OF w run refl]
  then consider "abs (tst_kim w') = (abs (tst_kim w))(key_triple_new n TrustedService k := None)"
    | "abs (tst_kim w') = abs (tst_kim w)" by blast
  then show "ts_inv ops inv abs self keys_of w' \<and> only_loses (ts_names abs w) (ts_names abs w') {(TrustedService, n)} \<and>
      ts_names abs w TrustedService n - {k} \<subseteq> ts_names abs w' TrustedService n"
    by cases (use R names_of_remove [of "abs (tst_kim w)" n TrustedService k] in \<open>auto simp: ts_names_def\<close>)
qed

end

section \<open>Start-up\<close>

text \<open>The mappings that are left: those of other providers, and those that decode.\<close>

definition decoded ::
  "u32 id_codec \<Rightarrow> (key_triple \<Rightarrow> key_info option) \<Rightarrow> key_triple \<Rightarrow> key_info option" where
  "decoded codec f kt =
     (if kt_provider_id kt = TrustedService \<and> key_number TrustedService codec f kt = None then None else f kt)"

lemma key_number_decoded [simp]: "key_number TrustedService codec (decoded codec f) = key_number TrustedService codec f"
  by (auto simp: fun_eq_iff key_number_def decoded_def)

lemma numbered_decoded:
  assumes "unshared TrustedService codec f" and "\<And>kt k. key_number TrustedService codec f kt = Some k \<Longrightarrow> k \<le> c"
  shows "numbered codec (decoded codec f) c"
  using assms by (auto simp: numbered_def decodable_def unshared_def decoded_def split: if_splits)

lemma ts_connect_keys:
  assumes "ts_contract ts keys_of" and "ts_connect ts r = (res, r')"
  shows "keys_of r' = keys_of r"
  using assms(2) ts_contractD(1) [OF assms(1)]
  by (auto simp: ts_connect_def split: prod.splits option.splits if_splits
      dest!: ts_contractD(2) [OF assms(1)] ts_contractD(3) [OF assms(1)])

context key_info_manager_mem
begin

lemma ts_scan_result:
  assumes "inv m" and "kc_impl store = ops" and "\<forall>kt \<in> set kts. kt_provider_id kt = TrustedService"
    and "ts_scan codec store m kts mx rem = (mx', rem')"
  shows "rem' = rem @ filter (\<lambda>kt. key_number TrustedService codec (abs m) kt = None) kts \<and> mx \<le> mx' \<and>
    (\<forall>kt \<in> set kts. \<forall>k. key_number TrustedService codec (abs m) kt = Some k \<longrightarrow> k \<le> mx') \<and>
    (mx' = mx \<or> (\<exists>kt. key_number TrustedService codec (abs m) kt = Some mx'))"
  using assms(3,4)
proof (induction kts arbitrary: mx rem)
  case (Cons kt kts)
  note num = get_key_id_iff_number [OF assms(1,2), of kt TrustedService codec]
  show ?case
  proof (cases "get_key_id codec store m kt")
    case (Inl e)
    then have "key_number TrustedService codec (abs m) kt = None"
      using num Cons.prems(1) by (cases "key_number TrustedService codec (abs m) kt") auto
    with Inl Cons.prems Cons.IH [of mx "rem @ [kt]"] show ?thesis by simp
  next
    case (Inr k)
    then have "key_number TrustedService codec (abs m) kt = Some k" using num Cons.prems(1) by simp
    with Inr Cons.prems Cons.IH [of "if k > mx then k else mx" rem] show ?thesis
      by (auto split: if_splits)
  qed
qed simp

lemma ts_new_result:
  assumes S: "ts_setup ops self keys_of" and inv: "inv m"
    and un: "unshared TrustedService (tp_id_codec self) (abs m)"
    and mx: "psa_key_id_user_min (tp_convert self) \<le> psa_key_id_user_max (tp_convert self)"
      "\<And>kt k. key_number TrustedService (tp_id_codec self) (abs m) kt = Some k \<Longrightarrow> k \<le> psa_key_id_user_max (tp_convert self)"
    and run: "ts_new self m r = (Inr (self', w), m', r')"
  shows "ts_inv ops inv abs self' keys_of w" "abs (tst_kim w) = decoded (tp_id_codec self) (abs m)"
    "keys_of (tst_world w) = keys_of r" "\<exists>ctx. self' = self\<lparr>tp_context := ctx\<rparr>"
proof -
  let ?c = "tp_id_codec self" and ?cv = "tp_convert self"
  note S' = ts_setupD [OF S]
  obtain kts where kts: "kim_get_all (tp_key_info_store self) m = Inr kts"
    "set kts = {kt \<in> dom (abs m). kt_provider_id kt = TrustedService}"
    using kim_get_all_total [OF inv S'(1)] S'(2) by auto
  obtain ctx where c: "ts_connect (tp_binding self) r = (Inr ctx, r')" "self' = self\<lparr>tp_context := ctx\<rparr>"
    using run kts(1) by (auto simp: ts_new_def Let_def split: prod.splits sum.splits bool.splits)
  obtain top rem where sc: "ts_scan ?c (tp_key_info_store self) m kts (psa_key_id_user_min ?cv) [] = (top, rem)" by fastforce
  have rt: "remove_triples (tp_key_info_store self) rem m = (True, m')"
    and w: "w = \<lparr>tst_kim = m', tst_id_counter = top, tst_world = r'\<rparr>"
    using run kts(1) c sc by (auto simp: ts_new_def Let_def split: prod.splits bool.splits)
  have "\<forall>kt \<in> set kts. kt_provider_id kt = TrustedService" using kts(2) by blast
  note SC = ts_scan_result [OF inv S'(1) this sc]
  note RT = remove_triples_result [OF S'(1) inv rt]
  have le: "k \<le> top" if "key_number TrustedService ?c (abs m) kt = Some k" for kt k
  proof -
    have "kt \<in> set kts" using that by (auto simp: kts(2) key_number_def split: if_splits option.splits)
    with SC that show ?thesis by blast
  qed
  show a: "abs (tst_kim w) = decoded ?c (abs m)"
    using RT SC kts(2) by (auto simp: w decoded_def fun_eq_iff domIff)
  show "keys_of (tst_world w) = keys_of r" "\<exists>ctx. self' = self\<lparr>tp_context := ctx\<rparr>"
    using c ts_connect_keys [OF S'(3) c(1)] by (auto simp: w)
  have "top \<le> psa_key_id_user_max ?cv" using SC mx by metis
  with S RT numbered_decoded [OF un le] a show "ts_inv ops inv abs self' keys_of w"
    by (simp add: ts_inv_def ts_setup_def c(2) w)
qed

end

text \<open>On a disk that answers, start-up fails only if the connection does.\<close>

lemma ts_new_total:
  assumes S: "ts_setup (on_disk_impl c) self keys_of" and inv: "odm_inv m"
    and d: "base64_ok c" "synced c m" "quiet (odm_disk m)"
    and con: "ts_connect (tp_binding self) r = (Inr ctx, r1)"
  shows "\<exists>w m'. ts_new self m r = (Inr (self\<lparr>tp_context := ctx\<rparr>, w), m', r1)"
proof -
  note S' = ts_setupD [OF S]
  obtain kts where kts: "kim_get_all (tp_key_info_store self) m = Inr kts" "distinct kts"
    "set kts = {kt \<in> dom (odm_abs m). kt_provider_id kt = TrustedService}"
    using odm.kim_get_all_total [OF inv S'(1)] S'(2) by auto
  obtain top rem where sc: "ts_scan (tp_id_codec self) (tp_key_info_store self) m kts
    (psa_key_id_user_min (tp_convert self)) [] = (top, rem)" by fastforce
  have "\<forall>kt \<in> set kts. kt_provider_id kt = TrustedService" using kts(3) by blast
  note SC = odm.ts_scan_result [OF inv S'(1) this sc]
  then have "distinct rem" "set rem \<subseteq> dom (odm_abs m)" using kts(2,3) by auto
  from remove_triples_quiet [OF d(1) S'(1) this(1) d(2,3) inv this(2)] obtain m' where
    "remove_triples (tp_key_info_store self) rem m = (True, m')" by blast
  with con kts(1) sc show ?thesis by (auto simp: ts_new_def Let_def)
qed

end
