(* ===== verification/Trusted_Service_Properties.thy ===== *)
theory Trusted_Service_Properties
  imports Trusted_Service_Keys
begin

text \<open>
  The properties of the Trusted Service provider with the on-disk key info manager: the contracts that the back end
  and the core provider rely on, the handles of the calls to the secure world, the creation of keys and start-up.
\<close>

section \<open>The contracts of a provider\<close>

interpretation trusted: tenant_isolation "ts_provide self"
    "ts_inv (on_disk_impl c) odm_inv odm_abs self keys_of" "ts_view odm_abs self keys_of"
  for self :: "(on_disk_manager, 'r, 'h) ts_provider" and keys_of :: "'r \<Rightarrow> u32 \<Rightarrow> 'kd option" and c
  by (rule odm.ts_isolated)

interpretation trusted_keys: key_provider "ts_provide self"
    "ts_inv (on_disk_impl c) odm_inv odm_abs self keys_of" "ts_names odm_abs" TrustedService
  for self :: "(on_disk_manager, 'r, 'h) ts_provider" and keys_of :: "'r \<Rightarrow> u32 \<Rightarrow> 'kd option" and c
  by (rule odm.ts_key_provider)

section \<open>A small secure world\<close>

text \<open>It has the keys and the open call handles; its buffers hold sixteen bytes.\<close>

record toy_world =
  tw_keys :: "(u32, bytes) hash_map"
  tw_open :: "nat list"

definition toy_world_keys :: "toy_world \<Rightarrow> u32 \<Rightarrow> bytes option" where
  "toy_world_keys r = hm_get (tw_keys r)"

fun toy_encode :: "ts_request \<Rightarrow> bytes option" where
  "toy_encode (GenerateKeyIn a) = Some (0 # u32_to_le_bytes (pb_id a))"
| "toy_encode (ImportKeyIn a d) = Some (0 # u32_to_le_bytes (pb_id a) @ d)"
| "toy_encode (DestroyKeyIn k) = Some (1 # u32_to_le_bytes k)"
| "toy_encode _ = Some [2]"

definition toy_invoke :: "bytes \<Rightarrow> toy_world \<Rightarrow> (int \<times> int \<times> bytes) \<times> toy_world" where
  "toy_invoke body r =
     (case body of
        t # a # b # c # d # data \<Rightarrow>
          (let k = u32_from_le_bytes a b c d in
           if t = 1 then ((0, 0, []), r\<lparr>tw_keys := hm_remove k (tw_keys r)\<rparr>)
           else if hm_get (tw_keys r) k = None
           then ((0, 0, []), r\<lparr>tw_keys := hm_insert k data (tw_keys r)\<rparr>)
           else ((0, -139, []), r))
      | _ \<Rightarrow> ((0, 0, []), r))"

definition toy_binding :: "(toy_world, nat) ts_binding" where
  "toy_binding =
     \<lparr>service_locator_init = id, service_locator_query = (\<lambda>_ r. ((Some 0, 0), r)),
      service_context_open = (\<lambda>_ r. ((Some 1, Some 2), r)), service_context_close = (\<lambda>_ _. id),
      service_context_relinquish = (\<lambda>_. id),
      rpc_caller_begin = (\<lambda>_ n r. let h = Suc (sum_list (tw_open r)) in
        ((Some h, n \<le> 16), r\<lparr>tw_open := h # tw_open r\<rparr>)),
      rpc_caller_invoke = (\<lambda>_ _ _ body. toy_invoke body),
      rpc_caller_end = (\<lambda>_ h r. r\<lparr>tw_open := removeAll h (tw_open r)\<rparr>),
      ts_opcode_number = (\<lambda>_. 0),
      encoded_len = (\<lambda>req. case toy_encode req of None \<Rightarrow> 0 | Some b \<Rightarrow> word_of_nat (length b)),
      pb_encode = toy_encode, merge_empty = (\<lambda>_. Some ()), merge_bytes = Some, merge_sign_hash_out = Some,
      merge_destroy_key_out = (\<lambda>_. Some ()), persistent_lifetime = 1\<rparr>"

definition toy_convert :: ts_convert where
  "toy_convert =
     \<lparr>psa_error_from = (\<lambda>_. OtherPsaError 0), psa_response_status = (\<lambda>_. PsaErrorGenericError),
      u16_from_key_type = (\<lambda>_. Inr 0), u32_from_usage_flags = (\<lambda>_. 0), u32_from_algorithm = (\<lambda>_. Inr 0),
      u32_from_signature_algorithm = (\<lambda>_. Inr 0), psa_key_id_user_min = 1, psa_key_id_user_max = 0x3FFFFFFF\<rparr>"

definition toy_ts_provider :: "(on_disk_manager, toy_world, nat) ts_provider" where
  "toy_ts_provider =
     \<lparr>tp_key_info_store = build_client \<lparr>kf_impl = on_disk_impl sample_codec\<rparr> TrustedService,
      tp_context = \<lparr>tc_rpc_caller = 1, tc_service_context = 0, tc_rpc_session_handle = 2\<rparr>,
      tp_binding = toy_binding, tp_convert = toy_convert, tp_id_codec = u32_codec, tp_uuid_parse = (\<lambda>_. Some [])\<rparr>"

definition toy_world0 :: toy_world where
  "toy_world0 = \<lparr>tw_keys = [], tw_open = []\<rparr>"

lemma toy_invoke_id:
  "toy_invoke (t # u32_to_le_bytes k @ data) r =
     (if t = 1 then ((0, 0, []), r\<lparr>tw_keys := hm_remove k (tw_keys r)\<rparr>)
      else if hm_get (tw_keys r) k = None
      then ((0, 0, []), r\<lparr>tw_keys := hm_insert k data (tw_keys r)\<rparr>)
      else ((0, -139, []), r))"
proof -
  obtain a b c d where v: "u32_to_le_bytes k = [a, b, c, d]" by (simp add: u32_to_le_bytes_def Let_def)
  with u32_from_to_le_bytes [OF v] show ?thesis by (simp add: toy_invoke_def)
qed

lemmas toy_invoke_bare = toy_invoke_id [where data = "[]", simplified]

lemma toy_invoke_effect:
  assumes "toy_encode req = Some body" and "toy_invoke body r = ((st, ost, resp), r')"
  shows "ts_effect req (st = 0 \<and> ost = 0) (toy_world_keys r) (toy_world_keys r')"
  using assms
  by (cases req) (auto simp: toy_invoke_id toy_invoke_bare toy_invoke_def [of "[2]"] toy_world_keys_def creates_at_id_def
      destroys_id_def hm_simps fun_eq_iff split: if_splits)

lemma toy_binding_ok: "ts_contract toy_binding toy_world_keys"
  unfolding ts_contract_def leaves_keys_def
  by (intro conjI allI impI) (simp_all add: toy_binding_def toy_world_keys_def Let_def toy_invoke_effect [unfolded toy_world_keys_def])

lemma toy_ts_setup: "ts_setup (on_disk_impl sample_codec) toy_ts_provider toy_world_keys"
  by (simp add: ts_setup_def toy_ts_provider_def build_client_def toy_binding_ok u32_codec_ok toy_convert_def
      psa_key_id_vendor_max_def)

definition toy_ts_state :: "(on_disk_manager, toy_world) ts_state" where
  "toy_ts_state = \<lparr>tst_kim = sample_manager, tst_id_counter = 1, tst_world = toy_world0\<rparr>"

lemma toy_ts_inv: "ts_inv (on_disk_impl sample_codec) odm_inv odm_abs toy_ts_provider toy_world_keys toy_ts_state"
  using toy_ts_setup sample_facts(3)
  by (simp add: ts_inv_def toy_ts_state_def sample_manager_empty numbered_def decodable_def unshared_def
      toy_ts_provider_def toy_convert_def)

section \<open>Calls\<close>

text \<open>
  The call handles: \<open>rpc_caller_begin\<close> opens a new one, \<open>rpc_caller_end\<close> closes it, and nothing else does either.
\<close>

definition rpc_handles :: "('r, 'h) ts_binding \<Rightarrow> ('r \<Rightarrow> 'h set) \<Rightarrow> bool" where
  "rpc_handles ts opened \<longleftrightarrow>
     (\<forall>c n r ho buf r'. rpc_caller_begin ts c n r = ((ho, buf), r') \<longrightarrow>
        (case ho of None \<Rightarrow> opened r' = opened r | Some h \<Rightarrow> h \<notin> opened r \<and> opened r' = insert h (opened r))) \<and>
     (\<forall>c h n body r. opened (snd (rpc_caller_invoke ts c h n body r)) = opened r) \<and>
     (\<forall>c h r. opened (rpc_caller_end ts c h r) = opened r - {h})"

lemma rpc_handlesD:
  assumes "rpc_handles ts opened"
  shows "rpc_caller_begin ts c n r = ((None, buf), r') \<Longrightarrow> opened r' = opened r"
    "rpc_caller_begin ts c n r = ((Some h, buf), r') \<Longrightarrow> h \<notin> opened r \<and> opened r' = insert h (opened r)"
    "rpc_caller_invoke ts c h num body r = (x, r') \<Longrightarrow> opened r' = opened r"
    "opened (rpc_caller_end ts c h r) = opened r - {h}"
proof -
  note laws = assms [unfolded rpc_handles_def]
  note opens = conjunct1 [OF laws, rule_format] and invoke = conjunct1 [OF conjunct2 [OF laws], rule_format]
    and close = conjunct2 [OF conjunct2 [OF laws], rule_format]
  show "rpc_caller_begin ts c n r = ((None, buf), r') \<Longrightarrow> opened r' = opened r"
    "rpc_caller_begin ts c n r = ((Some h, buf), r') \<Longrightarrow> h \<notin> opened r \<and> opened r' = insert h (opened r)"
    by (drule opens, simp)+
  show "opened r' = opened r" if "rpc_caller_invoke ts c h num body r = (x, r')"
    using invoke [of c h num body r] that by simp
  show "opened (rpc_caller_end ts c h r) = opened r - {h}" by (rule close)
qed

text \<open>
  C15: every call to the secure world is ended. Whatever the library, the encoder and the decoder answer,
  \<open>send_request\<close> leaves no call handle open, with one exception: if the library returns a handle without a
  request buffer, the error \<open>CallBufferNull\<close> is returned and the handle stays open.
\<close>

theorem rpc_calls_ended:
  assumes "rpc_handles ts opened" and "send_request ts cv self merge req r = (res, r')"
  shows "if res = Inl (WrapperErr CallBufferNull)
         then \<exists>h. h \<notin> opened r \<and> opened r' = insert h (opened r)
         else opened r' = opened r"
proof -
  let ?caller = "tc_rpc_caller self"
  obtain ho buf r1 where b: "rpc_caller_begin ts ?caller (encoded_len ts req) r = ((ho, buf), r1)"
    by (metis prod.collapse)
  show ?thesis
  proof (cases "ho = None \<or> \<not> buf")
    case True
    show ?thesis
    proof (cases ho)
      case None
      with assms(2) b rpc_handlesD(1) [OF assms(1) b [unfolded None]] show ?thesis by (auto simp: send_request_def)
    next
      case (Some h)
      with True assms(2) b rpc_handlesD(2) [OF assms(1) b [unfolded Some]] show ?thesis by (auto simp: send_request_def)
    qed
  next
    case False
    then obtain h where h: "ho = Some h" buf by (cases ho) auto
    note o1 = rpc_handlesD(2) [OF assms(1) b [unfolded h(1)]]
    show ?thesis
    proof (cases "pb_encode ts req")
      case None
      with assms(2) b h have "res = Inl (WrapperErr FailedPbConversion)" "r' = rpc_caller_end ts ?caller h r1"
        by (simp_all add: send_request_def)
      with o1 rpc_handlesD(4) [OF assms(1)] show ?thesis by simp
    next
      case (Some body)
      obtain st ost resp r2 where
        i: "rpc_caller_invoke ts ?caller h (ts_opcode_number ts (get_opcode req)) body r1 = ((st, ost, resp), r2)"
        by (metis prod.collapse)
      have "r' = rpc_caller_end ts ?caller h r2 \<and> res \<noteq> Inl (WrapperErr CallBufferNull)"
        using assms(2) b h Some i
        by (auto simp: send_request_def Let_def from_status_opstatus_def split: option.splits if_splits)
      with o1 rpc_handlesD(3) [OF assms(1) i] rpc_handlesD(4) [OF assms(1)] show ?thesis by simp
    qed
  qed
qed

text \<open>A call that fits its buffer, and an import of thirty bytes, which does not.\<close>

lemma toy_rpc_handles: "rpc_handles toy_binding (\<lambda>r. set (tw_open r))"
proof -
  have "tw_open (snd (toy_invoke body r)) = tw_open r" for body r
    by (simp add: toy_invoke_def Let_def split: list.splits)
  moreover have "Suc (sum_list xs) \<notin> set xs" for xs :: "nat list"
    using member_le_sum_list by fastforce
  ultimately show ?thesis by (auto simp: rpc_handles_def toy_binding_def Let_def)
qed

theorem rpc_calls_ended_witness:
  "\<exists>r' r''. send_request toy_binding toy_convert (tp_context toy_ts_provider) (\<lambda>_. Some ()) (DestroyKeyIn 7) toy_world0 = (Inr (), r') \<and>
     set (tw_open r') = set (tw_open toy_world0) \<and>
     send_request toy_binding toy_convert (tp_context toy_ts_provider) (\<lambda>_. Some ())
       (ImportKeyIn \<lparr>pb_type = 0, pb_key_bits = 240, pb_lifetime = 1, pb_id = 7, pb_usage = 0, pb_alg = 0\<rparr> (replicate 30 0)) toy_world0 =
       (Inl (WrapperErr CallBufferNull), r'') \<and>
     set (tw_open r'') \<noteq> set (tw_open toy_world0)"
proof -
  let ?send = "\<lambda>req. send_request toy_binding toy_convert (tp_context toy_ts_provider) (\<lambda>_. Some ()) req toy_world0"
  let ?big = "ImportKeyIn \<lparr>pb_type = 0, pb_key_bits = 240, pb_lifetime = 1, pb_id = 7, pb_usage = 0, pb_alg = 0\<rparr> (replicate 30 0)"
  obtain r' where a: "?send (DestroyKeyIn 7) = (Inr (), r')"
    by (simp add: send_request_def toy_binding_def toy_ts_provider_def Let_def u32_to_le_bytes_def toy_invoke_def
        from_status_opstatus_def)
  obtain r'' where b: "?send ?big = (Inl (WrapperErr CallBufferNull), r'')"
    by (simp add: send_request_def toy_binding_def toy_ts_provider_def Let_def u32_to_le_bytes_def)
  from rpc_calls_ended [OF toy_rpc_handles a] rpc_calls_ended [OF toy_rpc_handles b] a b show ?thesis by auto
qed

section \<open>Creating keys and start-up\<close>

text \<open>
  Creating a key in the secure world. \<open>psa_generate_key\<close> keeps the invariant of the provider and what every
  other application sees. If it succeeds, the name was free, the key has the next number, which no key
  of the service had, and exactly this key and this mapping have been added. If it fails, every mapping is
  what it was.
\<close>

lemma ts_generate_key_exact:
  assumes "ts_inv (on_disk_impl c) odm_inv odm_abs self keys_of w" and "ts_generate_key self app op w = (r, w')"
  shows "ts_inv (on_disk_impl c) odm_inv odm_abs self keys_of w' \<and>
    (\<forall>n. n \<noteq> app \<longrightarrow> ts_view odm_abs self keys_of n w' = ts_view odm_abs self keys_of n w) \<and>
    (case r of
       Inl e \<Rightarrow> odm_abs (tst_kim w') = odm_abs (tst_kim w)
     | Inr u \<Rightarrow> ts_created odm_abs self keys_of (key_triple_new app TrustedService (gk_key_name op)) (gk_attributes op) w w')"
  by (rule odm.ts_generate_key_result [OF assms])

lemma toy_ts_generate:
  "\<exists>w'. ts_generate_key toy_ts_provider ''app'' \<lparr>gk_key_name = ''k'', gk_attributes = sample_attributes\<rparr> toy_ts_state = (Inr (), w')"
proof -
  let ?kt = "key_triple_new ''app'' TrustedService ''k''" and ?p = toy_ts_provider
  note S = ts_setupD [OF toy_ts_setup]
  have "does_not_exist (tp_key_info_store ?p) (tst_kim toy_ts_state) ?kt = Inr ()"
    using odm.does_not_exist_total [OF sample_facts(3) S(1), of ?kt] by (simp add: sample_manager_empty toy_ts_state_def)
  moreover have "ts_next_key_id ?p toy_ts_state = (Inr 2, toy_ts_state\<lparr>tst_id_counter := 2\<rparr>)"
    by (simp add: ts_next_key_id_def ts_create_key_id_def toy_ts_provider_def toy_convert_def toy_ts_state_def)
  moreover obtain r where "ctx_generate_key (tp_binding ?p) (tp_convert ?p) (tp_context ?p) sample_attributes 2 toy_world0 = (Inr (), r)"
    by (simp add: ctx_generate_key_def pb_attributes_def try_op_def read_op_def try_res_def map_err_def usize_to_u32_def
        sample_attributes_def send_request_def toy_binding_def toy_ts_provider_def toy_convert_def Let_def u32_to_le_bytes_def
        toy_invoke_def toy_world0_def from_status_opstatus_def)
  moreover obtain bs where ser: "id_serialize (tp_id_codec ?p) 2 = Inr bs" by (simp add: toy_ts_provider_def u32_codec_def)
  moreover obtain m' where "insert_key_info (tp_id_codec ?p) (tp_key_info_store ?p) ?kt 2 sample_attributes sample_manager = (Inr (), m')"
    using insert_key_info_quiet [OF sample_codec_ok sample_facts(1,2,3) S(1) _ ser sample_valid_insert] sample_manager_empty
    by fastforce
  ultimately show ?thesis
    by (simp add: ts_generate_key_def Let_def try_op_def ts_ask_kim_def on_context_def ts_store_new_key_def ts_on_kim_def
        toy_ts_state_def map_err_def)
qed

lemma ts_generate_key_exact_witness:
  "\<exists>w'. ts_generate_key toy_ts_provider ''app'' \<lparr>gk_key_name = ''k'', gk_attributes = sample_attributes\<rparr> toy_ts_state = (Inr (), w') \<and>
     ts_created odm_abs toy_ts_provider toy_world_keys (key_triple_new ''app'' TrustedService ''k'') sample_attributes toy_ts_state w'"
proof -
  obtain w' where g: "ts_generate_key toy_ts_provider ''app'' \<lparr>gk_key_name = ''k'', gk_attributes = sample_attributes\<rparr> toy_ts_state = (Inr (), w')"
    using toy_ts_generate by blast
  from ts_generate_key_exact [OF toy_ts_inv g] g show ?thesis by simp
qed



end
