(* ===== verification/Asym_Keys.thy ===== *)
theory Asym_Keys
  imports Parsec_Interface
begin

text \<open>
  What the TPM and the PKCS 11 provider use of other crates for asymmetric keys: the methods of the interface
  crate on key types, algorithms and operations, and the ASN.1 structures of the \<open>picky\<close> crates with their DER encoding.
  The crates are not part of the repository; their functions are the fields of two records.
\<close>

section \<open>The interface crate\<close>

text \<open>\<open>is_public_key\<close>, \<open>is_rsa_alg\<close> and the \<open>validate\<close> methods of the operations.\<close>

record asym_interface =
  key_is_public :: "key_type \<Rightarrow> bool"
  alg_is_rsa :: "asymmetric_signature \<Rightarrow> bool"
  check_sign_hash :: "sign_hash_op \<Rightarrow> attributes \<Rightarrow> unit res"
  check_verify_hash :: "verify_hash_op \<Rightarrow> attributes \<Rightarrow> unit res"
  check_asymmetric_encrypt :: "asymmetric_encrypt_op \<Rightarrow> attributes \<Rightarrow> unit res"
  check_asymmetric_decrypt :: "asymmetric_decrypt_op \<Rightarrow> attributes \<Rightarrow> unit res"

section \<open>ASN.1\<close>

text \<open>\<open>IntegerAsn1\<close> wraps a vector of bytes.\<close>

type_synonym integer_asn1 = bytes

record rsa_public_key =
  rpk_modulus :: integer_asn1
  rpk_public_exponent :: integer_asn1

text \<open>The fields of \<open>RSAPrivateKey\<close> that the sources read.\<close>

record rsa_private_key =
  rsk_modulus :: integer_asn1
  rsk_public_exponent :: integer_asn1
  rsk_prime_1 :: integer_asn1

datatype sha_variant = SHA2_224 | SHA2_256 | SHA2_384 | SHA2_512

record asn1 =
  is_negative :: "integer_asn1 \<Rightarrow> bool"
  as_unsigned_bytes_be :: "integer_asn1 \<Rightarrow> bytes"
  from_bytes_be_unsigned :: "bytes \<Rightarrow> integer_asn1"
  from_bytes_be_signed :: "bytes \<Rightarrow> integer_asn1"
  rsa_public_from_bytes :: "bytes \<Rightarrow> rsa_public_key option"
  rsa_private_from_bytes :: "bytes \<Rightarrow> rsa_private_key option"
  rsa_public_to_vec :: "rsa_public_key \<Rightarrow> bytes option"
  octet_string_from_bytes :: "bytes \<Rightarrow> bytes option"
  octet_string_to_vec :: "bytes \<Rightarrow> bytes option"
  named_curve_to_vec :: "string \<Rightarrow> bytes option"
  digest_info_to_vec :: "sha_variant \<Rightarrow> bytes \<Rightarrow> bytes option"

text \<open>\<open>len * 8\<close> on the \<open>usize\<close> length of a vector.\<close>

definition bit_len :: "bytes \<Rightarrow> usize" where
  "bit_len bs = word_of_nat (length bs) * 8"

section \<open>Samples\<close>

text \<open>Small instances for concrete evaluations.\<close>

definition sample_asn1 :: asn1 where
  "sample_asn1 =
     \<lparr>is_negative = (\<lambda>_. False), as_unsigned_bytes_be = id, from_bytes_be_unsigned = id, from_bytes_be_signed = id,
      rsa_public_from_bytes = (\<lambda>bs. Some \<lparr>rpk_modulus = bs, rpk_public_exponent = [1, 0, 1]\<rparr>),
      rsa_private_from_bytes = (\<lambda>bs. Some \<lparr>rsk_modulus = bs, rsk_public_exponent = [1, 0, 1],
        rsk_prime_1 = take (length bs div 2) bs\<rparr>),
      rsa_public_to_vec = (\<lambda>k. Some (rpk_modulus k)), octet_string_from_bytes = (\<lambda>bs. Some (tl bs)),
      octet_string_to_vec = (\<lambda>bs. Some (4 # bs)), named_curve_to_vec = (\<lambda>_. Some []), digest_info_to_vec = (\<lambda>_ d. Some (7 # d))\<rparr>"

definition sample_asym_interface :: asym_interface where
  "sample_asym_interface =
     \<lparr>key_is_public = (\<lambda>t. t = RsaPublicKey), alg_is_rsa = (\<lambda>a. case a of RsaPkcs1v15Sign _ \<Rightarrow> True | _ \<Rightarrow> False),
      check_sign_hash = (\<lambda>_ _. Inr ()), check_verify_hash = (\<lambda>_ _. Inr ()), check_asymmetric_encrypt = (\<lambda>_ _. Inr ()),
      check_asymmetric_decrypt = (\<lambda>_ _. Inr ())\<rparr>"

end
