(* ===== verification/Tpm_Provider.thy ===== *)
theory Tpm_Provider
  imports Providers Asym_Keys
begin

text \<open>
  The TPM provider (\<open>src/src/providers/tpm\<close>).

  The \<open>tss-esapi\<close> crate is the record \<open>tss\<close> over an opaque state \<open>'t\<close> of the TPM and its context; \<open>'c\<close> is the
  type of saved key contexts and \<open>'tc\<close> that of parsed TCTI strings. A key lives in the key info store: its saved context and its
  authentication value are what the store keeps as identifier of the key.

  The context is behind a mutex. A panic while it is locked poisons it: \<open>tpms_poisoned\<close>. From then on
  every operation that takes the lock panics. The status that comes with a panic is returned to nobody.
\<close>

section \<open>The crate\<close>

datatype tss2_kind =
    KSuccess | KSignature | KObjectMemory | KSessionMemory | KMemory | KRetry
  | KAsymmetric | KHash | KKeySize | KMgf | KMode | KKdf | KScheme | KSymmetric | KCurve | OtherKind nat

datatype tss_error = TssWrapperError nat | Tss2Error "tss2_kind option"

datatype tpm_curve = NistP192 | NistP224 | NistP256 | NistP384 | NistP521

datatype tpm_scheme = RSASSA hash_alg | ECDSA hash_alg | RSAES | RSAOAEP hash_alg

datatype key_params =
    RsaSign u16 tpm_scheme u32
  | RsaEncrypt u16 u32
  | EccParams tpm_scheme tpm_curve

datatype tpm_public_key = PubRsa bytes | PubEcc bytes bytes

datatype signature_data = RsaSignature bytes | EcdsaSignature bytes bytes

record tpm_signature =
  sig_scheme :: tpm_scheme
  sig_data :: signature_data

datatype tpm_cipher = Aes256Cfb | Aes128Cfb

datatype tpm_hierarchy = OwnerHierarchy | OtherHierarchy nat

record 'tc transient_params =
  tr_tcti :: 'tc
  tr_root_key_size :: u16
  tr_root_key_auth_size :: nat
  tr_hierarchy_auth :: bytes
  tr_hierarchy :: tpm_hierarchy
  tr_session_hash_alg :: hash_alg
  tr_default_context_cipher :: tpm_cipher

text \<open>
  \<open>tss_test_parms\<close> acts on the context that \<open>tss_context_new\<close> has opened. The \<open>try_from\<close> functions are the size-checked
  buffer types of the crate.
\<close>

record ('t, 'c, 'tc) tss =
  tss_create_key :: "key_params \<Rightarrow> nat \<Rightarrow> ('t, tss_error, 'c \<times> bytes option) rust_op"
  tss_load_external_rsa_public_key :: "bytes \<Rightarrow> ('t, tss_error, 'c) rust_op"
  tss_load_external_rsa :: "bytes \<Rightarrow> bytes \<Rightarrow> u32 \<Rightarrow> ('t, tss_error, 'c) rust_op"
  tss_read_public_key :: "'c \<Rightarrow> ('t, tss_error, tpm_public_key) rust_op"
  tss_sign :: "'c \<Rightarrow> bytes option \<Rightarrow> bytes \<Rightarrow> ('t, tss_error, tpm_signature) rust_op"
  tss_verify_signature :: "'c \<Rightarrow> bytes \<Rightarrow> tpm_signature \<Rightarrow> ('t, tss_error, unit) rust_op"
  tss_rsa_encrypt :: "'c \<Rightarrow> bytes option \<Rightarrow> bytes \<Rightarrow> tpm_scheme \<Rightarrow> bytes option \<Rightarrow> ('t, tss_error, bytes) rust_op"
  tss_rsa_decrypt :: "'c \<Rightarrow> bytes option \<Rightarrow> bytes \<Rightarrow> tpm_scheme \<Rightarrow> bytes option \<Rightarrow> ('t, tss_error, bytes) rust_op"
  auth_try_from :: "bytes \<Rightarrow> tss_error + bytes"
  digest_try_from :: "bytes \<Rightarrow> tss_error + bytes"
  public_key_rsa_try_from :: "bytes \<Rightarrow> tss_error + bytes"
  data_try_from :: "bytes \<Rightarrow> tss_error + bytes"
  rsa_key_sizes :: "u16 list"
  tcti_from_str :: "string \<Rightarrow> 'tc option"
  tss_context_new :: "'tc \<Rightarrow> ('t, tss_error, unit) rust_op"
  tss_test_parms :: "tpm_cipher \<Rightarrow> ('t, tss_error, unit) rust_op"
  tss_build_transient :: "'tc transient_params \<Rightarrow> ('t, tss_error, unit) rust_op"

fun tpm_response_status :: "tss_error \<Rightarrow> response_status" where
  "tpm_response_status (TssWrapperError _) = PsaErrorCommunicationFailure"
| "tpm_response_status (Tss2Error (Some kind)) =
     (case kind of
        KSuccess \<Rightarrow> Success
      | KSignature \<Rightarrow> PsaErrorInvalidSignature
      | KObjectMemory \<Rightarrow> PsaErrorInsufficientMemory
      | KSessionMemory \<Rightarrow> PsaErrorInsufficientMemory
      | KMemory \<Rightarrow> PsaErrorInsufficientMemory
      | KRetry \<Rightarrow> PsaErrorHardwareFailure
      | KAsymmetric \<Rightarrow> PsaErrorNotSupported
      | KHash \<Rightarrow> PsaErrorNotSupported
      | KKeySize \<Rightarrow> PsaErrorNotSupported
      | KMgf \<Rightarrow> PsaErrorNotSupported
      | KMode \<Rightarrow> PsaErrorNotSupported
      | KKdf \<Rightarrow> PsaErrorNotSupported
      | KScheme \<Rightarrow> PsaErrorNotSupported
      | KSymmetric \<Rightarrow> PsaErrorNotSupported
      | KCurve \<Rightarrow> PsaErrorNotSupported
      | OtherKind _ \<Rightarrow> PsaErrorCommunicationFailure)"
| "tpm_response_status (Tss2Error None) = InvalidEncoding"

section \<open>Conversions\<close>

definition tpm_public_exponent :: u32 where
  "tpm_public_exponent = 0x10001"

definition public_exponent_bytes :: bytes where
  "public_exponent_bytes = [0x01, 0x00, 0x01]"

record 'c password_context =
  pc_context :: 'c
  pc_auth_value :: bytes

fun convert_hash_to_tpm :: "hash_alg \<Rightarrow> hash_alg res" where
  "convert_hash_to_tpm Sha1 = Inr Sha1"
| "convert_hash_to_tpm Sha256 = Inr Sha256"
| "convert_hash_to_tpm Sha384 = Inr Sha384"
| "convert_hash_to_tpm Sha512 = Inr Sha512"
| "convert_hash_to_tpm Sha3_256 = Inr Sha3_256"
| "convert_hash_to_tpm Sha3_384 = Inr Sha3_384"
| "convert_hash_to_tpm Sha3_512 = Inr Sha3_512"
| "convert_hash_to_tpm _ = Inl PsaErrorNotSupported"

fun convert_asym_scheme_to_tpm :: "algorithm \<Rightarrow> tpm_scheme res" where
  "convert_asym_scheme_to_tpm (Alg_AsymmetricSignature (RsaPkcs1v15Sign (Specific h))) =
     try_res (convert_hash_to_tpm h) (\<lambda>h. Inr (RSASSA h))"
| "convert_asym_scheme_to_tpm (Alg_AsymmetricSignature (Ecdsa (Specific h))) =
     try_res (convert_hash_to_tpm h) (\<lambda>h. Inr (ECDSA h))"
| "convert_asym_scheme_to_tpm (Alg_AsymmetricEncryption RsaPkcs1v15Crypt) = Inr RSAES"
| "convert_asym_scheme_to_tpm (Alg_AsymmetricEncryption (RsaOaep h)) =
     try_res (convert_hash_to_tpm h) (\<lambda>h. Inr (RSAOAEP h))"
| "convert_asym_scheme_to_tpm _ = Inl PsaErrorNotSupported"

definition curve_of_bits :: "usize \<Rightarrow> tpm_curve res" where
  "curve_of_bits bits =
     (if bits = 192 then Inr NistP192 else if bits = 224 then Inr NistP224 else if bits = 256 then Inr NistP256
      else if bits = 384 then Inr NistP384 else if bits = 521 then Inr NistP521 else Inl PsaErrorNotSupported)"

definition convert_curve_to_tpm :: "attributes \<Rightarrow> tpm_curve res" where
  "convert_curve_to_tpm key_attributes =
     (case attr_key_type key_attributes of
        EccKeyPair SecpR1 \<Rightarrow> curve_of_bits (attr_bits key_attributes)
      | EccPublicKey SecpR1 \<Rightarrow> curve_of_bits (attr_bits key_attributes)
      | _ \<Rightarrow> Inl PsaErrorNotSupported)"

definition parsec_to_tpm_params :: "asym_interface \<Rightarrow> attributes \<Rightarrow> key_params res" where
  "parsec_to_tpm_params ifc attrs =
     (case attr_key_type attrs of
        RsaKeyPair \<Rightarrow>
          if attr_bits attrs \<notin> {1024, 2048, 3072, 4096} then Inl PsaErrorInvalidArgument
          else
            let size = ucast (attr_bits attrs) in
            (case permitted_algorithms attrs of
               Alg_AsymmetricSignature alg \<Rightarrow>
                 if alg_is_rsa ifc alg
                 then try_res (convert_asym_scheme_to_tpm (permitted_algorithms attrs)) (\<lambda>scheme. Inr (RsaSign size scheme 0))
                 else Inl PsaErrorInvalidArgument
             | Alg_AsymmetricEncryption _ \<Rightarrow> Inr (RsaEncrypt size 0)
             | _ \<Rightarrow> Inl PsaErrorInvalidArgument)
      | EccKeyPair _ \<Rightarrow>
          try_res (convert_asym_scheme_to_tpm (permitted_algorithms attrs)) (\<lambda>scheme.
          try_res (convert_curve_to_tpm attrs) (\<lambda>curve.
          Inr (EccParams scheme curve)))
      | _ \<Rightarrow> Inl PsaErrorNotSupported)"

definition elliptic_curve_point_to_octet_string :: "bytes \<Rightarrow> bytes \<Rightarrow> bytes" where
  "elliptic_curve_point_to_octet_string x y = 0x04 # x @ y"

definition pub_key_to_bytes :: "asn1 \<Rightarrow> tpm_public_key \<Rightarrow> attributes \<Rightarrow> bytes res" where
  "pub_key_to_bytes der pub_key key_attributes =
     (case pub_key of
        PubRsa key \<Rightarrow>
          ok_or (rsa_public_to_vec der
            \<lparr>rpk_modulus = from_bytes_be_unsigned der key,
             rpk_public_exponent = from_bytes_be_signed der public_exponent_bytes\<rparr>) PsaErrorGenericError
      | PubEcc x y \<Rightarrow>
          let p_byte_size = unat (attr_bits key_attributes div 8) in
          if length x \<noteq> p_byte_size \<or> length y \<noteq> p_byte_size then Inl PsaErrorCommunicationFailure
          else Inr (elliptic_curve_point_to_octet_string x y))"

definition signature_data_to_bytes :: "signature_data \<Rightarrow> attributes \<Rightarrow> bytes res" where
  "signature_data_to_bytes data key_attributes =
     (case data of
        RsaSignature signature \<Rightarrow> Inr signature
      | EcdsaSignature r s \<Rightarrow>
          let p_byte_size = unat (attr_bits key_attributes div 8) in
          if length r \<noteq> p_byte_size \<or> length s \<noteq> p_byte_size then Inl PsaErrorGenericError
          else Inr (r @ s))"

definition bytes_to_signature_data :: "bytes \<Rightarrow> attributes \<Rightarrow> signature_data res" where
  "bytes_to_signature_data data key_attributes =
     (let ecdsa =
        let p_size = attr_bits key_attributes div 8 in
        if length data \<noteq> unat (p_size * 2) then Inl PsaErrorInvalidArgument
        else Inr (EcdsaSignature (take (unat p_size) data) (drop (unat p_size) data))
      in case attr_key_type key_attributes of
        RsaKeyPair \<Rightarrow> Inr (RsaSignature data)
      | RsaPublicKey \<Rightarrow> Inr (RsaSignature data)
      | EccKeyPair _ \<Rightarrow> ecdsa
      | EccPublicKey _ \<Rightarrow> ecdsa
      | _ \<Rightarrow> Inl PsaErrorNotSupported)"

definition parsec_to_tpm_signature :: "bytes \<Rightarrow> attributes \<Rightarrow> asymmetric_signature \<Rightarrow> tpm_signature res" where
  "parsec_to_tpm_signature data key_attributes signature_alg =
     try_res (convert_asym_scheme_to_tpm (Alg_AsymmetricSignature signature_alg)) (\<lambda>scheme.
     try_res (bytes_to_signature_data data key_attributes) (\<lambda>signature.
     Inr \<lparr>sig_scheme = scheme, sig_data = signature\<rparr>))"

definition validate_public_key :: "asn1 \<Rightarrow> u16 list \<Rightarrow> rsa_public_key \<Rightarrow> attributes \<Rightarrow> unit res" where
  "validate_public_key der sizes public_key attrs =
     (if is_negative der (rpk_modulus public_key) \<or> is_negative der (rpk_public_exponent public_key)
      then Inl PsaErrorInvalidArgument
      else if as_unsigned_bytes_be der (rpk_public_exponent public_key) \<noteq> public_exponent_bytes
      then Inl PsaErrorNotSupported
      else
        let len8 = bit_len (as_unsigned_bytes_be der (rpk_modulus public_key)); key_bits = attr_bits attrs in
        if key_bits \<noteq> 0 \<and> len8 \<noteq> key_bits then Inl PsaErrorInvalidArgument
        else if ucast len8 \<notin> set sizes then Inl PsaErrorNotSupported
        else Inr ())"

definition validate_private_key :: "asn1 \<Rightarrow> rsa_private_key \<Rightarrow> attributes \<Rightarrow> unit res" where
  "validate_private_key der private_key attrs =
     (if as_unsigned_bytes_be der (rsk_public_exponent private_key) \<noteq> public_exponent_bytes then Inl PsaErrorInvalidArgument
      else if bit_len (as_unsigned_bytes_be der (rsk_prime_1 private_key)) \<noteq> attr_bits attrs div 2
      then Inl PsaErrorInvalidArgument
      else Inr ())"

section \<open>The provider\<close>

record ('m, 't, 'c, 'tc) tpm_provider =
  tpmp_key_info_store :: "'m kim_client"
  tpmp_tss :: "('t, 'c, 'tc) tss"
  tpmp_interface :: asym_interface
  tpmp_asn1 :: asn1
  tpmp_id_codec :: "'c password_context id_codec"
  tpmp_uuid_parse :: "string \<Rightarrow> bytes option"

record ('m, 't) tpm_state =
  tpms_kim :: 'm
  tpms_esapi_context :: 't
  tpms_poisoned :: bool

definition tpm_supported_opcodes :: "opcode list" where
  "tpm_supported_opcodes =
     [PsaGenerateKey, PsaDestroyKey, PsaSignHash, PsaVerifyHash, PsaImportKey, PsaExportPublicKey,
      PsaAsymmetricDecrypt, PsaAsymmetricEncrypt]"

definition tpm_panic :: "(('m, 't) tpm_state, 'a) res_op" where
  "tpm_panic w = (Inl PsaErrorGenericError, w\<lparr>tpms_poisoned := True\<rparr>)"

definition lock_esapi :: "(('m, 't) tpm_state, 'a) res_op \<Rightarrow> (('m, 't) tpm_state, 'a) res_op" where
  "lock_esapi f w = (if tpms_poisoned w then tpm_panic w else f w)"

definition tpm_on_kim :: "('m, 'a) res_op \<Rightarrow> (('m, 't) tpm_state, 'a) res_op" where
  "tpm_on_kim f w = (case f (tpms_kim w) of (r, m) \<Rightarrow> (r, w\<lparr>tpms_kim := m\<rparr>))"

definition tpm_ask_kim :: "('m \<Rightarrow> 'a res) \<Rightarrow> (('m, 't) tpm_state, 'a) res_op" where
  "tpm_ask_kim f w = (f (tpms_kim w), w)"

definition on_tss :: "('t, tss_error, 'a) rust_op \<Rightarrow> (('m, 't) tpm_state, 'a) res_op" where
  "on_tss f w = (case f (tpms_esapi_context w) of (r, t) \<Rightarrow> (map_err tpm_response_status r, w\<lparr>tpms_esapi_context := t\<rparr>))"

definition tss_res :: "tss_error + 'a \<Rightarrow> (('m, 't) tpm_state, 'a) res_op" where
  "tss_res r = read_op (\<lambda>_. map_err tpm_response_status r)"

definition tpm_triple :: "application_name \<Rightarrow> string \<Rightarrow> key_triple" where
  "tpm_triple app name = key_triple_new app Tpm name"

definition auth_val_len :: nat where
  "auth_val_len = 32"

definition tpm_store ::
  "('m, 't, 'c, 'tc) tpm_provider \<Rightarrow> key_triple \<Rightarrow> 'c \<Rightarrow> bytes \<Rightarrow> attributes \<Rightarrow> (('m, 't) tpm_state, unit) res_op" where
  "tpm_store self kt context auth_value attrs =
     tpm_on_kim (insert_key_info (tpmp_id_codec self) (tpmp_key_info_store self) kt
       \<lparr>pc_context = context, pc_auth_value = auth_value\<rparr> attrs)"

definition tpm_generate_key ::
  "('m, 't, 'c, 'tc) tpm_provider \<Rightarrow> application_name \<Rightarrow> generate_key_op \<Rightarrow> (('m, 't) tpm_state, unit) res_op" where
  "tpm_generate_key self app op =
     (let attrs = gk_attributes op; kt = tpm_triple app (gk_key_name op) in
      try_op (tpm_ask_kim (\<lambda>m. does_not_exist (tpmp_key_info_store self) m kt)) (\<lambda>_.
      if key_is_public (tpmp_interface self) (attr_key_type attrs) then err_op PsaErrorInvalidArgument
      else
        lock_esapi (
        try_op (read_op (\<lambda>_. parsec_to_tpm_params (tpmp_interface self) attrs)) (\<lambda>params.
        try_op (on_tss (tss_create_key (tpmp_tss self) params auth_val_len)) (\<lambda>(key_context, auth_value).
        (case auth_value of
           None \<Rightarrow> tpm_panic
         | Some auth_value \<Rightarrow> tpm_store self kt key_context auth_value attrs))))))"

text \<open>The only policy under which keys can be imported.\<close>

definition import_policy_ok :: "attributes \<Rightarrow> bool" where
  "import_policy_ok attrs \<longleftrightarrow>
     permitted_algorithms attrs = Alg_AsymmetricSignature (RsaPkcs1v15Sign (Specific Sha256))"

definition tpm_import_key_rsa_public ::
  "('m, 't, 'c, 'tc) tpm_provider \<Rightarrow> application_name \<Rightarrow> import_key_op \<Rightarrow> (('m, 't) tpm_state, unit) res_op" where
  "tpm_import_key_rsa_public self app op =
     (let attrs = ik_attributes op; kt = tpm_triple app (ik_key_name op); der = tpmp_asn1 self; ts = tpmp_tss self in
      if \<not> import_policy_ok attrs then err_op PsaErrorNotSupported
      else
        try_op (tpm_ask_kim (\<lambda>m. does_not_exist (tpmp_key_info_store self) m kt)) (\<lambda>_.
        lock_esapi (
        try_op (read_op (\<lambda>_. ok_or (rsa_public_from_bytes der (ik_data op)) PsaErrorInvalidArgument)) (\<lambda>public_key.
        try_op (read_op (\<lambda>_. validate_public_key der (rsa_key_sizes ts) public_key attrs)) (\<lambda>_.
        try_op (on_tss (tss_load_external_rsa_public_key ts (as_unsigned_bytes_be der (rpk_modulus public_key)))) (\<lambda>context.
        tpm_store self kt context [] attrs))))))"

definition tpm_import_key_rsa_keypair ::
  "('m, 't, 'c, 'tc) tpm_provider \<Rightarrow> application_name \<Rightarrow> import_key_op \<Rightarrow> (('m, 't) tpm_state, unit) res_op" where
  "tpm_import_key_rsa_keypair self app op =
     (let attrs = ik_attributes op; kt = tpm_triple app (ik_key_name op); der = tpmp_asn1 self; ts = tpmp_tss self in
      if \<not> import_policy_ok attrs then err_op PsaErrorNotSupported
      else
        try_op (tpm_ask_kim (\<lambda>m. does_not_exist (tpmp_key_info_store self) m kt)) (\<lambda>_.
        lock_esapi (
        try_op (read_op (\<lambda>_. ok_or (rsa_private_from_bytes der (ik_data op)) PsaErrorInvalidArgument)) (\<lambda>private_key.
        try_op (read_op (\<lambda>_. validate_public_key der (rsa_key_sizes ts)
          \<lparr>rpk_modulus = rsk_modulus private_key, rpk_public_exponent = rsk_public_exponent private_key\<rparr> attrs)) (\<lambda>_.
        try_op (read_op (\<lambda>_. validate_private_key der private_key attrs)) (\<lambda>_.
        try_op (on_tss (tss_load_external_rsa ts (as_unsigned_bytes_be der (rsk_prime_1 private_key))
          (as_unsigned_bytes_be der (rsk_modulus private_key)) tpm_public_exponent)) (\<lambda>context.
        tpm_store self kt context [] attrs)))))))"

definition tpm_import_key ::
  "('m, 't, 'c, 'tc) tpm_provider \<Rightarrow> application_name \<Rightarrow> import_key_op \<Rightarrow> (('m, 't) tpm_state, unit) res_op" where
  "tpm_import_key self app op =
     (case attr_key_type (ik_attributes op) of
        RsaPublicKey \<Rightarrow> tpm_import_key_rsa_public self app op
      | RsaKeyPair \<Rightarrow> tpm_import_key_rsa_keypair self app op
      | _ \<Rightarrow> err_op PsaErrorNotSupported)"

text \<open>Every operation that uses a key locks the context and then reads the identifier and the attributes of the key.\<close>

definition with_key ::
  "('m, 't, 'c, 'tc) tpm_provider \<Rightarrow> application_name \<Rightarrow> string \<Rightarrow>
   ('c password_context \<Rightarrow> attributes \<Rightarrow> (('m, 't) tpm_state, 'a) res_op) \<Rightarrow> (('m, 't) tpm_state, 'a) res_op" where
  "with_key self app name k =
     lock_esapi (
     try_op (tpm_ask_kim (\<lambda>m. get_key_id (tpmp_id_codec self) (tpmp_key_info_store self) m (tpm_triple app name))) (\<lambda>password_context.
     try_op (tpm_ask_kim (\<lambda>m. get_key_attributes (tpmp_key_info_store self) m (tpm_triple app name))) (\<lambda>key_attributes.
     k password_context key_attributes)))"

definition tpm_export_public_key ::
  "('m, 't, 'c, 'tc) tpm_provider \<Rightarrow> application_name \<Rightarrow> string \<Rightarrow> (('m, 't) tpm_state, bytes) res_op" where
  "tpm_export_public_key self app name =
     with_key self app name (\<lambda>password_context key_attributes.
     try_op (on_tss (tss_read_public_key (tpmp_tss self) (pc_context password_context))) (\<lambda>pub_key_data.
     read_op (\<lambda>_. pub_key_to_bytes (tpmp_asn1 self) pub_key_data key_attributes)))"

definition tpm_destroy_key ::
  "('m, 't, 'c, 'tc) tpm_provider \<Rightarrow> application_name \<Rightarrow> string \<Rightarrow> (('m, 't) tpm_state, unit) res_op" where
  "tpm_destroy_key self app name = tpm_on_kim (remove_key_info (tpmp_key_info_store self) (tpm_triple app name))"

definition supported_signature :: "asymmetric_signature \<Rightarrow> unit res" where
  "supported_signature alg =
     (case alg of RsaPkcs1v15Sign _ \<Rightarrow> Inr () | Ecdsa _ \<Rightarrow> Inr () | _ \<Rightarrow> Inl PsaErrorNotSupported)"

definition tpm_sign_hash ::
  "('m, 't, 'c, 'tc) tpm_provider \<Rightarrow> application_name \<Rightarrow> sign_hash_op \<Rightarrow> (('m, 't) tpm_state, bytes) res_op" where
  "tpm_sign_hash self app op =
     with_key self app (sh_key_name op) (\<lambda>password_context key_attributes.
     try_op (read_op (\<lambda>_. supported_signature (sh_alg op))) (\<lambda>_.
     try_op (read_op (\<lambda>_. check_sign_hash (tpmp_interface self) op key_attributes)) (\<lambda>_.
     try_op (tss_res (auth_try_from (tpmp_tss self) (pc_auth_value password_context))) (\<lambda>auth.
     try_op (tss_res (digest_try_from (tpmp_tss self) (sh_hash op))) (\<lambda>digest.
     try_op (on_tss (tss_sign (tpmp_tss self) (pc_context password_context) (Some auth) digest)) (\<lambda>signature.
     read_op (\<lambda>_. signature_data_to_bytes (sig_data signature) key_attributes)))))))"

definition tpm_verify_hash ::
  "('m, 't, 'c, 'tc) tpm_provider \<Rightarrow> application_name \<Rightarrow> verify_hash_op \<Rightarrow> (('m, 't) tpm_state, unit) res_op" where
  "tpm_verify_hash self app op =
     with_key self app (vh_key_name op) (\<lambda>password_context key_attributes.
     try_op (read_op (\<lambda>_. supported_signature (vh_alg op))) (\<lambda>_.
     try_op (read_op (\<lambda>_. check_verify_hash (tpmp_interface self) op key_attributes)) (\<lambda>_.
     try_op (read_op (\<lambda>_. parsec_to_tpm_signature (vh_signature op) key_attributes (vh_alg op))) (\<lambda>signature.
     try_op (tss_res (digest_try_from (tpmp_tss self) (vh_hash op))) (\<lambda>digest.
     on_tss (tss_verify_signature (tpmp_tss self) (pc_context password_context) digest signature))))))"

definition salt_try_from :: "('t, 'c, 'tc) tss \<Rightarrow> bytes option \<Rightarrow> tss_error + bytes option" where
  "salt_try_from ts salt = (case salt of Some s \<Rightarrow> try_res (data_try_from ts s) (\<lambda>d. Inr (Some d)) | None \<Rightarrow> Inr None)"

definition tpm_asymmetric_encrypt ::
  "('m, 't, 'c, 'tc) tpm_provider \<Rightarrow> application_name \<Rightarrow> asymmetric_encrypt_op \<Rightarrow> (('m, 't) tpm_state, bytes) res_op" where
  "tpm_asymmetric_encrypt self app op =
     with_key self app (ae_key_name op) (\<lambda>password_context key_attributes.
     try_op (read_op (\<lambda>_. check_asymmetric_encrypt (tpmp_interface self) op key_attributes)) (\<lambda>_.
     try_op (tss_res (auth_try_from (tpmp_tss self) (pc_auth_value password_context))) (\<lambda>auth.
     try_op (tss_res (public_key_rsa_try_from (tpmp_tss self) (ae_plaintext op))) (\<lambda>plaintext.
     try_op (read_op (\<lambda>_. convert_asym_scheme_to_tpm (Alg_AsymmetricEncryption (ae_alg op)))) (\<lambda>scheme.
     try_op (tss_res (salt_try_from (tpmp_tss self) (ae_salt op))) (\<lambda>salt.
     on_tss (tss_rsa_encrypt (tpmp_tss self) (pc_context password_context) (Some auth) plaintext scheme salt)))))))"

definition tpm_asymmetric_decrypt ::
  "('m, 't, 'c, 'tc) tpm_provider \<Rightarrow> application_name \<Rightarrow> asymmetric_decrypt_op \<Rightarrow> (('m, 't) tpm_state, bytes) res_op" where
  "tpm_asymmetric_decrypt self app op =
     with_key self app (ad_key_name op) (\<lambda>password_context key_attributes.
     try_op (read_op (\<lambda>_. check_asymmetric_decrypt (tpmp_interface self) op key_attributes)) (\<lambda>_.
     try_op (tss_res (auth_try_from (tpmp_tss self) (pc_auth_value password_context))) (\<lambda>auth.
     try_op (tss_res (public_key_rsa_try_from (tpmp_tss self) (ad_ciphertext op))) (\<lambda>ciphertext.
     try_op (read_op (\<lambda>_. convert_asym_scheme_to_tpm (Alg_AsymmetricEncryption (ad_alg op)))) (\<lambda>scheme.
     try_op (tss_res (salt_try_from (tpmp_tss self) (ad_salt op))) (\<lambda>salt.
     on_tss (tss_rsa_decrypt (tpmp_tss self) (pc_context password_context) (Some auth) ciphertext scheme salt)))))))"

section \<open>The trait implementation\<close>

definition tpm_describe :: "('m, 't, 'c, 'tc) tpm_provider \<Rightarrow> (provider_info \<times> opcode fset) res" where
  "tpm_describe self =
     try_res (ok_or (tpmp_uuid_parse self ''1e4954a4-ff21-46d3-ab0c-661eeb667e1d'') InvalidEncoding) (\<lambda>uuid.
     Inr (\<lparr>pi_uuid = uuid,
           pi_description = ''TPM provider, interfacing with a library implementing the TCG TSS 2.0 Enhanced '' @
             ''System API specification.'',
           pi_vendor = ''Trusted Computing Group (TCG)'', pi_version_maj = 0, pi_version_min = 1, pi_version_rev = 0,
           pi_id = Tpm\<rparr>,
          fset_of_list tpm_supported_opcodes))"

definition tpm_list_keys ::
  "('m, 't, 'c, 'tc) tpm_provider \<Rightarrow> application_name \<Rightarrow> (('m, 't) tpm_state, listed_key list) res_op" where
  "tpm_list_keys self app = tpm_ask_kim (\<lambda>m. kim_list_keys (tpmp_key_info_store self) m app)"

definition tpm_list_clients :: "('m, 't, 'c, 'tc) tpm_provider \<Rightarrow> (('m, 't) tpm_state, string list) res_op" where
  "tpm_list_clients self = tpm_ask_kim (kim_list_clients (tpmp_key_info_store self))"

definition tpm_provide :: "('m, 't, 'c, 'tc) tpm_provider \<Rightarrow> ('m, 't) tpm_state provide" where
  "tpm_provide self =
     (default_provide (Some (tpm_describe self)) (tpm_list_keys self) (tpm_list_clients self))
       \<lparr>p_psa_generate_key := tpm_generate_key self, p_psa_import_key := tpm_import_key self,
        p_psa_export_public_key := tpm_export_public_key self, p_psa_destroy_key := tpm_destroy_key self,
        p_psa_sign_hash := tpm_sign_hash self, p_psa_verify_hash := tpm_verify_hash self,
        p_psa_asymmetric_encrypt := tpm_asymmetric_encrypt self,
        p_psa_asymmetric_decrypt := tpm_asymmetric_decrypt self\<rparr>"

section \<open>The builder\<close>

record 'm tpm_builder_state =
  tpmb_key_info_store :: "'m kim_client option"
  tpmb_tcti :: "string option"
  tpmb_owner_hierarchy_auth :: "string option"

definition tpm_builder_new :: "'m tpm_builder_state" where
  "tpm_builder_new = \<lparr>tpmb_key_info_store = None, tpmb_tcti = None, tpmb_owner_hierarchy_auth = None\<rparr>"

definition tpm_with_key_info_store :: "'m tpm_builder_state \<Rightarrow> 'm kim_client \<Rightarrow> 'm tpm_builder_state" where
  "tpm_with_key_info_store self store = self\<lparr>tpmb_key_info_store := Some store\<rparr>"

definition tpm_with_tcti :: "'m tpm_builder_state \<Rightarrow> string \<Rightarrow> 'm tpm_builder_state" where
  "tpm_with_tcti self tcti = self\<lparr>tpmb_tcti := Some tcti\<rparr>"

definition tpm_with_owner_hierarchy_auth :: "'m tpm_builder_state \<Rightarrow> string \<Rightarrow> 'm tpm_builder_state" where
  "tpm_with_owner_hierarchy_auth self auth = self\<lparr>tpmb_owner_hierarchy_auth := Some auth\<rparr>"

text \<open>
  The prefixes \<open>str:\<close> and \<open>hex:\<close> have the same length, which the code relies on. \<open>hex_decode\<close> is \<open>hex::decode\<close>.
\<close>

definition auth_string_prefix :: string where "auth_string_prefix = ''str:''"

definition auth_hex_prefix :: string where "auth_hex_prefix = ''hex:''"

definition get_hierarchy_auth ::
  "(string \<Rightarrow> bytes option) \<Rightarrow> 'm tpm_builder_state \<Rightarrow> (string + bytes) \<times> 'm tpm_builder_state" where
  "get_hierarchy_auth hex_decode self =
     (case tpmb_owner_hierarchy_auth self of
        None \<Rightarrow> Inl ''missing owner hierarchy auth''
      | Some auth \<Rightarrow>
          if take (length auth_string_prefix) auth = auth_string_prefix
          then Inr (as_bytes (drop (length auth_string_prefix) auth))
          else if take (length auth_hex_prefix) auth = auth_hex_prefix
          then ok_or (hex_decode (drop (length auth_string_prefix) auth)) ''invalid hex owner hierarchy auth''
          else Inr (as_bytes auth),
      self\<lparr>tpmb_owner_hierarchy_auth := None\<rparr>)"

fun first_cipher :: "('t, 'c, 'tc) tss \<Rightarrow> tpm_cipher list \<Rightarrow> ('t, string, tpm_cipher) rust_op" where
  "first_cipher ts [] t = (Inl ''desired ciphers not supported'', t)"
| "first_cipher ts (cipher # ciphers) t =
     (case tss_test_parms ts cipher t of
        (Inr _, t1) \<Rightarrow> (Inr cipher, t1)
      | (Inl _, t1) \<Rightarrow> first_cipher ts ciphers t1)"

definition parse_tcti :: "('t, 'c, 'tc) tss \<Rightarrow> 'm tpm_builder_state \<Rightarrow> string + 'tc" where
  "parse_tcti ts self =
     try_res (ok_or (tpmb_tcti self) ''TCTI configuration missing'') (\<lambda>tcti.
     ok_or (tcti_from_str ts tcti) ''Invalid TCTI configuration string'')"

definition find_default_context_cipher ::
  "('t, 'c, 'tc) tss \<Rightarrow> 'm tpm_builder_state \<Rightarrow> ('t, string, tpm_cipher) rust_op" where
  "find_default_context_cipher ts self =
     try_op (read_op (\<lambda>_. parse_tcti ts self)) (\<lambda>tcti.
     try_op (\<lambda>t. case tss_context_new ts tcti t of (r, t') \<Rightarrow> (map_err (\<lambda>_. ''failed initializing TSS context'') r, t')) (\<lambda>_.
     first_cipher ts [Aes256Cfb, Aes128Cfb]))"

definition root_key_size :: u16 where "root_key_size = 2048"

definition root_key_auth_size :: nat where "root_key_auth_size = 32"

text \<open>\<open>mk\<close> puts the provider together from the store, with the crates in use.\<close>

definition tpm_build ::
  "('m kim_client \<Rightarrow> ('m, 't, 'c, 'tc) tpm_provider) \<Rightarrow> (string \<Rightarrow> bytes option) \<Rightarrow> ('t, 'c, 'tc) tss \<Rightarrow>
   'm tpm_builder_state \<Rightarrow> ('t, string, ('m, 't, 'c, 'tc) tpm_provider) rust_op" where
  "tpm_build mk hex_decode ts builder =
     (case get_hierarchy_auth hex_decode builder of
        (Inl e, _) \<Rightarrow> err_op e
      | (Inr hierarchy_auth, self) \<Rightarrow>
          try_op (find_default_context_cipher ts self) (\<lambda>default_cipher.
          try_op (read_op (\<lambda>_. parse_tcti ts self)) (\<lambda>tcti.
          try_op (read_op (\<lambda>_. ok_or (tpmb_key_info_store self) ''missing key info store'')) (\<lambda>store.
          try_op (\<lambda>t. case tss_build_transient ts
              \<lparr>tr_tcti = tcti, tr_root_key_size = root_key_size, tr_root_key_auth_size = root_key_auth_size,
               tr_hierarchy_auth = hierarchy_auth, tr_hierarchy = OwnerHierarchy, tr_session_hash_alg = Sha256,
               tr_default_context_cipher = default_cipher\<rparr> t of
            (r, t') \<Rightarrow> (map_err (\<lambda>_. ''failed initializing TSS context'') r, t')) (\<lambda>_.
          ok_op (mk store))))))"

text \<open>\<open>Provider::new\<close>: the state of a new provider.\<close>

definition tpm_new :: "'m \<Rightarrow> 't \<Rightarrow> ('m, 't) tpm_state" where
  "tpm_new m esapi_context = \<lparr>tpms_kim = m, tpms_esapi_context = esapi_context, tpms_poisoned = False\<rparr>"

end
