(* ===== verification/Tpm_Keys.thy ===== *)
theory Tpm_Keys
  imports Tpm_Provider Key_Numbers
begin

text \<open>
  The keys of the TPM provider: the invariant, that no operation poisons the lock of the context or touches a mapping of another
  application, and what creating and destroying a key do. Everything is proved for an arbitrary key info manager
  and holds for the on-disk manager through \<open>odm\<close>.
\<close>

section \<open>The invariant\<close>

text \<open>
  The documentation of \<open>create_key\<close>: if the length of the authentication value is not zero, there is one.
\<close>

definition gives_auth :: "('t, 'c, 'tc) tss \<Rightarrow> bool" where
  "gives_auth ts \<longleftrightarrow>
     (\<forall>params n t c a t'. 0 < n \<longrightarrow> tss_create_key ts params n t = (Inr (c, a), t') \<longrightarrow> a \<noteq> None)"

definition tpm_setup :: "'m manage_key_info \<Rightarrow> ('m, 't, 'c, 'tc) tpm_provider \<Rightarrow> bool" where
  "tpm_setup ops self \<longleftrightarrow>
     kc_impl (tpmp_key_info_store self) = ops \<and> kc_provider_id (tpmp_key_info_store self) = Tpm \<and>
     gives_auth (tpmp_tss self) \<and> id_codec_ok (tpmp_id_codec self)"

definition tpm_inv ::
  "'m manage_key_info \<Rightarrow> ('m \<Rightarrow> bool) \<Rightarrow> ('m, 't, 'c, 'tc) tpm_provider \<Rightarrow> ('m, 't) tpm_state \<Rightarrow> bool" where
  "tpm_inv ops I self w \<longleftrightarrow> tpm_setup ops self \<and> I (tpms_kim w) \<and> \<not> tpms_poisoned w"

definition tpm_view ::
  "('m \<Rightarrow> key_triple \<Rightarrow> key_info option) \<Rightarrow> application_name \<Rightarrow> ('m, 't) tpm_state \<Rightarrow>
   provider_id \<Rightarrow> string \<Rightarrow> key_info option" where
  "tpm_view mp n w = (\<lambda>pid name. mp (tpms_kim w) (key_triple_new n pid name))"

lemma tpm_setupD:
  assumes "tpm_setup ops self"
  shows "kc_impl (tpmp_key_info_store self) = ops" "kc_provider_id (tpmp_key_info_store self) = Tpm"
    "gives_auth (tpmp_tss self)" "id_codec_ok (tpmp_id_codec self)"
  using assms by (simp_all add: tpm_setup_def)

lemma tpm_invD:
  assumes "tpm_inv ops I self w"
  shows "tpm_setup ops self" "I (tpms_kim w)" "\<not> tpms_poisoned w"
  using assms by (simp_all add: tpm_inv_def)

lemma gives_authD: "gives_auth ts \<Longrightarrow> tss_create_key ts params auth_val_len t = (Inr (c, a), t') \<Longrightarrow> a \<noteq> None"
  unfolding gives_auth_def auth_val_len_def by (metis zero_less_numeral)

lemma tpm_triple_sel [simp]:
  "kt_app_name (tpm_triple app name) = app" "kt_provider_id (tpm_triple app name) = Tpm"
  by (simp_all add: tpm_triple_def)

section \<open>Operations that change no mapping\<close>

lemma keeps_lock_esapi:
  assumes "keeps (tpm_inv ops I self) view V f"
  shows "keeps (tpm_inv ops I self) view V (lock_esapi f)"
proof (rule keepsI)
  fix w r w'
  assume w: "tpm_inv ops I self w" and "lock_esapi f w = (r, w')"
  then have "f w = (r, w')" by (simp add: lock_esapi_def tpm_inv_def)
  from keepsD [OF assms w this] show "tpm_inv ops I self w' \<and> (\<forall>n \<in> V. view n w' = view n w)" .
qed

lemma keeps_tpm_ask_kim [simp]: "keeps J view V (tpm_ask_kim f)"
  by (rule keeps_read) (simp add: tpm_ask_kim_def)

lemma keeps_tss_res [simp]: "keeps J view V (tss_res r)"
  by (simp add: tss_res_def)

lemma keeps_on_tss [simp]: "keeps (tpm_inv ops I self) (tpm_view mp) V (on_tss f)"
  by (rule keepsI) (auto simp: on_tss_def tpm_inv_def tpm_view_def split: prod.splits)

lemma keeps_with_key:
  "(\<And>pc attrs. keeps (tpm_inv ops I self) (tpm_view mp) V (k pc attrs)) \<Longrightarrow>
   keeps (tpm_inv ops I self) (tpm_view mp) V (with_key self app name k)"
  unfolding with_key_def by (intro keeps_lock_esapi keeps_try_op keeps_tpm_ask_kim)

lemma keeps_tpm_use:
  "keeps (tpm_inv ops I self) (tpm_view mp) V (tpm_export_public_key self app name)"
  "keeps (tpm_inv ops I self) (tpm_view mp) V (tpm_sign_hash self app op1)"
  "keeps (tpm_inv ops I self) (tpm_view mp) V (tpm_verify_hash self app op2)"
  "keeps (tpm_inv ops I self) (tpm_view mp) V (tpm_asymmetric_encrypt self app op3)"
  "keeps (tpm_inv ops I self) (tpm_view mp) V (tpm_asymmetric_decrypt self app op4)"
  unfolding tpm_export_public_key_def tpm_sign_hash_def tpm_verify_hash_def tpm_asymmetric_encrypt_def
    tpm_asymmetric_decrypt_def
  by (intro keeps_with_key keeps_try_op keeps_on_tss keeps_tss_res keeps_read_op)+

section \<open>Creating and destroying keys\<close>

text \<open>A step whose continuation only has to be considered for results that the step can have.\<close>

lemma keeps_try_op_result:
  assumes "keeps J view V f" and "\<And>x w w'. f w = (Inr x, w') \<Longrightarrow> keeps J view V (k x)"
  shows "keeps J view V (try_op f k)"
proof (rule keepsI)
  fix w r w'
  assume w: "J w" and run: "try_op f k w = (r, w')"
  obtain q w1 where f: "f w = (q, w1)" by fastforce
  note K1 = keepsD [OF assms(1) w f]
  show "J w' \<and> (\<forall>n \<in> V. view n w' = view n w)"
  proof (cases q)
    case (Inl e)
    with run f K1 show ?thesis by (simp add: try_op_def)
  next
    case (Inr x)
    with run f have "k x w1 = (r, w')" by (simp add: try_op_def)
    from keepsD [OF assms(2) [OF f [unfolded Inr]] conjunct1 [OF K1] this] K1 show ?thesis by simp
  qed
qed

text \<open>What a successful creation leaves behind.\<close>

definition tpm_stored ::
  "('m \<Rightarrow> key_triple \<Rightarrow> key_info option) \<Rightarrow> ('m, 't, 'c, 'tc) tpm_provider \<Rightarrow> key_triple \<Rightarrow> attributes \<Rightarrow>
   'c \<Rightarrow> bytes \<Rightarrow> ('m, 't) tpm_state \<Rightarrow> ('m, 't) tpm_state \<Rightarrow> bool" where
  "tpm_stored mp self kt attrs context auth w w' \<longleftrightarrow>
     kt \<notin> dom (mp (tpms_kim w)) \<and>
     (\<exists>info. mp (tpms_kim w') = (mp (tpms_kim w))(kt \<mapsto> info) \<and> ki_attributes info = attrs \<and>
        id_deserialize (tpmp_id_codec self) (ki_id info) = Inr \<lparr>pc_context = context, pc_auth_value = auth\<rparr>)"

context key_info_manager
begin

lemma keeps_tpm_store:
  "keeps (tpm_inv ops inv self) (tpm_view abs) (- {kt_app_name kt}) (tpm_store self kt c a attrs)"
proof (rule keepsI)
  fix w r w'
  assume w: "tpm_inv ops inv self w" and "tpm_store self kt c a attrs w = (r, w')"
  then obtain m where ins: "insert_key_info (tpmp_id_codec self) (tpmp_key_info_store self) kt
      \<lparr>pc_context = c, pc_auth_value = a\<rparr> attrs (tpms_kim w) = (r, m)" and w': "w' = w\<lparr>tpms_kim := m\<rparr>"
    by (auto simp: tpm_store_def tpm_on_kim_def split: prod.splits)
  note D = tpm_invD [OF w]
  note S = tpm_setupD [OF D(1)]
  have "abs m = abs (tpms_kim w) \<or> (\<exists>v. abs m = (abs (tpms_kim w))(kt := v))"
  proof (cases r)
    case (Inl e)
    from insert_key_info_Inl [OF D(2) S(1) ins [unfolded Inl]] show ?thesis by blast
  next
    case (Inr u)
    with ins insert_key_info_Inr [OF D(2) S(1)] show ?thesis by (metis (full_types) unit.exhaust)
  qed
  with D insert_key_info_inv [OF D(2) S(1) ins]
  show "tpm_inv ops inv self w' \<and> (\<forall>n \<in> - {kt_app_name kt}. tpm_view abs n w' = tpm_view abs n w)"
    by (auto simp: w' tpm_inv_def tpm_view_def fun_eq_iff)
qed

lemma keeps_create_and_store:
  assumes "tpm_setup ops self" and "kt_app_name kt = app"
  shows "keeps (tpm_inv ops inv self) (tpm_view abs) (- {app})
    (try_op (on_tss (tss_create_key (tpmp_tss self) params auth_val_len)) (\<lambda>(key_context, auth_value).
       case auth_value of None \<Rightarrow> tpm_panic | Some auth_value \<Rightarrow> tpm_store self kt key_context auth_value attrs))"
proof (rule keeps_try_op_result [OF keeps_on_tss])
  fix x w w'
  assume "on_tss (tss_create_key (tpmp_tss self) params auth_val_len) w = (Inr x, w')"
  then obtain c a t where x: "x = (c, a)"
    and "tss_create_key (tpmp_tss self) params auth_val_len (tpms_esapi_context w) = (Inr (c, a), t)"
    by (cases x) (auto simp: on_tss_def map_err_def split: prod.splits sum.splits)
  from gives_authD [OF tpm_setupD(3) [OF assms(1)] this(2)] obtain b where "a = Some b" by blast
  with x keeps_tpm_store [of self kt] assms(2)
  show "keeps (tpm_inv ops inv self) (tpm_view abs) (- {app})
    (case x of (key_context, auth_value) \<Rightarrow>
       case auth_value of None \<Rightarrow> tpm_panic | Some auth_value \<Rightarrow> tpm_store self kt key_context auth_value attrs)" by simp
qed

lemma keeps_tpm_generate_key:
  "keeps (tpm_inv ops inv self) (tpm_view abs) (- {app}) (tpm_generate_key self app op)"
proof (cases "tpm_setup ops self")
  case True
  have k: "keeps (tpm_inv ops inv self) (tpm_view abs) (- {app})
    (lock_esapi (try_op (read_op (\<lambda>_. parsec_to_tpm_params (tpmp_interface self) (gk_attributes op))) (\<lambda>params.
      try_op (on_tss (tss_create_key (tpmp_tss self) params auth_val_len)) (\<lambda>(key_context, auth_value).
        case auth_value of None \<Rightarrow> tpm_panic
        | Some auth_value \<Rightarrow> tpm_store self (tpm_triple app (gk_key_name op)) key_context auth_value (gk_attributes op)))))"
    by (intro keeps_lock_esapi keeps_try_op keeps_read_op keeps_create_and_store [OF True]) simp
  show ?thesis
    unfolding tpm_generate_key_def Let_def
    by (rule keeps_try_op [OF keeps_tpm_ask_kim]) (use k in simp)
next
  case False
  then show ?thesis by (auto simp: keeps_def tpm_inv_def)
qed

lemma keeps_tpm_import_key:
  "keeps (tpm_inv ops inv self) (tpm_view abs) (- {app}) (tpm_import_key self app op)"
proof -
  let ?K = "keeps (tpm_inv ops inv self) (tpm_view abs) (- {app})"
  have store: "?K (tpm_store self (tpm_triple app name) c a attrs)" for name c a attrs
    using keeps_tpm_store [of self "tpm_triple app name"] by simp
  have "?K (tpm_import_key_rsa_public self app op)"
    unfolding tpm_import_key_rsa_public_def Let_def
    by (simp, intro impI keeps_try_op keeps_lock_esapi keeps_tpm_ask_kim keeps_read_op keeps_on_tss store)
  moreover have "?K (tpm_import_key_rsa_keypair self app op)"
    unfolding tpm_import_key_rsa_keypair_def Let_def
    by (simp, intro impI keeps_try_op keeps_lock_esapi keeps_tpm_ask_kim keeps_read_op keeps_on_tss store)
  ultimately show ?thesis unfolding tpm_import_key_def by (simp split: key_type.split)
qed

lemma tpm_destroy_key_result:
  assumes w: "tpm_inv ops inv self w" and run: "tpm_destroy_key self app name w = (r, w')"
  shows "tpm_inv ops inv self w' \<and> tpms_esapi_context w' = tpms_esapi_context w \<and>
    (case r of
       Inl e \<Rightarrow> abs (tpms_kim w') = abs (tpms_kim w)
     | Inr u \<Rightarrow> tpm_triple app name \<in> dom (abs (tpms_kim w)) \<and>
         abs (tpms_kim w') = (abs (tpms_kim w))(tpm_triple app name := None))"
proof -
  note D = tpm_invD [OF w]
  note S = tpm_setupD [OF D(1)]
  from run obtain m where rem: "remove_key_info (tpmp_key_info_store self) (tpm_triple app name) (tpms_kim w) = (r, m)"
    and w': "w' = w\<lparr>tpms_kim := m\<rparr>" by (auto simp: tpm_destroy_key_def tpm_on_kim_def split: prod.splits)
  show ?thesis
    using D remove_key_info_inv [OF D(2) S(1) rem] rem remove_key_info_Inl [OF D(2) S(1)] remove_key_info_Inr [OF D(2) S(1)]
    by (cases r) (auto simp: w' tpm_inv_def)
qed

lemma keeps_tpm_destroy_key:
  "keeps (tpm_inv ops inv self) (tpm_view abs) (- {app}) (tpm_destroy_key self app name)"
proof (rule keepsI)
  fix w r w'
  assume w: "tpm_inv ops inv self w" and run: "tpm_destroy_key self app name w = (r, w')"
  from tpm_destroy_key_result [OF this]
  show "tpm_inv ops inv self w' \<and> (\<forall>n \<in> - {app}. tpm_view abs n w' = tpm_view abs n w)"
    by (auto simp: tpm_view_def fun_eq_iff tpm_triple_def split: sum.splits)
qed

text \<open>The provider keeps its invariant and the view of every other application.\<close>

lemma tpm_isolated: "tenant_isolation (tpm_provide self) (tpm_inv ops inv self) (tpm_view abs)"
  by unfold_locales
    (simp_all add: tpm_provide_def default_provide_def tpm_list_keys_def tpm_list_clients_def
      keeps_tpm_generate_key keeps_tpm_import_key keeps_tpm_destroy_key keeps_tpm_use)

text \<open>Storing a new key.\<close>

lemma tpm_store_result:
  assumes w: "tpm_inv ops inv self w" and fresh: "kt \<notin> dom (abs (tpms_kim w))"
    and run: "tpm_store self kt c a attrs w = (r, w')"
  shows "case r of
       Inl e \<Rightarrow> abs (tpms_kim w') = abs (tpms_kim w)
     | Inr u \<Rightarrow> tpm_stored abs self kt attrs c a w w'"
proof -
  note D = tpm_invD [OF w]
  note S = tpm_setupD [OF D(1)]
  from run obtain m where ins: "insert_key_info (tpmp_id_codec self) (tpmp_key_info_store self) kt
      \<lparr>pc_context = c, pc_auth_value = a\<rparr> attrs (tpms_kim w) = (r, m)" and w': "w' = w\<lparr>tpms_kim := m\<rparr>"
    by (auto simp: tpm_store_def tpm_on_kim_def split: prod.splits)
  show ?thesis
  proof (cases r)
    case (Inl e)
    with insert_key_info_fresh_Inl [OF D(2) S(1) fresh] ins show ?thesis by (simp add: w')
  next
    case (Inr u)
    with ins have "insert_key_info (tpmp_id_codec self) (tpmp_key_info_store self) kt
      \<lparr>pc_context = c, pc_auth_value = a\<rparr> attrs (tpms_kim w) = (Inr (), m)" by simp
    from insert_key_info_Inr [OF D(2) S(1) this] obtain b where
      b: "id_serialize (tpmp_id_codec self) \<lparr>pc_context = c, pc_auth_value = a\<rparr> = Inr b"
      "abs m = (abs (tpms_kim w))(kt \<mapsto> \<lparr>ki_id = b, ki_attributes = attrs\<rparr>)" by blast
    then have "id_deserialize (tpmp_id_codec self) b = Inr \<lparr>pc_context = c, pc_auth_value = a\<rparr>"
      using id_codec_okD [OF S(4)] by (metis sum.inject(2))
    with b(2) fresh Inr show ?thesis
      unfolding tpm_stored_def by (auto simp: w' intro!: exI [of _ "\<lparr>ki_id = b, ki_attributes = attrs\<rparr>"])
  qed
qed

end

section \<open>Names\<close>

definition tpm_names ::
  "('m \<Rightarrow> key_triple \<Rightarrow> key_info option) \<Rightarrow> ('m, 't) tpm_state \<Rightarrow> provider_id \<Rightarrow> application_name \<Rightarrow> string set" where
  "tpm_names mp w = names_of (mp (tpms_kim w))"

lemma tpm_provide_sel:
  "p_list_keys (tpm_provide self) = tpm_list_keys self"
  "p_list_clients (tpm_provide self) = tpm_list_clients self"
  "p_psa_destroy_key (tpm_provide self) = tpm_destroy_key self"
  by (simp_all add: tpm_provide_def default_provide_def)

context key_info_manager
begin

lemma tpm_key_provider: "key_provider (tpm_provide self) (tpm_inv ops inv self) (tpm_names abs) Tpm"
proof (unfold_locales, unfold tpm_provide_sel)
  fix w w' n r
  assume w: "tpm_inv ops inv self w" and "tpm_list_keys self n w = (r, w')"
  then have "w' = w" "r = kim_list_keys (tpmp_key_info_store self) (tpms_kim w) n"
    by (auto simp: tpm_list_keys_def tpm_ask_kim_def)
  with w list_keys_names [OF tpm_invD(2) [OF w] tpm_setupD(1,2) [OF tpm_invD(1) [OF w]]]
  show "tpm_inv ops inv self w' \<and> tpm_names abs w' = tpm_names abs w \<and>
      (\<forall>ks. r = Inr ks \<longrightarrow> distinct (map lk_name ks) \<and> lk_name ` set ks = tpm_names abs w Tpm n)"
    by (simp add: tpm_names_def)
next
  fix w w' r
  assume w: "tpm_inv ops inv self w" and "tpm_list_clients self w = (r, w')"
  then have "w' = w" "r = kim_list_clients (tpmp_key_info_store self) (tpms_kim w)"
    by (auto simp: tpm_list_clients_def tpm_ask_kim_def)
  with w list_clients_names [OF tpm_invD(2) [OF w] tpm_setupD(1,2) [OF tpm_invD(1) [OF w]]]
  show "tpm_inv ops inv self w' \<and> tpm_names abs w' = tpm_names abs w \<and>
      (\<forall>cs. r = Inr cs \<longrightarrow> set cs = {n. tpm_names abs w Tpm n \<noteq> {}})"
    by (simp add: tpm_names_def)
next
  fix w w' n k r
  assume w: "tpm_inv ops inv self w" and run: "tpm_destroy_key self n k w = (r, w')"
  note R = tpm_destroy_key_result [OF w run]
  then consider "abs (tpms_kim w') = (abs (tpms_kim w))(key_triple_new n Tpm k := None)"
    | "abs (tpms_kim w') = abs (tpms_kim w)" by (cases r) (auto simp: tpm_triple_def)
  then show "tpm_inv ops inv self w' \<and> only_loses (tpm_names abs w) (tpm_names abs w') {(Tpm, n)} \<and>
      tpm_names abs w Tpm n - {k} \<subseteq> tpm_names abs w' Tpm n"
    by cases (use R names_of_remove [of "abs (tpms_kim w)" n Tpm k] in \<open>auto simp: tpm_names_def\<close>)
qed

end

end
