(* ===== verification/Tpm_Properties.thy ===== *)
theory Tpm_Properties
  imports Tpm_Keys
begin

text \<open>
  The properties of the TPM provider with the on-disk key info manager: the contracts that the back end and the core provider
  rely on, the conversion of signatures, the checks on imported keys and the use of stored keys.
\<close>

section \<open>The contracts of a provider\<close>

interpretation tpm: tenant_isolation "tpm_provide self" "tpm_inv (on_disk_impl c) odm_inv self" "tpm_view odm_abs"
  for self :: "(on_disk_manager, 't, 'c, 'tc) tpm_provider" and c
  by (rule odm.tpm_isolated)

interpretation tpm_mappings: key_provider "tpm_provide self" "tpm_inv (on_disk_impl c) odm_inv self" "tpm_names odm_abs" Tpm
  for self :: "(on_disk_manager, 't, 'c, 'tc) tpm_provider" and c
  by (rule odm.tpm_key_provider)

section \<open>A small TPM\<close>

text \<open>Contexts are bytes; the key with context 5 is an elliptic curve key with coordinates of 66 bytes.\<close>

definition toy_tss :: "(unit, u8, unit) tss" where
  "toy_tss =
     \<lparr>tss_create_key = (\<lambda>_ n t. (Inr (5, if n = 0 then None else Some [9]), t)),
      tss_load_external_rsa_public_key = (\<lambda>_ t. (Inr 1, t)),
      tss_load_external_rsa = (\<lambda>_ _ _ t. (Inr 2, t)),
      tss_read_public_key = (\<lambda>c t. (Inr (if c = 5 then PubEcc (replicate 66 0) (replicate 66 0) else PubRsa [c]), t)),
      tss_sign = (\<lambda>c _ d t. (Inr (if c = 5
        then \<lparr>sig_scheme = ECDSA Sha512, sig_data = EcdsaSignature (replicate 66 0) (replicate 66 0)\<rparr>
        else \<lparr>sig_scheme = RSASSA Sha256, sig_data = RsaSignature d\<rparr>), t)),
      tss_verify_signature = (\<lambda>_ _ _ t. (Inr (), t)), tss_rsa_encrypt = (\<lambda>_ _ x _ _ t. (Inr x, t)),
      tss_rsa_decrypt = (\<lambda>_ _ x _ _ t. (Inr x, t)), auth_try_from = Inr, digest_try_from = Inr,
      public_key_rsa_try_from = Inr, data_try_from = Inr, rsa_key_sizes = [1024, 2048, 3072, 4096],
      tcti_from_str = (\<lambda>_. Some ()), tss_context_new = (\<lambda>_ t. (Inr (), t)), tss_test_parms = (\<lambda>_ t. (Inr (), t)),
      tss_build_transient = (\<lambda>_ t. (Inr (), t))\<rparr>"

definition password_codec :: "u8 password_context id_codec" where
  "password_codec =
     \<lparr>id_serialize = (\<lambda>pc. Inr (pc_context pc # pc_auth_value pc)),
      id_deserialize = (\<lambda>bs. case bs of [] \<Rightarrow> Inl InvalidEncoding | c # a \<Rightarrow> Inr \<lparr>pc_context = c, pc_auth_value = a\<rparr>)\<rparr>"

definition toy_tpm :: "(on_disk_manager, unit, u8, unit) tpm_provider" where
  "toy_tpm =
     \<lparr>tpmp_key_info_store = build_client \<lparr>kf_impl = on_disk_impl sample_codec\<rparr> Tpm, tpmp_tss = toy_tss,
      tpmp_interface = sample_asym_interface, tpmp_asn1 = sample_asn1, tpmp_id_codec = password_codec, tpmp_uuid_parse = (\<lambda>_. Some [])\<rparr>"

lemma toy_tpm_setup: "tpm_setup (on_disk_impl sample_codec) toy_tpm"
  by (auto simp: tpm_setup_def toy_tpm_def build_client_def gives_auth_def toy_tss_def id_codec_ok_def password_codec_def)

lemma toy_tpm_inv: "odm_inv m \<Longrightarrow> tpm_inv (on_disk_impl sample_codec) odm_inv toy_tpm (tpm_new m ())"
  by (simp add: tpm_inv_def toy_tpm_setup tpm_new_def)

section \<open>Signatures\<close>

text \<open>
  C11: signatures on the wire and in the TPM. For a key on an elliptic curve, the bytes that \<open>signature_data_to_bytes\<close>
  gives for a pair of numbers are exactly those that \<open>bytes_to_signature_data\<close> reads back as this pair, so
  a signature made by the provider is verified as the same signature, and no other byte string stands for it. For RSA keys both
  directions keep the bytes.
\<close>

theorem tpm_signature_round_trip:
  "(\<forall>f. attr_key_type attrs \<in> {EccKeyPair f, EccPublicKey f} \<longrightarrow>
     (signature_data_to_bytes (EcdsaSignature r s) attrs = Inr bs \<longleftrightarrow>
      bytes_to_signature_data bs attrs = Inr (EcdsaSignature r s))) \<and>
   (attr_key_type attrs \<in> {RsaKeyPair, RsaPublicKey} \<longrightarrow>
     (signature_data_to_bytes (RsaSignature sig) attrs = Inr bs \<longleftrightarrow>
      bytes_to_signature_data bs attrs = Inr (RsaSignature sig)))"
proof -
  let ?p = "attr_bits attrs div 8"
  have "unat ?p \<le> 2 ^ 64 div 8"
    using unsigned_less [of "attr_bits attrs", where ?'a = nat] by (simp add: unat_div div_le_mono)
  then have "unat (?p * 2) = 2 * unat ?p" by (simp add: unat_word_ariths)
  then show ?thesis
    by (cases "attr_key_type attrs") (auto simp: signature_data_to_bytes_def bytes_to_signature_data_def Let_def)
qed

theorem tpm_signature_round_trip_witness:
  "bytes_to_signature_data [1, 2, 3, 4] (sample_attributes\<lparr>attr_key_type := EccKeyPair SecpR1, attr_bits := 16\<rparr>) =
     Inr (EcdsaSignature [1, 2] [3, 4])"
  using tpm_signature_round_trip [of "sample_attributes\<lparr>attr_key_type := EccKeyPair SecpR1, attr_bits := 16\<rparr>" "[1, 2]" "[3, 4]" "[1, 2, 3, 4]"]
  by (simp add: signature_data_to_bytes_def)

section \<open>Importing keys\<close>

text \<open>The public part of a key that passes the checks of the provider.\<close>

definition rsa_accepted :: "asn1 \<Rightarrow> u16 list \<Rightarrow> integer_asn1 \<Rightarrow> integer_asn1 \<Rightarrow> attributes \<Rightarrow> bool" where
  "rsa_accepted der sizes modulus exponent attrs \<longleftrightarrow>
     \<not> is_negative der modulus \<and> \<not> is_negative der exponent \<and>
     as_unsigned_bytes_be der exponent = [0x01, 0x00, 0x01] \<and>
     attr_bits attrs \<in> {0, bit_len (as_unsigned_bytes_be der modulus)} \<and>
     ucast (bit_len (as_unsigned_bytes_be der modulus)) \<in> set sizes"

lemma validate_public_key_iff:
  "validate_public_key der sizes pk attrs = Inr () \<longleftrightarrow> rsa_accepted der sizes (rpk_modulus pk) (rpk_public_exponent pk) attrs"
  by (auto simp: validate_public_key_def rsa_accepted_def public_exponent_bytes_def Let_def)

lemma validate_private_key_iff:
  "validate_private_key der sk attrs = Inr () \<longleftrightarrow>
     as_unsigned_bytes_be der (rsk_public_exponent sk) = [0x01, 0x00, 0x01] \<and>
     bit_len (as_unsigned_bytes_be der (rsk_prime_1 sk)) = attr_bits attrs div 2"
  by (simp add: validate_private_key_def public_exponent_bytes_def)

text \<open>The size is compared after a cast to sixteen bits: a modulus of 67584 bits counts as one of 2048 bits.\<close>

lemma validate_public_key_truncates:
  "validate_public_key sample_asn1 [1024, 2048, 3072, 4096]
     \<lparr>rpk_modulus = replicate 8448 1, rpk_public_exponent = [1, 0, 1]\<rparr> (sample_attributes\<lparr>attr_bits := 67584\<rparr>) = Inr ()"
  by (simp add: validate_public_key_iff rsa_accepted_def sample_asn1_def bit_len_def)

text \<open>A key pair needs its size in the attributes, although zero passes the check of the public part.\<close>

lemma validate_private_key_needs_bits:
  assumes "attr_bits attrs = 0" and "0 < length (as_unsigned_bytes_be der (rsk_prime_1 sk))"
    and "length (as_unsigned_bytes_be der (rsk_prime_1 sk)) < 2 ^ 61"
  shows "validate_private_key der sk attrs = Inl PsaErrorInvalidArgument"
proof -
  have "unat (bit_len (as_unsigned_bytes_be der (rsk_prime_1 sk))) = 8 * length (as_unsigned_bytes_be der (rsk_prime_1 sk))"
    using assms(3) by (simp add: bit_len_def unat_word_ariths unat_of_nat)
  with assms(2) have "bit_len (as_unsigned_bytes_be der (rsk_prime_1 sk)) \<noteq> 0" by auto
  with assms(1) show ?thesis by (simp add: validate_private_key_def)
qed

lemma lock_esapi_unpoisoned: "tpm_inv ops I self w \<Longrightarrow> lock_esapi f w = f w"
  by (simp add: lock_esapi_def tpm_inv_def)

text \<open>The common end of both imports.\<close>

lemma load_and_store_result:
  assumes w: "tpm_inv (on_disk_impl c) odm_inv self w" and fresh: "kt \<notin> dom (odm_abs (tpms_kim w))"
    and run: "try_op (on_tss f) (\<lambda>context. tpm_store self kt context [] attrs) w = (Inr (), w')"
  shows "\<exists>context. tpm_stored odm_abs self kt attrs context [] w w'"
proof -
  from run obtain cx w1 where f: "on_tss f w = (Inr cx, w1)" and st: "tpm_store self kt cx [] attrs w1 = (Inr (), w')"
    by (auto simp: try_op_def split: prod.splits sum.splits)
  have kim: "tpms_kim w1 = tpms_kim w" using f by (auto simp: on_tss_def split: prod.splits)
  have "tpm_inv (on_disk_impl c) odm_inv self w1" using keepsD [OF keeps_on_tss w f] by blast
  from odm.tpm_store_result [OF this _ st] fresh kim have "tpm_stored odm_abs self kt attrs cx [] w1 w'" by simp
  then have "tpm_stored odm_abs self kt attrs cx [] w w'" by (simp add: tpm_stored_def kim)
  then show ?thesis ..
qed

text \<open>
  C23: only checked keys are imported. If \<open>psa_import_key\<close> of the TPM provider succeeds, the policy of the key is RSA PKCS 1 v1.5
  signing with SHA-256, the data decodes to an RSA key with non-negative numbers and the exponent 0x10001, its size is
  that of the attributes or the attributes leave it open, and its size modulo 2 to the 16 is one that the TPM has; the first prime of a key
  pair has half the size that the attributes give. The name was free and is the only one that has changed.
\<close>

theorem tpm_import_key_checked:
  assumes "tpm_inv (on_disk_impl c) odm_inv self w" and "tpm_import_key self app op w = (Inr (), w')"
  shows "permitted_algorithms (ik_attributes op) = Alg_AsymmetricSignature (RsaPkcs1v15Sign (Specific Sha256)) \<and>
    (case attr_key_type (ik_attributes op) of
       RsaPublicKey \<Rightarrow> \<exists>pk. rsa_public_from_bytes (tpmp_asn1 self) (ik_data op) = Some pk \<and>
         rsa_accepted (tpmp_asn1 self) (rsa_key_sizes (tpmp_tss self)) (rpk_modulus pk) (rpk_public_exponent pk) (ik_attributes op)
     | RsaKeyPair \<Rightarrow> \<exists>sk. rsa_private_from_bytes (tpmp_asn1 self) (ik_data op) = Some sk \<and>
         rsa_accepted (tpmp_asn1 self) (rsa_key_sizes (tpmp_tss self)) (rsk_modulus sk) (rsk_public_exponent sk) (ik_attributes op) \<and>
         bit_len (as_unsigned_bytes_be (tpmp_asn1 self) (rsk_prime_1 sk)) = attr_bits (ik_attributes op) div 2
     | _ \<Rightarrow> False) \<and>
    (\<exists>context. tpm_stored odm_abs self (tpm_triple app (ik_key_name op)) (ik_attributes op) context [] w w')"
proof -
  let ?kt = "tpm_triple app (ik_key_name op)" and ?der = "tpmp_asn1 self" and ?attrs = "ik_attributes op"
  note lock = lock_esapi_unpoisoned [OF assms(1)]
  note D = tpm_invD [OF assms(1)]
  have fresh: "?kt \<notin> dom (odm_abs (tpms_kim w))" if "does_not_exist (tpmp_key_info_store self) (tpms_kim w) ?kt = Inr ()"
    by (rule odm.does_not_exist_Inr [OF D(2) tpm_setupD(1) [OF D(1)] that])
  note defs = Let_def try_op_def [of "tpm_ask_kim f" for f] try_op_def [of "read_op f" for f] tpm_ask_kim_def read_op_def lock ok_or_def err_op_def
  consider "attr_key_type ?attrs = RsaPublicKey" | "attr_key_type ?attrs = RsaKeyPair"
    using assms(2) by (auto simp: tpm_import_key_def err_op_def split: key_type.splits)
  then show ?thesis
  proof cases
    case 1
    with assms(2) obtain pk where
      "import_policy_ok ?attrs" "does_not_exist (tpmp_key_info_store self) (tpms_kim w) ?kt = Inr ()"
      "rsa_public_from_bytes ?der (ik_data op) = Some pk" "validate_public_key ?der (rsa_key_sizes (tpmp_tss self)) pk ?attrs = Inr ()"
      and run: "try_op (on_tss (tss_load_external_rsa_public_key (tpmp_tss self) (as_unsigned_bytes_be ?der (rpk_modulus pk))))
        (\<lambda>context. tpm_store self ?kt context [] ?attrs) w = (Inr (), w')"
      by (auto simp: tpm_import_key_def tpm_import_key_rsa_public_def defs split: if_splits sum.splits option.splits)
    with 1 load_and_store_result [OF assms(1) fresh run] show ?thesis
      by (auto simp: import_policy_ok_def validate_public_key_iff)
  next
    case 2
    with assms(2) obtain sk where
      "import_policy_ok ?attrs" "does_not_exist (tpmp_key_info_store self) (tpms_kim w) ?kt = Inr ()"
      "rsa_private_from_bytes ?der (ik_data op) = Some sk"
      "validate_public_key ?der (rsa_key_sizes (tpmp_tss self))
         \<lparr>rpk_modulus = rsk_modulus sk, rpk_public_exponent = rsk_public_exponent sk\<rparr> ?attrs = Inr ()"
      "validate_private_key ?der sk ?attrs = Inr ()"
      and run: "try_op (on_tss (tss_load_external_rsa (tpmp_tss self) (as_unsigned_bytes_be ?der (rsk_prime_1 sk))
          (as_unsigned_bytes_be ?der (rsk_modulus sk)) tpm_public_exponent))
        (\<lambda>context. tpm_store self ?kt context [] ?attrs) w = (Inr (), w')"
      by (auto simp: tpm_import_key_def tpm_import_key_rsa_keypair_def defs split: if_splits sum.splits option.splits)
    with 2 load_and_store_result [OF assms(1) fresh run] show ?thesis
      by (auto simp: import_policy_ok_def validate_public_key_iff validate_private_key_iff)
  qed
qed

definition tpm_toy_import :: import_key_op where
  "tpm_toy_import = \<lparr>ik_key_name = ''k'', ik_attributes = sample_attributes, ik_data = replicate 256 1\<rparr>"

lemma toy_tpm_import:
  "\<exists>w'. tpm_import_key toy_tpm ''app'' tpm_toy_import (tpm_new sample_manager ()) = (Inr (), w')"
proof -
  let ?kt = "tpm_triple ''app'' ''k''" and ?w = "tpm_new sample_manager () :: (on_disk_manager, unit) tpm_state"
  note S = tpm_setupD [OF toy_tpm_setup]
  have free: "odm_abs sample_manager ?kt = None" by (simp add: sample_manager_empty)
  have "does_not_exist (tpmp_key_info_store toy_tpm) sample_manager ?kt = Inr ()"
    using odm.does_not_exist_total [OF sample_facts(3) S(1), of ?kt] free by (simp add: domIff)
  moreover have "id_serialize (tpmp_id_codec toy_tpm) \<lparr>pc_context = 2, pc_auth_value = []\<rparr> = Inr [2]"
    by (simp add: toy_tpm_def password_codec_def)
  from insert_key_info_quiet [OF sample_codec_ok sample_facts(1-3) S(1) free this, of sample_attributes]
  obtain m where "insert_key_info (tpmp_id_codec toy_tpm) (tpmp_key_info_store toy_tpm) ?kt
      \<lparr>pc_context = 2, pc_auth_value = []\<rparr> sample_attributes sample_manager = (Inr (), m)"
    using sample_valid_insert [of Tpm "[2]"] unfolding tpm_triple_def by blast
  moreover have "validate_public_key sample_asn1 [1024, 2048, 3072, 4096]
      \<lparr>rpk_modulus = replicate 256 1, rpk_public_exponent = [1, 0, 1]\<rparr> sample_attributes = Inr ()"
    by (simp add: validate_public_key_iff rsa_accepted_def sample_asn1_def bit_len_def sample_attributes_def)
  moreover have "validate_private_key sample_asn1 \<lparr>rsk_modulus = replicate 256 1, rsk_public_exponent = [1, 0, 1],
      rsk_prime_1 = replicate 128 1\<rparr> sample_attributes = Inr ()"
    by (simp add: validate_private_key_iff sample_asn1_def bit_len_def sample_attributes_def)
  moreover have "rsa_private_from_bytes sample_asn1 (replicate 256 1) =
      Some \<lparr>rsk_modulus = replicate 256 1, rsk_public_exponent = [1, 0, 1], rsk_prime_1 = replicate 128 1\<rparr>"
    by (simp add: sample_asn1_def)
  ultimately show ?thesis
    by (simp add: tpm_import_key_def tpm_toy_import_def sample_attributes_def [THEN arg_cong, of attr_key_type]
        tpm_import_key_rsa_keypair_def Let_def import_policy_ok_def sample_attributes_def [THEN arg_cong, of permitted_algorithms]
        try_op_def tpm_ask_kim_def read_op_def ok_or_def lock_esapi_def tpm_new_def on_tss_def map_err_def tpm_store_def tpm_on_kim_def
        toy_tpm_def toy_tss_def)
qed

theorem tpm_import_key_checked_witness:
  "\<exists>w'. tpm_import_key toy_tpm ''app'' tpm_toy_import (tpm_new sample_manager ()) = (Inr (), w') \<and>
     rsa_accepted sample_asn1 [1024, 2048, 3072, 4096] (replicate 256 1) [1, 0, 1] sample_attributes"
proof -
  obtain w' where run: "tpm_import_key toy_tpm ''app'' tpm_toy_import (tpm_new sample_manager ()) = (Inr (), w')"
    using toy_tpm_import by blast
  from tpm_import_key_checked [OF toy_tpm_inv [OF sample_facts(3)] run] run show ?thesis
    by (simp add: tpm_toy_import_def toy_tpm_def toy_tss_def sample_asn1_def sample_attributes_def)
qed

section \<open>Using keys\<close>

lemma with_key_result:
  assumes "tpm_inv (on_disk_impl c) odm_inv self w" and "with_key self app name k w = (Inr x, w')"
  shows "\<exists>info pc. odm_abs (tpms_kim w) (tpm_triple app name) = Some info \<and>
    id_deserialize (tpmp_id_codec self) (ki_id info) = Inr pc \<and> k pc (ki_attributes info) w = (Inr x, w')"
proof -
  note D = tpm_invD [OF assms(1)]
  note S = tpm_setupD [OF D(1)]
  from assms(2) show ?thesis
    unfolding with_key_def lock_esapi_unpoisoned [OF assms(1)]
    by (auto simp: try_op_def tpm_ask_kim_def odm.get_key_id_total [OF D(2) S(1)] odm.get_key_attributes_total [OF D(2) S(1)]
        split: sum.splits option.splits)
qed

text \<open>
  An application signs with its own TPM key only. If \<open>psa_sign_hash\<close> returns a signature, the application has a key of the
  requested name, the TPM signed the given hash with the context and the authentication value stored under this name, the
  bytes are those of this signature, and no mapping has changed.
\<close>

lemma tpm_sign_hash_own_key:
  assumes "tpm_inv (on_disk_impl c) odm_inv self w" and "tpm_sign_hash self app op w = (Inr bs, w')"
  shows "\<exists>info pc auth digest s.
    odm_abs (tpms_kim w) (tpm_triple app (sh_key_name op)) = Some info \<and>
    id_deserialize (tpmp_id_codec self) (ki_id info) = Inr pc \<and>
    check_sign_hash (tpmp_interface self) op (ki_attributes info) = Inr () \<and>
    auth_try_from (tpmp_tss self) (pc_auth_value pc) = Inr auth \<and> digest_try_from (tpmp_tss self) (sh_hash op) = Inr digest \<and>
    tss_sign (tpmp_tss self) (pc_context pc) (Some auth) digest (tpms_esapi_context w) = (Inr s, tpms_esapi_context w') \<and>
    signature_data_to_bytes (sig_data s) (ki_attributes info) = Inr bs \<and> tpms_kim w' = tpms_kim w"
proof -
  from with_key_result [OF assms(1) assms(2) [unfolded tpm_sign_hash_def]] obtain info pc where
    key: "odm_abs (tpms_kim w) (tpm_triple app (sh_key_name op)) = Some info" "id_deserialize (tpmp_id_codec self) (ki_id info) = Inr pc"
    and run: "try_op (read_op (\<lambda>_. supported_signature (sh_alg op))) (\<lambda>_.
      try_op (read_op (\<lambda>_. check_sign_hash (tpmp_interface self) op (ki_attributes info))) (\<lambda>_.
      try_op (tss_res (auth_try_from (tpmp_tss self) (pc_auth_value pc))) (\<lambda>auth.
      try_op (tss_res (digest_try_from (tpmp_tss self) (sh_hash op))) (\<lambda>digest.
      try_op (on_tss (tss_sign (tpmp_tss self) (pc_context pc) (Some auth) digest)) (\<lambda>signature.
      read_op (\<lambda>_. signature_data_to_bytes (sig_data signature) (ki_attributes info))))))) w = (Inr bs, w')" by blast
  from run obtain auth digest s t where
    "check_sign_hash (tpmp_interface self) op (ki_attributes info) = Inr ()"
    "auth_try_from (tpmp_tss self) (pc_auth_value pc) = Inr auth" "digest_try_from (tpmp_tss self) (sh_hash op) = Inr digest"
    "tss_sign (tpmp_tss self) (pc_context pc) (Some auth) digest (tpms_esapi_context w) = (Inr s, t)"
    "signature_data_to_bytes (sig_data s) (ki_attributes info) = Inr bs" "w' = w\<lparr>tpms_esapi_context := t\<rparr>"
    by (auto simp: try_op_def read_op_def tss_res_def on_tss_def map_err_def split: sum.splits prod.splits)
  with key show ?thesis by auto
qed

text \<open>A store with one key: an elliptic curve key with context 5, or an RSA key with context 2.\<close>

definition p521_attributes :: attributes where
  "p521_attributes = sample_attributes\<lparr>attr_key_type := EccKeyPair SecpR1, attr_bits := 521,
     permitted_algorithms := Alg_AsymmetricSignature (Ecdsa (Specific Sha512))\<rparr>"

definition one_key :: "u8 \<Rightarrow> attributes \<Rightarrow> on_disk_manager" where
  "one_key context attrs =
     sample_manager\<lparr>key_store := [(tpm_triple ''app'' ''k'', \<lparr>ki_id = [context, 9], ki_attributes = attrs\<rparr>)]\<rparr>"

lemma one_key_facts:
  "odm_inv (one_key cx attrs)"
  "odm_abs (one_key cx attrs) (tpm_triple ''app'' ''k'') = Some \<lparr>ki_id = [cx, 9], ki_attributes = attrs\<rparr>"
  using sample_facts(3) by (simp_all add: one_key_def odm_inv_def odm_abs_def hm_wf_def hm_get_def)

definition tpm_toy_sign :: sign_hash_op where
  "tpm_toy_sign = \<lparr>sh_key_name = ''k'', sh_alg = RsaPkcs1v15Sign (Specific Sha256), sh_hash = [5, 6]\<rparr>"

lemma tpm_sign_hash_own_key_witness:
  "\<exists>w'. tpm_sign_hash toy_tpm ''app'' tpm_toy_sign (tpm_new (one_key 2 sample_attributes) ()) = (Inr [5, 6], w') \<and>
     tpms_kim w' = one_key 2 sample_attributes"
proof -
  let ?w = "tpm_new (one_key 2 sample_attributes) () :: (on_disk_manager, unit) tpm_state"
  note S = tpm_setupD [OF toy_tpm_setup]
  have "get_key_id (tpmp_id_codec toy_tpm) (tpmp_key_info_store toy_tpm) (one_key 2 sample_attributes) (tpm_triple ''app'' ''k'') =
      Inr \<lparr>pc_context = 2, pc_auth_value = [9]\<rparr>"
    unfolding odm.get_key_id_total [OF one_key_facts(1) S(1)] one_key_facts(2) by (simp add: toy_tpm_def password_codec_def)
  moreover have "get_key_attributes (tpmp_key_info_store toy_tpm) (one_key 2 sample_attributes) (tpm_triple ''app'' ''k'') =
      Inr sample_attributes"
    unfolding odm.get_key_attributes_total [OF one_key_facts(1) S(1)] one_key_facts(2) by simp
  ultimately obtain w' where run: "tpm_sign_hash toy_tpm ''app'' tpm_toy_sign ?w = (Inr [5, 6], w')"
    by (simp add: tpm_sign_hash_def with_key_def lock_esapi_def tpm_new_def try_op_def tpm_ask_kim_def read_op_def tss_res_def
        on_tss_def map_err_def tpm_toy_sign_def supported_signature_def signature_data_to_bytes_def toy_tpm_def toy_tss_def sample_asym_interface_def)
  from tpm_sign_hash_own_key [OF toy_tpm_inv [OF one_key_facts(1)] run] run show ?thesis by (auto simp: tpm_new_def)
qed

text \<open>
  C40: keys on the curve P-521 can be created but not used. The provider converts the attributes to the curve NIST P-521, but computes the
  size of its numbers as 521 / 8 = 65 bytes. With a TPM whose answers for such a key have the 66 bytes of the curve, neither
  the export of the public key nor a signature ever succeeds.
\<close>

theorem tpm_p521_unusable:
  assumes "tpm_inv (on_disk_impl c) odm_inv self w"
    and "odm_abs (tpms_kim w) (tpm_triple app name) = Some info" and "id_deserialize (tpmp_id_codec self) (ki_id info) = Inr pc"
    and "attr_key_type (ki_attributes info) = EccKeyPair SecpR1" and "attr_bits (ki_attributes info) = 521"
    and "\<And>t pk t'. tss_read_public_key (tpmp_tss self) (pc_context pc) t = (Inr pk, t') \<Longrightarrow>
      \<exists>x y. pk = PubEcc x y \<and> length x = 66 \<and> length y = 66"
    and "\<And>a d t s t'. tss_sign (tpmp_tss self) (pc_context pc) a d t = (Inr s, t') \<Longrightarrow>
      \<exists>x y. sig_data s = EcdsaSignature x y \<and> length x = 66 \<and> length y = 66"
    and "sh_key_name op = name"
  shows "convert_curve_to_tpm (ki_attributes info) = Inr NistP521 \<and>
    isl (fst (tpm_export_public_key self app name w)) \<and> isl (fst (tpm_sign_hash self app op w))"
proof -
  let ?attrs = "ki_attributes info"
  have "convert_curve_to_tpm ?attrs = Inr NistP521" using assms(4,5) by (simp add: convert_curve_to_tpm_def curve_of_bits_def)
  moreover have no_export: "tpm_export_public_key self app name w \<noteq> (Inr x, w')" for x w'
  proof
    assume "tpm_export_public_key self app name w = (Inr x, w')"
    from with_key_result [OF assms(1) this [unfolded tpm_export_public_key_def]] assms(2,3) obtain pk t t' where
      "tss_read_public_key (tpmp_tss self) (pc_context pc) t = (Inr pk, t')" "pub_key_to_bytes (tpmp_asn1 self) pk ?attrs = Inr x"
      by (auto simp: try_op_def on_tss_def read_op_def map_err_def split: prod.splits sum.splits)
    with assms(6) [OF this(1)] assms(5) show False by (auto simp: pub_key_to_bytes_def Let_def)
  qed
  moreover have no_sign: "tpm_sign_hash self app op w \<noteq> (Inr x, w')" for x w'
  proof
    assume "tpm_sign_hash self app op w = (Inr x, w')"
    from with_key_result [OF assms(1) this [unfolded tpm_sign_hash_def assms(8)]] assms(2,3) obtain s a d t t' where
      "tss_sign (tpmp_tss self) (pc_context pc) a d t = (Inr s, t')" "signature_data_to_bytes (sig_data s) ?attrs = Inr x"
      by (auto simp: try_op_def tss_res_def on_tss_def read_op_def map_err_def split: prod.splits sum.splits)
    with assms(7) [OF this(1)] assms(5) show False by (auto simp: signature_data_to_bytes_def Let_def)
  qed
  moreover have "isl (fst y)" if "\<And>x v'. y \<noteq> (Inr x, v')" for y :: "bytes res \<times> _"
    using that by (cases y; cases "fst y") auto
  ultimately show ?thesis by blast
qed

theorem tpm_p521_unusable_witness:
  "parsec_to_tpm_params sample_asym_interface p521_attributes = Inr (EccParams (ECDSA Sha512) NistP521) \<and>
   isl (fst (tpm_export_public_key toy_tpm ''app'' ''k'' (tpm_new (one_key 5 p521_attributes) ()))) \<and>
   isl (fst (tpm_sign_hash toy_tpm ''app'' tpm_toy_sign (tpm_new (one_key 5 p521_attributes) ())))"
proof -
  let ?w = "tpm_new (one_key 5 p521_attributes) () :: (on_disk_manager, unit) tpm_state"
  have key: "odm_abs (tpms_kim ?w) (tpm_triple ''app'' ''k'') = Some \<lparr>ki_id = [5, 9], ki_attributes = p521_attributes\<rparr>"
    by (simp add: tpm_new_def one_key_facts)
  have "isl (fst (tpm_export_public_key toy_tpm ''app'' ''k'' ?w)) \<and> isl (fst (tpm_sign_hash toy_tpm ''app'' tpm_toy_sign ?w))"
    using tpm_p521_unusable [OF toy_tpm_inv [OF one_key_facts(1)] key, of "\<lparr>pc_context = 5, pc_auth_value = [9]\<rparr>" tpm_toy_sign]
    by (simp add: toy_tpm_def toy_tss_def password_codec_def p521_attributes_def tpm_toy_sign_def)
  then show ?thesis
    by (simp add: parsec_to_tpm_params_def p521_attributes_def convert_curve_to_tpm_def curve_of_bits_def try_res_def)
qed

end
