(* ===== verification/Pkcs11_Provider.thy ===== *)
theory Pkcs11_Provider
  imports Providers Psa_Crypto Asym_Keys
begin

text \<open>
  The PKCS 11 provider (\<open>src/src/providers/pkcs11\<close>).

  The \<open>cryptoki\<close> crate is the record \<open>cryptoki\<close> over an opaque state \<open>'t\<close> of the library and the token; slots,
  sessions and object handles are numbers, as they are in PKCS 11. A session is closed when it goes out of scope:
  \<open>with_session\<close> runs the rest of a function with a new session and closes it, whatever the outcome. The generator
  behind \<open>rand::random\<close> is a function on a state \<open>'g\<close>.

  \<open>create_key_id\<close> draws numbers until one is free and holds the write lock of the set of numbers meanwhile. If it never ends, no later
  call gets the lock: \<open>ps_stuck\<close>. The status of a call that does not return reaches nobody.
\<close>

section \<open>The crate\<close>

type_synonym u64 = "64 word"

datatype rv_error =
    HostMemory | DeviceError | DeviceMemory | DeviceRemoved | SignatureInvalid | SignatureLenRange | TokenNotPresent
  | TokenNotRecognized | RandomNoRng | StateUnsaveable | CurveNotSupported | DomainParamsInvalid | FunctionNotSupported
  | OtherRv nat

datatype cryptoki_error =
    LibraryLoading | Pkcs11Error rv_error | CkNotSupported | TryFromInt nat | TryFromSlice nat | NulError nat
  | OtherCryptokiError nat

datatype object_class = PUBLIC_KEY | PRIVATE_KEY | OtherClass nat

datatype p11_key_type = KeyTypeRSA | KeyTypeEC

datatype mechanism = RsaPkcsKeyPairGen | EccKeyPairGen | OtherMechanism nat

datatype mechanism_type = RSA_PKCS | ECDSA_mechanism | OtherMechanismType nat

datatype p11_attribute =
    AId bytes | AClass object_class | AToken bool | APrivate bool | AAllowedMechanisms "mechanism_type list"
  | ASign bool | AVerify bool | AEncrypt bool | ADecrypt bool | ADerive bool | AExtractable bool | ASensitive bool
  | ACopyable bool | APublicExponent bytes | AModulus bytes | AModulusBits u64 | AEcParams bytes | AEcPoint bytes
  | AKeyType p11_key_type | OtherAttribute nat

datatype attribute_type = TModulus | TPublicExponent | TEcPoint

type_synonym ck_number = nat

text \<open>
  \<open>ck_open_session\<close> takes the two flags that are set. The \<open>status_from\<close> functions are the conversions of the interface crate for
  standard error types.
\<close>

record 't cryptoki =
  ck_new :: "string \<Rightarrow> ('t, cryptoki_error, unit) rust_op"
  ck_initialize :: "('t, cryptoki_error, unit) rust_op"
  ck_set_pin :: "ck_number \<Rightarrow> string \<Rightarrow> ('t, cryptoki_error, unit) rust_op"
  ck_open_session :: "ck_number \<Rightarrow> bool \<Rightarrow> bool \<Rightarrow> ('t, cryptoki_error, ck_number) rust_op"
  ck_login :: "ck_number \<Rightarrow> ('t, cryptoki_error, unit) rust_op"
  ck_close_session :: "ck_number \<Rightarrow> 't \<Rightarrow> 't"
  ck_find_objects :: "ck_number \<Rightarrow> p11_attribute list \<Rightarrow> ('t, cryptoki_error, ck_number list) rust_op"
  ck_generate_key_pair ::
    "ck_number \<Rightarrow> mechanism \<Rightarrow> p11_attribute list \<Rightarrow> p11_attribute list \<Rightarrow> ('t, cryptoki_error, ck_number \<times> ck_number) rust_op"
  ck_create_object :: "ck_number \<Rightarrow> p11_attribute list \<Rightarrow> ('t, cryptoki_error, ck_number) rust_op"
  ck_destroy_object :: "ck_number \<Rightarrow> ck_number \<Rightarrow> ('t, cryptoki_error, unit) rust_op"
  ck_get_attributes :: "ck_number \<Rightarrow> ck_number \<Rightarrow> attribute_type list \<Rightarrow> ('t, cryptoki_error, p11_attribute list) rust_op"
  ck_sign :: "ck_number \<Rightarrow> mechanism \<Rightarrow> ck_number \<Rightarrow> bytes \<Rightarrow> ('t, cryptoki_error, bytes) rust_op"
  ck_verify :: "ck_number \<Rightarrow> mechanism \<Rightarrow> ck_number \<Rightarrow> bytes \<Rightarrow> bytes \<Rightarrow> ('t, cryptoki_error, unit) rust_op"
  ck_encrypt :: "ck_number \<Rightarrow> mechanism \<Rightarrow> ck_number \<Rightarrow> bytes \<Rightarrow> ('t, cryptoki_error, bytes) rust_op"
  ck_decrypt :: "ck_number \<Rightarrow> mechanism \<Rightarrow> ck_number \<Rightarrow> bytes \<Rightarrow> ('t, cryptoki_error, bytes) rust_op"
  slot_try_from :: "u64 \<Rightarrow> ck_number option"
  ulong_try_from :: "usize \<Rightarrow> cryptoki_error + u64"
  mechanism_try_from :: "algorithm \<Rightarrow> cryptoki_error + mechanism"
  mechanism_type_of :: "mechanism \<Rightarrow> mechanism_type"
  status_from_int :: "nat \<Rightarrow> response_status"
  status_from_slice :: "nat \<Rightarrow> response_status"
  status_from_nul :: "nat \<Rightarrow> response_status"

section \<open>Conversions\<close>

fun rv_to_response_status :: "rv_error \<Rightarrow> response_status" where
  "rv_to_response_status HostMemory = PsaErrorInsufficientMemory"
| "rv_to_response_status DeviceError = PsaErrorHardwareFailure"
| "rv_to_response_status DeviceMemory = PsaErrorInsufficientStorage"
| "rv_to_response_status DeviceRemoved = PsaErrorHardwareFailure"
| "rv_to_response_status SignatureInvalid = PsaErrorInvalidSignature"
| "rv_to_response_status SignatureLenRange = PsaErrorInvalidSignature"
| "rv_to_response_status TokenNotPresent = PsaErrorHardwareFailure"
| "rv_to_response_status TokenNotRecognized = PsaErrorHardwareFailure"
| "rv_to_response_status RandomNoRng = PsaErrorInsufficientEntropy"
| "rv_to_response_status StateUnsaveable = PsaErrorHardwareFailure"
| "rv_to_response_status CurveNotSupported = PsaErrorNotSupported"
| "rv_to_response_status DomainParamsInvalid = PsaErrorNotSupported"
| "rv_to_response_status FunctionNotSupported = PsaErrorNotSupported"
| "rv_to_response_status (OtherRv _) = PsaErrorCommunicationFailure"

fun p11_response_status :: "'t cryptoki \<Rightarrow> cryptoki_error \<Rightarrow> response_status" where
  "p11_response_status ck LibraryLoading = PsaErrorCommunicationFailure"
| "p11_response_status ck (Pkcs11Error rv) = rv_to_response_status rv"
| "p11_response_status ck CkNotSupported = PsaErrorNotSupported"
| "p11_response_status ck (TryFromInt e) = status_from_int ck e"
| "p11_response_status ck (TryFromSlice e) = status_from_slice ck e"
| "p11_response_status ck (NulError e) = status_from_nul ck e"
| "p11_response_status ck (OtherCryptokiError _) = PsaErrorCommunicationFailure"

definition p11_public_exponent :: bytes where
  "p11_public_exponent = [0x01, 0x00, 0x01]"

datatype key_pair_type = KpPublicKey | KpPrivateKey | KpAny

text \<open>The two templates after the attributes for the usage flags have been pushed.\<close>

definition key_pair_usage_flags_to_pkcs11_attributes ::
  "usage_flags \<Rightarrow> p11_attribute list \<Rightarrow> p11_attribute list \<Rightarrow> p11_attribute list \<times> p11_attribute list" where
  "key_pair_usage_flags_to_pkcs11_attributes flags pub_template priv_template =
     (pub_template @ [AVerify (uf_verify_hash flags \<or> uf_verify_message flags), AEncrypt (uf_encrypt flags), ACopyable (uf_copy flags)],
      priv_template @ [ASign (uf_sign_hash flags \<or> uf_sign_message flags), ADecrypt (uf_decrypt flags), ADerive (uf_derive flags),
        AExtractable (uf_export flags), ASensitive (\<not> uf_export flags), ACopyable (uf_copy flags)])"

definition digest_info :: "asn1 \<Rightarrow> asymmetric_signature \<Rightarrow> bytes \<Rightarrow> bytes res" where
  "digest_info der alg hash =
     (case alg of
        RsaPkcs1v15Sign (Specific Sha224) \<Rightarrow> ok_or (digest_info_to_vec der SHA2_224 hash) PsaErrorGenericError
      | RsaPkcs1v15Sign (Specific Sha256) \<Rightarrow> ok_or (digest_info_to_vec der SHA2_256 hash) PsaErrorGenericError
      | RsaPkcs1v15Sign (Specific Sha384) \<Rightarrow> ok_or (digest_info_to_vec der SHA2_384 hash) PsaErrorGenericError
      | RsaPkcs1v15Sign (Specific Sha512) \<Rightarrow> ok_or (digest_info_to_vec der SHA2_512 hash) PsaErrorGenericError
      | _ \<Rightarrow> Inl PsaErrorNotSupported)"

text \<open>The object identifier of the named curve.\<close>

definition ec_params :: "ecc_family \<Rightarrow> usize \<Rightarrow> string res" where
  "ec_params family bits =
     (if family = SecpR1 \<and> bits = 192 then Inr ''1.2.840.10045.3.1.1''
      else if family = SecpR1 \<and> bits = 224 then Inr ''1.3.132.0.33''
      else if family = SecpR1 \<and> bits = 256 then Inr ''1.2.840.10045.3.1.7''
      else if family = SecpR1 \<and> bits = 384 then Inr ''1.3.132.0.34''
      else if family = SecpR1 \<and> bits = 521 then Inr ''1.3.132.0.35''
      else Inl PsaErrorNotSupported)"

section \<open>The provider\<close>

record ('m, 't, 'g, 'b, 'id) p11_provider =
  pk_key_info_store :: "'m kim_client"
  pk_backend :: "'t cryptoki"
  pk_slot_number :: ck_number
  pk_software_public_operations :: bool
  pk_allow_export :: bool
  pk_random :: "'g \<Rightarrow> u32 \<times> 'g"
  pk_psa :: "('b, 'id) psa_crypto"
  pk_interface :: asym_interface
  pk_asn1 :: asn1
  pk_id_codec :: "u32 id_codec"
  pk_uuid_parse :: "string \<Rightarrow> bytes option"

record ('m, 't, 'g, 'b) p11_state =
  ps_kim :: 'm
  ps_local_ids :: "u32 set"
  ps_stuck :: bool
  ps_token :: 't
  ps_rng :: 'g
  ps_psa :: 'b

definition p11_supported_opcodes :: "opcode list" where
  "p11_supported_opcodes =
     [PsaGenerateKey, PsaDestroyKey, PsaSignHash, PsaVerifyHash, PsaImportKey, PsaExportPublicKey,
      PsaAsymmetricDecrypt, PsaAsymmetricEncrypt]"

definition p11_on_kim :: "('m, 'a) res_op \<Rightarrow> (('m, 't, 'g, 'b) p11_state, 'a) res_op" where
  "p11_on_kim f w = (case f (ps_kim w) of (r, m) \<Rightarrow> (r, w\<lparr>ps_kim := m\<rparr>))"

definition p11_ask_kim :: "('m \<Rightarrow> 'a res) \<Rightarrow> (('m, 't, 'g, 'b) p11_state, 'a) res_op" where
  "p11_ask_kim f w = (f (ps_kim w), w)"

definition on_token ::
  "('m, 't, 'g, 'b, 'id) p11_provider \<Rightarrow> ('t, cryptoki_error, 'a) rust_op \<Rightarrow> (('m, 't, 'g, 'b) p11_state, 'a) res_op" where
  "on_token self f w =
     (case f (ps_token w) of (r, t) \<Rightarrow> (map_err (p11_response_status (pk_backend self)) r, w\<lparr>ps_token := t\<rparr>))"

definition ck_res ::
  "('m, 't, 'g, 'b, 'id) p11_provider \<Rightarrow> cryptoki_error + 'a \<Rightarrow> (('m, 't, 'g, 'b) p11_state, 'a) res_op" where
  "ck_res self r = read_op (\<lambda>_. map_err (p11_response_status (pk_backend self)) r)"

definition on_soft ::
  "('m, 't, 'g, 'b, 'id) p11_provider \<Rightarrow> ('b, 'a) psa_op \<Rightarrow> (('m, 't, 'g, 'b) p11_state, 'a) res_op" where
  "on_soft self f w =
     (case f (ps_psa w) of (r, b) \<Rightarrow> (map_err (response_status_from (pk_psa self)) r, w\<lparr>ps_psa := b\<rparr>))"

definition close_session ::
  "('m, 't, 'g, 'b, 'id) p11_provider \<Rightarrow> ck_number \<Rightarrow> ('m, 't, 'g, 'b) p11_state \<Rightarrow> ('m, 't, 'g, 'b) p11_state" where
  "close_session self s w = w\<lparr>ps_token := ck_close_session (pk_backend self) s (ps_token w)\<rparr>"

text \<open>\<open>new_session\<close>; a session that cannot log in is closed at once.\<close>

definition new_session :: "('m, 't, 'g, 'b, 'id) p11_provider \<Rightarrow> (('m, 't, 'g, 'b) p11_state, ck_number) res_op" where
  "new_session self =
     try_op (on_token self (ck_open_session (pk_backend self) (pk_slot_number self) True True)) (\<lambda>session w.
       case on_token self (ck_login (pk_backend self) session) w of
         (Inl e, w') \<Rightarrow> (Inl e, close_session self session w')
       | (Inr _, w') \<Rightarrow> (Inr session, w'))"

definition with_session ::
  "('m, 't, 'g, 'b, 'id) p11_provider \<Rightarrow> (ck_number \<Rightarrow> (('m, 't, 'g, 'b) p11_state, 'a) res_op) \<Rightarrow>
   (('m, 't, 'g, 'b) p11_state, 'a) res_op" where
  "with_session self f =
     try_op (new_session self) (\<lambda>session w. case f session w of (r, w') \<Rightarrow> (r, close_session self session w'))"

definition p11_triple :: "application_name \<Rightarrow> string \<Rightarrow> key_triple" where
  "p11_triple app name = key_triple_new app Pkcs11 name"

section \<open>Key numbers\<close>

text \<open>The loop of \<open>create_key_id\<close>: \<open>None\<close> if it never ends.\<close>

partial_function (option) draw_key_id :: "('g \<Rightarrow> u32 \<times> 'g) \<Rightarrow> u32 set \<Rightarrow> u32 \<Rightarrow> 'g \<Rightarrow> (u32 \<times> 'g) option" where
  "draw_key_id random local_ids key_id g =
     (if key_id \<in> local_ids then (case random g of (key_id', g') \<Rightarrow> draw_key_id random local_ids key_id' g')
      else Some (key_id, g))"

definition p11_create_key_id :: "('m, 't, 'g, 'b, 'id) p11_provider \<Rightarrow> (('m, 't, 'g, 'b) p11_state, u32) res_op" where
  "p11_create_key_id self w =
     (if ps_stuck w then (Inl PsaErrorGenericError, w)
      else case pk_random self (ps_rng w) of (key_id, g) \<Rightarrow>
        (case draw_key_id (pk_random self) (ps_local_ids w) key_id g of
           None \<Rightarrow> (Inl PsaErrorGenericError, w\<lparr>ps_stuck := True\<rparr>)
         | Some (key_id, g) \<Rightarrow> (Inr key_id, w\<lparr>ps_local_ids := insert key_id (ps_local_ids w), ps_rng := g\<rparr>)))"

section \<open>Key management\<close>

definition find_template :: "u32 \<Rightarrow> key_pair_type \<Rightarrow> p11_attribute list" where
  "find_template key_id kp =
     AId (u32_to_be_bytes key_id) #
     (case kp of KpPublicKey \<Rightarrow> [AClass PUBLIC_KEY] | KpPrivateKey \<Rightarrow> [AClass PRIVATE_KEY] | KpAny \<Rightarrow> [])"

definition find_key ::
  "('m, 't, 'g, 'b, 'id) p11_provider \<Rightarrow> ck_number \<Rightarrow> u32 \<Rightarrow> key_pair_type \<Rightarrow>
   (('m, 't, 'g, 'b) p11_state, ck_number) res_op" where
  "find_key self session key_id kp =
     try_op (on_token self (ck_find_objects (pk_backend self) session (find_template key_id kp))) (\<lambda>objects.
     case objects of [] \<Rightarrow> err_op PsaErrorDoesNotExist | key # _ \<Rightarrow> ok_op key)"

definition destroy_object ::
  "('m, 't, 'g, 'b, 'id) p11_provider \<Rightarrow> ck_number \<Rightarrow> ck_number \<Rightarrow> (('m, 't, 'g, 'b) p11_state, unit) res_op" where
  "destroy_object self session key = on_token self (ck_destroy_object (pk_backend self) session key)"

text \<open>Both templates and the mechanism of \<open>psa_generate_key_internal\<close>.\<close>

definition generate_templates ::
  "('m, 't, 'g, 'b, 'id) p11_provider \<Rightarrow> u32 \<Rightarrow> attributes \<Rightarrow> (mechanism \<times> p11_attribute list \<times> p11_attribute list) res" where
  "generate_templates self key_id attrs =
     (let ck = pk_backend self; status = p11_response_status ck in
      try_res (map_err status (mechanism_try_from ck (permitted_algorithms attrs))) (\<lambda>allowed.
      let priv = [AId (u32_to_be_bytes key_id), AToken True, AAllowedMechanisms [mechanism_type_of ck allowed]] in
      (case key_pair_usage_flags_to_pkcs11_attributes (usage_flags attrs) (priv @ [APrivate False]) priv of
         (pub_template, priv_template) \<Rightarrow>
           (case attr_key_type attrs of
              RsaKeyPair \<Rightarrow>
                try_res (map_err status (ulong_try_from ck (attr_bits attrs))) (\<lambda>bits.
                Inr (RsaPkcsKeyPairGen, pub_template @ [APublicExponent p11_public_exponent, AModulusBits bits], priv_template))
            | EccKeyPair curve_family \<Rightarrow>
                try_res (ec_params curve_family (attr_bits attrs)) (\<lambda>oid.
                try_res (ok_or (named_curve_to_vec (pk_asn1 self) oid) PsaErrorGenericError) (\<lambda>params.
                Inr (EccKeyPairGen, pub_template @ [AEcParams params], priv_template)))
            | _ \<Rightarrow> Inl PsaErrorNotSupported))))"

text \<open>
  The common end of \<open>generate\<close> and \<open>import\<close>: insert the mapping, or destroy the new objects again, whatever the answers.
\<close>

fun destroy_all ::
  "('m, 't, 'g, 'b, 'id) p11_provider \<Rightarrow> ck_number \<Rightarrow> ck_number list \<Rightarrow> ('m, 't, 'g, 'b) p11_state \<Rightarrow> ('m, 't, 'g, 'b) p11_state" where
  "destroy_all self session [] w = w"
| "destroy_all self session (key # keys) w = destroy_all self session keys (snd (destroy_object self session key w))"

definition p11_store_new_key ::
  "('m, 't, 'g, 'b, 'id) p11_provider \<Rightarrow> ck_number \<Rightarrow> key_triple \<Rightarrow> u32 \<Rightarrow> attributes \<Rightarrow> ck_number list \<Rightarrow>
   (('m, 't, 'g, 'b) p11_state, unit) res_op" where
  "p11_store_new_key self session kt key_id attrs keys w =
     (case p11_on_kim (insert_key_info (pk_id_codec self) (pk_key_info_store self) kt key_id attrs) w of
        (Inl e, w1) \<Rightarrow> (Inl e, destroy_all self session keys w1)
      | (Inr _, w1) \<Rightarrow> (Inr (), w1))"

definition p11_generate_key ::
  "('m, 't, 'g, 'b, 'id) p11_provider \<Rightarrow> application_name \<Rightarrow> generate_key_op \<Rightarrow> (('m, 't, 'g, 'b) p11_state, unit) res_op" where
  "p11_generate_key self app op =
     (let attrs = gk_attributes op; kt = p11_triple app (gk_key_name op) in
      if key_is_public (pk_interface self) (attr_key_type attrs) then err_op PsaErrorInvalidArgument
      else if uf_export (usage_flags attrs) \<and> \<not> pk_allow_export self then err_op PsaErrorNotPermitted
      else
        try_op (p11_ask_kim (\<lambda>m. does_not_exist (pk_key_info_store self) m kt)) (\<lambda>_.
        with_session self (\<lambda>session.
        try_op (p11_create_key_id self) (\<lambda>key_id.
        try_op (read_op (\<lambda>_. generate_templates self key_id attrs)) (\<lambda>(mech, pub_template, priv_template).
        try_op (on_token self (ck_generate_key_pair (pk_backend self) session mech pub_template priv_template)) (\<lambda>(public, private).
        p11_store_new_key self session kt key_id attrs [public, private]))))))"

definition handle_rsa_public_import_attrib ::
  "asn1 \<Rightarrow> bytes \<Rightarrow> usize \<Rightarrow> p11_attribute list \<Rightarrow> p11_attribute list res" where
  "handle_rsa_public_import_attrib der key_data bits template =
     try_res (ok_or (rsa_public_from_bytes der key_data) PsaErrorInvalidArgument) (\<lambda>public_key.
     if is_negative der (rpk_modulus public_key) \<or> is_negative der (rpk_public_exponent public_key)
     then Inl PsaErrorInvalidArgument
     else
       let modulus_object = as_unsigned_bytes_be der (rpk_modulus public_key);
           exponent_object = as_unsigned_bytes_be der (rpk_public_exponent public_key) in
       if bits \<noteq> 0 \<and> bit_len modulus_object \<noteq> bits then Inl PsaErrorInvalidArgument
       else Inr (template @ [AModulus modulus_object, APublicExponent exponent_object, AEncrypt True, APrivate False,
                  AAllowedMechanisms [RSA_PKCS], AKeyType KeyTypeRSA]))"

definition handle_ecc_public_import_attrib ::
  "asn1 \<Rightarrow> bytes \<Rightarrow> usize \<Rightarrow> ecc_family \<Rightarrow> p11_attribute list \<Rightarrow> p11_attribute list res" where
  "handle_ecc_public_import_attrib der key_data bits curve_family template =
     (if curve_family = Montgomery then Inl PsaErrorNotSupported
      else
        try_res (ok_or (octet_string_to_vec der key_data) PsaErrorInvalidArgument) (\<lambda>point.
        try_res (ec_params curve_family bits) (\<lambda>oid.
        try_res (ok_or (named_curve_to_vec der oid) PsaErrorGenericError) (\<lambda>params.
        Inr (template @ [AEcPoint point, APrivate False, AAllowedMechanisms [ECDSA_mechanism], AKeyType KeyTypeEC,
          AEcParams params])))))"

definition import_template ::
  "asn1 \<Rightarrow> u32 \<Rightarrow> import_key_op \<Rightarrow> p11_attribute list res" where
  "import_template der key_id op =
     (let attrs = ik_attributes op;
          template = [AClass PUBLIC_KEY, AToken True, AVerify True, AId (u32_to_be_bytes key_id)] in
      case attr_key_type attrs of
        RsaPublicKey \<Rightarrow> handle_rsa_public_import_attrib der (ik_data op) (attr_bits attrs) template
      | EccPublicKey curve_family \<Rightarrow> handle_ecc_public_import_attrib der (ik_data op) (attr_bits attrs) curve_family template
      | _ \<Rightarrow> Inl PsaErrorNotSupported)"

definition p11_import_key ::
  "('m, 't, 'g, 'b, 'id) p11_provider \<Rightarrow> application_name \<Rightarrow> import_key_op \<Rightarrow> (('m, 't, 'g, 'b) p11_state, unit) res_op" where
  "p11_import_key self app op =
     (let attrs = ik_attributes op; kt = p11_triple app (ik_key_name op) in
      if uf_export (usage_flags attrs) \<and> \<not> pk_allow_export self then err_op PsaErrorNotPermitted
      else
        try_op (p11_ask_kim (\<lambda>m. does_not_exist (pk_key_info_store self) m kt)) (\<lambda>_.
        with_session self (\<lambda>session.
        try_op (p11_create_key_id self) (\<lambda>key_id.
        try_op (read_op (\<lambda>_. import_template (pk_asn1 self) key_id op)) (\<lambda>template.
        try_op (on_token self (ck_create_object (pk_backend self) session template)) (\<lambda>key.
        p11_store_new_key self session kt key_id attrs [key]))))))"

definition p11_key_id ::
  "('m, 't, 'g, 'b, 'id) p11_provider \<Rightarrow> application_name \<Rightarrow> string \<Rightarrow> (('m, 't, 'g, 'b) p11_state, u32) res_op" where
  "p11_key_id self app name = p11_ask_kim (\<lambda>m. get_key_id (pk_id_codec self) (pk_key_info_store self) m (p11_triple app name))"

definition p11_key_attributes ::
  "('m, 't, 'g, 'b, 'id) p11_provider \<Rightarrow> application_name \<Rightarrow> string \<Rightarrow> (('m, 't, 'g, 'b) p11_state, attributes) res_op" where
  "p11_key_attributes self app name = p11_ask_kim (\<lambda>m. get_key_attributes (pk_key_info_store self) m (p11_triple app name))"

text \<open>The part of the two export functions after the attributes have been read.\<close>

definition rsa_key_of_attributes :: "asn1 \<Rightarrow> p11_attribute list \<Rightarrow> bytes res" where
  "rsa_key_of_attributes der attrs =
     (case attrs of
        [AModulus m, APublicExponent e] \<Rightarrow>
          ok_or (rsa_public_to_vec der
            \<lparr>rpk_modulus = from_bytes_be_unsigned der m, rpk_public_exponent = from_bytes_be_unsigned der e\<rparr>)
            PsaErrorCommunicationFailure
      | _ \<Rightarrow> Inl PsaErrorCommunicationFailure)"

definition ec_key_of_attributes :: "asn1 \<Rightarrow> p11_attribute list \<Rightarrow> bytes res" where
  "ec_key_of_attributes der attrs =
     (case attrs of
        [AEcPoint data] \<Rightarrow> ok_or (octet_string_from_bytes der data) PsaErrorGenericError
      | _ \<Rightarrow> Inl PsaErrorCommunicationFailure)"

definition export_public_rsa ::
  "('m, 't, 'g, 'b, 'id) p11_provider \<Rightarrow> ck_number \<Rightarrow> ck_number \<Rightarrow> (('m, 't, 'g, 'b) p11_state, bytes) res_op" where
  "export_public_rsa self key session =
     try_op (on_token self (ck_get_attributes (pk_backend self) session key [TModulus, TPublicExponent])) (\<lambda>attrs.
     read_op (\<lambda>_. rsa_key_of_attributes (pk_asn1 self) attrs))"

definition export_public_ec ::
  "('m, 't, 'g, 'b, 'id) p11_provider \<Rightarrow> ck_number \<Rightarrow> ck_number \<Rightarrow> (('m, 't, 'g, 'b) p11_state, bytes) res_op" where
  "export_public_ec self key session =
     try_op (on_token self (ck_get_attributes (pk_backend self) session key [TEcPoint])) (\<lambda>attrs.
     read_op (\<lambda>_. ec_key_of_attributes (pk_asn1 self) attrs))"

definition p11_export_public_key ::
  "('m, 't, 'g, 'b, 'id) p11_provider \<Rightarrow> application_name \<Rightarrow> string \<Rightarrow> (('m, 't, 'g, 'b) p11_state, bytes) res_op" where
  "p11_export_public_key self app name =
     try_op (p11_key_attributes self app name) (\<lambda>attrs.
     try_op (p11_key_id self app name) (\<lambda>key_id.
     with_session self (\<lambda>session.
     try_op (find_key self session key_id KpPublicKey) (\<lambda>key.
     case attr_key_type attrs of
       RsaKeyPair \<Rightarrow> export_public_rsa self key session
     | RsaPublicKey \<Rightarrow> export_public_rsa self key session
     | EccKeyPair _ \<Rightarrow> export_public_ec self key session
     | EccPublicKey _ \<Rightarrow> export_public_ec self key session
     | _ \<Rightarrow> err_op PsaErrorNotSupported))))"

definition p11_destroy_key ::
  "('m, 't, 'g, 'b, 'id) p11_provider \<Rightarrow> application_name \<Rightarrow> string \<Rightarrow> (('m, 't, 'g, 'b) p11_state, unit) res_op" where
  "p11_destroy_key self app name =
     try_op (p11_key_id self app name) (\<lambda>key_id.
     try_op (p11_on_kim (remove_key_info (pk_key_info_store self) (p11_triple app name))) (\<lambda>_.
     with_session self (\<lambda>session.
     try_op (find_key self session key_id KpAny) (\<lambda>first_key.
     try_op (destroy_object self session first_key) (\<lambda>_ w.
     (case find_key self session key_id KpAny w of
        (Inr key, w1) \<Rightarrow> destroy_object self session key w1
      | (Inl e, w1) \<Rightarrow> (if e = PsaErrorDoesNotExist then Inr () else Inl e, w1)))))))"

section \<open>Public key operations in software\<close>

definition public_key_type :: "key_type \<Rightarrow> key_type res" where
  "public_key_type ty =
     (case ty of
        RsaKeyPair \<Rightarrow> Inr RsaPublicKey
      | RsaPublicKey \<Rightarrow> Inr RsaPublicKey
      | EccKeyPair curve_family \<Rightarrow> Inr (EccPublicKey curve_family)
      | EccPublicKey curve_family \<Rightarrow> Inr (EccPublicKey curve_family)
      | DhKeyPair group_family \<Rightarrow> Inr (DhPublicKey group_family)
      | DhPublicKey group_family \<Rightarrow> Inr (DhPublicKey group_family)
      | _ \<Rightarrow> Inl PsaErrorInvalidArgument)"

definition move_pub_key_to_psa_crypto ::
  "('m, 't, 'g, 'b, 'id) p11_provider \<Rightarrow> application_name \<Rightarrow> string \<Rightarrow> (('m, 't, 'g, 'b) p11_state, 'id) res_op" where
  "move_pub_key_to_psa_crypto self app name =
     try_op (p11_export_public_key self app name) (\<lambda>data.
     try_op (p11_key_attributes self app name) (\<lambda>attrs.
     try_op (read_op (\<lambda>_. public_key_type (attr_key_type attrs))) (\<lambda>ty.
     on_soft self (psa_import (pk_psa self) (attrs\<lparr>attr_lifetime := Volatile, attr_key_type := ty\<rparr>) None data))))"

definition remove_psa_crypto_pub_key ::
  "('m, 't, 'g, 'b, 'id) p11_provider \<Rightarrow> 'id \<Rightarrow> (('m, 't, 'g, 'b) p11_state, unit) res_op" where
  "remove_psa_crypto_pub_key self pub_key_id = on_soft self (psa_destroy (pk_psa self) pub_key_id)"

definition software_verify_hash ::
  "('m, 't, 'g, 'b, 'id) p11_provider \<Rightarrow> application_name \<Rightarrow> verify_hash_op \<Rightarrow> (('m, 't, 'g, 'b) p11_state, unit) res_op" where
  "software_verify_hash self app op =
     try_op (p11_key_attributes self app (vh_key_name op)) (\<lambda>attrs.
     try_op (read_op (\<lambda>_. check_verify_hash (pk_interface self) op attrs)) (\<lambda>_.
     try_op (move_pub_key_to_psa_crypto self app (vh_key_name op)) (\<lambda>pub_key_id w.
     (case on_soft self (psa_verify_hash (pk_psa self) pub_key_id (vh_alg op) (vh_hash op) (vh_signature op)) w of
        (res, w1) \<Rightarrow> (case remove_psa_crypto_pub_key self pub_key_id w1 of (_, w2) \<Rightarrow> (res, w2))))))"

text \<open>\<open>vec![0u8; buffer_size]\<close>, and \<open>resize\<close> to the size that was written.\<close>

definition software_asymmetric_encrypt ::
  "('m, 't, 'g, 'b, 'id) p11_provider \<Rightarrow> application_name \<Rightarrow> asymmetric_encrypt_op \<Rightarrow> (('m, 't, 'g, 'b) p11_state, bytes) res_op" where
  "software_asymmetric_encrypt self app op =
     try_op (p11_key_attributes self app (ae_key_name op)) (\<lambda>attrs.
     try_op (read_op (\<lambda>_. check_asymmetric_encrypt (pk_interface self) op attrs)) (\<lambda>_.
     try_op (read_op (\<lambda>_. map_err (response_status_from (pk_psa self))
       (asymmetric_encrypt_output_size (pk_psa self) attrs (ae_alg op)))) (\<lambda>buffer_size.
     try_op (move_pub_key_to_psa_crypto self app (ae_key_name op)) (\<lambda>pub_key_id w.
     (case on_soft self (psa_encrypt (pk_psa self) pub_key_id (ae_alg op) (ae_plaintext op) (ae_salt op)
         (replicate (unat buffer_size) 0)) w of
        (res, w1) \<Rightarrow>
          (case remove_psa_crypto_pub_key self pub_key_id w1 of
             (_, w2) \<Rightarrow> (try_res res (\<lambda>(ciphertext, output_size). Inr (vec_resize (unat output_size) 0 ciphertext)), w2)))))))"

section \<open>Signing and encrypting with the token\<close>

definition p11_sign_hash ::
  "('m, 't, 'g, 'b, 'id) p11_provider \<Rightarrow> application_name \<Rightarrow> sign_hash_op \<Rightarrow> (('m, 't, 'g, 'b) p11_state, bytes) res_op" where
  "p11_sign_hash self app op =
     try_op (p11_key_id self app (sh_key_name op)) (\<lambda>key_id.
     try_op (p11_key_attributes self app (sh_key_name op)) (\<lambda>attrs.
     try_op (read_op (\<lambda>_. check_sign_hash (pk_interface self) op attrs)) (\<lambda>_.
     try_op (ck_res self (mechanism_try_from (pk_backend self) (Alg_AsymmetricSignature (sh_alg op)))) (\<lambda>mech.
     with_session self (\<lambda>session.
     try_op (find_key self session key_id KpPrivateKey) (\<lambda>key.
     try_op (read_op (\<lambda>_. case attr_key_type attrs of
         RsaKeyPair \<Rightarrow> digest_info (pk_asn1 self) (sh_alg op) (sh_hash op)
       | EccKeyPair _ \<Rightarrow> Inr (sh_hash op)
       | _ \<Rightarrow> Inl PsaErrorNotSupported)) (\<lambda>hash.
     on_token self (ck_sign (pk_backend self) session mech key hash))))))))"

definition p11_verify_hash ::
  "('m, 't, 'g, 'b, 'id) p11_provider \<Rightarrow> application_name \<Rightarrow> verify_hash_op \<Rightarrow> (('m, 't, 'g, 'b) p11_state, unit) res_op" where
  "p11_verify_hash self app op =
     try_op (p11_key_id self app (vh_key_name op)) (\<lambda>key_id.
     try_op (p11_key_attributes self app (vh_key_name op)) (\<lambda>attrs.
     try_op (read_op (\<lambda>_. check_verify_hash (pk_interface self) op attrs)) (\<lambda>_.
     try_op (ck_res self (mechanism_try_from (pk_backend self) (Alg_AsymmetricSignature (vh_alg op)))) (\<lambda>mech.
     with_session self (\<lambda>session.
     try_op (find_key self session key_id KpPublicKey) (\<lambda>key.
     try_op (read_op (\<lambda>_. case attr_key_type attrs of
         RsaKeyPair \<Rightarrow> digest_info (pk_asn1 self) (vh_alg op) (vh_hash op)
       | RsaPublicKey \<Rightarrow> digest_info (pk_asn1 self) (vh_alg op) (vh_hash op)
       | EccKeyPair _ \<Rightarrow> Inr (vh_hash op)
       | EccPublicKey _ \<Rightarrow> Inr (vh_hash op)
       | _ \<Rightarrow> Inl PsaErrorNotSupported)) (\<lambda>hash.
     on_token self (ck_verify (pk_backend self) session mech key hash (vh_signature op)))))))))"

definition p11_asymmetric_encrypt ::
  "('m, 't, 'g, 'b, 'id) p11_provider \<Rightarrow> application_name \<Rightarrow> asymmetric_encrypt_op \<Rightarrow> (('m, 't, 'g, 'b) p11_state, bytes) res_op" where
  "p11_asymmetric_encrypt self app op =
     try_op (p11_key_id self app (ae_key_name op)) (\<lambda>key_id.
     try_op (p11_key_attributes self app (ae_key_name op)) (\<lambda>attrs.
     try_op (read_op (\<lambda>_. check_asymmetric_encrypt (pk_interface self) op attrs)) (\<lambda>_.
     try_op (ck_res self (mechanism_try_from (pk_backend self) (Alg_AsymmetricEncryption (ae_alg op)))) (\<lambda>mech.
     with_session self (\<lambda>session.
     try_op (find_key self session key_id KpPublicKey) (\<lambda>key.
     on_token self (ck_encrypt (pk_backend self) session mech key (ae_plaintext op))))))))"

definition p11_asymmetric_decrypt ::
  "('m, 't, 'g, 'b, 'id) p11_provider \<Rightarrow> application_name \<Rightarrow> asymmetric_decrypt_op \<Rightarrow> (('m, 't, 'g, 'b) p11_state, bytes) res_op" where
  "p11_asymmetric_decrypt self app op =
     try_op (p11_key_id self app (ad_key_name op)) (\<lambda>key_id.
     try_op (p11_key_attributes self app (ad_key_name op)) (\<lambda>attrs.
     try_op (read_op (\<lambda>_. check_asymmetric_decrypt (pk_interface self) op attrs)) (\<lambda>_.
     try_op (ck_res self (mechanism_try_from (pk_backend self) (Alg_AsymmetricEncryption (ad_alg op)))) (\<lambda>mech.
     with_session self (\<lambda>session.
     try_op (find_key self session key_id KpPrivateKey) (\<lambda>key.
     on_token self (ck_decrypt (pk_backend self) session mech key (ad_ciphertext op))))))))"

section \<open>The trait implementation\<close>

definition p11_describe :: "('m, 't, 'g, 'b, 'id) p11_provider \<Rightarrow> (provider_info \<times> opcode fset) res" where
  "p11_describe self =
     try_res (ok_or (pk_uuid_parse self ''30e39502-eba6-4d60-a4af-c518b7f5e38f'') InvalidEncoding) (\<lambda>uuid.
     Inr (\<lparr>pi_uuid = uuid,
           pi_description = ''PKCS #11 provider, interfacing with a PKCS #11 library.'',
           pi_vendor = ''OASIS Standard.'', pi_version_maj = 0, pi_version_min = 1, pi_version_rev = 0,
           pi_id = Pkcs11\<rparr>,
          fset_of_list p11_supported_opcodes))"

definition p11_list_keys ::
  "('m, 't, 'g, 'b, 'id) p11_provider \<Rightarrow> application_name \<Rightarrow> (('m, 't, 'g, 'b) p11_state, listed_key list) res_op" where
  "p11_list_keys self app = p11_ask_kim (\<lambda>m. kim_list_keys (pk_key_info_store self) m app)"

definition p11_list_clients ::
  "('m, 't, 'g, 'b, 'id) p11_provider \<Rightarrow> (('m, 't, 'g, 'b) p11_state, string list) res_op" where
  "p11_list_clients self = p11_ask_kim (kim_list_clients (pk_key_info_store self))"

definition p11_psa_verify_hash ::
  "('m, 't, 'g, 'b, 'id) p11_provider \<Rightarrow> application_name \<Rightarrow> verify_hash_op \<Rightarrow> (('m, 't, 'g, 'b) p11_state, unit) res_op" where
  "p11_psa_verify_hash self app op =
     (if pk_software_public_operations self then software_verify_hash self app op else p11_verify_hash self app op)"

definition p11_psa_asymmetric_encrypt ::
  "('m, 't, 'g, 'b, 'id) p11_provider \<Rightarrow> application_name \<Rightarrow> asymmetric_encrypt_op \<Rightarrow> (('m, 't, 'g, 'b) p11_state, bytes) res_op" where
  "p11_psa_asymmetric_encrypt self app op =
     (if pk_software_public_operations self then software_asymmetric_encrypt self app op else p11_asymmetric_encrypt self app op)"

definition p11_provide :: "('m, 't, 'g, 'b, 'id) p11_provider \<Rightarrow> ('m, 't, 'g, 'b) p11_state provide" where
  "p11_provide self =
     (default_provide (Some (p11_describe self)) (p11_list_keys self) (p11_list_clients self))
       \<lparr>p_psa_generate_key := p11_generate_key self, p_psa_import_key := p11_import_key self,
        p_psa_export_public_key := p11_export_public_key self, p_psa_destroy_key := p11_destroy_key self,
        p_psa_sign_hash := p11_sign_hash self, p_psa_verify_hash := p11_psa_verify_hash self,
        p_psa_asymmetric_encrypt := p11_psa_asymmetric_encrypt self,
        p_psa_asymmetric_decrypt := p11_asymmetric_decrypt self\<rparr>"

section \<open>Start-up\<close>

text \<open>
  The loop over the stored triples: the numbers of the keys that are there, and the triples to remove; an
  error when searching ends the start-up.
\<close>

fun p11_scan ::
  "('m, 't, 'g, 'b, 'id) p11_provider \<Rightarrow> ck_number \<Rightarrow> key_triple list \<Rightarrow> key_triple list \<Rightarrow>
   (('m, 't, 'g, 'b) p11_state, key_triple list) res_op" where
  "p11_scan self session [] to_remove w = (Inr to_remove, w)"
| "p11_scan self session (kt # kts) to_remove w =
     (case get_key_id (pk_id_codec self) (pk_key_info_store self) (ps_kim w) kt of
        Inl e \<Rightarrow>
          (if e = PsaErrorDoesNotExist then p11_scan self session kts to_remove w
           else p11_scan self session kts (to_remove @ [kt]) w)
      | Inr key_id \<Rightarrow>
          (case find_key self session key_id KpAny w of
             (Inr _, w1) \<Rightarrow> p11_scan self session kts to_remove (w1\<lparr>ps_local_ids := insert key_id (ps_local_ids w1)\<rparr>)
           | (Inl e, w1) \<Rightarrow>
               (if e = PsaErrorDoesNotExist then p11_scan self session kts (to_remove @ [kt]) w1 else (Inl e, w1))))"

datatype 'a p11_start = Started 'a | NotStarted | StartPanic

text \<open>
  \<open>user_pin\<close> is set first. \<open>psa_crypto::init\<close> is expected to succeed; the result says whether the start failed or panicked.
\<close>

definition p11_new ::
  "('m, 't, 'g, 'b, 'id) p11_provider \<Rightarrow> string option \<Rightarrow> 'm \<Rightarrow> 't \<Rightarrow> 'g \<Rightarrow> 'b \<Rightarrow>
   ('m, 't, 'g, 'b) p11_state p11_start \<times> ('m, 't, 'g, 'b) p11_state" where
  "p11_new self user_pin m t g b =
     (let w = \<lparr>ps_kim = m, ps_local_ids = {}, ps_stuck = False, ps_token = t, ps_rng = g, ps_psa = b\<rparr> in
      case (case user_pin of None \<Rightarrow> (Inr (), w) | Some pin \<Rightarrow> on_token self (ck_set_pin (pk_backend self) (pk_slot_number self) pin) w) of
        (Inl _, w1) \<Rightarrow> (NotStarted, w1)
      | (Inr _, w1) \<Rightarrow>
          (case kim_get_all (pk_key_info_store self) (ps_kim w1) of
             Inl _ \<Rightarrow> (NotStarted, w1)
           | Inr kts \<Rightarrow>
               (case with_session self (\<lambda>session. p11_scan self session kts []) w1 of
                  (Inl _, w2) \<Rightarrow> (NotStarted, w2)
                | (Inr to_remove, w2) \<Rightarrow>
                    (case remove_triples (pk_key_info_store self) to_remove (ps_kim w2) of
                       (False, m') \<Rightarrow> (NotStarted, w2\<lparr>ps_kim := m'\<rparr>)
                     | (True, m') \<Rightarrow>
                         let w3 = w2\<lparr>ps_kim := m'\<rparr> in
                         if pk_software_public_operations self
                         then (case psa_init (pk_psa self) (ps_psa w3) of
                                 (Inl _, b') \<Rightarrow> (StartPanic, w3\<lparr>ps_psa := b'\<rparr>)
                               | (Inr _, b') \<Rightarrow> (Started (w3\<lparr>ps_psa := b'\<rparr>), w3\<lparr>ps_psa := b'\<rparr>))
                         else (Started w3, w3)))))"

section \<open>The builder\<close>

record 'm p11_builder_state =
  pb_key_info_store :: "'m kim_client option"
  pb_pkcs11_library_path :: "string option"
  pb_slot_number :: "u64 option"
  pb_user_pin :: "string option"
  pb_software_public_operations :: "bool option"
  pb_allow_export :: "bool option"

definition p11_builder_new :: "'m p11_builder_state" where
  "p11_builder_new =
     \<lparr>pb_key_info_store = None, pb_pkcs11_library_path = None, pb_slot_number = None, pb_user_pin = None,
      pb_software_public_operations = None, pb_allow_export = None\<rparr>"

definition p11_with_key_info_store :: "'m p11_builder_state \<Rightarrow> 'm kim_client \<Rightarrow> 'm p11_builder_state" where
  "p11_with_key_info_store self store = self\<lparr>pb_key_info_store := Some store\<rparr>"

definition p11_with_pkcs11_library_path :: "'m p11_builder_state \<Rightarrow> string \<Rightarrow> 'm p11_builder_state" where
  "p11_with_pkcs11_library_path self path = self\<lparr>pb_pkcs11_library_path := Some path\<rparr>"

definition p11_with_slot_number :: "'m p11_builder_state \<Rightarrow> u64 \<Rightarrow> 'm p11_builder_state" where
  "p11_with_slot_number self slot = self\<lparr>pb_slot_number := Some slot\<rparr>"

definition p11_with_user_pin :: "'m p11_builder_state \<Rightarrow> string option \<Rightarrow> 'm p11_builder_state" where
  "p11_with_user_pin self user_pin = self\<lparr>pb_user_pin := user_pin\<rparr>"

definition p11_with_software_public_operations :: "'m p11_builder_state \<Rightarrow> bool option \<Rightarrow> 'm p11_builder_state" where
  "p11_with_software_public_operations self flag = self\<lparr>pb_software_public_operations := flag\<rparr>"

definition p11_with_allow_export :: "'m p11_builder_state \<Rightarrow> bool option \<Rightarrow> 'm p11_builder_state" where
  "p11_with_allow_export self flag = self\<lparr>pb_allow_export := flag\<rparr>"

text \<open>
  What \<open>build\<close> does before \<open>Provider::new\<close>: \<open>mk\<close> puts the provider together, with the crates in use, from the store, the
  slot and the two flags.
\<close>

definition p11_prepare ::
  "('m kim_client \<Rightarrow> ck_number \<Rightarrow> bool \<Rightarrow> bool \<Rightarrow> ('m, 't, 'g, 'b, 'id) p11_provider) \<Rightarrow> 't cryptoki \<Rightarrow>
   'm p11_builder_state \<Rightarrow> ('t, string, ('m, 't, 'g, 'b, 'id) p11_provider) rust_op" where
  "p11_prepare mk ck self =
     try_op (read_op (\<lambda>_. ok_or (pb_pkcs11_library_path self) ''missing library path'')) (\<lambda>library_path.
     try_op (read_op (\<lambda>_. ok_or (pb_slot_number self) ''missing slot number'')) (\<lambda>slot_number.
     try_op (read_op (\<lambda>_. ok_or (slot_try_from ck slot_number) ''cannot convert slot value'')) (\<lambda>slot.
     try_op (\<lambda>t. case ck_new ck library_path t of (r, t') \<Rightarrow> (map_err (\<lambda>_. ''error creating PKCS 11 context'') r, t')) (\<lambda>_.
     try_op (\<lambda>t. case ck_initialize ck t of (r, t') \<Rightarrow> (map_err (\<lambda>_. ''error initializing PKCS 11 context'') r, t')) (\<lambda>_.
     try_op (read_op (\<lambda>_. ok_or (pb_key_info_store self) ''missing key info store'')) (\<lambda>store.
     ok_op (mk store slot (case pb_software_public_operations self of None \<Rightarrow> False | Some x \<Rightarrow> x)
              (case pb_allow_export self of None \<Rightarrow> True | Some x \<Rightarrow> x))))))))"

definition p11_build ::
  "('m kim_client \<Rightarrow> ck_number \<Rightarrow> bool \<Rightarrow> bool \<Rightarrow> ('m, 't, 'g, 'b, 'id) p11_provider) \<Rightarrow> 't cryptoki \<Rightarrow>
   'm p11_builder_state \<Rightarrow> 'm \<Rightarrow> 't \<Rightarrow> 'g \<Rightarrow> 'b \<Rightarrow>
   string + (('m, 't, 'g, 'b, 'id) p11_provider \<times> ('m, 't, 'g, 'b) p11_state p11_start)" where
  "p11_build mk ck builder m t g b =
     (case p11_prepare mk ck builder t of
        (Inl e, _) \<Rightarrow> Inl e
      | (Inr self, t') \<Rightarrow>
          (case fst (p11_new self (pb_user_pin builder) m t' g b) of
             NotStarted \<Rightarrow> Inl ''PKCS 11 initialization failed''
           | started \<Rightarrow> Inr (self, started)))"

end
