(* ===== verification/Pkcs11_Keys.thy ===== *)
theory Pkcs11_Keys
  imports Pkcs11_Provider Key_Numbers
begin

text \<open>
  The keys of the PKCS 11 provider: the objects of the token, the invariant of the mappings and of the set of numbers in use, that
  every operation keeps it and leaves the objects of other applications alone, and what creating a key does. Everything is
  proved for an arbitrary key info manager and holds for the on-disk manager through \<open>odm\<close>.
\<close>

section \<open>Objects of the token\<close>

type_synonym p11_objects = "ck_number \<Rightarrow> p11_attribute list option"

text \<open>The objects whose identifier is that of key number \<open>k\<close>.\<close>

definition objects_with :: "p11_objects \<Rightarrow> u32 \<Rightarrow> (ck_number \<times> p11_attribute list) set option" where
  "objects_with Ob k = Some {(h, as). Ob h = Some as \<and> AId (u32_to_be_bytes k) \<in> set as}"

definition only_id :: "u32 \<Rightarrow> p11_objects \<Rightarrow> p11_objects \<Rightarrow> bool" where
  "only_id k Ob Ob' \<longleftrightarrow> (\<forall>k'. k' \<noteq> k \<longrightarrow> objects_with Ob' k' = objects_with Ob k')"

definition single_id :: "p11_objects \<Rightarrow> bool" where
  "single_id Ob \<longleftrightarrow> (\<forall>h as i j. Ob h = Some as \<longrightarrow> AId i \<in> set as \<longrightarrow> AId j \<in> set as \<longrightarrow> i = j)"

definition has_id :: "p11_objects \<Rightarrow> u32 \<Rightarrow> ck_number \<Rightarrow> bool" where
  "has_id Ob k h \<longleftrightarrow> (\<forall>as. Ob h = Some as \<longrightarrow> AId (u32_to_be_bytes k) \<in> set as)"

text \<open>New objects with the identifier of \<open>k\<close> under the handles in \<open>H\<close>, and no other change.\<close>

definition adds_objects :: "u32 \<Rightarrow> ck_number set \<Rightarrow> p11_objects \<Rightarrow> p11_objects \<Rightarrow> bool" where
  "adds_objects k H Ob Ob' \<longleftrightarrow>
     (\<forall>h. if h \<in> H then Ob h = None \<and> (\<exists>as. Ob' h = Some as \<and> AId (u32_to_be_bytes k) \<in> set as) else Ob' h = Ob h)"

lemma only_id_refl [simp]: "only_id k Ob Ob"
  by (simp add: only_id_def)

lemma only_id_trans: "only_id k O1 O2 \<Longrightarrow> only_id k O2 O3 \<Longrightarrow> only_id k O1 O3"
  by (simp add: only_id_def)

lemma only_id_upd: "only_id k Ob Ob' \<Longrightarrow> objects_with Ob' = (objects_with Ob)(k := objects_with Ob' k)"
  by (auto simp: only_id_def fun_eq_iff)

lemma single_idD:
  "single_id Ob \<Longrightarrow> Ob h = Some as \<Longrightarrow> AId (u32_to_be_bytes i) \<in> set as \<Longrightarrow> AId (u32_to_be_bytes j) \<in> set as \<Longrightarrow> i = j"
  unfolding single_id_def by (metis u32_to_be_bytes_inject)

lemma only_id_remove: "single_id Ob \<Longrightarrow> has_id Ob k h \<Longrightarrow> only_id k Ob (Ob(h := None))"
  by (auto simp: only_id_def objects_with_def has_id_def split: if_splits dest: single_idD)

lemma adds_objects_only_id: "adds_objects k H Ob Ob' \<Longrightarrow> single_id Ob' \<Longrightarrow> only_id k Ob Ob'"
  unfolding only_id_def objects_with_def adds_objects_def
  by (auto dest: single_idD) (metis option.distinct(1) option.inject single_idD)+

lemma adds_objects_has_id: "adds_objects k H Ob Ob' \<Longrightarrow> h \<in> H \<Longrightarrow> has_id Ob' k h"
  unfolding adds_objects_def has_id_def by (metis option.inject)

lemma has_id_remove: "has_id Ob k h \<Longrightarrow> has_id (Ob(h' := None)) k h"
  by (simp add: has_id_def)

section \<open>The token\<close>

text \<open>
  What PKCS 11 says of the objects that a logged-in user sees: searching finds exactly the objects with the attributes of the template;
  creating functions add new objects with the attributes of their templates or change nothing; destroying removes the object
  or fails; every other function leaves the objects alone; an object has one identifier at most.
\<close>

definition ck_leaves :: "('t \<Rightarrow> p11_objects) \<Rightarrow> ('t, cryptoki_error, 'a) rust_op \<Rightarrow> bool" where
  "ck_leaves objs f \<longleftrightarrow> (\<forall>t r t'. f t = (r, t') \<longrightarrow> objs t' = objs t)"

definition ck_finds :: "'t cryptoki \<Rightarrow> ('t \<Rightarrow> p11_objects) \<Rightarrow> bool" where
  "ck_finds ck objs \<longleftrightarrow>
     (\<forall>s template t hs t'. ck_find_objects ck s template t = (Inr hs, t') \<longrightarrow>
        set hs = {h. \<exists>as. objs t h = Some as \<and> set template \<subseteq> set as})"

definition ck_creates :: "'t cryptoki \<Rightarrow> ('t \<Rightarrow> p11_objects) \<Rightarrow> bool" where
  "ck_creates ck objs \<longleftrightarrow>
     (\<forall>s template t r t'. ck_create_object ck s template t = (r, t') \<longrightarrow>
        (case r of
           Inl _ \<Rightarrow> objs t' = objs t
         | Inr h \<Rightarrow> objs t h = None \<and> (\<exists>as. objs t' = (objs t)(h \<mapsto> as) \<and> set template \<subseteq> set as)))"

definition ck_generates :: "'t cryptoki \<Rightarrow> ('t \<Rightarrow> p11_objects) \<Rightarrow> bool" where
  "ck_generates ck objs \<longleftrightarrow>
     (\<forall>s mech pub priv t r t'. ck_generate_key_pair ck s mech pub priv t = (r, t') \<longrightarrow>
        (case r of
           Inl _ \<Rightarrow> objs t' = objs t
         | Inr (h1, h2) \<Rightarrow> h1 \<noteq> h2 \<and> objs t h1 = None \<and> objs t h2 = None \<and>
             (\<exists>as1 as2. objs t' = (objs t)(h1 \<mapsto> as1, h2 \<mapsto> as2) \<and> set pub \<subseteq> set as1 \<and> set priv \<subseteq> set as2)))"

definition ck_destroys :: "'t cryptoki \<Rightarrow> ('t \<Rightarrow> p11_objects) \<Rightarrow> bool" where
  "ck_destroys ck objs \<longleftrightarrow>
     (\<forall>s h t r t'. ck_destroy_object ck s h t = (r, t') \<longrightarrow> objs t' = (objs t)(h := None) \<or> isl r \<and> objs t' = objs t)"

definition token_contract :: "'t cryptoki \<Rightarrow> ('t \<Rightarrow> p11_objects) \<Rightarrow> bool" where
  "token_contract ck objs \<longleftrightarrow>
     (\<forall>slot pin. ck_leaves objs (ck_set_pin ck slot pin)) \<and>
     (\<forall>slot x y. ck_leaves objs (ck_open_session ck slot x y)) \<and>
     (\<forall>s. ck_leaves objs (ck_login ck s)) \<and>
     (\<forall>s t. objs (ck_close_session ck s t) = objs t) \<and>
     (\<forall>s template. ck_leaves objs (ck_find_objects ck s template)) \<and>
     (\<forall>s h ty. ck_leaves objs (ck_get_attributes ck s h ty)) \<and>
     (\<forall>s m h d. ck_leaves objs (ck_sign ck s m h d)) \<and>
     (\<forall>s m h d e. ck_leaves objs (ck_verify ck s m h d e)) \<and>
     (\<forall>s m h d. ck_leaves objs (ck_encrypt ck s m h d)) \<and>
     (\<forall>s m h d. ck_leaves objs (ck_decrypt ck s m h d)) \<and>
     ck_finds ck objs \<and> ck_creates ck objs \<and> ck_generates ck objs \<and> ck_destroys ck objs \<and>
     (\<forall>t. single_id (objs t))"

lemma token_contract_leaves:
  assumes "token_contract ck objs"
  shows "ck_leaves objs (ck_set_pin ck slot pin)" "ck_leaves objs (ck_open_session ck slot x y)" "ck_leaves objs (ck_login ck s)"
    "ck_leaves objs (ck_find_objects ck s template)" "ck_leaves objs (ck_get_attributes ck s h ty)"
    "ck_leaves objs (ck_sign ck s m h d)" "ck_leaves objs (ck_verify ck s m h d e)"
    "ck_leaves objs (ck_encrypt ck s m h d)" "ck_leaves objs (ck_decrypt ck s m h d)"
  using assms by (simp_all add: token_contract_def)

lemma token_contractD:
  assumes "token_contract ck objs"
  shows "objs (ck_close_session ck s t) = objs t" "ck_finds ck objs" "ck_creates ck objs" "ck_generates ck objs"
    "ck_destroys ck objs" "single_id (objs t)"
  using assms by (simp_all add: token_contract_def)

lemma ck_leavesD: "ck_leaves objs f \<Longrightarrow> f t = (r, t') \<Longrightarrow> objs t' = objs t"
  by (simp add: ck_leaves_def)

lemma ck_findsD:
  assumes "ck_finds ck objs" and "ck_find_objects ck s template t = (Inr hs, t')" and "h \<in> set hs"
  shows "\<exists>as. objs t h = Some as \<and> set template \<subseteq> set as"
proof -
  from assms(1,2) have "set hs = {h. \<exists>as. objs t h = Some as \<and> set template \<subseteq> set as}" unfolding ck_finds_def by blast
  with assms(3) show ?thesis by blast
qed

lemma ck_createsD:
  assumes "ck_creates ck objs" and "ck_create_object ck s template t = (Inr h, t')"
  shows "objs t h = None \<and> (\<exists>as. objs t' = (objs t)(h \<mapsto> as) \<and> set template \<subseteq> set as)"
  using assms unfolding ck_creates_def by fastforce

lemma ck_creates_Inl: "ck_creates ck objs \<Longrightarrow> ck_create_object ck s template t = (Inl e, t') \<Longrightarrow> objs t' = objs t"
  unfolding ck_creates_def by fastforce

lemma ck_generatesD:
  assumes "ck_generates ck objs" and "ck_generate_key_pair ck s mech pub priv t = (Inr (h1, h2), t')"
  shows "h1 \<noteq> h2 \<and> objs t h1 = None \<and> objs t h2 = None \<and>
    (\<exists>as1 as2. objs t' = (objs t)(h1 \<mapsto> as1, h2 \<mapsto> as2) \<and> set pub \<subseteq> set as1 \<and> set priv \<subseteq> set as2)"
  using assms unfolding ck_generates_def by fastforce

lemma ck_generates_Inl:
  "ck_generates ck objs \<Longrightarrow> ck_generate_key_pair ck s mech pub priv t = (Inl e, t') \<Longrightarrow> objs t' = objs t"
  unfolding ck_generates_def by fastforce

lemma ck_destroysD:
  "ck_destroys ck objs \<Longrightarrow> ck_destroy_object ck s h t = (r, t') \<Longrightarrow> objs t' = (objs t)(h := None) \<or> isl r \<and> objs t' = objs t"
  unfolding ck_destroys_def by blast

section \<open>The invariant\<close>

definition p11_setup ::
  "'m manage_key_info \<Rightarrow> ('m, 't, 'g, 'b, 'id) p11_provider \<Rightarrow> ('t \<Rightarrow> p11_objects) \<Rightarrow> bool" where
  "p11_setup ops self objs \<longleftrightarrow>
     kc_impl (pk_key_info_store self) = ops \<and> kc_provider_id (pk_key_info_store self) = Pkcs11 \<and>
     token_contract (pk_backend self) objs \<and> id_codec_ok (pk_id_codec self)"

text \<open>Every mapping decodes, no two to the same number, and the numbers of all mappings are in the set of numbers in use.\<close>

definition p11_numbered :: "u32 id_codec \<Rightarrow> (key_triple \<Rightarrow> key_info option) \<Rightarrow> u32 set \<Rightarrow> bool" where
  "p11_numbered codec f ids \<longleftrightarrow>
     decodable Pkcs11 codec f \<and> unshared Pkcs11 codec f \<and> (\<forall>kt k. key_number Pkcs11 codec f kt = Some k \<longrightarrow> k \<in> ids)"

definition p11_inv ::
  "'m manage_key_info \<Rightarrow> ('m \<Rightarrow> bool) \<Rightarrow> ('m \<Rightarrow> key_triple \<Rightarrow> key_info option) \<Rightarrow>
   ('m, 't, 'g, 'b, 'id) p11_provider \<Rightarrow> ('t \<Rightarrow> p11_objects) \<Rightarrow> ('m, 't, 'g, 'b) p11_state \<Rightarrow> bool" where
  "p11_inv ops I mp self objs w \<longleftrightarrow>
     p11_setup ops self objs \<and> I (ps_kim w) \<and> p11_numbered (pk_id_codec self) (mp (ps_kim w)) (ps_local_ids w)"

definition p11_view ::
  "('m \<Rightarrow> key_triple \<Rightarrow> key_info option) \<Rightarrow> ('m, 't, 'g, 'b, 'id) p11_provider \<Rightarrow> ('t \<Rightarrow> p11_objects) \<Rightarrow>
   application_name \<Rightarrow> ('m, 't, 'g, 'b) p11_state \<Rightarrow>
   (provider_id \<Rightarrow> string \<Rightarrow> key_info option) \<times> (string \<Rightarrow> (ck_number \<times> p11_attribute list) set option)" where
  "p11_view mp self objs n w = seen Pkcs11 (pk_id_codec self) (mp (ps_kim w)) (objects_with (objs (ps_token w))) n"

lemma p11_setupD:
  assumes "p11_setup ops self objs"
  shows "kc_impl (pk_key_info_store self) = ops" "kc_provider_id (pk_key_info_store self) = Pkcs11"
    "token_contract (pk_backend self) objs" "id_codec_ok (pk_id_codec self)"
  using assms by (simp_all add: p11_setup_def)

lemma p11_invD:
  assumes "p11_inv ops I mp self objs w"
  shows "p11_setup ops self objs" "I (ps_kim w)" "p11_numbered (pk_id_codec self) (mp (ps_kim w)) (ps_local_ids w)"
  using assms by (simp_all add: p11_inv_def)

lemma p11_numberedD:
  assumes "p11_numbered codec f ids"
  shows "decodable Pkcs11 codec f" "unshared Pkcs11 codec f" "key_number Pkcs11 codec f kt = Some k \<Longrightarrow> k \<in> ids"
  using assms unfolding p11_numbered_def by blast+

lemma p11_numbered_ids: "p11_numbered codec f ids \<Longrightarrow> ids \<subseteq> ids' \<Longrightarrow> p11_numbered codec f ids'"
  unfolding p11_numbered_def by blast

lemma p11_numbered_remove: "p11_numbered codec f ids \<Longrightarrow> p11_numbered codec (f(kt := None)) ids"
  by (auto simp: p11_numbered_def decodable_remove unshared_remove)

lemma p11_numbered_insert:
  assumes "p11_numbered codec f ids" and "id_deserialize codec (ki_id info) = Inr k"
    and "\<And>kt'. key_number Pkcs11 codec f kt' \<noteq> Some k" and "k \<in> ids"
  shows "p11_numbered codec (f(kt \<mapsto> info)) ids"
  using assms unfolding p11_numbered_def
  by (auto simp: decodable_insert unshared_insert key_number_info split: if_splits)

lemma p11_triple_sel [simp]:
  "kt_app_name (p11_triple app name) = app" "kt_provider_id (p11_triple app name) = Pkcs11"
  by (simp_all add: p11_triple_def)

section \<open>Sessions and reading operations\<close>

text \<open>A step that only uses the token.\<close>

definition p11_same :: "('t \<Rightarrow> p11_objects) \<Rightarrow> ('m, 't, 'g, 'b) p11_state \<Rightarrow> ('m, 't, 'g, 'b) p11_state \<Rightarrow> bool" where
  "p11_same objs w w' \<longleftrightarrow> (\<exists>t. w' = w\<lparr>ps_token := t\<rparr> \<and> objs t = objs (ps_token w))"

lemma p11_sameD:
  assumes "p11_same objs w w'"
  shows "ps_kim w' = ps_kim w" "ps_local_ids w' = ps_local_ids w" "ps_stuck w' = ps_stuck w" "ps_rng w' = ps_rng w"
    "ps_psa w' = ps_psa w" "objs (ps_token w') = objs (ps_token w)"
  using assms by (auto simp: p11_same_def)

lemma p11_same_keeps:
  assumes "p11_same objs w w'"
  shows "p11_inv ops I mp self objs w' = p11_inv ops I mp self objs w" "p11_view mp self objs n w' = p11_view mp self objs n w"
  using p11_sameD [OF assms] by (simp_all add: p11_inv_def p11_view_def)

lemma p11_same_trans: "p11_same objs w w1 \<Longrightarrow> p11_same objs w1 w2 \<Longrightarrow> p11_same objs w w2"
  by (auto simp: p11_same_def)

lemma on_token_eq:
  "on_token self f w = (r, w') \<longleftrightarrow>
     (\<exists>q t. f (ps_token w) = (q, t) \<and> r = map_err (p11_response_status (pk_backend self)) q \<and> w' = w\<lparr>ps_token := t\<rparr>)"
  by (auto simp: on_token_def split: prod.splits)

lemma on_token_same: "ck_leaves objs f \<Longrightarrow> on_token self f w = (r, w') \<Longrightarrow> p11_same objs w w'"
  by (auto simp: on_token_eq p11_same_def dest: ck_leavesD)

lemma close_session_same: "token_contract (pk_backend self) objs \<Longrightarrow> p11_same objs w (close_session self s w)"
  by (auto simp: close_session_def p11_same_def token_contractD(1))

lemma new_session_same:
  assumes tc: "token_contract (pk_backend self) objs" and run: "new_session self w = (r, w')"
  shows "p11_same objs w w'"
proof -
  obtain q w1 where o: "on_token self (ck_open_session (pk_backend self) (pk_slot_number self) True True) w = (q, w1)" by fastforce
  note s1 = on_token_same [OF token_contract_leaves(2) [OF tc] o]
  show ?thesis
  proof (cases q)
    case (Inl e)
    with run o s1 show ?thesis by (simp add: new_session_def try_op_def)
  next
    case (Inr s)
    obtain q2 w2 where l: "on_token self (ck_login (pk_backend self) s) w1 = (q2, w2)" by fastforce
    note s2 = p11_same_trans [OF s1 on_token_same [OF token_contract_leaves(3) [OF tc] l]]
    have "w' = w2 \<or> w' = close_session self s w2"
      using run o Inr l by (auto simp: new_session_def try_op_def split: sum.splits)
    with s2 p11_same_trans [OF s2 close_session_same [OF tc]] show ?thesis by blast
  qed
qed

text \<open>The rest of a function runs between two steps that only use the token, or not at all.\<close>

lemma with_session_cases:
  assumes tc: "token_contract (pk_backend self) objs" and run: "with_session self f w = (r, w')"
  obtains e where "r = Inl e" "p11_same objs w w'"
    | s w1 w2 where "p11_same objs w w1" "f s w1 = (r, w2)" "p11_same objs w2 w'"
proof -
  obtain q w1 where n: "new_session self w = (q, w1)" by fastforce
  note s1 = new_session_same [OF tc n]
  show thesis
  proof (cases q)
    case (Inl e)
    with run n have "r = Inl e" "w' = w1" by (simp_all add: with_session_def try_op_def)
    with s1 that(1) show thesis by simp
  next
    case (Inr s)
    obtain q2 w2 where f: "f s w1 = (q2, w2)" by fastforce
    with run n Inr have "r = q2" "w' = close_session self s w2" by (simp_all add: with_session_def try_op_def)
    with that(2) s1 f close_session_same [OF tc] show thesis by metis
  qed
qed

text \<open>Operations that leave the mappings, the numbers and the objects alone.\<close>

definition p11_reads :: "('t \<Rightarrow> p11_objects) \<Rightarrow> (('m, 't, 'g, 'b) p11_state \<Rightarrow> 'r \<times> ('m, 't, 'g, 'b) p11_state) \<Rightarrow> bool" where
  "p11_reads objs f \<longleftrightarrow>
     (\<forall>w r w'. f w = (r, w') \<longrightarrow>
        ps_kim w' = ps_kim w \<and> ps_local_ids w' = ps_local_ids w \<and> objs (ps_token w') = objs (ps_token w))"

lemma p11_readsD:
  "p11_reads objs f \<Longrightarrow> f w = (r, w') \<Longrightarrow>
   ps_kim w' = ps_kim w \<and> ps_local_ids w' = ps_local_ids w \<and> objs (ps_token w') = objs (ps_token w)"
  by (simp add: p11_reads_def)

lemma p11_reads_try_op:
  assumes "p11_reads objs f" and "\<And>x. p11_reads objs (k x)"
  shows "p11_reads objs (try_op f k)"
  unfolding p11_reads_def
proof (intro allI impI)
  fix w r w'
  assume run: "try_op f k w = (r, w')"
  obtain q w1 where f: "f w = (q, w1)" by fastforce
  note F = p11_readsD [OF assms(1) f]
  show "ps_kim w' = ps_kim w \<and> ps_local_ids w' = ps_local_ids w \<and> objs (ps_token w') = objs (ps_token w)"
  proof (cases q)
    case (Inl e)
    with run f F show ?thesis by (simp add: try_op_def)
  next
    case (Inr x)
    with run f have "k x w1 = (r, w')" by (simp add: try_op_def)
    from p11_readsD [OF assms(2) this] F show ?thesis by simp
  qed
qed

lemma p11_reads_simps [simp]:
  "p11_reads objs (read_op f)" "p11_reads objs (err_op e)" "p11_reads objs (ok_op x)" "p11_reads objs (p11_ask_kim g)"
  "p11_reads objs (ck_res self r)" "p11_reads objs (p11_key_id self app name)" "p11_reads objs (p11_key_attributes self app name)"
  "p11_reads objs (on_soft self h)"
  by (auto simp: p11_reads_def read_op_def err_op_def ok_op_def p11_ask_kim_def ck_res_def p11_key_id_def p11_key_attributes_def
      on_soft_def split: prod.splits)

lemma p11_reads_on_token: "ck_leaves objs f \<Longrightarrow> p11_reads objs (on_token self f)"
  using on_token_same p11_sameD unfolding p11_reads_def by metis

lemma p11_reads_with_session:
  assumes "token_contract (pk_backend self) objs" and "\<And>s. p11_reads objs (f s)"
  shows "p11_reads objs (with_session self f)"
  unfolding p11_reads_def
proof (intro allI impI)
  fix w r w'
  assume "with_session self f w = (r, w')"
  from assms(1) this show "ps_kim w' = ps_kim w \<and> ps_local_ids w' = ps_local_ids w \<and> objs (ps_token w') = objs (ps_token w)"
  proof (cases rule: with_session_cases)
    case (2 s w1 w2)
    from p11_sameD [OF 2(1)] p11_sameD [OF 2(3)] p11_readsD [OF assms(2) 2(2)] show ?thesis by simp
  qed (use p11_sameD in metis)
qed

lemma p11_reads_find_key:
  "token_contract (pk_backend self) objs \<Longrightarrow> p11_reads objs (find_key self s k kp)"
  unfolding find_key_def
  by (intro p11_reads_try_op p11_reads_on_token token_contract_leaves) (simp_all split: list.split)

lemma p11_reads_ops:
  assumes "token_contract (pk_backend self) objs"
  shows "p11_reads objs (p11_export_public_key self app name)" "p11_reads objs (p11_sign_hash self app op1)"
    "p11_reads objs (p11_verify_hash self app op2)" "p11_reads objs (p11_asymmetric_encrypt self app op3)"
    "p11_reads objs (p11_asymmetric_decrypt self app op4)"
proof -
  note rules = p11_reads_try_op p11_reads_with_session [OF assms] p11_reads_find_key [OF assms] p11_reads_on_token
    token_contract_leaves [OF assms] p11_reads_simps
  have rsa: "p11_reads objs (export_public_rsa self key s)" and ec: "p11_reads objs (export_public_ec self key s)" for key s
    unfolding export_public_rsa_def export_public_ec_def by (intro rules)+
  have "p11_reads objs (case ty of RsaKeyPair \<Rightarrow> export_public_rsa self key s | RsaPublicKey \<Rightarrow> export_public_rsa self key s
      | EccKeyPair _ \<Rightarrow> export_public_ec self key s | EccPublicKey _ \<Rightarrow> export_public_ec self key s
      | _ \<Rightarrow> err_op PsaErrorNotSupported)" for ty key s
    by (simp add: rsa ec split: key_type.split)
  then show "p11_reads objs (p11_export_public_key self app name)"
    unfolding p11_export_public_key_def by (intro rules)
  show "p11_reads objs (p11_sign_hash self app op1)" "p11_reads objs (p11_verify_hash self app op2)"
    "p11_reads objs (p11_asymmetric_encrypt self app op3)" "p11_reads objs (p11_asymmetric_decrypt self app op4)"
    unfolding p11_sign_hash_def p11_verify_hash_def p11_asymmetric_encrypt_def p11_asymmetric_decrypt_def by (intro rules)+
qed

lemma p11_reads_soft_use:
  "p11_reads objs (\<lambda>w. case on_soft self f w of (res, w1) \<Rightarrow>
     (case remove_psa_crypto_pub_key self key w1 of (_, w2) \<Rightarrow> (g res, w2)))"
  by (auto simp: p11_reads_def on_soft_def remove_psa_crypto_pub_key_def split: prod.splits)

lemma p11_reads_software:
  assumes "token_contract (pk_backend self) objs"
  shows "p11_reads objs (software_verify_hash self app op1)" "p11_reads objs (software_asymmetric_encrypt self app op2)"
proof -
  have move: "p11_reads objs (move_pub_key_to_psa_crypto self app name)" for name
    unfolding move_pub_key_to_psa_crypto_def by (intro p11_reads_try_op p11_reads_ops [OF assms] p11_reads_simps)
  show "p11_reads objs (software_verify_hash self app op1)"
    unfolding software_verify_hash_def by (intro p11_reads_try_op move p11_reads_simps p11_reads_soft_use [where g = "\<lambda>x. x"])
  show "p11_reads objs (software_asymmetric_encrypt self app op2)"
    unfolding software_asymmetric_encrypt_def by (intro p11_reads_try_op move p11_reads_simps p11_reads_soft_use)
qed

lemma keeps_p11_reads:
  assumes "\<And>objs. token_contract (pk_backend self) objs \<Longrightarrow> p11_reads objs f"
  shows "keeps (p11_inv ops I mp self objs) (p11_view mp self objs) V f"
proof (rule keepsI)
  fix w r w'
  assume w: "p11_inv ops I mp self objs w" and run: "f w = (r, w')"
  from p11_readsD [OF assms [OF p11_setupD(3) [OF p11_invD(1) [OF w]]] run] w
  show "p11_inv ops I mp self objs w' \<and> (\<forall>n \<in> V. p11_view mp self objs n w' = p11_view mp self objs n w)"
    by (simp add: p11_inv_def p11_view_def)
qed

section \<open>Changing the objects of one key\<close>

text \<open>A change of objects with a number that no mapping has is not seen by any application.\<close>

lemma p11_inv_unmapped:
  assumes w: "p11_inv ops I mp self objs w"
    and free: "\<And>kt. key_number Pkcs11 (pk_id_codec self) (mp (ps_kim w)) kt \<noteq> Some k"
    and w': "ps_kim w' = ps_kim w" "ps_local_ids w' = ps_local_ids w" "only_id k (objs (ps_token w)) (objs (ps_token w'))"
  shows "p11_inv ops I mp self objs w'" "p11_view mp self objs n w' = p11_view mp self objs n w"
proof -
  show "p11_inv ops I mp self objs w'" using w w'(1,2) by (simp add: p11_inv_def)
  show "p11_view mp self objs n w' = p11_view mp self objs n w"
    unfolding p11_view_def w'(1) by (subst only_id_upd [OF w'(3)]) (rule seen_key_upd [OF free])
qed

lemma destroy_object_step:
  assumes tc: "token_contract (pk_backend self) objs" and id: "has_id (objs (ps_token w)) k h"
    and run: "destroy_object self s h w = (r, w')"
  shows "ps_kim w' = ps_kim w" "ps_local_ids w' = ps_local_ids w" "only_id k (objs (ps_token w)) (objs (ps_token w'))"
    "has_id (objs (ps_token w)) k h' \<Longrightarrow> has_id (objs (ps_token w')) k h'"
    "objs (ps_token w') = (objs (ps_token w))(h := None) \<or> isl r \<and> objs (ps_token w') = objs (ps_token w)"
proof -
  from run obtain q t where d: "ck_destroy_object (pk_backend self) s h (ps_token w) = (q, t)"
    and r: "r = map_err (p11_response_status (pk_backend self)) q" and w': "w' = w\<lparr>ps_token := t\<rparr>"
    by (auto simp: destroy_object_def on_token_eq)
  have o: "objs t = (objs (ps_token w))(h := None) \<or> isl q \<and> objs t = objs (ps_token w)"
    by (rule ck_destroysD [OF token_contractD(5) [OF tc] d])
  have iq: "isl r = isl q" by (cases q) (simp_all add: r map_err_def)
  from o iq show "objs (ps_token w') = (objs (ps_token w))(h := None) \<or> isl r \<and> objs (ps_token w') = objs (ps_token w)"
    by (simp add: w')
  show "ps_kim w' = ps_kim w" "ps_local_ids w' = ps_local_ids w" by (simp_all add: w')
  show "only_id k (objs (ps_token w)) (objs (ps_token w'))"
    using o only_id_remove [OF token_contractD(6) [OF tc] id] by (auto simp: w')
  show "has_id (objs (ps_token w)) k h' \<Longrightarrow> has_id (objs (ps_token w')) k h'"
    using o has_id_remove by (auto simp: w')
qed

lemma destroy_all_step:
  assumes tc: "token_contract (pk_backend self) objs" and "\<forall>h \<in> set hs. has_id (objs (ps_token w)) k h"
  shows "ps_kim (destroy_all self s hs w) = ps_kim w \<and> ps_local_ids (destroy_all self s hs w) = ps_local_ids w \<and>
    only_id k (objs (ps_token w)) (objs (ps_token (destroy_all self s hs w)))"
  using assms(2)
proof (induction hs arbitrary: w)
  case (Cons h hs)
  obtain r w1 where d: "destroy_object self s h w = (r, w1)" by fastforce
  have id: "has_id (objs (ps_token w)) k h" using Cons.prems by simp
  note D = destroy_object_step [OF tc id d]
  have "\<forall>h \<in> set hs. has_id (objs (ps_token w1)) k h" using Cons.prems D(4) by simp
  from Cons.IH [OF this] D(1-3) d show ?case by (auto intro: only_id_trans)
qed simp

lemma find_key_has_id:
  assumes tc: "token_contract (pk_backend self) objs" and run: "find_key self s k kp w = (Inr h, w')"
  shows "p11_same objs w w'" "\<exists>as. objs (ps_token w) h = Some as \<and> set (find_template k kp) \<subseteq> set as" "has_id (objs (ps_token w)) k h"
proof -
  from run obtain hs t where f: "ck_find_objects (pk_backend self) s (find_template k kp) (ps_token w) = (Inr (h # hs), t)"
    and w': "w' = w\<lparr>ps_token := t\<rparr>"
    by (auto simp: find_key_def try_op_def on_token_def map_err_def err_op_def ok_op_def split: prod.splits sum.splits list.splits)
  show "p11_same objs w w'" using ck_leavesD [OF token_contract_leaves(4) [OF tc] f] by (auto simp: p11_same_def w')
  show ex: "\<exists>as. objs (ps_token w) h = Some as \<and> set (find_template k kp) \<subseteq> set as"
    by (rule ck_findsD [OF token_contractD(2) [OF tc] f]) simp
  then show "has_id (objs (ps_token w)) k h" by (auto simp: has_id_def find_template_def)
qed

section \<open>Creating keys\<close>

text \<open>The pair of number and generator after \<open>n\<close> further draws.\<close>

primrec nth_draw :: "('g \<Rightarrow> u32 \<times> 'g) \<Rightarrow> u32 \<times> 'g \<Rightarrow> nat \<Rightarrow> u32 \<times> 'g" where
  "nth_draw random x 0 = x"
| "nth_draw random x (Suc n) = nth_draw random (random (snd x)) n"

text \<open>The loop returns exactly the first draw that is not in the set.\<close>

definition first_free :: "('g \<Rightarrow> u32 \<times> 'g) \<Rightarrow> u32 set \<Rightarrow> u32 \<times> 'g \<Rightarrow> u32 \<times> 'g \<Rightarrow> bool" where
  "first_free random ids x y \<longleftrightarrow>
     (\<exists>n. y = nth_draw random x n \<and> fst y \<notin> ids \<and> (\<forall>m < n. fst (nth_draw random x m) \<in> ids))"

lemma first_free_here: "fst x \<notin> ids \<Longrightarrow> first_free random ids x x"
  unfolding first_free_def by (rule exI [of _ 0]) simp

lemma first_free_step:
  assumes "fst x \<in> ids" and "first_free random ids (random (snd x)) y"
  shows "first_free random ids x y"
proof -
  obtain n where n: "y = nth_draw random (random (snd x)) n" "fst y \<notin> ids"
    "\<And>m. m < n \<Longrightarrow> fst (nth_draw random (random (snd x)) m) \<in> ids"
    using assms(2) unfolding first_free_def by blast
  have "fst (nth_draw random x m) \<in> ids" if "m < Suc n" for m
    using that n(3) assms(1) by (cases m) simp_all
  with n(1,2) show ?thesis unfolding first_free_def by (intro exI [of _ "Suc n"]) simp
qed

lemma draw_key_id_first:
  assumes "draw_key_id random ids k g = Some y"
  shows "first_free random ids (k, g) y"
proof (rule draw_key_id.raw_induct [where P = "\<lambda>random ids k g y. first_free random ids (k, g) y", OF _ assms])
  fix draw :: "('g \<Rightarrow> u32 \<times> 'g) \<Rightarrow> u32 set \<Rightarrow> u32 \<Rightarrow> 'g \<Rightarrow> (u32 \<times> 'g) option" and random ids k g y
  assume IH: "\<And>random ids k g y. draw random ids k g = Some y \<Longrightarrow> first_free random ids (k, g) y"
    and run: "(if k \<in> ids then (case random g of (k', g') \<Rightarrow> draw random ids k' g') else Some (k, g)) = Some y"
  show "first_free random ids (k, g) y"
  proof (cases "k \<in> ids")
    case True
    obtain k' g' where r: "random g = (k', g')" by fastforce
    with run True have "draw random ids k' g' = Some y" by simp
    from IH [OF this] first_free_step [of "(k, g)" ids random y] True r show ?thesis by simp
  next
    case False
    with run have y: "y = (k, g)" by simp
    from False show ?thesis unfolding y by (intro first_free_here) simp
  qed
qed

lemma draw_key_id_returns:
  assumes "fst (nth_draw random (k, g) n) \<notin> ids"
  shows "\<exists>y. draw_key_id random ids k g = Some y"
  using assms
proof (induction n arbitrary: k g)
  case 0
  then show ?case by (subst draw_key_id.simps) simp
next
  case (Suc n)
  obtain k' g' where r: "random g = (k', g')" by fastforce
  from Suc.IH [of k' g'] Suc.prems r have "\<exists>y. draw_key_id random ids k' g' = Some y" by simp
  with r show ?case by (subst draw_key_id.simps) simp
qed

lemma p11_create_key_id_result:
  assumes "p11_create_key_id self w = (r, w')"
  shows "(\<exists>e. r = Inl e \<and> (w' = w \<or> w' = w\<lparr>ps_stuck := True\<rparr>)) \<or>
    (\<exists>k g. r = Inr k \<and> w' = w\<lparr>ps_local_ids := insert k (ps_local_ids w), ps_rng := g\<rparr> \<and> k \<notin> ps_local_ids w)"
proof -
  obtain k0 g0 where r0: "pk_random self (ps_rng w) = (k0, g0)" by fastforce
  show ?thesis
  proof (cases "draw_key_id (pk_random self) (ps_local_ids w) k0 g0")
    case None
    with assms r0 show ?thesis by (auto simp: p11_create_key_id_def split: if_splits)
  next
    case (Some y)
    from draw_key_id_first [OF Some] have "fst y \<notin> ps_local_ids w" by (auto simp: first_free_def)
    with assms r0 Some show ?thesis by (cases y) (auto simp: p11_create_key_id_def split: if_splits)
  qed
qed

text \<open>
  A created key has a number that was not in use, and its new objects and its mapping are the only changes.
\<close>

definition p11_created ::
  "('m \<Rightarrow> key_triple \<Rightarrow> key_info option) \<Rightarrow> ('m, 't, 'g, 'b, 'id) p11_provider \<Rightarrow> ('t \<Rightarrow> p11_objects) \<Rightarrow>
   key_triple \<Rightarrow> attributes \<Rightarrow> u32 \<Rightarrow> ck_number set \<Rightarrow> ('m, 't, 'g, 'b) p11_state \<Rightarrow> ('m, 't, 'g, 'b) p11_state \<Rightarrow> bool" where
  "p11_created mp self objs kt attrs k H w w' \<longleftrightarrow>
     kt \<notin> dom (mp (ps_kim w)) \<and> k \<notin> ps_local_ids w \<and> ps_local_ids w' = insert k (ps_local_ids w) \<and>
     adds_objects k H (objs (ps_token w)) (objs (ps_token w')) \<and>
     (\<exists>info. mp (ps_kim w') = (mp (ps_kim w))(kt \<mapsto> info) \<and> ki_attributes info = attrs \<and>
        id_deserialize (pk_id_codec self) (ki_id info) = Inr k)"

text \<open>
  A call to the token that creates objects from templates: \<open>tmpl\<close> builds the templates, \<open>cre\<close> calls the token, \<open>handles\<close> are the handles in its
  answer, and \<open>made\<close> holds of the objects before and after a successful call.
\<close>

definition creates_objects ::
  "('t \<Rightarrow> p11_objects) \<Rightarrow> (u32 \<Rightarrow> 'x res) \<Rightarrow> (ck_number \<Rightarrow> 'x \<Rightarrow> ('t, cryptoki_error, 'h) rust_op) \<Rightarrow> ('h \<Rightarrow> ck_number list) \<Rightarrow>
   (u32 \<Rightarrow> 'x \<Rightarrow> 'h \<Rightarrow> p11_objects \<Rightarrow> p11_objects \<Rightarrow> bool) \<Rightarrow> bool" where
  "creates_objects objs tmpl cre handles made \<longleftrightarrow>
     (\<forall>s k x t r t'. tmpl k = Inr x \<longrightarrow> cre s x t = (r, t') \<longrightarrow>
        (case r of
           Inl _ \<Rightarrow> objs t' = objs t
         | Inr hs \<Rightarrow> adds_objects k (set (handles hs)) (objs t) (objs t') \<and> made k x hs (objs t) (objs t')))"

lemma creates_objectsI:
  assumes "\<And>s k x t hs t'. tmpl k = Inr x \<Longrightarrow> cre s x t = (Inr hs, t') \<Longrightarrow>
      adds_objects k (set (handles hs)) (objs t) (objs t') \<and> made k x hs (objs t) (objs t')"
    and "\<And>s k x t e t'. tmpl k = Inr x \<Longrightarrow> cre s x t = (Inl e, t') \<Longrightarrow> objs t' = objs t"
  shows "creates_objects objs tmpl cre handles made"
  unfolding creates_objects_def using assms by (simp split: sum.split)

lemma creates_objects_Inr:
  "creates_objects objs tmpl cre handles made \<Longrightarrow> tmpl k = Inr x \<Longrightarrow> cre s x t = (Inr hs, t') \<Longrightarrow>
   adds_objects k (set (handles hs)) (objs t) (objs t') \<and> made k x hs (objs t) (objs t')"
  unfolding creates_objects_def by fastforce

lemma creates_objects_Inl:
  "creates_objects objs tmpl cre handles made \<Longrightarrow> tmpl k = Inr x \<Longrightarrow> cre s x t = (Inl e, t') \<Longrightarrow> objs t' = objs t"
  unfolding creates_objects_def by fastforce

context key_info_manager
begin

lemma p11_store_new_key_result:
  assumes w: "p11_inv ops inv abs self objs w"
    and run: "p11_store_new_key self s kt k attrs hs w = (r, w')"
    and fresh: "kt \<notin> dom (abs (ps_kim w))"
    and free: "\<And>kt'. key_number Pkcs11 (pk_id_codec self) (abs (ps_kim w)) kt' \<noteq> Some k"
    and k: "k \<in> ps_local_ids w"
    and hs: "\<forall>h \<in> set hs. has_id (objs (ps_token w)) k h"
  shows "p11_inv ops inv abs self objs w' \<and>
    (\<forall>n. n \<noteq> kt_app_name kt \<longrightarrow> p11_view abs self objs n w' = p11_view abs self objs n w) \<and>
    (case r of
       Inl e \<Rightarrow> abs (ps_kim w') = abs (ps_kim w)
     | Inr u \<Rightarrow> ps_token w' = ps_token w \<and> ps_local_ids w' = ps_local_ids w \<and>
         (\<exists>info. abs (ps_kim w') = (abs (ps_kim w))(kt \<mapsto> info) \<and> ki_attributes info = attrs \<and>
            id_deserialize (pk_id_codec self) (ki_id info) = Inr k))"
proof -
  let ?c = "pk_id_codec self"
  note D = p11_invD [OF w]
  note S = p11_setupD [OF D(1)]
  obtain x m where ins: "insert_key_info ?c (pk_key_info_store self) kt k attrs (ps_kim w) = (x, m)" by fastforce
  note m = insert_key_info_inv [OF D(2) S(1) ins]
  show ?thesis
  proof (cases x)
    case (Inl e)
    let ?w = "w\<lparr>ps_kim := m\<rparr>"
    have a: "abs m = abs (ps_kim w)"
      by (rule insert_key_info_fresh_Inl [OF D(2) S(1) fresh ins [unfolded Inl]])
    then have w1: "p11_inv ops inv abs self objs ?w" and v: "p11_view abs self objs n ?w = p11_view abs self objs n w"
      and free1: "key_number Pkcs11 ?c (abs (ps_kim ?w)) kt' \<noteq> Some k" for n kt'
      using D m free by (simp_all add: p11_inv_def p11_view_def)
    have r: "r = Inl e" "w' = destroy_all self s hs ?w"
      using run ins Inl by (simp_all add: p11_store_new_key_def p11_on_kim_def)
    from hs have "\<forall>h \<in> set hs. has_id (objs (ps_token ?w)) k h" by simp
    note T = destroy_all_step [OF S(3) this, of s]
    then have t: "ps_kim w' = ps_kim ?w" "ps_local_ids w' = ps_local_ids ?w" "only_id k (objs (ps_token ?w)) (objs (ps_token w'))"
      unfolding r(2) by blast+
    from p11_inv_unmapped [OF w1 free1 t] v a t(1) r(1) show ?thesis by simp
  next
    case (Inr u)
    with run ins have r: "r = Inr ()" "w' = w\<lparr>ps_kim := m\<rparr>" by (simp_all add: p11_store_new_key_def p11_on_kim_def)
    from ins Inr have "insert_key_info ?c (pk_key_info_store self) kt k attrs (ps_kim w) = (Inr (), m)" by simp
    from insert_key_info_Inr [OF D(2) S(1) this] obtain b where
      b: "id_serialize ?c k = Inr b" and a: "abs m = (abs (ps_kim w))(kt \<mapsto> \<lparr>ki_id = b, ki_attributes = attrs\<rparr>)" by blast
    from b have des: "id_deserialize ?c (ki_id \<lparr>ki_id = b, ki_attributes = attrs\<rparr>) = Inr k"
      using id_codec_okD [OF S(4), of k] by auto
    from p11_numbered_insert [OF D(3) des free k] a have "p11_numbered ?c (abs m) (ps_local_ids w)" by simp
    with D m a des show ?thesis by (auto simp: r p11_inv_def p11_view_def seen_upd_other)
  qed
qed

text \<open>The common course of \<open>generate\<close> and \<open>import\<close>, within a session and as a whole.\<close>

lemma p11_create_steps:
  assumes w: "p11_inv ops inv abs self objs w"
    and fresh: "kt \<notin> dom (abs (ps_kim w))"
    and ok: "\<And>k x t hs t'. tmpl k = Inr x \<Longrightarrow> cre x t = (Inr hs, t') \<Longrightarrow>
      adds_objects k (set (handles hs)) (objs t) (objs t') \<and> made k x hs (objs t) (objs t')"
    and err: "\<And>k x t e t'. tmpl k = Inr x \<Longrightarrow> cre x t = (Inl e, t') \<Longrightarrow> objs t' = objs t"
    and run: "try_op (p11_create_key_id self) (\<lambda>k. try_op (read_op (\<lambda>_. tmpl k)) (\<lambda>x.
      try_op (on_token self (cre x)) (\<lambda>hs. p11_store_new_key self s kt k attrs (handles hs)))) w = (r, w')"
  shows "p11_inv ops inv abs self objs w' \<and>
    (\<forall>n. n \<noteq> kt_app_name kt \<longrightarrow> p11_view abs self objs n w' = p11_view abs self objs n w) \<and>
    (case r of
       Inl e \<Rightarrow> abs (ps_kim w') = abs (ps_kim w)
     | Inr u \<Rightarrow> \<exists>k x hs. tmpl k = Inr x \<and> made k x hs (objs (ps_token w)) (objs (ps_token w')) \<and>
         p11_created abs self objs kt attrs k (set (handles hs)) w w')"
proof -
  let ?c = "pk_id_codec self"
  note D = p11_invD [OF w]
  note tc = p11_setupD(3) [OF D(1)]
  obtain q w1 where cid: "p11_create_key_id self w = (q, w1)" by fastforce
  from p11_create_key_id_result [OF cid] consider e where "q = Inl e" "w1 = w \<or> w1 = w\<lparr>ps_stuck := True\<rparr>"
    | k g where "q = Inr k" "w1 = w\<lparr>ps_local_ids := insert k (ps_local_ids w), ps_rng := g\<rparr>" "k \<notin> ps_local_ids w" by blast
  then show ?thesis
  proof cases
    case 1
    with run cid have "r = Inl e" "w' = w1" by (simp_all add: try_op_def)
    with 1(2) w show ?thesis by (auto simp: p11_inv_def p11_view_def)
  next
    case (2 k g)
    have free: "key_number Pkcs11 ?c (abs (ps_kim w)) kt' \<noteq> Some k" for kt' using p11_numberedD(3) [OF D(3)] 2(3) by blast
    have w1: "p11_inv ops inv abs self objs w1" "p11_view abs self objs n w1 = p11_view abs self objs n w" for n
      using D p11_numbered_ids [OF D(3) subset_insertI] by (simp_all add: 2(2) p11_inv_def p11_view_def)
    have free1: "key_number Pkcs11 ?c (abs (ps_kim w1)) kt' \<noteq> Some k" for kt' using free by (simp add: 2(2))
    show ?thesis
    proof (cases "tmpl k")
      case (Inl e)
      with run cid 2(1) have "r = Inl e" "w' = w1" by (simp_all add: try_op_def read_op_def)
      with w1 show ?thesis by (simp add: 2(2))
    next
      case (Inr x)
      obtain p t where c: "cre x (ps_token w1) = (p, t)" by fastforce
      let ?w = "w1\<lparr>ps_token := t\<rparr>"
      show ?thesis
      proof (cases p)
        case (Inl e)
        with run cid 2(1) Inr c have "isl r" "w' = ?w" by (auto simp: try_op_def read_op_def on_token_def map_err_def)
        moreover have same: "p11_same objs w1 ?w" using err [OF Inr] c Inl by (auto simp: p11_same_def)
        have "p11_inv ops inv abs self objs ?w" "p11_view abs self objs n ?w = p11_view abs self objs n w" for n
          unfolding p11_same_keeps [OF same] by (rule w1)+
        moreover have "ps_kim ?w = ps_kim w" by (simp add: 2(2))
        ultimately show ?thesis by (cases r) auto
      next
        case (Inr hs)
        note made = ok [OF \<open>tmpl k = Inr x\<close> c [unfolded Inr]]
        have st: "p11_store_new_key self s kt k attrs (handles hs) ?w = (r, w')"
          using run cid 2(1) \<open>tmpl k = Inr x\<close> c Inr by (simp add: try_op_def read_op_def on_token_def map_err_def)
        have t: "ps_kim ?w = ps_kim w1" "ps_local_ids ?w = ps_local_ids w1" "only_id k (objs (ps_token w1)) (objs (ps_token ?w))"
          using adds_objects_only_id [OF conjunct1 [OF made] token_contractD(6) [OF tc]] by simp_all
        note U = p11_inv_unmapped [OF w1(1) free1 t]
        have pre: "kt \<notin> dom (abs (ps_kim ?w))" "k \<in> ps_local_ids ?w" "\<forall>h \<in> set (handles hs). has_id (objs (ps_token ?w)) k h"
          and free2: "key_number Pkcs11 ?c (abs (ps_kim ?w)) kt' \<noteq> Some k" for kt'
          using fresh free adds_objects_has_id [OF conjunct1 [OF made]] by (simp_all add: 2(2))
        note R = p11_store_new_key_result [OF U(1) st pre(1) free2 pre(2,3)]
        show ?thesis
        proof (cases r)
          case (Inl e)
          with R U(2) w1(2) show ?thesis by (simp add: 2(2))
        next
          case (Inr u)
          with R made fresh 2(2,3) have "p11_created abs self objs kt attrs k (set (handles hs)) w w'"
            "made k x hs (objs (ps_token w)) (objs (ps_token w'))" by (auto simp: p11_created_def)
          with Inr R U(2) w1(2) \<open>tmpl k = Inr x\<close> show ?thesis by auto
        qed
      qed
    qed
  qed
qed

lemma p11_create_result:
  assumes w: "p11_inv ops inv abs self objs w"
    and c: "creates_objects objs tmpl cre handles made"
    and run: "try_op (p11_ask_kim (\<lambda>m. does_not_exist (pk_key_info_store self) m kt)) (\<lambda>_.
      with_session self (\<lambda>s. try_op (p11_create_key_id self) (\<lambda>k. try_op (read_op (\<lambda>_. tmpl k)) (\<lambda>x.
      try_op (on_token self (cre s x)) (\<lambda>hs. p11_store_new_key self s kt k attrs (handles hs)))))) w = (r, w')"
  shows "p11_inv ops inv abs self objs w' \<and>
    (\<forall>n. n \<noteq> kt_app_name kt \<longrightarrow> p11_view abs self objs n w' = p11_view abs self objs n w) \<and>
    (case r of
       Inl e \<Rightarrow> abs (ps_kim w') = abs (ps_kim w)
     | Inr u \<Rightarrow> \<exists>k x hs. tmpl k = Inr x \<and> made k x hs (objs (ps_token w)) (objs (ps_token w')) \<and>
         p11_created abs self objs kt attrs k (set (handles hs)) w w')"
proof (cases "does_not_exist (pk_key_info_store self) (ps_kim w) kt")
  case (Inl e)
  with run have "r = Inl e" "w' = w" by (simp_all add: try_op_def p11_ask_kim_def)
  with w show ?thesis by simp
next
  case (Inr u)
  note D = p11_invD [OF w]
  note S = p11_setupD [OF D(1)]
  have fresh: "kt \<notin> dom (abs (ps_kim w))" using does_not_exist_Inr [OF D(2) S(1)] Inr by simp
  from run Inr have "with_session self (\<lambda>s. try_op (p11_create_key_id self) (\<lambda>k. try_op (read_op (\<lambda>_. tmpl k)) (\<lambda>x.
      try_op (on_token self (cre s x)) (\<lambda>hs. p11_store_new_key self s kt k attrs (handles hs))))) w = (r, w')"
    by (simp add: try_op_def [of "p11_ask_kim f" for f] p11_ask_kim_def)
  from S(3) this show ?thesis
  proof (cases rule: with_session_cases)
    case (1 e)
    with w show ?thesis by (simp add: p11_same_keeps [OF 1(2)] p11_sameD(1) [OF 1(2)])
  next
    case (2 s w1 w2)
    note E1 = p11_sameD [OF 2(1)] and E2 = p11_sameD [OF 2(3)]
    have w1: "p11_inv ops inv abs self objs w1" unfolding p11_same_keeps(1) [OF 2(1)] by (rule w)
    have fresh1: "kt \<notin> dom (abs (ps_kim w1))" using fresh E1 by simp
    have eq: "p11_inv ops inv abs self objs w' = p11_inv ops inv abs self objs w2"
      "p11_view abs self objs n w' = p11_view abs self objs n w2" "p11_view abs self objs n w1 = p11_view abs self objs n w" for n
      by (rule p11_same_keeps [OF 2(3)] p11_same_keeps [OF 2(1)])+
    have cr: "p11_created abs self objs kt attrs k H w w' = p11_created abs self objs kt attrs k H w1 w2" for k H
      using E1 E2 by (simp add: p11_created_def)
    note ok = creates_objects_Inr [OF c] and err = creates_objects_Inl [OF c]
    from p11_create_steps [where made = made, OF w1 fresh1 ok err 2(2)] show ?thesis
      unfolding eq cr E2(1) E2(6) E1(1) [symmetric] E1(6) [symmetric] by simp
  qed
qed

end

text \<open>What \<open>generate\<close> adds: two objects with the attributes of the templates; and \<open>import\<close>: one object.\<close>

definition pair_made ::
  "u32 \<Rightarrow> mechanism \<times> p11_attribute list \<times> p11_attribute list \<Rightarrow> ck_number \<times> ck_number \<Rightarrow> p11_objects \<Rightarrow> p11_objects \<Rightarrow> bool" where
  "pair_made k x hs Ob Ob' \<longleftrightarrow>
     (case x of (mech, pub, priv) \<Rightarrow> case hs of (h1, h2) \<Rightarrow>
        h1 \<noteq> h2 \<and> (\<exists>as1 as2. Ob' = Ob(h1 \<mapsto> as1, h2 \<mapsto> as2) \<and> set pub \<subseteq> set as1 \<and> set priv \<subseteq> set as2))"

definition object_made :: "u32 \<Rightarrow> p11_attribute list \<Rightarrow> ck_number \<Rightarrow> p11_objects \<Rightarrow> p11_objects \<Rightarrow> bool" where
  "object_made k template h Ob Ob' \<longleftrightarrow> (\<exists>as. Ob' = Ob(h \<mapsto> as) \<and> set template \<subseteq> set as)"

lemma generate_templates_ids:
  assumes "generate_templates self k attrs = Inr (mech, pub, priv)"
  shows "AId (u32_to_be_bytes k) \<in> set pub" "AId (u32_to_be_bytes k) \<in> set priv"
  using assms
  by (auto simp: generate_templates_def Let_def try_res_def key_pair_usage_flags_to_pkcs11_attributes_def
      split: sum.splits key_type.splits)

lemma import_template_id:
  assumes "import_template der k op = Inr template"
  shows "AId (u32_to_be_bytes k) \<in> set template"
  using assms
  by (auto simp: import_template_def handle_rsa_public_import_attrib_def handle_ecc_public_import_attrib_def Let_def try_res_def
      split: sum.splits key_type.splits if_splits)

lemma generate_pair_adds:
  assumes tc: "token_contract ck objs" and run: "ck_generate_key_pair ck s mech pub priv t = (Inr (h1, h2), t')"
    and id: "AId (u32_to_be_bytes k) \<in> set pub" "AId (u32_to_be_bytes k) \<in> set priv"
  shows "adds_objects k {h1, h2} (objs t) (objs t')" "pair_made k (mech, pub, priv) (h1, h2) (objs t) (objs t')"
proof -
  note G = ck_generatesD [OF token_contractD(4) [OF tc] run]
  then show "pair_made k (mech, pub, priv) (h1, h2) (objs t) (objs t')" by (auto simp: pair_made_def)
  from G id show "adds_objects k {h1, h2} (objs t) (objs t')" by (auto simp: adds_objects_def)
qed

lemma create_object_adds:
  assumes tc: "token_contract ck objs" and run: "ck_create_object ck s template t = (Inr h, t')"
    and id: "AId (u32_to_be_bytes k) \<in> set template"
  shows "adds_objects k {h} (objs t) (objs t')" "object_made k template h (objs t) (objs t')"
proof -
  note G = ck_createsD [OF token_contractD(3) [OF tc] run]
  then show "object_made k template h (objs t) (objs t')" by (auto simp: object_made_def)
  from G id show "adds_objects k {h} (objs t) (objs t')" by (auto simp: adds_objects_def)
qed

context key_info_manager
begin

lemma p11_generate_key_result:
  assumes w: "p11_inv ops inv abs self objs w" and run: "p11_generate_key self app op w = (r, w')"
  shows "p11_inv ops inv abs self objs w' \<and>
    (\<forall>n. n \<noteq> app \<longrightarrow> p11_view abs self objs n w' = p11_view abs self objs n w) \<and>
    (case r of
       Inl e \<Rightarrow> abs (ps_kim w') = abs (ps_kim w)
     | Inr u \<Rightarrow> \<not> key_is_public (pk_interface self) (attr_key_type (gk_attributes op)) \<and>
         (uf_export (usage_flags (gk_attributes op)) \<longrightarrow> pk_allow_export self) \<and>
         (\<exists>k x h1 h2. generate_templates self k (gk_attributes op) = Inr x \<and>
            pair_made k x (h1, h2) (objs (ps_token w)) (objs (ps_token w')) \<and>
            p11_created abs self objs (p11_triple app (gk_key_name op)) (gk_attributes op) k {h1, h2} w w'))"
proof (cases "key_is_public (pk_interface self) (attr_key_type (gk_attributes op)) \<or>
    uf_export (usage_flags (gk_attributes op)) \<and> \<not> pk_allow_export self")
  case True
  with run have "isl r" "w' = w" by (auto simp: p11_generate_key_def Let_def err_op_def split: if_splits)
  with w show ?thesis by (cases r) auto
next
  case False
  let ?attrs = "gk_attributes op"
  let ?cre = "\<lambda>s (mech, pub, priv). ck_generate_key_pair (pk_backend self) s mech pub priv"
  let ?handles = "\<lambda>(h1, h2). [h1, h2]"
  have public: "\<not> key_is_public (pk_interface self) (attr_key_type ?attrs)"
    and export: "\<not> (uf_export (usage_flags ?attrs) \<and> \<not> pk_allow_export self)" using False by blast+
  note tc = p11_setupD(3) [OF p11_invD(1) [OF w]]
  have run': "try_op (p11_ask_kim (\<lambda>m. does_not_exist (pk_key_info_store self) m (p11_triple app (gk_key_name op)))) (\<lambda>_.
      with_session self (\<lambda>s. try_op (p11_create_key_id self) (\<lambda>k. try_op (read_op (\<lambda>_. generate_templates self k ?attrs)) (\<lambda>x.
      try_op (on_token self (?cre s x)) (\<lambda>hs. p11_store_new_key self s (p11_triple app (gk_key_name op)) k ?attrs (?handles hs)))))) w = (r, w')"
    using run unfolding p11_generate_key_def Let_def if_not_P [OF public] if_not_P [OF export]
    by (simp add: case_prod_unfold)
  have ok: "adds_objects k (set (?handles hs)) (objs t) (objs t') \<and> pair_made k x hs (objs t) (objs t')"
    if tm: "generate_templates self k ?attrs = Inr x" and cr: "?cre s x t = (Inr hs, t')" for s k x t hs t'
  proof -
    obtain mech pub priv h1 h2 where x: "x = (mech, pub, priv)" "hs = (h1, h2)" by (metis prod.exhaust)
    with cr have "ck_generate_key_pair (pk_backend self) s mech pub priv t = (Inr (h1, h2), t')" by simp
    from generate_pair_adds [OF tc this generate_templates_ids [OF tm [unfolded x(1)]]] x show ?thesis by simp
  qed
  have err: "objs t' = objs t" if "?cre s x t = (Inl e, t')" for s x t e t'
    using that ck_generates_Inl [OF token_contractD(4) [OF tc]] by (cases x) auto
  have "creates_objects objs (\<lambda>k. generate_templates self k ?attrs) ?cre ?handles pair_made"
    by (rule creates_objectsI) (erule (1) ok, erule err)
  note R = p11_create_result [OF w this run']
  show ?thesis
  proof (cases r)
    case (Inl e)
    with R show ?thesis by simp
  next
    case (Inr u)
    with R obtain k x hs where "generate_templates self k ?attrs = Inr x" "pair_made k x hs (objs (ps_token w)) (objs (ps_token w'))"
      "p11_created abs self objs (p11_triple app (gk_key_name op)) ?attrs k (set (?handles hs)) w w'" by auto
    moreover obtain h1 h2 where "hs = (h1, h2)" by fastforce
    ultimately have "\<exists>k x h1 h2. generate_templates self k ?attrs = Inr x \<and>
        pair_made k x (h1, h2) (objs (ps_token w)) (objs (ps_token w')) \<and>
        p11_created abs self objs (p11_triple app (gk_key_name op)) ?attrs k {h1, h2} w w'"
      by (intro exI [of _ k] exI [of _ x] exI [of _ h1] exI [of _ h2]) simp
    with R public export Inr show ?thesis by simp
  qed
qed

lemma p11_import_key_result:
  assumes w: "p11_inv ops inv abs self objs w" and run: "p11_import_key self app op w = (r, w')"
  shows "p11_inv ops inv abs self objs w' \<and>
    (\<forall>n. n \<noteq> app \<longrightarrow> p11_view abs self objs n w' = p11_view abs self objs n w) \<and>
    (case r of
       Inl e \<Rightarrow> abs (ps_kim w') = abs (ps_kim w)
     | Inr u \<Rightarrow> (uf_export (usage_flags (ik_attributes op)) \<longrightarrow> pk_allow_export self) \<and>
         (\<exists>k x h. import_template (pk_asn1 self) k op = Inr x \<and>
            object_made k x h (objs (ps_token w)) (objs (ps_token w')) \<and>
            p11_created abs self objs (p11_triple app (ik_key_name op)) (ik_attributes op) k {h} w w'))"
proof (cases "uf_export (usage_flags (ik_attributes op)) \<and> \<not> pk_allow_export self")
  case True
  with run have "isl r" "w' = w" by (auto simp: p11_import_key_def Let_def err_op_def split: if_splits)
  with w show ?thesis by (cases r) auto
next
  case False
  let ?attrs = "ik_attributes op"
  note tc = p11_setupD(3) [OF p11_invD(1) [OF w]]
  have run': "try_op (p11_ask_kim (\<lambda>m. does_not_exist (pk_key_info_store self) m (p11_triple app (ik_key_name op)))) (\<lambda>_.
      with_session self (\<lambda>s. try_op (p11_create_key_id self) (\<lambda>k. try_op (read_op (\<lambda>_. import_template (pk_asn1 self) k op)) (\<lambda>x.
      try_op (on_token self (ck_create_object (pk_backend self) s x)) (\<lambda>hs.
      p11_store_new_key self s (p11_triple app (ik_key_name op)) k ?attrs ((\<lambda>h. [h]) hs)))))) w = (r, w')"
    using run unfolding p11_import_key_def Let_def if_not_P [OF False] .
  have ok: "adds_objects k (set [h]) (objs t) (objs t') \<and> object_made k x h (objs t) (objs t')"
    if "import_template (pk_asn1 self) k op = Inr x" "ck_create_object (pk_backend self) s x t = (Inr h, t')" for s k x t h t'
    using create_object_adds [OF tc that(2) import_template_id [OF that(1)]] by simp
  have err: "objs t' = objs t" if "ck_create_object (pk_backend self) s x t = (Inl e, t')" for s x t e t'
    by (rule ck_creates_Inl [OF token_contractD(3) [OF tc] that])
  have "creates_objects objs (\<lambda>k. import_template (pk_asn1 self) k op) (ck_create_object (pk_backend self)) (\<lambda>h. [h]) object_made"
    by (rule creates_objectsI) (erule (1) ok, erule err)
  note R = p11_create_result [OF w this run']
  show ?thesis
  proof (cases r)
    case (Inl e)
    with R show ?thesis by simp
  next
    case (Inr u)
    with R have "\<exists>k x h. import_template (pk_asn1 self) k op = Inr x \<and> object_made k x h (objs (ps_token w)) (objs (ps_token w')) \<and>
        p11_created abs self objs (p11_triple app (ik_key_name op)) ?attrs k {h} w w'" by simp
    with R False Inr show ?thesis by simp
  qed
qed

text \<open>
  Destroying a key: once the mapping is gone, only objects with the number of the key can be affected. On success a first object with
  the number is gone.
\<close>

lemma p11_destroy_objects:
  assumes tc: "token_contract (pk_backend self) objs"
    and run: "try_op (find_key self s k KpAny) (\<lambda>h. try_op (destroy_object self s h) (\<lambda>_ w.
      (case find_key self s k KpAny w of
         (Inr key, w1) \<Rightarrow> destroy_object self s key w1
       | (Inl e, w1) \<Rightarrow> (if e = PsaErrorDoesNotExist then Inr () else Inl e, w1)))) w = (r, w')"
  shows "ps_kim w' = ps_kim w \<and> ps_local_ids w' = ps_local_ids w \<and> only_id k (objs (ps_token w)) (objs (ps_token w'))"
proof -
  obtain q w1 where f: "find_key self s k KpAny w = (q, w1)" by fastforce
  show ?thesis
  proof (cases q)
    case (Inl e)
    with run f have "w' = w1" by (simp add: try_op_def)
    with p11_readsD [OF p11_reads_find_key [OF tc] f] show ?thesis by simp
  next
    case (Inr h)
    note F = find_key_has_id [OF tc f [unfolded Inr]]
    note E = p11_sameD [OF F(1)]
    obtain q2 w2 where d: "destroy_object self s h w1 = (q2, w2)" by fastforce
    have "has_id (objs (ps_token w1)) k h" using F(3) E(6) by simp
    note D = destroy_object_step [OF tc this d]
    show ?thesis
    proof (cases q2)
      case (Inl e)
      with run f Inr d have "w' = w2" by (simp add: try_op_def)
      with D E show ?thesis by simp
    next
      case (Inr u)
      obtain q3 w3 where f2: "find_key self s k KpAny w2 = (q3, w3)" by fastforce
      note R = p11_readsD [OF p11_reads_find_key [OF tc] f2]
      show ?thesis
      proof (cases q3)
        case (Inl e)
        with run f \<open>q = Inr h\<close> d Inr f2 have "w' = w3" by (simp add: try_op_def)
        with R D E show ?thesis by simp
      next
        case (Inr h2)
        note F2 = find_key_has_id [OF tc f2 [unfolded Inr]]
        have id: "has_id (objs (ps_token w3)) k h2" using F2(3) R by simp
        from run f \<open>q = Inr h\<close> d \<open>q2 = Inr u\<close> f2 Inr have "destroy_object self s h2 w3 = (r, w')" by (simp add: try_op_def)
        note D2 = destroy_object_step [OF tc id this]
        from D D2 R E only_id_trans [OF D(3)] show ?thesis by simp
      qed
    qed
  qed
qed

lemma p11_destroy_key_result:
  assumes w: "p11_inv ops inv abs self objs w" and run: "p11_destroy_key self app name w = (r, w')"
  shows "p11_inv ops inv abs self objs w' \<and>
    (\<forall>n. n \<noteq> app \<longrightarrow> p11_view abs self objs n w' = p11_view abs self objs n w) \<and>
    (abs (ps_kim w') = (abs (ps_kim w))(p11_triple app name := None) \<or> isl r \<and> abs (ps_kim w') = abs (ps_kim w))"
proof (cases "get_key_id (pk_id_codec self) (pk_key_info_store self) (ps_kim w) (p11_triple app name)")
  case (Inl e)
  with run have "isl r" "w' = w" by (auto simp: p11_destroy_key_def p11_key_id_def try_op_def p11_ask_kim_def)
  with w show ?thesis by simp
next
  case get: (Inr k)
  let ?kt = "p11_triple app name" and ?c = "pk_id_codec self"
  note D = p11_invD [OF w]
  note S = p11_setupD [OF D(1)]
  have num: "key_number Pkcs11 ?c (abs (ps_kim w)) ?kt = Some k" by (rule key_number_get [OF D(2) S(1) get]) simp
  obtain r1 m where rem: "remove_key_info (pk_key_info_store self) ?kt (ps_kim w) = (r1, m)" by fastforce
  let ?w = "w\<lparr>ps_kim := m\<rparr>"
  note m = remove_key_info_inv [OF D(2) S(1) rem]
  show ?thesis
  proof (cases r1)
    case (Inl e)
    have a: "abs m = abs (ps_kim w)" by (rule remove_key_info_Inl [OF D(2) S(1) rem [unfolded Inl]])
    from run get rem Inl have "isl r" "w' = ?w"
      by (auto simp: p11_destroy_key_def p11_key_id_def try_op_def p11_ask_kim_def p11_on_kim_def)
    with D m a show ?thesis by (simp add: p11_inv_def p11_view_def)
  next
    case (Inr u)
    with rem have "remove_key_info (pk_key_info_store self) ?kt (ps_kim w) = (Inr (), m)" by simp
    from remove_key_info_Inr [OF D(2) S(1) this] have a: "abs m = (abs (ps_kim w))(?kt := None)" by simp
    have w1: "p11_inv ops inv abs self objs ?w" using D m a p11_numbered_remove [OF D(3)] by (simp add: p11_inv_def)
    have v1: "p11_view abs self objs n ?w = p11_view abs self objs n w" if "n \<noteq> app" for n
      using that a by (simp add: p11_view_def seen_upd_other)
    have free: "key_number Pkcs11 ?c (abs (ps_kim ?w)) kt' \<noteq> Some k" for kt'
      using unsharedD [OF p11_numberedD(2) [OF D(3)] num] by (auto simp: a)
    have "with_session self (\<lambda>s. try_op (find_key self s k KpAny) (\<lambda>h. try_op (destroy_object self s h) (\<lambda>_ w.
      (case find_key self s k KpAny w of
         (Inr key, w1) \<Rightarrow> destroy_object self s key w1
       | (Inl e, w1) \<Rightarrow> (if e = PsaErrorDoesNotExist then Inr () else Inl e, w1))))) ?w = (r, w')"
      using run get rem Inr
      by (simp add: p11_destroy_key_def p11_key_id_def try_op_def [of "p11_ask_kim f" for f] try_op_def [of "p11_on_kim f" for f]
          p11_ask_kim_def p11_on_kim_def)
    from S(3) this have "ps_kim w' = ps_kim ?w \<and> ps_local_ids w' = ps_local_ids ?w \<and>
        only_id k (objs (ps_token ?w)) (objs (ps_token w'))"
    proof (cases rule: with_session_cases)
      case (1 e)
      from p11_sameD [OF 1(2)] show ?thesis by simp
    next
      case (2 s w1 w2)
      from p11_destroy_objects [OF S(3) 2(2)] p11_sameD [OF 2(1)] p11_sameD [OF 2(3)] show ?thesis by simp
    qed
    then have t: "ps_kim w' = ps_kim ?w" "ps_local_ids w' = ps_local_ids ?w" "only_id k (objs (ps_token ?w)) (objs (ps_token w'))"
      by blast+
    from p11_inv_unmapped [OF w1 free t] v1 t(1) a show ?thesis by simp
  qed
qed

text \<open>The provider keeps its invariant and the view of every other application.\<close>

lemma p11_isolated: "tenant_isolation (p11_provide self) (p11_inv ops inv abs self objs) (p11_view abs self objs)"
proof -
  let ?K = "\<lambda>n. keeps (p11_inv ops inv abs self objs) (p11_view abs self objs) (- {n})"
  have gen: "?K n (p11_generate_key self n op)" for n op
    using p11_generate_key_result unfolding keeps_def by (metis ComplD singletonI)
  have imp: "?K n (p11_import_key self n op)" for n op
    using p11_import_key_result unfolding keeps_def by (metis ComplD singletonI)
  have des: "?K n (p11_destroy_key self n k)" for n k
    using p11_destroy_key_result unfolding keeps_def by (metis ComplD singletonI)
  have use: "?K n (p11_export_public_key self n name)" "?K n (p11_sign_hash self n op1)" "?K n (p11_psa_verify_hash self n op2)"
    "?K n (p11_psa_asymmetric_encrypt self n op3)" "?K n (p11_asymmetric_decrypt self n op4)" for n name op1 op2 op3 op4
    by (rule keeps_p11_reads; simp add: p11_reads_ops p11_psa_verify_hash_def p11_psa_asymmetric_encrypt_def p11_reads_software)+
  have ask: "keeps (p11_inv ops inv abs self objs) (p11_view abs self objs) V (p11_ask_kim f)" for V f
    by (rule keeps_read) (simp add: p11_ask_kim_def)
  show ?thesis
    by unfold_locales
      (simp_all add: p11_provide_def default_provide_def p11_list_keys_def p11_list_clients_def gen imp des use ask)
qed

end

section \<open>Names\<close>

definition p11_names ::
  "('m \<Rightarrow> key_triple \<Rightarrow> key_info option) \<Rightarrow> ('m, 't, 'g, 'b) p11_state \<Rightarrow> provider_id \<Rightarrow> application_name \<Rightarrow> string set" where
  "p11_names mp w = names_of (mp (ps_kim w))"

lemma p11_provide_sel:
  "p_list_keys (p11_provide self) = p11_list_keys self"
  "p_list_clients (p11_provide self) = p11_list_clients self"
  "p_psa_destroy_key (p11_provide self) = p11_destroy_key self"
  by (simp_all add: p11_provide_def default_provide_def)

context key_info_manager
begin

lemma p11_key_provider: "key_provider (p11_provide self) (p11_inv ops inv abs self objs) (p11_names abs) Pkcs11"
proof (unfold_locales, unfold p11_provide_sel)
  fix w w' n r
  assume w: "p11_inv ops inv abs self objs w" and "p11_list_keys self n w = (r, w')"
  then have "w' = w" "r = kim_list_keys (pk_key_info_store self) (ps_kim w) n"
    by (auto simp: p11_list_keys_def p11_ask_kim_def)
  with w list_keys_names [OF p11_invD(2) [OF w] p11_setupD(1,2) [OF p11_invD(1) [OF w]]]
  show "p11_inv ops inv abs self objs w' \<and> p11_names abs w' = p11_names abs w \<and>
      (\<forall>ks. r = Inr ks \<longrightarrow> distinct (map lk_name ks) \<and> lk_name ` set ks = p11_names abs w Pkcs11 n)"
    by (simp add: p11_names_def)
next
  fix w w' r
  assume w: "p11_inv ops inv abs self objs w" and "p11_list_clients self w = (r, w')"
  then have "w' = w" "r = kim_list_clients (pk_key_info_store self) (ps_kim w)"
    by (auto simp: p11_list_clients_def p11_ask_kim_def)
  with w list_clients_names [OF p11_invD(2) [OF w] p11_setupD(1,2) [OF p11_invD(1) [OF w]]]
  show "p11_inv ops inv abs self objs w' \<and> p11_names abs w' = p11_names abs w \<and>
      (\<forall>cs. r = Inr cs \<longrightarrow> set cs = {n. p11_names abs w Pkcs11 n \<noteq> {}})"
    by (simp add: p11_names_def)
next
  fix w w' n k r
  assume w: "p11_inv ops inv abs self objs w" and run: "p11_destroy_key self n k w = (r, w')"
  note R = p11_destroy_key_result [OF w run]
  then consider "abs (ps_kim w') = (abs (ps_kim w))(key_triple_new n Pkcs11 k := None)"
    | "abs (ps_kim w') = abs (ps_kim w)" by (auto simp: p11_triple_def)
  then show "p11_inv ops inv abs self objs w' \<and> only_loses (p11_names abs w) (p11_names abs w') {(Pkcs11, n)} \<and>
      p11_names abs w Pkcs11 n - {k} \<subseteq> p11_names abs w' Pkcs11 n"
    by cases (use R names_of_remove [of "abs (ps_kim w)" n Pkcs11 k] in \<open>auto simp: p11_names_def\<close>)
qed

end

end
