(* ===== verification/Pkcs11_Start.thy ===== *)
theory Pkcs11_Start
  imports Pkcs11_Keys
begin

text \<open>
  Start-up of the PKCS 11 provider: the loop over the stored triples keeps the mappings whose keys are in the token, collects
  their numbers, and marks the others for removal.
\<close>

text \<open>A key is present if the token has an object with its identifier; a triple is live if its key is present.\<close>

definition present :: "p11_objects \<Rightarrow> u32 \<Rightarrow> bool" where
  "present Ob k \<longleftrightarrow> (\<exists>h as. Ob h = Some as \<and> AId (u32_to_be_bytes k) \<in> set as)"

definition p11_live :: "u32 id_codec \<Rightarrow> (key_triple \<Rightarrow> key_info option) \<Rightarrow> p11_objects \<Rightarrow> key_triple \<Rightarrow> bool" where
  "p11_live codec f Ob kt \<longleftrightarrow> (\<exists>k. key_number Pkcs11 codec f kt = Some k \<and> present Ob k)"

text \<open>
  Only a missing object is reported as \<open>PsaErrorDoesNotExist\<close>: neither the conversions of standard errors nor the decoding of
  identifiers give this status.
\<close>

definition clear_errors :: "('m, 't, 'g, 'b, 'id) p11_provider \<Rightarrow> bool" where
  "clear_errors self \<longleftrightarrow>
     (\<forall>e. status_from_int (pk_backend self) e \<noteq> PsaErrorDoesNotExist) \<and>
     (\<forall>e. status_from_slice (pk_backend self) e \<noteq> PsaErrorDoesNotExist) \<and>
     (\<forall>e. status_from_nul (pk_backend self) e \<noteq> PsaErrorDoesNotExist) \<and>
     (\<forall>b. id_deserialize (pk_id_codec self) b \<noteq> Inl PsaErrorDoesNotExist)"

lemma clear_errors_status:
  assumes "clear_errors self"
  shows "p11_response_status (pk_backend self) e \<noteq> PsaErrorDoesNotExist"
proof (cases e)
  case (Pkcs11Error rv)
  then show ?thesis by (cases rv) simp_all
qed (use assms in \<open>simp_all add: clear_errors_def\<close>)

lemma find_key_present:
  assumes tc: "token_contract (pk_backend self) objs" and run: "find_key self s k KpAny w = (Inr h, w')"
  shows "present (objs (ps_token w)) k"
  using find_key_has_id(2) [OF tc run] by (auto simp: present_def find_template_def)

lemma find_key_absent:
  assumes tc: "token_contract (pk_backend self) objs" and "clear_errors self"
    and run: "find_key self s k KpAny w = (Inl PsaErrorDoesNotExist, w')"
  shows "\<not> present (objs (ps_token w)) k"
proof -
  obtain q t where f: "ck_find_objects (pk_backend self) s (find_template k KpAny) (ps_token w) = (q, t)" by fastforce
  have "q = Inr []"
    using run f clear_errors_status [OF assms(2)]
    by (cases q) (auto simp: find_key_def try_op_def on_token_def map_err_def ok_op_def split: list.splits)
  with f token_contractD(2) [OF tc] have "{} = {h. \<exists>as. objs (ps_token w) h = Some as \<and> set (find_template k KpAny) \<subseteq> set as}"
    unfolding ck_finds_def by fastforce
  then show ?thesis by (auto simp: present_def find_template_def)
qed

context key_info_manager_mem
begin

lemma p11_scan_result:
  assumes tc: "token_contract (pk_backend self) objs" and cl: "clear_errors self" and inv: "inv (ps_kim w)"
    and store: "kc_impl (pk_key_info_store self) = ops"
    and "\<forall>kt \<in> set kts. kt_provider_id kt = Pkcs11 \<and> kt \<in> dom (abs (ps_kim w))"
    and "p11_scan self s kts rem w = (Inr rem', w')"
  shows "ps_kim w' = ps_kim w \<and> objs (ps_token w') = objs (ps_token w) \<and> ps_psa w' = ps_psa w \<and>
    rem' = rem @ filter (\<lambda>kt. \<not> p11_live (pk_id_codec self) (abs (ps_kim w)) (objs (ps_token w)) kt) kts \<and>
    ps_local_ids w' = ps_local_ids w \<union>
      {k. present (objs (ps_token w)) k \<and> (\<exists>kt \<in> set kts. key_number Pkcs11 (pk_id_codec self) (abs (ps_kim w)) kt = Some k)}"
  using inv assms(5,6)
proof (induction kts arbitrary: w rem)
  case (Cons kt kts)
  let ?c = "pk_id_codec self" and ?Ob = "objs (ps_token w)" and ?f = "abs (ps_kim w)"
  have pid: "kt_provider_id kt = Pkcs11" and dom: "kt \<in> dom ?f" using Cons.prems(2) by simp_all
  note num = get_key_id_iff_number [OF Cons.prems(1) store pid, of ?c]
  show ?case
  proof (cases "get_key_id ?c (pk_key_info_store self) (ps_kim w) kt")
    case (Inl e)
    have none: "key_number Pkcs11 ?c ?f kt = None" using num Inl by (cases "key_number Pkcs11 ?c ?f kt") auto
    have "e \<noteq> PsaErrorDoesNotExist"
      using Inl dom cl unfolding get_key_id_total [OF Cons.prems(1) store] by (auto simp: clear_errors_def)
    with Cons.prems(3) Inl have "p11_scan self s kts (rem @ [kt]) w = (Inr rem', w')" by simp
    from Cons.IH [OF Cons.prems(1) _ this] Cons.prems(2) none show ?thesis by (auto simp: p11_live_def)
  next
    case (Inr k)
    then have k: "key_number Pkcs11 ?c ?f kt = Some k" using num by blast
    obtain q w1 where f: "find_key self s k KpAny w = (q, w1)" by fastforce
    have same: "ps_kim w1 = ps_kim w" "objs (ps_token w1) = ?Ob" "ps_local_ids w1 = ps_local_ids w" "ps_psa w1 = ps_psa w"
      using p11_readsD [OF p11_reads_find_key [OF tc] f] f
      by (auto simp: find_key_def try_op_def on_token_def err_op_def ok_op_def split: prod.splits sum.splits list.splits)
    show ?thesis
    proof (cases q)
      case (Inl e)
      with Cons.prems(3) Inr f have e: "e = PsaErrorDoesNotExist" and run: "p11_scan self s kts (rem @ [kt]) w1 = (Inr rem', w')"
        by (auto split: if_splits)
      have "\<not> present ?Ob k" using find_key_absent [OF tc cl] f Inl e by simp
      moreover from Cons.IH [OF _ _ run] Cons.prems(1,2) same
      have "ps_kim w' = ps_kim w \<and> objs (ps_token w') = ?Ob \<and> ps_psa w' = ps_psa w \<and>
        rem' = (rem @ [kt]) @ filter (\<lambda>kt. \<not> p11_live ?c ?f ?Ob kt) kts \<and>
        ps_local_ids w' = ps_local_ids w \<union> {k. present ?Ob k \<and> (\<exists>kt \<in> set kts. key_number Pkcs11 ?c ?f kt = Some k)}" by simp
      ultimately show ?thesis using k by (auto simp: p11_live_def)
    next
      case (Inr h)
      let ?w = "w1\<lparr>ps_local_ids := insert k (ps_local_ids w1)\<rparr>"
      have run: "p11_scan self s kts rem ?w = (Inr rem', w')"
        using Cons.prems(3) f Inr \<open>get_key_id ?c (pk_key_info_store self) (ps_kim w) kt = Inr k\<close> by simp
      have "present ?Ob k" by (rule find_key_present [OF tc f [unfolded Inr]])
      moreover from Cons.IH [OF _ _ run] Cons.prems(1,2) same
      have "ps_kim w' = ps_kim w \<and> objs (ps_token w') = ?Ob \<and> ps_psa w' = ps_psa w \<and>
        rem' = rem @ filter (\<lambda>kt. \<not> p11_live ?c ?f ?Ob kt) kts \<and>
        ps_local_ids w' = insert k (ps_local_ids w) \<union> {k. present ?Ob k \<and> (\<exists>kt \<in> set kts. key_number Pkcs11 ?c ?f kt = Some k)}" by simp
      ultimately show ?thesis using k by (auto simp: p11_live_def)
    qed
  qed
qed simp

end

text \<open>The live mappings among those of the provider, and everything of the other providers.\<close>

definition live_mappings ::
  "u32 id_codec \<Rightarrow> p11_objects \<Rightarrow> (key_triple \<Rightarrow> key_info option) \<Rightarrow> key_triple \<Rightarrow> key_info option" where
  "live_mappings codec Ob f = (\<lambda>kt. if kt_provider_id kt = Pkcs11 \<and> \<not> p11_live codec f Ob kt then None else f kt)"

definition live_numbers :: "u32 id_codec \<Rightarrow> p11_objects \<Rightarrow> (key_triple \<Rightarrow> key_info option) \<Rightarrow> u32 set" where
  "live_numbers codec Ob f = {k. present Ob k \<and> (\<exists>kt. key_number Pkcs11 codec f kt = Some k)}"

lemma key_number_live:
  "key_number Pkcs11 codec (live_mappings codec Ob f) kt =
     (if p11_live codec f Ob kt then key_number Pkcs11 codec f kt else None)"
  by (auto simp: key_number_def live_mappings_def)

lemma p11_numbered_live:
  assumes "unshared Pkcs11 codec f"
  shows "p11_numbered codec (live_mappings codec Ob f) (live_numbers codec Ob f)"
  unfolding p11_numbered_def
proof (intro conjI allI impI)
  show "decodable Pkcs11 codec (live_mappings codec Ob f)"
    unfolding decodable_def key_number_live by (auto simp: live_mappings_def p11_live_def split: if_splits)
  show "unshared Pkcs11 codec (live_mappings codec Ob f)"
    using assms unfolding unshared_def key_number_live by (auto split: if_splits)
  show "k \<in> live_numbers codec Ob f" if "key_number Pkcs11 codec (live_mappings codec Ob f) kt = Some k" for kt k
    using that by (auto simp: key_number_live live_numbers_def p11_live_def split: if_splits)
qed

text \<open>The steps of a start that succeeds.\<close>

lemma p11_new_Started:
  assumes tc: "token_contract (pk_backend self) objs" and run: "p11_new self pin m t g b = (Started w, w')"
    and kts: "kim_get_all (pk_key_info_store self) m = Inr kts"
  obtains s w1 w2 rem t2 b2 m2 where
    "ps_kim w1 = m" "ps_local_ids w1 = {}" "\<not> ps_stuck w1" "objs (ps_token w1) = objs t"
    "p11_scan self s kts [] w1 = (Inr rem, w2)"
    "remove_triples (pk_key_info_store self) rem (ps_kim w2) = (True, m2)"
    "objs t2 = objs (ps_token w2)" "w = w2\<lparr>ps_token := t2, ps_kim := m2, ps_psa := b2\<rparr>"
proof -
  let ?w = "\<lparr>ps_kim = m, ps_local_ids = {}, ps_stuck = False, ps_token = t, ps_rng = g, ps_psa = b\<rparr>"
  let ?pin = "case pin of None \<Rightarrow> (Inr (), ?w) | Some p \<Rightarrow> on_token self (ck_set_pin (pk_backend self) (pk_slot_number self) p) ?w"
  obtain q w0 where p: "?pin = (q, w0)" by fastforce
  have s0: "p11_same objs ?w w0"
  proof (cases pin)
    case None
    with p show ?thesis by (auto simp: p11_same_def)
  next
    case (Some a)
    with p on_token_same [OF token_contract_leaves(1) [OF tc]] show ?thesis by auto
  qed
  note D = p11_sameD [OF s0]
  obtain u where q: "q = Inr u" using run p by (cases q) (auto simp: p11_new_def Let_def)
  obtain x w3 where ws: "with_session self (\<lambda>session. p11_scan self session kts []) w0 = (x, w3)" by fastforce
  obtain rem where x: "x = Inr rem" using run p q D(1) kts ws by (cases x) (auto simp: p11_new_def Let_def)
  obtain ok m2 where rt: "remove_triples (pk_key_info_store self) rem (ps_kim w3) = (ok, m2)" by fastforce
  have ok: ok using run p q D(1) kts ws x rt by (cases ok) (auto simp: p11_new_def Let_def)
  have w: "w = w3\<lparr>ps_kim := m2, ps_psa := ps_psa w\<rparr>"
    using run p q D(1) kts ws x rt ok by (auto simp: p11_new_def Let_def split: if_splits prod.splits sum.splits)
  show thesis
  proof (rule with_session_cases [OF tc ws])
    fix s w1 w2 assume A: "p11_same objs w0 w1" "p11_scan self s kts [] w1 = (x, w2)" "p11_same objs w2 w3"
    from A(3) obtain t2 where "w3 = w2\<lparr>ps_token := t2\<rparr>" "objs t2 = objs (ps_token w2)" by (auto simp: p11_same_def)
    with that [of w1 s rem w2 m2 t2 "ps_psa w"] A x D p11_sameD [OF A(1)] rt ok w show thesis by simp
  qed (use x in simp)
qed

context key_info_manager_mem
begin

text \<open>
  A provider that starts has the invariant, keeps exactly the live mappings and has their numbers as the numbers in use. The
  objects of the token are left as they are.
\<close>

lemma p11_new_result:
  assumes S: "p11_setup ops self objs" and cl: "clear_errors self" and inv: "inv m"
    and un: "unshared Pkcs11 (pk_id_codec self) (abs m)"
    and run: "p11_new self pin m t g b = (Started w, w')"
  shows "p11_inv ops inv abs self objs w" "abs (ps_kim w) = live_mappings (pk_id_codec self) (objs t) (abs m)"
    "objs (ps_token w) = objs t" "ps_local_ids w = live_numbers (pk_id_codec self) (objs t) (abs m)"
proof -
  note S' = p11_setupD [OF S]
  obtain kts where kts: "kim_get_all (pk_key_info_store self) m = Inr kts"
    "set kts = {kt \<in> dom (abs m). kt_provider_id kt = Pkcs11}"
    using kim_get_all_total [OF inv S'(1)] S'(2) by auto
  obtain s w1 w2 rem t2 b2 m2 where
    w1: "ps_kim w1 = m" "ps_local_ids w1 = {}" "objs (ps_token w1) = objs t" and
    sc: "p11_scan self s kts [] w1 = (Inr rem, w2)" and
    rt: "remove_triples (pk_key_info_store self) rem (ps_kim w2) = (True, m2)" and
    w: "objs t2 = objs (ps_token w2)" "w = w2\<lparr>ps_token := t2, ps_kim := m2, ps_psa := b2\<rparr>"
    by (rule p11_new_Started [OF S'(3) run kts(1)])
  have "\<forall>kt \<in> set kts. kt_provider_id kt = Pkcs11 \<and> kt \<in> dom (abs (ps_kim w1))" using kts(2) w1 by simp
  from p11_scan_result [OF S'(3) cl _ S'(1) this sc] inv w1
  have SC: "ps_kim w2 = m" "objs (ps_token w2) = objs t"
    "rem = filter (\<lambda>kt. \<not> p11_live (pk_id_codec self) (abs m) (objs t) kt) kts"
    "ps_local_ids w2 = {k. present (objs t) k \<and> (\<exists>kt \<in> set kts. key_number Pkcs11 (pk_id_codec self) (abs m) kt = Some k)}"
    by simp_all
  have RT: "inv m2 \<and> abs m2 = (\<lambda>kt. if kt \<in> set rem then None else abs m kt)"
    by (rule remove_triples_result [OF S'(1) inv rt [unfolded SC(1)]])
  have "kt \<in> set kts" if "key_number Pkcs11 (pk_id_codec self) (abs m) kt = Some k" for kt k
    using that by (auto simp: kts(2) key_number_def split: if_splits option.splits)
  then show ids: "ps_local_ids w = live_numbers (pk_id_codec self) (objs t) (abs m)"
    using SC(4) w(2) by (auto simp: live_numbers_def)
  show a: "abs (ps_kim w) = live_mappings (pk_id_codec self) (objs t) (abs m)"
    using RT SC(3) kts(2) w(2) by (auto simp: live_mappings_def fun_eq_iff domIff)
  show "objs (ps_token w) = objs t" using w SC by simp
  show "p11_inv ops inv abs self objs w"
    using S RT p11_numbered_live [OF un, of "objs t"] a ids w(2) by (simp add: p11_inv_def)
qed

end

section \<open>A start that succeeds\<close>

text \<open>A token that answers the calls of a start, and a disk that answers: the provider starts.\<close>

definition token_answers :: "'t cryptoki \<Rightarrow> bool" where
  "token_answers ck \<longleftrightarrow>
     (\<forall>slot pin t. \<not> isl (fst (ck_set_pin ck slot pin t))) \<and> (\<forall>slot x y t. \<not> isl (fst (ck_open_session ck slot x y t))) \<and>
     (\<forall>s t. \<not> isl (fst (ck_login ck s t))) \<and> (\<forall>s template t. \<not> isl (fst (ck_find_objects ck s template t)))"

lemma answered: "\<not> isl (fst r) \<Longrightarrow> \<exists>x t. r = (Inr x, t)"
  by (cases r; cases "fst r") auto

lemma token_answersD:
  assumes "token_answers ck"
  shows "\<exists>x t'. ck_set_pin ck slot pin t = (Inr x, t')" "\<exists>s t'. ck_open_session ck slot y z t = (Inr s, t')"
    "\<exists>x t'. ck_login ck s t = (Inr x, t')" "\<exists>hs t'. ck_find_objects ck s template t = (Inr hs, t')"
  using assms unfolding token_answers_def by (metis answered)+

lemma p11_scan_answers:
  assumes "token_answers (pk_backend self)"
  shows "\<exists>rem' w'. p11_scan self s kts rem w = (Inr rem', w')"
proof (induction kts arbitrary: rem w)
  case (Cons kt kts)
  have "(\<exists>h w1. find_key self s k KpAny w = (Inr h, w1)) \<or> (\<exists>w1. find_key self s k KpAny w = (Inl PsaErrorDoesNotExist, w1))" for k
  proof -
    obtain hs t where "ck_find_objects (pk_backend self) s (find_template k KpAny) (ps_token w) = (Inr hs, t)"
      using token_answersD(4) [OF assms] by blast
    then show ?thesis
      by (cases hs) (simp_all add: find_key_def try_op_def on_token_def map_err_def err_op_def ok_op_def)
  qed
  note found = this
  show ?case
  proof (cases "get_key_id (pk_id_codec self) (pk_key_info_store self) (ps_kim w) kt")
    case (Inl e)
    with Cons.IH show ?thesis by simp
  next
    case (Inr k)
    from found [of k] Inr Cons.IH show ?thesis by auto
  qed
qed simp

lemma with_session_answers:
  assumes "token_answers (pk_backend self)" and "\<And>s w. \<exists>x w'. f s w = (Inr x, w')"
  shows "\<exists>x w'. with_session self f w = (Inr x, w')"
proof -
  obtain s t where o: "ck_open_session (pk_backend self) (pk_slot_number self) True True (ps_token w) = (Inr s, t)"
    using token_answersD(2) [OF assms(1)] by blast
  obtain u t' where l: "ck_login (pk_backend self) s t = (Inr u, t')" using token_answersD(3) [OF assms(1)] by blast
  from o l have "new_session self w = (Inr s, w\<lparr>ps_token := t'\<rparr>)"
    by (simp add: new_session_def try_op_def on_token_def map_err_def)
  moreover obtain x w' where "f s (w\<lparr>ps_token := t'\<rparr>) = (Inr x, w')" using assms(2) by blast
  ultimately show ?thesis by (simp add: with_session_def try_op_def)
qed

lemma p11_new_total:
  assumes S: "p11_setup (on_disk_impl c) self objs" and cl: "clear_errors self" and inv: "odm_inv m"
    and d: "base64_ok c" "synced c m" "quiet (odm_disk m)"
    and ans: "token_answers (pk_backend self)" and soft: "\<And>b. \<not> isl (fst (psa_init (pk_psa self) b))"
  shows "\<exists>w w'. p11_new self pin m t g b = (Started w, w')"
proof -
  note S' = p11_setupD [OF S]
  let ?w = "\<lparr>ps_kim = m, ps_local_ids = {}, ps_stuck = False, ps_token = t, ps_rng = g, ps_psa = b\<rparr>"
  obtain kts where kts: "kim_get_all (pk_key_info_store self) m = Inr kts" "distinct kts"
    "set kts = {kt \<in> dom (odm_abs m). kt_provider_id kt = Pkcs11}"
    using odm.kim_get_all_total [OF inv S'(1)] S'(2) by auto
  obtain t1 where pin: "(case pin of None \<Rightarrow> (Inr (), ?w)
      | Some p \<Rightarrow> on_token self (ck_set_pin (pk_backend self) (pk_slot_number self) p) ?w) = (Inr (), ?w\<lparr>ps_token := t1\<rparr>)"
  proof (cases pin)
    case None
    then show thesis using that [of t] by simp
  next
    case (Some p)
    obtain u t1 where "ck_set_pin (pk_backend self) (pk_slot_number self) p t = (Inr u, t1)" using token_answersD(1) [OF ans] by blast
    with Some show thesis using that [of t1] by (simp add: on_token_def map_err_def)
  qed
  obtain rem w2 where ws: "with_session self (\<lambda>session. p11_scan self session kts []) (?w\<lparr>ps_token := t1\<rparr>) = (Inr rem, w2)"
    using with_session_answers [OF ans, of "\<lambda>session. p11_scan self session kts []"] p11_scan_answers [OF ans] by blast
  have m2: "ps_kim w2 = m \<and> distinct rem \<and> set rem \<subseteq> dom (odm_abs m)"
  proof (rule with_session_cases [OF S'(3) ws])
    fix s w1 w3 assume A: "p11_same objs (?w\<lparr>ps_token := t1\<rparr>) w1" "p11_scan self s kts [] w1 = (Inr rem, w3)" "p11_same objs w3 w2"
    have "ps_kim w1 = m" using p11_sameD(1) [OF A(1)] by simp
    with odm.p11_scan_result [OF S'(3) cl _ S'(1) _ A(2)] inv kts p11_sameD(1) [OF A(3)] show ?thesis by auto
  qed simp
  then obtain m3 where "remove_triples (pk_key_info_store self) rem m = (True, m3)"
    using remove_triples_quiet [OF d(1) S'(1) _ d(2,3) inv] by blast
  moreover obtain u b' where "psa_init (pk_psa self) (ps_psa w2) = (Inr u, b')"
    using answered [OF soft [of "ps_psa w2"]] by auto
  ultimately show ?thesis using m2 pin kts(1) ws by (simp add: p11_new_def Let_def)
qed

end
