(* ===== verification/Mbed_Crypto_Provider.thy ===== *)
theory Mbed_Crypto_Provider
  imports Providers Psa_Crypto
begin

text \<open>
  \<open>src/src/providers/mbed_crypto\<close>: the provider on top of Mbed Crypto, which is the record
  \<open>psa_crypto\<close> of functions of theory \<open>Psa_Crypto\<close>.

  The state of the provider is the key info manager, the counter of key identifiers and
  the state of Mbed Crypto. The operations are verified for every key info manager that meets
  the contract \<open>key_info_manager\<close>. The mutex \<open>key_handle_mutex\<close> matters only between threads
  and has no counterpart here.
\<close>

section \<open>State\<close>

text \<open>
  \<open>mbed_provider\<close> holds what does not change after construction, \<open>mbed_state\<close> what does.
  \<open>mp_buffer_size_limit\<close> is the value of \<open>GlobalConfig::buffer_size_limit()\<close>.
\<close>

record ('m, 'b, 'id) mbed_provider =
  mp_key_info_store :: "'m kim_client"
  mp_psa :: "('b, 'id) psa_crypto"
  mp_id_codec :: "u32 id_codec"
  mp_validators :: validators
  mp_uuid_parse :: "string \<Rightarrow> bytes option"
  mp_buffer_size_limit :: usize

record ('m, 'b) mbed_state =
  ms_kim :: 'm
  id_counter :: u32
  ms_psa :: 'b

definition mbed_supported_opcodes :: "opcode list" where
  "mbed_supported_opcodes =
     [PsaGenerateKey, PsaDestroyKey, PsaSignHash, PsaVerifyHash, PsaImportKey, PsaExportKey,
      PsaExportPublicKey, PsaAsymmetricDecrypt, PsaAsymmetricEncrypt, PsaAeadEncrypt, PsaAeadDecrypt,
      PsaHashCompare, PsaHashCompute, PsaRawKeyAgreement, PsaGenerateRandom]"

text \<open>Calls of the two parts of the state.\<close>

definition on_kim :: "('m, 'a) res_op \<Rightarrow> (('m, 'b) mbed_state, 'a) res_op" where
  "on_kim f w = (case f (ms_kim w) of (r, m) \<Rightarrow> (r, w\<lparr>ms_kim := m\<rparr>))"

definition ask_kim :: "('m \<Rightarrow> 'a res) \<Rightarrow> (('m, 'b) mbed_state, 'a) res_op" where
  "ask_kim f w = (f (ms_kim w), w)"

definition on_psa ::
  "('m, 'b, 'id) mbed_provider \<Rightarrow> ('b, 'a) psa_op \<Rightarrow> (('m, 'b) mbed_state, 'a) res_op" where
  "on_psa self f w =
     (case f (ms_psa w) of (r, b) \<Rightarrow> (map_err (response_status_from (mp_psa self)) r, w\<lparr>ms_psa := b\<rparr>))"

definition ask_psa ::
  "('m, 'b, 'id) mbed_provider \<Rightarrow> psa_status + 'a \<Rightarrow> (('m, 'b) mbed_state, 'a) res_op" where
  "ask_psa self r w = (map_err (response_status_from (mp_psa self)) r, w)"

section \<open>Key management\<close>

definition create_key_id :: "('b, 'id) psa_crypto \<Rightarrow> u32 \<Rightarrow> u32 res \<times> u32" where
  "create_key_id psa max_current_id =
     (let new_key_id = max_current_id + 1 in
      if new_key_id > key_id_user_max psa
      then (Inl PsaErrorInsufficientMemory, key_id_user_max psa)
      else (Inr new_key_id, new_key_id))"

definition next_key_id :: "('m, 'b, 'id) mbed_provider \<Rightarrow> (('m, 'b) mbed_state, u32) res_op" where
  "next_key_id self w =
     (case create_key_id (mp_psa self) (id_counter w) of (r, c) \<Rightarrow> (r, w\<lparr>id_counter := c\<rparr>))"

text \<open>The common end of \<open>generate\<close> and \<open>import\<close>: store the mapping, or destroy the new key again.\<close>

definition store_new_key ::
  "('m, 'b, 'id) mbed_provider \<Rightarrow> key_triple \<Rightarrow> u32 \<Rightarrow> attributes \<Rightarrow> 'id \<Rightarrow> (('m, 'b) mbed_state, unit) res_op" where
  "store_new_key self kt key_id attrs key w =
     (case on_kim (insert_key_info (mp_id_codec self) (mp_key_info_store self) kt key_id attrs) w of
        (Inl e, w') \<Rightarrow> (Inl e, w'\<lparr>ms_psa := snd (psa_destroy (mp_psa self) key (ms_psa w'))\<rparr>)
      | (Inr _, w') \<Rightarrow> (Inr (), w'))"

definition mbed_generate_key ::
  "('m, 'b, 'id) mbed_provider \<Rightarrow> application_name \<Rightarrow> generate_key_op \<Rightarrow> (('m, 'b) mbed_state, unit) res_op" where
  "mbed_generate_key self app op =
     (let kt = key_triple_new app MbedCrypto (gk_key_name op); attrs = gk_attributes op in
      try_op (ask_kim (\<lambda>m. does_not_exist (mp_key_info_store self) m kt)) (\<lambda>_.
      try_op (next_key_id self) (\<lambda>key_id.
      try_op (on_psa self (psa_generate (mp_psa self) attrs (Some key_id))) (\<lambda>key.
      store_new_key self kt key_id attrs key))))"

definition mbed_import_key ::
  "('m, 'b, 'id) mbed_provider \<Rightarrow> application_name \<Rightarrow> import_key_op \<Rightarrow> (('m, 'b) mbed_state, unit) res_op" where
  "mbed_import_key self app op =
     (let kt = key_triple_new app MbedCrypto (ik_key_name op); attrs = ik_attributes op in
      try_op (ask_kim (\<lambda>m. does_not_exist (mp_key_info_store self) m kt)) (\<lambda>_.
      try_op (next_key_id self) (\<lambda>key_id.
      try_op (on_psa self (psa_import (mp_psa self) attrs (Some key_id) (ik_data op))) (\<lambda>key.
      store_new_key self kt key_id attrs key))))"

text \<open>The identifier of a named key, opened in Mbed Crypto; every use of a key starts with this.\<close>

definition mbed_key_id ::
  "('m, 'b, 'id) mbed_provider \<Rightarrow> application_name \<Rightarrow> string \<Rightarrow> (('m, 'b) mbed_state, u32) res_op" where
  "mbed_key_id self app name =
     ask_kim (\<lambda>m. get_key_id (mp_id_codec self) (mp_key_info_store self) m (key_triple_new app MbedCrypto name))"

definition mbed_open_key ::
  "('m, 'b, 'id) mbed_provider \<Rightarrow> application_name \<Rightarrow> string \<Rightarrow> (('m, 'b) mbed_state, 'id) res_op" where
  "mbed_open_key self app name =
     try_op (mbed_key_id self app name) (\<lambda>key_id. on_psa self (from_persistent_key_id (mp_psa self) key_id))"

text \<open>Allocate a buffer, have it filled, and cut it to the reported length.\<close>

definition fill_buffer ::
  "('m, 'b, 'id) mbed_provider \<Rightarrow> psa_status + usize \<Rightarrow> (bytes \<Rightarrow> ('b, bytes \<times> usize) psa_op) \<Rightarrow>
   (('m, 'b) mbed_state, bytes) res_op" where
  "fill_buffer self sz f =
     try_op (ask_psa self sz) (\<lambda>buffer_size.
     try_op (on_psa self (f (replicate (unat buffer_size) 0))) (\<lambda>(buffer, len).
     ok_op (vec_resize (unat len) 0 buffer)))"

definition mbed_export_public_key ::
  "('m, 'b, 'id) mbed_provider \<Rightarrow> application_name \<Rightarrow> string \<Rightarrow> (('m, 'b) mbed_state, bytes) res_op" where
  "mbed_export_public_key self app name =
     try_op (mbed_open_key self app name) (\<lambda>id.
     try_op (on_psa self (attributes_from_key_id (mp_psa self) id)) (\<lambda>attrs.
     fill_buffer self (export_public_key_output_size (mp_psa self) attrs) (psa_export_public (mp_psa self) id)))"

definition mbed_export_key ::
  "('m, 'b, 'id) mbed_provider \<Rightarrow> application_name \<Rightarrow> string \<Rightarrow> (('m, 'b) mbed_state, bytes) res_op" where
  "mbed_export_key self app name =
     try_op (mbed_open_key self app name) (\<lambda>id.
     try_op (on_psa self (attributes_from_key_id (mp_psa self) id)) (\<lambda>attrs.
     fill_buffer self (export_key_output_size (mp_psa self) attrs) (psa_export (mp_psa self) id)))"

definition mbed_destroy_key ::
  "('m, 'b, 'id) mbed_provider \<Rightarrow> application_name \<Rightarrow> string \<Rightarrow> (('m, 'b) mbed_state, unit) res_op" where
  "mbed_destroy_key self app name =
     (let kt = key_triple_new app MbedCrypto name in
      try_op (mbed_key_id self app name) (\<lambda>key_id.
      try_op (on_kim (remove_key_info (mp_key_info_store self) kt)) (\<lambda>_.
      try_op (on_psa self (from_persistent_key_id (mp_psa self) key_id)) (\<lambda>id.
      on_psa self (psa_destroy (mp_psa self) id)))))"

section \<open>Cryptographic operations\<close>

definition mbed_sign_hash ::
  "('m, 'b, 'id) mbed_provider \<Rightarrow> application_name \<Rightarrow> sign_hash_op \<Rightarrow> (('m, 'b) mbed_state, bytes) res_op" where
  "mbed_sign_hash self app op =
     try_op (mbed_open_key self app (sh_key_name op)) (\<lambda>id.
     try_op (on_psa self (attributes_from_key_id (mp_psa self) id)) (\<lambda>attrs.
     fill_buffer self (sign_output_size (mp_psa self) attrs (sh_alg op))
       (psa_sign_hash (mp_psa self) id (sh_alg op) (sh_hash op))))"

definition mbed_verify_hash ::
  "('m, 'b, 'id) mbed_provider \<Rightarrow> application_name \<Rightarrow> verify_hash_op \<Rightarrow> (('m, 'b) mbed_state, unit) res_op" where
  "mbed_verify_hash self app op =
     try_op (mbed_open_key self app (vh_key_name op)) (\<lambda>id.
     on_psa self (psa_verify_hash (mp_psa self) id (vh_alg op) (vh_hash op) (vh_signature op)))"

definition mbed_asymmetric_encrypt ::
  "('m, 'b, 'id) mbed_provider \<Rightarrow> application_name \<Rightarrow> asymmetric_encrypt_op \<Rightarrow>
   (('m, 'b) mbed_state, bytes) res_op" where
  "mbed_asymmetric_encrypt self app op =
     try_op (mbed_open_key self app (ae_key_name op)) (\<lambda>id.
     try_op (on_psa self (attributes_from_key_id (mp_psa self) id)) (\<lambda>attrs.
     try_op (read_op (\<lambda>_. validate_asymmetric_encrypt (mp_validators self) op attrs)) (\<lambda>_.
     fill_buffer self (asymmetric_encrypt_output_size (mp_psa self) attrs (ae_alg op))
       (psa_encrypt (mp_psa self) id (ae_alg op) (ae_plaintext op) (ae_salt op)))))"

definition mbed_asymmetric_decrypt ::
  "('m, 'b, 'id) mbed_provider \<Rightarrow> application_name \<Rightarrow> asymmetric_decrypt_op \<Rightarrow>
   (('m, 'b) mbed_state, bytes) res_op" where
  "mbed_asymmetric_decrypt self app op =
     try_op (mbed_open_key self app (ad_key_name op)) (\<lambda>id.
     try_op (on_psa self (attributes_from_key_id (mp_psa self) id)) (\<lambda>attrs.
     try_op (read_op (\<lambda>_. validate_asymmetric_decrypt (mp_validators self) op attrs)) (\<lambda>_.
     fill_buffer self (asymmetric_decrypt_output_size (mp_psa self) attrs (ad_alg op))
       (psa_decrypt (mp_psa self) id (ad_alg op) (ad_ciphertext op) (ad_salt op)))))"

definition mbed_aead_encrypt ::
  "('m, 'b, 'id) mbed_provider \<Rightarrow> application_name \<Rightarrow> aead_encrypt_op \<Rightarrow> (('m, 'b) mbed_state, bytes) res_op" where
  "mbed_aead_encrypt self app op =
     try_op (mbed_open_key self app (aeo_key_name op)) (\<lambda>id.
     try_op (on_psa self (attributes_from_key_id (mp_psa self) id)) (\<lambda>attrs.
     try_op (read_op (\<lambda>_. validate_aead_encrypt (mp_validators self) op attrs)) (\<lambda>_.
     fill_buffer self
       (aead_encrypt_output_size (mp_psa self) attrs (aeo_alg op) (word_of_nat (length (aeo_plaintext op))))
       (aead_encrypt (mp_psa self) id (aeo_alg op) (aeo_nonce op) (aeo_additional_data op) (aeo_plaintext op)))))"

definition mbed_aead_decrypt ::
  "('m, 'b, 'id) mbed_provider \<Rightarrow> application_name \<Rightarrow> aead_decrypt_op \<Rightarrow> (('m, 'b) mbed_state, bytes) res_op" where
  "mbed_aead_decrypt self app op =
     try_op (mbed_open_key self app (ado_key_name op)) (\<lambda>id.
     try_op (on_psa self (attributes_from_key_id (mp_psa self) id)) (\<lambda>attrs.
     try_op (read_op (\<lambda>_. validate_aead_decrypt (mp_validators self) op attrs)) (\<lambda>_.
     fill_buffer self
       (aead_decrypt_output_size (mp_psa self) attrs (ado_alg op) (word_of_nat (length (ado_ciphertext op))))
       (aead_decrypt (mp_psa self) id (ado_alg op) (ado_nonce op) (ado_additional_data op) (ado_ciphertext op)))))"

definition mbed_hash_compute ::
  "('m, 'b, 'id) mbed_provider \<Rightarrow> hash_compute_op \<Rightarrow> (('m, 'b) mbed_state, bytes) res_op" where
  "mbed_hash_compute self op =
     fill_buffer self (Inr (hash_length (mp_psa self) (hc_alg op)))
       (hash_compute (mp_psa self) (hc_alg op) (hc_input op))"

definition mbed_hash_compare ::
  "('m, 'b, 'id) mbed_provider \<Rightarrow> hash_compare_op \<Rightarrow> (('m, 'b) mbed_state, unit) res_op" where
  "mbed_hash_compare self op =
     on_psa self (hash_compare (mp_psa self) (hx_alg op) (hx_input op) (hx_hash op))"

definition mbed_raw_key_agreement ::
  "('m, 'b, 'id) mbed_provider \<Rightarrow> application_name \<Rightarrow> raw_key_agreement_op \<Rightarrow>
   (('m, 'b) mbed_state, bytes) res_op" where
  "mbed_raw_key_agreement self app op =
     try_op (mbed_open_key self app (ka_private_key_name op)) (\<lambda>id.
     try_op (on_psa self (attributes_from_key_id (mp_psa self) id)) (\<lambda>attrs.
     try_op (read_op (\<lambda>_. validate_raw_key_agreement (mp_validators self) op attrs)) (\<lambda>_.
     fill_buffer self (raw_key_agreement_output_size (mp_psa self) attrs (ka_alg op))
       (raw_key_agreement (mp_psa self) (ka_alg op) id (ka_peer_key op)))))"

definition mbed_generate_random ::
  "('m, 'b, 'id) mbed_provider \<Rightarrow> usize \<Rightarrow> (('m, 'b) mbed_state, bytes) res_op" where
  "mbed_generate_random self buffer_size =
     (if buffer_size > mp_buffer_size_limit self then err_op ResponseTooLarge
      else on_psa self (generate_random (mp_psa self) (replicate (unat buffer_size) 0)))"

section \<open>Start-up\<close>

text \<open>
  The loop over the stored triples; the outer \<open>None\<close> is the early return of \<open>new\<close>.
\<close>

fun scan_triples ::
  "('m, 'b, 'id) mbed_provider \<Rightarrow> key_triple list \<Rightarrow> u32 \<Rightarrow> key_triple list \<Rightarrow> ('m, 'b) mbed_state \<Rightarrow>
   (u32 \<times> key_triple list) option \<times> ('m, 'b) mbed_state" where
  "scan_triples self [] max_key_id to_remove w = (Some (max_key_id, to_remove), w)"
| "scan_triples self (kt # kts) max_key_id to_remove w =
     (case get_key_id (mp_id_codec self) (mp_key_info_store self) (ms_kim w) kt of
        Inl _ \<Rightarrow> scan_triples self kts max_key_id (to_remove @ [kt]) w
      | Inr key_id \<Rightarrow>
          (case from_persistent_key_id (mp_psa self) key_id (ms_psa w) of
             (Inr _, b) \<Rightarrow>
               scan_triples self kts (if key_id > max_key_id then key_id else max_key_id) to_remove
                 (w\<lparr>ms_psa := b\<rparr>)
           | (Inl DoesNotExist, b) \<Rightarrow>
               scan_triples self kts max_key_id (to_remove @ [kt]) (w\<lparr>ms_psa := b\<rparr>)
           | (Inl (OtherPsaError _), b) \<Rightarrow> (None, w\<lparr>ms_psa := b\<rparr>)))"

definition mbed_new ::
  "('m, 'b, 'id) mbed_provider \<Rightarrow> 'm \<Rightarrow> 'b \<Rightarrow> ('m, 'b) mbed_state option \<times> 'm \<times> 'b" where
  "mbed_new self m b =
     (case psa_init (mp_psa self) b of
        (Inl _, b1) \<Rightarrow> (None, m, b1)
      | (Inr _, b1) \<Rightarrow>
          (let w = \<lparr>ms_kim = m, id_counter = key_id_user_min (mp_psa self), ms_psa = b1\<rparr> in
           case kim_get_all (mp_key_info_store self) m of
             Inl _ \<Rightarrow> (None, m, b1)
           | Inr kts \<Rightarrow>
               (case scan_triples self kts (key_id_user_min (mp_psa self)) [] w of
                  (None, w1) \<Rightarrow> (None, ms_kim w1, ms_psa w1)
                | (Some (max_key_id, to_remove), w1) \<Rightarrow>
                    (case remove_triples (mp_key_info_store self) to_remove (ms_kim w1) of
                       (False, m2) \<Rightarrow> (None, m2, ms_psa w1)
                     | (True, m2) \<Rightarrow>
                         (Some (w1\<lparr>ms_kim := m2, id_counter := max_key_id\<rparr>), m2, ms_psa w1)))))"

section \<open>The trait implementation\<close>

definition mbed_describe ::
  "('m, 'b, 'id) mbed_provider \<Rightarrow> (provider_info \<times> opcode fset) res" where
  "mbed_describe self =
     try_res (ok_or (mp_uuid_parse self ''1c1139dc-ad7c-47dc-ad6b-db6fdb466552'') InvalidEncoding) (\<lambda>uuid.
     Inr (\<lparr>pi_uuid = uuid,
           pi_description = ''User space software provider, based on Mbed Crypto - the '' @
             ''reference implementation of the PSA crypto API'',
           pi_vendor = ''Arm'', pi_version_maj = 0, pi_version_min = 1, pi_version_rev = 0,
           pi_id = MbedCrypto\<rparr>,
          fset_of_list mbed_supported_opcodes))"

definition mbed_list_keys ::
  "('m, 'b, 'id) mbed_provider \<Rightarrow> application_name \<Rightarrow> (('m, 'b) mbed_state, listed_key list) res_op" where
  "mbed_list_keys self app = ask_kim (\<lambda>m. kim_list_keys (mp_key_info_store self) m app)"

definition mbed_list_clients ::
  "('m, 'b, 'id) mbed_provider \<Rightarrow> (('m, 'b) mbed_state, string list) res_op" where
  "mbed_list_clients self = ask_kim (kim_list_clients (mp_key_info_store self))"

definition mbed_provide :: "('m, 'b, 'id) mbed_provider \<Rightarrow> ('m, 'b) mbed_state provide" where
  "mbed_provide self =
     (default_provide (Some (mbed_describe self)) (mbed_list_keys self) (mbed_list_clients self))
       \<lparr>p_psa_generate_key := mbed_generate_key self, p_psa_import_key := mbed_import_key self,
        p_psa_export_public_key := mbed_export_public_key self, p_psa_export_key := mbed_export_key self,
        p_psa_destroy_key := mbed_destroy_key self, p_psa_sign_hash := mbed_sign_hash self,
        p_psa_verify_hash := mbed_verify_hash self,
        p_psa_asymmetric_encrypt := mbed_asymmetric_encrypt self,
        p_psa_asymmetric_decrypt := mbed_asymmetric_decrypt self,
        p_psa_aead_encrypt := mbed_aead_encrypt self, p_psa_aead_decrypt := mbed_aead_decrypt self,
        p_psa_hash_compute := mbed_hash_compute self, p_psa_hash_compare := mbed_hash_compare self,
        p_psa_raw_key_agreement := mbed_raw_key_agreement self,
        p_psa_generate_random := mbed_generate_random self\<rparr>"

text \<open>The builder: the key info store is mandatory, and a failed \<open>new\<close> is an error.\<close>

definition mbed_build ::
  "('m kim_client \<Rightarrow> ('m, 'b, 'id) mbed_provider) \<Rightarrow> 'm kim_client option \<Rightarrow> 'm \<Rightarrow> 'b \<Rightarrow>
   string + ('m, 'b) mbed_state" where
  "mbed_build mk key_info_store m b =
     try_res (ok_or key_info_store ''missing key info store'') (\<lambda>store.
     ok_or (fst (mbed_new (mk store) m b)) ''MbedCrypto Provider initialization failed'')"

end
