(* ===== verification/Mbed_Crypto_Keys.thy ===== *)
theory Mbed_Crypto_Keys
  imports Mbed_Crypto_Provider Key_Numbers
begin

text \<open>
  The keys of the Mbed Crypto provider: the invariant that ties the stored mappings to the
  persistent keys of Mbed Crypto, that every operation keeps it, that no operation touches the
  keys of another application, and what start-up, key creation and key destruction do.

  Everything is proved for an arbitrary key info manager, inside \<open>key_info_manager\<close>;
  the interpretation \<open>odm\<close> of that locale gives the same facts for the on-disk manager.
\<close>

section \<open>Mappings and persistent keys\<close>

text \<open>
  Every mapping decodes to an existing key, no two mappings share a key, and the counter is
  past every mapped key (or stuck at its end, from where it hands out no number any more).
\<close>

definition linked ::
  "u32 id_codec \<Rightarrow> u32 \<Rightarrow> (key_triple \<Rightarrow> key_info option) \<Rightarrow> (u32 \<Rightarrow> 'kd option) \<Rightarrow> u32 \<Rightarrow> bool" where
  "linked codec mx f K c \<longleftrightarrow>
     (\<forall>kt \<in> dom f. kt_provider_id kt = MbedCrypto \<longrightarrow> key_number MbedCrypto codec f kt \<noteq> None) \<and>
     (\<forall>kt k. key_number MbedCrypto codec f kt = Some k \<longrightarrow> K k \<noteq> None \<and> (k \<le> c \<or> mx \<le> c)) \<and>
     (\<forall>kt kt' k. key_number MbedCrypto codec f kt = Some k \<longrightarrow> key_number MbedCrypto codec f kt' = Some k \<longrightarrow> kt = kt')"

lemma linkedD:
  assumes "linked codec mx f K c"
  shows "kt \<in> dom f \<Longrightarrow> kt_provider_id kt = MbedCrypto \<Longrightarrow> key_number MbedCrypto codec f kt \<noteq> None"
    "key_number MbedCrypto codec f kt = Some k \<Longrightarrow> K k \<noteq> None \<and> (k \<le> c \<or> mx \<le> c)"
    "key_number MbedCrypto codec f kt = Some k \<Longrightarrow> key_number MbedCrypto codec f kt' = Some k \<Longrightarrow> kt = kt'"
  using assms unfolding linked_def by blast+

lemma linked_counter:
  assumes "linked codec mx f K c" and "c \<le> c' \<or> mx \<le> c'"
  shows "linked codec mx f K c'"
proof -
  have "k \<le> c \<or> mx \<le> c \<Longrightarrow> k \<le> c' \<or> mx \<le> c'" for k
    using assms(2) order.trans by blast
  with assms(1) show ?thesis unfolding linked_def by blast
qed

lemma linked_new_key:
  assumes "linked codec mx f K c" and "K k = None"
  shows "linked codec mx f (K(k \<mapsto> x)) c" and "seen MbedCrypto codec f (K(k \<mapsto> x)) n = seen MbedCrypto codec f K n"
    and "key_number MbedCrypto codec f kt \<noteq> Some k"
proof -
  show *: "key_number MbedCrypto codec f kt \<noteq> Some k" for kt
    using linkedD(2) [OF assms(1), of kt k] assms(2) by blast
  show "linked codec mx f (K(k \<mapsto> x)) c"
    using assms(1) unfolding linked_def by auto
  show "seen MbedCrypto codec f (K(k \<mapsto> x)) n = seen MbedCrypto codec f K n"
    using * by (rule seen_key_upd)
qed

lemma linked_lose_key:
  assumes "linked codec mx f K c" and "\<And>kt. key_number MbedCrypto codec f kt \<noteq> Some k"
  shows "linked codec mx f (K(k := None)) c" and "seen MbedCrypto codec f (K(k := None)) n = seen MbedCrypto codec f K n"
proof -
  show "linked codec mx f (K(k := None)) c"
    using assms unfolding linked_def by auto
  show "seen MbedCrypto codec f (K(k := None)) n = seen MbedCrypto codec f K n"
    using assms(2) by (rule seen_key_upd)
qed

lemma linked_remove: "linked codec mx f K c \<Longrightarrow> linked codec mx (f(kt := None)) K c"
  unfolding linked_def by auto

lemma linked_insert:
  assumes "linked codec mx f K c" and "id_deserialize codec (ki_id info) = Inr k"
    and "\<And>kt'. key_number MbedCrypto codec f kt' \<noteq> Some k" and "K k \<noteq> None" and "k \<le> c"
  shows "linked codec mx (f(kt \<mapsto> info)) K c"
proof -
  have n: "key_number MbedCrypto codec (f(kt \<mapsto> info)) kt' =
    (if kt' = kt then if kt_provider_id kt = MbedCrypto then Some k else None else key_number MbedCrypto codec f kt')" for kt'
    using assms(2) by (simp add: key_number_def)
  show ?thesis
    unfolding linked_def n using assms(1,3-5) by (auto simp: linked_def split: if_splits)
qed

section \<open>The invariant\<close>

text \<open>
  \<open>mbed_setup\<close> is what construction fixes and what is relied on of the external crates;
  \<open>mbed_inv\<close> is the invariant of the state.
\<close>

definition mbed_setup ::
  "'m manage_key_info \<Rightarrow> ('m, 'b, 'id) mbed_provider \<Rightarrow> ('b \<Rightarrow> u32 \<Rightarrow> 'kd option) \<Rightarrow> ('id \<Rightarrow> u32) \<Rightarrow> bool" where
  "mbed_setup ops self keys_of id_of \<longleftrightarrow>
     kc_impl (mp_key_info_store self) = ops \<and> kc_provider_id (mp_key_info_store self) = MbedCrypto \<and>
     psa_contract (mp_psa self) keys_of id_of \<and> id_codec_ok (mp_id_codec self)"

definition mbed_inv ::
  "'m manage_key_info \<Rightarrow> ('m \<Rightarrow> bool) \<Rightarrow> ('m \<Rightarrow> key_triple \<Rightarrow> key_info option) \<Rightarrow>
   ('m, 'b, 'id) mbed_provider \<Rightarrow> ('b \<Rightarrow> u32 \<Rightarrow> 'kd option) \<Rightarrow> ('id \<Rightarrow> u32) \<Rightarrow> ('m, 'b) mbed_state \<Rightarrow> bool" where
  "mbed_inv ops I mp self keys_of id_of w \<longleftrightarrow>
     mbed_setup ops self keys_of id_of \<and> I (ms_kim w) \<and> id_counter w \<le> psa_key_id_vendor_max \<and>
     linked (mp_id_codec self) (key_id_user_max (mp_psa self)) (mp (ms_kim w)) (keys_of (ms_psa w)) (id_counter w)"

definition mbed_view ::
  "('m \<Rightarrow> key_triple \<Rightarrow> key_info option) \<Rightarrow> ('m, 'b, 'id) mbed_provider \<Rightarrow> ('b \<Rightarrow> u32 \<Rightarrow> 'kd option) \<Rightarrow>
   application_name \<Rightarrow> ('m, 'b) mbed_state \<Rightarrow>
   (provider_id \<Rightarrow> string \<Rightarrow> key_info option) \<times> (string \<Rightarrow> 'kd option)" where
  "mbed_view mp self keys_of n w =
     seen MbedCrypto (mp_id_codec self) (mp (ms_kim w)) (keys_of (ms_psa w)) n"

lemma mbed_setupD:
  assumes "mbed_setup ops self keys_of id_of"
  shows "kc_impl (mp_key_info_store self) = ops" "kc_provider_id (mp_key_info_store self) = MbedCrypto"
    "psa_contract (mp_psa self) keys_of id_of" "id_codec_ok (mp_id_codec self)"
  using assms by (simp_all add: mbed_setup_def)

lemma mbed_invD:
  assumes "mbed_inv ops I mp self keys_of id_of w"
  shows "mbed_setup ops self keys_of id_of" "I (ms_kim w)" "id_counter w \<le> psa_key_id_vendor_max"
    "linked (mp_id_codec self) (key_id_user_max (mp_psa self)) (mp (ms_kim w)) (keys_of (ms_psa w)) (id_counter w)"
  using assms by (simp_all add: mbed_inv_def)

subsection \<open>Operations that only use Mbed Crypto\<close>

lemma keeps_on_psa:
  assumes "psa_use_laws (mp_psa self) keys_of \<Longrightarrow> psa_reads keys_of f"
  shows "keeps (mbed_inv ops I mp self keys_of id_of) (mbed_view mp self keys_of) V (on_psa self f)"
proof (rule keepsI)
  fix w r w'
  assume w: "mbed_inv ops I mp self keys_of id_of w" and run: "on_psa self f w = (r, w')"
  obtain x b where f: "f (ms_psa w) = (x, b)" by fastforce
  have "psa_reads keys_of f"
    using assms psa_contract_use mbed_setupD(3) [OF mbed_invD(1) [OF w]] by blast
  with f have "keys_of b = keys_of (ms_psa w)" by (simp add: psa_reads_def)
  moreover from run f have "w' = w\<lparr>ms_psa := b\<rparr>" by (simp add: on_psa_def)
  ultimately show "mbed_inv ops I mp self keys_of id_of w' \<and>
      (\<forall>n \<in> V. mbed_view mp self keys_of n w' = mbed_view mp self keys_of n w)"
    using w by (simp add: mbed_inv_def mbed_view_def)
qed

lemma keeps_ask_kim [simp]: "keeps J view V (ask_kim f)"
  by (rule keeps_read) (simp add: ask_kim_def)

lemma keeps_ask_psa [simp]: "keeps J view V (ask_psa self r)"
  by (rule keeps_read) (simp add: ask_psa_def)

lemma keeps_fill_buffer:
  assumes "\<And>d. psa_use_laws (mp_psa self) keys_of \<Longrightarrow> psa_reads keys_of (f d)"
  shows "keeps (mbed_inv ops I mp self keys_of id_of) (mbed_view mp self keys_of) V (fill_buffer self sz f)"
  unfolding fill_buffer_def
  by (intro keeps_try_op keeps_on_psa assms keeps_ask_psa) (auto split: prod.split)

lemma keeps_open_key:
  "keeps (mbed_inv ops I mp self keys_of id_of) (mbed_view mp self keys_of) V (mbed_open_key self app name)"
  unfolding mbed_open_key_def mbed_key_id_def
  by (intro keeps_try_op keeps_on_psa keeps_ask_kim) (rule psa_use_lawsD)

lemmas keeps_crypto_steps =
  keeps_try_op keeps_on_psa keeps_fill_buffer keeps_open_key keeps_ask_kim keeps_read_op psa_use_lawsD

lemma keeps_crypto:
  fixes self :: "('m, 'b, 'id) mbed_provider" and ops I mp keys_of id_of V
  defines "safe \<equiv> \<lambda>f :: ('m, 'b) mbed_state \<Rightarrow> _.
    keeps (mbed_inv ops I mp self keys_of id_of) (mbed_view mp self keys_of) V f"
  shows "safe (mbed_export_public_key self app name)" "safe (mbed_export_key self app name)"
    "safe (mbed_sign_hash self app x1)" "safe (mbed_asymmetric_encrypt self app x3)"
    "safe (mbed_asymmetric_decrypt self app x4)" "safe (mbed_aead_encrypt self app x5)"
    "safe (mbed_aead_decrypt self app x6)" "safe (mbed_raw_key_agreement self app x7)"
    "safe (mbed_hash_compute self x8)"
  unfolding safe_def mbed_export_public_key_def mbed_export_key_def mbed_sign_hash_def
    mbed_asymmetric_encrypt_def mbed_asymmetric_decrypt_def mbed_aead_encrypt_def mbed_aead_decrypt_def
    mbed_raw_key_agreement_def mbed_hash_compute_def
  by (intro keeps_crypto_steps; assumption)+

lemma keeps_crypto_unit:
  "keeps (mbed_inv ops I mp self keys_of id_of) (mbed_view mp self keys_of) V (mbed_verify_hash self app x)"
  "keeps (mbed_inv ops I mp self keys_of id_of) (mbed_view mp self keys_of) V (mbed_hash_compare self y)"
  "keeps (mbed_inv ops I mp self keys_of id_of) (mbed_view mp self keys_of) V (mbed_generate_random self sz)"
  unfolding mbed_verify_hash_def mbed_hash_compare_def mbed_generate_random_def
  by (auto intro!: keeps_crypto_steps)

subsection \<open>Operations that create or destroy keys\<close>

text \<open>\<open>next_key_id\<close> moves the counter up; on success the new number is the counter and is fresh.\<close>

lemma next_key_id_result:
  assumes w: "mbed_inv ops I mp self keys_of id_of w" and run: "next_key_id self w = (r, w')"
  shows "mbed_inv ops I mp self keys_of id_of w'" "ms_kim w' = ms_kim w" "ms_psa w' = ms_psa w"
    "r = Inr k \<Longrightarrow> k = id_counter w' \<and> k \<le> key_id_user_max (mp_psa self) \<and>
       (\<forall>kt. key_number MbedCrypto (mp_id_codec self) (mp (ms_kim w)) kt \<noteq> Some k)"
    "id_counter w \<le> id_counter w' \<or> id_counter w' = key_id_user_max (mp_psa self)"
proof -
  let ?psa = "mp_psa self"
  note D = mbed_invD [OF w]
  note mx = psa_user_max_bound [OF mbed_setupD(3) [OF D(1)]]
  have up: "id_counter w < id_counter w + 1" by (rule vendor_max_succ [OF D(3)])
  from run show "ms_kim w' = ms_kim w" "ms_psa w' = ms_psa w"
    by (auto simp: next_key_id_def split: prod.splits)
  have c: "id_counter w' = key_id_user_max ?psa \<or>
      id_counter w' = id_counter w + 1 \<and> id_counter w' \<le> key_id_user_max ?psa"
    using run by (auto simp: next_key_id_def create_key_id_def Let_def split: if_splits)
  then show "id_counter w \<le> id_counter w' \<or> id_counter w' = key_id_user_max ?psa"
    using up by auto
  then show "mbed_inv ops I mp self keys_of id_of w'"
    using c mx D linked_counter [OF D(4), of "id_counter w'"] \<open>ms_kim w' = _\<close> \<open>ms_psa w' = _\<close>
    by (auto simp: mbed_inv_def)
  assume "r = Inr k"
  with run have k: "k = id_counter w + 1" "k = id_counter w'" "k \<le> key_id_user_max ?psa"
    by (auto simp: next_key_id_def create_key_id_def Let_def split: if_splits)
  have "key_number MbedCrypto (mp_id_codec self) (mp (ms_kim w)) kt \<noteq> Some k" for kt
    using linkedD(2) [OF D(4), of kt k] up k by auto
  with k show "k = id_counter w' \<and> k \<le> key_id_user_max ?psa \<and>
       (\<forall>kt. key_number MbedCrypto (mp_id_codec self) (mp (ms_kim w)) kt \<noteq> Some k)" by blast
qed

lemma mbed_inv_new_key:
  assumes w: "mbed_inv ops I mp self keys_of id_of w" and new: "keys_of (ms_psa w) k = None"
    and b: "keys_of b = (keys_of (ms_psa w))(k \<mapsto> x)"
  shows "mbed_inv ops I mp self keys_of id_of (w\<lparr>ms_psa := b\<rparr>)"
    "mbed_view mp self keys_of n (w\<lparr>ms_psa := b\<rparr>) = mbed_view mp self keys_of n w"
    "key_number MbedCrypto (mp_id_codec self) (mp (ms_kim w)) kt \<noteq> Some k"
  using linked_new_key [OF mbed_invD(4) [OF w] new] b mbed_invD(1-3) [OF w]
  by (simp_all add: mbed_inv_def mbed_view_def)

lemma mbed_inv_destroy:
  assumes w: "mbed_inv ops I mp self keys_of id_of w"
    and free: "\<And>kt. key_number MbedCrypto (mp_id_codec self) (mp (ms_kim w)) kt \<noteq> Some (id_of key)"
    and d: "psa_destroy (mp_psa self) key (ms_psa w) = (r, b)"
  shows "mbed_inv ops I mp self keys_of id_of (w\<lparr>ms_psa := b\<rparr>)"
    "mbed_view mp self keys_of n (w\<lparr>ms_psa := b\<rparr>) = mbed_view mp self keys_of n w"
proof -
  note D = mbed_invD [OF w]
  from psa_destroy_result [OF mbed_setupD(3) [OF D(1)] d]
  have "keys_of b = (keys_of (ms_psa w))(id_of key := None) \<or> keys_of b = keys_of (ms_psa w)" by blast
  then show "mbed_inv ops I mp self keys_of id_of (w\<lparr>ms_psa := b\<rparr>)"
    "mbed_view mp self keys_of n (w\<lparr>ms_psa := b\<rparr>) = mbed_view mp self keys_of n w"
    using linked_lose_key [OF D(4) free] D by (auto simp: mbed_inv_def mbed_view_def)
qed

context key_info_manager
begin

lemma store_new_key_keeps:
  assumes w: "mbed_inv ops inv abs self keys_of id_of w"
    and run: "store_new_key self kt k attrs key w = (r, w')"
    and fresh: "kt \<notin> dom (abs (ms_kim w))"
    and free: "\<And>kt'. key_number MbedCrypto (mp_id_codec self) (abs (ms_kim w)) kt' \<noteq> Some k"
    and k: "k = id_counter w" "id_of key = k" "keys_of (ms_psa w) k \<noteq> None"
  shows "mbed_inv ops inv abs self keys_of id_of w' \<and>
    (\<forall>n \<in> - {kt_app_name kt}. mbed_view abs self keys_of n w' = mbed_view abs self keys_of n w)"
proof -
  let ?c = "mp_id_codec self"
  note D = mbed_invD [OF w]
  note S = mbed_setupD [OF D(1)]
  obtain x m where ins: "insert_key_info ?c (mp_key_info_store self) kt k attrs (ms_kim w) = (x, m)"
    by fastforce
  note m = insert_key_info_inv [OF D(2) S(1) ins]
  show ?thesis
  proof (cases x)
    case (Inl e)
    let ?w = "w\<lparr>ms_kim := m\<rparr>"
    have "abs m = abs (ms_kim w)"
      by (rule insert_key_info_fresh_Inl [OF D(2) S(1) fresh ins [unfolded Inl]])
    then have w1: "mbed_inv ops inv abs self keys_of id_of ?w"
      and v: "mbed_view abs self keys_of n ?w = mbed_view abs self keys_of n w"
      and free1: "key_number MbedCrypto ?c (abs (ms_kim ?w)) kt' \<noteq> Some (id_of key)" for n kt'
      using D m free k(2) by (simp_all add: mbed_inv_def mbed_view_def)
    obtain y b where d: "psa_destroy (mp_psa self) key (ms_psa ?w) = (y, b)" by fastforce
    with run ins Inl have "w' = ?w\<lparr>ms_psa := b\<rparr>" by (simp add: store_new_key_def on_kim_def)
    with mbed_inv_destroy [OF w1 free1 d] v show ?thesis by simp
  next
    case (Inr u)
    with run ins have w': "w' = w\<lparr>ms_kim := m\<rparr>" by (simp add: store_new_key_def on_kim_def)
    from ins Inr insert_key_info_Inr [OF D(2) S(1)] obtain b where
      b: "id_serialize ?c k = Inr b" and a: "abs m = (abs (ms_kim w))(kt \<mapsto> \<lparr>ki_id = b, ki_attributes = attrs\<rparr>)"
      by fastforce
    from b have des: "id_deserialize ?c (ki_id \<lparr>ki_id = b, ki_attributes = attrs\<rparr>) = Inr k"
      using id_codec_okD [OF S(4), of k] by auto
    from linked_insert [OF D(4) des free k(3)] k(1) a
    have "linked ?c (key_id_user_max (mp_psa self)) (abs m) (keys_of (ms_psa w)) (id_counter w)" by simp
    with D m a show ?thesis by (simp add: w' mbed_inv_def mbed_view_def seen_upd_other)
  qed
qed

text \<open>The common course of \<open>generate\<close> and \<open>import\<close>.\<close>

lemma create_key_keeps:
  assumes cr: "\<And>k. psa_contract (mp_psa self) keys_of id_of \<Longrightarrow> psa_creates keys_of id_of k (cre k)"
  shows "keeps (mbed_inv ops inv abs self keys_of id_of) (mbed_view abs self keys_of) (- {kt_app_name kt})
    (try_op (ask_kim (\<lambda>m. does_not_exist (mp_key_info_store self) m kt)) (\<lambda>_.
     try_op (next_key_id self) (\<lambda>k.
     try_op (on_psa self (cre k)) (\<lambda>key. store_new_key self kt k attrs key))))"
    (is "keeps ?I ?v _ (try_op ?ask (\<lambda>_. ?rest))")
proof (rule keepsI)
  fix w r w'
  assume w: "?I w" and run: "try_op ?ask (\<lambda>_. ?rest) w = (r, w')"
  note S = mbed_setupD [OF mbed_invD(1) [OF w]]
  obtain a where a: "does_not_exist (mp_key_info_store self) (ms_kim w) kt = a" by simp
  obtain rk w1 where n: "next_key_id self w = (rk, w1)" by fastforce
  note N = next_key_id_result [OF w n]
  have v1: "?v n w1 = ?v n w" for n using N(2,3) by (simp add: mbed_view_def)
  consider e where "a = Inl e" | e where "a = Inr ()" "rk = Inl e" | k where "a = Inr ()" "rk = Inr k"
    by (cases a; cases rk) auto
  then show "?I w' \<and> (\<forall>n \<in> - {kt_app_name kt}. ?v n w' = ?v n w)"
  proof cases
    case 1
    with run a w show ?thesis by (simp add: try_op_def ask_kim_def)
  next
    case 2
    with run a n N(1) v1 show ?thesis by (simp add: try_op_def ask_kim_def)
  next
    case 3
    from a 3(1) have fresh: "kt \<notin> dom (abs (ms_kim w1))"
      using does_not_exist_Inr [OF mbed_invD(2) [OF w] S(1)] N(2) by simp
    obtain x b where c: "cre k (ms_psa w1) = (x, b)" by fastforce
    note C = cr [OF S(3), of k, unfolded psa_creates_def, rule_format, OF c]
    let ?w = "w1\<lparr>ms_psa := b\<rparr>"
    show ?thesis
    proof (cases x)
      case (Inl e)
      with run a n c 3 have "w' = ?w" by (simp add: try_op_def ask_kim_def on_psa_def)
      with C Inl N(1) v1 show ?thesis by (simp add: mbed_inv_def mbed_view_def)
    next
      case (Inr key)
      with C obtain d where key: "id_of key = k" "keys_of (ms_psa w1) k = None"
        "keys_of b = (keys_of (ms_psa w1))(k \<mapsto> d)" by auto
      note W = mbed_inv_new_key [OF N(1) key(2,3)]
      have run': "store_new_key self kt k attrs key ?w = (r, w')"
        using run a n c 3 Inr by (simp add: try_op_def ask_kim_def on_psa_def)
      have "k = id_counter ?w" using N(4) [OF 3(2)] by simp
      moreover have "kt \<notin> dom (abs (ms_kim ?w))" using fresh by simp
      moreover have "key_number MbedCrypto (mp_id_codec self) (abs (ms_kim ?w)) kt' \<noteq> Some k" for kt'
        using W(3) by simp
      moreover have "keys_of (ms_psa ?w) k \<noteq> None" by (simp add: key(3))
      ultimately have "?I w' \<and> (\<forall>n \<in> - {kt_app_name kt}. ?v n w' = ?v n ?w)"
        using store_new_key_keeps [OF W(1) run'] key(1) by blast
      then show ?thesis by (auto simp only: W(2) v1)
    qed
  qed
qed

lemma mbed_generate_key_keeps:
  "keeps (mbed_inv ops inv abs self keys_of id_of) (mbed_view abs self keys_of) (- {app}) (mbed_generate_key self app op)"
  unfolding mbed_generate_key_def Let_def
  using create_key_keeps [where kt = "key_triple_new app MbedCrypto (gk_key_name op)"
      and cre = "\<lambda>k. psa_generate (mp_psa self) (gk_attributes op) (Some k)"
      and attrs = "gk_attributes op" and self = self and keys_of = keys_of and id_of = id_of, OF psa_generate_creates]
  by (simp only: key_triple_new_sel)

lemma mbed_import_key_keeps:
  "keeps (mbed_inv ops inv abs self keys_of id_of) (mbed_view abs self keys_of) (- {app}) (mbed_import_key self app op)"
  unfolding mbed_import_key_def Let_def
  using create_key_keeps [where kt = "key_triple_new app MbedCrypto (ik_key_name op)"
      and cre = "\<lambda>k. psa_import (mp_psa self) (ik_attributes op) (Some k) (ik_data op)"
      and attrs = "ik_attributes op" and self = self and keys_of = keys_of and id_of = id_of, OF psa_import_creates]
  by (simp only: key_triple_new_sel)

text \<open>Removing the mapping of an application's key frees the key's number.\<close>

lemma remove_mapping:
  assumes w: "mbed_inv ops inv abs self keys_of id_of w"
    and run: "on_kim (remove_key_info (mp_key_info_store self) kt) w = (r, w')"
  shows "mbed_inv ops inv abs self keys_of id_of w'"
    "n \<noteq> kt_app_name kt \<Longrightarrow> mbed_view abs self keys_of n w' = mbed_view abs self keys_of n w"
    "abs (ms_kim w') = (abs (ms_kim w))(kt := None) \<or> (\<exists>e. r = Inl e) \<and> abs (ms_kim w') = abs (ms_kim w)"
    "ms_psa w' = ms_psa w" "id_counter w' = id_counter w"
proof -
  note D = mbed_invD [OF w]
  note S = mbed_setupD [OF D(1)]
  from run obtain m where rem: "remove_key_info (mp_key_info_store self) kt (ms_kim w) = (r, m)"
    and w': "w' = w\<lparr>ms_kim := m\<rparr>" by (auto simp: on_kim_def split: prod.splits)
  note m = remove_key_info_inv [OF D(2) S(1) rem]
  show a: "abs (ms_kim w') = (abs (ms_kim w))(kt := None) \<or> (\<exists>e. r = Inl e) \<and> abs (ms_kim w') = abs (ms_kim w)"
  proof (cases r)
    case (Inl e)
    with remove_key_info_Inl [OF D(2) S(1) rem [unfolded Inl]] show ?thesis by (simp add: w')
  next
    case (Inr u)
    with remove_key_info_Inr [OF D(2) S(1)] rem show ?thesis by (simp add: w')
  qed
  show "ms_psa w' = ms_psa w" "id_counter w' = id_counter w" by (simp_all add: w')
  from a D m linked_remove [OF D(4)] show "mbed_inv ops inv abs self keys_of id_of w'"
    by (auto simp: w' mbed_inv_def)
  from a show "n \<noteq> kt_app_name kt \<Longrightarrow> mbed_view abs self keys_of n w' = mbed_view abs self keys_of n w"
    by (auto simp: w' mbed_view_def seen_upd_other)
qed

lemma key_id_number:
  assumes w: "mbed_inv ops inv abs self keys_of id_of w"
    and get: "get_key_id (mp_id_codec self) (mp_key_info_store self) (ms_kim w) kt = Inr k"
    and "kt_provider_id kt = MbedCrypto"
  shows "key_number MbedCrypto (mp_id_codec self) (abs (ms_kim w)) kt = Some k"
  by (rule key_number_get [OF mbed_invD(2) [OF w] mbed_setupD(1) [OF mbed_invD(1) [OF w]] get assms(3)])

text \<open>
  Destroying a key: up to the removal of the mapping nothing changes; after it the mapping stays
  removed, whatever Mbed Crypto answers, and the key is gone if the answer is \<open>Ok\<close>.
\<close>

lemma destroy_unmapped:
  assumes w: "mbed_inv ops inv abs self keys_of id_of w"
    and free: "\<And>kt. key_number MbedCrypto (mp_id_codec self) (abs (ms_kim w)) kt \<noteq> Some k"
    and run: "try_op (on_psa self (from_persistent_key_id (mp_psa self) k)) (\<lambda>id.
                on_psa self (psa_destroy (mp_psa self) id)) w = (r, w')"
  shows "mbed_inv ops inv abs self keys_of id_of w'" "ms_kim w' = ms_kim w"
    "mbed_view abs self keys_of n w' = mbed_view abs self keys_of n w"
    "r = Inr () \<Longrightarrow> keys_of (ms_psa w') = (keys_of (ms_psa w))(k := None)"
proof -
  let ?psa = "mp_psa self"
  note S = mbed_setupD [OF mbed_invD(1) [OF w]]
  obtain x b where o: "from_persistent_key_id ?psa k (ms_psa w) = (x, b)" by fastforce
  have kb: "keys_of b = keys_of (ms_psa w)"
    using psa_use_lawsD(2) [OF psa_contract_use [OF S(3)]] o by (auto simp: psa_reads_def)
  let ?w = "w\<lparr>ms_psa := b\<rparr>"
  have w2: "mbed_inv ops inv abs self keys_of id_of ?w"
    and v2: "mbed_view abs self keys_of n ?w = mbed_view abs self keys_of n w"
    using w kb by (simp_all add: mbed_inv_def mbed_view_def)
  have "mbed_inv ops inv abs self keys_of id_of w' \<and> ms_kim w' = ms_kim w \<and>
    mbed_view abs self keys_of n w' = mbed_view abs self keys_of n w \<and>
    (r = Inr () \<longrightarrow> keys_of (ms_psa w') = (keys_of (ms_psa w))(k := None))"
  proof (cases x)
    case (Inl e)
    with run o have "r = Inl (response_status_from ?psa e)" "w' = ?w"
      by (simp_all add: try_op_def on_psa_def)
    with w2 v2 show ?thesis by simp
  next
    case (Inr key)
    have key: "id_of key = k" using psa_open_Inr [OF S(3)] o Inr by simp
    obtain y b' where d: "psa_destroy ?psa key (ms_psa ?w) = (y, b')" by fastforce
    with run o Inr have r: "r = map_err (response_status_from ?psa) y" "w' = ?w\<lparr>ms_psa := b'\<rparr>"
      by (simp_all add: try_op_def on_psa_def)
    have "key_number MbedCrypto (mp_id_codec self) (abs (ms_kim ?w)) kt \<noteq> Some (id_of key)" for kt
      using free key by simp
    note M = mbed_inv_destroy [OF w2 this d]
    have "r = Inr () \<longrightarrow> keys_of b' = (keys_of (ms_psa w))(k := None)"
      using psa_destroy_result [OF S(3) d] r(1) kb key by (cases y) auto
    with M v2 show ?thesis by (simp add: r(2))
  qed
  then show "mbed_inv ops inv abs self keys_of id_of w'" "ms_kim w' = ms_kim w"
    "mbed_view abs self keys_of n w' = mbed_view abs self keys_of n w"
    "r = Inr () \<Longrightarrow> keys_of (ms_psa w') = (keys_of (ms_psa w))(k := None)" by blast+
qed

lemma mbed_destroy_key_result:
  assumes w: "mbed_inv ops inv abs self keys_of id_of w"
    and run: "mbed_destroy_key self app name w = (r, w')"
    and kt: "kt = key_triple_new app MbedCrypto name"
  shows "mbed_inv ops inv abs self keys_of id_of w' \<and>
    (\<forall>n. n \<noteq> app \<longrightarrow> mbed_view abs self keys_of n w' = mbed_view abs self keys_of n w) \<and>
    (abs (ms_kim w') = (abs (ms_kim w))(kt := None) \<or> (\<exists>e. r = Inl e) \<and> abs (ms_kim w') = abs (ms_kim w)) \<and>
    (r = Inr () \<longrightarrow> abs (ms_kim w') = (abs (ms_kim w))(kt := None) \<and>
       (\<exists>k. key_number MbedCrypto (mp_id_codec self) (abs (ms_kim w)) kt = Some k \<and>
            keys_of (ms_psa w') = (keys_of (ms_psa w))(k := None)))"
proof (cases "get_key_id (mp_id_codec self) (mp_key_info_store self) (ms_kim w) kt")
  case (Inl e)
  with run have "r = Inl e" "w' = w"
    by (simp_all add: mbed_destroy_key_def mbed_key_id_def try_op_def ask_kim_def kt)
  with w show ?thesis by simp
next
  case get: (Inr k)
  let ?c = "mp_id_codec self"
  have app: "kt_app_name kt = app" by (simp add: kt)
  have num: "key_number MbedCrypto ?c (abs (ms_kim w)) kt = Some k"
    using key_id_number [OF w get] by (simp add: kt)
  obtain r1 w1 where rem: "on_kim (remove_key_info (mp_key_info_store self) kt) w = (r1, w1)" by fastforce
  note R = remove_mapping [OF w rem]
  show ?thesis
  proof (cases r1)
    case (Inl e)
    with run rem get have "r = Inl e" "w' = w1"
      by (simp_all add: mbed_destroy_key_def mbed_key_id_def try_op_def ask_kim_def kt)
    with R show ?thesis by (auto simp: kt)
  next
    case (Inr u)
    with R(3) have a1: "abs (ms_kim w1) = (abs (ms_kim w))(kt := None)" by simp
    have free: "key_number MbedCrypto ?c (abs (ms_kim w1)) kt' \<noteq> Some k" for kt'
      using linkedD(3) [OF mbed_invD(4) [OF w] num] by (auto simp: a1)
    have "try_op (on_psa self (from_persistent_key_id (mp_psa self) k)) (\<lambda>id.
            on_psa self (psa_destroy (mp_psa self) id)) w1 = (r, w')"
      using run rem get Inr by (simp add: mbed_destroy_key_def mbed_key_id_def try_op_def ask_kim_def kt)
    note U = destroy_unmapped [OF R(1) free this]
    show ?thesis using U(1,3,4) R(2,4) by (auto simp: U(2) a1 num app)
  qed
qed

lemma mbed_destroy_key_keeps:
  "keeps (mbed_inv ops inv abs self keys_of id_of) (mbed_view abs self keys_of) (- {app}) (mbed_destroy_key self app name)"
  using mbed_destroy_key_result [OF _ _ refl] unfolding keeps_def by blast

text \<open>The provider keeps its invariant and the view of every other application.\<close>

lemma mbed_isolated:
  "tenant_isolation (mbed_provide self) (mbed_inv ops inv abs self keys_of id_of) (mbed_view abs self keys_of)"
  by unfold_locales
    (simp_all add: mbed_provide_def default_provide_def mbed_list_keys_def mbed_list_clients_def
      keeps_crypto keeps_crypto_unit mbed_generate_key_keeps mbed_import_key_keeps mbed_destroy_key_keeps)

end

lemma mbed_provide_sel:
  "p_list_keys (mbed_provide self) = mbed_list_keys self"
  "p_list_clients (mbed_provide self) = mbed_list_clients self"
  "p_psa_destroy_key (mbed_provide self) = mbed_destroy_key self"
  "p_psa_generate_key (mbed_provide self) = mbed_generate_key self"
  "p_psa_import_key (mbed_provide self) = mbed_import_key self"
  by (simp_all add: mbed_provide_def default_provide_def)

lemma on_psa_eq_Inr:
  "on_psa self f w = (Inr x, w') \<longleftrightarrow> (\<exists>b. f (ms_psa w) = (Inr x, b) \<and> w' = w\<lparr>ms_psa := b\<rparr>)"
  by (auto simp: on_psa_def map_err_def split: prod.splits sum.splits)

text \<open>The names of an application's keys.\<close>

definition mbed_names ::
  "('m \<Rightarrow> key_triple \<Rightarrow> key_info option) \<Rightarrow> ('m, 'b) mbed_state \<Rightarrow> provider_id \<Rightarrow> application_name \<Rightarrow> string set" where
  "mbed_names mp w = names_of (mp (ms_kim w))"

lemma mbed_names_remove:
  assumes "mp (ms_kim w') = (mp (ms_kim w))(key_triple_new n pid name := None)"
  shows "only_loses (mbed_names mp w) (mbed_names mp w') {(pid, n)}"
    "mbed_names mp w' pid n = mbed_names mp w pid n - {name}"
  by (simp_all add: mbed_names_def assms names_of_remove)

context key_info_manager
begin

lemma mbed_list_keys_law:
  assumes w: "mbed_inv ops inv abs self keys_of id_of w" and run: "mbed_list_keys self n w = (r, w')"
  shows "w' = w" "r = Inr ks \<Longrightarrow>
    distinct (map lk_name ks) \<and> lk_name ` set ks = mbed_names abs w MbedCrypto n"
proof -
  note D = mbed_invD [OF w]
  note S = mbed_setupD [OF D(1)]
  from run show "w' = w" by (simp add: mbed_list_keys_def ask_kim_def)
  assume "r = Inr ks"
  with run have "kim_list_keys (mp_key_info_store self) (ms_kim w) n = Inr ks"
    by (auto simp: mbed_list_keys_def ask_kim_def)
  from list_keys_names [OF D(2) S(1,2) this]
  show "distinct (map lk_name ks) \<and> lk_name ` set ks = mbed_names abs w MbedCrypto n"
    by (simp add: mbed_names_def)
qed

lemma mbed_list_clients_law:
  assumes w: "mbed_inv ops inv abs self keys_of id_of w" and run: "mbed_list_clients self w = (r, w')"
  shows "w' = w" "r = Inr cs \<Longrightarrow> set cs = {n. mbed_names abs w MbedCrypto n \<noteq> {}}"
proof -
  note D = mbed_invD [OF w]
  note S = mbed_setupD [OF D(1)]
  from run show "w' = w" by (simp add: mbed_list_clients_def ask_kim_def)
  assume "r = Inr cs"
  with run have "kim_list_clients (mp_key_info_store self) (ms_kim w) = Inr cs"
    by (auto simp: mbed_list_clients_def ask_kim_def)
  from list_clients_names [OF D(2) S(1,2) this]
  show "set cs = {n. mbed_names abs w MbedCrypto n \<noteq> {}}" by (simp add: mbed_names_def)
qed

lemma mbed_destroy_law:
  assumes w: "mbed_inv ops inv abs self keys_of id_of w" and run: "mbed_destroy_key self n k w = (r, w')"
  shows "mbed_inv ops inv abs self keys_of id_of w' \<and>
    only_loses (mbed_names abs w) (mbed_names abs w') {(MbedCrypto, n)} \<and>
    mbed_names abs w MbedCrypto n - {k} \<subseteq> mbed_names abs w' MbedCrypto n"
proof -
  note R = mbed_destroy_key_result [OF w run refl]
  then consider "abs (ms_kim w') = (abs (ms_kim w))(key_triple_new n MbedCrypto k := None)"
    | "abs (ms_kim w') = abs (ms_kim w)" by blast
  then have "only_loses (mbed_names abs w) (mbed_names abs w') {(MbedCrypto, n)} \<and>
      mbed_names abs w MbedCrypto n - {k} \<subseteq> mbed_names abs w' MbedCrypto n"
  proof cases
    case 1
    from mbed_names_remove [OF this] show ?thesis by simp
  next
    case 2
    then show ?thesis by (auto simp: mbed_names_def)
  qed
  with R show ?thesis by blast
qed

lemma mbed_key_provider:
  "key_provider (mbed_provide self) (mbed_inv ops inv abs self keys_of id_of) (mbed_names abs) MbedCrypto"
proof (unfold_locales, unfold mbed_provide_sel)
  fix w w' n r
  assume a: "mbed_inv ops inv abs self keys_of id_of w" "mbed_list_keys self n w = (r, w')"
  show "mbed_inv ops inv abs self keys_of id_of w' \<and> mbed_names abs w' = mbed_names abs w \<and>
      (\<forall>ks. r = Inr ks \<longrightarrow> distinct (map lk_name ks) \<and> lk_name ` set ks = mbed_names abs w MbedCrypto n)"
    using mbed_list_keys_law [OF a] a(1) by auto
next
  fix w w' r
  assume a: "mbed_inv ops inv abs self keys_of id_of w" "mbed_list_clients self w = (r, w')"
  show "mbed_inv ops inv abs self keys_of id_of w' \<and> mbed_names abs w' = mbed_names abs w \<and>
      (\<forall>cs. r = Inr cs \<longrightarrow> set cs = {n. mbed_names abs w MbedCrypto n \<noteq> {}})"
    using mbed_list_clients_law [OF a] a(1) by auto
qed (rule mbed_destroy_law)

text \<open>
  Creating a key. On success the name was free, the key number was free and never handed out for a
  mapping, and exactly one key and one mapping have been added. On failure no mapping has
  changed, and at most the key of a failed roll-back is left over.
\<close>

lemma create_key_result:
  assumes w: "mbed_inv ops inv abs self keys_of id_of w"
    and cr: "\<And>k. psa_creates keys_of id_of k (cre k)"
    and run: "try_op (ask_kim (\<lambda>m. does_not_exist (mp_key_info_store self) m kt)) (\<lambda>_.
       try_op (next_key_id self) (\<lambda>k.
       try_op (on_psa self (cre k)) (\<lambda>key. store_new_key self kt k attrs key))) w = (Inr (), w')"
  obtains k x info where "kt \<notin> dom (abs (ms_kim w))" "keys_of (ms_psa w) k = None"
    "k = id_counter w'" "id_counter w < k" "k \<le> key_id_user_max (mp_psa self)"
    "abs (ms_kim w') = (abs (ms_kim w))(kt \<mapsto> info)" "ki_attributes info = attrs"
    "id_deserialize (mp_id_codec self) (ki_id info) = Inr k"
    "keys_of (ms_psa w') = (keys_of (ms_psa w))(k \<mapsto> x)"
proof -
  note D = mbed_invD [OF w]
  note S = mbed_setupD [OF D(1)]
  from run obtain k w1 key b where dne: "does_not_exist (mp_key_info_store self) (ms_kim w) kt = Inr ()"
    and n: "next_key_id self w = (Inr k, w1)" and c: "cre k (ms_psa w1) = (Inr key, b)"
    and st: "store_new_key self kt k attrs key (w1\<lparr>ms_psa := b\<rparr>) = (Inr (), w')"
    by (auto simp: try_op_eq_Inr ask_kim_def on_psa_eq_Inr)
  note N = next_key_id_result [OF w n]
  have fresh: "kt \<notin> dom (abs (ms_kim w))" by (rule does_not_exist_Inr [OF D(2) S(1) dne])
  have k: "k = id_counter w1" "k \<le> key_id_user_max (mp_psa self)" using N(4) by auto
  have up: "id_counter w < k"
    using n vendor_max_succ [OF D(3)]
    by (auto simp: next_key_id_def create_key_id_def Let_def split: if_splits)
  from cr [of k] c N(3) obtain x where x: "keys_of (ms_psa w) k = None"
    "keys_of b = (keys_of (ms_psa w))(k \<mapsto> x)" by (fastforce simp: psa_creates_def)
  from st N(2) obtain m where
    ins: "insert_key_info (mp_id_codec self) (mp_key_info_store self) kt k attrs (ms_kim w) = (Inr (), m)"
    and w': "w' = w1\<lparr>ms_psa := b, ms_kim := m\<rparr>"
    by (auto simp: store_new_key_def on_kim_def split: prod.splits sum.splits)
  from insert_key_info_Inr [OF D(2) S(1) ins] obtain bs where
    bs: "id_serialize (mp_id_codec self) k = Inr bs" and
    a: "abs m = (abs (ms_kim w))(kt \<mapsto> \<lparr>ki_id = bs, ki_attributes = attrs\<rparr>)" by blast
  show thesis
    by (rule that [of k "\<lparr>ki_id = bs, ki_attributes = attrs\<rparr>" x])
      (use fresh x k up a bs id_codec_okD [OF S(4), of k] in \<open>auto simp: w'\<close>)
qed

lemma create_key_fails:
  assumes w: "mbed_inv ops inv abs self keys_of id_of w"
    and run: "try_op (ask_kim (\<lambda>m. does_not_exist (mp_key_info_store self) m kt)) (\<lambda>_.
       try_op (next_key_id self) (\<lambda>k.
       try_op (on_psa self (cre k)) (\<lambda>key. store_new_key self kt k attrs key))) w = (Inl e, w')"
  shows "abs (ms_kim w') = abs (ms_kim w)"
proof -
  note D = mbed_invD [OF w]
  note S = mbed_setupD [OF D(1)]
  obtain a where a: "does_not_exist (mp_key_info_store self) (ms_kim w) kt = a" by simp
  obtain rk w1 where n: "next_key_id self w = (rk, w1)" by fastforce
  note N = next_key_id_result [OF w n]
  consider "w' = w" | "w' = w1" | b where "w' = w1\<lparr>ms_psa := b\<rparr>"
    | k key b where "a = Inr ()" "store_new_key self kt k attrs key (w1\<lparr>ms_psa := b\<rparr>) = (Inl e, w')"
    using run a n
    by (auto simp: try_op_def ask_kim_def on_psa_def map_err_def split: prod.splits sum.splits)
  then show ?thesis
  proof cases
    case 4
    have fresh: "kt \<notin> dom (abs (ms_kim w))"
      using does_not_exist_Inr [OF D(2) S(1)] a 4(1) by blast
    from 4(2) N(2) obtain e' m where
      ins: "insert_key_info (mp_id_codec self) (mp_key_info_store self) kt k attrs (ms_kim w) = (Inl e', m)"
      and m: "ms_kim w' = m"
      by (auto simp: store_new_key_def on_kim_def split: prod.splits sum.splits)
    show ?thesis unfolding m by (rule insert_key_info_fresh_Inl [OF D(2) S(1) fresh ins])
  qed (use N(2) in simp_all)
qed

end

section \<open>Start-up\<close>

text \<open>A mapping is dead if it does not decode or the key it names does not exist.\<close>

definition dead :: "u32 id_codec \<Rightarrow> (key_triple \<Rightarrow> key_info option) \<Rightarrow> (u32 \<Rightarrow> 'kd option) \<Rightarrow> key_triple \<Rightarrow> bool" where
  "dead codec f K kt \<longleftrightarrow> (case key_number MbedCrypto codec f kt of None \<Rightarrow> True | Some k \<Rightarrow> K k = None)"

text \<open>What start-up should leave: the mappings of the other providers, and the live ones of this one.\<close>

definition without_dead ::
  "u32 id_codec \<Rightarrow> (u32 \<Rightarrow> 'kd option) \<Rightarrow> (key_triple \<Rightarrow> key_info option) \<Rightarrow> key_triple \<Rightarrow> key_info option" where
  "without_dead codec K f kt = (if kt_provider_id kt = MbedCrypto \<and> dead codec f K kt then None else f kt)"

lemma key_number_without_dead:
  "key_number MbedCrypto codec (without_dead codec K f) kt = (if dead codec f K kt then None else key_number MbedCrypto codec f kt)"
  by (auto simp: key_number_def without_dead_def dead_def split: option.splits)

lemma linked_without_dead:
  assumes "unshared MbedCrypto codec f" and "\<And>kt k. key_number MbedCrypto codec f kt = Some k \<Longrightarrow> \<not> dead codec f K kt \<Longrightarrow> k \<le> c"
  shows "linked codec mx (without_dead codec K f) K c"
  unfolding linked_def key_number_without_dead
proof (intro conjI allI ballI impI)
  fix kt assume kt: "kt \<in> dom (without_dead codec K f)" "kt_provider_id kt = MbedCrypto"
  then have nd: "\<not> dead codec f K kt" by (auto simp: without_dead_def split: if_splits)
  then show "(if dead codec f K kt then None else key_number MbedCrypto codec f kt) \<noteq> None"
    by (auto simp: dead_def split: option.splits)
next
  fix kt k assume k: "(if dead codec f K kt then None else key_number MbedCrypto codec f kt) = Some k"
  then show "K k \<noteq> None" by (auto simp: dead_def split: if_splits)
  from k assms(2) [of kt k] show "k \<le> c \<or> mx \<le> c" by (auto split: if_splits)
next
  fix kt kt' k
  assume "(if dead codec f K kt then None else key_number MbedCrypto codec f kt) = Some k"
    "(if dead codec f K kt' then None else key_number MbedCrypto codec f kt') = Some k"
  then show "kt = kt'" using assms(1) unfolding unshared_def by (auto split: if_splits)
qed

context key_info_manager_mem
begin

lemma scan_triples_result:
  assumes "mbed_setup ops self keys_of id_of" and "inv (ms_kim w)"
    and "\<forall>kt \<in> set kts. kt_provider_id kt = MbedCrypto"
    and "scan_triples self kts mx rem w = (Some (mx', rem'), w')"
  shows "ms_kim w' = ms_kim w \<and> keys_of (ms_psa w') = keys_of (ms_psa w) \<and> mx \<le> mx' \<and>
    rem' = rem @ filter (dead (mp_id_codec self) (abs (ms_kim w)) (keys_of (ms_psa w))) kts \<and>
    (\<forall>kt \<in> set kts. \<forall>k. key_number MbedCrypto (mp_id_codec self) (abs (ms_kim w)) kt = Some k \<longrightarrow>
       keys_of (ms_psa w) k \<noteq> None \<longrightarrow> k \<le> mx') \<and>
    (mx' = mx \<or> keys_of (ms_psa w) mx' \<noteq> None)"
  using assms(2-4)
proof (induction kts arbitrary: mx rem w)
  case (Cons kt kts)
  note S = mbed_setupD [OF assms(1)]
  let ?c = "mp_id_codec self" and ?f = "abs (ms_kim w)" and ?K = "keys_of (ms_psa w)"
  have mbed: "kt_provider_id kt = MbedCrypto" using Cons.prems(2) by simp
  note num = get_key_id_iff_number [where codec = "mp_id_codec self", OF Cons.prems(1) S(1) mbed]
  show ?case
  proof (cases "get_key_id ?c (mp_key_info_store self) (ms_kim w) kt")
    case (Inl e)
    then have "key_number MbedCrypto ?c ?f kt = None" using num by (cases "key_number MbedCrypto ?c ?f kt") auto
    with Inl Cons.prems Cons.IH [of w mx "rem @ [kt]"] show ?thesis by (simp add: dead_def)
  next
    case (Inr k)
    then have k: "key_number MbedCrypto ?c ?f kt = Some k" using num by blast
    obtain x b where o: "from_persistent_key_id (mp_psa self) k (ms_psa w) = (x, b)" by fastforce
    have kb: "keys_of b = ?K"
      using psa_use_lawsD(2) [OF psa_contract_use [OF S(3)]] o by (auto simp: psa_reads_def)
    show ?thesis
    proof (cases x)
      case (Inl s)
      with Cons.prems Inr o have s: "s = DoesNotExist" by (cases s) auto
      have "?K k = None" using psa_open_DoesNotExist [OF S(3)] o Inl s by blast
      with Inr o Inl s k kb Cons.prems Cons.IH [of "w\<lparr>ms_psa := b\<rparr>" mx "rem @ [kt]"] show ?thesis
        by (simp add: dead_def)
    next
      case (Inr key)
      let ?mx = "if k > mx then k else mx"
      have "?K k \<noteq> None" using psa_open_Inr [OF S(3)] o Inr by blast
      with Inr \<open>get_key_id _ _ _ _ = _\<close> o k kb Cons.prems Cons.IH [of "w\<lparr>ms_psa := b\<rparr>" ?mx rem]
      show ?thesis by (auto simp: dead_def split: if_splits)
    qed
  qed
qed simp

text \<open>
  A provider that starts has the invariant. It keeps every key of Mbed Crypto and every live mapping and
  has dropped exactly its dead mappings.
\<close>

lemma mbed_new_result:
  assumes su: "mbed_setup ops self keys_of id_of" and inv: "inv m"
    and un: "unshared MbedCrypto (mp_id_codec self) (abs m)" and mn: "key_id_user_min (mp_psa self) \<le> psa_key_id_vendor_max"
    and run: "mbed_new self m b = (Some w, m', b')"
  shows "mbed_inv ops inv abs self keys_of id_of w" "keys_of (ms_psa w) = keys_of b"
    "abs (ms_kim w) = without_dead (mp_id_codec self) (keys_of b) (abs m)"
    "key_id_user_min (mp_psa self) \<le> id_counter w"
    "m' = ms_kim w" "b' = ms_psa w"
proof -
  let ?c = "mp_id_codec self" and ?f = "abs m" and ?K = "keys_of b"
  note S = mbed_setupD [OF su]
  obtain kts where kts: "kim_get_all (mp_key_info_store self) m = Inr kts"
    "set kts = {kt \<in> dom ?f. kt_provider_id kt = MbedCrypto}"
    using kim_get_all_total [OF inv S(1)] S(2) by auto
  let ?w0 = "\<lambda>b1. \<lparr>ms_kim = m, id_counter = key_id_user_min (mp_psa self), ms_psa = b1\<rparr>"
  obtain b1 where init: "psa_init (mp_psa self) b = (Inr (), b1)"
    using run by (cases "psa_init (mp_psa self) b"; cases "fst (psa_init (mp_psa self) b)")
      (auto simp: mbed_new_def)
  obtain mx rem w1 where scan: "scan_triples self kts (key_id_user_min (mp_psa self)) [] (?w0 b1) = (Some (mx, rem), w1)"
    using run init kts(1)
    by (cases "scan_triples self kts (key_id_user_min (mp_psa self)) [] (?w0 b1)";
        cases "fst (scan_triples self kts (key_id_user_min (mp_psa self)) [] (?w0 b1))")
      (auto simp: mbed_new_def)
  obtain m2 where rt: "remove_triples (mp_key_info_store self) rem (ms_kim w1) = (True, m2)"
    using run init kts(1) scan
    by (cases "remove_triples (mp_key_info_store self) rem (ms_kim w1)";
        cases "fst (remove_triples (mp_key_info_store self) rem (ms_kim w1))") (auto simp: mbed_new_def)
  have w: "w = w1\<lparr>ms_kim := m2, id_counter := mx\<rparr>" and m': "m' = m2" "b' = ms_psa w1"
    using run init kts(1) scan rt by (auto simp: mbed_new_def)
  have Kb: "keys_of b1 = ?K"
    using psa_use_lawsD(1) [OF psa_contract_use [OF S(3)]] init by (auto simp: psa_reads_def)
  have "\<forall>kt \<in> set kts. kt_provider_id kt = MbedCrypto" using kts(2) by blast
  from scan_triples_result [OF su _ this scan] inv Kb
  have sc: "ms_kim w1 = m" "keys_of (ms_psa w1) = ?K" "key_id_user_min (mp_psa self) \<le> mx"
    "rem = filter (dead ?c ?f ?K) kts"
    "\<forall>kt \<in> set kts. \<forall>k. key_number MbedCrypto ?c ?f kt = Some k \<longrightarrow> ?K k \<noteq> None \<longrightarrow> k \<le> mx"
    "mx = key_id_user_min (mp_psa self) \<or> ?K mx \<noteq> None" by simp_all
  have rm: "inv m2" "abs m2 = (\<lambda>kt. if kt \<in> set rem then None else ?f kt)"
    using remove_triples_result [OF S(1) _ rt, unfolded sc(1), OF inv] by simp_all
  have f: "abs m2 = without_dead ?c ?K ?f"
    by (auto simp: rm(2) sc(4) without_dead_def kts(2) fun_eq_iff domIff)
  have le: "k \<le> mx" if "key_number MbedCrypto ?c ?f kt = Some k" "\<not> dead ?c ?f ?K kt" for kt k
  proof -
    have "kt \<in> set kts" using that(1) by (auto simp: kts(2) key_number_def split: if_splits option.splits)
    with that sc(5) show ?thesis by (auto simp: dead_def)
  qed
  have link: "linked ?c (key_id_user_max (mp_psa self)) (without_dead ?c ?K ?f) ?K mx"
    by (rule linked_without_dead [OF un]) (rule le)
  have "mx \<le> psa_key_id_vendor_max" using sc(6) mn psa_key_bound [OF S(3)] by blast
  then show "mbed_inv ops inv abs self keys_of id_of w"
    using su rm(1) link f sc(2) by (simp add: mbed_inv_def w)
  show "keys_of (ms_psa w) = ?K" "abs (ms_kim w) = without_dead ?c ?K ?f"
    "key_id_user_min (mp_psa self) \<le> id_counter w" "m' = ms_kim w" "b' = ms_psa w"
    using sc f m' by (simp_all add: w)
qed

end

end
