(* ===== verification/Mbed_Crypto_On_Disk.thy ===== *)
theory Mbed_Crypto_On_Disk
  imports Mbed_Crypto_Keys
begin

text \<open>
  The Mbed Crypto provider with the on-disk key info manager, which is how the service builds it
  by default: the provider meets the contracts that the back end and the core provider rely
  on, and, on a disk that answers, never fails to list its keys, to forget a key or to start.
\<close>

section \<open>The contracts of a provider\<close>

interpretation mbed: tenant_isolation "mbed_provide self"
    "mbed_inv (on_disk_impl c) odm_inv odm_abs self keys_of id_of" "mbed_view odm_abs self keys_of"
  for self :: "(on_disk_manager, 'b, 'id) mbed_provider" and keys_of :: "'b \<Rightarrow> u32 \<Rightarrow> 'kd option" and id_of c
  by (rule odm.mbed_isolated)

interpretation mbed_keys: key_provider "mbed_provide self"
    "mbed_inv (on_disk_impl c) odm_inv odm_abs self keys_of id_of" "mbed_names odm_abs" MbedCrypto
  for self :: "(on_disk_manager, 'b, 'id) mbed_provider" and keys_of :: "'b \<Rightarrow> u32 \<Rightarrow> 'kd option" and id_of c
  by (rule odm.mbed_key_provider)

section \<open>On a disk that answers\<close>

definition mbed_disk_inv ::
  "codec \<Rightarrow> (on_disk_manager, 'b, 'id) mbed_provider \<Rightarrow> ('b \<Rightarrow> u32 \<Rightarrow> 'kd option) \<Rightarrow> ('id \<Rightarrow> u32) \<Rightarrow>
   (on_disk_manager, 'b) mbed_state \<Rightarrow> bool" where
  "mbed_disk_inv c self keys_of id_of w \<longleftrightarrow>
     mbed_inv (on_disk_impl c) odm_inv odm_abs self keys_of id_of w \<and>
     base64_ok c \<and> synced c (ms_kim w) \<and> quiet (odm_disk (ms_kim w))"

text \<open>The manager after \<open>mbed_destroy_key\<close>.\<close>

lemma mbed_destroy_kim:
  assumes "mbed_destroy_key self app name w = (r, w')"
  defines "kt \<equiv> key_triple_new app MbedCrypto name"
  shows "ms_kim w' =
    (case get_key_id (mp_id_codec self) (mp_key_info_store self) (ms_kim w) kt of
       Inl _ \<Rightarrow> ms_kim w
     | Inr _ \<Rightarrow> snd (remove_key_info (mp_key_info_store self) kt (ms_kim w)))"
  using assms(1) unfolding kt_def
  by (auto simp: mbed_destroy_key_def mbed_key_id_def ask_kim_def on_kim_def on_psa_def try_op_def map_err_def
      split: prod.splits sum.splits)

lemma mbed_destroy_disk:
  assumes w: "mbed_disk_inv c self keys_of id_of w" and run: "mbed_destroy_key self app name w = (r, w')"
  shows "mbed_disk_inv c self keys_of id_of w'"
    "odm_abs (ms_kim w') = (odm_abs (ms_kim w))(key_triple_new app MbedCrypto name := None)"
proof -
  let ?kt = "key_triple_new app MbedCrypto name" and ?m = "ms_kim w"
  let ?get = "get_key_id (mp_id_codec self) (mp_key_info_store self) ?m ?kt"
  have i: "mbed_inv (on_disk_impl c) odm_inv odm_abs self keys_of id_of w"
    and d: "base64_ok c" "synced c ?m" "quiet (odm_disk ?m)" using w by (simp_all add: mbed_disk_inv_def)
  note D = mbed_invD [OF i]
  note S = mbed_setupD [OF D(1)]
  have num: "?get = Inr k \<longleftrightarrow> key_number MbedCrypto (mp_id_codec self) (odm_abs ?m) ?kt = Some k" for k
    by (rule odm.get_key_id_iff_number [OF D(2) S(1)]) simp
  have "synced c (ms_kim w') \<and> quiet (odm_disk (ms_kim w')) \<and> odm_abs (ms_kim w') = (odm_abs ?m)(?kt := None)"
  proof (cases "?kt \<in> dom (odm_abs ?m)")
    case True
    then obtain k where "?get = Inr k" using num linkedD(1) [OF D(4)] by fastforce
    with mbed_destroy_kim [OF run] remove_key_info_quiet [OF d D(2) S(1) True] show ?thesis by fastforce
  next
    case False
    then have "?get \<noteq> Inr k" for k by (auto simp: num domIff)
    then have "ms_kim w' = ?m" using mbed_destroy_kim [OF run] by (cases ?get) auto
    with False d show ?thesis by (simp add: domIff fun_upd_idem)
  qed
  with odm.mbed_destroy_key_result [OF i run refl] d
  show "mbed_disk_inv c self keys_of id_of w'" "odm_abs (ms_kim w') = (odm_abs ?m)(?kt := None)"
    by (simp_all add: mbed_disk_inv_def)
qed

interpretation mbed_sure: sure_key_provider "mbed_provide self"
    "mbed_disk_inv c self keys_of id_of" "mbed_names odm_abs" MbedCrypto
  for self :: "(on_disk_manager, 'b, 'id) mbed_provider" and keys_of :: "'b \<Rightarrow> u32 \<Rightarrow> 'kd option" and id_of c
proof (unfold_locales, unfold mbed_provide_sel)
  let ?I = "mbed_disk_inv c self keys_of id_of" and ?N = "mbed_names odm_abs"
  have inv: "?I w \<Longrightarrow> mbed_inv (on_disk_impl c) odm_inv odm_abs self keys_of id_of w" for w
    by (simp add: mbed_disk_inv_def)
  fix w :: "(on_disk_manager, 'b) mbed_state" and w' n k assume w: "?I w"
  note S = mbed_setupD [OF mbed_invD(1) [OF inv [OF w]]] and I = mbed_invD(2) [OF inv [OF w]]
  {
    fix r assume run: "mbed_list_keys self n w = (r, w')"
    show "?I w' \<and> ?N w' = ?N w \<and>
        (\<forall>ks. r = Inr ks \<longrightarrow> distinct (map lk_name ks) \<and> lk_name ` set ks = ?N w MbedCrypto n)"
      using odm.mbed_list_keys_law [OF inv [OF w] run] w by auto
  next
    fix r assume run: "mbed_list_clients self w = (r, w')"
    show "?I w' \<and> ?N w' = ?N w \<and> (\<forall>cs. r = Inr cs \<longrightarrow> set cs = {n. ?N w MbedCrypto n \<noteq> {}})"
      using odm.mbed_list_clients_law [OF inv [OF w] run] w by auto
  next
    fix r assume run: "mbed_destroy_key self n k w = (r, w')"
    note a = mbed_destroy_disk [OF w run]
    show "?I w' \<and> only_loses (?N w) (?N w') {(MbedCrypto, n)} \<and> ?N w MbedCrypto n - {k} \<subseteq> ?N w' MbedCrypto n"
      using a(1) mbed_names_remove [OF a(2)] by simp
    show "k \<notin> ?N w' MbedCrypto n" using mbed_names_remove(2) [OF a(2)] by simp
  next
    show "\<exists>ks w'. mbed_list_keys self n w = (Inr ks, w')"
      using odm.kim_list_keys_total [OF I S(1)] by (simp add: mbed_list_keys_def ask_kim_def)
  next
    show "\<exists>cs w'. mbed_list_clients self w = (Inr cs, w')"
      using odm.kim_list_clients_total [OF I S(1)] by (simp add: mbed_list_clients_def ask_kim_def)
  }
qed

text \<open>
  Creation succeeds: with a free name that can be stored, a number left, and Mbed Crypto making the key.
\<close>

lemma create_key_quiet:
  assumes w: "mbed_disk_inv c self keys_of id_of w" and free: "odm_abs (ms_kim w) kt = None"
    and room: "id_counter w < key_id_user_max (mp_psa self)"
    and cre: "cre (id_counter w + 1) (ms_psa w) = (Inr key, b)"
    and ser: "id_serialize (mp_id_codec self) (id_counter w + 1) = Inr bs"
    and valid: "valid_update c (Insert kt \<lparr>ki_id = bs, ki_attributes = attrs\<rparr>)"
  shows "\<exists>w'. try_op (ask_kim (\<lambda>m. does_not_exist (mp_key_info_store self) m kt)) (\<lambda>_.
       try_op (next_key_id self) (\<lambda>k.
       try_op (on_psa self (cre k)) (\<lambda>key. store_new_key self kt k attrs key))) w = (Inr (), w') \<and>
     synced c (ms_kim w') \<and> quiet (odm_disk (ms_kim w'))"
proof -
  have i: "mbed_inv (on_disk_impl c) odm_inv odm_abs self keys_of id_of w"
    and d: "base64_ok c" "synced c (ms_kim w)" "quiet (odm_disk (ms_kim w))"
    using w by (simp_all add: mbed_disk_inv_def)
  note D = mbed_invD [OF i]
  note S = mbed_setupD [OF D(1)]
  have le: "\<not> key_id_user_max (mp_psa self) < id_counter w + 1" using room by (simp add: inc_le not_less)
  have "does_not_exist (mp_key_info_store self) (ms_kim w) kt = Inr ()"
    using odm.does_not_exist_total [OF D(2) S(1)] free by (simp add: domIff)
  moreover have "next_key_id self w = (Inr (id_counter w + 1), w\<lparr>id_counter := id_counter w + 1\<rparr>)"
    using le by (simp add: next_key_id_def create_key_id_def Let_def)
  moreover obtain m' where "insert_key_info (mp_id_codec self) (mp_key_info_store self) kt (id_counter w + 1) attrs
      (ms_kim w) = (Inr (), m')" "synced c m'" "quiet (odm_disk m')"
    using insert_key_info_quiet [OF d D(2) S(1) free ser valid] by blast
  ultimately show ?thesis
    using cre by (simp add: try_op_def ask_kim_def on_psa_def store_new_key_def on_kim_def)
qed

text \<open>
  Start-up succeeds if Mbed Crypto initialises and gives a definite answer for every key number.
\<close>

lemma scan_triples_total:
  assumes "\<And>k b. \<exists>r b'. from_persistent_key_id (mp_psa self) k b = (r, b') \<and> (\<forall>n. r \<noteq> Inl (OtherPsaError n))"
  shows "\<exists>mx' rem' w'. scan_triples self kts mx rem w = (Some (mx', rem'), w')"
proof (induction kts arbitrary: mx rem w)
  case (Cons kt kts)
  show ?case
  proof (cases "get_key_id (mp_id_codec self) (mp_key_info_store self) (ms_kim w) kt")
    case (Inr k)
    obtain r b' where r: "from_persistent_key_id (mp_psa self) k (ms_psa w) = (r, b')"
      "\<And>n. r \<noteq> Inl (OtherPsaError n)" using assms by metis
    show ?thesis
    proof (cases r)
      case (Inl e)
      then have "e = DoesNotExist" using r(2) by (cases e) auto
      with Cons.IH Inr r Inl show ?thesis by simp
    qed (use Cons.IH Inr r in simp)
  qed (use Cons.IH in simp)
qed simp

lemma mbed_new_total:
  assumes su: "mbed_setup (on_disk_impl c) self keys_of id_of" and inv: "odm_inv m"
    and d: "base64_ok c" "synced c m" "quiet (odm_disk m)" and init: "psa_init (mp_psa self) b = (Inr (), b1)"
    and total: "\<And>k b. \<exists>r b'. from_persistent_key_id (mp_psa self) k b = (r, b') \<and> (\<forall>n. r \<noteq> Inl (OtherPsaError n))"
  shows "\<exists>w m' b'. mbed_new self m b = (Some w, m', b') \<and> synced c (ms_kim w) \<and> quiet (odm_disk (ms_kim w))"
proof -
  note S = mbed_setupD [OF su]
  let ?w = "\<lparr>ms_kim = m, id_counter = key_id_user_min (mp_psa self), ms_psa = b1\<rparr>"
  obtain kts where kts: "kim_get_all (mp_key_info_store self) m = Inr kts" "distinct kts"
    "set kts = {kt \<in> dom (odm_abs m). kt_provider_id kt = MbedCrypto}"
    using odm.kim_get_all_total [OF inv S(1)] S(2) by auto
  obtain mx rem w1 where scan: "scan_triples self kts (key_id_user_min (mp_psa self)) [] ?w = (Some (mx, rem), w1)"
    using scan_triples_total [OF total] by blast
  from odm.scan_triples_result [OF su _ _ scan] inv kts(3)
  have "ms_kim w1 = m" "rem = filter (dead (mp_id_codec self) (odm_abs m) (keys_of b1)) kts" by auto
  then obtain m2 where "remove_triples (mp_key_info_store self) rem (ms_kim w1) = (True, m2)"
    "synced c m2" "quiet (odm_disk m2)"
    using remove_triples_quiet [OF d(1) S(1) _ d(2,3) inv, of rem] kts(2,3) by auto
  with init kts(1) scan show ?thesis by (simp add: mbed_new_def)
qed

end
