(* ===== verification/Core_Provider.thy ===== *)
theory Core_Provider
  imports Providers
begin

text \<open>
  \<open>src/src/providers/core/mod.rs\<close>: the provider that answers the administrative operations by asking
  the other providers. The descriptions it asks the providers for while listing keys and clients
  only appear in log messages, so those calls are left out.
\<close>

section \<open>The provider\<close>

definition core_supported_opcodes :: "opcode list" where
  "core_supported_opcodes = [ListProviders, ListOpcodes, Ping, ListAuthenticators, ListKeys]"

record 'w core_provider =
  wire_protocol_version_min :: u8
  wire_protocol_version_maj :: u8
  cp_provider_info :: "provider_info list"
  cp_provider_opcodes :: "(provider_id, opcode fset) hash_map"
  cp_authenticator_info :: "authenticator_info list"
  cp_prov_list :: "'w provide list"

definition core_list_opcodes :: "'w core_provider \<Rightarrow> provider_id \<Rightarrow> ('w, opcode fset) res_op" where
  "core_list_opcodes self pid w = (ok_or (hm_get (cp_provider_opcodes self) pid) ProviderNotRegistered, w)"

definition core_list_providers :: "'w core_provider \<Rightarrow> ('w, provider_info list) res_op" where
  "core_list_providers self = ok_op (cp_provider_info self)"

definition core_list_authenticators :: "'w core_provider \<Rightarrow> ('w, authenticator_info list) res_op" where
  "core_list_authenticators self = ok_op (cp_authenticator_info self)"

text \<open>\<open>Result::unwrap_or_else\<close> with the empty vector.\<close>

definition unwrap_or_empty :: "('w, 'a list) res_op \<Rightarrow> 'w \<Rightarrow> 'a list \<times> 'w" where
  "unwrap_or_empty f w = (case f w of (Inr xs, w') \<Rightarrow> (xs, w') | (Inl e, w') \<Rightarrow> ([], w'))"

fun append_all :: "('p \<Rightarrow> ('w, 'a list) res_op) \<Rightarrow> 'p list \<Rightarrow> 'a list \<Rightarrow> 'w \<Rightarrow> 'a list \<times> 'w" where
  "append_all f [] acc w = (acc, w)"
| "append_all f (p # ps) acc w =
     (case unwrap_or_empty (f p) w of (xs, w') \<Rightarrow> append_all f ps (acc @ xs) w')"

definition core_list_keys :: "'w core_provider \<Rightarrow> application_name \<Rightarrow> ('w, listed_key list) res_op" where
  "core_list_keys self app w =
     (case append_all (\<lambda>p. p_list_keys p app) (cp_prov_list self) [] w of (keys, w') \<Rightarrow> (Inr keys, w'))"

definition core_list_clients :: "'w core_provider \<Rightarrow> ('w, string list) res_op" where
  "core_list_clients self w =
     (case append_all p_list_clients (cp_prov_list self) [] w of
        (clients, w') \<Rightarrow> (Inr (remdups_adj (sort clients)), w'))"

fun destroy_keys :: "'w provide \<Rightarrow> application_name \<Rightarrow> listed_key list \<Rightarrow> 'w \<Rightarrow> 'w" where
  "destroy_keys p client [] w = w"
| "destroy_keys p client (key # keys) w =
     destroy_keys p client keys (snd (p_psa_destroy_key p (from_name client) (lk_name key) w))"

fun delete_from_providers :: "'w provide list \<Rightarrow> application_name \<Rightarrow> 'w \<Rightarrow> 'w" where
  "delete_from_providers [] client w = w"
| "delete_from_providers (p # ps) client w =
     (case unwrap_or_empty (p_list_keys p (from_name client)) w of
        (keys, w') \<Rightarrow> delete_from_providers ps client (destroy_keys p client keys w'))"

definition core_delete_client :: "'w core_provider \<Rightarrow> string \<Rightarrow> ('w, unit) res_op" where
  "core_delete_client self client w = (Inr (), delete_from_providers (cp_prov_list self) client w)"

definition core_ping :: "'w core_provider \<Rightarrow> ('w, ping_result) res_op" where
  "core_ping self =
     ok_op \<lparr>ping_maj = wire_protocol_version_maj self, ping_min = wire_protocol_version_min self\<rparr>"

text \<open>The description of the core provider is marked as unreachable.\<close>

definition core_provide :: "'w core_provider \<Rightarrow> 'w provide" where
  "core_provide self =
     (default_provide None (core_list_keys self) (core_list_clients self))
       \<lparr>p_list_opcodes := core_list_opcodes self, p_list_providers := core_list_providers self,
        p_list_authenticators := core_list_authenticators self,
        p_delete_client := core_delete_client self, p_ping := core_ping self\<rparr>"

section \<open>The builder\<close>

record 'w core_builder =
  cb_version_maj :: "u8 option"
  cb_version_min :: "u8 option"
  cb_prov_list :: "'w provide list"
  cb_authenticator_info :: "authenticator_info list"

definition core_builder_new :: "'w core_builder" where
  "core_builder_new =
     \<lparr>cb_version_maj = None, cb_version_min = None, cb_prov_list = [], cb_authenticator_info = []\<rparr>"

definition with_wire_protocol_version :: "'w core_builder \<Rightarrow> u8 \<Rightarrow> u8 \<Rightarrow> 'w core_builder" where
  "with_wire_protocol_version self version_min version_maj =
     self\<lparr>cb_version_maj := Some version_maj, cb_version_min := Some version_min\<rparr>"

definition core_with_provider :: "'w core_builder \<Rightarrow> 'w provide \<Rightarrow> 'w core_builder" where
  "core_with_provider self p = self\<lparr>cb_prov_list := cb_prov_list self @ [p]\<rparr>"

definition with_authenticator_info :: "'w core_builder \<Rightarrow> authenticator_info \<Rightarrow> 'w core_builder" where
  "with_authenticator_info self info =
     self\<lparr>cb_authenticator_info := cb_authenticator_info self @ [info]\<rparr>"

text \<open>The loop of \<open>build\<close> over the descriptions; \<open>None\<close> if one of the providers panics.\<close>

fun describe_all ::
  "'w provide list \<Rightarrow> (provider_id, opcode fset) hash_map \<Rightarrow> provider_info list \<Rightarrow>
   (string + (provider_id, opcode fset) hash_map \<times> provider_info list) option" where
  "describe_all [] opcodes infos = Some (Inr (opcodes, infos))"
| "describe_all (p # ps) opcodes infos =
     (case p_describe p of
        None \<Rightarrow> None
      | Some (Inl e) \<Rightarrow> Some (Inl ''Failed to describe provider'')
      | Some (Inr (info, ops)) \<Rightarrow>
          describe_all ps (hm_insert (pi_id info) ops opcodes) (infos @ [info]))"

text \<open>
  \<open>crate_version\<close> is the parsed version of the crate and \<open>uuid_parse\<close> the parser of the uuid crate.
\<close>

definition core_build ::
  "(u32 \<times> u32 \<times> u32) option \<Rightarrow> (string \<Rightarrow> bytes option) \<Rightarrow> 'w core_builder \<Rightarrow>
   (string + 'w core_provider) option" where
  "core_build crate_version uuid_parse self =
     map_option (\<lambda>r.
       try_res r (\<lambda>(opcodes, infos).
       try_res (ok_or crate_version ''crate version number has invalid format'') (\<lambda>(major, minor, patch).
       try_res (ok_or (uuid_parse ''47049873-2a43-4845-9d72-831eab668784'') ''provider UUID is invalid'') (\<lambda>uuid.
       try_res (ok_or (cb_version_maj self) ''version maj is missing'') (\<lambda>maj.
       try_res (ok_or (cb_version_min self) ''version min is missing'') (\<lambda>min.
       Inr \<lparr>wire_protocol_version_min = min, wire_protocol_version_maj = maj,
            cp_provider_info = infos @
              [\<lparr>pi_uuid = uuid,
                pi_description = ''Software provider that implements only administrative '' @
                  ''(i.e. no cryptographic) operations'',
                pi_vendor = '''', pi_version_maj = major, pi_version_min = minor,
                pi_version_rev = patch, pi_id = Core\<rparr>],
            cp_provider_opcodes = opcodes, cp_authenticator_info = cb_authenticator_info self,
            cp_prov_list = cb_prov_list self\<rparr>))))))
     (describe_all (cb_prov_list self) (hm_insert Core (fset_of_list core_supported_opcodes) []) [])"

section \<open>Asking every provider\<close>

text \<open>The providers of the list, each with its identifier and all over the same keys.\<close>

abbreviation key_providers ::
  "('w \<Rightarrow> bool) \<Rightarrow> ('w \<Rightarrow> provider_id \<Rightarrow> application_name \<Rightarrow> string set) \<Rightarrow> 'w provide list \<Rightarrow>
   provider_id list \<Rightarrow> bool" where
  "key_providers I keys ps pids \<equiv> list_all2 (\<lambda>p pid. key_provider p I keys pid) ps pids"

lemma unwrap_or_empty_eq:
  "unwrap_or_empty f w = (xs, w') \<longleftrightarrow> f w = (Inr xs, w') \<or> xs = [] \<and> (\<exists>e. f w = (Inl e, w'))"
  by (auto simp: unwrap_or_empty_def split: prod.splits sum.splits)

abbreviation sure_key_providers ::
  "('w \<Rightarrow> bool) \<Rightarrow> ('w \<Rightarrow> provider_id \<Rightarrow> application_name \<Rightarrow> string set) \<Rightarrow> 'w provide list \<Rightarrow>
   provider_id list \<Rightarrow> bool" where
  "sure_key_providers I keys ps pids \<equiv> list_all2 (\<lambda>p pid. sure_key_provider p I keys pid) ps pids"

lemma sure_key_providersD: "sure_key_providers I keys ps pids \<Longrightarrow> key_providers I keys ps pids"
  by (erule list_all2_mono) (rule sure_key_provider.axioms(1))

text \<open>The applications that have a key with one of the providers.\<close>

definition clients_of ::
  "('w \<Rightarrow> provider_id \<Rightarrow> application_name \<Rightarrow> string set) \<Rightarrow> provider_id list \<Rightarrow> 'w \<Rightarrow> application_name set" where
  "clients_of keys pids w = {n. \<exists>pid \<in> set pids. keys w pid n \<noteq> {}}"

lemma clients_of_Cons: "clients_of keys (pid # pids) w = {n. keys w pid n \<noteq> {}} \<union> clients_of keys pids w"
  by (auto simp: clients_of_def)

lemma append_all_clients:
  assumes "key_providers I keys ps pids" and "I w" and "append_all p_list_clients ps acc w = (cs, w')"
  shows "I w' \<and> keys w' = keys w \<and> set cs \<subseteq> set acc \<union> clients_of keys pids w"
  using assms
proof (induction ps pids arbitrary: acc w rule: list_all2_induct)
  case (Cons p ps pid pids)
  obtain xs w1 where x: "unwrap_or_empty (p_list_clients p) w = (xs, w1)" by fastforce
  then obtain r where r: "p_list_clients p w = (r, w1)" "r = Inr xs \<or> xs = []"
    by (auto simp: unwrap_or_empty_eq)
  note law = key_provider.list_clients_law [OF Cons.hyps(1) Cons.prems(1) r(1)]
  then have xs: "set xs \<subseteq> {n. keys w pid n \<noteq> {}}" using r(2) by auto
  have "append_all p_list_clients ps (acc @ xs) w1 = (cs, w')" using Cons.prems(2) x by simp
  from Cons.IH [OF _ this] law have "I w'" "keys w' = keys w"
    and cs: "set cs \<subseteq> set (acc @ xs) \<union> clients_of keys pids w1" by simp_all
  moreover have "clients_of keys pids w1 = clients_of keys pids w" using law by (simp add: clients_of_def)
  ultimately show ?case using xs by (auto simp: clients_of_Cons)
qed (simp add: clients_of_def)

lemma append_all_clients_sure:
  assumes "sure_key_providers I keys ps pids" and "I w" and "append_all p_list_clients ps acc w = (cs, w')"
  shows "set cs = set acc \<union> clients_of keys pids w"
  using assms
proof (induction ps pids arbitrary: acc w rule: list_all2_induct)
  case (Cons p ps pid pids)
  note kp = sure_key_provider.axioms(1) [OF Cons.hyps(1)]
  obtain xs w1 where r: "p_list_clients p w = (Inr xs, w1)"
    using sure_key_provider.list_clients_sure [OF Cons.hyps(1) Cons.prems(1)] by blast
  note law = key_provider.list_clients_law [OF kp Cons.prems(1) r]
  have "append_all p_list_clients ps (acc @ xs) w1 = (cs, w')"
    using Cons.prems(2) r by (simp add: unwrap_or_empty_def)
  from Cons.IH [OF _ this] law have "set cs = set (acc @ xs) \<union> clients_of keys pids w1" by simp
  moreover have "clients_of keys pids w1 = clients_of keys pids w" using law by (simp add: clients_of_def)
  ultimately show ?case using law by (auto simp: clients_of_Cons)
qed (simp add: clients_of_def)

text \<open>Destroying a list of keys of one application with one provider.\<close>

lemma destroy_keys_law:
  assumes "key_provider p I keys pid" and "I w"
  shows "I (destroy_keys p n ks w) \<and> only_loses (keys w) (keys (destroy_keys p n ks w)) {(pid, n)} \<and>
    keys w pid n - lk_name ` set ks \<subseteq> keys (destroy_keys p n ks w) pid n"
  using assms(2)
proof (induction ks arbitrary: w)
  case (Cons k ks)
  obtain r w1 where r: "p_psa_destroy_key p n (lk_name k) w = (r, w1)" by fastforce
  note law = key_provider.destroy_law [OF assms(1) Cons.prems r]
  have eq: "destroy_keys p n (k # ks) w = destroy_keys p n ks w1" by (simp add: r from_name_def)
  have I1: "I w1" and o1: "only_loses (keys w) (keys w1) {(pid, n)}" using law by simp_all
  note ih = Cons.IH [OF I1]
  have "keys w pid n - lk_name ` set (k # ks) \<subseteq> keys w1 pid n - lk_name ` set ks" using law by auto
  with ih only_loses_trans [OF o1] show ?case unfolding eq by blast
qed simp

lemma destroy_keys_sure:
  assumes "sure_key_provider p I keys pid" and "I w"
  shows "keys (destroy_keys p n ks w) pid n \<inter> lk_name ` set ks = {}"
  using assms(2)
proof (induction ks arbitrary: w)
  case (Cons k ks)
  note kp = sure_key_provider.axioms(1) [OF assms(1)]
  obtain r w1 where r: "p_psa_destroy_key p n (lk_name k) w = (r, w1)" by fastforce
  have I1: "I w1" using key_provider.destroy_law [OF kp Cons.prems r] by simp
  have "lk_name k \<notin> keys w1 pid n" by (rule sure_key_provider.destroy_sure [OF assms(1) Cons.prems r])
  moreover have "keys (destroy_keys p n ks w1) pid n \<subseteq> keys w1 pid n"
    using destroy_keys_law [OF kp I1, of n ks] by (simp add: only_loses_def)
  moreover have "destroy_keys p n (k # ks) w = destroy_keys p n ks w1" by (simp add: r from_name_def)
  ultimately show ?case using Cons.IH [OF I1] by auto
qed simp

lemma delete_from_providers_law:
  assumes "key_providers I keys ps pids" and "I w"
  shows "I (delete_from_providers ps n w) \<and>
    only_loses (keys w) (keys (delete_from_providers ps n w)) (set pids \<times> {n})"
  using assms
proof (induction ps pids arbitrary: w rule: list_all2_induct)
  case (Cons p ps pid pids)
  obtain xs w1 where x: "unwrap_or_empty (p_list_keys p n) w = (xs, w1)" by fastforce
  then obtain r where r: "p_list_keys p n w = (r, w1)" by (auto simp: unwrap_or_empty_eq)
  note law = key_provider.list_keys_law [OF Cons.hyps(1) Cons.prems r]
  let ?w2 = "destroy_keys p n xs w1" and ?S = "set (pid # pids) \<times> {n}"
  have d: "I ?w2" "only_loses (keys w) (keys ?w2) {(pid, n)}"
    using destroy_keys_law [OF Cons.hyps(1), of w1 n xs] law by simp_all
  have "delete_from_providers (p # ps) n w = delete_from_providers ps n ?w2"
    by (simp add: x from_name_def)
  moreover have "only_loses (keys w) (keys ?w2) ?S" by (rule only_loses_mono [OF d(2)]) simp
  moreover have "only_loses (keys ?w2) (keys (delete_from_providers ps n ?w2)) ?S"
    by (rule only_loses_mono [where S = "set pids \<times> {n}"]) (use Cons.IH [OF d(1)] in auto)
  ultimately show ?case using Cons.IH [OF d(1)] only_loses_trans by simp
qed simp

lemma delete_from_providers_sure:
  assumes "sure_key_providers I keys ps pids" and "I w" and "pid \<in> set pids"
  shows "keys (delete_from_providers ps n w) pid n = {}"
  using assms
proof (induction ps pids arbitrary: w rule: list_all2_induct)
  case (Cons p ps q pids)
  note kp = sure_key_provider.axioms(1) [OF Cons.hyps(1)]
  obtain xs w1 where r: "p_list_keys p n w = (Inr xs, w1)"
    using sure_key_provider.list_keys_sure [OF Cons.hyps(1) Cons.prems(1)] by blast
  note law = key_provider.list_keys_law [OF kp Cons.prems(1) r]
  let ?w2 = "destroy_keys p n xs w1"
  have I1: "I w1" using law by simp
  have I2: "I ?w2" using destroy_keys_law [OF kp I1] by blast
  have eq: "delete_from_providers (p # ps) n w = delete_from_providers ps n ?w2"
    by (simp add: r unwrap_or_empty_def from_name_def)
  show ?case
  proof (cases "pid \<in> set pids")
    case True
    with Cons.IH [OF I2] eq show ?thesis by simp
  next
    case False
    with Cons.prems(2) have q: "q = pid" by simp
    have "keys ?w2 pid n \<subseteq> keys w1 pid n"
      using destroy_keys_law [OF kp I1, of n xs] by (simp add: only_loses_def)
    moreover have "keys w1 pid n = lk_name ` set xs" using law q by simp
    moreover have "keys ?w2 pid n \<inter> lk_name ` set xs = {}"
      using destroy_keys_sure [OF Cons.hyps(1) I1] q by blast
    moreover have "keys (delete_from_providers ps n ?w2) pid n \<subseteq> keys ?w2 pid n"
      using delete_from_providers_law [OF sure_key_providersD [OF Cons.hyps(2)] I2, of n]
      by (simp add: only_loses_def)
    ultimately show ?thesis unfolding eq by blast
  qed
qed simp

section \<open>Isolation\<close>

text \<open>If every provider keeps tenants apart, so does the core provider that asks them all.\<close>

lemma keeps_unwrap_or_empty: "keeps I view V f \<Longrightarrow> keeps I view V (unwrap_or_empty f)"
  unfolding keeps_def unwrap_or_empty_eq by blast

lemma keeps_append_all:
  assumes "\<And>p. p \<in> set ps \<Longrightarrow> keeps I view V (f p)"
  shows "keeps I view V (append_all f ps acc)"
  using assms
proof (induction ps arbitrary: acc)
  case (Cons p ps)
  show ?case
  proof (rule keepsI)
    fix w r w' assume w: "I w" and run: "append_all f (p # ps) acc w = (r, w')"
    obtain xs w1 where x: "unwrap_or_empty (f p) w = (xs, w1)" by fastforce
    have "keeps I view V (unwrap_or_empty (f p))" using Cons.prems by (simp add: keeps_unwrap_or_empty)
    note 1 = keepsD [OF this w x]
    have "append_all f ps (acc @ xs) w1 = (r, w')" using run x by simp
    moreover have "keeps I view V (append_all f ps (acc @ xs))" using Cons by simp
    ultimately show "I w' \<and> (\<forall>n \<in> V. view n w' = view n w)"
      using keepsD [of I view V "append_all f ps (acc @ xs)" w1 r w'] 1 by simp
  qed
qed (simp add: keeps_def)

lemma keeps_destroy_keys:
  assumes "tenant_isolation p I view" and "I w"
  shows "I (destroy_keys p c ks w) \<and> (\<forall>n \<in> - {c}. view n (destroy_keys p c ks w) = view n w)"
  using assms(2)
proof (induction ks arbitrary: w)
  case (Cons k ks)
  obtain r w1 where r: "p_psa_destroy_key p c (lk_name k) w = (r, w1)" by fastforce
  from keepsD [OF tenant_isolation.iso_app(6) [OF assms(1)] Cons.prems r] Cons.IH [of w1] r show ?case
    by (simp add: from_name_def)
qed simp

lemma keeps_delete_from_providers:
  assumes "\<And>p. p \<in> set ps \<Longrightarrow> tenant_isolation p I view" and "I w"
  shows "I (delete_from_providers ps c w) \<and> (\<forall>n \<in> - {c}. view n (delete_from_providers ps c w) = view n w)"
  using assms
proof (induction ps arbitrary: w)
  case (Cons p ps)
  have p: "tenant_isolation p I view" using Cons.prems(1) by simp
  obtain xs w1 where x: "unwrap_or_empty (p_list_keys p c) w = (xs, w1)" by fastforce
  have 1: "I w1 \<and> (\<forall>n \<in> - {c}. view n w1 = view n w)"
    using keepsD [OF keeps_unwrap_or_empty [OF tenant_isolation.iso_app(1) [OF p]] Cons.prems(2) x] .
  with keeps_destroy_keys [OF p, of w1 c xs] Cons.IH [of "destroy_keys p c xs w1"] Cons.prems(1) x show ?case
    by (simp add: from_name_def)
qed simp

lemma core_isolated:
  assumes "\<And>p. p \<in> set (cp_prov_list self) \<Longrightarrow> tenant_isolation p I view"
  shows "tenant_isolation (core_provide self) I view"
proof -
  have keys: "keeps I view (- {n}) (core_list_keys self n)" for n
    using keepsD [OF keeps_append_all [of "cp_prov_list self" I view "- {n}" "\<lambda>p. p_list_keys p n" "[]"]]
      tenant_isolation.iso_app(1) [OF assms]
    by (intro keepsI) (fastforce simp: core_list_keys_def split: prod.splits)
  have clients: "keeps I view UNIV (core_list_clients self)"
    using keepsD [OF keeps_append_all [of "cp_prov_list self" I view UNIV p_list_clients "[]"]]
      tenant_isolation.iso_service(5) [OF assms]
    by (intro keepsI) (fastforce simp: core_list_clients_def split: prod.splits)
  have delete: "keeps I view (- {c}) (core_delete_client self c)" for c
    using keeps_delete_from_providers [of "cp_prov_list self" I view, OF assms]
    by (intro keepsI) (auto simp: core_delete_client_def)
  show ?thesis
    by unfold_locales
      (simp_all add: core_provide_def default_provide_def keys clients delete core_list_providers_def
        core_list_authenticators_def core_ping_def core_list_opcodes_def keeps_read)
qed

end
