(* ===== verification/Mbed_Crypto_Properties.thy ===== *)
theory Mbed_Crypto_Properties
  imports Mbed_Crypto_On_Disk Core_Provider
begin

text \<open>
  What the Mbed Crypto provider and the core provider promise, for the provider on the on-disk key
  info manager. Each property has a concrete instance, with a small key store in place of
  Mbed Crypto.
\<close>

section \<open>A small key store\<close>

text \<open>The keys are byte strings, addressed by their number; a hash is its own signature.\<close>

definition toy_keys :: "(u32, bytes) hash_map \<Rightarrow> u32 \<Rightarrow> bytes option" where
  "toy_keys b k = (if k \<le> psa_key_id_vendor_max then hm_get b k else None)"

definition toy_create :: "u32 option \<Rightarrow> bytes \<Rightarrow> ((u32, bytes) hash_map, u32) psa_op" where
  "toy_create ko d b =
     (case ko of
        None \<Rightarrow> (Inl (OtherPsaError 0), b)
      | Some k \<Rightarrow> if k \<le> psa_key_id_vendor_max \<and> toy_keys b k = None then (Inr k, hm_insert k d b)
                   else (Inl (OtherPsaError 0), b))"

definition toy_psa :: "((u32, bytes) hash_map, u32) psa_crypto" where
  "toy_psa =
     \<lparr>psa_init = ok_op (), key_id_user_min = 1, key_id_user_max = 0x3fffffff,
      response_status_from = (\<lambda>s. case s of DoesNotExist \<Rightarrow> PsaErrorDoesNotExist | OtherPsaError _ \<Rightarrow> PsaErrorGenericError),
      from_persistent_key_id = (\<lambda>k b. (ok_or (map_option (\<lambda>_. k) (toy_keys b k)) DoesNotExist, b)),
      attributes_from_key_id = (\<lambda>_. ok_op sample_attributes),
      psa_generate = (\<lambda>_ k. toy_create k [1, 2, 3]), psa_import = (\<lambda>_ k d. toy_create k d),
      psa_destroy = (\<lambda>k b. (Inr (), hm_remove k b)),
      psa_export_public = (\<lambda>_ _. err_op (OtherPsaError 0)), psa_export = (\<lambda>_ _. err_op (OtherPsaError 0)),
      psa_sign_hash = (\<lambda>_ _ h _. ok_op (h, word_of_nat (length h))), psa_verify_hash = (\<lambda>_ _ _ _. err_op (OtherPsaError 0)),
      psa_encrypt = (\<lambda>_ _ _ _ _. err_op (OtherPsaError 0)), psa_decrypt = (\<lambda>_ _ _ _ _. err_op (OtherPsaError 0)),
      aead_encrypt = (\<lambda>_ _ _ _ _ _. err_op (OtherPsaError 0)),
      aead_decrypt = (\<lambda>_ _ _ _ _ _. err_op (OtherPsaError 0)),
      hash_compute = (\<lambda>_ _ _. err_op (OtherPsaError 0)), hash_compare = (\<lambda>_ _ _. err_op (OtherPsaError 0)),
      raw_key_agreement = (\<lambda>_ _ _ _. err_op (OtherPsaError 0)), generate_random = ok_op,
      hash_length = (\<lambda>_. 32), export_public_key_output_size = (\<lambda>_. Inr 0), export_key_output_size = (\<lambda>_. Inr 0),
      sign_output_size = (\<lambda>_ _. Inr 0), asymmetric_encrypt_output_size = (\<lambda>_ _. Inr 0),
      asymmetric_decrypt_output_size = (\<lambda>_ _. Inr 0), aead_encrypt_output_size = (\<lambda>_ _ _. Inr 0),
      aead_decrypt_output_size = (\<lambda>_ _ _. Inr 0), raw_key_agreement_output_size = (\<lambda>_ _. Inr 0)\<rparr>"

lemma toy_creates: "psa_creates toy_keys id k (toy_create (Some k) d)"
  by (auto simp: psa_creates_def toy_create_def toy_keys_def hm_simps fun_eq_iff split: if_splits)

lemma toy_psa_ok: "psa_contract toy_psa toy_keys id"
proof -
  have "psa_use_laws toy_psa toy_keys"
    by (auto simp: psa_use_laws_def psa_reads_def toy_psa_def)
  moreover have "toy_keys (hm_remove k b) = (toy_keys b)(k := None)" for k b
    by (auto simp: toy_keys_def hm_simps fun_eq_iff)
  ultimately show ?thesis
    by (auto simp: psa_contract_def toy_psa_def toy_creates toy_keys_def ok_or_def psa_key_id_vendor_max_def
        split: option.splits if_splits)
qed

definition toy_provider :: "(on_disk_manager, (u32, bytes) hash_map, u32) mbed_provider" where
  "toy_provider =
     \<lparr>mp_key_info_store = build_client \<lparr>kf_impl = on_disk_impl sample_codec\<rparr> MbedCrypto,
      mp_psa = toy_psa, mp_id_codec = u32_codec,
      mp_validators = \<lparr>validate_asymmetric_encrypt = (\<lambda>_ _. Inr ()), validate_asymmetric_decrypt = (\<lambda>_ _. Inr ()),
        validate_aead_encrypt = (\<lambda>_ _. Inr ()), validate_aead_decrypt = (\<lambda>_ _. Inr ()),
        validate_raw_key_agreement = (\<lambda>_ _. Inr ())\<rparr>,
      mp_uuid_parse = (\<lambda>_. Some []), mp_buffer_size_limit = 1024\<rparr>"

definition toy_state :: "(on_disk_manager, (u32, bytes) hash_map) mbed_state" where
  "toy_state = \<lparr>ms_kim = sample_manager, id_counter = 1, ms_psa = []\<rparr>"

lemma toy_setup: "mbed_setup (on_disk_impl sample_codec) toy_provider toy_keys id"
  by (simp add: mbed_setup_def toy_provider_def build_client_def toy_psa_ok u32_codec_ok)

lemma toy_inv: "mbed_disk_inv sample_codec toy_provider toy_keys id toy_state"
proof -
  have "mbed_inv (on_disk_impl sample_codec) odm_inv odm_abs toy_provider toy_keys id toy_state"
    using toy_setup sample_facts(3)
    by (simp add: mbed_inv_def toy_state_def sample_manager_empty linked_def psa_key_id_vendor_max_def)
  then show ?thesis
    using sample_codec_ok sample_facts(1,2) by (simp add: mbed_disk_inv_def toy_state_def)
qed

lemma toy_mbed_inv: "mbed_inv (on_disk_impl sample_codec) odm_inv odm_abs toy_provider toy_keys id toy_state"
  using toy_inv by (simp add: mbed_disk_inv_def)

lemma psa_readsD: "psa_reads keys_of f \<Longrightarrow> f b = (r, b') \<Longrightarrow> keys_of b' = keys_of b"
  by (simp add: psa_reads_def)

section \<open>Creating, using and destroying keys\<close>

text \<open>The outcome of a creation, as both operations that create keys have it.\<close>

definition created ::
  "(on_disk_manager, 'b, 'id) mbed_provider \<Rightarrow> ('b \<Rightarrow> u32 \<Rightarrow> 'kd option) \<Rightarrow> application_name \<Rightarrow> string \<Rightarrow>
   attributes \<Rightarrow> (on_disk_manager, 'b) mbed_state \<Rightarrow> (on_disk_manager, 'b) mbed_state \<Rightarrow> u32 \<Rightarrow> bool" where
  "created self keys_of app name attrs w w' k \<longleftrightarrow>
     odm_abs (ms_kim w) (key_triple_new app MbedCrypto name) = None \<and>
     keys_of (ms_psa w) k = None \<and> id_counter w < k \<and> id_counter w' = k \<and> k \<le> key_id_user_max (mp_psa self) \<and>
     (\<exists>info x. odm_abs (ms_kim w') = (odm_abs (ms_kim w))(key_triple_new app MbedCrypto name \<mapsto> info) \<and>
        ki_attributes info = attrs \<and> keys_of (ms_psa w') = (keys_of (ms_psa w))(k \<mapsto> x)) \<and>
     mbed_key_id self app name w' = (Inr k, w')"

lemma create_key_created:
  fixes self :: "(on_disk_manager, 'b, 'id) mbed_provider" and keys_of :: "'b \<Rightarrow> u32 \<Rightarrow> 'kd option"
  assumes w: "mbed_inv (on_disk_impl c) odm_inv odm_abs self keys_of id_of w"
    and cr: "\<And>k. psa_creates keys_of id_of k (cre k)"
    and kt: "kt = key_triple_new app MbedCrypto name"
    and run: "try_op (ask_kim (\<lambda>m. does_not_exist (mp_key_info_store self) m kt)) (\<lambda>_.
       try_op (next_key_id self) (\<lambda>k.
       try_op (on_psa self (cre k)) (\<lambda>key. store_new_key self kt k attrs key))) w = (Inr (), w')"
    and w': "mbed_inv (on_disk_impl c) odm_inv odm_abs self keys_of id_of w'"
  shows "\<exists>k. created self keys_of app name attrs w w' k"
proof -
  from odm.create_key_result [OF w cr run] obtain k x info where
    k: "kt \<notin> dom (odm_abs (ms_kim w))" "keys_of (ms_psa w) k = None" "k = id_counter w'"
    "id_counter w < k" "k \<le> key_id_user_max (mp_psa self)"
    "odm_abs (ms_kim w') = (odm_abs (ms_kim w))(kt \<mapsto> info)" "ki_attributes info = attrs"
    "id_deserialize (mp_id_codec self) (ki_id info) = Inr k"
    "keys_of (ms_psa w') = (keys_of (ms_psa w))(k \<mapsto> x)" .
  have "key_number MbedCrypto (mp_id_codec self) (odm_abs (ms_kim w')) kt = Some k"
    using k(6,8) by (simp add: key_number_def kt)
  then have "mbed_key_id self app name w' = (Inr k, w')"
    using odm.get_key_id_iff_number [OF mbed_invD(2) [OF w'] mbed_setupD(1) [OF mbed_invD(1) [OF w']],
        of kt MbedCrypto "mp_id_codec self" k]
    by (simp add: mbed_key_id_def ask_kim_def kt)
  with k show ?thesis unfolding created_def kt by (auto simp: domIff)
qed

text \<open>One key made in the small store.\<close>

lemma toy_valid:
  "\<exists>bs. id_serialize u32_codec k = Inr bs \<and>
     valid_update sample_codec (Insert (key_triple_new ''app'' MbedCrypto ''k'') \<lparr>ki_id = bs, ki_attributes = sample_attributes\<rparr>)"
  using sample_valid_insert [of MbedCrypto] by (simp add: u32_codec_def del: valid_update.simps)

lemma toy_created:
  assumes "cre 2 [] = (Inr key, b)"
  shows "\<exists>w'. try_op (ask_kim (\<lambda>m. does_not_exist (mp_key_info_store toy_provider) m (key_triple_new ''app'' MbedCrypto ''k''))) (\<lambda>_.
       try_op (next_key_id toy_provider) (\<lambda>k.
       try_op (on_psa toy_provider (cre k)) (\<lambda>key.
       store_new_key toy_provider (key_triple_new ''app'' MbedCrypto ''k'') k sample_attributes key))) toy_state = (Inr (), w') \<and>
     synced sample_codec (ms_kim w') \<and> quiet (odm_disk (ms_kim w'))"
proof -
  obtain bs where bs: "id_serialize (mp_id_codec toy_provider) (id_counter toy_state + 1) = Inr bs"
    "valid_update sample_codec (Insert (key_triple_new ''app'' MbedCrypto ''k'') \<lparr>ki_id = bs, ki_attributes = sample_attributes\<rparr>)"
    using toy_valid [of 2] by (auto simp: toy_provider_def toy_state_def)
  show ?thesis
    by (rule create_key_quiet [OF toy_inv _ _ _ bs])
      (use assms in \<open>simp_all add: toy_state_def sample_manager_empty toy_provider_def toy_psa_def\<close>)
qed

lemma toy_create_2: "\<exists>b. toy_create (Some 2) d [] = (Inr 2, b)"
  by (simp add: toy_create_def toy_keys_def psa_key_id_vendor_max_def)

lemma toy_generate:
  "\<exists>w'. mbed_generate_key toy_provider ''app'' \<lparr>gk_key_name = ''k'', gk_attributes = sample_attributes\<rparr> toy_state = (Inr (), w') \<and>
     synced sample_codec (ms_kim w') \<and> quiet (odm_disk (ms_kim w'))"
proof -
  obtain b where "(\<lambda>k. psa_generate (mp_psa toy_provider) sample_attributes (Some k)) 2 [] = (Inr 2, b)"
    using toy_create_2 by (auto simp: toy_provider_def toy_psa_def)
  from toy_created [of "\<lambda>k. psa_generate (mp_psa toy_provider) sample_attributes (Some k)", OF this]
  show ?thesis by (simp add: mbed_generate_key_def Let_def)
qed

lemma toy_import:
  "\<exists>w'. mbed_import_key toy_provider ''app'' \<lparr>ik_key_name = ''k'', ik_attributes = sample_attributes, ik_data = [9]\<rparr> toy_state = (Inr (), w')"
proof -
  obtain b where "(\<lambda>k. psa_import (mp_psa toy_provider) sample_attributes (Some k) [9]) 2 [] = (Inr 2, b)"
    using toy_create_2 by (auto simp: toy_provider_def toy_psa_def)
  from toy_created [of "\<lambda>k. psa_import (mp_psa toy_provider) sample_attributes (Some k) [9]", OF this]
  show ?thesis by (auto simp: mbed_import_key_def Let_def)
qed

lemma toy_key_state:
  "\<exists>w. mbed_disk_inv sample_codec toy_provider toy_keys id w \<and>
     odm_abs (ms_kim w) (key_triple_new ''app'' MbedCrypto ''k'') \<noteq> None \<and>
     (\<exists>k. mbed_key_id toy_provider ''app'' ''k'' w = (Inr k, w) \<and> toy_keys (ms_psa w) k \<noteq> None)"
proof -
  obtain w where g: "mbed_generate_key toy_provider ''app'' \<lparr>gk_key_name = ''k'', gk_attributes = sample_attributes\<rparr> toy_state = (Inr (), w)"
    and s: "synced sample_codec (ms_kim w)" "quiet (odm_disk (ms_kim w))" using toy_generate by blast
  have inv: "mbed_inv (on_disk_impl sample_codec) odm_inv odm_abs toy_provider toy_keys id w"
    using keepsD [OF odm.mbed_generate_key_keeps toy_mbed_inv g] by blast
  have cr: "psa_creates toy_keys id k (psa_generate (mp_psa toy_provider) sample_attributes (Some k))" for k
    by (simp add: toy_provider_def toy_psa_def toy_creates)
  have "\<exists>k. created toy_provider toy_keys ''app'' ''k'' sample_attributes toy_state w k"
    by (rule create_key_created [OF toy_mbed_inv cr refl _ inv])
      (use g in \<open>simp add: mbed_generate_key_def Let_def\<close>)
  then obtain k where "created toy_provider toy_keys ''app'' ''k'' sample_attributes toy_state w k" by blast
  then have "odm_abs (ms_kim w) (key_triple_new ''app'' MbedCrypto ''k'') \<noteq> None"
    "mbed_key_id toy_provider ''app'' ''k'' w = (Inr k, w)" "toy_keys (ms_psa w) k \<noteq> None"
    by (auto simp: created_def)
  with inv s sample_codec_ok show ?thesis by (auto simp: mbed_disk_inv_def)
qed

text \<open>
  C4: generating a key. \<open>psa_generate_key\<close> keeps the invariant of the provider. If it succeeds, the name
  was free, the key has a number above every number handed out before, which no persistent
  key had, exactly this key and this mapping have been added, and the name now leads to the
  number. If it fails, every mapping is what it was.
\<close>

theorem mbed_generate_key_exact:
  assumes "mbed_inv (on_disk_impl c) odm_inv odm_abs self keys_of id_of w"
    and "mbed_generate_key self app op w = (r, w')"
  shows "mbed_inv (on_disk_impl c) odm_inv odm_abs self keys_of id_of w' \<and>
    (case r of
       Inl _ \<Rightarrow> odm_abs (ms_kim w') = odm_abs (ms_kim w)
     | Inr _ \<Rightarrow> \<exists>k. created self keys_of app (gk_key_name op) (gk_attributes op) w w' k)"
proof -
  note run = assms(2) [unfolded mbed_generate_key_def Let_def]
  have inv: "mbed_inv (on_disk_impl c) odm_inv odm_abs self keys_of id_of w'"
    using keepsD [OF odm.mbed_generate_key_keeps assms] by blast
  have cr: "psa_creates keys_of id_of k (psa_generate (mp_psa self) (gk_attributes op) (Some k))" for k
    by (rule psa_generate_creates [OF mbed_setupD(3) [OF mbed_invD(1) [OF assms(1)]]])
  show ?thesis
  proof (cases r)
    case (Inl e)
    from odm.create_key_fails [OF assms(1) run [unfolded Inl]] inv Inl show ?thesis by simp
  next
    case (Inr u)
    with run have "try_op (ask_kim (\<lambda>m. does_not_exist (mp_key_info_store self) m (key_triple_new app MbedCrypto (gk_key_name op)))) (\<lambda>_.
       try_op (next_key_id self) (\<lambda>k. try_op (on_psa self (psa_generate (mp_psa self) (gk_attributes op) (Some k))) (\<lambda>key.
       store_new_key self (key_triple_new app MbedCrypto (gk_key_name op)) k (gk_attributes op) key))) w = (Inr (), w')" by simp
    from create_key_created [OF assms(1) cr refl this inv] inv Inr show ?thesis by simp
  qed
qed

theorem mbed_generate_key_exact_witness:
  "\<exists>w'. mbed_generate_key toy_provider ''app'' \<lparr>gk_key_name = ''k'', gk_attributes = sample_attributes\<rparr> toy_state = (Inr (), w') \<and>
     (\<exists>k. created toy_provider toy_keys ''app'' ''k'' sample_attributes toy_state w' k)"
proof -
  obtain w' where g: "mbed_generate_key toy_provider ''app'' \<lparr>gk_key_name = ''k'', gk_attributes = sample_attributes\<rparr> toy_state = (Inr (), w')"
    using toy_generate by blast
  from mbed_generate_key_exact [OF toy_mbed_inv g] g show ?thesis by simp
qed

text \<open>
  Importing a key, with the same outcomes as generating one.
\<close>

lemma mbed_import_key_exact:
  assumes "mbed_inv (on_disk_impl c) odm_inv odm_abs self keys_of id_of w"
    and "mbed_import_key self app op w = (r, w')"
  shows "mbed_inv (on_disk_impl c) odm_inv odm_abs self keys_of id_of w' \<and>
    (case r of
       Inl _ \<Rightarrow> odm_abs (ms_kim w') = odm_abs (ms_kim w)
     | Inr _ \<Rightarrow> \<exists>k. created self keys_of app (ik_key_name op) (ik_attributes op) w w' k)"
proof -
  note run = assms(2) [unfolded mbed_import_key_def Let_def]
  have inv: "mbed_inv (on_disk_impl c) odm_inv odm_abs self keys_of id_of w'"
    using keepsD [OF odm.mbed_import_key_keeps assms] by blast
  have cr: "psa_creates keys_of id_of k (psa_import (mp_psa self) (ik_attributes op) (Some k) (ik_data op))" for k
    by (rule psa_import_creates [OF mbed_setupD(3) [OF mbed_invD(1) [OF assms(1)]]])
  show ?thesis
  proof (cases r)
    case (Inl e)
    from odm.create_key_fails [OF assms(1) run [unfolded Inl]] inv Inl show ?thesis by simp
  next
    case (Inr u)
    with run have "try_op (ask_kim (\<lambda>m. does_not_exist (mp_key_info_store self) m (key_triple_new app MbedCrypto (ik_key_name op)))) (\<lambda>_.
       try_op (next_key_id self) (\<lambda>k. try_op (on_psa self (psa_import (mp_psa self) (ik_attributes op) (Some k) (ik_data op))) (\<lambda>key.
       store_new_key self (key_triple_new app MbedCrypto (ik_key_name op)) k (ik_attributes op) key))) w = (Inr (), w')" by simp
    from create_key_created [OF assms(1) cr refl this inv] inv Inr show ?thesis by simp
  qed
qed

lemma mbed_import_key_exact_witness:
  "\<exists>w'. mbed_import_key toy_provider ''app'' \<lparr>ik_key_name = ''k'', ik_attributes = sample_attributes, ik_data = [9]\<rparr> toy_state = (Inr (), w') \<and>
     (\<exists>k. created toy_provider toy_keys ''app'' ''k'' sample_attributes toy_state w' k)"
proof -
  obtain w' where g: "mbed_import_key toy_provider ''app'' \<lparr>ik_key_name = ''k'', ik_attributes = sample_attributes, ik_data = [9]\<rparr> toy_state = (Inr (), w')"
    using toy_import by blast
  from mbed_import_key_exact [OF toy_mbed_inv g] g show ?thesis by simp
qed

text \<open>
  C18: destroying a key. On a disk that answers, \<open>psa_destroy_key\<close> removes the mapping of this
  name and no other, whatever Mbed Crypto answers, and other applications see no change. If it returns
  \<open>Ok\<close>, the name had a key and exactly that key is gone from Mbed Crypto.
\<close>

theorem mbed_destroy_key_exact:
  assumes "mbed_disk_inv c self keys_of id_of w" and "mbed_destroy_key self app name w = (r, w')"
    and "kt = key_triple_new app MbedCrypto name"
  shows "mbed_disk_inv c self keys_of id_of w' \<and> odm_abs (ms_kim w') = (odm_abs (ms_kim w))(kt := None) \<and>
    (\<forall>n. n \<noteq> app \<longrightarrow> mbed_view odm_abs self keys_of n w' = mbed_view odm_abs self keys_of n w) \<and>
    (r = Inr () \<longrightarrow> (\<exists>k. key_number MbedCrypto (mp_id_codec self) (odm_abs (ms_kim w)) kt = Some k \<and>
       keys_of (ms_psa w') = (keys_of (ms_psa w))(k := None)))"
  using mbed_destroy_disk [OF assms(1,2)] assms(3)
    odm.mbed_destroy_key_result [OF _ assms(2) refl, of c keys_of id_of] assms(1)
  by (simp add: mbed_disk_inv_def)

theorem mbed_destroy_key_exact_witness:
  "\<exists>w r w'. odm_abs (ms_kim w) (key_triple_new ''app'' MbedCrypto ''k'') \<noteq> None \<and>
     mbed_destroy_key toy_provider ''app'' ''k'' w = (r, w') \<and>
     odm_abs (ms_kim w') (key_triple_new ''app'' MbedCrypto ''k'') = None"
proof -
  obtain w where w: "mbed_disk_inv sample_codec toy_provider toy_keys id w"
    "odm_abs (ms_kim w) (key_triple_new ''app'' MbedCrypto ''k'') \<noteq> None"
    using toy_key_state by blast
  obtain r w' where d: "mbed_destroy_key toy_provider ''app'' ''k'' w = (r, w')" by fastforce
  from mbed_destroy_key_exact [OF w(1) d refl] w d show ?thesis by auto
qed

text \<open>
  C19: an application signs with its own key only. If \<open>psa_sign_hash\<close> returns a signature, the
  application has a key of the requested name, and the signature is what Mbed Crypto answered for
  the key behind that name, cut to the length it reported; no key has changed.
\<close>

theorem mbed_sign_hash_own_key:
  assumes "mbed_inv (on_disk_impl c) odm_inv odm_abs self keys_of id_of w"
    and "mbed_sign_hash self app op w = (Inr sig, w')"
  shows "\<exists>k key b b' n out len.
    key_number MbedCrypto (mp_id_codec self) (odm_abs (ms_kim w)) (key_triple_new app MbedCrypto (sh_key_name op)) = Some k \<and>
    id_of key = k \<and> keys_of b = keys_of (ms_psa w) \<and> keys_of b k \<noteq> None \<and>
    psa_sign_hash (mp_psa self) key (sh_alg op) (sh_hash op) (replicate n 0) b = (Inr (out, len), b') \<and>
    sig = vec_resize (unat len) 0 out \<and> keys_of (ms_psa w') = keys_of (ms_psa w) \<and> ms_kim w' = ms_kim w"
proof -
  let ?psa = "mp_psa self" and ?kt = "key_triple_new app MbedCrypto (sh_key_name op)"
  note S = mbed_setupD [OF mbed_invD(1) [OF assms(1)]]
  note laws = psa_use_lawsD [OF psa_contract_use [OF S(3)]]
  from assms(2) obtain k key b1 attrs b2 n out len b3 where
    get: "get_key_id (mp_id_codec self) (mp_key_info_store self) (ms_kim w) ?kt = Inr k"
    and o: "from_persistent_key_id ?psa k (ms_psa w) = (Inr key, b1)"
    and a: "attributes_from_key_id ?psa key b1 = (Inr attrs, b2)"
    and s: "psa_sign_hash ?psa key (sh_alg op) (sh_hash op) (replicate n 0) b2 = (Inr (out, len), b3)"
    and sig: "sig = vec_resize (unat len) 0 out" "ms_psa w' = b3" "ms_kim w' = ms_kim w"
    by (auto simp: mbed_sign_hash_def mbed_open_key_def mbed_key_id_def fill_buffer_def try_op_eq_Inr
        ask_kim_def ask_psa_def on_psa_eq_Inr)
  have num: "key_number MbedCrypto (mp_id_codec self) (odm_abs (ms_kim w)) ?kt = Some k"
    using odm.key_id_number [OF assms(1) get] by simp
  have "id_of key = k" "keys_of (ms_psa w) k \<noteq> None" using psa_open_Inr [OF S(3) o] by simp_all
  moreover have "keys_of b2 = keys_of (ms_psa w)" "keys_of b3 = keys_of b2"
    using psa_readsD [OF laws(2) o] psa_readsD [OF laws(3) a] psa_readsD [OF laws(6) s] by simp_all
  ultimately show ?thesis using num s sig by (intro exI [of _ k] exI [of _ key] exI [of _ b2] exI [of _ b3]) auto
qed

theorem mbed_sign_hash_own_key_witness:
  "\<exists>w w'. mbed_sign_hash toy_provider ''app''
       \<lparr>sh_key_name = ''k'', sh_alg = Ecdsa (Specific Sha256), sh_hash = [5, 6]\<rparr> w = (Inr [5, 6], w') \<and>
     toy_keys (ms_psa w') = toy_keys (ms_psa w) \<and>
     key_number MbedCrypto u32_codec (odm_abs (ms_kim w)) (key_triple_new ''app'' MbedCrypto ''k'') \<noteq> None"
proof -
  let ?op = "\<lparr>sh_key_name = ''k'', sh_alg = Ecdsa (Specific Sha256), sh_hash = [5, 6]\<rparr>"
  obtain w k where inv: "mbed_disk_inv sample_codec toy_provider toy_keys id w"
    and k: "mbed_key_id toy_provider ''app'' ''k'' w = (Inr k, w)" "toy_keys (ms_psa w) k \<noteq> None"
    using toy_key_state by blast
  have i: "mbed_inv (on_disk_impl sample_codec) odm_inv odm_abs toy_provider toy_keys id w"
    using inv by (simp add: mbed_disk_inv_def)
  have run: "mbed_sign_hash toy_provider ''app'' ?op w = (Inr [5, 6], w)"
    using k by (auto simp: mbed_sign_hash_def mbed_open_key_def fill_buffer_def try_op_def on_psa_def ask_psa_def
        toy_provider_def toy_psa_def ok_or_def vec_resize_def)
  from mbed_sign_hash_own_key [OF i run] run show ?thesis by (auto simp: toy_provider_def)
qed

text \<open>
  C12: restart. Started on a directory that holds the mappings and a state of Mbed Crypto that answers
  definitely for every key number, the provider comes up; it keeps every live mapping and every
  mapping of other providers, drops exactly its mappings without a key, changes no key, and the
  invariant holds, so new keys get numbers above those of all mapped keys.
\<close>

theorem mbed_restart_exact:
  assumes "mbed_setup (on_disk_impl c) self keys_of id_of" and "odm_inv m"
    and "base64_ok c" and "synced c m" and "quiet (odm_disk m)"
    and "unshared MbedCrypto (mp_id_codec self) (odm_abs m)" and "key_id_user_min (mp_psa self) \<le> psa_key_id_vendor_max"
    and "psa_init (mp_psa self) b = (Inr (), b1)"
    and "\<And>k b. \<exists>r b'. from_persistent_key_id (mp_psa self) k b = (r, b') \<and> (\<forall>n. r \<noteq> Inl (OtherPsaError n))"
  shows "\<exists>w m' b'. mbed_new self m b = (Some w, m', b') \<and> mbed_disk_inv c self keys_of id_of w \<and>
    keys_of (ms_psa w) = keys_of b \<and>
    odm_abs (ms_kim w) = without_dead (mp_id_codec self) (keys_of b) (odm_abs m)"
proof -
  obtain w m' b' where run: "mbed_new self m b = (Some w, m', b')"
    and d: "synced c (ms_kim w)" "quiet (odm_disk (ms_kim w))"
    using mbed_new_total [OF assms(1-5,8,9)] by blast
  note R = odm.mbed_new_result [OF assms(1,2,6,7) run]
  with run d assms(3) show ?thesis by (simp add: mbed_disk_inv_def)
qed

theorem mbed_restart_exact_witness:
  "\<exists>w m' b'. mbed_new toy_provider sample_manager [] = (Some w, m', b') \<and>
     mbed_disk_inv sample_codec toy_provider toy_keys id w"
proof -
  have "unshared MbedCrypto (mp_id_codec toy_provider) (odm_abs sample_manager)" by (simp add: unshared_def sample_manager_empty)
  moreover have "key_id_user_min (mp_psa toy_provider) \<le> psa_key_id_vendor_max"
    by (simp add: toy_provider_def toy_psa_def psa_key_id_vendor_max_def)
  moreover have "psa_init (mp_psa toy_provider) [] = (Inr (), [])" by (simp add: toy_provider_def toy_psa_def)
  moreover have "\<exists>r b'. from_persistent_key_id (mp_psa toy_provider) k b = (r, b') \<and> (\<forall>n. r \<noteq> Inl (OtherPsaError n))" for k b
    by (auto simp: toy_provider_def toy_psa_def ok_or_def split: option.splits)
  ultimately show ?thesis
    using mbed_restart_exact [OF toy_setup sample_facts(3) sample_codec_ok sample_facts(1,2)] by blast
qed

section \<open>Key numbers\<close>

text \<open>The answers to \<open>n\<close> calls of \<open>create_key_id\<close> in a row.\<close>

fun create_key_ids :: "('b, 'id) psa_crypto \<Rightarrow> nat \<Rightarrow> u32 \<Rightarrow> u32 res list" where
  "create_key_ids psa 0 c = []"
| "create_key_ids psa (Suc n) c =
     (case create_key_id psa c of (r, c') \<Rightarrow> r # create_key_ids psa n c')"

lemma create_key_ids_full:
  "c = key_id_user_max psa \<Longrightarrow> c \<le> psa_key_id_vendor_max \<Longrightarrow>
   create_key_ids psa n c = replicate n (Inl PsaErrorInsufficientMemory)"
proof (induction n)
  case (Suc n)
  from vendor_max_succ [OF Suc.prems(2)] Suc.prems(1) have "c + 1 > key_id_user_max psa" by simp
  with Suc show ?case by (simp add: create_key_id_def Let_def)
qed simp

text \<open>
  C33: key numbers are used up in order and never twice. From a counter at or below the
  largest number for users, the calls of \<open>create_key_id\<close> return the next numbers one after the
  other up to that largest number, and every later call fails with \<open>PsaErrorInsufficientMemory\<close>; the
  32-bit counter never wraps around.
\<close>

theorem key_numbers_in_order:
  assumes "c \<le> key_id_user_max psa" and "key_id_user_max psa \<le> psa_key_id_vendor_max"
  shows "create_key_ids psa n c =
    map (\<lambda>i. if unat c + Suc i \<le> unat (key_id_user_max psa) then Inr (c + word_of_nat (Suc i))
              else Inl PsaErrorInsufficientMemory) [0..<n]"
  using assms(1)
proof (induction n arbitrary: c)
  case (Suc n)
  let ?mx = "key_id_user_max psa"
  have vc: "c \<le> psa_key_id_vendor_max" using Suc.prems assms(2) by (rule order_trans)
  have up: "unat (c + 1) = Suc (unat c)"
    using vc by (simp add: psa_key_id_vendor_max_def word_le_nat_alt unat_word_ariths)
  show ?case
  proof (cases "c = ?mx")
    case True
    then have "create_key_ids psa (Suc n) c = replicate (Suc n) (Inl PsaErrorInsufficientMemory)"
      using create_key_ids_full assms(2) by blast
    with True show ?thesis by (simp add: map_replicate_const del: upt_Suc create_key_ids.simps replicate_Suc)
  next
    case False
    then have le: "c + 1 \<le> ?mx" using Suc.prems by (simp add: inc_le)
    have "create_key_ids psa (Suc n) c = Inr (c + 1) # create_key_ids psa n (c + 1)"
      using le by (simp add: create_key_id_def Let_def not_less)
    moreover have "Suc (unat c) \<le> unat ?mx" using le up by (simp add: word_le_nat_alt)
    ultimately show ?thesis
      unfolding upt_conv_Cons [OF zero_less_Suc] map_Suc_upt [symmetric] Suc.IH [OF le]
      by (simp add: up add.assoc)
  qed
qed simp

theorem key_numbers_in_order_witness:
  "create_key_ids toy_psa 2 0x3ffffffe = [Inr 0x3fffffff, Inl PsaErrorInsufficientMemory]"
proof -
  have mx: "key_id_user_max toy_psa = 0x3fffffff" by (simp add: toy_psa_def)
  have "(0x3ffffffe :: u32) \<le> key_id_user_max toy_psa" "key_id_user_max toy_psa \<le> psa_key_id_vendor_max"
    by (simp_all add: mx psa_key_id_vendor_max_def)
  from key_numbers_in_order [OF this, of 2] show ?thesis unfolding mx by (simp only:) (simp add: upt_rec)
qed

section \<open>The core provider\<close>

lemma distinct_remdups_adj_sort: "sorted xs \<Longrightarrow> distinct (remdups_adj (xs :: 'a :: linorder list))"
  by (induction xs rule: remdups_adj.induct) auto

lemma append_all_keys_sure:
  assumes "sure_key_providers I keys ps pids" and "I w"
    and "append_all (\<lambda>p. p_list_keys p n) ps acc w = (ks, w')"
  shows "keys w' = keys w \<and> lk_name ` set ks = lk_name ` set acc \<union> (\<Union>pid \<in> set pids. keys w pid n)"
  using assms
proof (induction ps pids arbitrary: acc w rule: list_all2_induct)
  case (Cons p ps pid pids)
  note kp = sure_key_provider.axioms(1) [OF Cons.hyps(1)]
  obtain xs w1 where r: "p_list_keys p n w = (Inr xs, w1)"
    using sure_key_provider.list_keys_sure [OF Cons.hyps(1) Cons.prems(1)] by blast
  note law = key_provider.list_keys_law [OF kp Cons.prems(1) r]
  have run: "append_all (\<lambda>p. p_list_keys p n) ps (acc @ xs) w1 = (ks, w')"
    using Cons.prems(2) r by (simp add: unwrap_or_empty_def)
  from law Cons.IH [OF _ run] have "keys w' = keys w"
    "lk_name ` set ks = lk_name ` set (acc @ xs) \<union> (\<Union>pid \<in> set pids. keys w pid n)" by simp_all
  with law show ?case by (auto simp: image_Un)
qed simp

text \<open>
  The answer to \<open>ListClients\<close>. If the providers can list their clients, the core provider answers
  with the applications that have a key with some provider: each once, and in sorted order. Listing
  changes no key.
\<close>

lemma core_list_clients_exact:
  assumes "sure_key_providers I keys (cp_prov_list self) pids" and "I w"
  shows "\<exists>cs w'. core_list_clients self w = (Inr cs, w') \<and> sorted cs \<and> distinct cs \<and>
    set cs = clients_of keys pids w \<and> keys w' = keys w"
proof -
  obtain cs w' where run: "append_all p_list_clients (cp_prov_list self) [] w = (cs, w')" by fastforce
  have "set cs = clients_of keys pids w" "keys w' = keys w"
    using append_all_clients_sure [OF assms run] append_all_clients [OF sure_key_providersD [OF assms(1)] assms(2) run]
    by simp_all
  moreover have "sorted (remdups_adj (sort cs))" "distinct (remdups_adj (sort cs))"
    by (simp_all add: sorted_remdups_adj distinct_remdups_adj_sort)
  ultimately show ?thesis using run by (simp add: core_list_clients_def)
qed

text \<open>A core provider with the provider on the small key store behind it.\<close>

definition toy_core :: "(on_disk_manager, (u32, bytes) hash_map) mbed_state core_provider" where
  "toy_core = \<lparr>wire_protocol_version_min = 0, wire_protocol_version_maj = 1, cp_provider_info = [],
     cp_provider_opcodes = [], cp_authenticator_info = [], cp_prov_list = [mbed_provide toy_provider]\<rparr>"

lemma toy_core_providers:
  "sure_key_providers (mbed_disk_inv sample_codec toy_provider toy_keys id) (mbed_names odm_abs)
     (cp_prov_list toy_core) [MbedCrypto]"
  by (simp add: toy_core_def mbed_sure.sure_key_provider_axioms)

lemma core_list_clients_exact_witness:
  "\<exists>w w' cs. core_list_clients toy_core w = (Inr cs, w') \<and> ''app'' \<in> set cs \<and> sorted cs \<and> distinct cs"
proof -
  obtain w where w: "mbed_disk_inv sample_codec toy_provider toy_keys id w"
    "odm_abs (ms_kim w) (key_triple_new ''app'' MbedCrypto ''k'') \<noteq> None"
    using toy_key_state by blast
  then have "''app'' \<in> clients_of (mbed_names odm_abs) [MbedCrypto] w"
    by (auto simp: clients_of_def mbed_names_def names_of_def)
  with core_list_clients_exact [OF toy_core_providers w(1)] show ?thesis by auto
qed

text \<open>
  The answer to \<open>ListKeys\<close> from the core provider. If the providers can list their keys, the names in
  the answer are those of the keys the application has with some provider.
\<close>

lemma core_list_keys_exact:
  assumes "sure_key_providers I keys (cp_prov_list self) pids" and "I w"
  shows "\<exists>ks w'. core_list_keys self n w = (Inr ks, w') \<and> keys w' = keys w \<and>
    lk_name ` set ks = (\<Union>pid \<in> set pids. keys w pid n)"
proof -
  obtain ks w' where run: "append_all (\<lambda>p. p_list_keys p n) (cp_prov_list self) [] w = (ks, w')" by fastforce
  from append_all_keys_sure [OF assms run] run show ?thesis by (simp add: core_list_keys_def)
qed

lemma core_list_keys_exact_witness:
  "\<exists>w w' ks. core_list_keys toy_core ''app'' w = (Inr ks, w') \<and> ''k'' \<in> lk_name ` set ks"
proof -
  obtain w where w: "mbed_disk_inv sample_codec toy_provider toy_keys id w"
    "odm_abs (ms_kim w) (key_triple_new ''app'' MbedCrypto ''k'') \<noteq> None"
    using toy_key_state by blast
  then have "''k'' \<in> (\<Union>pid \<in> set [MbedCrypto]. mbed_names odm_abs w pid ''app'')"
    by (auto simp: mbed_names_def names_of_def)
  with core_list_keys_exact [OF toy_core_providers w(1), of "''app''"] show ?thesis by metis
qed



end
