(* ===== verification/Pkcs11_Properties.thy ===== *)
theory Pkcs11_Properties
  imports Pkcs11_Start Mbed_Crypto_Properties
begin

text \<open>
  The properties of the PKCS 11 provider with the on-disk key info manager: the contracts that the back end and the core provider
  rely on, the choice of key numbers, the states that the provider reaches after its start, and the
  operations that it runs in software.
\<close>

section \<open>The contracts of a provider\<close>

interpretation pkcs: tenant_isolation "p11_provide self" "p11_inv (on_disk_impl c) odm_inv odm_abs self objs"
    "p11_view odm_abs self objs"
  for self :: "(on_disk_manager, 't, 'g, 'b, 'id) p11_provider" and c objs
  by (rule odm.p11_isolated)

interpretation pkcs_keys: key_provider "p11_provide self" "p11_inv (on_disk_impl c) odm_inv odm_abs self objs"
    "p11_names odm_abs" Pkcs11
  for self :: "(on_disk_manager, 't, 'g, 'b, 'id) p11_provider" and c objs
  by (rule odm.p11_key_provider)

section \<open>A small token\<close>

text \<open>
  Objects by handle; an object with two identifiers does not exist. Templates with two identifiers are refused, and a new handle is larger
  than all others. The random numbers count up from the state of the generator, and the software implementation has room for one volatile key.
\<close>

type_synonym toy_token = "(ck_number \<times> p11_attribute list) list"

definition id_count :: "p11_attribute list \<Rightarrow> nat" where
  "id_count as = length (filter (\<lambda>a. case a of AId _ \<Rightarrow> True | _ \<Rightarrow> False) as)"

definition toy_objects :: "toy_token \<Rightarrow> p11_objects" where
  "toy_objects t h = (case map_of t h of None \<Rightarrow> None | Some as \<Rightarrow> if id_count as \<le> 1 then Some as else None)"

definition toy_handle :: "toy_token \<Rightarrow> ck_number" where
  "toy_handle t = Suc (sum_list (map fst t))"

definition toy_object :: "p11_attribute list \<Rightarrow> (toy_token, cryptoki_error, ck_number) rust_op" where
  "toy_object template t =
     (if id_count template \<le> 1 then (Inr (toy_handle t), (toy_handle t, template) # t) else (Inl (OtherCryptokiError 0), t))"

definition toy_pair :: "p11_attribute list \<Rightarrow> p11_attribute list \<Rightarrow> (toy_token, cryptoki_error, ck_number \<times> ck_number) rust_op" where
  "toy_pair pub priv t =
     (if id_count pub \<le> 1 \<and> id_count priv \<le> 1
      then let t1 = (toy_handle t, pub) # t in (Inr (toy_handle t, toy_handle t1), (toy_handle t1, priv) # t1)
      else (Inl (OtherCryptokiError 0), t))"

definition toy_find :: "p11_attribute list \<Rightarrow> toy_token \<Rightarrow> ck_number list" where
  "toy_find template t =
     filter (\<lambda>h. case toy_objects t h of None \<Rightarrow> False | Some as \<Rightarrow> list_all (\<lambda>a. a \<in> set as) template) (map fst t)"

definition toy_cryptoki :: "toy_token cryptoki" where
  "toy_cryptoki =
     \<lparr>ck_new = (\<lambda>_. ok_op ()), ck_initialize = ok_op (), ck_set_pin = (\<lambda>_ _. ok_op ()), ck_open_session = (\<lambda>_ _ _. ok_op 1),
      ck_login = (\<lambda>_. ok_op ()), ck_close_session = (\<lambda>_ t. t), ck_find_objects = (\<lambda>_ template t. (Inr (toy_find template t), t)),
      ck_generate_key_pair = (\<lambda>_ _. toy_pair), ck_create_object = (\<lambda>_. toy_object),
      ck_destroy_object = (\<lambda>_ h t. (Inr (), filter (\<lambda>x. fst x \<noteq> h) t)),
      ck_get_attributes = (\<lambda>_ _ _. ok_op [AModulus [1, 2], APublicExponent [1, 0, 1]]), ck_sign = (\<lambda>_ _ _. ok_op), ck_verify = (\<lambda>_ _ _ _ _. ok_op ()),
      ck_encrypt = (\<lambda>_ _ _. ok_op), ck_decrypt = (\<lambda>_ _ _. ok_op), slot_try_from = (\<lambda>n. Some (unat n)), ulong_try_from = Inr,
      mechanism_try_from = (\<lambda>_. Inr (OtherMechanism 0)), mechanism_type_of = (\<lambda>_. RSA_PKCS),
      status_from_int = (\<lambda>_. PsaErrorGenericError), status_from_slice = (\<lambda>_. PsaErrorGenericError),
      status_from_nul = (\<lambda>_. PsaErrorGenericError)\<rparr>"

definition toy_soft :: "((u32, bytes) hash_map, u32) psa_crypto" where
  "toy_soft = toy_psa\<lparr>psa_import := (\<lambda>_ _ d b. if hm_get b 0 = None then (Inr 0, hm_insert 0 d b) else (Inl (OtherPsaError 0), b)),
     psa_verify_hash := (\<lambda>_ _ h s b. (if h = s then Inr () else Inl (OtherPsaError 1), b))\<rparr>"

definition toy_p11 :: "(on_disk_manager, toy_token, u32, (u32, bytes) hash_map, u32) p11_provider" where
  "toy_p11 =
     \<lparr>pk_key_info_store = build_client \<lparr>kf_impl = on_disk_impl sample_codec\<rparr> Pkcs11, pk_backend = toy_cryptoki, pk_slot_number = 0,
      pk_software_public_operations = True, pk_allow_export = False, pk_random = (\<lambda>g. (g, g + 1)), pk_psa = toy_soft,
      pk_interface = sample_asym_interface, pk_asn1 = sample_asn1, pk_id_codec = u32_codec, pk_uuid_parse = (\<lambda>_. Some [])\<rparr>"

definition toy_p11_state :: "on_disk_manager \<Rightarrow> toy_token \<Rightarrow> u32 set \<Rightarrow> (on_disk_manager, toy_token, u32, (u32, bytes) hash_map) p11_state" where
  "toy_p11_state m t ids = \<lparr>ps_kim = m, ps_local_ids = ids, ps_stuck = False, ps_token = t, ps_rng = 5, ps_psa = []\<rparr>"

lemma toy_handle_fresh: "map_of t (toy_handle t) = None"
proof -
  have "toy_handle t \<notin> fst ` set t"
    using member_le_sum_list [of _ "map fst t"] by (fastforce simp: toy_handle_def)
  then show ?thesis by (simp add: map_of_eq_None_iff)
qed

lemma toy_objects_Cons: "id_count as \<le> 1 \<Longrightarrow> toy_objects ((h, as) # t) = (toy_objects t)(h \<mapsto> as)"
  by (auto simp: toy_objects_def fun_eq_iff)

lemma toy_objects_filter: "toy_objects (filter (\<lambda>x. fst x \<noteq> h) t) = (toy_objects t)(h := None)"
proof
  fix h'
  have "map_of (filter (\<lambda>x. fst x \<noteq> h) t) h' = (if h' = h then None else map_of t h')" by (induction t) auto
  then show "toy_objects (filter (\<lambda>x. fst x \<noteq> h) t) h' = ((toy_objects t)(h := None)) h'" by (simp add: toy_objects_def)
qed

lemma id_count_single:
  assumes "id_count as \<le> 1" and "AId i \<in> set as" and "AId j \<in> set as"
  shows "i = j"
proof -
  obtain xs ys where as: "as = xs @ AId i # ys" using split_list [OF assms(2)] by blast
  let ?n = "\<lambda>zs. length (filter (\<lambda>a. case a of AId _ \<Rightarrow> True | _ \<Rightarrow> False) zs)"
  have "?n xs = 0" "?n ys = 0" using assms(1) unfolding as id_count_def by simp_all
  then have "AId j \<notin> set xs" "AId j \<notin> set ys" by (auto simp: filter_empty_conv)
  with assms(3) show ?thesis unfolding as by simp
qed

lemma toy_find_set: "set (toy_find template t) = {h. \<exists>as. toy_objects t h = Some as \<and> set template \<subseteq> set as}"
proof -
  have "h \<in> fst ` set t" if "toy_objects t h = Some as" for h as
    using that by (auto simp: toy_objects_def split: option.splits dest!: map_of_SomeD intro: rev_image_eqI)
  then show ?thesis by (auto simp: toy_find_def list_all_iff split: option.splits)
qed

lemma toy_token_ok: "token_contract toy_cryptoki toy_objects"
proof -
  have fresh: "toy_objects t (toy_handle t) = None" for t by (simp add: toy_objects_def toy_handle_fresh)
  have fresh2: "toy_objects t (toy_handle ((h, as) # t)) = None" for t h as
    using toy_handle_fresh [of "(h, as) # t"] by (simp add: toy_objects_def split: if_splits)
  have ne: "toy_handle t \<noteq> toy_handle ((toy_handle t, as) # t)" for t as by (simp add: toy_handle_def)
  have "ck_finds toy_cryptoki toy_objects" by (simp add: ck_finds_def toy_cryptoki_def toy_find_set)
  moreover have "ck_creates toy_cryptoki toy_objects"
    by (auto simp: ck_creates_def toy_cryptoki_def toy_object_def toy_objects_Cons fresh split: if_splits)
  moreover have "ck_generates toy_cryptoki toy_objects"
    by (auto simp: ck_generates_def toy_cryptoki_def toy_pair_def Let_def toy_objects_Cons fresh fresh2 ne split: if_splits)
  moreover have "ck_destroys toy_cryptoki toy_objects" by (simp add: ck_destroys_def toy_cryptoki_def toy_objects_filter)
  moreover have "single_id (toy_objects t)" for t
    by (auto simp: single_id_def toy_objects_def split: option.splits if_splits dest: id_count_single [unfolded One_nat_def])
  ultimately show ?thesis by (simp add: token_contract_def ck_leaves_def toy_cryptoki_def ok_op_def)
qed

lemma toy_p11_setup: "p11_setup (on_disk_impl sample_codec) toy_p11 toy_objects"
  by (simp add: p11_setup_def toy_p11_def build_client_def toy_token_ok u32_codec_ok)

section \<open>Key numbers\<close>

lemma draw_key_id_None:
  assumes "\<And>n. fst (nth_draw random (k, g) n) \<in> ids"
  shows "draw_key_id random ids k g = None"
proof (cases "draw_key_id random ids k g")
  case (Some y)
  from draw_key_id_first [OF Some] assms show ?thesis by (auto simp: first_free_def)
qed

text \<open>
  C9: the search for a key number. If the generator ever gives a number that is not in use, \<open>create_key_id\<close> returns: its
  answer is the first free number among the draws, this number is then in use, and nothing else has changed but
  the generator. If every number that the generator gives is in use, the call does not return and no later call gets
  a number.
\<close>

theorem p11_create_key_id_returns:
  assumes "\<not> ps_stuck w"
  shows "if \<exists>n. fst (nth_draw (pk_random self) (pk_random self (ps_rng w)) n) \<notin> ps_local_ids w
    then \<exists>k g. p11_create_key_id self w = (Inr k, w\<lparr>ps_local_ids := insert k (ps_local_ids w), ps_rng := g\<rparr>) \<and>
      first_free (pk_random self) (ps_local_ids w) (pk_random self (ps_rng w)) (k, g)
    else ps_stuck (snd (p11_create_key_id self w)) \<and>
      p11_create_key_id self (snd (p11_create_key_id self w)) = (Inl PsaErrorGenericError, snd (p11_create_key_id self w))"
proof -
  obtain k0 g0 where r: "pk_random self (ps_rng w) = (k0, g0)" by fastforce
  show ?thesis
  proof (cases "\<exists>n. fst (nth_draw (pk_random self) (k0, g0) n) \<notin> ps_local_ids w")
    case True
    then obtain n where "fst (nth_draw (pk_random self) (k0, g0) n) \<notin> ps_local_ids w" by blast
    from draw_key_id_returns [OF this] obtain k g where d: "draw_key_id (pk_random self) (ps_local_ids w) k0 g0 = Some (k, g)" by auto
    then have "p11_create_key_id self w = (Inr k, w\<lparr>ps_local_ids := insert k (ps_local_ids w), ps_rng := g\<rparr>)"
      using r assms by (simp add: p11_create_key_id_def)
    with draw_key_id_first [OF d] True r show ?thesis by auto
  next
    case False
    then have "draw_key_id (pk_random self) (ps_local_ids w) k0 g0 = None" by (intro draw_key_id_None) blast
    with False r assms show ?thesis by (simp add: p11_create_key_id_def)
  qed
qed

theorem p11_create_key_id_returns_witness:
  "\<exists>w'. p11_create_key_id toy_p11 (toy_p11_state sample_manager [] {5, 6}) = (Inr 7, w') \<and> ps_local_ids w' = {5, 6, 7}"
proof -
  let ?w = "toy_p11_state sample_manager [] {5, 6}"
  have free: "\<exists>n. fst (nth_draw (pk_random toy_p11) (pk_random toy_p11 (ps_rng ?w)) n) \<notin> ps_local_ids ?w"
    by (intro exI [of _ 2]) (simp add: toy_p11_def toy_p11_state_def numeral_2_eq_2)
  have "\<not> ps_stuck ?w" by (simp add: toy_p11_state_def)
  from p11_create_key_id_returns [OF this, of toy_p11] free obtain k g where
    c: "p11_create_key_id toy_p11 ?w = (Inr k, ?w\<lparr>ps_local_ids := insert k (ps_local_ids ?w), ps_rng := g\<rparr>)"
    "first_free (pk_random toy_p11) (ps_local_ids ?w) (pk_random toy_p11 (ps_rng ?w)) (k, g)" by auto
  from c(2) obtain n where n: "(k, g) = nth_draw (\<lambda>g. (g, g + 1)) (5, 6) n" "k \<notin> {5, 6}"
    "\<And>m. m < n \<Longrightarrow> fst (nth_draw (\<lambda>g. (g, g + 1)) (5 :: u32, 6) m) \<in> {5, 6}"
    by (auto simp: first_free_def toy_p11_def toy_p11_state_def)
  have "n \<noteq> 0" using n(1,2) by (cases n) auto
  moreover have "n \<noteq> 1"
  proof
    assume "n = 1"
    with n(1,2) show False by simp
  qed
  moreover have "\<not> 2 < n" using n(3) [of 2] by (auto simp: numeral_2_eq_2)
  ultimately have "n = 2" by linarith
  with n(1) have "k = 7" by (simp add: numeral_2_eq_2)
  with c(1) show ?thesis by (auto simp: toy_p11_state_def)
qed

section \<open>Creating keys\<close>

text \<open>
  C14: generating a key pair in the token. If \<open>psa_generate_key\<close> returns \<open>Ok\<close>, the name was free and the type is not a public one; the
  number of the key was not in use and is now; exactly two objects with this number and one mapping have been
  added; the private key is a token object that can be extracted only if the policy and the configuration of the provider
  both allow it, and is sensitive otherwise. If it fails, every mapping is what it was. In both cases the invariant
  and what other applications see are kept.
\<close>

theorem p11_generate_key_exact:
  assumes "p11_inv (on_disk_impl c) odm_inv odm_abs self objs w" and "p11_generate_key self app op w = (r, w')"
  shows "p11_inv (on_disk_impl c) odm_inv odm_abs self objs w' \<and>
    (\<forall>n. n \<noteq> app \<longrightarrow> p11_view odm_abs self objs n w' = p11_view odm_abs self objs n w) \<and>
    (case r of
       Inl e \<Rightarrow> odm_abs (ps_kim w') = odm_abs (ps_kim w)
     | Inr u \<Rightarrow> \<not> key_is_public (pk_interface self) (attr_key_type (gk_attributes op)) \<and>
         (\<exists>k public private as extractable.
            p11_created odm_abs self objs (p11_triple app (gk_key_name op)) (gk_attributes op) k {public, private} w w' \<and>
            public \<noteq> private \<and> objs (ps_token w') private = Some as \<and>
            {AId (u32_to_be_bytes k), AToken True, AExtractable extractable, ASensitive (\<not> extractable)} \<subseteq> set as \<and>
            (extractable \<longleftrightarrow> uf_export (usage_flags (gk_attributes op))) \<and> (extractable \<longrightarrow> pk_allow_export self)))"
proof -
  note R = odm.p11_generate_key_result [OF assms]
  show ?thesis
  proof (cases r)
    case (Inr u)
    with R obtain k x h1 h2 where
      t: "generate_templates self k (gk_attributes op) = Inr x" and
      p: "pair_made k x (h1, h2) (objs (ps_token w)) (objs (ps_token w'))" and
      cr: "p11_created odm_abs self objs (p11_triple app (gk_key_name op)) (gk_attributes op) k {h1, h2} w w'"
      by auto
    obtain mech pub priv where x: "x = (mech, pub, priv)" by (cases x)
    let ?e = "uf_export (usage_flags (gk_attributes op))"
    have "{AId (u32_to_be_bytes k), AToken True, AExtractable ?e, ASensitive (\<not> ?e)} \<subseteq> set priv"
      using t unfolding x
      by (auto simp: generate_templates_def Let_def try_res_def key_pair_usage_flags_to_pkcs11_attributes_def
          split: sum.splits key_type.splits)
    moreover obtain as where "h1 \<noteq> h2" "objs (ps_token w') h2 = Some as" "set priv \<subseteq> set as"
      using p unfolding pair_made_def x by auto
    ultimately have "\<exists>k public private as extractable.
        p11_created odm_abs self objs (p11_triple app (gk_key_name op)) (gk_attributes op) k {public, private} w w' \<and>
        public \<noteq> private \<and> objs (ps_token w') private = Some as \<and>
        {AId (u32_to_be_bytes k), AToken True, AExtractable extractable, ASensitive (\<not> extractable)} \<subseteq> set as \<and>
        (extractable \<longleftrightarrow> ?e) \<and> (extractable \<longrightarrow> pk_allow_export self)"
      using cr R Inr by (intro exI [of _ k] exI [of _ h1] exI [of _ h2] exI [of _ as] exI [of _ ?e]) auto
    with R Inr show ?thesis by simp
  qed (use R in simp)
qed

lemma toy_p11_inv:
  assumes "odm_inv m" and "p11_numbered u32_codec (odm_abs m) ids"
  shows "p11_inv (on_disk_impl sample_codec) odm_inv odm_abs toy_p11 toy_objects (toy_p11_state m t ids)"
proof -
  have "pk_id_codec toy_p11 = u32_codec" by (simp add: toy_p11_def)
  with assms toy_p11_setup show ?thesis by (simp add: p11_inv_def toy_p11_state_def)
qed

lemma numbered_empty: "p11_numbered codec (\<lambda>_. None) ids"
  by (simp add: p11_numbered_def decodable_def unshared_def)

lemma toy_p11_session: "with_session toy_p11 f w = f 1 w"
  by (simp add: with_session_def new_session_def try_op_def on_token_def map_err_def toy_p11_def toy_cryptoki_def ok_op_def
      close_session_def split: prod.splits)

lemma toy_p11_generate:
  "\<exists>w'. p11_generate_key toy_p11 ''app'' \<lparr>gk_key_name = ''k'', gk_attributes = sample_attributes\<rparr> (toy_p11_state sample_manager [] {}) =
     (Inr (), w')"
proof -
  let ?kt = "p11_triple ''app'' ''k''" and ?w = "toy_p11_state sample_manager [] {}"
  note S = p11_setupD [OF toy_p11_setup]
  have free: "odm_abs sample_manager ?kt = None" by (simp add: sample_manager_empty)
  have dne: "does_not_exist (pk_key_info_store toy_p11) (ps_kim ?w) ?kt = Inr ()"
    using odm.does_not_exist_total [OF sample_facts(3) S(1), of ?kt] free by (simp add: domIff toy_p11_state_def)
  have cid: "p11_create_key_id toy_p11 ?w = (Inr 5, ?w\<lparr>ps_local_ids := {5}, ps_rng := 6\<rparr>)"
    by (simp add: p11_create_key_id_def toy_p11_def toy_p11_state_def draw_key_id.simps)
  obtain pub priv where tmpl: "generate_templates toy_p11 5 sample_attributes = Inr (RsaPkcsKeyPairGen, pub, priv)"
      "id_count pub \<le> 1" "id_count priv \<le> 1"
    by (simp add: generate_templates_def toy_p11_def toy_cryptoki_def map_err_def try_res_def Let_def sample_attributes_def
        key_pair_usage_flags_to_pkcs11_attributes_def id_count_def)
  obtain hs t where pair: "toy_pair pub priv [] = (Inr hs, t)" using tmpl by (simp add: toy_pair_def Let_def)
  obtain bs where ser: "id_serialize (pk_id_codec toy_p11) 5 = Inr bs" by (simp add: toy_p11_def u32_codec_def)
  obtain m where ins: "insert_key_info (pk_id_codec toy_p11) (pk_key_info_store toy_p11) ?kt 5 sample_attributes sample_manager = (Inr (), m)"
    using insert_key_info_quiet [OF sample_codec_ok sample_facts(1-3) S(1) free ser, of sample_attributes]
      sample_valid_insert [of Pkcs11 bs] unfolding p11_triple_def by blast
  have "\<not> key_is_public (pk_interface toy_p11) (attr_key_type sample_attributes)" "\<not> uf_export (usage_flags sample_attributes)"
    by (simp_all add: toy_p11_def sample_asym_interface_def sample_attributes_def)
  moreover have "ck_generate_key_pair (pk_backend toy_p11) 1 RsaPkcsKeyPairGen pub priv [] = (Inr hs, t)"
    using pair by (simp add: toy_p11_def toy_cryptoki_def)
  ultimately show ?thesis
    using dne cid tmpl(1) ins
    by (cases hs) (simp add: p11_generate_key_def Let_def toy_p11_session try_op_def p11_ask_kim_def read_op_def on_token_def map_err_def
        p11_store_new_key_def p11_on_kim_def toy_p11_state_def)
qed

theorem p11_generate_key_exact_witness:
  "\<exists>w' k public private as.
     p11_generate_key toy_p11 ''app'' \<lparr>gk_key_name = ''k'', gk_attributes = sample_attributes\<rparr> (toy_p11_state sample_manager [] {}) =
       (Inr (), w') \<and>
     p11_created odm_abs toy_p11 toy_objects (p11_triple ''app'' ''k'') sample_attributes k {public, private}
       (toy_p11_state sample_manager [] {}) w' \<and>
     toy_objects (ps_token w') private = Some as \<and> ASensitive True \<in> set as"
proof -
  let ?w = "toy_p11_state sample_manager [] {}"
  obtain w' where g: "p11_generate_key toy_p11 ''app'' \<lparr>gk_key_name = ''k'', gk_attributes = sample_attributes\<rparr> ?w = (Inr (), w')"
    using toy_p11_generate by blast
  have w: "p11_inv (on_disk_impl sample_codec) odm_inv odm_abs toy_p11 toy_objects ?w"
    by (rule toy_p11_inv) (simp_all add: sample_facts sample_manager_empty numbered_empty)
  have "\<not> uf_export (usage_flags sample_attributes)" by (simp add: sample_attributes_def)
  with p11_generate_key_exact [OF w g] obtain k h1 h2 as where
    "p11_created odm_abs toy_p11 toy_objects (p11_triple ''app'' ''k'') sample_attributes k {h1, h2} ?w w'"
    "toy_objects (ps_token w') h2 = Some as" "ASensitive True \<in> set as" by auto
  with g show ?thesis by blast
qed

section \<open>From the start on\<close>

text \<open>
  C13: start-up of the PKCS 11 provider. With a token that answers and a disk without faults the provider starts. It keeps
  exactly the mappings of its keys that are in the token, every mapping of the other providers and every object;
  the numbers in use are those of the kept mappings, and the invariant holds.
\<close>

theorem p11_start_exact:
  assumes "p11_setup (on_disk_impl c) self objs" and "clear_errors self" and "odm_inv m"
    and "base64_ok c" and "synced c m" and "quiet (odm_disk m)"
    and "token_answers (pk_backend self)" and "\<And>b. \<not> isl (fst (psa_init (pk_psa self) b))"
    and "unshared Pkcs11 (pk_id_codec self) (odm_abs m)"
  shows "\<exists>w w'. p11_new self pin m t g b = (Started w, w') \<and> p11_inv (on_disk_impl c) odm_inv odm_abs self objs w \<and>
    objs (ps_token w) = objs t \<and>
    (\<forall>kt. odm_abs (ps_kim w) kt =
       (if kt_provider_id kt = Pkcs11 \<and> \<not> p11_live (pk_id_codec self) (odm_abs m) (objs t) kt then None else odm_abs m kt)) \<and>
    ps_local_ids w = {k. present (objs t) k \<and> (\<exists>kt. key_number Pkcs11 (pk_id_codec self) (odm_abs m) kt = Some k)}"
proof -
  obtain w w' where run: "p11_new self pin m t g b = (Started w, w')"
    using p11_new_total [OF assms(1-8)] by blast
  from odm.p11_new_result [OF assms(1-3,9) run] run show ?thesis by (auto simp: live_mappings_def live_numbers_def)
qed

lemma toy_p11_clear: "clear_errors toy_p11" "token_answers (pk_backend toy_p11)" "\<not> isl (fst (psa_init (pk_psa toy_p11) b))"
  by (auto simp: clear_errors_def token_answers_def toy_p11_def toy_cryptoki_def ok_op_def u32_codec_def toy_soft_def toy_psa_def
      split: list.splits)

theorem p11_start_exact_witness:
  "\<exists>w w'. p11_new toy_p11 (Some ''1234'') sample_manager [] 5 [] = (Started w, w') \<and>
     p11_inv (on_disk_impl sample_codec) odm_inv odm_abs toy_p11 toy_objects w \<and> ps_local_ids w = {}"
proof -
  have "unshared Pkcs11 (pk_id_codec toy_p11) (odm_abs sample_manager)" by (simp add: unshared_def sample_manager_empty)
  from p11_start_exact [OF toy_p11_setup toy_p11_clear(1) sample_facts(3) sample_codec_ok sample_facts(1,2) toy_p11_clear(2,3) this,
      of "Some ''1234''" "[]" 5 "[]"]
  show ?thesis by (auto simp: sample_manager_empty)
qed

text \<open>One request of any application, whatever its outcome.\<close>

inductive p11_step ::
  "('m, 't, 'g, 'b, 'id) p11_provider \<Rightarrow> ('m, 't, 'g, 'b) p11_state \<Rightarrow> ('m, 't, 'g, 'b) p11_state \<Rightarrow> bool" for self where
  step_generate: "p11_generate_key self app op w = (r, w') \<Longrightarrow> p11_step self w w'"
| step_import: "p11_import_key self app op w = (r, w') \<Longrightarrow> p11_step self w w'"
| step_export: "p11_export_public_key self app name w = (r, w') \<Longrightarrow> p11_step self w w'"
| step_destroy: "p11_destroy_key self app name w = (r, w') \<Longrightarrow> p11_step self w w'"
| step_sign: "p11_sign_hash self app op w = (r, w') \<Longrightarrow> p11_step self w w'"
| step_verify: "p11_psa_verify_hash self app op w = (r, w') \<Longrightarrow> p11_step self w w'"
| step_encrypt: "p11_psa_asymmetric_encrypt self app op w = (r, w') \<Longrightarrow> p11_step self w w'"
| step_decrypt: "p11_asymmetric_decrypt self app op w = (r, w') \<Longrightarrow> p11_step self w w'"
| step_list_keys: "p11_list_keys self app w = (r, w') \<Longrightarrow> p11_step self w w'"
| step_list_clients: "p11_list_clients self w = (r, w') \<Longrightarrow> p11_step self w w'"

lemma keeps_inv: "keeps I view V f \<Longrightarrow> f w = (r, w') \<Longrightarrow> I w \<Longrightarrow> I w'"
  by (auto simp: keeps_def)

lemma p11_step_inv:
  assumes "p11_step self w w'" and "p11_inv (on_disk_impl c) odm_inv odm_abs self objs w"
  shows "p11_inv (on_disk_impl c) odm_inv odm_abs self objs w'"
proof -
  note ops = pkcs.iso_app [where self = self and c = c and objs = objs, unfolded p11_provide_def default_provide_def, simplified]
  from assms(1) show ?thesis
  proof cases
    case (step_generate app op r)
    then show ?thesis by (rule keeps_inv [OF ops(2) _ assms(2)])
  next
    case (step_import app op r)
    then show ?thesis by (rule keeps_inv [OF ops(3) _ assms(2)])
  next
    case (step_export app name r)
    then show ?thesis by (rule keeps_inv [OF ops(4) _ assms(2)])
  next
    case (step_destroy app name r)
    then show ?thesis by (rule keeps_inv [OF ops(6) _ assms(2)])
  next
    case (step_sign app op r)
    then show ?thesis by (rule keeps_inv [OF ops(7) _ assms(2)])
  next
    case (step_verify app op r)
    then show ?thesis by (rule keeps_inv [OF ops(8) _ assms(2)])
  next
    case (step_encrypt app op r)
    then show ?thesis by (rule keeps_inv [OF ops(9) _ assms(2)])
  next
    case (step_decrypt app op r)
    then show ?thesis by (rule keeps_inv [OF ops(10) _ assms(2)])
  next
    case (step_list_keys app r)
    then show ?thesis by (rule keeps_inv [OF ops(1) _ assms(2)])
  next
    case (step_list_clients r)
    with assms(2) show ?thesis by (simp add: p11_list_clients_def p11_ask_kim_def)
  qed
qed

text \<open>
  C8: well-formed states. In every state that the provider reaches from its start by requests of any applications, the store is
  well formed, every mapping of the provider has a key number, this number is marked as used, and no two mappings have the
  same one.
\<close>

theorem p11_reachable_well_formed:
  assumes "p11_setup (on_disk_impl c) self objs" and "clear_errors self" and "odm_inv m"
    and "unshared Pkcs11 (pk_id_codec self) (odm_abs m)" and "p11_new self pin m t g b = (Started w0, w0')"
    and "(p11_step self)\<^sup>*\<^sup>* w0 w"
  shows "odm_inv (ps_kim w) \<and>
    (\<forall>kt \<in> dom (odm_abs (ps_kim w)). kt_provider_id kt = Pkcs11 \<longrightarrow>
       (\<exists>k \<in> ps_local_ids w. key_number Pkcs11 (pk_id_codec self) (odm_abs (ps_kim w)) kt = Some k \<and>
          (\<forall>kt'. key_number Pkcs11 (pk_id_codec self) (odm_abs (ps_kim w)) kt' = Some k \<longrightarrow> kt' = kt)))"
proof -
  have "p11_inv (on_disk_impl c) odm_inv odm_abs self objs w"
    using assms(6)
  proof (induction rule: rtranclp_induct)
    case base
    show ?case by (rule odm.p11_new_result(1) [OF assms(1-5)])
  qed (rule p11_step_inv)
  note D = p11_invD [OF this]
  show ?thesis
  proof (intro conjI ballI impI)
    fix kt assume "kt \<in> dom (odm_abs (ps_kim w))" "kt_provider_id kt = Pkcs11"
    then obtain k where k: "key_number Pkcs11 (pk_id_codec self) (odm_abs (ps_kim w)) kt = Some k"
      using p11_numberedD(1) [OF D(3)] unfolding decodable_def by blast
    with p11_numberedD(3) [OF D(3) k] unsharedD [OF p11_numberedD(2) [OF D(3)] _ k]
    show "\<exists>k \<in> ps_local_ids w. key_number Pkcs11 (pk_id_codec self) (odm_abs (ps_kim w)) kt = Some k \<and>
        (\<forall>kt'. key_number Pkcs11 (pk_id_codec self) (odm_abs (ps_kim w)) kt' = Some k \<longrightarrow> kt' = kt)" by blast
  qed (rule D(2))
qed

theorem p11_reachable_well_formed_witness:
  "\<exists>w0 w0' w k. p11_new toy_p11 None sample_manager [] 5 [] = (Started w0, w0') \<and> (p11_step toy_p11)\<^sup>*\<^sup>* w0 w \<and>
     key_number Pkcs11 (pk_id_codec toy_p11) (odm_abs (ps_kim w)) (p11_triple ''app'' ''k'') = Some k \<and> ps_local_ids w = {k}"
proof -
  note S = p11_setupD [OF toy_p11_setup]
  let ?kt = "p11_triple ''app'' ''k''" and ?op = "\<lparr>gk_key_name = ''k'', gk_attributes = sample_attributes\<rparr>"
  let ?w = "toy_p11_state sample_manager [] {}"
  have "kim_get_all (pk_key_info_store toy_p11) sample_manager = Inr []"
    using odm.kim_get_all_total [OF sample_facts(3) S(1)] sample_manager_empty by auto
  moreover have "psa_init (pk_psa toy_p11) [] = (Inr (), [])" by (simp add: toy_p11_def toy_soft_def toy_psa_def ok_op_def)
  ultimately have start: "p11_new toy_p11 None sample_manager [] 5 [] = (Started ?w, ?w)"
    by (simp add: p11_new_def toy_p11_session Let_def toy_p11_state_def)
  obtain w where g: "p11_generate_key toy_p11 ''app'' ?op ?w = (Inr (), w)" using toy_p11_generate by blast
  have un: "unshared Pkcs11 (pk_id_codec toy_p11) (odm_abs sample_manager)" by (simp add: unshared_def sample_manager_empty)
  have reach: "(p11_step toy_p11)\<^sup>*\<^sup>* ?w w" using step_generate [OF g] by blast
  have inv: "p11_inv (on_disk_impl sample_codec) odm_inv odm_abs toy_p11 toy_objects ?w"
    by (rule toy_p11_inv) (simp_all add: sample_facts sample_manager_empty numbered_empty)
  from odm.p11_generate_key_result [OF inv g] obtain k h1 h2 where
    "p11_created odm_abs toy_p11 toy_objects ?kt sample_attributes k {h1, h2} ?w w" by auto
  then have "?kt \<in> dom (odm_abs (ps_kim w))" "ps_local_ids w = {k}" by (auto simp: p11_created_def toy_p11_state_def)
  moreover from this(1) p11_reachable_well_formed [OF toy_p11_setup toy_p11_clear(1) sample_facts(3) un start reach]
  have "\<exists>k \<in> ps_local_ids w. key_number Pkcs11 (pk_id_codec toy_p11) (odm_abs (ps_kim w)) ?kt = Some k"
    by (metis p11_triple_sel(2))
  ultimately have "key_number Pkcs11 (pk_id_codec toy_p11) (odm_abs (ps_kim w)) ?kt = Some k \<and> ps_local_ids w = {k}" by simp
  with start reach show ?thesis by blast
qed

section \<open>Operations in software\<close>

text \<open>
  The volatile keys of the software implementation: importing without an identifier adds a new key or fails and adds none, destroying a key removes it, and using a
  key changes none.
\<close>

definition volatile_keys :: "('b, 'id) psa_crypto \<Rightarrow> ('b \<Rightarrow> 'id set) \<Rightarrow> bool" where
  "volatile_keys psa vol \<longleftrightarrow>
     (\<forall>attrs d b r b'. psa_import psa attrs None d b = (r, b') \<longrightarrow>
        (case r of Inl _ \<Rightarrow> vol b' = vol b | Inr k \<Rightarrow> k \<notin> vol b \<and> vol b' = insert k (vol b))) \<and>
     (\<forall>k b. k \<in> vol b \<longrightarrow> vol (snd (psa_destroy psa k b)) = vol b - {k}) \<and>
     (\<forall>k alg h s b. vol (snd (psa_verify_hash psa k alg h s b)) = vol b) \<and>
     (\<forall>k alg p salt out b. vol (snd (psa_encrypt psa k alg p salt out b)) = vol b)"

text \<open>Operations that do not use the software implementation.\<close>

definition leaves_psa :: "(('m, 't, 'g, 'b) p11_state \<Rightarrow> 'r \<times> ('m, 't, 'g, 'b) p11_state) \<Rightarrow> bool" where
  "leaves_psa f \<longleftrightarrow> (\<forall>w. ps_psa (snd (f w)) = ps_psa w)"

lemma leaves_psaD: "leaves_psa f \<Longrightarrow> f w = (r, w') \<Longrightarrow> ps_psa w' = ps_psa w"
  unfolding leaves_psa_def by (metis snd_conv)

lemma leaves_psa_simps [simp]:
  "leaves_psa (read_op f)" "leaves_psa (err_op e)" "leaves_psa (ok_op x)" "leaves_psa (p11_ask_kim g)" "leaves_psa (ck_res self r)"
  "leaves_psa (p11_key_id self app name)" "leaves_psa (p11_key_attributes self app name)" "leaves_psa (on_token self h)"
  by (simp_all add: leaves_psa_def read_op_def err_op_def ok_op_def p11_ask_kim_def ck_res_def p11_key_id_def p11_key_attributes_def
      on_token_def split: prod.splits)

lemma leaves_psa_try_op:
  assumes "leaves_psa f" and "\<And>x. leaves_psa (k x)"
  shows "leaves_psa (try_op f k)"
  unfolding leaves_psa_def
proof
  fix w
  obtain q w1 where f: "f w = (q, w1)" by fastforce
  with leaves_psaD [OF assms(1) f] assms(2) show "ps_psa (snd (try_op f k w)) = ps_psa w"
    by (cases q) (simp_all add: try_op_def leaves_psa_def)
qed

lemma leaves_psa_with_session:
  assumes "\<And>s. leaves_psa (f s)"
  shows "leaves_psa (with_session self f)"
proof -
  have "leaves_psa (new_session self)"
    unfolding new_session_def
    by (rule leaves_psa_try_op) (auto simp: leaves_psa_def on_token_def close_session_def split: prod.splits sum.splits)
  moreover have "leaves_psa (\<lambda>w. case f s w of (r, w') \<Rightarrow> (r, close_session self s w'))" for s
    using assms [of s] by (simp add: leaves_psa_def close_session_def split: prod.splits) (metis snd_conv)
  ultimately show ?thesis unfolding with_session_def by (rule leaves_psa_try_op)
qed

lemma leaves_psa_ops:
  "leaves_psa (p11_export_public_key self app name)" "leaves_psa (p11_verify_hash self app op1)"
  "leaves_psa (p11_asymmetric_encrypt self app op2)"
proof -
  have find: "leaves_psa (find_key self s k kp)" for s k kp
    unfolding find_key_def by (rule leaves_psa_try_op) (simp_all split: list.split)
  have exp: "leaves_psa (export_public_rsa self key s)" "leaves_psa (export_public_ec self key s)" for key s
    unfolding export_public_rsa_def export_public_ec_def by (simp_all add: leaves_psa_try_op)
  show "leaves_psa (p11_export_public_key self app name)"
    unfolding p11_export_public_key_def
    by (intro leaves_psa_try_op leaves_psa_with_session find leaves_psa_simps) (simp add: exp split: key_type.split)
  show "leaves_psa (p11_verify_hash self app op1)" "leaves_psa (p11_asymmetric_encrypt self app op2)"
    unfolding p11_verify_hash_def p11_asymmetric_encrypt_def
    by (intro leaves_psa_try_op leaves_psa_with_session find leaves_psa_simps)+
qed

text \<open>An operation that imports the public key, uses it and destroys it.\<close>

lemma software_leaves_no_key:
  assumes vol: "volatile_keys (pk_psa self) vol"
    and use: "\<And>k b. vol (snd (f k b)) = vol b"
  shows "vol (ps_psa (snd (try_op (move_pub_key_to_psa_crypto self app name) (\<lambda>k w.
    case on_soft self (f k) w of (res, w1) \<Rightarrow> (case remove_psa_crypto_pub_key self k w1 of (_, w2) \<Rightarrow> (h res, w2))) w))) = vol (ps_psa w)"
proof -
  obtain q w1 where m: "move_pub_key_to_psa_crypto self app name w = (q, w1)" by fastforce
  define prep where "prep = try_op (p11_export_public_key self app name) (\<lambda>data. try_op (p11_key_attributes self app name) (\<lambda>attrs.
    try_op (read_op (\<lambda>_. public_key_type (attr_key_type attrs))) (\<lambda>ty. ok_op (attrs\<lparr>attr_lifetime := Volatile, attr_key_type := ty\<rparr>, data))))"
  have lp: "leaves_psa prep" unfolding prep_def by (intro leaves_psa_try_op leaves_psa_ops leaves_psa_simps)
  obtain p w0 where p: "prep w = (p, w0)" by fastforce
  have psa0: "ps_psa w0 = ps_psa w" by (rule leaves_psaD [OF lp p])
  have split: "move_pub_key_to_psa_crypto self app name = try_op prep (\<lambda>(attrs, data). on_soft self (psa_import (pk_psa self) attrs None data))"
    by (simp add: move_pub_key_to_psa_crypto_def prep_def try_op_def ok_op_def fun_eq_iff split: prod.splits sum.splits)
  show ?thesis
  proof (cases p)
    case (Inl e)
    with m p have "q = Inl e" "w1 = w0" by (simp_all add: split try_op_def)
    with m psa0 show ?thesis by (simp add: try_op_def)
  next
    case (Inr x)
    obtain attrs data where x: "x = (attrs, data)" by (cases x)
    obtain i b where i: "psa_import (pk_psa self) attrs None data (ps_psa w) = (i, b)" by fastforce
    with m p Inr x psa0 have q: "q = map_err (response_status_from (pk_psa self)) i" "w1 = w0\<lparr>ps_psa := b\<rparr>"
      by (simp_all add: split try_op_def on_soft_def)
    have law: "case i of Inl _ \<Rightarrow> vol b = vol (ps_psa w) | Inr k \<Rightarrow> k \<notin> vol (ps_psa w) \<and> vol b = insert k (vol (ps_psa w))"
      using vol i by (simp add: volatile_keys_def)
    have destroy: "vol (snd (psa_destroy (pk_psa self) k b')) = vol b' - {k}" if "k \<in> vol b'" for k b'
      using vol that by (simp add: volatile_keys_def)
    show ?thesis
    proof (cases i)
      case (Inl e)
      with m q law show ?thesis by (simp add: try_op_def map_err_def)
    next
      case (Inr k)
      obtain res b2 where f: "f k b = (res, b2)" by fastforce
      obtain d b3 where d: "psa_destroy (pk_psa self) k b2 = (d, b3)" by fastforce
      have "vol b2 = insert k (vol (ps_psa w))" "k \<notin> vol (ps_psa w)" using use [of k b] f law Inr by simp_all
      moreover from this(1) have "vol b3 = vol b2 - {k}" using destroy [of k b2] d by simp
      ultimately have "vol b3 = vol (ps_psa w)" by simp
      with m q Inr f d show ?thesis by (simp add: try_op_def map_err_def on_soft_def remove_psa_crypto_pub_key_def)
    qed
  qed
qed

lemma try_op_pure:
  assumes "\<And>v. snd (f v) = v" and "\<And>x. Q (snd (k x w))" and "Q w"
  shows "Q (snd (try_op f k w))"
proof -
  obtain q v where f: "f w = (q, v)" by fastforce
  with assms(1) [of w] have "v = w" by simp
  with f assms(2,3) show ?thesis by (cases q) (simp_all add: try_op_def)
qed

lemma p11_pure_reads: "snd (p11_key_attributes self app n v) = v" "snd (read_op g v) = v"
  by (simp_all add: p11_key_attributes_def p11_ask_kim_def read_op_def)


text \<open>A stored RSA key with number 7, whose public object is in the token.\<close>

definition p11_one_key :: on_disk_manager where
  "p11_one_key = sample_manager\<lparr>key_store := [(p11_triple ''app'' ''k'', \<lparr>ki_id = u32_to_le_bytes 7, ki_attributes = sample_attributes\<rparr>)]\<rparr>"

definition p11_toy_verify :: verify_hash_op where
  "p11_toy_verify = \<lparr>vh_key_name = ''k'', vh_alg = RsaPkcs1v15Sign (Specific Sha256), vh_hash = [5, 6], vh_signature = [5, 6]\<rparr>"

lemma toy_volatile_keys: "volatile_keys toy_soft (\<lambda>b. {k. hm_get b k \<noteq> None})"
  by (auto simp: volatile_keys_def toy_soft_def toy_psa_def hm_simps err_op_def)


end
