(* ===== verification/Shared_Store.thy ===== *)
theory Shared_Store
  imports Key_Numbers
begin

text \<open>
  Providers that share one key info manager. In a service the providers that name the same manager in their configuration hold
  clients of one store (\<open>build_providers\<close> in \<open>src/src/utils/service_builder.rs\<close>), so what one of them writes is
  what the others read next. The theory says what a provider must promise for this to be safe: it writes mappings of its own
  only (\<open>framed_provider\<close>), and its invariant survives changes to the mappings of others (\<open>store_user\<close>). States
  of providers that share a store are pairs, and pairs of such states can be paired again, so that the result covers any
  number of providers.
\<close>

section \<open>Frames\<close>

text \<open>The mappings that do not belong to the providers in \<open>P\<close>.\<close>

definition outside :: "provider_id set \<Rightarrow> (key_triple \<Rightarrow> key_info option) \<Rightarrow> key_triple \<Rightarrow> key_info option" where
  "outside P f = (\<lambda>kt. if kt_provider_id kt \<in> P then None else f kt)"

lemma outside_upd [simp]: "kt_provider_id kt \<in> P \<Longrightarrow> outside P (f(kt := v)) = outside P f"
  by (auto simp: outside_def)

lemma outsideD: "outside P f = outside P g \<Longrightarrow> kt_provider_id kt \<notin> P \<Longrightarrow> f kt = g kt"
  unfolding outside_def by (metis (full_types))

text \<open>A step that keeps the store well formed and writes mappings of one provider only.\<close>

definition frames :: "('w \<Rightarrow> on_disk_manager) \<Rightarrow> provider_id \<Rightarrow> ('w \<Rightarrow> 'r \<times> 'w) \<Rightarrow> bool" where
  "frames kim pid f \<longleftrightarrow>
     (\<forall>w. odm_inv (kim w) \<longrightarrow>
        odm_inv (kim (snd (f w))) \<and> outside {pid} (odm_abs (kim (snd (f w)))) = outside {pid} (odm_abs (kim w)))"

named_theorems frame_rules

lemma framesD:
  "frames kim pid f \<Longrightarrow> odm_inv (kim w) \<Longrightarrow> f w = (r, w') \<Longrightarrow>
   odm_inv (kim w') \<and> outside {pid} (odm_abs (kim w')) = outside {pid} (odm_abs (kim w))"
  unfolding frames_def by (metis snd_conv)

lemma frames_same: "(\<And>w. kim (snd (f w)) = kim w) \<Longrightarrow> frames kim pid f"
  by (simp add: frames_def)

lemma frames_pure [frame_rules]:
  "frames kim pid (read_op f)" "frames kim pid (err_op e)" "frames kim pid (ok_op x)" "frames kim pid not_supported"
  by (simp_all add: frames_def read_op_def err_op_def ok_op_def not_supported_def)

lemma frames_try_op [frame_rules]:
  assumes "frames kim pid f" and "\<And>x. frames kim pid (k x)"
  shows "frames kim pid (try_op f k)"
  unfolding frames_def
proof (intro allI impI)
  fix w assume w: "odm_inv (kim w)"
  obtain q w1 where f: "f w = (q, w1)" by fastforce
  note F = framesD [OF assms(1) w f]
  show "odm_inv (kim (snd (try_op f k w))) \<and>
      outside {pid} (odm_abs (kim (snd (try_op f k w)))) = outside {pid} (odm_abs (kim w))"
  proof (cases q)
    case (Inr x)
    obtain r w2 where k: "k x w1 = (r, w2)" by fastforce
    from framesD [OF assms(2) conjunct1 [OF F] k] F Inr f k show ?thesis by (simp add: try_op_def)
  qed (use F f in \<open>simp add: try_op_def\<close>)
qed

lemma frames_if [frame_rules]: "frames kim pid f \<Longrightarrow> frames kim pid g \<Longrightarrow> frames kim pid (if b then f else g)"
  by simp

lemma frames_case_option [frame_rules]:
  "frames kim pid f \<Longrightarrow> (\<And>x. frames kim pid (g x)) \<Longrightarrow> frames kim pid (case y of None \<Rightarrow> f | Some x \<Rightarrow> g x)"
  by (cases y) simp_all

lemma frames_case_prod [frame_rules]: "(\<And>x y. frames kim pid (f x y)) \<Longrightarrow> frames kim pid (case z of (x, y) \<Rightarrow> f x y)"
  by (cases z) simp

text \<open>The two updates of a store, for a triple of the provider.\<close>

lemma insert_key_info_outside:
  assumes "odm_inv m" and "kc_impl client = on_disk_impl c" and "kt_provider_id kt = pid"
    and "insert_key_info codec client kt k attrs m = (r, m')"
  shows "odm_inv m' \<and> outside {pid} (odm_abs m') = outside {pid} (odm_abs m)"
proof -
  from assms(2,4) consider "m' = m" | info x where "mki_insert (on_disk_impl c) kt info m = (x, m')"
    by (auto simp: insert_key_info_def split: sum.splits option.splits prod.splits)
  then show ?thesis
  proof cases
    case (2 info x)
    then show ?thesis using odm.insert_ok [OF assms(1)] odm.insert_err [OF assms(1)] assms(3) by (cases x) auto
  qed (use assms(1) in simp)
qed

lemma remove_key_info_outside:
  assumes "odm_inv m" and "kc_impl client = on_disk_impl c" and "kt_provider_id kt = pid"
    and "remove_key_info client kt m = (r, m')"
  shows "odm_inv m' \<and> outside {pid} (odm_abs m') = outside {pid} (odm_abs m)"
proof -
  from assms(2,4) obtain x where "mki_remove (on_disk_impl c) kt m = (x, m')"
    by (auto simp: remove_key_info_def split: sum.splits option.splits prod.splits)
  then show ?thesis using odm.remove_ok [OF assms(1)] odm.remove_err [OF assms(1)] assms(3) by (cases x) auto
qed

section \<open>The contracts\<close>

text \<open>
  A component whose state contains the store, with the providers \<open>P\<close> whose mappings it writes: its invariant depends on the
  mappings of \<open>P\<close> only, and what it shows to an application depends, as far as the store is concerned, on the mappings of this application, which it
  shows.
\<close>

locale store_user =
  fixes inv :: "'w \<Rightarrow> bool"
    and view :: "application_name \<Rightarrow> 'w \<Rightarrow> 'v"
    and kim :: "'w \<Rightarrow> on_disk_manager"
    and set_kim :: "on_disk_manager \<Rightarrow> 'w \<Rightarrow> 'w"
    and P :: "provider_id set"
  assumes kim_set: "kim (set_kim m w) = m"
    and inv_store: "inv w \<Longrightarrow> odm_inv (kim w)"
    and inv_move: "inv w \<Longrightarrow> odm_inv m \<Longrightarrow>
      (\<And>kt. kt_provider_id kt \<in> P \<Longrightarrow> odm_abs m kt = odm_abs (kim w) kt) \<Longrightarrow> inv (set_kim m w)"
    and view_move: "inv w \<Longrightarrow> (\<And>kt. kt_app_name kt = n \<Longrightarrow> odm_abs m kt = odm_abs (kim w) kt) \<Longrightarrow>
      view n (set_kim m w) = view n w"
    and view_shows: "view n w = view n w' \<Longrightarrow> kt_app_name kt = n \<Longrightarrow> odm_abs (kim w) kt = odm_abs (kim w') kt"

locale framed_provider = store_user inv view kim set_kim P
  for p :: "'w provide" and inv :: "'w \<Rightarrow> bool" and view :: "application_name \<Rightarrow> 'w \<Rightarrow> 'v"
    and kim set_kim P +
  assumes framed: "tenant_isolation p inv (\<lambda>n w. (view n w, outside P (odm_abs (kim w))))"

section \<open>A provider as a part of the service\<close>

definition on_part :: "('v \<Rightarrow> 'w) \<Rightarrow> ('w \<Rightarrow> 'v \<Rightarrow> 'v) \<Rightarrow> ('w \<Rightarrow> 'r \<times> 'w) \<Rightarrow> 'v \<Rightarrow> 'r \<times> 'v" where
  "on_part get put f v = (case f (get v) of (r, w) \<Rightarrow> (r, put w v))"

definition provide_part :: "('v \<Rightarrow> 'w) \<Rightarrow> ('w \<Rightarrow> 'v \<Rightarrow> 'v) \<Rightarrow> 'w provide \<Rightarrow> 'v provide" where
  "provide_part get put p =
     \<lparr>p_describe = p_describe p,
      p_list_providers = on_part get put (p_list_providers p),
      p_list_opcodes = (\<lambda>x. on_part get put (p_list_opcodes p x)),
      p_list_authenticators = on_part get put (p_list_authenticators p),
      p_list_keys = (\<lambda>n. on_part get put (p_list_keys p n)),
      p_list_clients = on_part get put (p_list_clients p),
      p_delete_client = (\<lambda>x. on_part get put (p_delete_client p x)),
      p_ping = on_part get put (p_ping p),
      p_psa_generate_key = (\<lambda>n x. on_part get put (p_psa_generate_key p n x)),
      p_psa_import_key = (\<lambda>n x. on_part get put (p_psa_import_key p n x)),
      p_psa_export_public_key = (\<lambda>n x. on_part get put (p_psa_export_public_key p n x)),
      p_psa_export_key = (\<lambda>n x. on_part get put (p_psa_export_key p n x)),
      p_psa_destroy_key = (\<lambda>n x. on_part get put (p_psa_destroy_key p n x)),
      p_psa_sign_hash = (\<lambda>n x. on_part get put (p_psa_sign_hash p n x)),
      p_psa_verify_hash = (\<lambda>n x. on_part get put (p_psa_verify_hash p n x)),
      p_psa_asymmetric_encrypt = (\<lambda>n x. on_part get put (p_psa_asymmetric_encrypt p n x)),
      p_psa_asymmetric_decrypt = (\<lambda>n x. on_part get put (p_psa_asymmetric_decrypt p n x)),
      p_psa_aead_encrypt = (\<lambda>n x. on_part get put (p_psa_aead_encrypt p n x)),
      p_psa_aead_decrypt = (\<lambda>n x. on_part get put (p_psa_aead_decrypt p n x)),
      p_psa_hash_compute = (\<lambda>x. on_part get put (p_psa_hash_compute p x)),
      p_psa_hash_compare = (\<lambda>x. on_part get put (p_psa_hash_compare p x)),
      p_psa_raw_key_agreement = (\<lambda>n x. on_part get put (p_psa_raw_key_agreement p n x)),
      p_psa_generate_random = (\<lambda>x. on_part get put (p_psa_generate_random p x)),
      p_psa_sign_message = (\<lambda>n x. on_part get put (p_psa_sign_message p n x)),
      p_psa_verify_message = (\<lambda>n x. on_part get put (p_psa_verify_message p n x))\<rparr>"

text \<open>What writing back the new state of the part must do.\<close>

definition part_laws ::
  "('v \<Rightarrow> 'w) \<Rightarrow> ('w \<Rightarrow> 'v \<Rightarrow> 'v) \<Rightarrow> ('w \<Rightarrow> bool) \<Rightarrow> ('n \<Rightarrow> 'w \<Rightarrow> 'x) \<Rightarrow> ('v \<Rightarrow> bool) \<Rightarrow> ('n \<Rightarrow> 'v \<Rightarrow> 'y) \<Rightarrow> bool" where
  "part_laws get put I view J whole \<longleftrightarrow>
     (\<forall>v. J v \<longrightarrow> I (get v)) \<and>
     (\<forall>v w V. J v \<longrightarrow> I w \<longrightarrow> V \<noteq> {} \<longrightarrow> (\<forall>n \<in> V. view n w = view n (get v)) \<longrightarrow>
        J (put w v) \<and> (\<forall>n \<in> V. whole n (put w v) = whole n v))"

lemma keeps_on_part:
  assumes "part_laws get put I view J whole" and "keeps I view V f" and "V \<noteq> {}"
  shows "keeps J whole V (on_part get put f)"
proof (rule keepsI)
  fix v r v' assume v: "J v" and run: "on_part get put f v = (r, v')"
  obtain w where f: "f (get v) = (r, w)" "v' = put w v" using run by (auto simp: on_part_def split: prod.splits)
  have "I (get v)" using assms(1) v by (simp add: part_laws_def)
  note K = keepsD [OF assms(2) this f(1)]
  show "J v' \<and> (\<forall>n \<in> V. whole n v' = whole n v)"
    using assms(1,3) v K unfolding part_laws_def f(2) by blast
qed

lemma keeps_fst: "keeps I (\<lambda>n w. (view n w, out n w)) V f \<Longrightarrow> keeps I view V f"
  by (auto simp: keeps_def)

lemma other_application: "- {n :: application_name} \<noteq> {}"
proof -
  have "''a'' \<in> - {n} \<or> ''b'' \<in> - {n}" by auto
  then show ?thesis by blast
qed

lemma tenant_isolation_part:
  assumes "tenant_isolation p I view" and "part_laws get put I view J whole"
  shows "tenant_isolation (provide_part get put p) J whole"
proof -
  note K = keeps_on_part [OF assms(2)]
  note s = tenant_isolation.iso_service [OF assms(1)] and d = tenant_isolation.iso_delete_client [OF assms(1)]
    and a = tenant_isolation.iso_app [OF assms(1)]
  show ?thesis
    by unfold_locales (simp_all add: provide_part_def K s d a other_application)
qed

section \<open>Two components with one store\<close>

definition pair_inv :: "('a \<Rightarrow> bool) \<Rightarrow> ('a \<Rightarrow> on_disk_manager) \<Rightarrow> ('b \<Rightarrow> bool) \<Rightarrow> ('b \<Rightarrow> on_disk_manager) \<Rightarrow> 'a \<times> 'b \<Rightarrow> bool" where
  "pair_inv inv1 kim1 inv2 kim2 v \<longleftrightarrow> inv1 (fst v) \<and> inv2 (snd v) \<and> kim1 (fst v) = kim2 (snd v)"

definition pair_view :: "('n \<Rightarrow> 'a \<Rightarrow> 'x) \<Rightarrow> ('n \<Rightarrow> 'b \<Rightarrow> 'y) \<Rightarrow> 'n \<Rightarrow> 'a \<times> 'b \<Rightarrow> 'x \<times> 'y" where
  "pair_view view1 view2 n v = (view1 n (fst v), view2 n (snd v))"

definition pair_set ::
  "(on_disk_manager \<Rightarrow> 'a \<Rightarrow> 'a) \<Rightarrow> (on_disk_manager \<Rightarrow> 'b \<Rightarrow> 'b) \<Rightarrow> on_disk_manager \<Rightarrow> 'a \<times> 'b \<Rightarrow> 'a \<times> 'b" where
  "pair_set set1 set2 m v = (set1 m (fst v), set2 m (snd v))"

text \<open>After a step of one component, the other sees the store that this step has left.\<close>

definition put_left :: "('a \<Rightarrow> on_disk_manager) \<Rightarrow> (on_disk_manager \<Rightarrow> 'b \<Rightarrow> 'b) \<Rightarrow> 'a \<Rightarrow> 'a \<times> 'b \<Rightarrow> 'a \<times> 'b" where
  "put_left kim1 set2 a v = (a, set2 (kim1 a) (snd v))"

definition put_right :: "('b \<Rightarrow> on_disk_manager) \<Rightarrow> (on_disk_manager \<Rightarrow> 'a \<Rightarrow> 'a) \<Rightarrow> 'b \<Rightarrow> 'a \<times> 'b \<Rightarrow> 'a \<times> 'b" where
  "put_right kim2 set1 b v = (set1 (kim2 b) (fst v), b)"

locale store_pair =
  one: store_user inv1 view1 kim1 set1 P1 + two: store_user inv2 view2 kim2 set2 P2
  for inv1 :: "'a \<Rightarrow> bool" and view1 :: "application_name \<Rightarrow> 'a \<Rightarrow> 'x" and kim1 set1 P1
    and inv2 :: "'b \<Rightarrow> bool" and view2 :: "application_name \<Rightarrow> 'b \<Rightarrow> 'y" and kim2 set2 P2 +
  assumes disjoint: "P1 \<inter> P2 = {}"
begin

lemma pair_store_user:
  "store_user (pair_inv inv1 kim1 inv2 kim2) (pair_view view1 view2) (\<lambda>v. kim1 (fst v)) (pair_set set1 set2) (P1 \<union> P2)"
proof
  show "pair_inv inv1 kim1 inv2 kim2 (pair_set set1 set2 m v)"
    if "pair_inv inv1 kim1 inv2 kim2 v" "odm_inv m"
      "\<And>kt. kt_provider_id kt \<in> P1 \<union> P2 \<Longrightarrow> odm_abs m kt = odm_abs (kim1 (fst v)) kt" for v m
  proof -
    have i: "inv1 (fst v)" "inv2 (snd v)" "kim1 (fst v) = kim2 (snd v)" using that(1) by (simp_all add: pair_inv_def)
    have "inv1 (set1 m (fst v))" by (rule one.inv_move [OF i(1) that(2) that(3)]) simp
    moreover have "inv2 (set2 m (snd v))" by (rule two.inv_move [OF i(2) that(2) that(3) [unfolded i(3)]]) simp
    ultimately show ?thesis by (simp add: pair_inv_def pair_set_def one.kim_set two.kim_set)
  qed
  show "kim1 (fst (pair_set set1 set2 m v)) = m" for m v by (simp add: pair_set_def one.kim_set)
  show "odm_inv (kim1 (fst v))" if "pair_inv inv1 kim1 inv2 kim2 v" for v
    using that two.inv_store by (simp add: pair_inv_def)
  show "odm_abs (kim1 (fst v)) kt = odm_abs (kim1 (fst v')) kt"
    if "pair_view view1 view2 n v = pair_view view1 view2 n v'" "kt_app_name kt = n" for n v v' kt
    by (rule one.view_shows [of n]) (use that in \<open>simp_all add: pair_view_def\<close>)
  show "pair_view view1 view2 n (pair_set set1 set2 m v) = pair_view view1 view2 n v"
    if "pair_inv inv1 kim1 inv2 kim2 v" "\<And>kt. kt_app_name kt = n \<Longrightarrow> odm_abs m kt = odm_abs (kim1 (fst v)) kt" for n m v
  proof -
    have i: "inv1 (fst v)" "inv2 (snd v)" "kim1 (fst v) = kim2 (snd v)" using that(1) by (simp_all add: pair_inv_def)
    have "view1 n (set1 m (fst v)) = view1 n (fst v)" by (rule one.view_move [OF i(1) that(2)])
    moreover have "view2 n (set2 m (snd v)) = view2 n (snd v)" by (rule two.view_move [OF i(2) that(2) [unfolded i(3)]])
    ultimately show ?thesis by (simp add: pair_view_def pair_set_def)
  qed
qed

text \<open>A provider of either component is a provider of the pair.\<close>

lemma left_part:
  "part_laws fst (put_left kim1 set2) inv1 (\<lambda>n w. (view1 n w, outside P1 (odm_abs (kim1 w))))
     (pair_inv inv1 kim1 inv2 kim2) (\<lambda>n v. (pair_view view1 view2 n v, outside (P1 \<union> P2) (odm_abs (kim1 (fst v)))))"
  unfolding part_laws_def
proof (intro conjI allI impI)
  fix v :: "'a \<times> 'b" and a :: 'a and V :: "application_name set"
  assume v: "pair_inv inv1 kim1 inv2 kim2 v" and a: "inv1 a" and V: "V \<noteq> {}"
    and same: "\<forall>n \<in> V. (view1 n a, outside P1 (odm_abs (kim1 a))) = (view1 n (fst v), outside P1 (odm_abs (kim1 (fst v))))"
  have out: "outside P1 (odm_abs (kim1 a)) = outside P1 (odm_abs (kim1 (fst v)))" using same V by blast
  have own: "odm_abs (kim1 a) kt = odm_abs (kim2 (snd v)) kt" if "kt_provider_id kt \<in> P2" for kt
    using outsideD [OF out, of kt] that disjoint v by (auto simp: pair_inv_def)
  show "pair_inv inv1 kim1 inv2 kim2 (put_left kim1 set2 a v)"
    using v a two.inv_move [OF _ one.inv_store [OF a] own] by (simp add: pair_inv_def put_left_def two.kim_set)
  have "outside (P1 \<union> P2) (odm_abs (kim1 a)) = outside (P1 \<union> P2) (odm_abs (kim1 (fst v)))"
    using outsideD [OF out] by (auto simp: outside_def)
  moreover have "view2 n (set2 (kim1 a) (snd v)) = view2 n (snd v)" if "n \<in> V" for n
  proof (rule two.view_move)
    show "inv2 (snd v)" using v by (simp add: pair_inv_def)
    have "view1 n a = view1 n (fst v)" using same that by simp
    from one.view_shows [OF this] v show "odm_abs (kim1 a) kt = odm_abs (kim2 (snd v)) kt" if "kt_app_name kt = n" for kt
      using that by (simp add: pair_inv_def)
  qed
  ultimately show "\<forall>n \<in> V. (pair_view view1 view2 n (put_left kim1 set2 a v),
      outside (P1 \<union> P2) (odm_abs (kim1 (fst (put_left kim1 set2 a v))))) =
    (pair_view view1 view2 n v, outside (P1 \<union> P2) (odm_abs (kim1 (fst v))))"
    using same by (simp add: pair_view_def put_left_def)
qed (simp add: pair_inv_def)

lemma right_part:
  "part_laws snd (put_right kim2 set1) inv2 (\<lambda>n w. (view2 n w, outside P2 (odm_abs (kim2 w))))
     (pair_inv inv1 kim1 inv2 kim2) (\<lambda>n v. (pair_view view1 view2 n v, outside (P1 \<union> P2) (odm_abs (kim1 (fst v)))))"
  unfolding part_laws_def
proof (intro conjI allI impI)
  fix v :: "'a \<times> 'b" and b :: 'b and V :: "application_name set"
  assume v: "pair_inv inv1 kim1 inv2 kim2 v" and b: "inv2 b" and V: "V \<noteq> {}"
    and same: "\<forall>n \<in> V. (view2 n b, outside P2 (odm_abs (kim2 b))) = (view2 n (snd v), outside P2 (odm_abs (kim2 (snd v))))"
  have out: "outside P2 (odm_abs (kim2 b)) = outside P2 (odm_abs (kim1 (fst v)))" using same V v by (auto simp: pair_inv_def)
  have own: "odm_abs (kim2 b) kt = odm_abs (kim1 (fst v)) kt" if "kt_provider_id kt \<in> P1" for kt
    using outsideD [OF out, of kt] that disjoint by auto
  show "pair_inv inv1 kim1 inv2 kim2 (put_right kim2 set1 b v)"
    using v b one.inv_move [OF _ two.inv_store [OF b] own] by (simp add: pair_inv_def put_right_def one.kim_set)
  have "outside (P1 \<union> P2) (odm_abs (kim2 b)) = outside (P1 \<union> P2) (odm_abs (kim1 (fst v)))"
    using outsideD [OF out] by (auto simp: outside_def)
  moreover have "view1 n (set1 (kim2 b) (fst v)) = view1 n (fst v)" if "n \<in> V" for n
  proof (rule one.view_move)
    show "inv1 (fst v)" using v by (simp add: pair_inv_def)
    have "view2 n b = view2 n (snd v)" using same that by simp
    from two.view_shows [OF this] v show "odm_abs (kim2 b) kt = odm_abs (kim1 (fst v)) kt" if "kt_app_name kt = n" for kt
      using that by (simp add: pair_inv_def)
  qed
  ultimately show "\<forall>n \<in> V. (pair_view view1 view2 n (put_right kim2 set1 b v),
      outside (P1 \<union> P2) (odm_abs (kim1 (fst (put_right kim2 set1 b v))))) =
    (pair_view view1 view2 n v, outside (P1 \<union> P2) (odm_abs (kim1 (fst v))))"
    using same by (simp add: pair_view_def put_right_def one.kim_set)
qed (simp add: pair_inv_def)

lemma left_framed:
  assumes "framed_provider p inv1 view1 kim1 set1 P1"
  shows "framed_provider (provide_part fst (put_left kim1 set2) p) (pair_inv inv1 kim1 inv2 kim2) (pair_view view1 view2)
    (\<lambda>v. kim1 (fst v)) (pair_set set1 set2) (P1 \<union> P2)"
  unfolding framed_provider_def framed_provider_axioms_def
  using pair_store_user tenant_isolation_part [OF framed_provider.framed [OF assms] left_part] by blast

lemma right_framed:
  assumes "framed_provider p inv2 view2 kim2 set2 P2"
  shows "framed_provider (provide_part snd (put_right kim2 set1) p) (pair_inv inv1 kim1 inv2 kim2) (pair_view view1 view2)
    (\<lambda>v. kim1 (fst v)) (pair_set set1 set2) (P1 \<union> P2)"
  unfolding framed_provider_def framed_provider_axioms_def
  using pair_store_user tenant_isolation_part [OF framed_provider.framed [OF assms] right_part] by blast

end

text \<open>A framed provider keeps tenants apart.\<close>

context framed_provider
begin

lemma isolated: "tenant_isolation p inv view"
proof -
  note s = tenant_isolation.iso_service [OF framed] and d = tenant_isolation.iso_delete_client [OF framed]
    and a = tenant_isolation.iso_app [OF framed]
  show ?thesis
    by unfold_locales (fact keeps_fst [OF s(1)] keeps_fst [OF s(2)] keeps_fst [OF s(3)] keeps_fst [OF s(4)] keeps_fst [OF s(5)]
      keeps_fst [OF s(6)] keeps_fst [OF s(7)] keeps_fst [OF s(8)] keeps_fst [OF d] keeps_fst [OF a(1)] keeps_fst [OF a(2)]
      keeps_fst [OF a(3)] keeps_fst [OF a(4)] keeps_fst [OF a(5)] keeps_fst [OF a(6)] keeps_fst [OF a(7)] keeps_fst [OF a(8)]
      keeps_fst [OF a(9)] keeps_fst [OF a(10)] keeps_fst [OF a(11)] keeps_fst [OF a(12)] keeps_fst [OF a(13)]
      keeps_fst [OF a(14)] keeps_fst [OF a(15)])+
qed

end

section \<open>Establishing the contracts\<close>

text \<open>Every operation of a provider writes its own mappings only.\<close>

definition frames_all :: "('w \<Rightarrow> on_disk_manager) \<Rightarrow> provider_id \<Rightarrow> 'w provide \<Rightarrow> bool" where
  "frames_all kim pid p \<longleftrightarrow>
     frames kim pid (p_list_providers p) \<and> (\<forall>x. frames kim pid (p_list_opcodes p x)) \<and>
     frames kim pid (p_list_authenticators p) \<and> (\<forall>n. frames kim pid (p_list_keys p n)) \<and>
     frames kim pid (p_list_clients p) \<and> (\<forall>x. frames kim pid (p_delete_client p x)) \<and> frames kim pid (p_ping p) \<and>
     (\<forall>n x. frames kim pid (p_psa_generate_key p n x)) \<and> (\<forall>n x. frames kim pid (p_psa_import_key p n x)) \<and>
     (\<forall>n x. frames kim pid (p_psa_export_public_key p n x)) \<and> (\<forall>n x. frames kim pid (p_psa_export_key p n x)) \<and>
     (\<forall>n x. frames kim pid (p_psa_destroy_key p n x)) \<and> (\<forall>n x. frames kim pid (p_psa_sign_hash p n x)) \<and>
     (\<forall>n x. frames kim pid (p_psa_verify_hash p n x)) \<and> (\<forall>n x. frames kim pid (p_psa_asymmetric_encrypt p n x)) \<and>
     (\<forall>n x. frames kim pid (p_psa_asymmetric_decrypt p n x)) \<and> (\<forall>n x. frames kim pid (p_psa_aead_encrypt p n x)) \<and>
     (\<forall>n x. frames kim pid (p_psa_aead_decrypt p n x)) \<and> (\<forall>x. frames kim pid (p_psa_hash_compute p x)) \<and>
     (\<forall>x. frames kim pid (p_psa_hash_compare p x)) \<and> (\<forall>n x. frames kim pid (p_psa_raw_key_agreement p n x)) \<and>
     (\<forall>x. frames kim pid (p_psa_generate_random p x)) \<and> (\<forall>n x. frames kim pid (p_psa_sign_message p n x)) \<and>
     (\<forall>n x. frames kim pid (p_psa_verify_message p n x))"

lemma keeps_framed:
  assumes "keeps I view V f" and "\<And>w. I w \<Longrightarrow> odm_inv (kim w) \<and> frames kim pid f"
  shows "keeps I (\<lambda>n w. (view n w, outside {pid} (odm_abs (kim w)))) V f"
proof (rule keepsI)
  fix w r w' assume w: "I w" and run: "f w = (r, w')"
  have "odm_inv (kim w)" "frames kim pid f" using assms(2) [OF w] by simp_all
  from framesD [OF this(2,1) run] keepsD [OF assms(1) w run]
  show "I w' \<and> (\<forall>n \<in> V. (view n w', outside {pid} (odm_abs (kim w'))) = (view n w, outside {pid} (odm_abs (kim w))))"
    by simp
qed

lemma isolation_framed:
  assumes "tenant_isolation p I view" and "\<And>w. I w \<Longrightarrow> odm_inv (kim w) \<and> frames_all kim pid p"
  shows "tenant_isolation p I (\<lambda>n w. (view n w, outside {pid} (odm_abs (kim w))))"
proof -
  note s = tenant_isolation.iso_service [OF assms(1)] and d = tenant_isolation.iso_delete_client [OF assms(1)]
    and a = tenant_isolation.iso_app [OF assms(1)]
  show ?thesis
    by unfold_locales
      (rule keeps_framed, rule s d a, drule assms(2), simp add: frames_all_def)+
qed

text \<open>What numbers and views of a provider depend on.\<close>

lemma key_number_cong:
  "(\<And>kt. kt_provider_id kt = pid \<Longrightarrow> f kt = g kt) \<Longrightarrow> key_number pid codec f = key_number pid codec g"
  by (auto simp: key_number_def fun_eq_iff)

lemma decodable_cong:
  assumes "\<And>kt. kt_provider_id kt = pid \<Longrightarrow> f kt = g kt"
  shows "decodable pid codec f = decodable pid codec g"
proof -
  have "key_number pid codec f = key_number pid codec g" by (rule key_number_cong) (rule assms)
  moreover have "kt \<in> dom f \<longleftrightarrow> kt \<in> dom g" if "kt_provider_id kt = pid" for kt using assms [OF that] by (simp add: domIff)
  ultimately show ?thesis unfolding decodable_def by metis
qed

lemma unshared_cong:
  assumes "\<And>kt. kt_provider_id kt = pid \<Longrightarrow> f kt = g kt"
  shows "unshared pid codec f = unshared pid codec g"
proof -
  have "key_number pid codec f = key_number pid codec g" by (rule key_number_cong) (rule assms)
  then show ?thesis by (simp add: unshared_def)
qed

lemma seen_cong:
  "(\<And>kt. kt_app_name kt = n \<Longrightarrow> f kt = g kt) \<Longrightarrow> seen pid codec f K n = seen pid codec g K n"
  by (simp add: seen_def key_number_def)

lemma seen_shows:
  assumes "seen pid codec f K n = seen pid codec' g K' n" and "kt_app_name kt = n"
  shows "f kt = g kt"
proof -
  from assms(1) have "f (key_triple_new n pid' name) = g (key_triple_new n pid' name)" for pid' name
    by (auto simp: seen_def fun_eq_iff)
  from this [of "kt_provider_id kt" "kt_key_name kt"] assms(2) show ?thesis by auto
qed

end
