(* ===== verification/Shared_Providers.thy ===== *)
theory Shared_Providers
  imports Shared_Store Mbed_Crypto_Keys Cryptoauthlib_Keys Trusted_Service_Keys Tpm_Keys Pkcs11_Keys
begin

text \<open>
  The five key providers as users of one store: every operation of a provider writes mappings of this provider only
  (\<open>frames_all\<close>), and the invariant of a provider depends on the mappings of this provider only. Each provider meets the
  contract of \<open>Shared_Store\<close>, and so do the five of them on one store.
\<close>

section \<open>Frames of the operations\<close>

lemma frames_insert:
  assumes f: "\<And>w. f w = (case insert_key_info codec client kt k attrs (kim w) of (r, m) \<Rightarrow> (h r, set_kim m w))"
    and s: "\<And>m w. kim (set_kim m w) = m" and c: "kc_impl client = on_disk_impl c" "kt_provider_id kt = pid"
  shows "frames kim pid f"
  unfolding frames_def
proof (intro allI impI)
  fix w assume w: "odm_inv (kim w)"
  obtain r m where i: "insert_key_info codec client kt k attrs (kim w) = (r, m)" by fastforce
  from insert_key_info_outside [OF w c i] i
  show "odm_inv (kim (snd (f w))) \<and> outside {pid} (odm_abs (kim (snd (f w)))) = outside {pid} (odm_abs (kim w))"
    by (simp add: f s)
qed

lemma frames_remove:
  assumes f: "\<And>w. f w = (case remove_key_info client kt (kim w) of (r, m) \<Rightarrow> (r, set_kim m w))"
    and s: "\<And>m w. kim (set_kim m w) = m" and c: "kc_impl client = on_disk_impl c" "kt_provider_id kt = pid"
  shows "frames kim pid f"
  unfolding frames_def
proof (intro allI impI)
  fix w assume w: "odm_inv (kim w)"
  obtain r m where i: "remove_key_info client kt (kim w) = (r, m)" by fastforce
  from remove_key_info_outside [OF w c i] i
  show "odm_inv (kim (snd (f w))) \<and> outside {pid} (odm_abs (kim (snd (f w)))) = outside {pid} (odm_abs (kim w))"
    by (simp add: f s)
qed

text \<open>A step followed by another one that leaves the store alone, whatever is returned.\<close>

lemma frames_then:
  assumes "frames kim pid f" and "\<And>w. kim (snd (g w)) = kim (snd (f w))"
  shows "frames kim pid g"
  using assms unfolding frames_def by simp

subsection \<open>TPM\<close>

lemma frames_tpm_steps [frame_rules]:
  "frames tpms_kim pid tpm_panic" "frames tpms_kim pid (tpm_ask_kim q)" "frames tpms_kim pid (on_tss f)" "frames tpms_kim pid (tss_res e)"
  by (rule frames_same, simp add: tpm_panic_def tpm_ask_kim_def on_tss_def tss_res_def read_op_def split: prod.split)+

lemma frames_lock_esapi [frame_rules]: "frames tpms_kim pid f \<Longrightarrow> frames tpms_kim pid (lock_esapi f)"
  by (simp add: frames_def lock_esapi_def tpm_panic_def)

lemma frames_with_key [frame_rules]:
  "(\<And>pc attrs. frames tpms_kim pid (k pc attrs)) \<Longrightarrow> frames tpms_kim pid (with_key self app name k)"
  unfolding with_key_def by (intro frame_rules)

lemma frames_tpm_store:
  "kc_impl (tpmp_key_info_store self) = on_disk_impl c \<Longrightarrow> frames tpms_kim Tpm (tpm_store self (tpm_triple app name) x a attrs)"
  by (rule frames_insert [where set_kim = "\<lambda>m w. w\<lparr>tpms_kim := m\<rparr>" and h = "\<lambda>r. r"])
    (simp add: tpm_store_def tpm_on_kim_def tpm_triple_def)+

lemma frames_tpm_destroy:
  "kc_impl (tpmp_key_info_store self) = on_disk_impl c \<Longrightarrow> frames tpms_kim Tpm (tpm_destroy_key self app name)"
  by (rule frames_remove [where set_kim = "\<lambda>m w. w\<lparr>tpms_kim := m\<rparr>"])
    (simp add: tpm_destroy_key_def tpm_on_kim_def tpm_triple_def)+

lemma frames_tpm:
  assumes c: "kc_impl (tpmp_key_info_store self) = on_disk_impl c"
  shows "frames_all tpms_kim Tpm (tpm_provide self)"
proof -
  note st = frames_tpm_store [OF c]
  have "frames tpms_kim Tpm (tpm_generate_key self app op)" for app op
    unfolding tpm_generate_key_def Let_def by (intro frame_rules st)
  moreover have "frames tpms_kim Tpm (tpm_import_key self app op)" for app op
    unfolding tpm_import_key_def tpm_import_key_rsa_public_def tpm_import_key_rsa_keypair_def Let_def
    by (cases "attr_key_type (ik_attributes op)"; simp only: key_type.simps; intro frame_rules st)
  moreover have "frames tpms_kim pid (tpm_export_public_key self app name)" "frames tpms_kim pid (tpm_sign_hash self app x1)"
    "frames tpms_kim pid (tpm_verify_hash self app x2)" "frames tpms_kim pid (tpm_asymmetric_encrypt self app x3)"
    "frames tpms_kim pid (tpm_asymmetric_decrypt self app x4)" "frames tpms_kim pid (tpm_list_keys self app)"
    "frames tpms_kim pid (tpm_list_clients self)" for pid app name x1 x2 x3 x4
    unfolding tpm_export_public_key_def tpm_sign_hash_def tpm_verify_hash_def tpm_asymmetric_encrypt_def
      tpm_asymmetric_decrypt_def tpm_list_keys_def tpm_list_clients_def by (intro frame_rules)+
  ultimately show ?thesis
    by (simp add: frames_all_def tpm_provide_def default_provide_def frames_pure frames_tpm_destroy [OF c])
qed

subsection \<open>Mbed Crypto\<close>

lemma frames_mbed_steps [frame_rules]:
  "frames ms_kim pid (ask_kim q)" "frames ms_kim pid (on_psa self f)" "frames ms_kim pid (ask_psa self r)"
  "frames ms_kim pid (next_key_id self)"
  by (rule frames_same, simp add: ask_kim_def on_psa_def ask_psa_def next_key_id_def split: prod.split)+

lemma frames_fill_buffer [frame_rules]: "frames ms_kim pid (fill_buffer self sz f)"
  unfolding fill_buffer_def by (intro frame_rules)

lemma frames_mbed_key [frame_rules]:
  "frames ms_kim pid (mbed_key_id self app name)" "frames ms_kim pid (mbed_open_key self app name)"
  unfolding mbed_key_id_def mbed_open_key_def by (intro frame_rules)+

lemma frames_mbed_store:
  assumes "kc_impl (mp_key_info_store self) = on_disk_impl c"
  shows "frames ms_kim MbedCrypto (store_new_key self (key_triple_new app MbedCrypto name) k attrs key)"
proof (rule frames_then)
  show "frames ms_kim MbedCrypto
      (on_kim (insert_key_info (mp_id_codec self) (mp_key_info_store self) (key_triple_new app MbedCrypto name) k attrs))"
    by (rule frames_insert [where set_kim = "\<lambda>m w. w\<lparr>ms_kim := m\<rparr>" and h = "\<lambda>r. r", OF _ _ assms])
      (simp add: on_kim_def)+
qed (auto simp: store_new_key_def split: prod.split sum.split)

lemma frames_mbed:
  assumes c: "kc_impl (mp_key_info_store self) = on_disk_impl c"
  shows "frames_all ms_kim MbedCrypto (mbed_provide self)"
proof -
  have "frames ms_kim MbedCrypto (on_kim (remove_key_info (mp_key_info_store self) (key_triple_new app MbedCrypto name)))"
    for app name
    by (rule frames_remove [where set_kim = "\<lambda>m w. w\<lparr>ms_kim := m\<rparr>", OF _ _ c]) (simp add: on_kim_def)+
  then have "frames ms_kim MbedCrypto (mbed_generate_key self app op)" "frames ms_kim MbedCrypto (mbed_import_key self app op')"
    "frames ms_kim MbedCrypto (mbed_destroy_key self app name)" for app op op' name
    unfolding mbed_generate_key_def mbed_import_key_def mbed_destroy_key_def Let_def
    by (intro frame_rules frames_mbed_store [OF c]; simp)+
  moreover have "frames ms_kim pid (mbed_export_public_key self app name)" "frames ms_kim pid (mbed_export_key self app name)"
    "frames ms_kim pid (mbed_sign_hash self app x1)" "frames ms_kim pid (mbed_verify_hash self app x2)"
    "frames ms_kim pid (mbed_asymmetric_encrypt self app x3)" "frames ms_kim pid (mbed_asymmetric_decrypt self app x4)"
    "frames ms_kim pid (mbed_aead_encrypt self app x5)" "frames ms_kim pid (mbed_aead_decrypt self app x6)"
    "frames ms_kim pid (mbed_hash_compute self x7)" "frames ms_kim pid (mbed_hash_compare self x8)"
    "frames ms_kim pid (mbed_raw_key_agreement self app x9)" "frames ms_kim pid (mbed_generate_random self x10)"
    "frames ms_kim pid (mbed_list_keys self app)" "frames ms_kim pid (mbed_list_clients self)"
    for pid app name x1 x2 x3 x4 x5 x6 x7 x8 x9 x10
    unfolding mbed_export_public_key_def mbed_export_key_def mbed_sign_hash_def mbed_verify_hash_def
      mbed_asymmetric_encrypt_def mbed_asymmetric_decrypt_def mbed_aead_encrypt_def mbed_aead_decrypt_def
      mbed_hash_compute_def mbed_hash_compare_def mbed_raw_key_agreement_def mbed_generate_random_def
      mbed_list_keys_def mbed_list_clients_def
    by (intro frame_rules)+
  ultimately show ?thesis by (simp add: frames_all_def mbed_provide_def default_provide_def frames_pure)
qed

subsection \<open>Trusted Service\<close>

lemma frames_ts_steps [frame_rules]:
  "frames tst_kim pid (ts_ask_kim q)" "frames tst_kim pid (on_context self f)" "frames tst_kim pid (ts_next_key_id self)"
  by (rule frames_same, simp add: ts_ask_kim_def on_context_def ts_next_key_id_def split: prod.split)+

lemma frames_ts_store:
  assumes "kc_impl (tp_key_info_store self) = on_disk_impl c"
  shows "frames tst_kim TrustedService (ts_store_new_key self (key_triple_new app TrustedService name) k attrs)"
proof (rule frames_then)
  show "frames tst_kim TrustedService
      (ts_on_kim (insert_key_info (tp_id_codec self) (tp_key_info_store self) (key_triple_new app TrustedService name) k attrs))"
    by (rule frames_insert [where set_kim = "\<lambda>m w. w\<lparr>tst_kim := m\<rparr>" and h = "\<lambda>r. r", OF _ _ assms])
      (simp add: ts_on_kim_def)+
qed (auto simp: ts_store_new_key_def on_context_def split: prod.split sum.split)

lemma frames_ts:
  assumes c: "kc_impl (tp_key_info_store self) = on_disk_impl c"
  shows "frames_all tst_kim TrustedService (ts_provide self)"
proof -
  have "frames tst_kim TrustedService (ts_on_kim (remove_key_info (tp_key_info_store self) (key_triple_new app TrustedService name)))"
    for app name
    by (rule frames_remove [where set_kim = "\<lambda>m w. w\<lparr>tst_kim := m\<rparr>", OF _ _ c]) (simp add: ts_on_kim_def)+
  then have "frames tst_kim TrustedService (ts_generate_key self app op)" "frames tst_kim TrustedService (ts_import_key self app op')"
    "frames tst_kim TrustedService (ts_destroy_key self app name)" for app op op' name
    unfolding ts_generate_key_def ts_import_key_def ts_destroy_key_def ts_key_id_def Let_def
    by (intro frame_rules frames_ts_store [OF c]; simp)+
  moreover have "frames tst_kim pid (ts_export_public_key self app name)" "frames tst_kim pid (ts_sign_hash self app x1)"
    "frames tst_kim pid (ts_verify_hash self app x2)" "frames tst_kim pid (ts_list_keys self app)"
    "frames tst_kim pid (ts_list_clients self)" for pid app name x1 x2
    unfolding ts_export_public_key_def ts_sign_hash_def ts_verify_hash_def ts_key_id_def ts_list_keys_def ts_list_clients_def
    by (intro frame_rules)+
  ultimately show ?thesis by (simp add: frames_all_def ts_provide_def default_provide_def frames_pure)
qed

subsection \<open>PKCS 11\<close>

lemma frames_p11_steps [frame_rules]:
  "frames ps_kim pid (p11_ask_kim q)" "frames ps_kim pid (on_token self f)" "frames ps_kim pid (on_soft self g)"
  "frames ps_kim pid (ck_res self e)" "frames ps_kim pid (p11_create_key_id self)"
  by (rule frames_same, simp add: p11_ask_kim_def on_token_def on_soft_def ck_res_def read_op_def p11_create_key_id_def
      split: prod.split option.split)+

lemma frames_new_session [frame_rules]: "frames ps_kim pid (new_session self)"
proof -
  have "frames ps_kim pid (\<lambda>w. case on_token self (ck_login (pk_backend self) session) w of
      (Inl e, w') \<Rightarrow> (Inl e, close_session self session w') | (Inr _, w') \<Rightarrow> (Inr session, w'))" for session
    by (rule frames_same) (simp add: on_token_def close_session_def split: prod.split sum.split)
  then show ?thesis unfolding new_session_def by (intro frame_rules)
qed

lemma frames_with_session [frame_rules]:
  assumes "\<And>s. frames ps_kim pid (f s)"
  shows "frames ps_kim pid (with_session self f)"
proof -
  have "frames ps_kim pid (\<lambda>w. case f s w of (r, w') \<Rightarrow> (r, close_session self s w'))" for s
    by (rule frames_then [OF assms [of s]]) (simp add: close_session_def split: prod.split)
  then show ?thesis unfolding with_session_def by (intro frame_rules)
qed

lemma frames_case_list [frame_rules]:
  "frames kim pid f \<Longrightarrow> (\<And>x xs. frames kim pid (g x xs)) \<Longrightarrow> frames kim pid (case ys of [] \<Rightarrow> f | x # xs \<Rightarrow> g x xs)"
  by (cases ys) simp_all

lemma frames_find_key [frame_rules]: "frames ps_kim pid (find_key self s k kp)" "frames ps_kim pid (destroy_object self s key)"
  unfolding find_key_def destroy_object_def by (intro frame_rules)+

lemma destroy_object_kim [simp]: "ps_kim (snd (destroy_object self s key w)) = ps_kim w"
  by (simp add: destroy_object_def on_token_def split: prod.split)

lemma destroy_all_kim [simp]: "ps_kim (destroy_all self s keys w) = ps_kim w"
  by (induction keys arbitrary: w) simp_all

lemma frames_p11_store:
  assumes "kc_impl (pk_key_info_store self) = on_disk_impl c"
  shows "frames ps_kim Pkcs11 (p11_store_new_key self s (p11_triple app name) k attrs keys)"
proof (rule frames_then)
  show "frames ps_kim Pkcs11
      (p11_on_kim (insert_key_info (pk_id_codec self) (pk_key_info_store self) (p11_triple app name) k attrs))"
    by (rule frames_insert [where set_kim = "\<lambda>m w. w\<lparr>ps_kim := m\<rparr>" and h = "\<lambda>r. r", OF _ _ assms])
      (simp add: p11_on_kim_def p11_triple_def)+
qed (auto simp: p11_store_new_key_def split: prod.split sum.split)

lemma frames_p11_destroy:
  assumes c: "kc_impl (pk_key_info_store self) = on_disk_impl c"
  shows "frames ps_kim Pkcs11 (p11_destroy_key self app name)"
proof -
  have "frames ps_kim pid (\<lambda>w. case find_key self s k KpAny w of
        (Inr key, w1) \<Rightarrow> destroy_object self s key w1
      | (Inl e, w1) \<Rightarrow> (if e = PsaErrorDoesNotExist then Inr () else Inl e, w1))" for pid s k
    by (rule frames_then [OF frames_find_key(1) [of _ self s k KpAny]]) (simp split: prod.split sum.split)
  moreover have "frames ps_kim Pkcs11 (p11_on_kim (remove_key_info (pk_key_info_store self) (p11_triple app name)))"
    by (rule frames_remove [where set_kim = "\<lambda>m w. w\<lparr>ps_kim := m\<rparr>", OF _ _ c]) (simp add: p11_on_kim_def p11_triple_def)+
  ultimately show ?thesis
    unfolding p11_destroy_key_def p11_key_id_def by (intro frame_rules)
qed

lemma frames_p11_export [frame_rules]:
  "frames ps_kim pid (p11_export_public_key self app name)" "frames ps_kim pid (p11_key_attributes self app name)"
proof -
  have e: "frames ps_kim pid (export_public_rsa self key s)" "frames ps_kim pid (export_public_ec self key s)" for key s
    unfolding export_public_rsa_def export_public_ec_def by (intro frame_rules)+
  have "frames ps_kim pid (case t of RsaKeyPair \<Rightarrow> export_public_rsa self key s | RsaPublicKey \<Rightarrow> export_public_rsa self key s
      | EccKeyPair _ \<Rightarrow> export_public_ec self key s | EccPublicKey _ \<Rightarrow> export_public_ec self key s
      | _ \<Rightarrow> err_op PsaErrorNotSupported)" for t key s
    by (cases t) (simp_all add: e frames_pure)
  then show "frames ps_kim pid (p11_export_public_key self app name)" "frames ps_kim pid (p11_key_attributes self app name)"
    unfolding p11_export_public_key_def p11_key_attributes_def p11_key_id_def by (intro frame_rules; simp)+
qed

lemma frames_soft_then_remove:
  "frames ps_kim pid (\<lambda>w. case on_soft self f w of (res, w1) \<Rightarrow>
     (case remove_psa_crypto_pub_key self key w1 of (_, w2) \<Rightarrow> (h res, w2)))"
  by (rule frames_same) (simp add: remove_psa_crypto_pub_key_def on_soft_def split: prod.split)

lemma frames_p11_software:
  "frames ps_kim pid (software_verify_hash self app x)" "frames ps_kim pid (software_asymmetric_encrypt self app y)"
proof -
  have m: "frames ps_kim pid (move_pub_key_to_psa_crypto self app name)" for name
    unfolding move_pub_key_to_psa_crypto_def by (intro frame_rules)
  note t = frames_soft_then_remove frames_soft_then_remove [where h = "\<lambda>r. r"]
  show "frames ps_kim pid (software_verify_hash self app x)" "frames ps_kim pid (software_asymmetric_encrypt self app y)"
    unfolding software_verify_hash_def software_asymmetric_encrypt_def by (intro frame_rules m t)+
qed

lemma frames_p11:
  assumes c: "kc_impl (pk_key_info_store self) = on_disk_impl c"
  shows "frames_all ps_kim Pkcs11 (p11_provide self)"
proof -
  have "frames ps_kim Pkcs11 (p11_generate_key self app op)" "frames ps_kim Pkcs11 (p11_import_key self app op')" for app op op'
    unfolding p11_generate_key_def p11_import_key_def Let_def by (intro frame_rules frames_p11_store [OF c])+
  moreover have "frames ps_kim pid (p11_sign_hash self app x1)" "frames ps_kim pid (p11_verify_hash self app x2)"
    "frames ps_kim pid (p11_asymmetric_encrypt self app x3)" "frames ps_kim pid (p11_asymmetric_decrypt self app x4)"
    "frames ps_kim pid (p11_list_keys self app)" "frames ps_kim pid (p11_list_clients self)" for pid app x1 x2 x3 x4
    unfolding p11_sign_hash_def p11_verify_hash_def p11_asymmetric_encrypt_def p11_asymmetric_decrypt_def p11_key_id_def
      p11_list_keys_def p11_list_clients_def by (intro frame_rules)+
  ultimately show ?thesis
    by (simp add: frames_all_def p11_provide_def default_provide_def p11_psa_verify_hash_def p11_psa_asymmetric_encrypt_def
        frames_pure frames_p11_export frames_p11_software frames_p11_destroy [OF c])
qed

subsection \<open>CryptoAuthLib\<close>

lemma frames_calib_steps [frame_rules]: "frames cs_kim pid (calib_ask_kim q)" "frames cs_kim pid (on_device f g)"
  by (rule frames_same, simp add: calib_ask_kim_def on_device_def split: prod.split)+

lemma frames_random_loop [frame_rules]: "frames cs_kim pid (random_loop self n bs)"
  by (induction n arbitrary: bs; simp only: random_loop.simps; intro frame_rules)

lemma frames_chip_parts [frame_rules]:
  "frames cs_kim pid (sha256 self m)" "frames cs_kim pid (ecdsa_hash_sign self k h)" "frames cs_kim pid (ecdsa_hash_verify self md h s)"
  "frames cs_kim pid (ecdsa_verify_mode_get self k kty)"
proof -
  show "frames cs_kim pid (ecdsa_verify_mode_get self k kty)"
    unfolding ecdsa_verify_mode_get_def by (auto simp: frames_calib_steps frames_pure split: key_type.split ecc_family.split)
qed (unfold sha256_def ecdsa_hash_sign_def ecdsa_hash_verify_def, (intro frame_rules)+)

text \<open>Steps that may panic; the state of a step that panics is dropped.\<close>

definition panic_frames :: "('w \<Rightarrow> on_disk_manager) \<Rightarrow> provider_id \<Rightarrow> ('w, 'a) panic_op \<Rightarrow> bool" where
  "panic_frames kim pid f \<longleftrightarrow>
     (\<forall>w r w'. odm_inv (kim w) \<longrightarrow> f w = Some (r, w') \<longrightarrow>
        odm_inv (kim w') \<and> outside {pid} (odm_abs (kim w')) = outside {pid} (odm_abs (kim w)))"

lemma panic_framesD:
  "panic_frames kim pid f \<Longrightarrow> odm_inv (kim w) \<Longrightarrow> f w = Some (r, w') \<Longrightarrow>
   odm_inv (kim w') \<and> outside {pid} (odm_abs (kim w')) = outside {pid} (odm_abs (kim w))"
  unfolding panic_frames_def by blast

lemma panic_frames_same:
  "(\<And>w r w'. f w = Some (r, w') \<Longrightarrow> kim w' = kim w) \<Longrightarrow> panic_frames kim pid f"
  unfolding panic_frames_def by (metis (no_types))

lemma panic_frames_no_panic: "frames kim pid f \<Longrightarrow> panic_frames kim pid (no_panic f)"
  unfolding panic_frames_def no_panic_def using framesD [of kim pid f] by auto

lemma panic_frames_try_panic:
  assumes "panic_frames kim pid f" and "\<And>x. panic_frames kim pid (k x)"
  shows "panic_frames kim pid (try_panic f k)"
  unfolding panic_frames_def
proof (intro allI impI)
  fix w r w' assume w: "odm_inv (kim w)" and run: "try_panic f k w = Some (r, w')"
  obtain q w1 where f: "f w = Some (q, w1)" using run by (auto simp: try_panic_def split: option.splits)
  note F = panic_framesD [OF assms(1) w f]
  show "odm_inv (kim w') \<and> outside {pid} (odm_abs (kim w')) = outside {pid} (odm_abs (kim w))"
  proof (cases q)
    case (Inr x)
    with run f have "k x w1 = Some (r, w')" by (simp add: try_panic_def)
    from panic_framesD [OF assms(2) conjunct1 [OF F] this] F show ?thesis by simp
  qed (use F f run in \<open>simp add: try_panic_def\<close>)
qed

lemma frames_catch_panic: "panic_frames cs_kim pid f \<Longrightarrow> frames cs_kim pid (catch_panic f)"
  unfolding frames_def panic_frames_def catch_panic_def by (auto split: option.split)

lemma panic_frames_if: "panic_frames kim pid f \<Longrightarrow> panic_frames kim pid g \<Longrightarrow> panic_frames kim pid (if b then f else g)"
  by simp

lemma panic_frames_on_slots:
  "panic_frames cs_kim pid (on_slots f)" "panic_frames cs_kim pid (\<lambda>w. free_slot_and_fail k e (w\<lparr>cs_device := d w\<rparr>))"
  "panic_frames cs_kim pid (\<lambda>w. map_option (\<lambda>(_, s). (r, w\<lparr>cs_slots := s\<rparr>)) (h (cs_slots w)))"
  by (rule panic_frames_same, auto simp: on_slots_def free_slot_and_fail_def)+

text \<open>What a step does may depend on the state it starts from.\<close>

lemma panic_frames_pointwise:
  assumes "\<And>w. \<exists>g. panic_frames kim pid g \<and> f w = g w"
  shows "panic_frames kim pid f"
  unfolding panic_frames_def
proof (intro allI impI)
  fix w r w' assume w: "odm_inv (kim w)" and run: "f w = Some (r, w')"
  obtain g where g: "panic_frames kim pid g" "f w = g w" using assms by blast
  from panic_framesD [OF g(1) w] run g(2)
  show "odm_inv (kim w') \<and> outside {pid} (odm_abs (kim w')) = outside {pid} (odm_abs (kim w))" by simp
qed

lemma panic_frames_store:
  assumes c: "kc_impl (cl_key_info_store self) = on_disk_impl c" and kt: "kt_provider_id kt = CryptoAuthLib"
  shows "panic_frames cs_kim CryptoAuthLib (\<lambda>w. case calib_store_key self kt k attrs (w\<lparr>cs_device := d w\<rparr>) of
      (Inr _, w') \<Rightarrow> Some (Inr (), w') | (Inl e, w') \<Rightarrow> free_slot_and_fail k (g e) w')"
  unfolding panic_frames_def
proof (intro allI impI)
  fix w r w' assume w: "odm_inv (cs_kim w)"
    and run: "(case calib_store_key self kt k attrs (w\<lparr>cs_device := d w\<rparr>) of
      (Inr _, w') \<Rightarrow> Some (Inr (), w') | (Inl e, w') \<Rightarrow> free_slot_and_fail k (g e) w') = Some (r, w')"
  obtain q m where i: "insert_key_info (cl_id_codec self) (cl_key_info_store self) kt k attrs (cs_kim w) = (q, m)" by fastforce
  have "cs_kim w' = m" using run i
    by (auto simp: calib_store_key_def calib_on_kim_def free_slot_and_fail_def split: sum.splits)
  with insert_key_info_outside [OF w c kt i]
  show "odm_inv (cs_kim w') \<and> outside {CryptoAuthLib} (odm_abs (cs_kim w')) = outside {CryptoAuthLib} (odm_abs (cs_kim w))"
    by simp
qed

lemma panic_frames_chip:
  assumes c: "kc_impl (cl_key_info_store self) = on_disk_impl c" and kt: "kt_provider_id kt = CryptoAuthLib"
  shows "panic_frames cs_kim CryptoAuthLib (\<lambda>w. case gen_key (cl_device self) kty k (cs_device w) of
        (AtcaSuccess, d) \<Rightarrow>
          (case calib_store_key self kt k attrs (w\<lparr>cs_device := d\<rparr>) of
             (Inr _, w') \<Rightarrow> Some (Inr (), w')
           | (Inl e, w') \<Rightarrow> free_slot_and_fail k e w')
      | (_, d) \<Rightarrow> free_slot_and_fail k PsaErrorInvalidArgument (w\<lparr>cs_device := d\<rparr>))" (is "panic_frames _ _ ?gen")
    "panic_frames cs_kim CryptoAuthLib (\<lambda>w. case dev_import_key (cl_device self) kty bs k (cs_device w) of
        (st, d) \<Rightarrow>
          if st = AtcaSuccess
          then case calib_store_key self kt k attrs (w\<lparr>cs_device := d\<rparr>) of
              (Inr _, w') \<Rightarrow> Some (Inr (), w')
            | (Inl _, w') \<Rightarrow> free_slot_and_fail k PsaErrorStorageFailure w'
          else free_slot_and_fail k (import_error st) (w\<lparr>cs_device := d\<rparr>))" (is "panic_frames _ _ ?imp")
proof -
  have "\<exists>g. panic_frames cs_kim CryptoAuthLib g \<and> ?gen w = g w" for w
  proof -
    obtain st d where d: "gen_key (cl_device self) kty k (cs_device w) = (st, d)" by fastforce
    show ?thesis
    proof (cases "st = AtcaSuccess")
      case True
      show ?thesis by (rule exI, rule conjI, rule panic_frames_store [OF c kt, where d = "\<lambda>_. d" and g = "\<lambda>e. e"]) (use d True in simp)
    next
      case False
      show ?thesis
        by (rule exI, rule conjI, rule panic_frames_on_slots(2) [where d = "\<lambda>_. d" and k = k and e = PsaErrorInvalidArgument]) (use d False in \<open>simp split: atca_status.split\<close>)
    qed
  qed
  then show "panic_frames cs_kim CryptoAuthLib ?gen" by (rule panic_frames_pointwise)
  have "\<exists>g. panic_frames cs_kim CryptoAuthLib g \<and> ?imp w = g w" for w
  proof -
    obtain st d where d: "dev_import_key (cl_device self) kty bs k (cs_device w) = (st, d)" by fastforce
    show ?thesis
    proof (cases "st = AtcaSuccess")
      case True
      show ?thesis
        by (rule exI, rule conjI, rule panic_frames_store [OF c kt, where d = "\<lambda>_. d" and g = "\<lambda>_. PsaErrorStorageFailure"]) (use d True in simp)
    next
      case False
      show ?thesis by (rule exI, rule conjI, rule panic_frames_on_slots(2) [where d = "\<lambda>_. d"]) (use d False in simp)
    qed
  qed
  then show "panic_frames cs_kim CryptoAuthLib ?imp" by (rule panic_frames_pointwise)
qed

lemma frames_calib_keys:
  assumes c: "kc_impl (cl_key_info_store self) = on_disk_impl c" and pid: "kc_provider_id (cl_key_info_store self) = CryptoAuthLib"
  shows "frames cs_kim CryptoAuthLib (catch_panic (calib_generate_key self app op))"
    "frames cs_kim CryptoAuthLib (catch_panic (calib_import_key self app op'))"
    "frames cs_kim CryptoAuthLib (catch_panic (calib_destroy_key self app name))"
proof -
  have kt: "kt_provider_id (get_key_triple (cl_key_info_store self) app n) = CryptoAuthLib" for n
    by (simp add: get_key_triple_def pid)
  have "frames cs_kim CryptoAuthLib
      (calib_on_kim (remove_key_info (cl_key_info_store self) (get_key_triple (cl_key_info_store self) app name)))"
    by (rule frames_remove [where set_kim = "\<lambda>m w. w\<lparr>cs_kim := m\<rparr>", OF _ _ c kt]) (simp add: calib_on_kim_def)+
  note rules = panic_frames_try_panic panic_frames_no_panic panic_frames_if panic_frames_on_slots panic_frames_chip [OF c kt]
    frames_calib_steps frames_pure this
  show "frames cs_kim CryptoAuthLib (catch_panic (calib_generate_key self app op))"
    "frames cs_kim CryptoAuthLib (catch_panic (calib_import_key self app op'))"
    "frames cs_kim CryptoAuthLib (catch_panic (calib_destroy_key self app name))"
    unfolding calib_generate_key_def calib_import_key_def calib_destroy_key_def Let_def
    by (rule frames_catch_panic, intro rules)+
qed

lemma frames_calib:
  assumes "kc_impl (cl_key_info_store self) = on_disk_impl c" "kc_provider_id (cl_key_info_store self) = CryptoAuthLib"
  shows "frames_all cs_kim CryptoAuthLib (calib_provide self)"
proof -
  have "frames cs_kim pid (calib_hash_compute self x1)" "frames cs_kim pid (calib_hash_compare self x2)"
    "frames cs_kim pid (calib_generate_random self x3)" "frames cs_kim pid (calib_sign_hash self app x4)"
    "frames cs_kim pid (calib_verify_hash self app x5)" "frames cs_kim pid (calib_sign_message self app x6)"
    "frames cs_kim pid (calib_verify_message self app x7)" "frames cs_kim pid (calib_export_public_key self app x8)"
    "frames cs_kim pid (calib_export_key self app x9)" "frames cs_kim pid (calib_list_keys self app)"
    "frames cs_kim pid (calib_list_clients self)" for pid app x1 x2 x3 x4 x5 x6 x7 x8 x9
    unfolding calib_hash_compute_def calib_hash_compare_def calib_generate_random_def calib_sign_hash_def
      calib_verify_hash_def calib_sign_message_def calib_verify_message_def calib_export_public_key_def
      calib_export_key_def calib_list_keys_def calib_list_clients_def Let_def
    by (intro frame_rules)+
  then show ?thesis
    by (simp add: frames_all_def calib_provide_def default_provide_def if_supported_def frames_pure frames_calib_keys [OF assms])
qed

section \<open>The providers meet the contract\<close>

lemma linked_cong:
  assumes same: "\<And>kt. kt_provider_id kt = MbedCrypto \<Longrightarrow> f kt = g kt" and f: "linked codec mx f K c"
  shows "linked codec mx g K c"
proof -
  have "key_number MbedCrypto codec f = key_number MbedCrypto codec g" by (rule key_number_cong) (rule same)
  moreover have "kt \<in> dom g \<longleftrightarrow> kt \<in> dom f" if "kt_provider_id kt = MbedCrypto" for kt
    using same [OF that] by (simp add: domIff)
  ultimately show ?thesis using f unfolding linked_def by (metis (no_types, lifting))
qed

text \<open>The invariants with numbers, for the other three.\<close>

lemma numbers_cong:
  assumes same: "\<And>kt. kt_provider_id kt = pid \<Longrightarrow> f kt = g kt"
    and f: "decodable pid codec f \<and> unshared pid codec f \<and> (\<forall>kt k. key_number pid codec f kt = Some k \<longrightarrow> Q k)"
  shows "decodable pid codec g \<and> unshared pid codec g \<and> (\<forall>kt k. key_number pid codec g kt = Some k \<longrightarrow> Q k)"
proof -
  have "key_number pid codec f = key_number pid codec g" "decodable pid codec f = decodable pid codec g"
    "unshared pid codec f = unshared pid codec g"
    by (rule key_number_cong decodable_cong unshared_cong, rule same, assumption)+
  with f show ?thesis by simp
qed

lemma slotted_cong:
  "(\<And>kt. kt_provider_id kt = CryptoAuthLib \<Longrightarrow> f kt = g kt) \<Longrightarrow> slotted codec f slots \<Longrightarrow> slotted codec g slots"
  unfolding slotted_def by (rule numbers_cong)

lemma numbered_cong:
  "(\<And>kt. kt_provider_id kt = TrustedService \<Longrightarrow> f kt = g kt) \<Longrightarrow> numbered codec f c \<Longrightarrow> numbered codec g c"
  unfolding numbered_def by (rule numbers_cong)

lemma p11_numbered_cong:
  "(\<And>kt. kt_provider_id kt = Pkcs11 \<Longrightarrow> f kt = g kt) \<Longrightarrow> p11_numbered codec f ids \<Longrightarrow> p11_numbered codec g ids"
  unfolding p11_numbered_def by (rule numbers_cong)

text \<open>A provider whose view consists of the mappings and of the keys that they name.\<close>

lemma framed_seen:
  assumes iso: "tenant_isolation p I view" and frame: "\<And>w. I w \<Longrightarrow> odm_inv (kim w) \<and> frames_all kim pid p"
    and set: "\<And>m w. kim (set_kim m w) = m" "\<And>m w. K (set_kim m w) = K w"
    and move: "\<And>w m. I w \<Longrightarrow> odm_inv m \<Longrightarrow> (\<And>kt. kt_provider_id kt = pid \<Longrightarrow> odm_abs (kim w) kt = odm_abs m kt) \<Longrightarrow>
      I (set_kim m w)"
    and view: "\<And>n w. view n w = seen pid codec (odm_abs (kim w)) (K w) n"
  shows "framed_provider p I view kim set_kim {pid}"
proof (intro framed_provider.intro store_user.intro framed_provider_axioms.intro)
  fix w m n kt w'
  show "kim (set_kim m w) = m" by (rule set)
  show "odm_inv (kim w)" if "I w" using frame [OF that] by simp
  show "I (set_kim m w)" if "I w" "odm_inv m" "\<And>kt. kt_provider_id kt \<in> {pid} \<Longrightarrow> odm_abs m kt = odm_abs (kim w) kt"
    by (rule move [OF that(1,2)], rule that(3) [symmetric]) simp
  show "view n (set_kim m w) = view n w" if "\<And>kt. kt_app_name kt = n \<Longrightarrow> odm_abs m kt = odm_abs (kim w) kt"
    unfolding view set by (rule seen_cong, rule that)
  show "odm_abs (kim w) kt = odm_abs (kim w') kt" if "view n w = view n w'" "kt_app_name kt = n"
    by (rule seen_shows [OF that [unfolded view]])
  show "tenant_isolation p I (\<lambda>n w. (view n w, outside {pid} (odm_abs (kim w))))"
    by (rule isolation_framed [OF iso frame])
qed

interpretation mbed_shared: framed_provider "mbed_provide self" "mbed_inv (on_disk_impl c) odm_inv odm_abs self keys_of id_of"
  "mbed_view odm_abs self keys_of" ms_kim "\<lambda>m w. w\<lparr>ms_kim := m\<rparr>" "{MbedCrypto}" for c self keys_of id_of
proof (rule framed_seen [where K = "\<lambda>w. keys_of (ms_psa w)" and codec = "mp_id_codec self"])
  let ?I = "mbed_inv (on_disk_impl c) odm_inv odm_abs self keys_of id_of"
  show "?I (w\<lparr>ms_kim := m\<rparr>)"
    if w: "?I w" and m: "odm_inv m" and same: "\<And>kt. kt_provider_id kt = MbedCrypto \<Longrightarrow> odm_abs (ms_kim w) kt = odm_abs m kt" for w m
  proof -
    have "linked (mp_id_codec self) (key_id_user_max (mp_psa self)) (odm_abs m) (keys_of (ms_psa w)) (id_counter w)"
      by (rule linked_cong [OF same]) (use w in \<open>simp_all add: mbed_inv_def\<close>)
    with w m show ?thesis by (simp add: mbed_inv_def)
  qed
qed (auto simp: mbed_inv_def mbed_setup_def mbed_view_def frames_mbed odm.mbed_isolated)

interpretation calib_shared: framed_provider "calib_provide self" "calib_inv (on_disk_impl c) odm_inv odm_abs self content"
  "calib_view odm_abs self content" cs_kim "\<lambda>m w. w\<lparr>cs_kim := m\<rparr>" "{CryptoAuthLib}" for c self content
proof (rule framed_seen [where K = "\<lambda>w. content (cs_device w)" and codec = "cl_id_codec self"])
  let ?I = "calib_inv (on_disk_impl c) odm_inv odm_abs self content"
  show "?I (w\<lparr>cs_kim := m\<rparr>)"
    if w: "?I w" and m: "odm_inv m" and same: "\<And>kt. kt_provider_id kt = CryptoAuthLib \<Longrightarrow> odm_abs (cs_kim w) kt = odm_abs m kt" for w m
    using w m slotted_cong [OF same] by (simp add: calib_inv_def)
qed (auto simp: calib_inv_def calib_setup_def calib_view_def frames_calib odm.calib_isolated)

interpretation ts_shared: framed_provider "ts_provide self" "ts_inv (on_disk_impl c) odm_inv odm_abs self keys_of"
  "ts_view odm_abs self keys_of" tst_kim "\<lambda>m w. w\<lparr>tst_kim := m\<rparr>" "{TrustedService}" for c self keys_of
proof (rule framed_seen [where K = "\<lambda>w. keys_of (tst_world w)" and codec = "tp_id_codec self"])
  let ?I = "ts_inv (on_disk_impl c) odm_inv odm_abs self keys_of"
  show "?I (w\<lparr>tst_kim := m\<rparr>)"
    if w: "?I w" and m: "odm_inv m" and same: "\<And>kt. kt_provider_id kt = TrustedService \<Longrightarrow> odm_abs (tst_kim w) kt = odm_abs m kt" for w m
    using w m numbered_cong [OF same] by (simp add: ts_inv_def)
qed (auto simp: ts_inv_def ts_setup_def ts_view_def frames_ts odm.ts_isolated)

interpretation tpm_shared: framed_provider "tpm_provide self" "tpm_inv (on_disk_impl c) odm_inv self"
  "tpm_view odm_abs" tpms_kim "\<lambda>m w. w\<lparr>tpms_kim := m\<rparr>" "{Tpm}" for c self
proof (intro framed_provider.intro store_user.intro framed_provider_axioms.intro)
  fix w m n kt w'
  let ?I = "tpm_inv (on_disk_impl c) odm_inv self"
  show "odm_inv (tpms_kim w)" if "?I w" using that by (simp add: tpm_inv_def)
  show "?I (w\<lparr>tpms_kim := m\<rparr>)" if "?I w" "odm_inv m" using that by (simp add: tpm_inv_def)
  show "tpm_view odm_abs n (w\<lparr>tpms_kim := m\<rparr>) = tpm_view odm_abs n w"
    if "\<And>kt. kt_app_name kt = n \<Longrightarrow> odm_abs m kt = odm_abs (tpms_kim w) kt"
    using that by (simp add: tpm_view_def)
  show "odm_abs (tpms_kim w) kt = odm_abs (tpms_kim w') kt"
    if "tpm_view odm_abs n w = tpm_view odm_abs n w'" "kt_app_name kt = n"
  proof -
    from that(1) have "odm_abs (tpms_kim w) (key_triple_new n pid name) = odm_abs (tpms_kim w') (key_triple_new n pid name)"
      for pid name by (auto simp: tpm_view_def fun_eq_iff)
    from this [of "kt_provider_id kt" "kt_key_name kt"] that(2) show ?thesis by auto
  qed
  show "tenant_isolation (tpm_provide self) ?I (\<lambda>n w. (tpm_view odm_abs n w, outside {Tpm} (odm_abs (tpms_kim w))))"
    by (rule isolation_framed [OF odm.tpm_isolated]) (auto simp: tpm_inv_def tpm_setup_def frames_tpm)
qed simp

interpretation p11_shared: framed_provider "p11_provide self" "p11_inv (on_disk_impl c) odm_inv odm_abs self objs"
  "p11_view odm_abs self objs" ps_kim "\<lambda>m w. w\<lparr>ps_kim := m\<rparr>" "{Pkcs11}" for c self objs
proof (rule framed_seen [where K = "\<lambda>w. objects_with (objs (ps_token w))" and codec = "pk_id_codec self"])
  let ?I = "p11_inv (on_disk_impl c) odm_inv odm_abs self objs"
  show "?I (w\<lparr>ps_kim := m\<rparr>)"
    if w: "?I w" and m: "odm_inv m" and same: "\<And>kt. kt_provider_id kt = Pkcs11 \<Longrightarrow> odm_abs (ps_kim w) kt = odm_abs m kt" for w m
    using w m p11_numbered_cong [OF same] by (simp add: p11_inv_def)
qed (auto simp: p11_inv_def p11_setup_def p11_view_def frames_p11 odm.p11_isolated)

section \<open>Five providers on one store\<close>

text \<open>
  The state of the service is the five states, of which each has a copy of the store that is the same in all of them. What is
  behind the key numbers is a parameter of each provider, as in the theories of the providers.
\<close>

record ('b, 'id, 'kb, 'd, 'kd, 'r, 'h, 'kr, 't, 'c, 'tc, 'tk, 'g, 's, 'si) five =
  f_codec :: codec
  f_mbed :: "(on_disk_manager, 'b, 'id) mbed_provider"
  f_mbed_keys :: "'b \<Rightarrow> u32 \<Rightarrow> 'kb option"
  f_mbed_id :: "'id \<Rightarrow> u32"
  f_calib :: "(on_disk_manager, 'd) calib_provider"
  f_content :: "'d \<Rightarrow> u8 \<Rightarrow> 'kd option"
  f_ts :: "(on_disk_manager, 'r, 'h) ts_provider"
  f_ts_keys :: "'r \<Rightarrow> u32 \<Rightarrow> 'kr option"
  f_tpm :: "(on_disk_manager, 't, 'c, 'tc) tpm_provider"
  f_p11 :: "(on_disk_manager, 'tk, 'g, 's, 'si) p11_provider"
  f_objects :: "'tk \<Rightarrow> p11_objects"

type_synonym ('b, 'd, 'r, 't, 'tk, 'g, 's) five_state =
  "((((on_disk_manager, 'b) mbed_state \<times> (on_disk_manager, 'd) calib_state) \<times> (on_disk_manager, 'r) ts_state) \<times>
    (on_disk_manager, 't) tpm_state) \<times> (on_disk_manager, 'tk, 'g, 's) p11_state"

abbreviation f_mbed_inv where
  "f_mbed_inv f \<equiv> mbed_inv (on_disk_impl (f_codec f)) odm_inv odm_abs (f_mbed f) (f_mbed_keys f) (f_mbed_id f)"

abbreviation f_calib_inv where
  "f_calib_inv f \<equiv> calib_inv (on_disk_impl (f_codec f)) odm_inv odm_abs (f_calib f) (f_content f)"

abbreviation f_ts_inv where
  "f_ts_inv f \<equiv> ts_inv (on_disk_impl (f_codec f)) odm_inv odm_abs (f_ts f) (f_ts_keys f)"

abbreviation f_tpm_inv where
  "f_tpm_inv f \<equiv> tpm_inv (on_disk_impl (f_codec f)) odm_inv (f_tpm f)"

abbreviation f_p11_inv where
  "f_p11_inv f \<equiv> p11_inv (on_disk_impl (f_codec f)) odm_inv odm_abs (f_p11 f) (f_objects f)"

definition two_inv where "two_inv f = pair_inv (f_mbed_inv f) ms_kim (f_calib_inv f) cs_kim"
definition two_view where "two_view f = pair_view (mbed_view odm_abs (f_mbed f) (f_mbed_keys f)) (calib_view odm_abs (f_calib f) (f_content f))"
definition two_kim where "two_kim v = ms_kim (fst v)"
definition two_set where "two_set = pair_set (\<lambda>m w. w\<lparr>ms_kim := m\<rparr>) (\<lambda>m w. w\<lparr>cs_kim := m\<rparr>)"

definition three_inv where "three_inv f = pair_inv (two_inv f) two_kim (f_ts_inv f) tst_kim"
definition three_view where "three_view f = pair_view (two_view f) (ts_view odm_abs (f_ts f) (f_ts_keys f))"
definition three_kim where "three_kim v = two_kim (fst v)"
definition three_set where "three_set = pair_set two_set (\<lambda>m w. w\<lparr>tst_kim := m\<rparr>)"

definition four_inv where "four_inv f = pair_inv (three_inv f) three_kim (f_tpm_inv f) tpms_kim"
definition four_view where "four_view f = pair_view (three_view f) (tpm_view odm_abs)"
definition four_kim where "four_kim v = three_kim (fst v)"
definition four_set where "four_set = pair_set three_set (\<lambda>m w. w\<lparr>tpms_kim := m\<rparr>)"

definition five_inv where "five_inv f = pair_inv (four_inv f) four_kim (f_p11_inv f) ps_kim"
definition five_view where "five_view f = pair_view (four_view f) (p11_view odm_abs (f_p11 f) (f_objects f))"

text \<open>The providers, each working on its part and leaving the store it has written to the others.\<close>

definition two_left where "two_left = provide_part fst (put_left ms_kim (\<lambda>m w. w\<lparr>cs_kim := m\<rparr>))"
definition three_left where "three_left = provide_part fst (put_left two_kim (\<lambda>m w. w\<lparr>tst_kim := m\<rparr>))"
definition four_left where "four_left = provide_part fst (put_left three_kim (\<lambda>m w. w\<lparr>tpms_kim := m\<rparr>))"
definition five_left where "five_left = provide_part fst (put_left four_kim (\<lambda>m w. w\<lparr>ps_kim := m\<rparr>))"

definition five_providers where
  "five_providers f =
     [(MbedCrypto, five_left (four_left (three_left (two_left (mbed_provide (f_mbed f)))))),
      (CryptoAuthLib, five_left (four_left (three_left (provide_part snd (put_right cs_kim (\<lambda>m w. w\<lparr>ms_kim := m\<rparr>)) (calib_provide (f_calib f)))))),
      (TrustedService, five_left (four_left (provide_part snd (put_right tst_kim two_set) (ts_provide (f_ts f))))),
      (Tpm, five_left (provide_part snd (put_right tpms_kim three_set) (tpm_provide (f_tpm f)))),
      (Pkcs11, provide_part snd (put_right ps_kim four_set) (p11_provide (f_p11 f)))]"

interpretation two_providers: store_pair "f_mbed_inv f" "mbed_view odm_abs (f_mbed f) (f_mbed_keys f)" ms_kim "\<lambda>m w. w\<lparr>ms_kim := m\<rparr>" "{MbedCrypto}"
  "f_calib_inv f" "calib_view odm_abs (f_calib f) (f_content f)" cs_kim "\<lambda>m w. w\<lparr>cs_kim := m\<rparr>" "{CryptoAuthLib}" for f
  by (intro store_pair.intro store_pair_axioms.intro mbed_shared.store_user_axioms calib_shared.store_user_axioms) simp

interpretation three_providers: store_pair "two_inv f" "two_view f" two_kim two_set "{MbedCrypto} \<union> {CryptoAuthLib}"
  "f_ts_inv f" "ts_view odm_abs (f_ts f) (f_ts_keys f)" tst_kim "\<lambda>m w. w\<lparr>tst_kim := m\<rparr>" "{TrustedService}" for f
  using two_providers.pair_store_user
  by (intro store_pair.intro store_pair_axioms.intro ts_shared.store_user_axioms)
    (simp_all add: two_inv_def two_view_def two_kim_def [abs_def] two_set_def)

interpretation four_providers: store_pair "three_inv f" "three_view f" three_kim three_set
  "{MbedCrypto} \<union> {CryptoAuthLib} \<union> {TrustedService}" "f_tpm_inv f" "tpm_view odm_abs" tpms_kim "\<lambda>m w. w\<lparr>tpms_kim := m\<rparr>" "{Tpm}" for f
  using three_providers.pair_store_user
  by (intro store_pair.intro store_pair_axioms.intro tpm_shared.store_user_axioms)
    (simp_all add: three_inv_def three_view_def three_kim_def [abs_def] three_set_def)

interpretation five_shared: store_pair "four_inv f" "four_view f" four_kim four_set
  "{MbedCrypto} \<union> {CryptoAuthLib} \<union> {TrustedService} \<union> {Tpm}" "f_p11_inv f" "p11_view odm_abs (f_p11 f) (f_objects f)" ps_kim
  "\<lambda>m w. w\<lparr>ps_kim := m\<rparr>" "{Pkcs11}" for f
  using four_providers.pair_store_user
  by (intro store_pair.intro store_pair_axioms.intro p11_shared.store_user_axioms)
    (simp_all add: four_inv_def four_view_def four_kim_def [abs_def] four_set_def)

text \<open>Climbing from the parts to the whole.\<close>

lemmas two_folds = two_inv_def [symmetric] two_view_def [symmetric] two_kim_def [abs_def, symmetric] two_set_def [symmetric]
lemmas three_folds = three_inv_def [symmetric] three_view_def [symmetric] three_kim_def [abs_def, symmetric] three_set_def [symmetric]
lemmas four_folds = four_inv_def [symmetric] four_view_def [symmetric] four_kim_def [abs_def, symmetric] four_set_def [symmetric]
lemmas five_folds = five_inv_def [symmetric] five_view_def [symmetric]

lemmas two_climb =
  two_providers.left_framed [unfolded two_folds two_left_def [symmetric]] two_providers.right_framed [unfolded two_folds]
lemmas three_climb =
  three_providers.left_framed [unfolded three_folds three_left_def [symmetric]] three_providers.right_framed [unfolded three_folds]
lemmas four_climb =
  four_providers.left_framed [unfolded four_folds four_left_def [symmetric]] four_providers.right_framed [unfolded four_folds]
lemmas five_climb =
  five_shared.left_framed [unfolded five_folds five_left_def [symmetric]] five_shared.right_framed [unfolded five_folds]

lemmas five_framed =
  five_climb(1) [OF four_climb(1) [OF three_climb(1) [OF two_climb(1) [OF mbed_shared.framed_provider_axioms]]]]
  five_climb(1) [OF four_climb(1) [OF three_climb(1) [OF two_climb(2) [OF calib_shared.framed_provider_axioms]]]]
  five_climb(1) [OF four_climb(1) [OF three_climb(2) [OF ts_shared.framed_provider_axioms]]]
  five_climb(1) [OF four_climb(2) [OF tpm_shared.framed_provider_axioms]]
  five_climb(2) [OF p11_shared.framed_provider_axioms]

lemma five_providers_isolated:
  assumes "(pid, p) \<in> set (five_providers f)"
  shows "tenant_isolation p (five_inv f) (five_view f)"
  using assms unfolding five_providers_def
  by (simp, elim disjE conjE; hypsubst; intro framed_provider.isolated [OF five_framed(1)]
    framed_provider.isolated [OF five_framed(2)] framed_provider.isolated [OF five_framed(3)]
    framed_provider.isolated [OF five_framed(4)] framed_provider.isolated [OF five_framed(5)])

end
