(* ===== verification/Back_End.thy ===== *)
theory Back_End
  imports Providers
begin

text \<open>
  \<open>src/src/back\<close>: the back end handler, which turns a request into one call of the provider, and
  the dispatcher, which finds the handler for a request. The functions of the interface crate
  are the argument \<open>ifc\<close>; every function also takes and returns the state of the service.
\<close>

section \<open>Back end handler\<close>

record 'w back_end_handler =
  beh_provider :: "'w provide"
  beh_converter :: convert
  beh_provider_id :: provider_id
  beh_content_type :: body_type
  beh_accept_type :: body_type

definition result_to_response ::
  "interface \<Rightarrow> 'w back_end_handler \<Rightarrow> native_result \<Rightarrow> request_header \<Rightarrow> response" where
  "result_to_response ifc self result request_hdr =
     (let response = from_request_header ifc request_hdr Success in
      case result_to_body (beh_converter self) result of
        Inr body \<Rightarrow> response\<lparr>resp_body := body\<rparr>
      | Inl status \<Rightarrow> response\<lparr>resp_status := status\<rparr>)"

definition is_capable :: "interface \<Rightarrow> 'w back_end_handler \<Rightarrow> request \<Rightarrow> unit res" where
  "is_capable ifc self request =
     (let header = req_header request in
      if (beh_provider_id self = Core) \<noteq> is_core ifc (rh_opcode header) then Inl PsaErrorNotSupported
      else if rh_provider header \<noteq> beh_provider_id self then Inl WrongProviderId
      else if rh_content_type header \<noteq> beh_content_type self then Inl ContentTypeNotSupported
      else if rh_accept_type header \<noteq> beh_accept_type self then Inl AcceptTypeNotSupported
      else Inr ())"

text \<open>
  The two steps that every arm of \<open>execute_request\<close> is made of: the application must be known,
  and the provider is called and its result marshalled.
\<close>

definition with_app ::
  "interface \<Rightarrow> request_header \<Rightarrow> application option \<Rightarrow> (application_name \<Rightarrow> 'w \<Rightarrow> response \<times> 'w) \<Rightarrow>
   'w \<Rightarrow> response \<times> 'w" where
  "with_app ifc header app k w =
     (case app of
        None \<Rightarrow> (from_request_header ifc header NotAuthenticated, w)
      | Some a \<Rightarrow> k (app_name a) w)"

definition call_provider ::
  "interface \<Rightarrow> 'w back_end_handler \<Rightarrow> request_header \<Rightarrow> ('w, 'a) res_op \<Rightarrow> ('a \<Rightarrow> native_result) \<Rightarrow>
   'w \<Rightarrow> response \<times> 'w" where
  "call_provider ifc self header f wrap w =
     (case f w of
        (Inr result, w') \<Rightarrow> (result_to_response ifc self (wrap result) header, w')
      | (Inl status, w') \<Rightarrow> (from_request_header ifc header status, w'))"

definition run_operation ::
  "interface \<Rightarrow> 'w back_end_handler \<Rightarrow> request_header \<Rightarrow> application option \<Rightarrow> native_operation \<Rightarrow>
   'w \<Rightarrow> response \<times> 'w" where
  "run_operation ifc self header app operation =
     (let p = beh_provider self;
          authed = with_app ifc header app
      in case operation of
        OpListProviders \<Rightarrow> call_provider ifc self header (p_list_providers p) ResListProviders
      | OpListOpcodes pid \<Rightarrow> call_provider ifc self header (p_list_opcodes p pid) ResListOpcodes
      | OpPing \<Rightarrow> call_provider ifc self header (p_ping p) ResPing
      | OpPsaGenerateKey op \<Rightarrow> authed (\<lambda>a.
          call_provider ifc self header (p_psa_generate_key p a op) (\<lambda>_. ResPsaGenerateKey))
      | OpPsaImportKey op \<Rightarrow> authed (\<lambda>a.
          call_provider ifc self header (p_psa_import_key p a op) (\<lambda>_. ResPsaImportKey))
      | OpPsaExportPublicKey op \<Rightarrow> authed (\<lambda>a.
          call_provider ifc self header (p_psa_export_public_key p a op) ResPsaExportPublicKey)
      | OpPsaExportKey op \<Rightarrow> authed (\<lambda>a.
          call_provider ifc self header (p_psa_export_key p a op) ResPsaExportKey)
      | OpPsaDestroyKey op \<Rightarrow> authed (\<lambda>a.
          call_provider ifc self header (p_psa_destroy_key p a op) (\<lambda>_. ResPsaDestroyKey))
      | OpPsaSignHash op \<Rightarrow> authed (\<lambda>a.
          call_provider ifc self header (p_psa_sign_hash p a op) ResPsaSignHash)
      | OpPsaVerifyHash op \<Rightarrow> authed (\<lambda>a.
          call_provider ifc self header (p_psa_verify_hash p a op) (\<lambda>_. ResPsaVerifyHash))
      | OpPsaAsymmetricEncrypt op \<Rightarrow> authed (\<lambda>a.
          call_provider ifc self header (p_psa_asymmetric_encrypt p a op) ResPsaAsymmetricEncrypt)
      | OpPsaAsymmetricDecrypt op \<Rightarrow> authed (\<lambda>a.
          call_provider ifc self header (p_psa_asymmetric_decrypt p a op) ResPsaAsymmetricDecrypt)
      | OpPsaAeadEncrypt op \<Rightarrow> authed (\<lambda>a.
          call_provider ifc self header (p_psa_aead_encrypt p a op) ResPsaAeadEncrypt)
      | OpPsaAeadDecrypt op \<Rightarrow> authed (\<lambda>a.
          call_provider ifc self header (p_psa_aead_decrypt p a op) ResPsaAeadDecrypt)
      | OpListAuthenticators \<Rightarrow>
          call_provider ifc self header (p_list_authenticators p) ResListAuthenticators
      | OpListKeys \<Rightarrow> authed (\<lambda>a. call_provider ifc self header (p_list_keys p a) ResListKeys)
      | OpListClients \<Rightarrow> call_provider ifc self header (p_list_clients p) ResListClients
      | OpDeleteClient op \<Rightarrow>
          call_provider ifc self header (p_delete_client p op) (\<lambda>_. ResDeleteClient)
      | OpPsaHashCompute op \<Rightarrow>
          call_provider ifc self header (p_psa_hash_compute p op) ResPsaHashCompute
      | OpPsaHashCompare op \<Rightarrow>
          call_provider ifc self header (p_psa_hash_compare p op) (\<lambda>_. ResPsaHashCompare)
      | OpPsaRawKeyAgreement op \<Rightarrow> authed (\<lambda>a.
          call_provider ifc self header (p_psa_raw_key_agreement p a op) ResPsaRawKeyAgreement)
      | OpPsaGenerateRandom op \<Rightarrow>
          call_provider ifc self header (p_psa_generate_random p op) ResPsaGenerateRandom
      | OpPsaSignMessage op \<Rightarrow> authed (\<lambda>a.
          call_provider ifc self header (p_psa_sign_message p a op) ResPsaSignMessage)
      | OpPsaVerifyMessage op \<Rightarrow> authed (\<lambda>a.
          call_provider ifc self header (p_psa_verify_message p a op) (\<lambda>_. ResPsaVerifyMessage)))"

definition execute_request ::
  "interface \<Rightarrow> 'w back_end_handler \<Rightarrow> request \<Rightarrow> application option \<Rightarrow> 'w \<Rightarrow> response \<times> 'w" where
  "execute_request ifc self request app w =
     (let header = req_header request; opcode = rh_opcode header;
          run = (case body_to_operation (beh_converter self) (req_body request) opcode of
                   Inl status \<Rightarrow> (from_request_header ifc header status, w)
                 | Inr operation \<Rightarrow> run_operation ifc self header app operation w)
      in if is_admin_opcode ifc opcode then
           (case app of
              None \<Rightarrow> (from_request_header ifc header NotAuthenticated, w)
            | Some a \<Rightarrow>
                if \<not> app_is_admin a then (from_request_header ifc header AdminOperation, w) else run)
         else run)"

text \<open>The builder.\<close>

record 'w back_end_handler_builder =
  bb_provider :: "'w provide option"
  bb_converter :: "convert option"
  bb_provider_id :: "provider_id option"
  bb_content_type :: "body_type option"
  bb_accept_type :: "body_type option"

definition beh_builder_new :: "'w back_end_handler_builder" where
  "beh_builder_new =
     \<lparr>bb_provider = None, bb_converter = None, bb_provider_id = None, bb_content_type = None,
      bb_accept_type = None\<rparr>"

definition with_provider :: "'w back_end_handler_builder \<Rightarrow> 'w provide \<Rightarrow> 'w back_end_handler_builder" where
  "with_provider self provider = self\<lparr>bb_provider := Some provider\<rparr>"

definition with_converter :: "'w back_end_handler_builder \<Rightarrow> convert \<Rightarrow> 'w back_end_handler_builder" where
  "with_converter self converter = self\<lparr>bb_converter := Some converter\<rparr>"

definition with_provider_id :: "'w back_end_handler_builder \<Rightarrow> provider_id \<Rightarrow> 'w back_end_handler_builder" where
  "with_provider_id self pid = self\<lparr>bb_provider_id := Some pid\<rparr>"

definition with_content_type :: "'w back_end_handler_builder \<Rightarrow> body_type \<Rightarrow> 'w back_end_handler_builder" where
  "with_content_type self t = self\<lparr>bb_content_type := Some t\<rparr>"

definition with_accept_type :: "'w back_end_handler_builder \<Rightarrow> body_type \<Rightarrow> 'w back_end_handler_builder" where
  "with_accept_type self t = self\<lparr>bb_accept_type := Some t\<rparr>"

definition beh_build :: "'w back_end_handler_builder \<Rightarrow> string + 'w back_end_handler" where
  "beh_build self =
     try_res (ok_or (bb_provider self) ''provider is missing'') (\<lambda>provider.
     try_res (ok_or (bb_converter self) ''converter is missing'') (\<lambda>converter.
     try_res (ok_or (bb_provider_id self) ''provider_id is missing'') (\<lambda>pid.
     try_res (ok_or (bb_content_type self) ''content_type is missing'') (\<lambda>ct.
     try_res (ok_or (bb_accept_type self) ''accept_type is missing'') (\<lambda>act.
     Inr \<lparr>beh_provider = provider, beh_converter = converter, beh_provider_id = pid,
          beh_content_type = ct, beh_accept_type = act\<rparr>)))))"

section \<open>Dispatcher\<close>

record 'w dispatcher =
  backends :: "(provider_id, 'w back_end_handler) hash_map"

definition dispatch_request ::
  "interface \<Rightarrow> 'w dispatcher \<Rightarrow> request \<Rightarrow> application option \<Rightarrow> 'w \<Rightarrow> response \<times> 'w" where
  "dispatch_request ifc self request app w =
     (case hm_get (backends self) (rh_provider (req_header request)) of
        Some backend \<Rightarrow>
          (case is_capable ifc backend request of
             Inl status \<Rightarrow> (from_request_header ifc (req_header request) status, w)
           | Inr _ \<Rightarrow> execute_request ifc backend request app w)
      | None \<Rightarrow> (from_request_header ifc (req_header request) ProviderNotRegistered, w))"

record 'w dispatcher_builder =
  db_backends :: "(provider_id, 'w back_end_handler) hash_map option"

definition dispatcher_builder_new :: "'w dispatcher_builder" where
  "dispatcher_builder_new = \<lparr>db_backends = None\<rparr>"

definition unwrap_or_default :: "('k, 'v) hash_map option \<Rightarrow> ('k, 'v) hash_map" where
  "unwrap_or_default m = (case m of Some m \<Rightarrow> m | None \<Rightarrow> [])"

definition with_backend ::
  "'w dispatcher_builder \<Rightarrow> provider_id \<Rightarrow> 'w back_end_handler \<Rightarrow> 'w dispatcher_builder" where
  "with_backend self pid handler =
     self\<lparr>db_backends := Some (hm_insert pid handler (unwrap_or_default (db_backends self)))\<rparr>"

definition with_backends ::
  "'w dispatcher_builder \<Rightarrow> (provider_id, 'w back_end_handler) hash_map \<Rightarrow> 'w dispatcher_builder" where
  "with_backends self new_backends =
     self\<lparr>db_backends := Some (fold (\<lambda>(pid, handler). hm_insert pid handler) new_backends
                                (unwrap_or_default (db_backends self)))\<rparr>"

definition dispatcher_build :: "'w dispatcher_builder \<Rightarrow> string + 'w dispatcher" where
  "dispatcher_build self =
     try_res (ok_or (db_backends self) ''backends is missing'') (\<lambda>bs. Inr \<lparr>backends = bs\<rparr>)"

section \<open>Which request reaches a provider\<close>

text \<open>The operations that are made in the name of an application.\<close>

fun needs_app :: "native_operation \<Rightarrow> bool" where
  "needs_app OpListProviders = False"
| "needs_app (OpListOpcodes _) = False"
| "needs_app OpPing = False"
| "needs_app OpListAuthenticators = False"
| "needs_app OpListClients = False"
| "needs_app (OpDeleteClient _) = False"
| "needs_app (OpPsaHashCompute _) = False"
| "needs_app (OpPsaHashCompare _) = False"
| "needs_app (OpPsaGenerateRandom _) = False"
| "needs_app _ = True"

text \<open>The tenants whose data an operation may touch.\<close>

definition touched :: "application option \<Rightarrow> native_operation \<Rightarrow> application_name set" where
  "touched app operation =
     (case operation of
        OpDeleteClient c \<Rightarrow> {c}
      | _ \<Rightarrow> if needs_app operation then (case app of Some a \<Rightarrow> {app_name a} | None \<Rightarrow> {}) else {})"

lemma run_operation_unauthenticated:
  "needs_app operation \<Longrightarrow>
   run_operation ifc self header None operation w = (from_request_header ifc header NotAuthenticated, w)"
  by (cases operation) (simp_all add: run_operation_def with_app_def Let_def)

lemma execute_request_cases:
  "execute_request ifc self request app w =
     (if is_admin_opcode ifc (rh_opcode (req_header request)) \<and> \<not> (\<exists>a. app = Some a \<and> app_is_admin a)
      then (from_request_header ifc (req_header request) (if app = None then NotAuthenticated else AdminOperation), w)
      else case body_to_operation (beh_converter self) (req_body request) (rh_opcode (req_header request)) of
          Inl status \<Rightarrow> (from_request_header ifc (req_header request) status, w)
        | Inr operation \<Rightarrow> run_operation ifc self (req_header request) app operation w)"
  by (auto simp: execute_request_def Let_def split: option.splits)

lemma is_capable_Inr:
  "is_capable ifc self request = Inr u \<longleftrightarrow>
     (beh_provider_id self = Core \<longleftrightarrow> is_core ifc (rh_opcode (req_header request))) \<and>
     rh_provider (req_header request) = beh_provider_id self \<and>
     rh_content_type (req_header request) = beh_content_type self \<and>
     rh_accept_type (req_header request) = beh_accept_type self"
  by (auto simp: is_capable_def Let_def)

lemma keeps_call_provider:
  "keeps I view V f \<Longrightarrow> keeps I view V (call_provider ifc self header f wrap)"
  by (auto simp: keeps_def call_provider_def split: prod.splits sum.splits)

text \<open>\<open>dispatch_request\<close> when it gets as far as \<open>run_operation\<close>, and that nothing happens otherwise.\<close>

definition reaches ::
  "interface \<Rightarrow> 'w dispatcher \<Rightarrow> request \<Rightarrow> application option \<Rightarrow> 'w back_end_handler \<Rightarrow> native_operation \<Rightarrow> bool" where
  "reaches ifc self request app backend operation \<longleftrightarrow>
     (let h = req_header request in
      hm_get (backends self) (rh_provider h) = Some backend \<and> is_capable ifc backend request = Inr () \<and>
      (is_admin_opcode ifc (rh_opcode h) \<longrightarrow> (\<exists>a. app = Some a \<and> app_is_admin a)) \<and>
      body_to_operation (beh_converter backend) (req_body request) (rh_opcode h) = Inr operation)"

lemma dispatch_request_cases:
  obtains (run) backend operation where "reaches ifc self request app backend operation"
    "dispatch_request ifc self request app w =
       run_operation ifc backend (req_header request) app operation w"
  | (refused) status where
    "dispatch_request ifc self request app w = (from_request_header ifc (req_header request) status, w)"
    "\<nexists>backend operation. reaches ifc self request app backend operation"
proof (cases "hm_get (backends self) (rh_provider (req_header request))")
  case None
  then show thesis using refused by (simp add: dispatch_request_def reaches_def Let_def)
next
  case (Some backend)
  show thesis
  proof (cases "is_capable ifc backend request")
    case (Inl status)
    with Some show thesis using refused by (simp add: dispatch_request_def reaches_def Let_def)
  next
    case (Inr u)
    show thesis
    proof (cases "\<exists>operation. reaches ifc self request app backend operation")
      case True
      then obtain operation where "reaches ifc self request app backend operation" by blast
      with Some Inr show thesis using run
        by (auto simp: dispatch_request_def reaches_def Let_def execute_request_cases)
    next
      case False
      with Some Inr have "\<exists>status. dispatch_request ifc self request app w =
          (from_request_header ifc (req_header request) status, w)"
        by (auto simp: dispatch_request_def reaches_def Let_def execute_request_cases split: sum.splits)
      with False Some show thesis using refused by (auto simp: reaches_def Let_def)
    qed
  qed
qed

context tenant_isolation
begin

lemma run_operation_keeps:
  assumes "beh_provider self = p"
  shows "keeps inv view (- touched app operation) (run_operation ifc self header app operation)"
proof (cases "needs_app operation")
  case True
  show ?thesis
  proof (cases app)
    case None
    then show ?thesis
      by (simp add: keeps_def run_operation_unauthenticated [OF True])
  next
    case (Some a)
    then show ?thesis using True assms
      by (cases operation)
        (simp_all add: run_operation_def Let_def touched_def with_app_def [abs_def]
          keeps_call_provider iso_app)
  qed
next
  case False
  then show ?thesis using assms
    by (cases operation)
      (simp_all add: run_operation_def Let_def touched_def
        keeps_call_provider iso_service iso_delete_client)
qed

end

section \<open>Properties\<close>

text \<open>
  C26: the dispatcher is the only way to a provider. A request changes the state of the service only if
  a back end is registered under the provider named in its header, the operation belongs to
  that kind of provider, content and accept type match, the body decodes to an operation, the application is
  an administrator if the opcode is an administrator's, and the application is known if the
  operation is made in its name.
\<close>

theorem dispatch_change_is_authorized:
  assumes "snd (dispatch_request ifc self request app w) \<noteq> w"
  shows "\<exists>backend operation.
    hm_get (backends self) (rh_provider (req_header request)) = Some backend \<and>
    beh_provider_id backend = rh_provider (req_header request) \<and>
    (beh_provider_id backend = Core \<longleftrightarrow> is_core ifc (rh_opcode (req_header request))) \<and>
    rh_content_type (req_header request) = beh_content_type backend \<and>
    rh_accept_type (req_header request) = beh_accept_type backend \<and>
    body_to_operation (beh_converter backend) (req_body request) (rh_opcode (req_header request)) = Inr operation \<and>
    (is_admin_opcode ifc (rh_opcode (req_header request)) \<longrightarrow> (\<exists>a. app = Some a \<and> app_is_admin a)) \<and>
    (needs_app operation \<longrightarrow> app \<noteq> None)"
proof (cases rule: dispatch_request_cases [of ifc self request app w])
  case (run backend operation)
  have "needs_app operation \<longrightarrow> app \<noteq> None"
    using run(2) assms run_operation_unauthenticated by (metis snd_conv)
  with run(1) show ?thesis by (auto simp: reaches_def Let_def is_capable_Inr)
next
  case (refused status)
  with assms show ?thesis by simp
qed

text \<open>A service whose state counts, for each application, the keys it has generated.\<close>

definition tally_provide :: "(application_name \<Rightarrow> nat) provide" where
  "tally_provide =
     (default_provide None (\<lambda>_. ok_op []) (ok_op []))
       \<lparr>p_delete_client := (\<lambda>c w. (Inr (), w(c := 0))),
        p_psa_generate_key := (\<lambda>a op w. (Inr (), w(a := Suc (w a))))\<rparr>"

definition sample_interface :: interface where
  "sample_interface =
     \<lparr>is_core = (\<lambda>op. op \<in> {Ping, ListProviders, ListOpcodes, ListAuthenticators, ListKeys, ListClients, DeleteClient}),
      is_admin_opcode = (\<lambda>op. op \<in> {ListClients, DeleteClient}),
      from_request_header = (\<lambda>h s. \<lparr>resp_status = s, resp_body = [], resp_other = rh_other h\<rparr>),
      from_status = (\<lambda>s. \<lparr>resp_status = s, resp_body = [], resp_other = []\<rparr>)\<rparr>"

definition sample_convert :: convert where
  "sample_convert =
     \<lparr>body_to_operation = (\<lambda>b op.
        if op = DeleteClient then Inr (OpDeleteClient ''victim'')
        else if op = PsaGenerateKey then
          Inr (OpPsaGenerateKey \<lparr>gk_key_name = ''k'', gk_attributes = sample_attributes\<rparr>)
        else Inl InvalidEncoding),
      result_to_body = (\<lambda>_. Inr [])\<rparr>"

definition sample_dispatcher :: "provider_id \<Rightarrow> (application_name \<Rightarrow> nat) dispatcher" where
  "sample_dispatcher pid = \<lparr>backends = [(pid,
     \<lparr>beh_provider = tally_provide, beh_converter = sample_convert, beh_provider_id = pid,
      beh_content_type = Protobuf, beh_accept_type = Protobuf\<rparr>)]\<rparr>"

definition sample_request :: "provider_id \<Rightarrow> opcode \<Rightarrow> request" where
  "sample_request pid op =
     \<lparr>req_header = \<lparr>rh_provider = pid, rh_content_type = Protobuf, rh_accept_type = Protobuf,
        rh_auth_type = Direct, rh_opcode = op, rh_other = []\<rparr>, req_body = [], req_auth = [97]\<rparr>"

lemmas sample_back_end_defs = tally_provide_def sample_interface_def sample_convert_def
  sample_dispatcher_def sample_request_def default_provide_def

theorem dispatch_change_is_authorized_witness:
  "\<exists>backend operation. hm_get (backends (sample_dispatcher MbedCrypto)) MbedCrypto = Some backend \<and>
     body_to_operation (beh_converter backend) [] PsaGenerateKey = Inr operation \<and> needs_app operation"
proof -
  have "snd (dispatch_request sample_interface (sample_dispatcher MbedCrypto)
      (sample_request MbedCrypto PsaGenerateKey) (Some (application_new ''a'' False)) (\<lambda>_. 0)) ''a'' = 1"
    by (simp add: sample_back_end_defs dispatch_request_def hm_get_def is_capable_def execute_request_def
        run_operation_def call_provider_def with_app_def)
  then have "snd (dispatch_request sample_interface (sample_dispatcher MbedCrypto)
      (sample_request MbedCrypto PsaGenerateKey) (Some (application_new ''a'' False)) (\<lambda>_. 0)) \<noteq> (\<lambda>_. 0)"
    by (metis zero_neq_one)
  from dispatch_change_is_authorized [OF this] show ?thesis
    by (auto simp: sample_request_def sample_dispatcher_def hm_get_def sample_convert_def)
qed

text \<open>
  Administrator operations are guarded. A request with an administrator opcode from an
  unauthenticated client or from an application that is not an administrator is answered with
  \<open>NotAuthenticated\<close> or \<open>AdminOperation\<close>, and the provider is not called.
\<close>

lemma admin_operation_guarded:
  assumes "keeps_status ifc" and "is_admin_opcode ifc (rh_opcode (req_header request))"
    and "\<nexists>a. app = Some a \<and> app_is_admin a"
  shows "\<exists>resp. execute_request ifc self request app w = (resp, w) \<and>
    resp_status resp = (if app = None then NotAuthenticated else AdminOperation)"
  using assms by (auto simp: execute_request_cases keeps_status_def)

lemma admin_operation_guarded_witness:
  "\<exists>resp. execute_request sample_interface
       \<lparr>beh_provider = tally_provide, beh_converter = sample_convert, beh_provider_id = Core,
        beh_content_type = Protobuf, beh_accept_type = Protobuf\<rparr>
       (sample_request Core DeleteClient) (Some (application_new ''app'' False)) (\<lambda>_. 0) = (resp, \<lambda>_. 0) \<and>
     resp_status resp = AdminOperation"
proof -
  have "keeps_status sample_interface" by (simp add: keeps_status_def sample_interface_def)
  moreover have "is_admin_opcode sample_interface (rh_opcode (req_header (sample_request Core DeleteClient)))"
    by (simp add: sample_interface_def sample_request_def)
  ultimately show ?thesis
    using admin_operation_guarded [of sample_interface "sample_request Core DeleteClient"
        "Some (application_new ''app'' False)"] by simp
qed

end
