(* ===== verification/Front_End.thy ===== *)
theory Front_End
  imports Back_End
begin

text \<open>
  \<open>src/src/front/front_end.rs\<close>: reading a request from a connection, authenticating it, passing it to
  the dispatcher and writing the response. The stream of a connection and the functions that parse
  and print messages on it belong to the interface crate and are parameters.
\<close>

section \<open>Connections and the handler\<close>

record 's wire =
  read_from_stream :: "usize \<Rightarrow> ('s, request) res_op"
  write_to_stream :: "response \<Rightarrow> ('s, unit) res_op"

record 's connection =
  conn_stream :: 's
  conn_metadata :: "connection_metadata option"

record 'w front_end_handler =
  feh_dispatcher :: "'w dispatcher"
  feh_authenticators :: "(auth_type, authenticate) hash_map"
  feh_body_len_limit :: usize

text \<open>
  The first half of \<open>handle_request\<close>: who sent the request, or the response that refuses it.
\<close>

definition authenticate_request ::
  "interface \<Rightarrow> 'w front_end_handler \<Rightarrow> request \<Rightarrow> connection_metadata option \<Rightarrow> response + application option" where
  "authenticate_request ifc self request metadata =
     (if rh_auth_type (req_header request) = NoAuth then Inr None
      else case hm_get (feh_authenticators self) (rh_auth_type (req_header request)) of
        Some authenticator \<Rightarrow>
          (case au_authenticate authenticator (req_auth request) metadata of
             Inr app \<Rightarrow> Inr (Some app)
           | Inl status \<Rightarrow> Inl (from_request_header ifc (req_header request) status))
      | None \<Rightarrow> Inl (from_request_header ifc (req_header request) AuthenticatorNotRegistered))"

definition handle_request ::
  "interface \<Rightarrow> 's wire \<Rightarrow> 'w front_end_handler \<Rightarrow> 's connection \<Rightarrow> 'w \<Rightarrow> 's \<times> 'w" where
  "handle_request ifc wire self connection w =
     (case read_from_stream wire (feh_body_len_limit self) (conn_stream connection) of
        (Inl status, s) \<Rightarrow> (snd (write_to_stream wire (from_status ifc status) s), w)
      | (Inr request, s) \<Rightarrow>
          (case authenticate_request ifc self request (conn_metadata connection) of
             Inl err_response \<Rightarrow> (snd (write_to_stream wire err_response s), w)
           | Inr app \<Rightarrow>
               (case dispatch_request ifc (feh_dispatcher self) request app w of
                  (response, w') \<Rightarrow> (snd (write_to_stream wire response s), w'))))"

text \<open>The builder.\<close>

record 'w front_end_handler_builder =
  fb_dispatcher :: "'w dispatcher option"
  fb_authenticators :: "(auth_type, authenticate) hash_map option"
  fb_body_len_limit :: "usize option"

definition feh_builder_new :: "'w front_end_handler_builder" where
  "feh_builder_new = \<lparr>fb_dispatcher = None, fb_authenticators = None, fb_body_len_limit = None\<rparr>"

definition with_dispatcher :: "'w front_end_handler_builder \<Rightarrow> 'w dispatcher \<Rightarrow> 'w front_end_handler_builder" where
  "with_dispatcher self d = self\<lparr>fb_dispatcher := Some d\<rparr>"

definition with_authenticator ::
  "'w front_end_handler_builder \<Rightarrow> auth_type \<Rightarrow> authenticate \<Rightarrow> 'w front_end_handler_builder" where
  "with_authenticator self t a =
     (case fb_authenticators self of
        Some authenticators \<Rightarrow> self\<lparr>fb_authenticators := Some (hm_insert t a authenticators)\<rparr>
      | None \<Rightarrow> self\<lparr>fb_authenticators := Some (hm_insert t a [])\<rparr>)"

definition with_body_len_limit :: "'w front_end_handler_builder \<Rightarrow> usize \<Rightarrow> 'w front_end_handler_builder" where
  "with_body_len_limit self n = self\<lparr>fb_body_len_limit := Some n\<rparr>"

definition feh_build :: "'w front_end_handler_builder \<Rightarrow> string + 'w front_end_handler" where
  "feh_build self =
     try_res (ok_or (fb_dispatcher self) ''dispatcher is missing'') (\<lambda>d.
     try_res (ok_or (fb_authenticators self) ''authenticators is missing'') (\<lambda>as.
     try_res (ok_or (fb_body_len_limit self) ''body_len_limit is missing'') (\<lambda>n.
     Inr \<lparr>feh_dispatcher = d, feh_authenticators = as, feh_body_len_limit = n\<rparr>)))"

section \<open>Who can change the state of the service\<close>

lemma handle_request_state:
  assumes "snd (handle_request ifc wire self connection w) \<noteq> w"
  obtains request s app where
    "read_from_stream wire (feh_body_len_limit self) (conn_stream connection) = (Inr request, s)"
    "authenticate_request ifc self request (conn_metadata connection) = Inr app"
    "snd (handle_request ifc wire self connection w) =
       snd (dispatch_request ifc (feh_dispatcher self) request app w)"
  using assms by (auto simp: handle_request_def split: prod.splits sum.splits)

lemma authenticate_request_Inr:
  assumes "authenticate_request ifc self request meta = Inr (Some app)"
  shows "\<exists>a. hm_get (feh_authenticators self) (rh_auth_type (req_header request)) = Some a \<and>
    au_authenticate a (req_auth request) meta = Inr app"
  using assms by (auto simp: authenticate_request_def split: if_splits option.splits sum.splits)

text \<open>
  Every registered authenticator is a proper authority over the same list of administrators.
\<close>

definition authenticators_ok :: "'w front_end_handler \<Rightarrow> admin list \<Rightarrow> bool" where
  "authenticators_ok self admins \<longleftrightarrow>
     (\<forall>t a. hm_get (feh_authenticators self) t = Some a \<longrightarrow> admin_authority a admins t)"

text \<open>Every back end of the dispatcher has a provider that keeps tenants apart.\<close>

definition backends_isolated :: "'w dispatcher \<Rightarrow> ('w \<Rightarrow> bool) \<Rightarrow> (application_name \<Rightarrow> 'w \<Rightarrow> 'v) \<Rightarrow> bool" where
  "backends_isolated self I view \<longleftrightarrow>
     (\<forall>pid b. hm_get (backends self) pid = Some b \<longrightarrow> tenant_isolation (beh_provider b) I view)"

lemma dispatch_request_keeps:
  assumes "backends_isolated self I view" and "I w"
    and "dispatch_request ifc self request app w = (resp, w')"
  shows "I w' \<and> (\<forall>n. view n w' \<noteq> view n w \<longrightarrow>
    (\<exists>backend operation. reaches ifc self request app backend operation \<and> n \<in> touched app operation))"
proof (cases rule: dispatch_request_cases [of ifc self request app w])
  case (run backend operation)
  then have "tenant_isolation (beh_provider backend) I view"
    using assms(1) by (auto simp: backends_isolated_def reaches_def Let_def)
  from keepsD [OF tenant_isolation.run_operation_keeps [OF this refl] assms(2)] run assms(3)
  show ?thesis by (metis ComplI)
next
  case (refused status)
  with assms show ?thesis by simp
qed

text \<open>From the wire to the providers.\<close>

lemma handle_request_isolated:
  assumes "backends_isolated (feh_dispatcher self) I view" and "I w" and "authenticators_ok self admins"
    and "is_admin_opcode ifc DeleteClient"
    and "\<And>pid b body opc c. hm_get (backends (feh_dispatcher self)) pid = Some b \<Longrightarrow>
      body_to_operation (beh_converter b) body opc = Inr (OpDeleteClient c) \<Longrightarrow> opc = DeleteClient"
    and "view n (snd (handle_request ifc wire self connection w)) \<noteq> view n w"
  shows "\<exists>request s app.
    read_from_stream wire (feh_body_len_limit self) (conn_stream connection) = (Inr request, s) \<and>
    authenticate_request ifc self request (conn_metadata connection) = Inr (Some app) \<and>
    (app_name app = n \<or> app_name app \<in> set admins \<and> rh_opcode (req_header request) = DeleteClient)"
proof -
  have "snd (handle_request ifc wire self connection w) \<noteq> w" using assms(6) by auto
  then obtain request s app where
    read: "read_from_stream wire (feh_body_len_limit self) (conn_stream connection) = (Inr request, s)" and
    auth: "authenticate_request ifc self request (conn_metadata connection) = Inr app" and
    st: "snd (handle_request ifc wire self connection w) =
       snd (dispatch_request ifc (feh_dispatcher self) request app w)"
    by (rule handle_request_state)
  obtain backend operation where r: "reaches ifc (feh_dispatcher self) request app backend operation"
    and n: "n \<in> touched app operation"
    using dispatch_request_keeps [OF assms(1,2) prod.collapse [symmetric]] assms(6) st by metis
  show ?thesis
  proof (cases "operation = OpDeleteClient n")
    case True
    with r assms(5) have "rh_opcode (req_header request) = DeleteClient" by (auto simp: reaches_def Let_def)
    with r assms(4) obtain a where a: "app = Some a" "app_is_admin a" by (auto simp: reaches_def Let_def)
    then have "app_name a \<in> set admins"
      using authenticate_request_Inr auth assms(3) admin_authority.admin_is_listed
      by (fastforce simp: authenticators_ok_def)
    with a read auth \<open>rh_opcode (req_header request) = DeleteClient\<close> show ?thesis by blast
  next
    case False
    with n obtain a where "app = Some a" "app_name a = n"
      by (auto simp: touched_def split: native_operation.splits option.splits if_splits)
    with read auth show ?thesis by blast
  qed
qed

section \<open>Properties\<close>

text \<open>
  C27: one request, one response. Whatever a client sends, \<open>handle_request\<close> writes exactly one response to
  the stream it read from: the error of the parser, the refusal of the authentication, or the
  response of the dispatcher; and only the last can have changed the state of the service.
\<close>

theorem handle_request_writes_one_response:
  "\<exists>response s. snd (read_from_stream wire (feh_body_len_limit self) (conn_stream connection)) = s \<and>
     fst (handle_request ifc wire self connection w) = snd (write_to_stream wire response s) \<and>
     (snd (handle_request ifc wire self connection w) = w \<or>
      (\<exists>request app. fst (read_from_stream wire (feh_body_len_limit self) (conn_stream connection)) = Inr request \<and>
         authenticate_request ifc self request (conn_metadata connection) = Inr app \<and>
         (response, snd (handle_request ifc wire self connection w)) =
           dispatch_request ifc (feh_dispatcher self) request app w))"
proof (cases "read_from_stream wire (feh_body_len_limit self) (conn_stream connection)")
  case (Pair r s)
  show ?thesis
  proof (cases r)
    case (Inr request)
    with Pair show ?thesis
      by (cases "authenticate_request ifc self request (conn_metadata connection)")
        (auto simp: handle_request_def split: prod.splits intro!: exI)
  qed (use Pair in \<open>auto simp: handle_request_def\<close>)
qed

text \<open>
  C25: administrator operations need a configured administrator. If the registered authenticators
  are proper and a request with an administrator opcode changes the state of the service, then
  the client authenticated under a name on the configured list of administrators.
\<close>

theorem admin_change_needs_listed_admin:
  assumes "authenticators_ok self admins"
    and "read_from_stream wire (feh_body_len_limit self) (conn_stream connection) = (Inr request, s)"
    and "is_admin_opcode ifc (rh_opcode (req_header request))"
    and "snd (handle_request ifc wire self connection w) \<noteq> w"
  shows "\<exists>a app. hm_get (feh_authenticators self) (rh_auth_type (req_header request)) = Some a \<and>
    au_authenticate a (req_auth request) (conn_metadata connection) = Inr app \<and> app_name app \<in> set admins"
proof -
  obtain app where auth: "authenticate_request ifc self request (conn_metadata connection) = Inr app"
    and changed: "snd (dispatch_request ifc (feh_dispatcher self) request app w) \<noteq> w"
    using assms(2,4) handle_request_state [OF assms(4)] by (metis Pair_inject Inr_inject)
  obtain a where a: "app = Some a" "app_is_admin a"
    using changed assms(3)
    by (cases rule: dispatch_request_cases [of ifc "feh_dispatcher self" request app w])
      (auto simp: reaches_def Let_def)
  then obtain au where au: "hm_get (feh_authenticators self) (rh_auth_type (req_header request)) = Some au"
    "au_authenticate au (req_auth request) (conn_metadata connection) = Inr a"
    using auth authenticate_request_Inr by blast
  with assms(1) have "admin_authority au admins (rh_auth_type (req_header request))"
    by (auto simp: authenticators_ok_def)
  from admin_authority.admin_is_listed [OF this au(2) a(2)] au show ?thesis by blast
qed

text \<open>A wire that delivers one fixed request and records what is written.\<close>

definition sample_wire :: "request \<Rightarrow> response list wire" where
  "sample_wire request =
     \<lparr>read_from_stream = (\<lambda>limit s. (Inr request, s)), write_to_stream = (\<lambda>r s. (Inr (), s @ [r]))\<rparr>"

definition sample_front_end :: "provider_id \<Rightarrow> admin list \<Rightarrow> (application_name \<Rightarrow> nat) front_end_handler" where
  "sample_front_end pid admins =
     \<lparr>feh_dispatcher = sample_dispatcher pid,
      feh_authenticators = [(Direct, direct_authenticator_impl (direct_new admins))],
      feh_body_len_limit = 1024\<rparr>"

lemma sample_front_end_ok: "authenticators_ok (sample_front_end pid admins) admins"
  using direct_auth.admin_authority_axioms [of "direct_new admins"]
  by (auto simp: authenticators_ok_def sample_front_end_def hm_get_def direct_new_def split: if_splits)

theorem admin_change_needs_listed_admin_witness:
  "\<exists>a app. hm_get (feh_authenticators (sample_front_end Core [''a''])) Direct = Some a \<and>
     au_authenticate a [97] None = Inr app \<and> app_name app \<in> {''a''}"
proof -
  let ?run = "handle_request sample_interface (sample_wire (sample_request Core DeleteClient))
      (sample_front_end Core [''a'']) \<lparr>conn_stream = [], conn_metadata = None\<rparr> (\<lambda>_. 7)"
  have "snd ?run ''victim'' = 0" by code_simp
  then have "snd ?run \<noteq> (\<lambda>_. 7)" by (metis zero_neq_numeral)
  then show ?thesis
    using admin_change_needs_listed_admin [OF sample_front_end_ok, of "sample_wire (sample_request Core DeleteClient)"
        Core "[''a'']" "\<lparr>conn_stream = [], conn_metadata = None\<rparr>" "sample_request Core DeleteClient" "[]"
        sample_interface "\<lambda>_. 7"]
    by (simp add: sample_wire_def sample_interface_def sample_request_def)
qed


lemma tally_isolated: "tenant_isolation tally_provide (\<lambda>_. True) (\<lambda>n w. w n)"
  by unfold_locales
    (auto simp: tally_provide_def default_provide_def keeps_def not_supported_def ok_op_def err_op_def)


end
