(* ===== verification/Domain_Socket.thy ===== *)
theory Domain_Socket
  imports Front_End
begin

text \<open>
  \<open>src/src/front/domain_socket.rs\<close>: opening the Unix domain socket of the service and accepting
  connections on it, with the credentials of the peer. The calls of the operating system are the record
  \<open>unix_os\<close> over an opaque state \<open>'x\<close>, with listeners \<open>'l\<close> and streams \<open>'s\<close>; the number of milliseconds of a
  \<open>Duration\<close> is a 64 bit word.
\<close>

section \<open>The operating system\<close>

type_synonym duration = "64 word"

text \<open>The structure that \<open>getsockopt\<close> fills: process, user and group identifier.\<close>

record ucred =
  uc_pid :: "32 word"
  uc_uid :: u32
  uc_gid :: u32

record ('x, 'l, 's) unix_os =
  listen_fds :: "('x, string, nat) rust_op"
  os_exists :: "string \<Rightarrow> 'x \<Rightarrow> bool \<times> 'x"
  os_is_socket :: "string \<Rightarrow> ('x, string, bool) rust_op"
  os_remove_file :: "string \<Rightarrow> ('x, string, unit) rust_op"
  os_bind :: "string \<Rightarrow> ('x, string, 'l) rust_op"
  os_listener_nonblocking :: "'l \<Rightarrow> bool \<Rightarrow> ('x, string, unit) rust_op"
  os_set_permissions :: "string \<Rightarrow> u32 \<Rightarrow> ('x, string, unit) rust_op"
  os_passed_listener :: "string + 'l"
  os_accept :: "'l \<Rightarrow> ('x, string, 's) rust_op"
  os_set_read_timeout :: "'s \<Rightarrow> duration option \<Rightarrow> ('x, string, unit) rust_op"
  os_set_write_timeout :: "'s \<Rightarrow> duration option \<Rightarrow> ('x, string, unit) rust_op"
  os_stream_nonblocking :: "'s \<Rightarrow> bool \<Rightarrow> ('x, string, unit) rust_op"
  os_getsockopt_peercred :: "'s \<Rightarrow> ucred \<Rightarrow> u32 \<Rightarrow> 'x \<Rightarrow> (32 word \<times> ucred \<times> u32) \<times> 'x"
  os_last_error :: "'x \<Rightarrow> string"

section \<open>Peer credentials\<close>

text \<open>\<open>mem::size_of::<ucred>()\<close>, three fields of four bytes.\<close>

definition ucred_size :: u32 where
  "ucred_size = 12"

definition peer_cred :: "('x, 'l, 's) unix_os \<Rightarrow> 's \<Rightarrow> ('x, string, ucred) rust_op" where
  "peer_cred os socket x =
     (case os_getsockopt_peercred os socket \<lparr>uc_pid = 1, uc_uid = 1, uc_gid = 1\<rparr> ucred_size x of
        ((ret, cred, sz), x') \<Rightarrow>
          if ret = 0 \<and> sz = ucred_size then (Inr cred, x') else (Inl (os_last_error os x'), x'))"

section \<open>The listener\<close>

record 'l domain_socket_listener =
  ds_listener :: 'l
  ds_timeout :: duration

definition remove_stale_socket :: "('x, 'l, 's) unix_os \<Rightarrow> string \<Rightarrow> ('x, string, unit) rust_op" where
  "remove_stale_socket os socket_path x =
     (case os_exists os socket_path x of
        (False, x') \<Rightarrow> (Inr (), x')
      | (True, x') \<Rightarrow>
          try_op (os_is_socket os socket_path) (\<lambda>is_socket.
            if is_socket then os_remove_file os socket_path else ok_op ()) x')"

definition domain_socket_new ::
  "('x, 'l, 's) unix_os \<Rightarrow> duration \<Rightarrow> string \<Rightarrow> ('x, string, 'l domain_socket_listener) rust_op" where
  "domain_socket_new os timeout socket_path =
     try_op (listen_fds os) (\<lambda>n.
     try_op
       (if n = 0 then
          try_op (remove_stale_socket os socket_path) (\<lambda>_.
          try_op (os_bind os socket_path) (\<lambda>listener.
          try_op (os_listener_nonblocking os listener True) (\<lambda>_.
          try_op (os_set_permissions os socket_path 0x1B6) (\<lambda>_.
          ok_op listener))))
        else if n = 1 then read_op (\<lambda>_. os_passed_listener os)
        else err_op ''too many file descriptors received'')
       (\<lambda>listener. ok_op \<lparr>ds_listener = listener, ds_timeout = timeout\<rparr>))"

definition ds_set_timeout :: "'l domain_socket_listener \<Rightarrow> duration \<Rightarrow> 'l domain_socket_listener" where
  "ds_set_timeout self duration = self\<lparr>ds_timeout := duration\<rparr>"

definition ds_accept :: "('x, 'l, 's) unix_os \<Rightarrow> 'l domain_socket_listener \<Rightarrow> 'x \<Rightarrow> 's connection option \<times> 'x" where
  "ds_accept os self x =
     (case os_accept os (ds_listener self) x of
        (Inl err, x1) \<Rightarrow> (None, x1)
      | (Inr stream, x1) \<Rightarrow>
          (case os_set_read_timeout os stream (Some (ds_timeout self)) x1 of
             (Inl err, x2) \<Rightarrow> (None, x2)
           | (Inr _, x2) \<Rightarrow>
               (case os_set_write_timeout os stream (Some (ds_timeout self)) x2 of
                  (Inl err, x3) \<Rightarrow> (None, x3)
                | (Inr _, x3) \<Rightarrow>
                    (case os_stream_nonblocking os stream False x3 of
                       (Inl err, x4) \<Rightarrow> (None, x4)
                     | (Inr _, x4) \<Rightarrow>
                         (case peer_cred os stream x4 of
                            (Inl err, x5) \<Rightarrow> (None, x5)
                          | (Inr cred, x5) \<Rightarrow>
                              (Some \<lparr>conn_stream = stream,
                                     conn_metadata = Some (UnixPeerCredentialsMeta (uc_uid cred) (uc_gid cred) (Some (uc_pid cred)))\<rparr>,
                               x5))))))"

text \<open>The builder.\<close>

definition default_socket_path :: string where
  "default_socket_path = ''/run/parsec/parsec.sock''"

record ds_builder =
  dsb_timeout :: "duration option"
  dsb_socket_path :: "string option"

definition ds_builder_new :: ds_builder where
  "ds_builder_new = \<lparr>dsb_timeout = None, dsb_socket_path = None\<rparr>"

definition ds_with_timeout :: "ds_builder \<Rightarrow> duration \<Rightarrow> ds_builder" where
  "ds_with_timeout self timeout = self\<lparr>dsb_timeout := Some timeout\<rparr>"

definition ds_with_socket_path :: "ds_builder \<Rightarrow> string option \<Rightarrow> ds_builder" where
  "ds_with_socket_path self socket_path = self\<lparr>dsb_socket_path := socket_path\<rparr>"

definition ds_build :: "('x, 'l, 's) unix_os \<Rightarrow> ds_builder \<Rightarrow> ('x, string, 'l domain_socket_listener) rust_op" where
  "ds_build os self =
     try_op (read_op (\<lambda>_. ok_or (dsb_timeout self) ''listener timeout missing'')) (\<lambda>timeout.
     domain_socket_new os timeout
       (case dsb_socket_path self of Some p \<Rightarrow> p | None \<Rightarrow> default_socket_path))"

section \<open>What start-up does to the file system\<close>

text \<open>
  \<open>node x p\<close> is what the file system has at path \<open>p\<close>. What is relied on: \<open>bind\<close> creates a socket where there was
  nothing and fails otherwise, \<open>remove_file\<close> and \<open>set_permissions\<close> act on the given path only, and the other calls
  do not touch the file system.
\<close>

definition leaves_nodes :: "('x \<Rightarrow> string \<Rightarrow> 'n option) \<Rightarrow> ('x \<Rightarrow> 'r \<times> 'x) \<Rightarrow> bool" where
  "leaves_nodes node f \<longleftrightarrow> (\<forall>x r x'. f x = (r, x') \<longrightarrow> node x' = node x)"

definition leaves_others :: "('x \<Rightarrow> string \<Rightarrow> 'n option) \<Rightarrow> string \<Rightarrow> ('x \<Rightarrow> 'r \<times> 'x) \<Rightarrow> bool" where
  "leaves_others node p f \<longleftrightarrow> (\<forall>x r x' q. f x = (r, x') \<longrightarrow> q \<noteq> p \<longrightarrow> node x' q = node x q)"

definition creates_at :: "('x \<Rightarrow> string \<Rightarrow> 'n option) \<Rightarrow> string \<Rightarrow> ('x, 'e, 'r) rust_op \<Rightarrow> bool" where
  "creates_at node p f \<longleftrightarrow>
     (\<forall>x e x'. f x = (Inl e, x') \<longrightarrow> node x' = node x) \<and> (\<forall>x r x'. f x = (Inr r, x') \<longrightarrow> node x p = None)"

definition tells_sockets :: "('x \<Rightarrow> string \<Rightarrow> 'n option) \<Rightarrow> ('n \<Rightarrow> bool) \<Rightarrow> string \<Rightarrow> ('x, 'e, bool) rust_op \<Rightarrow> bool" where
  "tells_sockets node sock p f \<longleftrightarrow> (\<forall>x x'. f x = (Inr True, x') \<longrightarrow> (\<exists>n. node x p = Some n \<and> sock n))"

definition unix_fs_contract :: "('x, 'l, 's) unix_os \<Rightarrow> ('x \<Rightarrow> string \<Rightarrow> 'n option) \<Rightarrow> ('n \<Rightarrow> bool) \<Rightarrow> bool" where
  "unix_fs_contract os node sock \<longleftrightarrow>
     leaves_nodes node (listen_fds os) \<and> (\<forall>p. leaves_nodes node (os_exists os p)) \<and>
     (\<forall>p. leaves_nodes node (os_is_socket os p) \<and> tells_sockets node sock p (os_is_socket os p)) \<and>
     (\<forall>p. leaves_others node p (os_remove_file os p)) \<and>
     (\<forall>p. leaves_others node p (os_bind os p) \<and> creates_at node p (os_bind os p)) \<and>
     (\<forall>l b. leaves_nodes node (os_listener_nonblocking os l b)) \<and>
     (\<forall>p m. leaves_others node p (os_set_permissions os p m))"

lemma leaves_nodesD: "leaves_nodes node f \<Longrightarrow> f x = (r, x') \<Longrightarrow> node x' = node x"
  by (simp add: leaves_nodes_def)

lemma leaves_othersD: "leaves_others node p f \<Longrightarrow> f x = (r, x') \<Longrightarrow> q \<noteq> p \<Longrightarrow> node x' q = node x q"
  by (simp add: leaves_others_def)

lemma unix_fs_contractD:
  assumes "unix_fs_contract os node sock"
  shows "leaves_nodes node (listen_fds os)" "leaves_nodes node (os_exists os p)"
    "leaves_nodes node (os_is_socket os p)" "tells_sockets node sock p (os_is_socket os p)"
    "leaves_others node p (os_remove_file os p)" "leaves_others node p (os_bind os p)" "creates_at node p (os_bind os p)"
    "leaves_nodes node (os_listener_nonblocking os l c)" "leaves_others node p (os_set_permissions os p m)"
  using assms unfolding unix_fs_contract_def by simp_all

text \<open>Everything but a socket at the given path is still there.\<close>

definition spares :: "('x \<Rightarrow> string \<Rightarrow> 'n option) \<Rightarrow> ('n \<Rightarrow> bool) \<Rightarrow> string \<Rightarrow> 'x \<Rightarrow> 'x \<Rightarrow> bool" where
  "spares node sock path x x' \<longleftrightarrow>
     (\<forall>p n. node x p = Some n \<longrightarrow> p \<noteq> path \<or> \<not> sock n \<longrightarrow> node x' p = Some n)"

lemma remove_stale_socket_spares:
  assumes os: "unix_fs_contract os node sock" and run: "remove_stale_socket os path x = (r, x')"
  shows "spares node sock path x x'"
proof -
  obtain b x1 where e: "os_exists os path x = (b, x1)" by fastforce
  obtain s x2 where i: "os_is_socket os path x1 = (s, x2)" by fastforce
  have n1: "node x1 = node x" using leaves_nodesD [OF unix_fs_contractD(2) [OF os] e] .
  have n2: "node x2 = node x1" by (rule leaves_nodesD [OF unix_fs_contractD(3) [OF os] i])
  consider "x' = x1" | "x' = x2" | "s = Inr True" "os_remove_file os path x2 = (r, x')"
    using run e i by (auto simp: remove_stale_socket_def try_op_def split: bool.splits sum.splits if_splits)
  then show ?thesis
  proof cases
    case 3
    then obtain n where n: "node x path = Some n" "sock n"
      using unix_fs_contractD(4) [OF os, of path] i n1 by (auto simp: tells_sockets_def)
    have "node x' q = node x q" if "q \<noteq> path" for q
      using leaves_othersD [OF unix_fs_contractD(5) [OF os] 3(2) that] n1 n2 by simp
    with n show ?thesis by (simp add: spares_def) (metis option.inject)
  qed (use n1 n2 in \<open>simp_all add: spares_def\<close>)
qed

lemma bind_spares:
  assumes os: "unix_fs_contract os node sock"
    and run: "try_op (os_bind os path) (\<lambda>l. try_op (os_listener_nonblocking os l True) (\<lambda>_.
      try_op (os_set_permissions os path m) (\<lambda>_. ok_op l))) x = (r, x')"
    and p: "node x p = Some n"
  shows "node x' p = Some n"
proof -
  obtain b x1 where b: "os_bind os path x = (b, x1)" by fastforce
  show ?thesis
  proof (cases b)
    case (Inl e)
    with run b have "x' = x1" by (simp add: try_op_def)
    with unix_fs_contractD(7) [OF os, of path] b Inl p show ?thesis by (auto simp: creates_at_def)
  next
    case (Inr l)
    then have "node x path = None" using unix_fs_contractD(7) [OF os, of path] b by (simp add: creates_at_def)
    with p have q: "p \<noteq> path" by auto
    note n1 = leaves_othersD [OF unix_fs_contractD(6) [OF os] b q]
    obtain u x2 where u: "os_listener_nonblocking os l True x1 = (u, x2)" by fastforce
    have n2: "node x2 = node x1" by (rule leaves_nodesD [OF unix_fs_contractD(8) [OF os] u])
    obtain v x3 where v: "os_set_permissions os path m x2 = (v, x3)" by fastforce
    have "x' = x2 \<or> x' = x3" using run b Inr u v by (cases u; cases v) (auto simp: try_op_def)
    with n1 n2 leaves_othersD [OF unix_fs_contractD(9) [OF os] v q] p show ?thesis by auto
  qed
qed

section \<open>Properties\<close>

text \<open>
  C35: opening the socket deletes nothing but an old socket. Whatever fails on the way, every file that existed before
  \<open>DomainSocketListener::new\<close> is still there and unchanged afterwards, except a socket at the configured path.
\<close>

theorem socket_start_spares_files:
  assumes "unix_fs_contract os node sock" and "domain_socket_new os timeout path x = (r, x')"
    and "node x p = Some n" and "p \<noteq> path \<or> \<not> sock n"
  shows "node x' p = Some n"
proof -
  let ?bind = "try_op (os_bind os path) (\<lambda>l. try_op (os_listener_nonblocking os l True) (\<lambda>_.
      try_op (os_set_permissions os path 0x1B6) (\<lambda>_. ok_op l)))"
  obtain k x1 where k: "listen_fds os x = (k, x1)" by fastforce
  have n1: "node x1 = node x" by (rule leaves_nodesD [OF unix_fs_contractD(1) [OF assms(1)] k])
  obtain u x2 where u: "remove_stale_socket os path x1 = (u, x2)" by fastforce
  have n2: "node x2 p = Some n"
    using remove_stale_socket_spares [OF assms(1) u] assms(3,4) n1 by (simp add: spares_def)
  obtain l x3 where l: "?bind x2 = (l, x3)" by fastforce
  note n3 = bind_spares [OF assms(1) l n2]
  let ?open = "try_op (remove_stale_socket os path) (\<lambda>_. ?bind)"
  obtain v x4 where o: "?open x1 = (v, x4)" "x4 = x2 \<or> x4 = x3"
    using u l by (cases u) (simp_all add: try_op_Inl try_op_Inr)
  have "x' = x1 \<or> x' = x4"
  proof (cases k)
    case (Inr n)
    consider "n = 0" | "n = 1" | "n \<noteq> 0" "n \<noteq> 1" by blast
    then show ?thesis
    proof cases
      case 1
      with assms(2) k Inr o(1) show ?thesis
        by (cases v) (simp_all add: domain_socket_new_def try_op_Inr try_op_Inl)
    next
      case 2
      with assms(2) k Inr show ?thesis
        by (cases "os_passed_listener os") (simp_all add: domain_socket_new_def try_op_Inr try_op_Inl read_op_def)
    next
      case 3
      with assms(2) k Inr show ?thesis by (simp add: domain_socket_new_def try_op_Inr try_op_Inl)
    qed
  qed (use assms(2) k in \<open>simp add: domain_socket_new_def try_op_Inl\<close>)
  with o(2) have "x' = x1 \<or> x' = x2 \<or> x' = x3" by blast
  with n1 n2 n3 assms(3) show ?thesis by auto
qed

text \<open>An operating system with a file and an old socket; a node is \<open>True\<close> for a socket.\<close>

definition toy_os :: "(string \<Rightarrow> bool option, unit, unit) unix_os" where
  "toy_os =
     \<lparr>listen_fds = ok_op 0, os_exists = (\<lambda>p x. (x p \<noteq> None, x)),
      os_is_socket = (\<lambda>p x. (Inr (x p = Some True), x)), os_remove_file = (\<lambda>p x. (Inr (), x(p := None))),
      os_bind = (\<lambda>p x. if x p = None then (Inr (), x(p \<mapsto> True)) else (Inl ''exists'', x)),
      os_listener_nonblocking = (\<lambda>_ _. ok_op ()), os_set_permissions = (\<lambda>_ _. ok_op ()), os_passed_listener = Inl ''none'',
      os_accept = (\<lambda>_. ok_op ()), os_set_read_timeout = (\<lambda>_ _. ok_op ()), os_set_write_timeout = (\<lambda>_ _. ok_op ()),
      os_stream_nonblocking = (\<lambda>_ _. ok_op ()),
      os_getsockopt_peercred = (\<lambda>_ _ sz x. ((0, \<lparr>uc_pid = 7, uc_uid = 1000, uc_gid = 100\<rparr>, sz), x)),
      os_last_error = (\<lambda>_. ''error'')\<rparr>"

lemma toy_os_ok: "unix_fs_contract toy_os id id"
  by (auto simp: unix_fs_contract_def toy_os_def leaves_nodes_def leaves_others_def creates_at_def tells_sockets_def
      split: if_splits)

theorem socket_start_spares_files_witness:
  "\<exists>r x'. domain_socket_new toy_os 200 ''/f'' [''/f'' \<mapsto> False, ''/s'' \<mapsto> True] = (r, x') \<and>
     x' ''/f'' = Some False \<and> x' ''/s'' = Some True"
proof -
  let ?x = "[''/f'' \<mapsto> False, ''/s'' \<mapsto> True]"
  obtain r x' where run: "domain_socket_new toy_os 200 ''/f'' ?x = (r, x')" by fastforce
  from socket_start_spares_files [OF toy_os_ok run, of "''/f''" False]
    socket_start_spares_files [OF toy_os_ok run, of "''/s''" True] run
  show ?thesis by simp
qed



end
