(* ===== verification/Service_Builder.thy ===== *)
theory Service_Builder
  imports Domain_Socket Core_Provider Cryptoauthlib_Provider
begin

text \<open>
  \<open>src/src/utils/config.rs\<close>, \<open>global_config.rs\<close> and \<open>service_builder.rs\<close>: the configuration of the service and
  how the service is assembled from it.

  The builders of the key info managers and of the providers work on the state \<open>'w\<close> of the whole service. They are the
  fields of the record \<open>builders\<close>, as are the functions of external crates that the assembly
  itself calls and the set of components the binary was compiled with.
\<close>

section \<open>Configuration\<close>

text \<open>The levels of the log crate are not looked at.\<close>

datatype level_filter = LevelFilter nat

record core_settings =
  thread_pool_size :: "usize option"
  idle_listener_sleep_duration :: "64 word option"
  log_level :: "level_filter option"
  log_timestamp :: "bool option"
  body_len_limit :: "usize option"
  log_error_details :: "bool option"
  allow_root :: "bool option"
  buffer_size_limit :: "usize option"

datatype listener_type = DomainSocket

record listener_config =
  listener_type :: listener_type
  lc_timeout :: duration
  lc_socket_path :: "string option"

datatype authenticator_config =
    DirectConfig (ac_admins: "admin list option")
  | UnixPeerCredentialsConfig (ac_admins: "admin list option")
  | JwtSvidConfig (workload_endpoint: string) (ac_admins: "admin list option")

datatype key_info_manager_type = OnDisk

record key_info_manager_config =
  kmc_name :: string
  kmc_manager_type :: key_info_manager_type
  kmc_store_path :: "string option"

datatype provider_config =
    MbedCryptoConfig string
  | Pkcs11Config string string usize "string option" "bool option" "bool option"
  | TpmConfig string string string "bool option"
  | CryptoAuthLibConfig string string string "u16 option" "32 word option" "u8 option" "u8 option" "u32 option" "string option"
  | TrustedServiceConfig string

fun config_key_info_manager :: "provider_config \<Rightarrow> string" where
  "config_key_info_manager (MbedCryptoConfig k) = k"
| "config_key_info_manager (Pkcs11Config k _ _ _ _ _) = k"
| "config_key_info_manager (TpmConfig k _ _ _) = k"
| "config_key_info_manager (CryptoAuthLibConfig k _ _ _ _ _ _ _ _) = k"
| "config_key_info_manager (TrustedServiceConfig k) = k"

fun config_provider_id :: "provider_config \<Rightarrow> provider_id" where
  "config_provider_id (MbedCryptoConfig _) = MbedCrypto"
| "config_provider_id (Pkcs11Config _ _ _ _ _ _) = Pkcs11"
| "config_provider_id (TpmConfig _ _ _ _) = Tpm"
| "config_provider_id (CryptoAuthLibConfig _ _ _ _ _ _ _ _ _) = CryptoAuthLib"
| "config_provider_id (TrustedServiceConfig _) = TrustedService"

record service_config =
  sc_core_settings :: core_settings
  sc_listener :: listener_config
  sc_authenticator :: authenticator_config
  sc_key_manager :: "key_info_manager_config list option"
  sc_provider :: "provider_config list option"

section \<open>Global configuration\<close>

definition default_body_len_limit :: usize where
  "default_body_len_limit = push_bit 20 1"

definition default_buffer_size_limit :: usize where
  "default_buffer_size_limit = push_bit 20 1"

record global_config =
  gc_log_error_details :: bool
  gc_buffer_size_limit :: usize

definition global_config_new :: global_config where
  "global_config_new = \<lparr>gc_log_error_details = False, gc_buffer_size_limit = default_buffer_size_limit\<rparr>"

record global_config_builder =
  gb_log_error_details :: bool
  gb_buffer_size_limit :: "usize option"

definition gb_new :: global_config_builder where
  "gb_new = \<lparr>gb_log_error_details = False, gb_buffer_size_limit = None\<rparr>"

definition gb_with_log_error_details :: "global_config_builder \<Rightarrow> bool \<Rightarrow> global_config_builder" where
  "gb_with_log_error_details self x = self\<lparr>gb_log_error_details := x\<rparr>"

definition gb_with_buffer_size_limit :: "global_config_builder \<Rightarrow> usize \<Rightarrow> global_config_builder" where
  "gb_with_buffer_size_limit self x = self\<lparr>gb_buffer_size_limit := Some x\<rparr>"

definition unwrap_or :: "'a option \<Rightarrow> 'a \<Rightarrow> 'a" where
  "unwrap_or x d = (case x of Some y \<Rightarrow> y | None \<Rightarrow> d)"

definition gb_build :: "global_config_builder \<Rightarrow> global_config \<Rightarrow> global_config" where
  "gb_build self gc =
     gc\<lparr>gc_log_error_details := gb_log_error_details self,
        gc_buffer_size_limit := unwrap_or (gb_buffer_size_limit self) default_buffer_size_limit\<rparr>"

section \<open>Builders of the components\<close>

text \<open>
  \<open>tcti_parse\<close> tells whether a TCTI string is well-formed, \<open>tcti_initialize\<close> whether a context for it can be created;
  \<open>pkcs11_slot\<close> is the conversion of a slot number; \<open>spiffe_client\<close> creates the client of the SPIFFE Workload API.
\<close>

record ('m, 'w) builders =
  compiled_provider :: "provider_id \<Rightarrow> bool"
  compiled_authenticator :: "auth_type \<Rightarrow> bool"
  kim_builder :: "key_info_manager_config \<Rightarrow> ('w, string, 'm kim_factory) rust_op"
  mbed_builder :: "'m kim_client \<Rightarrow> ('w, string, 'w provide) rust_op"
  pkcs11_slot :: "usize \<Rightarrow> 64 word option"
  pkcs11_builder :: "'m kim_client \<Rightarrow> string \<Rightarrow> 64 word \<Rightarrow> string option \<Rightarrow> bool option \<Rightarrow> bool option \<Rightarrow>
    ('w, string, 'w provide) rust_op"
  tcti_parse :: "string \<Rightarrow> bool"
  tcti_initialize :: "string \<Rightarrow> 'w \<Rightarrow> bool \<times> 'w"
  tpm_builder :: "'m kim_client \<Rightarrow> string \<Rightarrow> string \<Rightarrow> ('w, string, 'w provide) rust_op"
  calib_builder_build :: "'m calib_builder \<Rightarrow> ('w, string, 'w provide) rust_op"
  ts_builder :: "'m kim_client \<Rightarrow> ('w, string, 'w provide) rust_op"
  spiffe_client :: "string \<Rightarrow> (string \<Rightarrow> string \<Rightarrow> string option) option"
  protobuf_converter :: convert
  crate_version :: "(u32 \<times> u32 \<times> u32) option"
  sb_uuid_parse :: "string \<Rightarrow> bytes option"

section \<open>Assembly\<close>

text \<open>\<open>Ok(Some(..))\<close> of a provider that was built.\<close>

definition some_provider :: "('w, string, 'w provide) rust_op \<Rightarrow> ('w, string, 'w provide option) rust_op" where
  "some_provider f = try_op f (\<lambda>p. ok_op (Some p))"

fun get_provider ::
  "('m, 'w) builders \<Rightarrow> provider_config \<Rightarrow> 'm kim_factory \<Rightarrow> ('w, string, 'w provide option) rust_op" where
  "get_provider bs (MbedCryptoConfig k) kim_factory =
     (if compiled_provider bs MbedCrypto
      then some_provider (mbed_builder bs (build_client kim_factory MbedCrypto))
      else err_op ''provider not compiled'')"
| "get_provider bs (Pkcs11Config k library_path slot_number user_pin software_public_operations exportable) kim_factory =
     (if compiled_provider bs Pkcs11
      then try_op (read_op (\<lambda>_. ok_or (pkcs11_slot bs slot_number) ''slot number out of range'')) (\<lambda>slot.
           some_provider (pkcs11_builder bs (build_client kim_factory Pkcs11) library_path slot user_pin
             software_public_operations exportable))
      else err_op ''provider not compiled'')"
| "get_provider bs (TpmConfig k tcti owner_hierarchy_auth skip_if_no_tpm) kim_factory =
     (if compiled_provider bs Tpm
      then if \<not> tcti_parse bs tcti then err_op ''Invalid TCTI configuration string''
           else (\<lambda>w.
             case (if skip_if_no_tpm = Some True then tcti_initialize bs tcti w else (True, w)) of
               (False, w') \<Rightarrow> (Inr None, w')
             | (True, w') \<Rightarrow>
                 some_provider (tpm_builder bs (build_client kim_factory Tpm) tcti owner_hierarchy_auth) w')
      else err_op ''provider not compiled'')"
| "get_provider bs (CryptoAuthLibConfig k device_type iface_type wake_delay rx_retries slave_address bus baud access_key_file_name)
     kim_factory =
     (if compiled_provider bs CryptoAuthLib
      then some_provider (calib_builder_build bs
             (calib_with_access_key_file
               (calib_with_baud
                 (calib_with_bus
                   (calib_with_slave_address
                     (calib_with_rx_retries
                       (calib_with_wake_delay
                         (calib_with_iface_type
                           (calib_with_device_type
                             (calib_with_key_info_store calib_builder_new (build_client kim_factory CryptoAuthLib))
                             device_type)
                           iface_type)
                         wake_delay)
                       rx_retries)
                     slave_address)
                   bus)
                 baud)
               access_key_file_name))
      else err_op ''provider not compiled'')"
| "get_provider bs (TrustedServiceConfig k) kim_factory =
     (if compiled_provider bs TrustedService
      then some_provider (ts_builder bs (build_client kim_factory TrustedService))
      else err_op ''provider not compiled'')"

fun key_info_manager_builders ::
  "('m, 'w) builders \<Rightarrow> key_info_manager_config list \<Rightarrow> (string, 'm kim_factory) hash_map \<Rightarrow>
   ('w, string, (string, 'm kim_factory) hash_map) rust_op" where
  "key_info_manager_builders bs [] mp = ok_op mp"
| "key_info_manager_builders bs (config # configs) mp =
     try_op (kim_builder bs config) (\<lambda>factory.
     key_info_manager_builders bs configs (hm_insert (kmc_name config) factory mp))"

fun build_providers_loop ::
  "('m, 'w) builders \<Rightarrow> provider_config list \<Rightarrow> (string, 'm kim_factory) hash_map \<Rightarrow> (provider_id \<times> 'w provide) list \<Rightarrow>
   ('w, string, (provider_id \<times> 'w provide) list) rust_op" where
  "build_providers_loop bs [] kim_factorys ps = ok_op ps"
| "build_providers_loop bs (config # configs) kim_factorys ps =
     (let provider_id = config_provider_id config in
      if provider_id \<in> set (map fst ps) then err_op ''only one provider per type is supported''
      else case hm_get kim_factorys (config_key_info_manager config) of
        None \<Rightarrow> err_op ''key info manager builder not found''
      | Some kim_factory \<Rightarrow> (\<lambda>w.
          case get_provider bs config kim_factory w of
            (Inl e, w') \<Rightarrow> (Inl ''failed to create provider'', w')
          | (Inr None, w') \<Rightarrow> build_providers_loop bs configs kim_factorys ps w'
          | (Inr (Some provider), w') \<Rightarrow>
              build_providers_loop bs configs kim_factorys (ps @ [(provider_id, provider)]) w'))"

definition build_providers ::
  "('m, 'w) builders \<Rightarrow> provider_config list \<Rightarrow> (string, 'm kim_factory) hash_map \<Rightarrow>
   ('w, string, (provider_id \<times> 'w provide) list) rust_op" where
  "build_providers bs configs kim_factorys = build_providers_loop bs configs kim_factorys []"

definition build_authenticators ::
  "('m, 'w) builders \<Rightarrow> authenticator_config \<Rightarrow> string + (auth_type \<times> authenticate) list" where
  "build_authenticators bs config =
     (case config of
        DirectConfig admins \<Rightarrow>
          if compiled_authenticator bs Direct
          then Inr [(Direct, direct_authenticator_impl (direct_new (unwrap_or admins [])))]
          else Inl ''authenticator not compiled''
      | UnixPeerCredentialsConfig admins \<Rightarrow>
          if compiled_authenticator bs UnixPeerCredentials
          then Inr [(UnixPeerCredentials, unix_peer_authenticator_impl (unix_peer_new (unwrap_or admins [])))]
          else Inl ''authenticator not compiled''
      | JwtSvidConfig endpoint admins \<Rightarrow>
          if compiled_authenticator bs JwtSvid
          then case jwt_svid_new (spiffe_client bs) endpoint (unwrap_or admins []) of
                 None \<Rightarrow> Inl ''can not create a SPIFFE Workload API client''
               | Some authenticator \<Rightarrow> Inr [(JwtSvid, jwt_svid_authenticator_impl authenticator)]
          else Inl ''authenticator not compiled'')"

text \<open>A back end for one provider, as the builder chain makes it.\<close>

definition provider_backend :: "convert \<Rightarrow> provider_id \<Rightarrow> 'w provide \<Rightarrow> string + 'w back_end_handler" where
  "provider_backend converter provider_id provider =
     beh_build
       (with_accept_type
         (with_content_type
           (with_provider_id
             (with_converter (with_provider beh_builder_new provider) converter)
             provider_id)
           Protobuf)
         Protobuf)"

fun add_authenticator_infos :: "(auth_type \<times> authenticate) list \<Rightarrow> 'w core_builder \<Rightarrow> string + 'w core_builder" where
  "add_authenticator_infos [] builder = Inr builder"
| "add_authenticator_infos ((t, authenticator) # as) builder =
     (case au_describe authenticator of
        Inl _ \<Rightarrow> Inl ''Failed to describe authenticator''
      | Inr info \<Rightarrow> add_authenticator_infos as (with_authenticator_info builder info))"

fun add_providers ::
  "convert \<Rightarrow> (provider_id \<times> 'w provide) list \<Rightarrow> 'w core_builder \<Rightarrow> (provider_id, 'w back_end_handler) hash_map \<Rightarrow>
   string + 'w core_builder \<times> (provider_id, 'w back_end_handler) hash_map" where
  "add_providers converter [] builder mp = Inr (builder, mp)"
| "add_providers converter ((provider_id, provider) # ps) builder mp =
     try_res (provider_backend converter provider_id provider) (\<lambda>backend_handler.
     add_providers converter ps (core_with_provider builder provider) (hm_insert provider_id backend_handler mp))"

text \<open>The value \<open>None\<close> is a panic in the description of a provider.\<close>

definition build_backend_handlers ::
  "('m, 'w) builders \<Rightarrow> (provider_id \<times> 'w provide) list \<Rightarrow> (auth_type \<times> authenticate) list \<Rightarrow>
   (string + (provider_id, 'w back_end_handler) hash_map) option" where
  "build_backend_handlers bs providers authenticators =
     (case add_authenticator_infos authenticators (with_wire_protocol_version core_builder_new 0 1) of
        Inl e \<Rightarrow> Some (Inl e)
      | Inr builder \<Rightarrow>
          (case add_providers (protobuf_converter bs) providers builder [] of
             Inl e \<Rightarrow> Some (Inl e)
           | Inr (builder', mp) \<Rightarrow>
               map_option (\<lambda>r.
                 try_res r (\<lambda>core.
                 try_res (provider_backend (protobuf_converter bs) Core (core_provide core)) (\<lambda>backend.
                 Inr (hm_insert Core backend mp))))
               (core_build (crate_version bs) (sb_uuid_parse bs) builder')))"

text \<open>
  \<open>build_service\<close>, with the new global configuration in the first component.
\<close>

definition configure_globals :: "service_config \<Rightarrow> global_config \<Rightarrow> global_config" where
  "configure_globals config =
     gb_build
       (gb_with_buffer_size_limit
         (gb_with_log_error_details gb_new (unwrap_or (log_error_details (sc_core_settings config)) False))
         (unwrap_or (buffer_size_limit (sc_core_settings config)) default_buffer_size_limit))"

definition assemble_front_end ::
  "service_config \<Rightarrow> (auth_type \<times> authenticate) list \<Rightarrow> (provider_id, 'w back_end_handler) hash_map \<Rightarrow>
   string + 'w front_end_handler" where
  "assemble_front_end config authenticators backend_handlers =
     try_res (dispatcher_build (with_backends dispatcher_builder_new backend_handlers)) (\<lambda>dispatcher.
     feh_build
       (with_body_len_limit
         (with_dispatcher
           (fold (\<lambda>(t, a) b. with_authenticator b t a) authenticators feh_builder_new)
           dispatcher)
         (unwrap_or (body_len_limit (sc_core_settings config)) default_body_len_limit)))"

definition build_service ::
  "('m, 'w) builders \<Rightarrow> service_config \<Rightarrow> global_config \<Rightarrow> 'w \<Rightarrow>
   global_config \<times> ((string + 'w front_end_handler) \<times> 'w) option" where
  "build_service bs config gc w =
     (configure_globals config gc,
      (case key_info_manager_builders bs (unwrap_or (sc_key_manager config) []) [] w of
         (Inl e, w1) \<Rightarrow> Some (Inl e, w1)
       | (Inr factorys, w1) \<Rightarrow>
           (case build_providers bs (unwrap_or (sc_provider config) []) factorys w1 of
              (Inl e, w2) \<Rightarrow> Some (Inl e, w2)
            | (Inr providers, w2) \<Rightarrow>
                if providers = [] then Some (Inl ''need one provider'', w2)
                else case build_authenticators bs (sc_authenticator config) of
                  Inl e \<Rightarrow> Some (Inl e, w2)
                | Inr authenticators \<Rightarrow>
                    map_option (\<lambda>r. (try_res r (assemble_front_end config authenticators), w2))
                      (build_backend_handlers bs providers authenticators))))"

definition start_listener ::
  "('x, 'l, 's) unix_os \<Rightarrow> listener_config \<Rightarrow> ('x, string, 'l domain_socket_listener) rust_op" where
  "start_listener os config =
     (case listener_type config of
        DomainSocket \<Rightarrow>
          ds_build os (ds_with_socket_path (ds_with_timeout ds_builder_new (lc_timeout config)) (lc_socket_path config)))"

section \<open>What is assembled\<close>

lemma provider_backend_eq:
  "provider_backend c pid p =
     Inr \<lparr>beh_provider = p, beh_converter = c, beh_provider_id = pid, beh_content_type = Protobuf, beh_accept_type = Protobuf\<rparr>"
  by (simp add: provider_backend_def beh_build_def beh_builder_new_def with_provider_def with_converter_def
      with_provider_id_def with_content_type_def with_accept_type_def)

text \<open>A back end that serves the given provider under its identifier.\<close>

definition serves :: "convert \<Rightarrow> provider_id \<Rightarrow> 'w provide \<Rightarrow> 'w back_end_handler \<Rightarrow> bool" where
  "serves c pid p b \<longleftrightarrow>
     beh_provider b = p \<and> beh_converter b = c \<and> beh_provider_id b = pid \<and> beh_content_type b = Protobuf \<and>
     beh_accept_type b = Protobuf"

lemma add_providers_Inr:
  assumes "add_providers c ps builder mp = Inr (builder', mp')" and "hm_wf mp" and "distinct (map fst ps)"
  shows "cb_prov_list builder' = cb_prov_list builder @ map snd ps" "hm_wf mp'"
    "dom (hm_get mp') = dom (hm_get mp) \<union> fst ` set ps"
    "hm_get mp' pid = Some b \<Longrightarrow> pid \<in> fst ` set ps \<Longrightarrow> \<exists>p. (pid, p) \<in> set ps \<and> serves c pid p b"
proof -
  have "cb_prov_list builder' = cb_prov_list builder @ map snd ps \<and> hm_wf mp' \<and>
    dom (hm_get mp') = dom (hm_get mp) \<union> fst ` set ps \<and>
    (\<forall>pid. pid \<notin> fst ` set ps \<longrightarrow> hm_get mp' pid = hm_get mp pid) \<and>
    (\<forall>pid p. (pid, p) \<in> set ps \<longrightarrow> (\<exists>b. hm_get mp' pid = Some b \<and> serves c pid p b))"
    using assms
  proof (induction ps arbitrary: builder mp)
    case (Cons x ps)
    obtain pid p where x: "x = (pid, p)" by fastforce
    let ?b = "\<lparr>beh_provider = p, beh_converter = c, beh_provider_id = pid, beh_content_type = Protobuf, beh_accept_type = Protobuf\<rparr>"
    have run: "add_providers c ps (core_with_provider builder p) (hm_insert pid ?b mp) = Inr (builder', mp')"
      using Cons.prems(1) by (simp add: x provider_backend_eq)
    have "hm_wf (hm_insert pid ?b mp)" "distinct (map fst ps)" "pid \<notin> fst ` set ps"
      using Cons.prems(2,3) by (auto simp: x)
    with Cons.IH [OF run] show ?case
      by (auto simp: x hm_simps core_with_provider_def serves_def)
  qed simp
  then show "cb_prov_list builder' = cb_prov_list builder @ map snd ps" "hm_wf mp'"
    "dom (hm_get mp') = dom (hm_get mp) \<union> fst ` set ps"
    "hm_get mp' pid = Some b \<Longrightarrow> pid \<in> fst ` set ps \<Longrightarrow> \<exists>p. (pid, p) \<in> set ps \<and> serves c pid p b"
    by fastforce+
qed

lemma add_authenticator_infos_Inr:
  "add_authenticator_infos as builder = Inr builder' \<Longrightarrow> cb_prov_list builder' = cb_prov_list builder"
  by (induction as builder rule: add_authenticator_infos.induct)
    (auto simp: with_authenticator_info_def split: sum.splits)

lemma core_build_Inr:
  "core_build v u builder = Some (Inr core) \<Longrightarrow> cp_prov_list core = cb_prov_list builder"
  by (auto simp: core_build_def try_res_eq_Inr split: prod.splits)

text \<open>The back ends: one for each provider, and one for the core provider over all of them.\<close>

lemma build_backend_handlers_Inr:
  fixes bs :: "('m, 'w) builders"
  assumes "build_backend_handlers bs ps as = Some (Inr mp)" and "distinct (map fst ps)"
  obtains core where "hm_wf mp" "dom (hm_get mp) = insert Core (fst ` set ps)" "cp_prov_list core = map snd ps"
    "\<And>pid b. hm_get mp pid = Some b \<Longrightarrow>
       \<exists>p. serves (protobuf_converter bs) pid p b \<and> (if pid = Core then p = core_provide core else (pid, p) \<in> set ps)"
proof -
  let ?c = "protobuf_converter bs" and ?b0 = "with_wire_protocol_version core_builder_new 0 1 :: 'w core_builder"
  obtain builder where b: "add_authenticator_infos as ?b0 = Inr builder"
    using assms(1) by (cases "add_authenticator_infos as ?b0") (auto simp: build_backend_handlers_def)
  obtain builder' mp0 where p: "add_providers ?c ps builder [] = Inr (builder', mp0)"
    using assms(1) b by (cases "add_providers ?c ps builder []") (auto simp: build_backend_handlers_def)
  obtain core where co: "core_build (crate_version bs) (sb_uuid_parse bs) builder' = Some (Inr core)"
    and mp: "mp = hm_insert Core \<lparr>beh_provider = core_provide core, beh_converter = ?c, beh_provider_id = Core,
        beh_content_type = Protobuf, beh_accept_type = Protobuf\<rparr> mp0"
    using assms(1) b p by (auto simp: build_backend_handlers_def provider_backend_eq try_res_eq_Inr)
  note P = add_providers_Inr [OF p hm_wf_Nil assms(2)]
  show thesis
  proof (rule that [of core])
    have "cb_prov_list builder = []"
      using add_authenticator_infos_Inr [OF b] by (simp add: with_wire_protocol_version_def core_builder_new_def)
    then show "cp_prov_list core = map snd ps" using core_build_Inr [OF co] P(1) by simp
    show "hm_wf mp" using P(2) by (simp add: mp)
    show "dom (hm_get mp) = insert Core (fst ` set ps)"
      using P(3) by (auto simp: mp hm_simps dom_def hm_get_Nil split: if_splits)
    fix pid b assume get: "hm_get mp pid = Some b"
    show "\<exists>p. serves ?c pid p b \<and> (if pid = Core then p = core_provide core else (pid, p) \<in> set ps)"
    proof (cases "pid = Core")
      case True
      with get show ?thesis by (auto simp: mp hm_simps serves_def)
    next
      case False
      with get have g: "hm_get mp0 pid = Some b" by (simp add: mp hm_simps)
      then have "pid \<in> fst ` set ps" using P(3) by (metis Un_empty_left domI dom_empty hm_get_Nil dom_eq_empty_conv ext)
      from P(4) [OF g this] False show ?thesis by auto
    qed
  qed
qed

text \<open>The providers: one at most for each type, made by \<open>get_provider\<close> from a configuration of this type.\<close>

lemma build_providers_loop_Inr:
  assumes "build_providers_loop bs configs fs ps w = (Inr ps', w')" and "distinct (map fst ps)"
    and "\<And>pid p. (pid, p) \<in> set ps \<Longrightarrow> Q pid p"
    and "\<And>config f w0 p w1. config \<in> set configs \<Longrightarrow> hm_get fs (config_key_info_manager config) = Some f \<Longrightarrow>
      get_provider bs config f w0 = (Inr (Some p), w1) \<Longrightarrow> Q (config_provider_id config) p"
  shows "distinct (map fst ps') \<and> (\<forall>pid p. (pid, p) \<in> set ps' \<longrightarrow> Q pid p)"
  using assms
proof (induction configs arbitrary: ps w)
  case (Cons config configs)
  let ?pid = "config_provider_id config"
  from Cons.prems(1) have new: "?pid \<notin> fst ` set ps" by (auto simp: Let_def split: if_splits)
  from Cons.prems(1) new obtain f where f: "hm_get fs (config_key_info_manager config) = Some f"
    by (auto simp: Let_def split: option.splits if_splits)
  obtain r w1 where g: "get_provider bs config f w = (r, w1)" by fastforce
  show ?case
  proof (cases r)
    case (Inl e)
    with Cons.prems(1) new f g show ?thesis by (simp add: Let_def)
  next
    case (Inr po)
    show ?thesis
    proof (cases po)
      case None
      with Cons.prems(1) new f g Inr have "build_providers_loop bs configs fs ps w1 = (Inr ps', w')" by (simp add: Let_def)
      from Cons.IH [OF this Cons.prems(2,3)] Cons.prems(4) show ?thesis by simp
    next
      case (Some p)
      with Cons.prems(1) new f g Inr have run: "build_providers_loop bs configs fs (ps @ [(?pid, p)]) w1 = (Inr ps', w')"
        by (simp add: Let_def)
      have "Q ?pid p" using Cons.prems(4) [of config f w p w1] f g Inr Some by simp
      with Cons.IH [OF run] Cons.prems(2-4) new show ?thesis by fastforce
    qed
  qed
qed simp

text \<open>A key info manager is found under the name of the configuration it was made from.\<close>

definition manager_from ::
  "('m, 'w) builders \<Rightarrow> key_info_manager_config list \<Rightarrow> string \<Rightarrow> 'm kim_factory \<Rightarrow> bool" where
  "manager_from bs configs n f \<longleftrightarrow>
     (\<exists>cfg w w'. cfg \<in> set configs \<and> kmc_name cfg = n \<and> kim_builder bs cfg w = (Inr f, w'))"

lemma key_info_manager_builders_Inr:
  assumes "key_info_manager_builders bs cfgs mp w = (Inr fs, w')"
  shows "hm_get fs n = Some f \<Longrightarrow> hm_get mp n = Some f \<or> manager_from bs cfgs n f"
  using assms
proof (induction cfgs arbitrary: mp w)
  case (Cons cfg cfgs)
  obtain f1 w1 where f1: "kim_builder bs cfg w = (Inr f1, w1)"
    using Cons.prems(2) by (auto simp: try_op_def split: prod.splits sum.splits)
  then have "key_info_manager_builders bs cfgs (hm_insert (kmc_name cfg) f1 mp) w1 = (Inr fs, w')"
    using Cons.prems(2) by (simp add: try_op_def)
  from Cons.IH [OF Cons.prems(1) this]
  have "hm_get (hm_insert (kmc_name cfg) f1 mp) n = Some f \<or> manager_from bs cfgs n f" .
  with f1 show ?case unfolding manager_from_def by (auto simp: hm_simps split: if_splits)
qed (simp add: ok_op_def)

lemma hm_insert_Nil [simp]: "hm_insert k v [] = [(k, v)]"
  by (simp add: hm_insert_def)

fun config_auth_type :: "authenticator_config \<Rightarrow> auth_type" where
  "config_auth_type (DirectConfig _) = Direct"
| "config_auth_type (UnixPeerCredentialsConfig _) = UnixPeerCredentials"
| "config_auth_type (JwtSvidConfig _ _) = JwtSvid"

lemma build_authenticators_Inr:
  assumes "build_authenticators bs config = Inr as"
  shows "\<exists>a. as = [(config_auth_type config, a)] \<and>
    admin_authority a (unwrap_or (ac_admins config) []) (config_auth_type config)"
proof (cases config)
  case (DirectConfig admins)
  with assms direct_auth.admin_authority_axioms [of "direct_new (unwrap_or admins [])"] show ?thesis
    by (auto simp: build_authenticators_def direct_new_def split: if_splits)
next
  case (UnixPeerCredentialsConfig admins)
  with assms unix_auth.admin_authority_axioms [of "unix_peer_new (unwrap_or admins [])"] show ?thesis
    by (auto simp: build_authenticators_def unix_peer_new_def split: if_splits)
next
  case (JwtSvidConfig endpoint admins)
  with assms obtain j where "jwt_svid_new (spiffe_client bs) endpoint (unwrap_or admins []) = Some j"
    and "as = [(JwtSvid, jwt_svid_authenticator_impl j)]"
    by (auto simp: build_authenticators_def split: if_splits option.splits)
  moreover from this(1) have "js_admins j = unwrap_or admins []"
    by (auto simp: jwt_svid_new_def split: option.splits)
  ultimately show ?thesis
    using jwt_auth.admin_authority_axioms [of j] by (auto simp: JwtSvidConfig)
qed

lemma assemble_front_end_eq:
  "\<exists>d. dispatcher_build (with_backends dispatcher_builder_new mp) = Inr d \<and>
     assemble_front_end config [(t, a)] mp =
       Inr \<lparr>feh_dispatcher = d, feh_authenticators = [(t, a)],
            feh_body_len_limit = unwrap_or (body_len_limit (sc_core_settings config)) default_body_len_limit\<rparr>"
  by (simp add: assemble_front_end_def dispatcher_build_def dispatcher_builder_new_def with_backends_def
      unwrap_or_default_def feh_build_def feh_builder_new_def with_body_len_limit_def with_dispatcher_def
      with_authenticator_def)

lemma assemble_front_end_Inr:
  assumes "assemble_front_end config [(t, a)] mp = Inr feh" and "hm_wf mp"
  shows "hm_get (backends (feh_dispatcher feh)) = hm_get mp" "feh_authenticators feh = [(t, a)]"
    "feh_body_len_limit feh = unwrap_or (body_len_limit (sc_core_settings config)) default_body_len_limit"
  using assms(1) assemble_front_end_eq [of mp config t a] hm_get_fold_self [OF assms(2)]
  by (auto simp: dispatcher_build_def dispatcher_builder_new_def with_backends_def unwrap_or_default_def)

text \<open>
  \<open>built_from\<close> is what the builder promises of a front end: the providers it put together are at least
  one, have pairwise different identifiers, and come from the configuration; the back ends are those
  providers and the core provider over exactly them; the one authenticator is the configured one,
  with the configured administrators; the body limit is the configured one or the default.
\<close>

definition built_from ::
  "('m, 'w) builders \<Rightarrow> service_config \<Rightarrow> 'w front_end_handler \<Rightarrow> (provider_id \<times> 'w provide) list \<Rightarrow>
   'w core_provider \<Rightarrow> authenticate \<Rightarrow> bool" where
  "built_from bs config feh ps core a \<longleftrightarrow>
     ps \<noteq> [] \<and> distinct (map fst ps) \<and> cp_prov_list core = map snd ps \<and>
     dom (hm_get (backends (feh_dispatcher feh))) = insert Core (fst ` set ps) \<and>
     (\<forall>pid b. hm_get (backends (feh_dispatcher feh)) pid = Some b \<longrightarrow>
        (\<exists>p. serves (protobuf_converter bs) pid p b \<and> (if pid = Core then p = core_provide core else (pid, p) \<in> set ps))) \<and>
     (\<forall>pid p. (pid, p) \<in> set ps \<longrightarrow>
        (\<exists>cfg f w0 w1. cfg \<in> set (unwrap_or (sc_provider config) []) \<and> config_provider_id cfg = pid \<and>
           manager_from bs (unwrap_or (sc_key_manager config) []) (config_key_info_manager cfg) f \<and>
           get_provider bs cfg f w0 = (Inr (Some p), w1))) \<and>
     feh_authenticators feh = [(config_auth_type (sc_authenticator config), a)] \<and>
     admin_authority a (unwrap_or (ac_admins (sc_authenticator config)) []) (config_auth_type (sc_authenticator config)) \<and>
     feh_body_len_limit feh = unwrap_or (body_len_limit (sc_core_settings config)) default_body_len_limit"

lemma build_service_built:
  assumes "snd (build_service bs config gc w) = Some (Inr feh, w')"
  shows "\<exists>ps core a. built_from bs config feh ps core a"
proof -
  obtain fs w1 where k: "key_info_manager_builders bs (unwrap_or (sc_key_manager config) []) [] w = (Inr fs, w1)"
    using assms by (auto simp: build_service_def split: prod.splits sum.splits)
  obtain ps w2 where p: "build_providers bs (unwrap_or (sc_provider config) []) fs w1 = (Inr ps, w2)" "ps \<noteq> []"
    using assms k by (auto simp: build_service_def split: prod.splits sum.splits if_splits)
  obtain as where au: "build_authenticators bs (sc_authenticator config) = Inr as"
    using assms k p by (auto simp: build_service_def split: sum.splits)
  obtain mp where bh: "build_backend_handlers bs ps as = Some (Inr mp)" and fe: "assemble_front_end config as mp = Inr feh"
    using assms k p au by (auto simp: build_service_def try_res_eq_Inr)
  obtain a where a: "as = [(config_auth_type (sc_authenticator config), a)]"
    "admin_authority a (unwrap_or (ac_admins (sc_authenticator config)) []) (config_auth_type (sc_authenticator config))"
    using build_authenticators_Inr [OF au] by blast
  let ?Q = "\<lambda>pid p. \<exists>cfg f w0 w1. cfg \<in> set (unwrap_or (sc_provider config) []) \<and> config_provider_id cfg = pid \<and>
      manager_from bs (unwrap_or (sc_key_manager config) []) (config_key_info_manager cfg) f \<and>
      get_provider bs cfg f w0 = (Inr (Some p), w1)"
  have M: "manager_from bs (unwrap_or (sc_key_manager config) []) n f" if "hm_get fs n = Some f" for n f
    using key_info_manager_builders_Inr [OF k that] by simp
  have Q: "distinct (map fst ps) \<and> (\<forall>pid p. (pid, p) \<in> set ps \<longrightarrow> ?Q pid p)"
    by (rule build_providers_loop_Inr [OF p(1) [unfolded build_providers_def]]) (simp, simp, use M in blast)
  obtain core where core: "hm_wf mp" "dom (hm_get mp) = insert Core (fst ` set ps)" "cp_prov_list core = map snd ps"
    "\<And>pid b. hm_get mp pid = Some b \<Longrightarrow>
       \<exists>p. serves (protobuf_converter bs) pid p b \<and> (if pid = Core then p = core_provide core else (pid, p) \<in> set ps)"
    using build_backend_handlers_Inr [OF bh conjunct1 [OF Q]] by blast
  note F = assemble_front_end_Inr [OF fe [unfolded a(1)] core(1)]
  have "built_from bs config feh ps core a"
    unfolding built_from_def using p(2) Q core(2-4) a(2) F by simp
  then show ?thesis by blast
qed

text \<open>A service whose providers keep tenants apart does so as a whole, over any sequence of connections.\<close>

definition serve ::
  "interface \<Rightarrow> 's wire \<Rightarrow> 'w front_end_handler \<Rightarrow> 's connection list \<Rightarrow> 'w \<Rightarrow> 'w" where
  "serve ifc wire self = fold (\<lambda>c w. snd (handle_request ifc wire self c w))"

definition authenticated_as ::
  "interface \<Rightarrow> 's wire \<Rightarrow> 'w front_end_handler \<Rightarrow> admin list \<Rightarrow> application_name \<Rightarrow> 's connection \<Rightarrow> bool" where
  "authenticated_as ifc wire self admins n c \<longleftrightarrow>
     (\<exists>request s app. read_from_stream wire (feh_body_len_limit self) (conn_stream c) = (Inr request, s) \<and>
        authenticate_request ifc self request (conn_metadata c) = Inr (Some app) \<and>
        (app_name app = n \<or> app_name app \<in> set admins \<and> rh_opcode (req_header request) = DeleteClient))"

lemma handle_request_keeps:
  assumes "backends_isolated (feh_dispatcher self) I view" and "I w"
  shows "I (snd (handle_request ifc wire self c w))"
proof (cases "snd (handle_request ifc wire self c w) = w")
  case False
  then obtain request s app where
    "snd (handle_request ifc wire self c w) = snd (dispatch_request ifc (feh_dispatcher self) request app w)"
    by (rule handle_request_state)
  with dispatch_request_keeps [OF assms prod.collapse [symmetric]] show ?thesis by metis
qed (simp add: assms(2))

lemma serve_isolated:
  assumes "backends_isolated (feh_dispatcher self) I view" and "authenticators_ok self admins"
    and "is_admin_opcode ifc DeleteClient"
    and "\<And>pid b body opc c. hm_get (backends (feh_dispatcher self)) pid = Some b \<Longrightarrow>
      body_to_operation (beh_converter b) body opc = Inr (OpDeleteClient c) \<Longrightarrow> opc = DeleteClient"
    and "I w" and "\<forall>c \<in> set cs. \<not> authenticated_as ifc wire self admins n c"
  shows "I (serve ifc wire self cs w) \<and> view n (serve ifc wire self cs w) = view n w"
  using assms(5,6)
proof (induction cs arbitrary: w)
  case (Cons c cs)
  let ?w = "snd (handle_request ifc wire self c w)"
  have "view n ?w = view n w"
    using handle_request_isolated [OF assms(1) Cons.prems(1) assms(2,3), of n wire c] assms(4) Cons.prems(2)
    by (fastforce simp: authenticated_as_def)
  with Cons.IH [OF handle_request_keeps [OF assms(1) Cons.prems(1), of ifc wire c]] Cons.prems(2) show ?case
    by (simp add: serve_def)
qed (simp add: serve_def)

lemma build_service_isolated:
  assumes build: "snd (build_service bs config gc w0) = Some (Inr feh, w1)"
    and iso: "\<And>cfg n f w p w'. manager_from bs (unwrap_or (sc_key_manager config) []) n f \<Longrightarrow>
      get_provider bs cfg f w = (Inr (Some p), w') \<Longrightarrow> tenant_isolation p I view"
  shows "backends_isolated (feh_dispatcher feh) I view"
    "authenticators_ok feh (unwrap_or (ac_admins (sc_authenticator config)) [])"
    "hm_get (backends (feh_dispatcher feh)) pid = Some b \<Longrightarrow> beh_converter b = protobuf_converter bs"
proof -
  obtain ps core a where S: "built_from bs config feh ps core a"
    using build_service_built [OF build] by blast
  have ps: "tenant_isolation p I view" if "(pid, p) \<in> set ps" for pid p
    using S that iso unfolding built_from_def by blast
  then have core: "tenant_isolation (core_provide core) I view"
    using S by (intro core_isolated) (auto simp: built_from_def)
  have backend: "\<exists>p. serves (protobuf_converter bs) pid p b \<and> tenant_isolation p I view"
    if "hm_get (backends (feh_dispatcher feh)) pid = Some b" for pid b
    using S that ps core unfolding built_from_def by (metis (full_types))
  then show "backends_isolated (feh_dispatcher feh) I view"
    by (auto simp: backends_isolated_def serves_def)
  show "authenticators_ok feh (unwrap_or (ac_admins (sc_authenticator config)) [])"
    using S by (auto simp: built_from_def authenticators_ok_def hm_get_def split: if_splits)
  show "hm_get (backends (feh_dispatcher feh)) pid = Some b \<Longrightarrow> beh_converter b = protobuf_converter bs"
    using backend by (auto simp: serves_def)
qed

end
