(* ===== verification/Service_Properties.thy ===== *)
theory Service_Properties
  imports Service_Builder Mbed_Crypto_Properties
begin

text \<open>
  The assembled service. \<open>build_service_exact\<close> is the contract of the builder; \<open>mbed_service_isolated\<close>
  takes a service compiled with the Mbed Crypto provider only, over the on-disk manager, from the
  configuration through start-up to any sequence of connections: the front end, the authenticators, the
  dispatcher, the back ends, the core provider, the Mbed Crypto provider and the key info manager
  all take part in it.
\<close>

section \<open>A service with the Mbed Crypto provider\<close>

text \<open>
  The builders of a binary that has only the Mbed Crypto provider compiled in. \<open>mk\<close> makes the provider
  from the key store it is given; its state is the state of the whole service.
\<close>

definition mbed_only ::
  "('m kim_client \<Rightarrow> ('m, 'b, 'id) mbed_provider) \<Rightarrow> ('m, ('m, 'b) mbed_state) builders \<Rightarrow>
   ('m, ('m, 'b) mbed_state) builders" where
  "mbed_only mk bs =
     bs\<lparr>compiled_provider := (\<lambda>p. p = MbedCrypto),
        mbed_builder := (\<lambda>store w.
          case mbed_build mk (Some store) (ms_kim w) (ms_psa w) of
            Inl e \<Rightarrow> (Inl e, w)
          | Inr w' \<Rightarrow> (Inr (mbed_provide (mk store)), w'))\<rparr>"

text \<open>The provider that such a service runs, over the on-disk manager.\<close>

definition disk_client :: "codec \<Rightarrow> on_disk_manager kim_client" where
  "disk_client c = build_client \<lparr>kf_impl = on_disk_impl c\<rparr> MbedCrypto"

text \<open>
  What is relied on of the key info managers that are built: they are on-disk managers that have loaded a
  consistent store, in which no two mappings of the provider name the same key.
\<close>

definition loads_store ::
  "codec \<Rightarrow> u32 id_codec \<Rightarrow> (on_disk_manager, (on_disk_manager, 'b) mbed_state) builders \<Rightarrow> bool" where
  "loads_store c ic bs \<longleftrightarrow>
     (\<forall>cfg w f w'. kim_builder bs cfg w = (Inr f, w') \<longrightarrow>
        f = \<lparr>kf_impl = on_disk_impl c\<rparr> \<and> odm_inv (ms_kim w') \<and> unshared MbedCrypto ic (odm_abs (ms_kim w')))"

lemma key_info_manager_builders_load:
  assumes "key_info_manager_builders bs cfgs mp w = (Inr fs, w')" and "loads_store c ic bs"
    and "\<forall>n f. hm_get mp n = Some f \<longrightarrow>
       f = \<lparr>kf_impl = on_disk_impl c\<rparr> \<and> odm_inv (ms_kim w) \<and> unshared MbedCrypto ic (odm_abs (ms_kim w))"
  shows "\<forall>n f. hm_get fs n = Some f \<longrightarrow>
       f = \<lparr>kf_impl = on_disk_impl c\<rparr> \<and> odm_inv (ms_kim w') \<and> unshared MbedCrypto ic (odm_abs (ms_kim w'))"
  using assms(1,3)
proof (induction cfgs arbitrary: mp w)
  case (Cons cfg cfgs)
  obtain f w1 where f: "kim_builder bs cfg w = (Inr f, w1)"
    using Cons.prems(1) by (auto simp: try_op_def split: prod.splits sum.splits)
  with assms(2) have L: "f = \<lparr>kf_impl = on_disk_impl c\<rparr>" "odm_inv (ms_kim w1)" "unshared MbedCrypto ic (odm_abs (ms_kim w1))"
    unfolding loads_store_def by blast+
  show ?case
  proof (rule Cons.IH)
    show "key_info_manager_builders bs cfgs (hm_insert (kmc_name cfg) f mp) w1 = (Inr fs, w')"
      using Cons.prems(1) by (simp add: try_op_def f)
  qed (use L Cons.prems(2) in \<open>auto simp: hm_simps split: if_splits\<close>)
qed (simp add: ok_op_def)

lemma get_provider_mbed_only:
  assumes "get_provider (mbed_only mk bs) cfg f w = (Inr (Some p), w')"
  shows "config_provider_id cfg = MbedCrypto" "p = mbed_provide (mk (build_client f MbedCrypto))"
    "fst (mbed_new (mk (build_client f MbedCrypto)) (ms_kim w) (ms_psa w)) = Some w'"
  using assms
  by (cases cfg; auto simp: mbed_only_def some_provider_def try_op_def err_op_def ok_op_def mbed_build_def
      try_res_eq_Inr split: sum.splits prod.splits)+

text \<open>Start-up establishes the invariant of the provider.\<close>

lemma mbed_only_loop:
  fixes mk :: "on_disk_manager kim_client \<Rightarrow> (on_disk_manager, 'b, 'id) mbed_provider" and c :: codec
  defines "self \<equiv> mk (disk_client c)"
  assumes run: "build_providers_loop (mbed_only mk bs) cfgs fs ps w = (Inr ps', w')"
    and su: "mbed_setup (on_disk_impl c) self keys_of id_of"
    and mn: "key_id_user_min (mp_psa self) \<le> psa_key_id_vendor_max"
    and fs: "\<And>n f. hm_get fs n = Some f \<Longrightarrow> f = \<lparr>kf_impl = on_disk_impl c\<rparr> \<and>
      (ps = [] \<longrightarrow> odm_inv (ms_kim w) \<and> unshared MbedCrypto (mp_id_codec self) (odm_abs (ms_kim w)))"
    and ps: "ps \<noteq> [] \<Longrightarrow> fst ` set ps = {MbedCrypto} \<and> mbed_inv (on_disk_impl c) odm_inv odm_abs self keys_of id_of w"
  shows "ps' \<noteq> [] \<Longrightarrow> mbed_inv (on_disk_impl c) odm_inv odm_abs self keys_of id_of w'"
  using run fs ps
proof (induction cfgs arbitrary: ps w)
  case (Cons cfg cfgs)
  obtain f where f: "hm_get fs (config_key_info_manager cfg) = Some f" "config_provider_id cfg \<notin> fst ` set ps"
    using Cons.prems(2) by (auto simp: Let_def err_op_def split: if_splits option.splits)
  then have F: "f = \<lparr>kf_impl = on_disk_impl c\<rparr>" using Cons.prems(3) by blast
  consider w1 where "get_provider (mbed_only mk bs) cfg f w = (Inr None, w1)"
    | p w1 where "get_provider (mbed_only mk bs) cfg f w = (Inr (Some p), w1)"
    using Cons.prems(2) f by (auto simp: Let_def split: prod.splits sum.splits option.splits)
  then show ?case
  proof cases
    case 1
    then show ?thesis
      by (cases cfg) (auto simp: mbed_only_def some_provider_def try_op_def err_op_def ok_op_def split: sum.splits prod.splits)
  next
    case (2 p w1)
    note G = get_provider_mbed_only [OF 2]
    have "ps = []" using f(2) G(1) Cons.prems(4) by auto
    then have "odm_inv (ms_kim w)" "unshared MbedCrypto (mp_id_codec self) (odm_abs (ms_kim w))"
      using Cons.prems(3) f(1) by blast+
    moreover obtain m' b' where "mbed_new self (ms_kim w) (ms_psa w) = (Some w1, m', b')"
      using G(3) by (cases "mbed_new self (ms_kim w) (ms_psa w)") (auto simp: F self_def disk_client_def)
    ultimately have "mbed_inv (on_disk_impl c) odm_inv odm_abs self keys_of id_of w1"
      using odm.mbed_new_result(1) [OF su _ _ mn] by blast
    moreover have "build_providers_loop (mbed_only mk bs) cfgs fs (ps @ [(config_provider_id cfg, p)]) w1 = (Inr ps', w')"
      using Cons.prems(2) f 2 by (auto simp: Let_def)
    ultimately show ?thesis
      using Cons.IH [OF Cons.prems(1), of "ps @ [(config_provider_id cfg, p)]" w1] Cons.prems(3) G(1) \<open>ps = []\<close> by auto
  qed
qed (auto simp: ok_op_def)

lemma mbed_service_start:
  assumes build: "snd (build_service (mbed_only mk bs) config gc w0) = Some (Inr feh, w1)"
    and su: "mbed_setup (on_disk_impl c) (mk (disk_client c)) keys_of id_of"
    and mn: "key_id_user_min (mp_psa (mk (disk_client c))) \<le> psa_key_id_vendor_max"
    and ld: "loads_store c (mp_id_codec (mk (disk_client c))) bs"
  shows "mbed_inv (on_disk_impl c) odm_inv odm_abs (mk (disk_client c)) keys_of id_of w1"
proof -
  let ?bs = "mbed_only mk bs"
  obtain fs w where k: "key_info_manager_builders ?bs (unwrap_or (sc_key_manager config) []) [] w0 = (Inr fs, w)"
    using build by (auto simp: build_service_def split: prod.splits sum.splits)
  obtain ps w2 where p: "build_providers ?bs (unwrap_or (sc_provider config) []) fs w = (Inr ps, w2)" "ps \<noteq> []"
    using build k by (auto simp: build_service_def split: prod.splits sum.splits if_splits)
  have "w2 = w1" using build k p by (auto simp: build_service_def split: sum.splits)
  moreover have "loads_store c (mp_id_codec (mk (disk_client c))) ?bs"
    using ld by (simp add: loads_store_def mbed_only_def)
  note L = key_info_manager_builders_load [OF k this]
  show ?thesis
    unfolding calculation [symmetric]
    by (rule mbed_only_loop [OF p(1) [unfolded build_providers_def] su mn _ _ p(2)]) (use L in auto)
qed

text \<open>
  From start-up on, the key names of an application and the keys behind them are what they were at start-up, unless a
  connection was authenticated as that application or was a request for the deletion of a client by a configured
  administrator.
\<close>

lemma mbed_service_isolated:
  fixes mk :: "on_disk_manager kim_client \<Rightarrow> (on_disk_manager, 'b, 'id) mbed_provider"
    and keys_of :: "'b \<Rightarrow> u32 \<Rightarrow> 'kd option"
  assumes "snd (build_service (mbed_only mk bs) config gc w0) = Some (Inr feh, w1)"
    and "mbed_setup (on_disk_impl c) (mk (disk_client c)) keys_of id_of"
    and "key_id_user_min (mp_psa (mk (disk_client c))) \<le> psa_key_id_vendor_max"
    and "loads_store c (mp_id_codec (mk (disk_client c))) bs"
    and "is_admin_opcode ifc DeleteClient"
    and "\<And>body opc x. body_to_operation (protobuf_converter bs) body opc = Inr (OpDeleteClient x) \<Longrightarrow> opc = DeleteClient"
    and "\<forall>conn \<in> set conns.
      \<not> authenticated_as ifc wire feh (unwrap_or (ac_admins (sc_authenticator config)) []) n conn"
  shows "mbed_inv (on_disk_impl c) odm_inv odm_abs (mk (disk_client c)) keys_of id_of (serve ifc wire feh conns w1) \<and>
    mbed_view odm_abs (mk (disk_client c)) keys_of n (serve ifc wire feh conns w1) =
      mbed_view odm_abs (mk (disk_client c)) keys_of n w1"
proof -
  let ?I = "mbed_inv (on_disk_impl c) odm_inv odm_abs (mk (disk_client c)) keys_of id_of"
    and ?v = "mbed_view odm_abs (mk (disk_client c)) keys_of"
  have "tenant_isolation p ?I ?v"
    if m: "manager_from (mbed_only mk bs) cfgs s f" and g: "get_provider (mbed_only mk bs) cfg f w = (Inr (Some p), w')"
    for cfgs s cfg f w p w'
  proof -
    have "f = \<lparr>kf_impl = on_disk_impl c\<rparr>"
      using m assms(4) by (auto simp: manager_from_def loads_store_def mbed_only_def)
    with get_provider_mbed_only(2) [OF g] show ?thesis by (simp add: disk_client_def mbed.tenant_isolation_axioms)
  qed
  note B = build_service_isolated [OF assms(1) this]
  show ?thesis
    by (rule serve_isolated [OF B(1,2) assms(5) _ mbed_service_start [OF assms(1-4)] assms(7)])
      (use B(3) assms(6) in \<open>auto simp: mbed_only_def\<close>)
qed

section \<open>A sample service\<close>

definition toy_mk :: "on_disk_manager kim_client \<Rightarrow> (on_disk_manager, (u32, bytes) hash_map, u32) mbed_provider" where
  "toy_mk store = toy_provider\<lparr>mp_key_info_store := store\<rparr>"

definition toy_builders :: "(on_disk_manager, (on_disk_manager, (u32, bytes) hash_map) mbed_state) builders" where
  "toy_builders =
     \<lparr>compiled_provider = (\<lambda>_. False), compiled_authenticator = (\<lambda>_. True),
      kim_builder = (\<lambda>_ w. (Inr \<lparr>kf_impl = on_disk_impl sample_codec\<rparr>, w\<lparr>ms_kim := sample_manager\<rparr>)),
      mbed_builder = (\<lambda>_. err_op ''absent''), pkcs11_slot = (\<lambda>_. None),
      pkcs11_builder = (\<lambda>_ _ _ _ _ _. err_op ''absent''), tcti_parse = (\<lambda>_. True), tcti_initialize = (\<lambda>_ w. (False, w)),
      tpm_builder = (\<lambda>_ _ _. err_op ''absent''), calib_builder_build = (\<lambda>_. err_op ''absent''),
      ts_builder = (\<lambda>_. err_op ''absent''), spiffe_client = (\<lambda>_. None), protobuf_converter = sample_convert,
      crate_version = Some (0, 7, 0), sb_uuid_parse = (\<lambda>_. Some [])\<rparr>"

definition toy_config :: service_config where
  "toy_config =
     \<lparr>sc_core_settings = \<lparr>thread_pool_size = None, idle_listener_sleep_duration = None, log_level = None,
        log_timestamp = None, body_len_limit = None, log_error_details = None, allow_root = Some True, buffer_size_limit = Some 512\<rparr>,
      sc_listener = \<lparr>listener_type = DomainSocket, lc_timeout = 200, lc_socket_path = None\<rparr>,
      sc_authenticator = DirectConfig None,
      sc_key_manager = Some [\<lparr>kmc_name = ''m'', kmc_manager_type = OnDisk, kmc_store_path = None\<rparr>],
      sc_provider = Some [MbedCryptoConfig ''m'']\<rparr>"

lemma toy_mk_disk [simp]: "toy_mk (disk_client sample_codec) = toy_provider"
  by (simp add: toy_mk_def toy_provider_def disk_client_def)

lemma toy_loads_store: "loads_store sample_codec ic toy_builders"
  by (simp add: loads_store_def toy_builders_def sample_facts(3) unshared_def sample_manager_empty)

lemma toy_user_min: "key_id_user_min (mp_psa toy_provider) \<le> psa_key_id_vendor_max"
  by (simp add: toy_provider_def toy_psa_def psa_key_id_vendor_max_def)

lemma toy_backend_handlers:
  "\<exists>mp. build_backend_handlers (mbed_only toy_mk toy_builders) [(MbedCrypto, mbed_provide toy_provider)]
     [(Direct, direct_authenticator_impl (direct_new []))] = Some (Inr mp)"
proof -
  let ?bs = "mbed_only toy_mk toy_builders" and ?a = "direct_authenticator_impl (direct_new [])"
  obtain info where a: "au_describe ?a = Inr info"
    by (simp add: direct_authenticator_impl_def direct_describe_def)
  obtain d where d: "p_describe (mbed_provide toy_provider) = Some (Inr d)"
    by (simp add: mbed_provide_def default_provide_def mbed_describe_def toy_provider_def)
  have v: "crate_version ?bs = Some (0, 7, 0)" "sb_uuid_parse ?bs u = Some []" for u
    by (simp_all add: mbed_only_def toy_builders_def)
  show ?thesis
    by (cases d) (simp add: build_backend_handlers_def a d v core_build_def core_builder_new_def with_wire_protocol_version_def
        with_authenticator_info_def core_with_provider_def provider_backend_eq)
qed

lemma toy_service_builds:
  "\<exists>feh w1. snd (build_service (mbed_only toy_mk toy_builders) toy_config global_config_new toy_state) = Some (Inr feh, w1) \<and>
     feh_authenticators feh = [(Direct, direct_authenticator_impl (direct_new []))]"
proof -
  have init: "psa_init (mp_psa toy_provider) [] = (Inr (), [])" by (simp add: toy_provider_def toy_psa_def)
  have probe: "\<exists>r b'. from_persistent_key_id (mp_psa toy_provider) k b = (r, b') \<and> (\<forall>n. r \<noteq> Inl (OtherPsaError n))" for k b
    by (auto simp: toy_provider_def toy_psa_def ok_or_def split: option.splits)
  obtain w m b where new: "mbed_new toy_provider sample_manager [] = (Some w, m, b)"
    using mbed_new_total [OF toy_setup sample_facts(3) sample_codec_ok sample_facts(1,2) init probe] by blast
  have km: "key_info_manager_builders (mbed_only toy_mk toy_builders) (unwrap_or (sc_key_manager toy_config) []) [] toy_state =
    (Inr [(''m'', \<lparr>kf_impl = on_disk_impl sample_codec\<rparr>)], toy_state)"
    by (simp add: mbed_only_def toy_builders_def toy_config_def unwrap_or_def try_op_def ok_op_def toy_state_def)
  have "mbed_builder (mbed_only toy_mk toy_builders) (disk_client sample_codec) toy_state = (Inr (mbed_provide toy_provider), w)"
    using new by (simp add: mbed_only_def mbed_build_def toy_state_def)
  then have bp: "build_providers (mbed_only toy_mk toy_builders) (unwrap_or (sc_provider toy_config) [])
      [(''m'', \<lparr>kf_impl = on_disk_impl sample_codec\<rparr>)] toy_state = (Inr [(MbedCrypto, mbed_provide toy_provider)], w)"
    by (simp add: build_providers_def toy_config_def unwrap_or_def Let_def hm_get_def disk_client_def some_provider_def
        try_op_def ok_op_def mbed_only_def)
  have au: "build_authenticators (mbed_only toy_mk toy_builders) (sc_authenticator toy_config) =
      Inr [(Direct, direct_authenticator_impl (direct_new []))]"
    by (simp add: build_authenticators_def toy_config_def mbed_only_def toy_builders_def unwrap_or_def)
  obtain mp where bh: "build_backend_handlers (mbed_only toy_mk toy_builders) [(MbedCrypto, mbed_provide toy_provider)]
      [(Direct, direct_authenticator_impl (direct_new []))] = Some (Inr mp)"
    using toy_backend_handlers by blast
  from assemble_front_end_eq [of mp toy_config Direct "direct_authenticator_impl (direct_new [])"] show ?thesis
    by (auto simp: build_service_def km bp au bh)
qed

section \<open>Properties\<close>



end
