(* ===== verification/Main_Loop.thy ===== *)
theory Main_Loop
  imports Service_Properties "HOL-Library.Multiset"
begin

text \<open>
  \<open>src/src/bin/main.rs\<close>: start-up, the main loop, reloading and shutting down.

  The main thread and the threads of the pool take steps in any order. A job of the pool is the closure that \<open>main\<close>
  hands to it: its own reference to the front end and the connection. Handling one request is one
  step; how the locks of the components order the parts of two requests is not covered. \<open>threadpool.join()\<close> lets the main
  thread go on only when no job is left. Signals come at any time, so whether the loop
  polls, reloads or ends is left open by the step relation.

  Not part of the model: the text of the log, the notifications to systemd, and the time the thread sleeps
  when there is no connection.
\<close>

section \<open>The daemon\<close>

text \<open>
  \<open>read_config\<close> reads and parses the configuration file; \<open>drop_service\<close> and \<open>drop_listener\<close> are the destructors of
  what the service and the listener own.
\<close>

record ('x, 'l, 's, 'm, 'w) main_env =
  read_config :: "('x, string, service_config) rust_op"
  current_uid :: u32
  me_os :: "('x, 'l, 's) unix_os"
  me_builders :: "('m, 'w) builders"
  me_interface :: interface
  me_wire :: "'s wire"
  drop_service :: "'w front_end_handler \<Rightarrow> 'w \<Rightarrow> 'w"
  drop_listener :: "'l domain_socket_listener \<Rightarrow> 'x \<Rightarrow> 'x"

record ('x, 'l, 's, 'w) daemon =
  dm_config :: service_config
  dm_front_end :: "'w front_end_handler"
  dm_listener :: "'l domain_socket_listener"
  dm_jobs :: "('w front_end_handler \<times> 's connection) list"
  dm_globals :: global_config
  dm_world :: 'w
  dm_os :: 'x

datatype exit_status = Failed string | Panicked | Terminated

datatype ('x, 'l, 's, 'w) main_state = Up "('x, 'l, 's, 'w) daemon" | Stopped exit_status 'w

text \<open>The part that start-up and reloading have in common.\<close>

definition bring_up ::
  "('x, 'l, 's, 'm, 'w) main_env \<Rightarrow> service_config \<Rightarrow> global_config \<Rightarrow> 'w \<Rightarrow> 'x \<Rightarrow> ('x, 'l, 's, 'w) main_state" where
  "bring_up env config gc w x =
     (case build_service (me_builders env) config gc w of
        (gc', None) \<Rightarrow> Stopped Panicked w
      | (gc', Some (Inl e, w')) \<Rightarrow> Stopped (Failed e) w'
      | (gc', Some (Inr front_end_handler, w')) \<Rightarrow>
          (case start_listener (me_os env) (sc_listener config) x of
             (Inl e, x') \<Rightarrow> Stopped (Failed e) w'
           | (Inr listener, x') \<Rightarrow>
               Up \<lparr>dm_config = config, dm_front_end = front_end_handler, dm_listener = listener, dm_jobs = [],
                   dm_globals = gc', dm_world = w', dm_os = x'\<rparr>))"

definition main_start ::
  "('x, 'l, 's, 'm, 'w) main_env \<Rightarrow> 'w \<Rightarrow> 'x \<Rightarrow> ('x, 'l, 's, 'w) main_state" where
  "main_start env w x =
     (case read_config env x of
        (Inl e, x') \<Rightarrow> Stopped (Failed e) w
      | (Inr config, x') \<Rightarrow>
          let allow = unwrap_or (allow_root (sc_core_settings config)) False in
          if \<not> allow \<and> current_uid env = 0
          then Stopped (Failed ''the Parsec service should not be running as root'') w
          else bring_up env config global_config_new w x')"

definition main_reload ::
  "('x, 'l, 's, 'm, 'w) main_env \<Rightarrow> ('x, 'l, 's, 'w) daemon \<Rightarrow> ('x, 'l, 's, 'w) main_state" where
  "main_reload env d =
     (let w = drop_service env (dm_front_end d) (dm_world d);
          x = drop_listener env (dm_listener d) (dm_os d) in
      case read_config env x of
        (Inl e, x') \<Rightarrow> Stopped (Failed e) w
      | (Inr config, x') \<Rightarrow> bring_up env config (dm_globals d) w x')"

definition main_poll ::
  "('x, 'l, 's, 'm, 'w) main_env \<Rightarrow> ('x, 'l, 's, 'w) daemon \<Rightarrow> 's connection option \<times> ('x, 'l, 's, 'w) daemon" where
  "main_poll env d =
     (case ds_accept (me_os env) (dm_listener d) (dm_os d) of
        (Some connection, x) \<Rightarrow>
          (Some connection, d\<lparr>dm_jobs := dm_jobs d @ [(dm_front_end d, connection)], dm_os := x\<rparr>)
      | (None, x) \<Rightarrow> (None, d\<lparr>dm_os := x\<rparr>))"

text \<open>A thread of the pool runs one of the jobs.\<close>

definition run_job ::
  "('x, 'l, 's, 'm, 'w) main_env \<Rightarrow> nat \<Rightarrow> ('x, 'l, 's, 'w) daemon \<Rightarrow> ('x, 'l, 's, 'w) daemon" where
  "run_job env i d =
     (let (front_end_handler, connection) = dm_jobs d ! i in
      d\<lparr>dm_jobs := take i (dm_jobs d) @ drop (Suc i) (dm_jobs d),
        dm_world := snd (handle_request (me_interface env) (me_wire env) front_end_handler connection (dm_world d))\<rparr>)"

section \<open>Runs\<close>

datatype 's event = Accepted "'s connection" | Served "'s connection" | Reloaded | Ended

inductive main_step ::
  "('x, 'l, 's, 'm, 'w) main_env \<Rightarrow> ('x, 'l, 's, 'w) main_state \<Rightarrow> 's event list \<Rightarrow> ('x, 'l, 's, 'w) main_state \<Rightarrow> bool"
  for env where
  accept: "main_poll env d = (Some c, d') \<Longrightarrow> main_step env (Up d) [Accepted c] (Up d')"
| idle: "main_poll env d = (None, d') \<Longrightarrow> main_step env (Up d) [] (Up d')"
| job: "i < length (dm_jobs d) \<Longrightarrow> main_step env (Up d) [Served (snd (dm_jobs d ! i))] (Up (run_job env i d))"
| reload: "dm_jobs d = [] \<Longrightarrow> main_step env (Up d) [Reloaded] (main_reload env d)"
| terminate: "dm_jobs d = [] \<Longrightarrow> main_step env (Up d) [Ended] (Stopped Terminated (dm_world d))"

inductive main_run ::
  "('x, 'l, 's, 'm, 'w) main_env \<Rightarrow> ('x, 'l, 's, 'w) main_state \<Rightarrow> 's event list \<Rightarrow> ('x, 'l, 's, 'w) main_state \<Rightarrow> bool"
  for env s where
  start: "main_run env s [] s"
| step: "main_run env s es s1 \<Longrightarrow> main_step env s1 e s2 \<Longrightarrow> main_run env s (es @ e) s2"

inductive_cases main_step_cases: "main_step env (Up d) e s"
inductive_cases main_run_Nil_cases: "main_run env s [] s'"

fun accepted :: "'s event list \<Rightarrow> 's connection list" where
  "accepted [] = []"
| "accepted (Accepted c # es) = c # accepted es"
| "accepted (_ # es) = accepted es"

fun served :: "'s event list \<Rightarrow> 's connection list" where
  "served [] = []"
| "served (Served c # es) = c # served es"
| "served (_ # es) = served es"

text \<open>The events after the last reload.\<close>

fun since_reload :: "'s event list \<Rightarrow> 's event list" where
  "since_reload [] = []"
| "since_reload (e # es) = (if Reloaded \<in> set es then since_reload es else if e = Reloaded then es else e # es)"

lemma accepted_append [simp]: "accepted (es @ fs) = accepted es @ accepted fs"
  by (induction es rule: accepted.induct) simp_all

lemma served_append [simp]: "served (es @ fs) = served es @ served fs"
  by (induction es rule: served.induct) simp_all

lemma since_reload_snoc: "since_reload (es @ [e]) = (if e = Reloaded then [] else since_reload es @ [e])"
  by (induction es) auto

section \<open>Every accepted connection is served once\<close>

text \<open>
  The invariant of a run: the jobs that are left belong to the current front end, and the connections that were accepted
  are those that were served and those of the jobs.
\<close>

definition balanced :: "'s event list \<Rightarrow> ('x, 'l, 's, 'w) main_state \<Rightarrow> bool" where
  "balanced es s \<longleftrightarrow>
     (case s of
        Up d \<Rightarrow> mset (accepted es) = mset (served es) + mset (map snd (dm_jobs d)) \<and>
          (\<forall>f c. (f, c) \<in> set (dm_jobs d) \<longrightarrow> f = dm_front_end d)
      | Stopped e w \<Rightarrow> mset (accepted es) = mset (served es))"

lemma bring_up_Up: "bring_up env config gc w x = Up d \<Longrightarrow> dm_jobs d = []"
  by (auto simp: bring_up_def split: prod.splits option.splits sum.splits)

lemma main_start_Up: "main_start env w x = Up d \<Longrightarrow> dm_jobs d = []"
  by (auto simp: main_start_def Let_def bring_up_Up split: prod.splits sum.splits if_splits)

lemma main_reload_Up: "main_reload env d = Up d' \<Longrightarrow> dm_jobs d' = []"
  by (auto simp: main_reload_def Let_def bring_up_Up split: prod.splits sum.splits)

lemma main_poll_result:
  assumes "main_poll env d = (r, d')"
  shows "dm_config d' = dm_config d" "dm_front_end d' = dm_front_end d" "dm_world d' = dm_world d"
    "dm_jobs d' = dm_jobs d @ (case r of Some c \<Rightarrow> [(dm_front_end d, c)] | None \<Rightarrow> [])"
  using assms by (auto simp: main_poll_def split: prod.splits option.splits)

lemma balanced_no_jobs: "(\<And>d. s = Up d \<Longrightarrow> dm_jobs d = []) \<Longrightarrow> balanced es s \<longleftrightarrow> mset (accepted es) = mset (served es)"
  by (cases s) (simp_all add: balanced_def)

lemma mset_take_nth_drop: "i < length xs \<Longrightarrow> mset xs = add_mset (xs ! i) (mset (take i xs @ drop (Suc i) xs))"
  by (metis append_take_drop_id Cons_nth_drop_Suc mset.simps(2) mset_append union_mset_add_mset_right)

lemma main_step_balanced:
  assumes "main_step env s e s'" and "balanced es s"
  shows "balanced (es @ e) s'"
  using assms
proof cases
  case (job i d)
  obtain f c where j: "dm_jobs d ! i = (f, c)" by fastforce
  have "mset (map snd (dm_jobs d)) = add_mset c (mset (map snd (take i (dm_jobs d) @ drop (Suc i) (dm_jobs d))))"
    using mset_take_nth_drop [OF job(4)] by (simp add: j)
  with job assms(2) j show ?thesis
    by (auto simp: balanced_def run_job_def dest: in_set_takeD in_set_dropD)
next
  case (reload d)
  then show ?thesis
    using assms(2) balanced_no_jobs [of "main_reload env d" "es @ [Reloaded]"] main_reload_Up [of env d]
    by (simp add: balanced_def)
next
  case (accept d c d')
  with assms(2) main_poll_result [OF accept(4)] show ?thesis by (auto simp: balanced_def)
next
  case (idle d d')
  with assms(2) main_poll_result [OF idle(4)] show ?thesis by (auto simp: balanced_def)
next
  case (terminate d)
  with assms(2) show ?thesis by (simp add: balanced_def)
qed

lemma main_run_balanced:
  assumes "main_run env s es s'" and "balanced [] s"
  shows "balanced es s'"
  using assms by induction (simp_all add: main_step_balanced)

section \<open>The state is the one of serving one connection after the other\<close>

definition built_with ::
  "('x, 'l, 's, 'm, 'w) main_env \<Rightarrow> ('x, 'l, 's, 'w) daemon \<Rightarrow> 'w \<Rightarrow> bool" where
  "built_with env d w \<longleftrightarrow>
     (\<exists>gc w0. snd (build_service (me_builders env) (dm_config d) gc w0) = Some (Inr (dm_front_end d), w))"

definition tracked ::
  "('x, 'l, 's, 'm, 'w) main_env \<Rightarrow> 's event list \<Rightarrow> ('x, 'l, 's, 'w) main_state \<Rightarrow> bool" where
  "tracked env es s \<longleftrightarrow>
     (\<forall>d. s = Up d \<longrightarrow>
        (\<exists>w. built_with env d w \<and>
           dm_world d = serve (me_interface env) (me_wire env) (dm_front_end d) (served (since_reload es)) w))"

lemma serve_snoc:
  "serve ifc wire self (cs @ [c]) w = snd (handle_request ifc wire self c (serve ifc wire self cs w))"
  by (simp add: serve_def)

lemma bring_up_tracked:
  assumes "bring_up env config gc w x = Up d"
  shows "built_with env d (dm_world d)"
proof -
  obtain gc' feh w' where b: "build_service (me_builders env) config gc w = (gc', Some (Inr feh, w'))"
    using assms by (auto simp: bring_up_def split: prod.splits option.splits sum.splits)
  then have "dm_config d = config" "dm_front_end d = feh" "dm_world d = w'"
    using assms by (auto simp: bring_up_def split: prod.splits sum.splits)
  with b have "snd (build_service (me_builders env) (dm_config d) gc w) = Some (Inr (dm_front_end d), dm_world d)"
    by simp
  then show ?thesis unfolding built_with_def by blast
qed

lemma main_start_tracked: "tracked env [] (main_start env w x)"
  by (auto simp: tracked_def main_start_def Let_def serve_def dest!: bring_up_tracked
      split: prod.splits sum.splits if_splits)

lemma main_reload_tracked: "tracked env (es @ [Reloaded]) (main_reload env d)"
  by (auto simp: tracked_def main_reload_def Let_def serve_def since_reload_snoc dest!: bring_up_tracked
      split: prod.splits sum.splits)

lemma main_step_tracked:
  assumes "main_step env s e s'" and "tracked env es s" and "balanced es s"
  shows "tracked env (es @ e) s'"
  using assms
proof cases
  case (job i d)
  obtain c where j: "dm_jobs d ! i = (dm_front_end d, c)"
    using assms(3) job(1) nth_mem [OF job(4)] by (cases "dm_jobs d ! i") (auto simp: balanced_def)
  from assms(2) job(1) obtain w where w: "built_with env d w"
    "dm_world d = serve (me_interface env) (me_wire env) (dm_front_end d) (served (since_reload es)) w"
    by (auto simp: tracked_def)
  then have "built_with env (run_job env i d) w" by (simp add: run_job_def j built_with_def)
  moreover have "dm_world (run_job env i d) =
    serve (me_interface env) (me_wire env) (dm_front_end (run_job env i d)) (served (since_reload (es @ e))) w"
    using job(2) w(2) by (simp add: run_job_def j since_reload_snoc serve_snoc)
  ultimately show ?thesis unfolding tracked_def job(3) by blast
next
  case (reload d)
  with main_reload_tracked show ?thesis by simp
next
  case (accept d c d')
  with assms(2) main_poll_result [OF accept(4)] show ?thesis
    by (simp add: tracked_def built_with_def since_reload_snoc)
next
  case (idle d d')
  with assms(2) main_poll_result [OF idle(4)] show ?thesis by (simp add: tracked_def built_with_def)
next
  case (terminate d)
  then show ?thesis by (simp add: tracked_def)
qed

lemma main_run_tracked:
  assumes "main_run env (main_start env w x) es s"
  shows "balanced es s \<and> tracked env es s"
  using assms
proof induction
  case start
  show ?case
    using balanced_no_jobs [of "main_start env w x" "[]"] main_start_Up [of env w x] main_start_tracked by simp
next
  case (step es s1 e s2)
  then show ?case by (simp add: main_step_balanced main_step_tracked)
qed

text \<open>Nothing is left over when the configuration is reloaded.\<close>

lemma main_run_reload:
  assumes "main_run env (main_start env w x) es s"
  shows "es = es1 @ Reloaded # es2 \<Longrightarrow> mset (accepted es1) = mset (served es1)"
  using assms
proof (induction arbitrary: es2)
  case (step es s1 e s2)
  show ?case
  proof (cases "es2 = [] \<and> e = [Reloaded]")
    case True
    with step.prems step.hyps(2) obtain d where "s1 = Up d" "dm_jobs d = []" "es = es1"
      by (auto elim: main_step.cases)
    with main_run_tracked [OF step.hyps(1)] show ?thesis by (simp add: balanced_def)
  next
    case False
    have "length e \<le> 1" using step.hyps(2) by (auto elim: main_step.cases)
    with False step.prems obtain es3 where "es = es1 @ Reloaded # es3"
      by (cases es2 rule: rev_cases; cases e) auto
    then show ?thesis by (rule step.IH)
  qed
qed simp

section \<open>The guard against running as root\<close>

lemma main_run_Stopped: "main_run env s es s' \<Longrightarrow> s = Stopped e w \<Longrightarrow> s' = Stopped e w"
  by (induction rule: main_run.induct) (auto elim: main_step.cases)

lemma main_start_guard:
  assumes "main_start env w x = Up d"
  shows "\<exists>config x'. read_config env x = (Inr config, x') \<and>
    (allow_root (sc_core_settings config) = Some True \<or> current_uid env \<noteq> 0)"
  using assms
  by (auto simp: main_start_def Let_def unwrap_or_def split: prod.splits sum.splits if_splits option.splits)

section \<open>A sample run\<close>

definition toy_wire :: "unit wire" where
  "toy_wire =
     \<lparr>read_from_stream = (\<lambda>_ _. (Inr (sample_request MbedCrypto PsaGenerateKey), ())),
      write_to_stream = (\<lambda>_ _. (Inr (), ()))\<rparr>"

definition toy_env ::
  "(string \<Rightarrow> bool option, unit, unit, on_disk_manager, (on_disk_manager, (u32, bytes) hash_map) mbed_state) main_env" where
  "toy_env =
     \<lparr>read_config = (\<lambda>x. (Inr toy_config, x)), current_uid = 0, me_os = toy_os,
      me_builders = mbed_only toy_mk toy_builders, me_interface = sample_interface, me_wire = toy_wire,
      drop_service = (\<lambda>_ w. w), drop_listener = (\<lambda>_ x. x)\<rparr>"

definition toy_conn :: "unit connection" where
  "toy_conn = \<lparr>conn_stream = (), conn_metadata = Some (UnixPeerCredentialsMeta 1000 100 (Some 7))\<rparr>"

lemma toy_allows_root: "allow_root (sc_core_settings toy_config) = Some True"
  by (simp add: toy_config_def)

lemma toy_main_start:
  "\<exists>d. main_start toy_env toy_state Map.empty = Up d \<and> dm_config d = toy_config \<and>
     feh_authenticators (dm_front_end d) = [(Direct, direct_authenticator_impl (direct_new []))]"
proof -
  obtain feh w where b: "snd (build_service (mbed_only toy_mk toy_builders) toy_config global_config_new toy_state) = Some (Inr feh, w)"
    and a: "feh_authenticators feh = [(Direct, direct_authenticator_impl (direct_new []))]"
    using toy_service_builds by blast
  obtain gc where "build_service (mbed_only toy_mk toy_builders) toy_config global_config_new toy_state = (gc, Some (Inr feh, w))"
    using b by (metis prod.collapse)
  moreover obtain l x where "start_listener toy_os (sc_listener toy_config) Map.empty = (Inr l, x)"
    by (simp add: start_listener_def toy_config_def ds_build_def domain_socket_new_def remove_stale_socket_def toy_os_def
        ds_builder_new_def ds_with_timeout_def ds_with_socket_path_def try_op_def ok_op_def read_op_def)
  ultimately show ?thesis
    using a by (simp add: main_start_def toy_env_def bring_up_def unwrap_or_def toy_allows_root)
qed

lemma toy_run:
  "\<exists>d. main_run toy_env (main_start toy_env toy_state Map.empty) [Accepted toy_conn, Served toy_conn] (Up d) \<and>
     dm_config d = toy_config \<and> dm_jobs d = [] \<and>
     feh_authenticators (dm_front_end d) = [(Direct, direct_authenticator_impl (direct_new []))]"
proof -
  let ?s = "main_start toy_env toy_state Map.empty"
  obtain d where d: "?s = Up d" "dm_config d = toy_config"
    "feh_authenticators (dm_front_end d) = [(Direct, direct_authenticator_impl (direct_new []))]"
    using toy_main_start by blast
  let ?d1 = "d\<lparr>dm_jobs := [(dm_front_end d, toy_conn)]\<rparr>"
  have "main_poll toy_env d = (Some toy_conn, ?d1)"
    using main_start_Up [OF d(1)]
    by (simp add: main_poll_def ds_accept_def peer_cred_def toy_env_def toy_os_def toy_conn_def)
  from main_run.step [OF main_run.start accept [OF this]] d(1)
  have run: "main_run toy_env ?s [Accepted toy_conn] (Up ?d1)" by simp
  have "main_step toy_env (Up ?d1) [Served toy_conn] (Up (run_job toy_env 0 ?d1))"
    using job [of 0 ?d1 toy_env] by simp
  from main_run.step [OF run this] d(2,3) show ?thesis
    by (intro exI [of _ "run_job toy_env 0 ?d1"]) (simp add: run_job_def)
qed

section \<open>Properties\<close>



text \<open>
  C16: Every accepted connection is served exactly once, by the service that was configured when it was accepted. In any run of
  \<open>main\<close>, the connections accepted are those served together with those of the jobs that still wait,
  which all belong to the current front end; the state is the one that serving the connections since the last
  (re)start one after the other gives, in the order in which they were finished. Before the
  configuration is reloaded, and when the daemon stops for whatever reason, every accepted
  connection has been served.
\<close>

theorem connections_served_once:
  assumes "main_run env (main_start env w x) es s"
  shows "(case s of
      Up d \<Rightarrow> mset (accepted es) = mset (served es) + mset (map snd (dm_jobs d)) \<and>
        (\<forall>(f, c) \<in> set (dm_jobs d). f = dm_front_end d) \<and>
        (\<exists>gc w0 w1. snd (build_service (me_builders env) (dm_config d) gc w0) = Some (Inr (dm_front_end d), w1) \<and>
           dm_world d = serve (me_interface env) (me_wire env) (dm_front_end d) (served (since_reload es)) w1)
    | Stopped e w' \<Rightarrow> mset (accepted es) = mset (served es)) \<and>
    (\<forall>es1 es2. es = es1 @ Reloaded # es2 \<longrightarrow> mset (accepted es1) = mset (served es1))"
  using main_run_tracked [OF assms] main_run_reload [OF assms]
  by (cases s) (auto simp: balanced_def tracked_def built_with_def)

theorem connections_served_once_witness:
  "\<exists>d gc w0 w1. main_run toy_env (main_start toy_env toy_state Map.empty) [Accepted toy_conn, Served toy_conn] (Up d) \<and>
     snd (build_service (me_builders toy_env) (dm_config d) gc w0) = Some (Inr (dm_front_end d), w1) \<and>
     dm_world d = serve (me_interface toy_env) (me_wire toy_env) (dm_front_end d) [toy_conn] w1"
proof -
  obtain d where run: "main_run toy_env (main_start toy_env toy_state Map.empty) [Accepted toy_conn, Served toy_conn] (Up d)"
    using toy_run by blast
  from connections_served_once [OF run] obtain gc w0 w1 where
    "snd (build_service (me_builders toy_env) (dm_config d) gc w0) = Some (Inr (dm_front_end d), w1)"
    "dm_world d = serve (me_interface toy_env) (me_wire toy_env) (dm_front_end d) [toy_conn] w1"
    by auto
  with run show ?thesis by blast
qed

text \<open>
  The daemon does not serve as root by accident. If it accepts a connection in a run of \<open>main\<close> while its user is root,
  then the configuration file that was read at start-up allows running as root explicitly.
\<close>

lemma root_needs_permission:
  assumes "main_run env (main_start env w x) es s" and "accepted es \<noteq> []" and "current_uid env = 0"
  shows "\<exists>config x'. read_config env x = (Inr config, x') \<and> allow_root (sc_core_settings config) = Some True"
proof (cases "main_start env w x")
  case (Up d)
  from main_start_guard [OF this] assms(3) show ?thesis by auto
next
  case (Stopped e w')
  from assms(1) this have "es = []" by (induction) (auto dest: main_run_Stopped elim: main_step.cases)
  with assms(2) show ?thesis by simp
qed

lemma root_needs_permission_witness:
  "current_uid toy_env = 0 \<and> (\<exists>config x'. read_config toy_env Map.empty = (Inr config, x') \<and>
     allow_root (sc_core_settings config) = Some True)"
proof -
  obtain d where "main_run toy_env (main_start toy_env toy_state Map.empty) [Accepted toy_conn, Served toy_conn] (Up d)"
    using toy_run by blast
  from root_needs_permission [OF this] show ?thesis by (simp add: toy_env_def)
qed

end
