(* ===== verification/Test_Client.thy ===== *)
theory Test_Client
  imports Parsec_Interface
begin

text \<open>
  \<open>src/e2e_tests/src/lib.rs\<close>: the client that the end-to-end tests of the repository drive the service with. It wraps the client
  library and remembers the keys that it has created, to destroy them when it goes out of scope. The client library
  \<open>parsec_client\<close> is a parameter; its state contains the service that it talks to. A panic of a test is \<open>None\<close>.
\<close>

section \<open>The client library\<close>

datatype client_error = Service response_status | ClientError nat

datatype authentication = DirectAuthentication string | OtherAuthentication nat

record ('w, 'c) basic_client_api =
  bc_new :: "string option \<Rightarrow> 'w \<Rightarrow> client_error + 'c"
  implicit_provider :: "'c \<Rightarrow> provider_id"
  set_implicit_provider :: "provider_id \<Rightarrow> 'c \<Rightarrow> 'c"
  bc_set_default_auth :: "string option \<Rightarrow> ('c, client_error, unit) rust_op"
  auth_data :: "'c \<Rightarrow> authentication"
  bc_psa_generate_key :: "string \<Rightarrow> attributes \<Rightarrow> ('c, client_error, unit) rust_op"
  bc_psa_import_key :: "string \<Rightarrow> bytes \<Rightarrow> attributes \<Rightarrow> ('c, client_error, unit) rust_op"
  bc_psa_destroy_key :: "string \<Rightarrow> ('c, client_error, unit) rust_op"
  bc_psa_generate_random :: "usize \<Rightarrow> ('c, client_error, bytes) rust_op"
  bc_psa_export_key :: "string \<Rightarrow> ('c, client_error, bytes) rust_op"
  bc_psa_export_public_key :: "string \<Rightarrow> ('c, client_error, bytes) rust_op"
  bc_psa_sign_hash :: "string \<Rightarrow> bytes \<Rightarrow> asymmetric_signature \<Rightarrow> ('c, client_error, bytes) rust_op"
  bc_psa_verify_hash :: "string \<Rightarrow> bytes \<Rightarrow> asymmetric_signature \<Rightarrow> bytes \<Rightarrow> ('c, client_error, unit) rust_op"
  bc_psa_sign_message :: "string \<Rightarrow> bytes \<Rightarrow> asymmetric_signature \<Rightarrow> ('c, client_error, bytes) rust_op"
  bc_psa_verify_message :: "string \<Rightarrow> bytes \<Rightarrow> asymmetric_signature \<Rightarrow> bytes \<Rightarrow> ('c, client_error, unit) rust_op"
  bc_psa_asymmetric_encrypt :: "string \<Rightarrow> asymmetric_encryption \<Rightarrow> bytes \<Rightarrow> bytes option \<Rightarrow> ('c, client_error, bytes) rust_op"
  bc_psa_asymmetric_decrypt :: "string \<Rightarrow> asymmetric_encryption \<Rightarrow> bytes \<Rightarrow> bytes option \<Rightarrow> ('c, client_error, bytes) rust_op"
  bc_psa_aead_encrypt :: "string \<Rightarrow> aead_alg \<Rightarrow> bytes \<Rightarrow> bytes \<Rightarrow> bytes \<Rightarrow> ('c, client_error, bytes) rust_op"
  bc_psa_aead_decrypt :: "string \<Rightarrow> aead_alg \<Rightarrow> bytes \<Rightarrow> bytes \<Rightarrow> bytes \<Rightarrow> ('c, client_error, bytes) rust_op"
  bc_psa_hash_compute :: "hash_alg \<Rightarrow> bytes \<Rightarrow> ('c, client_error, bytes) rust_op"
  bc_psa_hash_compare :: "hash_alg \<Rightarrow> bytes \<Rightarrow> bytes \<Rightarrow> ('c, client_error, unit) rust_op"
  bc_psa_raw_key_agreement :: "raw_key_agreement \<Rightarrow> string \<Rightarrow> bytes \<Rightarrow> ('c, client_error, bytes) rust_op"
  bc_list_providers :: "('c, client_error, provider_info list) rust_op"
  bc_list_authenticators :: "('c, client_error, authenticator_info list) rust_op"
  bc_list_opcodes :: "provider_id \<Rightarrow> ('c, client_error, opcode fset) rust_op"
  bc_list_keys :: "('c, client_error, listed_key list) rust_op"
  bc_list_clients :: "('c, client_error, string list) rust_op"
  bc_delete_client :: "string \<Rightarrow> ('c, client_error, unit) rust_op"
  bc_ping :: "('c, client_error, u8 \<times> u8) rust_op"

section \<open>The test client\<close>

text \<open>The hash set of created keys is the list of its elements; a key is a name, the direct authentication, and a provider.\<close>

type_synonym created_key = "string \<times> string option \<times> provider_id"

record 'c test_client =
  basic_client :: 'c
  created_keys :: "created_key list option"

type_synonym ('c, 'a) test_op = "'c test_client \<Rightarrow> ('a res \<times> 'c test_client) option"

definition convert_error :: "client_error \<Rightarrow> response_status option" where
  "convert_error err = (case err of Service status \<Rightarrow> Some status | ClientError _ \<Rightarrow> None)"

text \<open>A request of the client library, with its error converted.\<close>

definition tc_call :: "('c, client_error, 'a) rust_op \<Rightarrow> ('c, 'a) test_op" where
  "tc_call f self =
     (case f (basic_client self) of
        (Inr x, c) \<Rightarrow> Some (Inr x, self\<lparr>basic_client := c\<rparr>)
      | (Inl err, c) \<Rightarrow> map_option (\<lambda>s. (Inl s, self\<lparr>basic_client := c\<rparr>)) (convert_error err))"

definition tc_new :: "('w, 'c) basic_client_api \<Rightarrow> 'w \<Rightarrow> 'c test_client option" where
  "tc_new bc w =
     (case bc_new bc (Some ''root'') w of
        Inr c \<Rightarrow> Some \<lparr>basic_client = c, created_keys = Some []\<rparr>
      | Inl _ \<Rightarrow> None)"

definition tc_provider :: "('w, 'c) basic_client_api \<Rightarrow> 'c test_client \<Rightarrow> provider_id" where
  "tc_provider bc self = implicit_provider bc (basic_client self)"

definition set_provider :: "('w, 'c) basic_client_api \<Rightarrow> provider_id \<Rightarrow> 'c test_client \<Rightarrow> 'c test_client" where
  "set_provider bc p self = self\<lparr>basic_client := set_implicit_provider bc p (basic_client self)\<rparr>"

definition tc_set_default_auth :: "('w, 'c) basic_client_api \<Rightarrow> string option \<Rightarrow> 'c test_client \<Rightarrow> 'c test_client option" where
  "tc_set_default_auth bc auth self =
     (case bc_set_default_auth bc auth (basic_client self) of
        (Inr _, c) \<Rightarrow> Some (self\<lparr>basic_client := c\<rparr>)
      | (Inl _, c) \<Rightarrow> None)"

definition get_direct_auth :: "('w, 'c) basic_client_api \<Rightarrow> 'c test_client \<Rightarrow> string option" where
  "get_direct_auth bc self =
     (case auth_data bc (basic_client self) of DirectAuthentication app_name \<Rightarrow> Some app_name | _ \<Rightarrow> None)"

definition do_not_destroy_keys :: "'c test_client \<Rightarrow> 'c test_client" where
  "do_not_destroy_keys self = self\<lparr>created_keys := None\<rparr>"

definition tc_list_opcodes :: "('w, 'c) basic_client_api \<Rightarrow> provider_id \<Rightarrow> ('c, opcode fset) test_op" where
  "tc_list_opcodes bc provider_id = tc_call (bc_list_opcodes bc provider_id)"

definition is_operation_supported :: "('w, 'c) basic_client_api \<Rightarrow> opcode \<Rightarrow> 'c test_client \<Rightarrow> (bool \<times> 'c test_client) option" where
  "is_operation_supported bc op self =
     (case tc_list_opcodes bc (tc_provider bc self) self of
        Some (Inr opcodes, self') \<Rightarrow> Some (op |\<in>| opcodes, self')
      | _ \<Rightarrow> None)"

section \<open>Creating and destroying keys\<close>

definition tc_key :: "('w, 'c) basic_client_api \<Rightarrow> string \<Rightarrow> 'c test_client \<Rightarrow> created_key" where
  "tc_key bc key_name self = (key_name, get_direct_auth bc self, tc_provider bc self)"

definition on_created :: "(created_key list \<Rightarrow> created_key list) \<Rightarrow> 'c test_client \<Rightarrow> 'c test_client" where
  "on_created f self = self\<lparr>created_keys := map_option f (created_keys self)\<rparr>"

definition tc_generate_key :: "('w, 'c) basic_client_api \<Rightarrow> string \<Rightarrow> attributes \<Rightarrow> ('c, unit) test_op" where
  "tc_generate_key bc key_name attributes self =
     (case tc_call (bc_psa_generate_key bc key_name attributes) self of
        Some (Inr _, self') \<Rightarrow> Some (Inr (), on_created (List.insert (tc_key bc key_name self')) self')
      | x \<Rightarrow> x)"

definition tc_import_key :: "('w, 'c) basic_client_api \<Rightarrow> string \<Rightarrow> attributes \<Rightarrow> bytes \<Rightarrow> ('c, unit) test_op" where
  "tc_import_key bc key_name attributes data self =
     (case tc_call (bc_psa_import_key bc key_name data attributes) self of
        Some (Inr _, self') \<Rightarrow> Some (Inr (), on_created (List.insert (tc_key bc key_name self')) self')
      | x \<Rightarrow> x)"

definition tc_destroy_key :: "('w, 'c) basic_client_api \<Rightarrow> string \<Rightarrow> ('c, unit) test_op" where
  "tc_destroy_key bc key_name self =
     (case tc_call (bc_psa_destroy_key bc key_name) self of
        Some (Inr _, self') \<Rightarrow> Some (Inr (), on_created (removeAll (tc_key bc key_name self')) self')
      | x \<Rightarrow> x)"

text \<open>\<open>UsageFlags::default()\<close>.\<close>

definition no_usage :: usage_flags where
  "no_usage =
     \<lparr>uf_export = False, uf_copy = False, uf_cache = False, uf_encrypt = False, uf_decrypt = False, uf_sign_message = False,
      uf_verify_message = False, uf_sign_hash = False, uf_verify_hash = False, uf_derive = False\<rparr>"

definition sign_usage :: usage_flags where
  "sign_usage = no_usage\<lparr>uf_sign_hash := True, uf_verify_hash := True, uf_sign_message := True, uf_verify_message := True\<rparr>"

definition crypt_usage :: usage_flags where
  "crypt_usage = no_usage\<lparr>uf_encrypt := True, uf_decrypt := True\<rparr>"

definition verify_usage :: usage_flags where
  "verify_usage = no_usage\<lparr>uf_verify_hash := True, uf_verify_message := True\<rparr>"

definition key_attributes :: "lifetime \<Rightarrow> key_type \<Rightarrow> usize \<Rightarrow> usage_flags \<Rightarrow> algorithm \<Rightarrow> attributes" where
  "key_attributes l ty bits flags alg =
     \<lparr>attr_lifetime = l, attr_key_type = ty, attr_bits = bits, usage_flags = flags, permitted_algorithms = alg\<rparr>"

definition generate_rsa_sign_key :: "('w, 'c) basic_client_api \<Rightarrow> string \<Rightarrow> ('c, unit) test_op" where
  "generate_rsa_sign_key bc key_name =
     tc_generate_key bc key_name (key_attributes Persistent RsaKeyPair 1024 sign_usage (Alg_AsymmetricSignature (RsaPkcs1v15Sign (Specific Sha256))))"

definition generate_long_rsa_sign_key :: "('w, 'c) basic_client_api \<Rightarrow> string \<Rightarrow> ('c, unit) test_op" where
  "generate_long_rsa_sign_key bc key_name =
     tc_generate_key bc key_name (key_attributes Persistent RsaKeyPair 2048 sign_usage (Alg_AsymmetricSignature (RsaPkcs1v15Sign (Specific Sha256))))"

definition generate_rsa_encryption_keys_rsapkcs1v15crypt :: "('w, 'c) basic_client_api \<Rightarrow> string \<Rightarrow> ('c, unit) test_op" where
  "generate_rsa_encryption_keys_rsapkcs1v15crypt bc key_name =
     tc_generate_key bc key_name (key_attributes Persistent RsaKeyPair 1024 crypt_usage (Alg_AsymmetricEncryption RsaPkcs1v15Crypt))"

definition generate_aes_keys_ccm :: "('w, 'c) basic_client_api \<Rightarrow> string \<Rightarrow> ('c, unit) test_op" where
  "generate_aes_keys_ccm bc key_name =
     tc_generate_key bc key_name (key_attributes Persistent Aes 192 crypt_usage (Alg_Aead (AeadWithDefaultLengthTag Ccm)))"

definition generate_rsa_encryption_keys_rsaoaep_sha256 :: "('w, 'c) basic_client_api \<Rightarrow> string \<Rightarrow> ('c, unit) test_op" where
  "generate_rsa_encryption_keys_rsaoaep_sha256 bc key_name =
     tc_generate_key bc key_name (key_attributes Persistent RsaKeyPair 1024 crypt_usage (Alg_AsymmetricEncryption (RsaOaep Sha256)))"

definition generate_rsa_encryption_keys_rsaoaep_sha1 :: "('w, 'c) basic_client_api \<Rightarrow> string \<Rightarrow> ('c, unit) test_op" where
  "generate_rsa_encryption_keys_rsaoaep_sha1 bc key_name =
     tc_generate_key bc key_name (key_attributes Persistent RsaKeyPair 1024 crypt_usage (Alg_AsymmetricEncryption (RsaOaep Sha1)))"

definition generate_ecc_key_pair_secpk1_deterministic_ecdsa_sha256 :: "('w, 'c) basic_client_api \<Rightarrow> string \<Rightarrow> ('c, unit) test_op" where
  "generate_ecc_key_pair_secpk1_deterministic_ecdsa_sha256 bc key_name =
     tc_generate_key bc key_name (key_attributes Persistent (EccKeyPair SecpK1) 256 (sign_usage\<lparr>uf_verify_message := False\<rparr>)
       (Alg_AsymmetricSignature (DeterministicEcdsa (Specific Sha256))))"

definition generate_ecc_key_pair_secpr1_ecdsa_sha256 :: "('w, 'c) basic_client_api \<Rightarrow> string \<Rightarrow> ('c, unit) test_op" where
  "generate_ecc_key_pair_secpr1_ecdsa_sha256 bc key_name =
     tc_generate_key bc key_name (key_attributes Persistent (EccKeyPair SecpR1) 256 sign_usage (Alg_AsymmetricSignature (Ecdsa (Specific Sha256))))"

definition generate_ecc_pair_secp_r1_key :: "('w, 'c) basic_client_api \<Rightarrow> string \<Rightarrow> ('c, unit) test_op" where
  "generate_ecc_pair_secp_r1_key bc key_name =
     tc_generate_key bc key_name (key_attributes Volatile (EccKeyPair SecpR1) 256 (no_usage\<lparr>uf_derive := True\<rparr>) (Alg_KeyAgreement (RawAgreement Ecdh)))"

definition import_rsa_key_pair_for_encryption :: "('w, 'c) basic_client_api \<Rightarrow> string \<Rightarrow> bytes \<Rightarrow> ('c, unit) test_op" where
  "import_rsa_key_pair_for_encryption bc key_name data =
     tc_import_key bc key_name (key_attributes Persistent RsaKeyPair 1024 crypt_usage (Alg_AsymmetricEncryption RsaPkcs1v15Crypt)) data"

definition import_rsa_public_key_for_encryption :: "('w, 'c) basic_client_api \<Rightarrow> string \<Rightarrow> bytes \<Rightarrow> ('c, unit) test_op" where
  "import_rsa_public_key_for_encryption bc key_name data =
     tc_import_key bc key_name (key_attributes Persistent RsaPublicKey 1024 (crypt_usage\<lparr>uf_verify_message := True\<rparr>)
       (Alg_AsymmetricEncryption RsaPkcs1v15Crypt)) data"

definition import_rsa_public_key :: "('w, 'c) basic_client_api \<Rightarrow> string \<Rightarrow> bytes \<Rightarrow> ('c, unit) test_op" where
  "import_rsa_public_key bc key_name data =
     tc_import_key bc key_name (key_attributes Persistent RsaPublicKey 1024 verify_usage (Alg_AsymmetricSignature (RsaPkcs1v15Sign (Specific Sha256)))) data"

definition import_aes_key :: "('w, 'c) basic_client_api \<Rightarrow> string \<Rightarrow> bytes \<Rightarrow> ('c, unit) test_op" where
  "import_aes_key bc key_name data =
     tc_import_key bc key_name (key_attributes Persistent Aes 0 crypt_usage (Alg_Aead (AeadWithDefaultLengthTag Ccm))) data"

definition import_ecc_pair_secp_r1_key :: "('w, 'c) basic_client_api \<Rightarrow> string \<Rightarrow> bytes \<Rightarrow> ('c, unit) test_op" where
  "import_ecc_pair_secp_r1_key bc key_name data =
     tc_import_key bc key_name (key_attributes Volatile (EccKeyPair SecpR1) 256 (no_usage\<lparr>uf_derive := True\<rparr>) (Alg_KeyAgreement (RawAgreement Ecdh))) data"

definition import_ecc_pair_brainpoolpr1_key :: "('w, 'c) basic_client_api \<Rightarrow> string \<Rightarrow> bytes \<Rightarrow> ('c, unit) test_op" where
  "import_ecc_pair_brainpoolpr1_key bc key_name data =
     tc_import_key bc key_name (key_attributes Volatile (EccKeyPair BrainpoolPR1) 0 (no_usage\<lparr>uf_derive := True\<rparr>) (Alg_KeyAgreement (RawAgreement Ecdh))) data"

definition import_ecc_public_secp_r1_ecdsa_sha256_key :: "('w, 'c) basic_client_api \<Rightarrow> string \<Rightarrow> bytes \<Rightarrow> ('c, unit) test_op" where
  "import_ecc_public_secp_r1_ecdsa_sha256_key bc key_name data =
     tc_import_key bc key_name (key_attributes Persistent (EccPublicKey SecpR1) 256 verify_usage (Alg_AsymmetricSignature (Ecdsa (Specific Sha256)))) data"

definition import_ecc_key_pair_secpr1_ecdsa_sha256 :: "('w, 'c) basic_client_api \<Rightarrow> string \<Rightarrow> bytes \<Rightarrow> ('c, unit) test_op" where
  "import_ecc_key_pair_secpr1_ecdsa_sha256 bc key_name data =
     tc_import_key bc key_name (key_attributes Persistent (EccKeyPair SecpR1) 256 sign_usage (Alg_AsymmetricSignature (Ecdsa (Specific Sha256)))) data"

section \<open>Using keys\<close>

definition tc_generate_bytes :: "('w, 'c) basic_client_api \<Rightarrow> usize \<Rightarrow> ('c, bytes) test_op" where
  "tc_generate_bytes bc nbytes = tc_call (bc_psa_generate_random bc nbytes)"

definition tc_export_key :: "('w, 'c) basic_client_api \<Rightarrow> string \<Rightarrow> ('c, bytes) test_op" where
  "tc_export_key bc key_name = tc_call (bc_psa_export_key bc key_name)"

definition tc_export_public_key :: "('w, 'c) basic_client_api \<Rightarrow> string \<Rightarrow> ('c, bytes) test_op" where
  "tc_export_public_key bc key_name = tc_call (bc_psa_export_public_key bc key_name)"

definition tc_sign :: "('w, 'c) basic_client_api \<Rightarrow> string \<Rightarrow> asymmetric_signature \<Rightarrow> bytes \<Rightarrow> ('c, bytes) test_op" where
  "tc_sign bc key_name alg hash = tc_call (bc_psa_sign_hash bc key_name hash alg)"

definition sign_with_rsa_sha256 :: "('w, 'c) basic_client_api \<Rightarrow> string \<Rightarrow> bytes \<Rightarrow> ('c, bytes) test_op" where
  "sign_with_rsa_sha256 bc key_name hash = tc_sign bc key_name (RsaPkcs1v15Sign (Specific Sha256)) hash"

definition sign_with_ecdsa_sha256 :: "('w, 'c) basic_client_api \<Rightarrow> string \<Rightarrow> bytes \<Rightarrow> ('c, bytes) test_op" where
  "sign_with_ecdsa_sha256 bc key_name hash = tc_sign bc key_name (Ecdsa (Specific Sha256)) hash"

definition tc_verify :: "('w, 'c) basic_client_api \<Rightarrow> string \<Rightarrow> asymmetric_signature \<Rightarrow> bytes \<Rightarrow> bytes \<Rightarrow> ('c, unit) test_op" where
  "tc_verify bc key_name alg hash signature = tc_call (bc_psa_verify_hash bc key_name hash alg signature)"

definition verify_with_rsa_sha256 :: "('w, 'c) basic_client_api \<Rightarrow> string \<Rightarrow> bytes \<Rightarrow> bytes \<Rightarrow> ('c, unit) test_op" where
  "verify_with_rsa_sha256 bc key_name hash signature = tc_verify bc key_name (RsaPkcs1v15Sign (Specific Sha256)) hash signature"

definition verify_with_ecdsa_sha256 :: "('w, 'c) basic_client_api \<Rightarrow> string \<Rightarrow> bytes \<Rightarrow> bytes \<Rightarrow> ('c, unit) test_op" where
  "verify_with_ecdsa_sha256 bc key_name hash signature = tc_verify bc key_name (Ecdsa (Specific Sha256)) hash signature"

definition sign_msg :: "('w, 'c) basic_client_api \<Rightarrow> string \<Rightarrow> asymmetric_signature \<Rightarrow> bytes \<Rightarrow> ('c, bytes) test_op" where
  "sign_msg bc key_name alg msg = tc_call (bc_psa_sign_message bc key_name msg alg)"

definition sign_msg_with_ecdsa_sha256 :: "('w, 'c) basic_client_api \<Rightarrow> string \<Rightarrow> bytes \<Rightarrow> ('c, bytes) test_op" where
  "sign_msg_with_ecdsa_sha256 bc key_name msg = sign_msg bc key_name (Ecdsa (Specific Sha256)) msg"

definition verify_msg :: "('w, 'c) basic_client_api \<Rightarrow> string \<Rightarrow> asymmetric_signature \<Rightarrow> bytes \<Rightarrow> bytes \<Rightarrow> ('c, unit) test_op" where
  "verify_msg bc key_name alg msg signature = tc_call (bc_psa_verify_message bc key_name msg alg signature)"

definition verify_msg_with_ecdsa_sha256 :: "('w, 'c) basic_client_api \<Rightarrow> string \<Rightarrow> bytes \<Rightarrow> bytes \<Rightarrow> ('c, unit) test_op" where
  "verify_msg_with_ecdsa_sha256 bc key_name msg signature = verify_msg bc key_name (Ecdsa (Specific Sha256)) msg signature"

definition asymmetric_encrypt_message :: "('w, 'c) basic_client_api \<Rightarrow> string \<Rightarrow> asymmetric_encryption \<Rightarrow> bytes \<Rightarrow> bytes option \<Rightarrow> ('c, bytes) test_op" where
  "asymmetric_encrypt_message bc key_name encryption_alg plaintext salt = tc_call (bc_psa_asymmetric_encrypt bc key_name encryption_alg plaintext salt)"

definition asymmetric_decrypt_message :: "('w, 'c) basic_client_api \<Rightarrow> string \<Rightarrow> asymmetric_encryption \<Rightarrow> bytes \<Rightarrow> bytes option \<Rightarrow> ('c, bytes) test_op" where
  "asymmetric_decrypt_message bc key_name encryption_alg ciphertext salt = tc_call (bc_psa_asymmetric_decrypt bc key_name encryption_alg ciphertext salt)"

definition asymmetric_encrypt_message_with_rsapkcs1v15 :: "('w, 'c) basic_client_api \<Rightarrow> string \<Rightarrow> bytes \<Rightarrow> ('c, bytes) test_op" where
  "asymmetric_encrypt_message_with_rsapkcs1v15 bc key_name plaintext = asymmetric_encrypt_message bc key_name RsaPkcs1v15Crypt plaintext None"

definition asymmetric_decrypt_message_with_rsapkcs1v15 :: "('w, 'c) basic_client_api \<Rightarrow> string \<Rightarrow> bytes \<Rightarrow> ('c, bytes) test_op" where
  "asymmetric_decrypt_message_with_rsapkcs1v15 bc key_name ciphertext = asymmetric_decrypt_message bc key_name RsaPkcs1v15Crypt ciphertext None"

definition asymmetric_encrypt_message_with_rsaoaep_sha256 :: "('w, 'c) basic_client_api \<Rightarrow> string \<Rightarrow> bytes \<Rightarrow> bytes \<Rightarrow> ('c, bytes) test_op" where
  "asymmetric_encrypt_message_with_rsaoaep_sha256 bc key_name plaintext salt = asymmetric_encrypt_message bc key_name (RsaOaep Sha256) plaintext (Some salt)"

definition asymmetric_decrypt_message_with_rsaoaep_sha256 :: "('w, 'c) basic_client_api \<Rightarrow> string \<Rightarrow> bytes \<Rightarrow> bytes \<Rightarrow> ('c, bytes) test_op" where
  "asymmetric_decrypt_message_with_rsaoaep_sha256 bc key_name ciphertext salt = asymmetric_decrypt_message bc key_name (RsaOaep Sha256) ciphertext (Some salt)"

definition asymmetric_encrypt_message_with_rsaoaep_sha1 :: "('w, 'c) basic_client_api \<Rightarrow> string \<Rightarrow> bytes \<Rightarrow> bytes \<Rightarrow> ('c, bytes) test_op" where
  "asymmetric_encrypt_message_with_rsaoaep_sha1 bc key_name plaintext salt = asymmetric_encrypt_message bc key_name (RsaOaep Sha1) plaintext (Some salt)"

definition asymmetric_decrypt_message_with_rsaoaep_sha1 :: "('w, 'c) basic_client_api \<Rightarrow> string \<Rightarrow> bytes \<Rightarrow> bytes \<Rightarrow> ('c, bytes) test_op" where
  "asymmetric_decrypt_message_with_rsaoaep_sha1 bc key_name ciphertext salt = asymmetric_decrypt_message bc key_name (RsaOaep Sha1) ciphertext (Some salt)"

definition aead_encrypt_message :: "('w, 'c) basic_client_api \<Rightarrow> string \<Rightarrow> aead_alg \<Rightarrow> bytes \<Rightarrow> bytes \<Rightarrow> bytes \<Rightarrow> ('c, bytes) test_op" where
  "aead_encrypt_message bc key_name encryption_alg nonce additional_data plaintext = tc_call (bc_psa_aead_encrypt bc key_name encryption_alg nonce additional_data plaintext)"

definition aead_decrypt_message :: "('w, 'c) basic_client_api \<Rightarrow> string \<Rightarrow> aead_alg \<Rightarrow> bytes \<Rightarrow> bytes \<Rightarrow> bytes \<Rightarrow> ('c, bytes) test_op" where
  "aead_decrypt_message bc key_name encryption_alg nonce additional_data ciphertext = tc_call (bc_psa_aead_decrypt bc key_name encryption_alg nonce additional_data ciphertext)"

definition tc_hash_compute :: "('w, 'c) basic_client_api \<Rightarrow> hash_alg \<Rightarrow> bytes \<Rightarrow> ('c, bytes) test_op" where
  "tc_hash_compute bc alg input = tc_call (bc_psa_hash_compute bc alg input)"

definition tc_hash_compare :: "('w, 'c) basic_client_api \<Rightarrow> hash_alg \<Rightarrow> bytes \<Rightarrow> bytes \<Rightarrow> ('c, unit) test_op" where
  "tc_hash_compare bc alg input hash = tc_call (bc_psa_hash_compare bc alg input hash)"

definition tc_raw_key_agreement :: "('w, 'c) basic_client_api \<Rightarrow> raw_key_agreement \<Rightarrow> string \<Rightarrow> bytes \<Rightarrow> ('c, bytes) test_op" where
  "tc_raw_key_agreement bc alg private_key peer_key = tc_call (bc_psa_raw_key_agreement bc alg private_key peer_key)"

definition tc_list_providers :: "('w, 'c) basic_client_api \<Rightarrow> ('c, provider_info list) test_op" where
  "tc_list_providers bc = tc_call (bc_list_providers bc)"

definition tc_list_authenticators :: "('w, 'c) basic_client_api \<Rightarrow> ('c, authenticator_info list) test_op" where
  "tc_list_authenticators bc = tc_call (bc_list_authenticators bc)"

definition tc_list_keys :: "('w, 'c) basic_client_api \<Rightarrow> ('c, listed_key list) test_op" where
  "tc_list_keys bc = tc_call (bc_list_keys bc)"

definition tc_list_clients :: "('w, 'c) basic_client_api \<Rightarrow> ('c, string list) test_op" where
  "tc_list_clients bc = tc_call (bc_list_clients bc)"

definition tc_delete_client :: "('w, 'c) basic_client_api \<Rightarrow> string \<Rightarrow> ('c, unit) test_op" where
  "tc_delete_client bc client = tc_call (bc_delete_client bc client)"

definition tc_ping :: "('w, 'c) basic_client_api \<Rightarrow> ('c, u8 \<times> u8) test_op" where
  "tc_ping bc = tc_call (bc_ping bc)"

section \<open>Dropping the client\<close>

text \<open>The loop of \<open>drop\<close>, over a copy of the set; a key that cannot be destroyed is only logged.\<close>

fun drop_keys :: "('w, 'c) basic_client_api \<Rightarrow> created_key list \<Rightarrow> 'c test_client \<Rightarrow> 'c test_client option" where
  "drop_keys bc [] self = Some self"
| "drop_keys bc ((key_name, auth, provider) # keys) self =
     (case tc_set_default_auth bc auth (set_provider bc provider self) of
        None \<Rightarrow> None
      | Some self1 \<Rightarrow>
          (case tc_destroy_key bc key_name self1 of
             None \<Rightarrow> None
           | Some (_, self2) \<Rightarrow> drop_keys bc keys self2))"

definition tc_drop :: "('w, 'c) basic_client_api \<Rightarrow> (created_key list \<Rightarrow> created_key list) \<Rightarrow> 'c test_client \<Rightarrow> 'c test_client option" where
  "tc_drop bc order self =
     (case created_keys self of None \<Rightarrow> Some self | Some keys \<Rightarrow> drop_keys bc (order keys) self)"

end
