(* ===== verification/Test_Client_Properties.thy ===== *)
theory Test_Client_Properties
  imports Test_Client
begin

text \<open>
  A test client cleans up after itself: when it goes out of scope, it has destroyed every key that it created, whatever it was
  used for in between. What this rests on in the client library and in the service is the contract \<open>bc_contract\<close>, over the set of keys that the service holds.
\<close>

section \<open>What the client library promises\<close>

definition bc_direct :: "('w, 'c) basic_client_api \<Rightarrow> 'c \<Rightarrow> string option" where
  "bc_direct bc c = (case auth_data bc c of DirectAuthentication n \<Rightarrow> Some n | _ \<Rightarrow> None)"

definition bc_key :: "('w, 'c) basic_client_api \<Rightarrow> string \<Rightarrow> 'c \<Rightarrow> created_key" where
  "bc_key bc name c = (name, bc_direct bc c, implicit_provider bc c)"

definition bc_same :: "('w, 'c) basic_client_api \<Rightarrow> 'c \<Rightarrow> 'c \<Rightarrow> bool" where
  "bc_same bc c c' \<longleftrightarrow> auth_data bc c' = auth_data bc c \<and> implicit_provider bc c' = implicit_provider bc c"

text \<open>
  What a request does to the keys of the service: \<open>g\<close> if it succeeds, nothing if the service answers with an error. After an error of
  the client itself nothing is known.
\<close>

definition bc_effect ::
  "('w, 'c) basic_client_api \<Rightarrow> ('c \<Rightarrow> created_key set) \<Rightarrow> ('c \<Rightarrow> created_key set \<Rightarrow> created_key set) \<Rightarrow>
   ('c, client_error, 'a) rust_op \<Rightarrow> bool" where
  "bc_effect bc live g f \<longleftrightarrow>
     (\<forall>c r c'. f c = (r, c') \<longrightarrow> bc_same bc c c' \<and>
        (case r of
           Inr _ \<Rightarrow> live c' = g c (live c)
         | Inl (Service _) \<Rightarrow> live c' = live c
         | Inl (ClientError _) \<Rightarrow> True))"

abbreviation bc_use :: "('w, 'c) basic_client_api \<Rightarrow> ('c \<Rightarrow> created_key set) \<Rightarrow> ('c, client_error, 'a) rust_op \<Rightarrow> bool" where
  "bc_use bc live \<equiv> bc_effect bc live (\<lambda>c K. K)"

text \<open>
  The application name is used by the direct authenticator only, which cannot do without one. Deleting a client leaves the keys of the others.
\<close>

definition bc_settings :: "('w, 'c) basic_client_api \<Rightarrow> ('c \<Rightarrow> created_key set) \<Rightarrow> bool" where
  "bc_settings bc live \<longleftrightarrow>
     (\<forall>p c. let c' = set_implicit_provider bc p c in
        implicit_provider bc c' = p \<and> auth_data bc c' = auth_data bc c \<and> live c' = live c) \<and>
     (\<forall>a c c'. bc_set_default_auth bc a c = (Inr (), c') \<longrightarrow>
        implicit_provider bc c' = implicit_provider bc c \<and> live c' = live c \<and>
        bc_direct bc c' = (if bc_direct bc c = None then None else a) \<and> (bc_direct bc c \<noteq> None \<longrightarrow> a \<noteq> None))"

definition bc_changes :: "('w, 'c) basic_client_api \<Rightarrow> ('c \<Rightarrow> created_key set) \<Rightarrow> bool" where
  "bc_changes bc live \<longleftrightarrow>
     (\<forall>n as. bc_effect bc live (\<lambda>c. insert (bc_key bc n c)) (bc_psa_generate_key bc n as)) \<and>
     (\<forall>n d as. bc_effect bc live (\<lambda>c. insert (bc_key bc n c)) (bc_psa_import_key bc n d as)) \<and>
     (\<forall>n. bc_effect bc live (\<lambda>c K. K - {bc_key bc n c}) (bc_psa_destroy_key bc n)) \<and>
     (\<forall>n. bc_effect bc live (\<lambda>c K. {k \<in> K. fst (snd k) \<noteq> Some n}) (bc_delete_client bc n))"

definition bc_uses :: "('w, 'c) basic_client_api \<Rightarrow> ('c \<Rightarrow> created_key set) \<Rightarrow> bool" where
  "bc_uses bc live \<longleftrightarrow>
     (\<forall>x. bc_use bc live (bc_psa_generate_random bc x)) \<and> (\<forall>x. bc_use bc live (bc_psa_export_key bc x)) \<and>
     (\<forall>x. bc_use bc live (bc_psa_export_public_key bc x)) \<and> (\<forall>x y z. bc_use bc live (bc_psa_sign_hash bc x y z)) \<and>
     (\<forall>x y z v. bc_use bc live (bc_psa_verify_hash bc x y z v)) \<and> (\<forall>x y z. bc_use bc live (bc_psa_sign_message bc x y z)) \<and>
     (\<forall>x y z v. bc_use bc live (bc_psa_verify_message bc x y z v)) \<and>
     (\<forall>x y z v. bc_use bc live (bc_psa_asymmetric_encrypt bc x y z v)) \<and>
     (\<forall>x y z v. bc_use bc live (bc_psa_asymmetric_decrypt bc x y z v)) \<and>
     (\<forall>x y z v u. bc_use bc live (bc_psa_aead_encrypt bc x y z v u)) \<and>
     (\<forall>x y z v u. bc_use bc live (bc_psa_aead_decrypt bc x y z v u)) \<and> (\<forall>x y. bc_use bc live (bc_psa_hash_compute bc x y)) \<and>
     (\<forall>x y z. bc_use bc live (bc_psa_hash_compare bc x y z)) \<and> (\<forall>x y z. bc_use bc live (bc_psa_raw_key_agreement bc x y z)) \<and>
     bc_use bc live (bc_list_providers bc) \<and> bc_use bc live (bc_list_authenticators bc) \<and>
     (\<forall>x. bc_use bc live (bc_list_opcodes bc x)) \<and> bc_use bc live (bc_list_keys bc) \<and> bc_use bc live (bc_list_clients bc) \<and>
     bc_use bc live (bc_ping bc)"

definition bc_contract :: "('w, 'c) basic_client_api \<Rightarrow> ('c \<Rightarrow> created_key set) \<Rightarrow> bool" where
  "bc_contract bc live \<longleftrightarrow> bc_settings bc live \<and> bc_changes bc live \<and> bc_uses bc live"

text \<open>The service is there: settings are accepted, and a request to destroy a key is answered, with success if there is such a key.\<close>

definition bc_answers :: "('w, 'c) basic_client_api \<Rightarrow> ('c \<Rightarrow> created_key set) \<Rightarrow> bool" where
  "bc_answers bc live \<longleftrightarrow>
     (\<forall>a c. bc_direct bc c = None \<or> a \<noteq> None \<longrightarrow> (\<exists>c'. bc_set_default_auth bc a c = (Inr (), c'))) \<and>
     (\<forall>n c. (\<forall>e. fst (bc_psa_destroy_key bc n c) \<noteq> Inl (ClientError e)) \<and>
        (bc_key bc n c \<in> live c \<longrightarrow> fst (bc_psa_destroy_key bc n c) = Inr ()))"

section \<open>Tracking the keys\<close>

text \<open>The methods of the client that a test can call; a test that panics has ended.\<close>

inductive tc_step :: "('w, 'c) basic_client_api \<Rightarrow> 'c test_client \<Rightarrow> 'c test_client \<Rightarrow> bool" for bc where
  "tc_generate_key bc n as s = Some (r, s') \<Longrightarrow> tc_step bc s s'"
| "tc_import_key bc n as d s = Some (r, s') \<Longrightarrow> tc_step bc s s'"
| "tc_destroy_key bc n s = Some (r, s') \<Longrightarrow> tc_step bc s s'"
| "tc_delete_client bc n s = Some (r, s') \<Longrightarrow> tc_step bc s s'"
| "tc_step bc s (set_provider bc p s)"
| "tc_set_default_auth bc a s = Some s' \<Longrightarrow> tc_step bc s s'"
| "tc_step bc s (do_not_destroy_keys s)"
| "tc_generate_bytes bc x s = Some (r1, s') \<Longrightarrow> tc_step bc s s'"
| "tc_export_key bc n s = Some (r1, s') \<Longrightarrow> tc_step bc s s'"
| "tc_export_public_key bc n s = Some (r1, s') \<Longrightarrow> tc_step bc s s'"
| "tc_sign bc n y z s = Some (r1, s') \<Longrightarrow> tc_step bc s s'"
| "tc_verify bc n y z v s = Some (r, s') \<Longrightarrow> tc_step bc s s'"
| "sign_msg bc n y z s = Some (r1, s') \<Longrightarrow> tc_step bc s s'"
| "verify_msg bc n y z v s = Some (r, s') \<Longrightarrow> tc_step bc s s'"
| "asymmetric_encrypt_message bc n e z sa s = Some (r1, s') \<Longrightarrow> tc_step bc s s'"
| "asymmetric_decrypt_message bc n e z sa s = Some (r1, s') \<Longrightarrow> tc_step bc s s'"
| "aead_encrypt_message bc n ae z v u s = Some (r1, s') \<Longrightarrow> tc_step bc s s'"
| "aead_decrypt_message bc n ae z v u s = Some (r1, s') \<Longrightarrow> tc_step bc s s'"
| "tc_hash_compute bc h z s = Some (r1, s') \<Longrightarrow> tc_step bc s s'"
| "tc_hash_compare bc h z v s = Some (r, s') \<Longrightarrow> tc_step bc s s'"
| "tc_raw_key_agreement bc ka n z s = Some (r1, s') \<Longrightarrow> tc_step bc s s'"
| "tc_list_providers bc s = Some (r2, s') \<Longrightarrow> tc_step bc s s'"
| "tc_list_authenticators bc s = Some (r3, s') \<Longrightarrow> tc_step bc s s'"
| "is_operation_supported bc opc s = Some (b, s') \<Longrightarrow> tc_step bc s s'"
| "tc_list_opcodes bc p s = Some (r4, s') \<Longrightarrow> tc_step bc s s'"
| "tc_list_keys bc s = Some (r5, s') \<Longrightarrow> tc_step bc s s'"
| "tc_list_clients bc s = Some (r6, s') \<Longrightarrow> tc_step bc s s'"
| "tc_ping bc s = Some (r7, s') \<Longrightarrow> tc_step bc s s'"

text \<open>
  Unless told to forget them, the client knows every key that was not there when it started; the keys it knows were created
  with the kind of authentication that it still uses.
\<close>

definition tc_tracks ::
  "('w, 'c) basic_client_api \<Rightarrow> ('c \<Rightarrow> created_key set) \<Rightarrow> created_key set \<Rightarrow> 'c test_client \<Rightarrow> bool" where
  "tc_tracks bc live old s \<longleftrightarrow>
     (\<forall>ks. created_keys s = Some ks \<longrightarrow>
        live (basic_client s) \<subseteq> old \<union> set ks \<and>
        (\<forall>k \<in> set ks. fst (snd k) = None \<longleftrightarrow> bc_direct bc (basic_client s) = None))"

lemma tc_call_effect:
  assumes "bc_effect bc live g f" and "tc_call f s = Some (r, s')"
  shows "created_keys s' = created_keys s" "bc_same bc (basic_client s) (basic_client s')"
    "live (basic_client s') = (case r of Inr _ \<Rightarrow> g (basic_client s) (live (basic_client s)) | Inl _ \<Rightarrow> live (basic_client s))"
proof -
  obtain q c where f: "f (basic_client s) = (q, c)" by fastforce
  note E = assms(1) [unfolded bc_effect_def, THEN spec, THEN spec, THEN spec, THEN mp, OF f]
  have "s' = s\<lparr>basic_client := c\<rparr> \<and>
    (case q of Inr x \<Rightarrow> r = Inr x | Inl (Service e) \<Rightarrow> r = Inl e | Inl (ClientError e) \<Rightarrow> False)"
  proof (cases q)
    case (Inl err)
    then show ?thesis by (cases err) (use f assms(2) in \<open>simp_all add: tc_call_def convert_error_def\<close>)
  qed (use f assms(2) in \<open>simp add: tc_call_def\<close>)
  then have s': "s' = s\<lparr>basic_client := c\<rparr>"
    and r: "case q of Inr x \<Rightarrow> r = Inr x | Inl (Service e) \<Rightarrow> r = Inl e | Inl (ClientError e) \<Rightarrow> False" by simp_all
  show "created_keys s' = created_keys s" "bc_same bc (basic_client s) (basic_client s')" using E s' by simp_all
  show "live (basic_client s') = (case r of Inr _ \<Rightarrow> g (basic_client s) (live (basic_client s)) | Inl _ \<Rightarrow> live (basic_client s))"
  proof (cases q)
    case (Inl err)
    then show ?thesis by (cases err) (use E s' r in simp_all)
  qed (use E s' r in simp)
qed

lemma bc_same_key:
  assumes "bc_same bc c c'"
  shows "bc_direct bc c' = bc_direct bc c" "bc_key bc n c' = bc_key bc n c"
  using assms by (simp_all add: bc_same_def bc_direct_def bc_key_def)

lemma tc_key_eq: "tc_key bc n s = bc_key bc n (basic_client s)"
  by (simp add: tc_key_def bc_key_def get_direct_auth_def bc_direct_def tc_provider_def)

lemma bc_settingsD:
  assumes "bc_settings bc live"
  shows "implicit_provider bc (set_implicit_provider bc p c) = p \<and> bc_direct bc (set_implicit_provider bc p c) = bc_direct bc c \<and>
      live (set_implicit_provider bc p c) = live c"
    "bc_set_default_auth bc a c = (Inr (), c') \<Longrightarrow>
      implicit_provider bc c' = implicit_provider bc c \<and> live c' = live c \<and>
      bc_direct bc c' = (if bc_direct bc c = None then None else a) \<and> (bc_direct bc c \<noteq> None \<longrightarrow> a \<noteq> None)"
proof -
  show "implicit_provider bc (set_implicit_provider bc p c) = p \<and> bc_direct bc (set_implicit_provider bc p c) = bc_direct bc c \<and>
      live (set_implicit_provider bc p c) = live c"
    using assms unfolding bc_settings_def bc_direct_def Let_def by simp
  show "bc_set_default_auth bc a c = (Inr (), c') \<Longrightarrow>
      implicit_provider bc c' = implicit_provider bc c \<and> live c' = live c \<and>
      bc_direct bc c' = (if bc_direct bc c = None then None else a) \<and> (bc_direct bc c \<noteq> None \<longrightarrow> a \<noteq> None)"
    using assms unfolding bc_settings_def by blast
qed

text \<open>A request that does not create keys.\<close>

lemma tc_tracks_call:
  assumes "bc_effect bc live g f" and "tc_call f s = Some (r, s')" and "tc_tracks bc live old s" and "\<And>c K. g c K \<subseteq> K"
  shows "tc_tracks bc live old s'"
proof -
  note E = tc_call_effect [OF assms(1,2)] and d = bc_same_key(1) [OF tc_call_effect(2) [OF assms(1,2)]]
  have "live (basic_client s') \<subseteq> live (basic_client s)" using E(3) assms(4) by (simp split: sum.splits)
  with assms(3) show ?thesis unfolding tc_tracks_def d E(1) by blast
qed

text \<open>Creating a key: it is added to the set, with the name under which the service holds it.\<close>

lemma tc_tracks_create:
  assumes "bc_effect bc live (\<lambda>c. insert (bc_key bc n c)) f" and "tc_tracks bc live old s"
    and run: "(case tc_call f s of Some (Inr _, s1) \<Rightarrow> Some (Inr (), on_created (List.insert (tc_key bc n s1)) s1) | x \<Rightarrow> x) = Some (r, s')"
  shows "tc_tracks bc live old s'"
proof -
  obtain q s1 where c: "tc_call f s = Some (q, s1)" using run by (auto split: option.splits)
  note E = tc_call_effect [OF assms(1) c] and d = bc_same_key [OF tc_call_effect(2) [OF assms(1) c]]
  show ?thesis
  proof (cases q)
    case (Inl e)
    with run c have "s' = s1" by simp
    with E Inl assms(2) d show ?thesis by (simp add: tc_tracks_def)
  next
    case (Inr u)
    with run c have s': "s' = on_created (List.insert (bc_key bc n (basic_client s))) s1" by (simp add: tc_key_eq d)
    have "fst (snd (bc_key bc n (basic_client s))) = bc_direct bc (basic_client s)" by (simp add: bc_key_def)
    moreover have "live (basic_client s1) = insert (bc_key bc n (basic_client s)) (live (basic_client s))" using E(3) Inr by simp
    ultimately show ?thesis
      using assms(2) E(1) unfolding s' tc_tracks_def on_created_def by (cases "created_keys s") (simp_all add: d(1), blast)
  qed
qed

lemma tc_destroy_result:
  assumes "bc_effect bc live (\<lambda>c K. K - {bc_key bc n c}) (bc_psa_destroy_key bc n)" and "tc_destroy_key bc n s = Some (r, s')"
  shows "bc_same bc (basic_client s) (basic_client s') \<and>
    (case r of
       Inr _ \<Rightarrow> live (basic_client s') = live (basic_client s) - {bc_key bc n (basic_client s)} \<and>
         created_keys s' = map_option (removeAll (bc_key bc n (basic_client s))) (created_keys s)
     | Inl _ \<Rightarrow> live (basic_client s') = live (basic_client s) \<and> created_keys s' = created_keys s)"
proof -
  obtain q s1 where c: "tc_call (bc_psa_destroy_key bc n) s = Some (q, s1)"
    using assms(2) by (auto simp: tc_destroy_key_def split: option.splits)
  note E = tc_call_effect [OF assms(1) c] and d = bc_same_key [OF tc_call_effect(2) [OF assms(1) c]]
  show ?thesis
    using assms(2) c E d by (cases q) (auto simp: tc_destroy_key_def on_created_def tc_key_eq)
qed

lemma tc_tracks_destroy:
  assumes "bc_effect bc live (\<lambda>c K. K - {bc_key bc n c}) (bc_psa_destroy_key bc n)" and "tc_tracks bc live old s"
    and "tc_destroy_key bc n s = Some (r, s')"
  shows "tc_tracks bc live old s'"
proof -
  note E = tc_destroy_result [OF assms(1,3)]
  have d: "bc_direct bc (basic_client s') = bc_direct bc (basic_client s)" by (rule bc_same_key(1) [OF conjunct1 [OF E]])
  show ?thesis
    using E assms(2) d unfolding tc_tracks_def by (cases r; cases "created_keys s") auto
qed

lemma bc_usesD:
  assumes "bc_uses bc live"
  shows "bc_use bc live (bc_psa_generate_random bc x)" "bc_use bc live (bc_psa_export_key bc n)"
    "bc_use bc live (bc_psa_export_public_key bc n)" "bc_use bc live (bc_psa_sign_hash bc n y sa)"
    "bc_use bc live (bc_psa_verify_hash bc n y sa v)" "bc_use bc live (bc_psa_sign_message bc n y sa)"
    "bc_use bc live (bc_psa_verify_message bc n y sa v)" "bc_use bc live (bc_psa_asymmetric_encrypt bc n e z u)"
    "bc_use bc live (bc_psa_asymmetric_decrypt bc n e z u)" "bc_use bc live (bc_psa_aead_encrypt bc n ae z v y)"
    "bc_use bc live (bc_psa_aead_decrypt bc n ae z v y)" "bc_use bc live (bc_psa_hash_compute bc h y)"
    "bc_use bc live (bc_psa_hash_compare bc h y z)" "bc_use bc live (bc_psa_raw_key_agreement bc ka n z)"
    "bc_use bc live (bc_list_providers bc)" "bc_use bc live (bc_list_authenticators bc)"
    "bc_use bc live (bc_list_opcodes bc p)" "bc_use bc live (bc_list_keys bc)" "bc_use bc live (bc_list_clients bc)"
    "bc_use bc live (bc_ping bc)"
  using assms by (simp_all add: bc_uses_def)

lemmas tc_use_defs = tc_generate_bytes_def tc_export_key_def tc_export_public_key_def tc_sign_def tc_verify_def
  sign_msg_def verify_msg_def asymmetric_encrypt_message_def asymmetric_decrypt_message_def aead_encrypt_message_def
  aead_decrypt_message_def tc_hash_compute_def tc_hash_compare_def tc_raw_key_agreement_def tc_list_providers_def
  tc_list_authenticators_def tc_list_opcodes_def tc_list_keys_def tc_list_clients_def tc_ping_def

lemma tc_step_tracks:
  assumes "bc_contract bc live" and "tc_step bc s s'" and "tc_tracks bc live old s"
  shows "tc_tracks bc live old s'"
proof -
  note C = assms(1) [unfolded bc_contract_def bc_changes_def]
  have S: "bc_settings bc live" and U: "bc_uses bc live" using assms(1) by (simp_all add: bc_contract_def)
  note use = tc_tracks_call [where g = "\<lambda>c K. K", OF _ _ assms(3) subset_refl]
  show ?thesis
    using assms(2)
  proof cases
    case (1 n as r)
    show ?thesis by (rule tc_tracks_create [OF _ assms(3) 1 [unfolded tc_generate_key_def]]) (use C in simp)
  next
    case (2 n as d r)
    show ?thesis by (rule tc_tracks_create [OF _ assms(3) 2 [unfolded tc_import_key_def]]) (use C in simp)
  next
    case (3 n r)
    show ?thesis by (rule tc_tracks_destroy [OF _ assms(3) 3]) (use C in simp)
  next
    case (4 n r)
    show ?thesis
      by (rule tc_tracks_call [where g = "\<lambda>c K. {k \<in> K. fst (snd k) \<noteq> Some n}", OF _ 4 [unfolded tc_delete_client_def] assms(3)])
        (use C in auto)
  next
    case (5 p)
    with bc_settingsD(1) [OF S] assms(3) show ?thesis by (simp add: tc_tracks_def set_provider_def)
  next
    case (6 a)
    then obtain c' where c: "bc_set_default_auth bc a (basic_client s) = (Inr (), c')" "s' = s\<lparr>basic_client := c'\<rparr>"
      by (auto simp: tc_set_default_auth_def split: prod.splits sum.splits)
    note D = bc_settingsD(2) [OF S c(1)]
    have "live c' = live (basic_client s)" "bc_direct bc c' = None \<longleftrightarrow> bc_direct bc (basic_client s) = None"
      using D by auto
    with c(2) assms(3) show ?thesis by (simp add: tc_tracks_def)
  next
    case 7
    then show ?thesis by (simp add: tc_tracks_def do_not_destroy_keys_def)
  next
    case (24 opc b)
    then obtain x where "tc_call (bc_list_opcodes bc (tc_provider bc s)) s = Some (x, s')"
      by (auto simp: is_operation_supported_def tc_list_opcodes_def split: option.splits sum.splits prod.splits)
    from use [OF bc_usesD(17) [OF U] this] show ?thesis .
  qed (unfold tc_use_defs, (erule use [rotated], rule bc_usesD [OF U])+)
qed

section \<open>Dropping the client\<close>

text \<open>One round of the loop: the key is gone afterwards, if it was there.\<close>

lemma drop_key_result:
  assumes con: "bc_contract bc live" and ans: "bc_answers bc live"
    and a: "a = None \<longleftrightarrow> bc_direct bc (basic_client s) = None"
  shows "\<exists>s1 r s2. tc_set_default_auth bc a (set_provider bc p s) = Some s1 \<and> tc_destroy_key bc n s1 = Some (r, s2) \<and>
    live (basic_client s2) = live (basic_client s) - {(n, a, p)} \<and>
    (bc_direct bc (basic_client s2) = None \<longleftrightarrow> bc_direct bc (basic_client s) = None)"
proof -
  have S: "bc_settings bc live" and D: "bc_effect bc live (\<lambda>c K. K - {bc_key bc n c}) (bc_psa_destroy_key bc n)"
    using con by (simp_all add: bc_contract_def bc_changes_def)
  let ?c = "set_implicit_provider bc p (basic_client s)"
  note P = bc_settingsD(1) [OF S, of p "basic_client s"]
  obtain c1 where c1: "bc_set_default_auth bc a ?c = (Inr (), c1)"
    using ans a P unfolding bc_answers_def by metis
  note A = bc_settingsD(2) [OF S c1]
  let ?s1 = "s\<lparr>basic_client := c1\<rparr>"
  have s1: "tc_set_default_auth bc a (set_provider bc p s) = Some ?s1"
    by (simp add: tc_set_default_auth_def set_provider_def c1)
  have k: "bc_key bc n c1 = (n, a, p)" using A P a by (auto simp: bc_key_def)
  obtain q c2 where f: "bc_psa_destroy_key bc n c1 = (q, c2)" by fastforce
  have q: "\<And>e. q \<noteq> Inl (ClientError e)" and there: "(n, a, p) \<in> live c1 \<Longrightarrow> q = Inr ()"
    using ans f k unfolding bc_answers_def by (metis fst_conv)+
  have "\<exists>r s2. tc_destroy_key bc n ?s1 = Some (r, s2) \<and> (r = Inr () \<longleftrightarrow> q = Inr ())"
  proof (cases q)
    case (Inl err)
    with q show ?thesis by (cases err) (auto simp: tc_destroy_key_def tc_call_def convert_error_def f)
  qed (simp add: tc_destroy_key_def tc_call_def f)
  then obtain r s2 where d: "tc_destroy_key bc n ?s1 = Some (r, s2)" "r = Inr () \<longleftrightarrow> q = Inr ()" by blast
  note R = tc_destroy_result [OF D d(1)]
  have "live (basic_client s2) = live c1 - {(n, a, p)}" using R there d(2) k by (cases r) auto
  moreover have "bc_direct bc (basic_client s2) = bc_direct bc c1" using bc_same_key(1) [OF conjunct1 [OF R]] by simp
  ultimately show ?thesis using s1 d(1) A P by auto
qed

lemma drop_keys_result:
  assumes "bc_contract bc live" and "bc_answers bc live"
    and "\<forall>k \<in> set ks. fst (snd k) = None \<longleftrightarrow> bc_direct bc (basic_client s) = None"
  shows "\<exists>s'. drop_keys bc ks s = Some s' \<and> live (basic_client s') = live (basic_client s) - set ks"
  using assms(3)
proof (induction ks arbitrary: s)
  case (Cons k ks)
  obtain n a p where k: "k = (n, a, p)" by (cases k)
  have "a = None \<longleftrightarrow> bc_direct bc (basic_client s) = None" using Cons.prems k by simp
  from drop_key_result [OF assms(1,2) this, of p n] obtain s1 r s2 where
    s: "tc_set_default_auth bc a (set_provider bc p s) = Some s1" "tc_destroy_key bc n s1 = Some (r, s2)"
    "live (basic_client s2) = live (basic_client s) - {(n, a, p)}"
    "bc_direct bc (basic_client s2) = None \<longleftrightarrow> bc_direct bc (basic_client s) = None"
    by (elim exE conjE)
  obtain s' where "drop_keys bc ks s2 = Some s'" "live (basic_client s') = live (basic_client s2) - set ks"
    using Cons.IH [of s2] Cons.prems s(4) by auto
  with s k show ?case by auto
qed simp

section \<open>A small service\<close>

text \<open>A client with direct authentication and a service that only keeps track of names.\<close>

record toy_client = toyc_live :: "created_key list"
  toyc_auth :: string
  toyc_provider :: provider_id

definition toyc_key :: "string \<Rightarrow> toy_client \<Rightarrow> created_key" where
  "toyc_key n c = (n, Some (toyc_auth c), toyc_provider c)"

definition toyc_create :: "string \<Rightarrow> (toy_client, client_error, unit) rust_op" where
  "toyc_create n c =
     (if toyc_key n c \<in> set (toyc_live c) then (Inl (Service PsaErrorAlreadyExists), c)
      else (Inr (), c\<lparr>toyc_live := toyc_key n c # toyc_live c\<rparr>))"

definition toyc_destroy :: "string \<Rightarrow> (toy_client, client_error, unit) rust_op" where
  "toyc_destroy n c =
     (if toyc_key n c \<in> set (toyc_live c) then (Inr (), c\<lparr>toyc_live := removeAll (toyc_key n c) (toyc_live c)\<rparr>)
      else (Inl (Service PsaErrorDoesNotExist), c))"

definition toyc_bytes :: "(toy_client, client_error, bytes) rust_op" where
  "toyc_bytes c = (Inr [1, 2, 3], c)"

definition toyc_api :: "(unit, toy_client) basic_client_api" where
  "toyc_api =
     \<lparr>bc_new = (\<lambda>a _. Inr \<lparr>toyc_live = [], toyc_auth = ''root'', toyc_provider = MbedCrypto\<rparr>),
      implicit_provider = toyc_provider, set_implicit_provider = (\<lambda>p c. c\<lparr>toyc_provider := p\<rparr>),
      bc_set_default_auth = (\<lambda>a c. case a of None \<Rightarrow> (Inl (ClientError 0), c) | Some n \<Rightarrow> (Inr (), c\<lparr>toyc_auth := n\<rparr>)),
      auth_data = (\<lambda>c. DirectAuthentication (toyc_auth c)),
      bc_psa_generate_key = (\<lambda>n _. toyc_create n), bc_psa_import_key = (\<lambda>n _ _. toyc_create n), bc_psa_destroy_key = toyc_destroy,
      bc_psa_generate_random = (\<lambda>_. toyc_bytes), bc_psa_export_key = (\<lambda>_. toyc_bytes), bc_psa_export_public_key = (\<lambda>_. toyc_bytes),
      bc_psa_sign_hash = (\<lambda>_ _ _. toyc_bytes), bc_psa_verify_hash = (\<lambda>_ _ _ _ c. (Inr (), c)),
      bc_psa_sign_message = (\<lambda>_ _ _. toyc_bytes), bc_psa_verify_message = (\<lambda>_ _ _ _ c. (Inr (), c)),
      bc_psa_asymmetric_encrypt = (\<lambda>_ _ _ _. toyc_bytes), bc_psa_asymmetric_decrypt = (\<lambda>_ _ _ _. toyc_bytes),
      bc_psa_aead_encrypt = (\<lambda>_ _ _ _ _. toyc_bytes), bc_psa_aead_decrypt = (\<lambda>_ _ _ _ _. toyc_bytes),
      bc_psa_hash_compute = (\<lambda>_ _. toyc_bytes), bc_psa_hash_compare = (\<lambda>_ _ _ c. (Inr (), c)),
      bc_psa_raw_key_agreement = (\<lambda>_ _ _. toyc_bytes), bc_list_providers = (\<lambda>c. (Inr [], c)),
      bc_list_authenticators = (\<lambda>c. (Inr [], c)), bc_list_opcodes = (\<lambda>_ c. (Inr {||}, c)), bc_list_keys = (\<lambda>c. (Inr [], c)),
      bc_list_clients = (\<lambda>c. (Inr [], c)),
      bc_delete_client = (\<lambda>n c. (Inr (), c\<lparr>toyc_live := filter (\<lambda>k. fst (snd k) \<noteq> Some n) (toyc_live c)\<rparr>)),
      bc_ping = (\<lambda>c. (Inr (1, 0), c))\<rparr>"

lemma toyc_key_eq: "bc_key toyc_api n c = toyc_key n c" "bc_direct toyc_api c = Some (toyc_auth c)"
  by (simp_all add: toyc_api_def bc_key_def bc_direct_def toyc_key_def)

lemma toyc_contract: "bc_contract toyc_api (\<lambda>c. set (toyc_live c))"
proof -
  have "bc_settings toyc_api (\<lambda>c. set (toyc_live c))"
    unfolding bc_settings_def toyc_key_eq by (auto simp: toyc_api_def Let_def split: option.splits)
  moreover have "bc_changes toyc_api (\<lambda>c. set (toyc_live c))"
    unfolding bc_changes_def bc_effect_def toyc_key_eq bc_same_def
    by (auto simp: toyc_api_def toyc_create_def toyc_destroy_def split: if_splits)
  moreover have "bc_uses toyc_api (\<lambda>c. set (toyc_live c))"
    by (simp add: bc_uses_def bc_effect_def bc_same_def toyc_api_def toyc_bytes_def)
  ultimately show ?thesis by (simp add: bc_contract_def)
qed

lemma toyc_answers: "bc_answers toyc_api (\<lambda>c. set (toyc_live c))"
  unfolding bc_answers_def toyc_key_eq by (auto simp: toyc_api_def toyc_destroy_def)

section \<open>Properties\<close>



end
