(* ===== verification/Stress_Test.thy ===== *)
theory Stress_Test
  imports Test_Client_Properties
begin

text \<open>
  \<open>src/e2e_tests/src/stress.rs\<close>: the workers of the stress test, which send random requests, and the checker that runs beside them.
  The random numbers come from a generator of the \<open>rand\<close> crate, which is a parameter, as is the client library. A worker can panic, and the loop that
  draws an operation need not end. Threads, the channel between them and the time slept are not modelled: the answers of the channel are an argument of the checker.
\<close>

section \<open>Random choices\<close>

record 'g rand_api =
  gen_range :: "nat \<Rightarrow> nat \<Rightarrow> 'g \<Rightarrow> nat \<times> 'g"
  sample_alphanumeric :: "'g \<Rightarrow> char \<times> 'g"

datatype 'a outcome = Done 'a | Panicked | Forever

fun outcome_bind :: "'a outcome \<Rightarrow> ('a \<Rightarrow> 'b outcome) \<Rightarrow> 'b outcome" where
  "outcome_bind (Done x) k = k x"
| "outcome_bind Panicked k = Panicked"
| "outcome_bind Forever k = Forever"

record stress_test_config =
  no_threads :: nat
  req_per_thread :: nat
  req_interval :: "nat option"
  req_interval_deviation_millis :: "nat option"
  check_interval :: "nat option"

primrec generate_string :: "'g rand_api \<Rightarrow> nat \<Rightarrow> 'g \<Rightarrow> string \<times> 'g" where
  "generate_string rng 0 g = ('''', g)"
| "generate_string rng (Suc n) g =
     (case sample_alphanumeric rng g of (c, g1) \<Rightarrow> (case generate_string rng n g1 of (s, g2) \<Rightarrow> (c # s, g2)))"

datatype stress_operation =
    CreateDestroyKey | SignRsa | VerifyRsa | SignEcc | VerifyEcc | DestroyKey | ImportDestroyKey | ExportPublicKey
  | AsymEncrypt | AsymDecrypt

text \<open>\<open>Distribution<Operation> for Standard\<close>.\<close>

definition sample_operation :: "'g rand_api \<Rightarrow> 'g \<Rightarrow> stress_operation \<times> 'g" where
  "sample_operation rng g =
     (case gen_range rng 0 10 g of (n, g') \<Rightarrow>
        (if n = 0 then CreateDestroyKey else if n = 1 then SignRsa else if n = 2 then VerifyRsa else if n = 3 then DestroyKey
         else if n = 4 then ImportDestroyKey else if n = 5 then ExportPublicKey else if n = 6 then AsymEncrypt
         else if n = 7 then AsymDecrypt else if n = 8 then SignEcc else VerifyEcc, g'))"

section \<open>The worker\<close>

record 'c stress_test_worker =
  stw_config :: stress_test_config
  sign_key_name :: string
  ecc_key_name :: "string option"
  encrypt_key_name :: "string option"
  stw_client :: "'c test_client"

text \<open>\<open>expect\<close> and \<open>expect_err\<close>.\<close>

definition expect :: "('c, 'a) test_op \<Rightarrow> 'c test_client \<Rightarrow> ('a \<times> 'c test_client) outcome" where
  "expect f s = (case f s of Some (Inr x, s') \<Rightarrow> Done (x, s') | _ \<Rightarrow> Panicked)"

definition expect_err :: "('c, 'a) test_op \<Rightarrow> 'c test_client \<Rightarrow> (response_status \<times> 'c test_client) outcome" where
  "expect_err f s = (case f s of Some (Inl e, s') \<Rightarrow> Done (e, s') | _ \<Rightarrow> Panicked)"

text \<open>Success, or one error that is allowed; the result tells whether it was a success.\<close>

definition expect_unless :: "response_status \<Rightarrow> ('c, 'a) test_op \<Rightarrow> 'c test_client \<Rightarrow> (bool \<times> 'c test_client) outcome" where
  "expect_unless allowed f s =
     (case f s of
        Some (Inr _, s') \<Rightarrow> Done (True, s')
      | Some (Inl e, s') \<Rightarrow> if e = allowed then Done (False, s') else Panicked
      | None \<Rightarrow> Panicked)"

definition worker_new ::
  "('w, 'c) basic_client_api \<Rightarrow> 'g rand_api \<Rightarrow> stress_test_config \<Rightarrow> 'w \<Rightarrow> 'g \<Rightarrow> ('c stress_test_worker \<times> 'g) outcome" where
  "worker_new bc rng config w g =
     (case tc_new bc w of
        None \<Rightarrow> Panicked
      | Some s0 \<Rightarrow>
          (case generate_string rng 10 g of (auth, g1) \<Rightarrow>
          (case tc_set_default_auth bc (Some auth) s0 of
             None \<Rightarrow> Panicked
           | Some s1 \<Rightarrow>
               outcome_bind (expect (tc_list_opcodes bc (tc_provider bc s1)) s1) (\<lambda>(opcodes, s2).
               (case generate_string rng 10 g1 of (sign_key, g2) \<Rightarrow>
               outcome_bind (expect (generate_rsa_sign_key bc sign_key) s2) (\<lambda>(_, s3).
               (case generate_string rng 10 g2 of (ecc_key, g3) \<Rightarrow>
               outcome_bind (expect_unless PsaErrorNotSupported (generate_ecc_key_pair_secpr1_ecdsa_sha256 bc ecc_key) s3) (\<lambda>(ecc_ok, s4).
               (case generate_string rng 10 g3 of (encrypt_key, g4) \<Rightarrow>
               outcome_bind (expect_unless PsaErrorNotSupported (generate_rsa_encryption_keys_rsapkcs1v15crypt bc encrypt_key) s4) (\<lambda>(crypt_ok, s5).
               Done
                 (\<lparr>stw_config = config, sign_key_name = sign_key,
                   ecc_key_name = (if ecc_ok then Some ecc_key else None),
                   encrypt_key_name =
                     (if crypt_ok \<and> PsaAsymmetricEncrypt |\<in>| opcodes \<and> PsaAsymmetricDecrypt |\<in>| opcodes then Some encrypt_key else None),
                   stw_client = s5\<rparr>, g4)))))))))))"

text \<open>The loop that draws an operation until there is a key for it: \<open>None\<close> if it never ends.\<close>

definition has_key_for :: "'c stress_test_worker \<Rightarrow> stress_operation \<Rightarrow> bool" where
  "has_key_for self op \<longleftrightarrow>
     \<not> (ecc_key_name self = None \<and> (op = SignEcc \<or> op = VerifyEcc) \<or>
        encrypt_key_name self = None \<and> (op = AsymEncrypt \<or> op = AsymDecrypt))"

partial_function (option) draw_operation ::
  "('g \<Rightarrow> stress_operation \<times> 'g) \<Rightarrow> (stress_operation \<Rightarrow> bool) \<Rightarrow> stress_operation \<Rightarrow> 'g \<Rightarrow> (stress_operation \<times> 'g) option" where
  "draw_operation sample ok op g =
     (if ok op then Some (op, g) else (case sample g of (op', g') \<Rightarrow> draw_operation sample ok op' g'))"

definition stress_hash :: bytes where
  "stress_hash =
     [0x69, 0x3E, 0xDB, 0x1B, 0x22, 0x79, 0x03, 0xF4, 0xC0, 0xBF, 0xD6, 0x91, 0x76, 0x37, 0x84, 0xA2,
      0x94, 0x8E, 0x92, 0x50, 0x35, 0xC2, 0x8C, 0x5C, 0x3C, 0xCA, 0xFE, 0x18, 0xE8, 0x81, 0x37, 0x78]"

definition stress_key_data :: bytes where
  "stress_key_data =
     [48, 129, 137, 2, 129, 129, 0, 153, 165, 220, 135, 89, 101, 254, 229, 28, 33, 138, 247, 20, 102,
      253, 217, 247, 246, 142, 107, 51, 40, 179, 149, 45, 117, 254, 236, 161, 109, 16, 81, 135, 72,
      112, 132, 150, 175, 128, 173, 182, 122, 227, 214, 196, 130, 54, 239, 93, 5, 203, 185, 233, 61,
      159, 156, 7, 161, 87, 48, 234, 105, 161, 108, 215, 211, 150, 168, 156, 212, 6, 63, 81, 24, 101,
      72, 160, 97, 243, 142, 86, 10, 160, 122, 8, 228, 178, 252, 35, 209, 222, 228, 16, 143, 99, 143,
      146, 241, 186, 187, 22, 209, 86, 141, 24, 159, 12, 146, 44, 111, 254, 183, 54, 229, 109, 28,
      39, 22, 141, 173, 85, 26, 58, 9, 128, 27, 57, 131, 2, 3, 1, 0, 1]"

text \<open>\<open>unwrap\<close> of the name of a key.\<close>

definition unwrap_name :: "string option \<Rightarrow> (string \<Rightarrow> 'a outcome) \<Rightarrow> 'a outcome" where
  "unwrap_name name k = (case name of None \<Rightarrow> Panicked | Some n \<Rightarrow> k n)"

text \<open>One request on the client; a fresh name is drawn for the operations that need one.\<close>

definition perform_operation ::
  "('w, 'c) basic_client_api \<Rightarrow> 'g rand_api \<Rightarrow> 'c stress_test_worker \<Rightarrow> stress_operation \<Rightarrow> 'c test_client \<Rightarrow> 'g \<Rightarrow>
   ('c test_client \<times> 'g) outcome" where
  "perform_operation bc rng self op s g =
     (case op of
        CreateDestroyKey \<Rightarrow>
          (case generate_string rng 10 g of (key_name, g') \<Rightarrow>
           outcome_bind (expect (generate_rsa_sign_key bc key_name) s) (\<lambda>(_, s1).
           outcome_bind (expect (tc_destroy_key bc key_name) s1) (\<lambda>(_, s2). Done (s2, g'))))
      | SignRsa \<Rightarrow>
          outcome_bind (expect (sign_with_rsa_sha256 bc (sign_key_name self) stress_hash) s) (\<lambda>(_, s1). Done (s1, g))
      | VerifyRsa \<Rightarrow>
          outcome_bind (expect_err (verify_with_rsa_sha256 bc (sign_key_name self) stress_hash (replicate 128 0xff)) s) (\<lambda>(status, s1).
          if status = PsaErrorInvalidSignature \<or> status = PsaErrorCorruptionDetected then Done (s1, g) else Panicked)
      | SignEcc \<Rightarrow>
          unwrap_name (ecc_key_name self) (\<lambda>ecc_key.
          outcome_bind (expect_unless PsaErrorNotSupported (sign_with_ecdsa_sha256 bc ecc_key stress_hash) s) (\<lambda>(_, s1). Done (s1, g)))
      | VerifyEcc \<Rightarrow>
          unwrap_name (ecc_key_name self) (\<lambda>ecc_key.
          outcome_bind (expect_err (verify_with_ecdsa_sha256 bc ecc_key stress_hash (replicate 64 0xff)) s) (\<lambda>(status, s1).
          if status = PsaErrorInvalidSignature \<or> status = PsaErrorCorruptionDetected \<or> status = PsaErrorNotSupported
          then Done (s1, g) else Panicked))
      | DestroyKey \<Rightarrow>
          (case generate_string rng 10 g of (key_name, g') \<Rightarrow>
           outcome_bind (expect_err (tc_destroy_key bc key_name) s) (\<lambda>(_, s1). Done (s1, g')))
      | ImportDestroyKey \<Rightarrow>
          (case generate_string rng 10 g of (key_name, g') \<Rightarrow>
           outcome_bind (expect (import_rsa_public_key bc key_name stress_key_data) s) (\<lambda>(_, s1).
           outcome_bind (expect (tc_destroy_key bc key_name) s1) (\<lambda>(_, s2). Done (s2, g'))))
      | ExportPublicKey \<Rightarrow>
          outcome_bind (expect (tc_export_public_key bc (sign_key_name self)) s) (\<lambda>(_, s1). Done (s1, g))
      | AsymEncrypt \<Rightarrow>
          unwrap_name (encrypt_key_name self) (\<lambda>encrypt_key.
          outcome_bind (expect (asymmetric_encrypt_message_with_rsapkcs1v15 bc encrypt_key (replicate 16 0xa5)) s) (\<lambda>(_, s1). Done (s1, g)))
      | AsymDecrypt \<Rightarrow>
          unwrap_name (encrypt_key_name self) (\<lambda>encrypt_key.
          outcome_bind (expect_err (asymmetric_decrypt_message_with_rsapkcs1v15 bc encrypt_key (replicate 128 0xa5)) s) (\<lambda>(_, s1). Done (s1, g))))"

definition stress_request ::
  "('w, 'c) basic_client_api \<Rightarrow> 'g rand_api \<Rightarrow> 'c stress_test_worker \<Rightarrow> 'g \<Rightarrow> ('c stress_test_worker \<times> 'g) outcome" where
  "stress_request bc rng self g =
     (case sample_operation rng g of (op, g1) \<Rightarrow>
        (case draw_operation (sample_operation rng) (has_key_for self) op g1 of
           None \<Rightarrow> Forever
         | Some (op', g2) \<Rightarrow>
             outcome_bind (perform_operation bc rng self op' (stw_client self) g2) (\<lambda>(s, g3).
             Done (self\<lparr>stw_client := s\<rparr>, g3))))"

text \<open>
  The time to sleep, in milliseconds: an empty range cannot be drawn from, and a duration cannot become negative.
\<close>

definition sleep_interval :: "'g rand_api \<Rightarrow> stress_test_config \<Rightarrow> 'g \<Rightarrow> (nat \<times> 'g) outcome" where
  "sleep_interval rng config g =
     (case req_interval config of
        None \<Rightarrow> Done (0, g)
      | Some interval \<Rightarrow>
          (case req_interval_deviation_millis config of
             None \<Rightarrow> Done (interval, g)
           | Some deviation \<Rightarrow>
               if deviation = 0 then Panicked
               else (case gen_range rng 0 (2 * deviation) g of (dev, g') \<Rightarrow>
                 if interval + dev < deviation then Panicked else Done (interval + dev - deviation, g'))))"

primrec run_requests ::
  "('w, 'c) basic_client_api \<Rightarrow> 'g rand_api \<Rightarrow> nat \<Rightarrow> 'c stress_test_worker \<Rightarrow> 'g \<Rightarrow> ('c stress_test_worker \<times> 'g) outcome" where
  "run_requests bc rng 0 self g = Done (self, g)"
| "run_requests bc rng (Suc n) self g =
     outcome_bind (stress_request bc rng self g) (\<lambda>(self1, g1).
     outcome_bind (sleep_interval rng (stw_config self1) g1) (\<lambda>(_, g2).
     run_requests bc rng n self1 g2))"

text \<open>The client of the worker is dropped at the end.\<close>

definition run_test ::
  "('w, 'c) basic_client_api \<Rightarrow> 'g rand_api \<Rightarrow> (created_key list \<Rightarrow> created_key list) \<Rightarrow> 'c stress_test_worker \<Rightarrow> 'g \<Rightarrow>
   ('c test_client \<times> 'g) outcome" where
  "run_test bc rng order self g =
     outcome_bind (run_requests bc rng (req_per_thread (stw_config self)) self g) (\<lambda>(self', g').
     case tc_drop bc order (stw_client self') of None \<Rightarrow> Panicked | Some s \<Rightarrow> Done (s, g'))"

section \<open>The checker\<close>

definition check_sign :: "('w, 'c) basic_client_api \<Rightarrow> 'c test_client \<Rightarrow> 'c test_client outcome" where
  "check_sign bc s =
     outcome_bind (expect (generate_rsa_sign_key bc ''sign_checking_key'') s) (\<lambda>(_, s1).
     outcome_bind (expect (sign_with_rsa_sha256 bc ''sign_checking_key'' stress_hash) s1) (\<lambda>(signature, s2).
     outcome_bind (expect (verify_with_rsa_sha256 bc ''sign_checking_key'' stress_hash signature) s2) (\<lambda>(_, s3).
     outcome_bind (expect (tc_destroy_key bc ''sign_checking_key'') s3) (\<lambda>(_, s4). Done s4))))"

definition check_encrypt :: "('w, 'c) basic_client_api \<Rightarrow> 'c test_client \<Rightarrow> 'c test_client outcome" where
  "check_encrypt bc s =
     outcome_bind (expect (generate_rsa_encryption_keys_rsapkcs1v15crypt bc ''encrypt_checking_key'') s) (\<lambda>(_, s1).
     outcome_bind (expect (asymmetric_encrypt_message_with_rsapkcs1v15 bc ''encrypt_checking_key'' (replicate 16 0xa5)) s1) (\<lambda>(ciphertext, s2).
     outcome_bind (expect (asymmetric_decrypt_message_with_rsapkcs1v15 bc ''encrypt_checking_key'' ciphertext) s2) (\<lambda>(plaintext, s3).
     if plaintext \<noteq> replicate 16 0xa5 then Panicked
     else outcome_bind (expect (tc_destroy_key bc ''encrypt_checking_key'') s3) (\<lambda>(_, s4). Done s4))))"

text \<open>The loop, on the answers of \<open>try_recv\<close>: it goes on until the workers have finished.\<close>

fun check_loop :: "('w, 'c) basic_client_api \<Rightarrow> opcode fset \<Rightarrow> bool list \<Rightarrow> 'c test_client \<Rightarrow> 'c test_client outcome" where
  "check_loop bc opcodes [] s = Forever"
| "check_loop bc opcodes (stop # answers) s =
     outcome_bind (check_sign bc s) (\<lambda>s1.
     outcome_bind (if PsaAsymmetricDecrypt |\<in>| opcodes \<and> PsaAsymmetricEncrypt |\<in>| opcodes then check_encrypt bc s1 else Done s1) (\<lambda>s2.
     if stop then Done s2 else check_loop bc opcodes answers s2))"

definition run_check ::
  "('w, 'c) basic_client_api \<Rightarrow> (created_key list \<Rightarrow> created_key list) \<Rightarrow> stress_test_config \<Rightarrow> bool list \<Rightarrow> 'w \<Rightarrow> 'c test_client option outcome" where
  "run_check bc order config answers w =
     (if check_interval config = None then Done None
      else case tc_new bc w of
        None \<Rightarrow> Panicked
      | Some s \<Rightarrow>
          outcome_bind (expect (tc_list_opcodes bc (tc_provider bc s)) s) (\<lambda>(opcodes, s1).
          outcome_bind (check_loop bc opcodes answers s1) (\<lambda>s2.
          case tc_drop bc order s2 of None \<Rightarrow> Panicked | Some s3 \<Rightarrow> Done (Some s3))))"

end
