(* ===== verification/Stress_Test_Properties.thy ===== *)
theory Stress_Test_Properties
  imports Stress_Test
begin

text \<open>
  The requests of the stress test leave no trace: a worker that has finished leaves the service with exactly the keys that it
  held before, and the loop that draws an operation ends as soon as the generator gives one that the worker has a key for.
\<close>

section \<open>Requests that leave the keys as they are\<close>

text \<open>A key cannot be created twice.\<close>

definition bc_refuses :: "('w, 'c) basic_client_api \<Rightarrow> ('c \<Rightarrow> created_key set) \<Rightarrow> bool" where
  "bc_refuses bc live \<longleftrightarrow>
     (\<forall>n as d c. bc_key bc n c \<in> live c \<longrightarrow> isl (fst (bc_psa_generate_key bc n as c)) \<and> isl (fst (bc_psa_import_key bc n d as c)))"

definition same_keys ::
  "('w, 'c) basic_client_api \<Rightarrow> ('c \<Rightarrow> created_key set) \<Rightarrow> 'c test_client \<Rightarrow> 'c test_client \<Rightarrow> bool" where
  "same_keys bc live s s' \<longleftrightarrow>
     bc_same bc (basic_client s) (basic_client s') \<and> live (basic_client s') = live (basic_client s) \<and>
     map_option set (created_keys s') = map_option set (created_keys s)"

text \<open>The keys that the client remembers are there.\<close>

definition keys_there :: "('c \<Rightarrow> created_key set) \<Rightarrow> 'c test_client \<Rightarrow> bool" where
  "keys_there live s \<longleftrightarrow> (\<forall>ks. created_keys s = Some ks \<longrightarrow> set ks \<subseteq> live (basic_client s))"

lemma same_keys_refl [simp]: "same_keys bc live s s"
  by (simp add: same_keys_def bc_same_def)

lemma same_keys_trans: "same_keys bc live s s1 \<Longrightarrow> same_keys bc live s1 s2 \<Longrightarrow> same_keys bc live s s2"
  by (simp add: same_keys_def bc_same_def)

lemma same_keys_there: "same_keys bc live s s' \<Longrightarrow> keys_there live s \<Longrightarrow> keys_there live s'"
  unfolding same_keys_def keys_there_def by (cases "created_keys s") auto

lemma outcome_bind_Done: "outcome_bind x k = Done y \<longleftrightarrow> (\<exists>z. x = Done z \<and> k z = Done y)"
  by (cases x) simp_all

lemma expect_Done: "expect f s = Done (x, s') \<longleftrightarrow> f s = Some (Inr x, s')"
  by (auto simp: expect_def split: option.splits sum.splits prod.splits)

lemma expect_err_Done: "expect_err f s = Done (e, s') \<longleftrightarrow> f s = Some (Inl e, s')"
  by (auto simp: expect_err_def split: option.splits sum.splits prod.splits)

lemma expect_unless_Done:
  "expect_unless a f s = Done (b, s') \<longleftrightarrow>
     b \<and> (\<exists>x. f s = Some (Inr x, s')) \<or> \<not> b \<and> f s = Some (Inl a, s')"
  by (auto simp: expect_unless_def split: option.splits sum.splits prod.splits if_splits)

lemma use_same_keys:
  assumes "bc_use bc live f" and "tc_call f s = Some (r, s')"
  shows "same_keys bc live s s'"
  using tc_call_effect [OF assms] by (cases r) (simp_all add: same_keys_def)

text \<open>Creating a key that the service did not have.\<close>

lemma tc_create_result:
  assumes eff: "bc_effect bc live (\<lambda>c. insert (bc_key bc n c)) f"
    and ref: "\<And>c. bc_key bc n c \<in> live c \<Longrightarrow> isl (fst (f c))"
    and run: "(case tc_call f s of Some (Inr _, s1) \<Rightarrow> Some (Inr (), on_created (List.insert (tc_key bc n s1)) s1) | x \<Rightarrow> x) = Some (r, s')"
  shows "case r of
      Inl _ \<Rightarrow> same_keys bc live s s'
    | Inr _ \<Rightarrow> bc_key bc n (basic_client s) \<notin> live (basic_client s) \<and> bc_same bc (basic_client s) (basic_client s') \<and>
        live (basic_client s') = insert (bc_key bc n (basic_client s)) (live (basic_client s)) \<and>
        created_keys s' = map_option (List.insert (bc_key bc n (basic_client s))) (created_keys s)"
proof -
  obtain q s1 where c: "tc_call f s = Some (q, s1)" using run by (auto split: option.splits)
  note E = tc_call_effect [OF eff c] and d = bc_same_key [OF tc_call_effect(2) [OF eff c]]
  show ?thesis
  proof (cases q)
    case (Inl e)
    with run c have "s' = s1" "r = Inl e" by simp_all
    with E Inl show ?thesis by (simp add: same_keys_def)
  next
    case (Inr u)
    with run c have s': "s' = on_created (List.insert (bc_key bc n (basic_client s))) s1" "r = Inr ()" by (simp_all add: tc_key_eq d)
    have "\<not> isl (fst (f (basic_client s)))" using c Inr by (auto simp: tc_call_def split: prod.splits sum.splits)
    with ref have "bc_key bc n (basic_client s) \<notin> live (basic_client s)" by blast
    with s' E Inr show ?thesis by (simp add: on_created_def)
  qed
qed

text \<open>A key that is created and destroyed again.\<close>

lemma create_destroy_same_keys:
  assumes con: "bc_contract bc live" and there: "keys_there live s"
    and c: "bc_key bc n (basic_client s) \<notin> live (basic_client s)" "bc_same bc (basic_client s) (basic_client s1)"
      "live (basic_client s1) = insert (bc_key bc n (basic_client s)) (live (basic_client s))"
      "created_keys s1 = map_option (List.insert (bc_key bc n (basic_client s))) (created_keys s)"
    and d: "tc_destroy_key bc n s1 = Some (Inr u, s2)"
  shows "same_keys bc live s s2"
proof -
  have "bc_effect bc live (\<lambda>c K. K - {bc_key bc n c}) (bc_psa_destroy_key bc n)"
    using con by (simp add: bc_contract_def bc_changes_def)
  note D = tc_destroy_result [OF this d]
  have k: "bc_key bc n (basic_client s1) = bc_key bc n (basic_client s)" by (rule bc_same_key(2) [OF c(2)])
  have "live (basic_client s2) = live (basic_client s)" using D c(1,3) k by simp
  moreover have "map_option set (created_keys s2) = map_option set (created_keys s)"
    using D c(1,4) k there by (cases "created_keys s") (auto simp: keys_there_def)
  moreover have "bc_same bc (basic_client s) (basic_client s2)" using D c(2) by (simp add: bc_same_def)
  ultimately show ?thesis by (simp add: same_keys_def)
qed

lemma create_and_destroy:
  assumes con: "bc_contract bc live" and ref: "bc_refuses bc live" and there: "keys_there live s"
    and cr: "tc_generate_key bc n as s = Some (Inr u, s1) \<or> tc_import_key bc n as d s = Some (Inr u, s1)"
    and de: "tc_destroy_key bc n s1 = Some (Inr v, s2)"
  shows "same_keys bc live s s2"
proof -
  have g: "bc_effect bc live (\<lambda>c. insert (bc_key bc n c)) (bc_psa_generate_key bc n as)"
    "bc_effect bc live (\<lambda>c. insert (bc_key bc n c)) (bc_psa_import_key bc n d as)"
    using con by (simp_all add: bc_contract_def bc_changes_def)
  have r: "isl (fst (bc_psa_generate_key bc n as c))" "isl (fst (bc_psa_import_key bc n d as c))" if "bc_key bc n c \<in> live c" for c
    using ref that by (simp_all add: bc_refuses_def)
  have "bc_key bc n (basic_client s) \<notin> live (basic_client s) \<and> bc_same bc (basic_client s) (basic_client s1) \<and>
      live (basic_client s1) = insert (bc_key bc n (basic_client s)) (live (basic_client s)) \<and>
      created_keys s1 = map_option (List.insert (bc_key bc n (basic_client s))) (created_keys s)"
    using cr
  proof
    assume "tc_generate_key bc n as s = Some (Inr u, s1)"
    from tc_create_result [OF g(1) r(1) this [unfolded tc_generate_key_def]] show ?thesis by simp
  next
    assume "tc_import_key bc n as d s = Some (Inr u, s1)"
    from tc_create_result [OF g(2) r(2) this [unfolded tc_import_key_def]] show ?thesis by simp
  qed
  then show ?thesis by (intro create_destroy_same_keys [OF con there _ _ _ _ de]) simp_all
qed

lemma failed_destroy:
  assumes "bc_contract bc live" and "tc_destroy_key bc n s = Some (Inl e, s')"
  shows "same_keys bc live s s'"
proof -
  have "bc_effect bc live (\<lambda>c K. K - {bc_key bc n c}) (bc_psa_destroy_key bc n)"
    using assms(1) by (simp add: bc_contract_def bc_changes_def)
  from tc_destroy_result [OF this assms(2)] show ?thesis by (simp add: same_keys_def)
qed

lemmas stress_use_defs = sign_with_rsa_sha256_def verify_with_rsa_sha256_def sign_with_ecdsa_sha256_def
  verify_with_ecdsa_sha256_def asymmetric_encrypt_message_with_rsapkcs1v15_def asymmetric_decrypt_message_with_rsapkcs1v15_def

lemma perform_operation_same_keys:
  assumes con: "bc_contract bc live" and ref: "bc_refuses bc live" and there: "keys_there live s"
    and run: "perform_operation bc rng self op s g = Done (s', g')"
  shows "same_keys bc live s s'"
proof -
  have U: "bc_uses bc live" using con by (simp add: bc_contract_def)
  note fin = outcome_bind_Done expect_Done expect_err_Done expect_unless_Done unwrap_name_def
  note U' = use_same_keys [OF bc_usesD(4) [OF U]] use_same_keys [OF bc_usesD(5) [OF U]] use_same_keys [OF bc_usesD(3) [OF U]]
    use_same_keys [OF bc_usesD(8) [OF U]] use_same_keys [OF bc_usesD(9) [OF U]]
  show ?thesis
  proof (cases op)
    case CreateDestroyKey
    with run obtain n u s1 v where "generate_rsa_sign_key bc n s = Some (Inr u, s1)" "tc_destroy_key bc n s1 = Some (Inr v, s')"
      by (auto simp: perform_operation_def fin split: prod.splits)
    then show ?thesis using create_and_destroy [OF con ref there] by (simp add: generate_rsa_sign_key_def) blast
  next
    case ImportDestroyKey
    with run obtain n u s1 v where "import_rsa_public_key bc n stress_key_data s = Some (Inr u, s1)"
      "tc_destroy_key bc n s1 = Some (Inr v, s')"
      by (auto simp: perform_operation_def fin split: prod.splits)
    then show ?thesis using create_and_destroy [OF con ref there] by (simp add: import_rsa_public_key_def) blast
  next
    case DestroyKey
    with run obtain n e where "tc_destroy_key bc n s = Some (Inl e, s')"
      by (auto simp: perform_operation_def fin split: prod.splits)
    then show ?thesis by (rule failed_destroy [OF con])
  qed (use run in \<open>auto simp: perform_operation_def fin stress_use_defs tc_use_defs intro: U'
      split: prod.splits if_splits option.splits\<close>)
qed

lemma run_requests_same_keys:
  assumes con: "bc_contract bc live" and ref: "bc_refuses bc live"
  shows "keys_there live (stw_client self) \<Longrightarrow> run_requests bc rng n self g = Done (self', g') \<Longrightarrow>
    same_keys bc live (stw_client self) (stw_client self')"
proof (induction n arbitrary: self g)
  case (Suc n)
  from Suc.prems(2) obtain self1 g1 y g2 where e: "stress_request bc rng self g = Done (self1, g1)"
    and rest: "run_requests bc rng n self1 g2 = Done (self', g')"
    by (auto simp: outcome_bind_Done)
  from e obtain op g3 s g4 where "perform_operation bc rng self op (stw_client self) g3 = Done (s, g4)" and s: "stw_client self1 = s"
    by (auto simp: stress_request_def outcome_bind_Done split: prod.splits option.splits)
  from perform_operation_same_keys [OF con ref Suc.prems(1) this(1)]
  have k: "same_keys bc live (stw_client self) (stw_client self1)" by (simp add: s)
  from Suc.IH [OF same_keys_there [OF k Suc.prems(1)] rest] k show ?case by (rule same_keys_trans [rotated])
qed simp

section \<open>The keys of a worker\<close>

text \<open>What the service holds are the keys it held at first, and new keys, which the client remembers.\<close>

definition new_keys ::
  "('w, 'c) basic_client_api \<Rightarrow> ('c \<Rightarrow> created_key set) \<Rightarrow> created_key set \<Rightarrow> 'c test_client \<Rightarrow> bool" where
  "new_keys bc live old s \<longleftrightarrow>
     (\<exists>ks. created_keys s = Some ks \<and> live (basic_client s) = old \<union> set ks \<and> set ks \<inter> old = {} \<and>
        (\<forall>k \<in> set ks. fst (snd k) = None \<longleftrightarrow> bc_direct bc (basic_client s) = None))"

lemma new_keys_same:
  assumes "same_keys bc live s s'" and "new_keys bc live old s"
  shows "new_keys bc live old s'"
proof -
  from assms(2) obtain ks where ks: "created_keys s = Some ks" "live (basic_client s) = old \<union> set ks" "set ks \<inter> old = {}"
    "\<forall>k \<in> set ks. fst (snd k) = None \<longleftrightarrow> bc_direct bc (basic_client s) = None" unfolding new_keys_def by (elim exE conjE)
  from assms(1) ks(1) obtain ks' where "created_keys s' = Some ks'" "set ks' = set ks" by (auto simp: same_keys_def)
  moreover have "bc_direct bc (basic_client s') = bc_direct bc (basic_client s)" "live (basic_client s') = live (basic_client s)"
    using assms(1) by (simp_all add: same_keys_def bc_same_key(1))
  ultimately show ?thesis using ks unfolding new_keys_def by simp
qed

lemma new_keys_generate:
  assumes con: "bc_contract bc live" and ref: "bc_refuses bc live" and new: "new_keys bc live old s"
    and run: "tc_generate_key bc n as s = Some (r, s')"
  shows "new_keys bc live old s'"
proof -
  have g: "bc_effect bc live (\<lambda>c. insert (bc_key bc n c)) (bc_psa_generate_key bc n as)"
    using con by (simp add: bc_contract_def bc_changes_def)
  have r: "isl (fst (bc_psa_generate_key bc n as c))" if "bc_key bc n c \<in> live c" for c using ref that by (simp add: bc_refuses_def)
  note R = tc_create_result [OF g r run [unfolded tc_generate_key_def]]
  show ?thesis
  proof (cases r)
    case (Inr u)
    let ?k = "bc_key bc n (basic_client s)"
    have K: "?k \<notin> live (basic_client s)" "bc_same bc (basic_client s) (basic_client s')"
      "live (basic_client s') = insert ?k (live (basic_client s))" "created_keys s' = map_option (List.insert ?k) (created_keys s)"
      using R Inr by simp_all
    have "fst (snd ?k) = bc_direct bc (basic_client s)" by (simp add: bc_key_def)
    with new K show ?thesis unfolding new_keys_def bc_same_key(1) [OF K(2)] by auto
  qed (use R new_keys_same new in simp)
qed

lemma worker_new_keys:
  assumes con: "bc_contract bc live" and ref: "bc_refuses bc live" and start: "tc_new bc w = Some s0"
    and run: "worker_new bc rng config w g = Done (self, g')"
  shows "new_keys bc live (live (basic_client s0)) (stw_client self)"
proof -
  let ?new = "new_keys bc live (live (basic_client s0))"
  have S: "bc_settings bc live" and U: "bc_uses bc live" using con by (simp_all add: bc_contract_def)
  obtain auth g1 where 1: "generate_string rng 10 g = (auth, g1)" by fastforce
  obtain n3 g2 where 2: "generate_string rng 10 g1 = (n3, g2)" by fastforce
  obtain n4 g3 where 3: "generate_string rng 10 g2 = (n4, g3)" by fastforce
  obtain n5 g4 where 4: "generate_string rng 10 g3 = (n5, g4)" by fastforce
  from run start obtain s1 opcodes s2 u s3 b4 s4 b5 s5 where
    s1: "tc_set_default_auth bc (Some auth) s0 = Some s1"
    and s2: "tc_list_opcodes bc (tc_provider bc s1) s1 = Some (Inr opcodes, s2)"
    and s3: "generate_rsa_sign_key bc n3 s2 = Some (Inr u, s3)"
    and s4: "expect_unless PsaErrorNotSupported (generate_ecc_key_pair_secpr1_ecdsa_sha256 bc n4) s3 = Done (b4, s4)"
    and s5: "expect_unless PsaErrorNotSupported (generate_rsa_encryption_keys_rsapkcs1v15crypt bc n5) s4 = Done (b5, s5)"
    and self: "stw_client self = s5"
    by (auto simp: worker_new_def outcome_bind_Done expect_Done 1 2 3 4 split: option.splits)
  have "created_keys s0 = Some []" using start by (auto simp: tc_new_def split: sum.splits)
  moreover from s1 obtain c1 where "bc_set_default_auth bc (Some auth) (basic_client s0) = (Inr (), c1)" "s1 = s0\<lparr>basic_client := c1\<rparr>"
    by (auto simp: tc_set_default_auth_def split: prod.splits sum.splits)
  ultimately have "?new s1" using bc_settingsD(2) [OF S] by (simp add: new_keys_def)
  then have "?new s2"
    by (rule new_keys_same [OF use_same_keys [OF bc_usesD(17) [OF U] s2 [unfolded tc_list_opcodes_def]]])
  then have "?new s3" using s3 unfolding generate_rsa_sign_key_def by (rule new_keys_generate [OF con ref])
  moreover obtain r4 where "generate_ecc_key_pair_secpr1_ecdsa_sha256 bc n4 s3 = Some (r4, s4)"
    using s4 by (auto simp: expect_unless_Done)
  ultimately have "?new s4"
    unfolding generate_ecc_key_pair_secpr1_ecdsa_sha256_def by (rule new_keys_generate [OF con ref])
  moreover obtain r5 where "generate_rsa_encryption_keys_rsapkcs1v15crypt bc n5 s4 = Some (r5, s5)"
    using s5 by (auto simp: expect_unless_Done)
  ultimately show ?thesis
    unfolding generate_rsa_encryption_keys_rsapkcs1v15crypt_def self by (rule new_keys_generate [OF con ref])
qed

section \<open>Drawing an operation\<close>

primrec nth_operation :: "('g \<Rightarrow> 'a \<times> 'g) \<Rightarrow> nat \<Rightarrow> 'g \<Rightarrow> 'a" where
  "nth_operation sample 0 g = fst (sample g)"
| "nth_operation sample (Suc n) g = nth_operation sample n (snd (sample g))"

lemma draw_operation_returns:
  "ok op \<or> (\<exists>m \<le> n. ok (nth_operation sample m g)) \<Longrightarrow> \<exists>op' g'. draw_operation sample ok op g = Some (op', g') \<and> ok op'"
proof (induction n arbitrary: op g)
  case 0
  then show ?case
    by (cases "ok op"; cases "sample g") (simp_all add: draw_operation.simps [of sample ok op g] draw_operation.simps [of sample ok])
next
  case (Suc n)
  obtain op1 g1 where d: "sample g = (op1, g1)" by fastforce
  show ?case
  proof (cases "ok op")
    case False
    with Suc.prems obtain m where m: "m \<le> Suc n" "ok (nth_operation sample m g)" by blast
    then have "ok op1 \<or> (\<exists>m \<le> n. ok (nth_operation sample m g1))" using d by (cases m) auto
    from Suc.IH [OF this] False d show ?thesis by (simp add: draw_operation.simps [of sample ok op g])
  qed (simp add: draw_operation.simps [of sample ok op g])
qed

lemma expect_ends: "expect f s \<noteq> Forever" "expect_err f s \<noteq> Forever" "expect_unless a f s \<noteq> Forever"
  by (simp_all add: expect_def expect_err_def expect_unless_def split: option.split sum.split)

lemma outcome_bind_Forever: "outcome_bind x k = Forever \<longleftrightarrow> x = Forever \<or> (\<exists>y. x = Done y \<and> k y = Forever)"
  by (cases x) simp_all

lemma perform_operation_ends: "perform_operation bc rng self op s g \<noteq> Forever"
proof -
  obtain n g' where "generate_string rng 10 g = (n, g')" by fastforce
  then show ?thesis
    by (cases op) (simp_all add: perform_operation_def unwrap_name_def outcome_bind_Forever expect_ends split: option.split)
qed

text \<open>A request of a worker ends, at the latest when the generator gives an operation that there is a key for.\<close>

lemma stress_request_ends:
  assumes "has_key_for self (nth_operation (sample_operation rng) m g)"
  shows "stress_request bc rng self g \<noteq> Forever"
proof -
  obtain op g1 where d: "sample_operation rng g = (op, g1)" by fastforce
  have "has_key_for self op \<or> (\<exists>k \<le> m. has_key_for self (nth_operation (sample_operation rng) k g1))"
    using assms d by (cases m) auto
  from draw_operation_returns [OF this] obtain op' g' where
    "draw_operation (sample_operation rng) (has_key_for self) op g1 = Some (op', g')" by (elim exE conjE)
  then show ?thesis by (simp add: stress_request_def d outcome_bind_Forever perform_operation_ends split: prod.split)
qed

section \<open>Properties\<close>

text \<open>
  C36: The stress test leaves no trace. A worker starts a client under a random name, creates the keys it works with, sends its random requests, among them some
  that create and destroy keys under random names, and drops its client. When it has finished without a panic, the service
  holds exactly the keys that it held before the worker started, whatever the random choices were. And a request never hangs as long as
  the generator sooner or later gives an operation that the worker has a key for.
\<close>

theorem stress_worker_leaves_no_trace:
  assumes "bc_contract bc live" and "bc_answers bc live" and "bc_refuses bc live" and "iteration_order order"
    and "tc_new bc w = Some s0" and "worker_new bc rng config w g = Done (self, g1)"
  shows "(run_test bc rng order self g1 = Done (s, g2) \<longrightarrow> live (basic_client s) = live (basic_client s0)) \<and>
    (has_key_for self' (nth_operation (sample_operation rng) m g3) \<longrightarrow> stress_request bc rng self' g3 \<noteq> Forever)"
proof (intro conjI impI)
  assume run: "run_test bc rng order self g1 = Done (s, g2)"
  let ?new = "new_keys bc live (live (basic_client s0))"
  from run obtain self1 where rr: "run_requests bc rng (req_per_thread (stw_config self)) self g1 = Done (self1, g2)"
    and dr: "tc_drop bc order (stw_client self1) = Some s"
    by (auto simp: run_test_def outcome_bind_Done split: option.splits)
  have new: "?new (stw_client self)" by (rule worker_new_keys [OF assms(1,3,5,6)])
  then have "keys_there live (stw_client self)" by (auto simp: new_keys_def keys_there_def)
  from run_requests_same_keys [OF assms(1,3) this rr] new have "?new (stw_client self1)" by (rule new_keys_same)
  then obtain ks where ks: "created_keys (stw_client self1) = Some ks"
    "live (basic_client (stw_client self1)) = live (basic_client s0) \<union> set ks" "set ks \<inter> live (basic_client s0) = {}"
    "\<forall>k \<in> set ks. fst (snd k) = None \<longleftrightarrow> bc_direct bc (basic_client (stw_client self1)) = None"
    unfolding new_keys_def by (elim exE conjE)
  have o: "set (order ks) = set ks" using assms(4) by simp
  from ks(4) have "\<forall>k \<in> set (order ks). fst (snd k) = None \<longleftrightarrow> bc_direct bc (basic_client (stw_client self1)) = None"
    unfolding o .
  from drop_keys_result [OF assms(1,2) this] obtain s' where
    "drop_keys bc (order ks) (stw_client self1) = Some s'"
    "live (basic_client s') = live (basic_client (stw_client self1)) - set (order ks)" by (elim exE conjE)
  with dr ks(1-3) o show "live (basic_client s) = live (basic_client s0)" by (auto simp: tc_drop_def)
qed (rule stress_request_ends)

declare draw_operation.simps [code]

text \<open>A generator that counts.\<close>

definition count_rng :: "nat rand_api" where
  "count_rng =
     \<lparr>gen_range = (\<lambda>low high g. (low, g)),
      sample_alphanumeric = (\<lambda>g. (if g < 10 then CHR ''a'' else if g < 20 then CHR ''b'' else if g < 30 then CHR ''c''
        else if g < 40 then CHR ''d'' else CHR ''e'', g + 1))\<rparr>"

definition toy_stress :: stress_test_config where
  "toy_stress =
     \<lparr>no_threads = 1, req_per_thread = 1, req_interval = Some 5, req_interval_deviation_millis = Some 2, check_interval = None\<rparr>"

lemma toyc_refuses: "bc_refuses toyc_api (\<lambda>c. set (toyc_live c))"
  unfolding bc_refuses_def toyc_key_eq by (simp add: toyc_api_def toyc_create_def)

lemma toy_stress_runs:
  "\<exists>self g1 s g2. worker_new toyc_api count_rng toy_stress () 0 = Done (self, g1) \<and>
     run_test toyc_api count_rng rev self g1 = Done (s, g2) \<and> has_key_for self (nth_operation (sample_operation count_rng) 4 g1)"
proof -
  have "(case worker_new toyc_api count_rng toy_stress () 0 of
      Done (self, g1) \<Rightarrow>
        (case run_test toyc_api count_rng rev self g1 of
           Done (s, g2) \<Rightarrow> has_key_for self (nth_operation (sample_operation count_rng) 4 g1) | _ \<Rightarrow> False)
    | _ \<Rightarrow> False)"
    by code_simp
  then obtain self g1 where n: "worker_new toyc_api count_rng toy_stress () 0 = Done (self, g1)"
    and c: "case run_test toyc_api count_rng rev self g1 of
      Done (s, g2) \<Rightarrow> has_key_for self (nth_operation (sample_operation count_rng) 4 g1) | _ \<Rightarrow> False"
    by (cases "worker_new toyc_api count_rng toy_stress () 0") auto
  from c obtain s g2 where "run_test toyc_api count_rng rev self g1 = Done (s, g2)"
    "has_key_for self (nth_operation (sample_operation count_rng) 4 g1)"
    by (cases "run_test toyc_api count_rng rev self g1") auto
  with n show ?thesis by blast
qed

theorem stress_worker_leaves_no_trace_witness:
  "\<exists>self g1 s g2. worker_new toyc_api count_rng toy_stress () 0 = Done (self, g1) \<and>
     run_test toyc_api count_rng rev self g1 = Done (s, g2) \<and> toyc_live (basic_client s) = [] \<and>
     stress_request toyc_api count_rng self g1 \<noteq> Forever"
proof -
  obtain self g1 s g2 where r: "worker_new toyc_api count_rng toy_stress () 0 = Done (self, g1)"
    "run_test toyc_api count_rng rev self g1 = Done (s, g2)" "has_key_for self (nth_operation (sample_operation count_rng) 4 g1)"
    using toy_stress_runs by blast
  have new: "tc_new toyc_api () =
      Some \<lparr>basic_client = \<lparr>toyc_live = [], toyc_auth = ''root'', toyc_provider = MbedCrypto\<rparr>, created_keys = Some []\<rparr>"
    by code_simp
  have "iteration_order (rev :: created_key list \<Rightarrow> _)" by (simp add: iteration_order_def)
  from stress_worker_leaves_no_trace [OF toyc_contract toyc_answers toyc_refuses this new r(1), of s g2 self 4 g1] r
  show ?thesis by auto
qed

end
