(* ===== verification/Spec2Isabelle.thy ===== *)
theory Spec2Isabelle
  imports Cryptoauthlib_Properties Trusted_Service_Properties Tpm_Properties Pkcs11_Properties Shared_Providers Main_Loop Stress_Test_Properties
begin

text \<open>
  A verification library for the Parsec service, a daemon that offers key storage and cryptography to the applications of a
  machine over a Unix domain socket.

  \<^bold>\<open>The program.\<close> \<^verbatim>\<open>main\<close> reads a configuration, lets the service builder assemble a front end, opens the socket and passes
  each accepted connection to a pool of threads. The front end reads a request, authenticates the application and hands the
  request to the dispatcher. The dispatcher selects the back end of the provider named in the header. The back end decodes the body
  and calls one method of this provider. Five providers keep keys, each with a different library or device; the core provider answers questions about
  the service and deletes clients through the others. A provider keeps, in a key info manager, what ties the name of an
  application's key to the key in the device. Several providers can share one manager.

  \<^bold>\<open>Theories.\<close> The theories follow the source files; definitions have the names of the functions, with a prefix where several
  providers have the same method (\<open>mbed_\<close>, \<open>calib_\<close>, \<open>ts_\<close>, \<open>tpm_\<close>, \<open>p11_\<close>) and \<open>_internal\<close> dropped.
    \<^item> \<open>Parsec_Prelude\<close>: results, the \<open>?\<close> operator, \<open>HashMap\<close>, \<open>String\<close>, \<open>Vec\<close> and the integers of Rust.
      \<open>Parsec_Interface\<close>, \<open>Psa_Crypto\<close>, \<open>Asym_Keys\<close>: the types and functions of the external crates, as datatypes and as records of parameters.
    \<^item> \<open>Authenticators\<close> (\<^verbatim>\<open>src/src/authenticators\<close>): direct, Unix peer credentials and JWT-SVID; the list of administrators.
      The locale \<open>admin_authority\<close> is what the front end relies on.
    \<^item> \<open>Key_Info_Managers\<close> (\<^verbatim>\<open>src/src/key_info_managers/mod.rs\<close>): the trait, its client and its factory. The locale
      \<open>key_info_manager\<close> is the contract of the trait: the store refines a map from key triples.
      \<open>File_System\<close> and \<open>On_Disk_Manager\<close> (\<^verbatim>\<open>on_disk_manager/mod.rs\<close>): the manager on a file system in which any call can fail.
    \<^item> \<open>Providers\<close> (\<^verbatim>\<open>src/src/providers/mod.rs\<close>): the trait \<open>Provide\<close> as a record, with the locales \<open>tenant_isolation\<close>,
      \<open>key_provider\<close> and \<open>sure_key_provider\<close>. \<open>Core_Provider\<close> (\<^verbatim>\<open>core/mod.rs\<close>) rests on the latter two.
    \<^item> For each of \<^verbatim>\<open>mbed_crypto\<close>, \<^verbatim>\<open>cryptoauthlib\<close>, \<^verbatim>\<open>trusted_service\<close>, \<^verbatim>\<open>tpm\<close> and \<^verbatim>\<open>pkcs11\<close> a theory \<open>_Provider\<close> with the
      state and the operations, a theory \<open>_Keys\<close> with the invariant, proved for any key info manager, and a theory \<open>_Properties\<close>
      with the results for the on-disk manager. \<open>Key_Numbers\<close> holds what they share, \<open>Atecc_Slots\<close> the slots of the CryptoAuthLib chip
      (\<^verbatim>\<open>key_slot.rs\<close>, \<^verbatim>\<open>key_slot_storage.rs\<close>), \<open>Pkcs11_Start\<close> the start-up of the PKCS 11 provider, and \<open>Mbed_Crypto_On_Disk\<close> the start-up of the Mbed Crypto provider.
    \<^item> \<open>Shared_Store\<close> and \<open>Shared_Providers\<close>: providers over one key info manager (\<open>build_providers\<close> in \<^verbatim>\<open>service_builder.rs\<close>).
    \<^item> \<open>Back_End\<close> (\<^verbatim>\<open>src/src/back\<close>), \<open>Front_End\<close> (\<^verbatim>\<open>front/front_end.rs\<close>), \<open>Domain_Socket\<close> (\<^verbatim>\<open>front/domain_socket.rs\<close>),
      \<open>Service_Builder\<close> (\<^verbatim>\<open>utils/config.rs\<close>, \<^verbatim>\<open>global_config.rs\<close>, \<^verbatim>\<open>service_builder.rs\<close>) with \<open>Service_Properties\<close>, and
      \<open>Main_Loop\<close> (\<^verbatim>\<open>bin/main.rs\<close>), a step relation of the main thread and the pool.
    \<^item> \<open>Test_Client\<close> (\<^verbatim>\<open>src/e2e_tests/src/lib.rs\<close>) and \<open>Stress_Test\<close> (\<^verbatim>\<open>stress.rs\<close>), each with its \<open>_Properties\<close>.

  \<^bold>\<open>What the lemmas show.\<close>
    \<^item> Isolation: whatever is requested, an application's keys change only through connections authenticated as this application, or through the deletion
      of a client by a configured administrator. It is shown for one connection (\<open>connections_isolated\<close>), for a run of the daemon
      with reloads (\<open>daemon_isolated\<close>), and for all five providers over one store (\<open>shared_service_isolated\<close>, below).
    \<^item> Durability: the on-disk manager refines a map, also across restarts (\<open>updates_persist\<close>, \<open>insert_durable\<close>).
    \<^item> Providers: every operation keeps the invariant that ties mappings to keys; creating, destroying, using and
      importing a key and starting up have exactly the effect that their names say, on success and on failure.
    \<^item> Conversions: round trips of key identifiers, key material and signatures; message signing equals hashing and signing.
    \<^item> The rest of the service: one response for each connection, each accepted connection served once, the service
      built as configured, no file but a stale socket removed, no handle and no key of the tests left behind.
    \<^item> Deviations: \<open>calib_start_forgets_keys\<close>, \<open>calib_import_leaks_slot\<close>, \<open>failed_insert_blocks_restart\<close>, \<open>tpm_p521_unusable\<close>,
      the exception in \<open>rpc_calls_ended\<close>, and the lemmas \<open>insert_key_info_overwrites\<close>, \<open>failed_query_resurrects_mapping\<close>, \<open>calib_generate_random_length\<close>,
      \<open>validate_public_key_truncates\<close> and \<open>validate_private_key_needs_bits\<close> prove what the code does where it should do something else.

  \<^bold>\<open>External code.\<close> Mbed Crypto, the ATECC chip, the secure world, the TPM, the PKCS 11 token, the operating system, the encodings of the
  interface crate, Base64, the random generators and the client library are records of functions over states of their own. What a theorem
  needs of them is a named predicate (\<open>psa_contract\<close>, \<open>chip_contract\<close>, \<open>ts_contract\<close>, \<open>token_contract\<close>, \<open>unix_fs_contract\<close>, \<open>bc_contract\<close>, and
  similar); a small implementation of each shows that it can be met.

  \<^bold>\<open>Bounds and termination.\<close> No definition has a bound on its steps. Loops over collections are structural recursion. Two loops draw random values until one
  is usable: \<open>draw_key_id\<close> and \<open>draw_operation\<close> are partial functions into \<open>option\<close>, and the theorems about them say when they
  return. Integers have their widths where they can wrap: 32-bit key numbers, \<open>usize\<close> sizes, the cast to 16 bits in the TPM provider.
  A panic is a value (\<open>None\<close>, \<open>Panicked\<close>, or a poisoned lock). The main loop interleaves whole requests; interleavings
  inside the handling of two requests are not covered.

  \<^bold>\<open>Not modelled.\<close> Log output, display texts of errors and the clearing of memory, which no result depends on. The command line (\<^verbatim>\<open>utils/cli.rs\<close>), one option parsed by a derive macro.
  Notifications of systemd and sleeping in \<^verbatim>\<open>main.rs\<close>. \<open>StressClient::execute\<close>, which only starts and joins
  threads, and \<^verbatim>\<open>raw_request.rs\<close>, which only does input and output. \<^verbatim>\<open>build.rs\<close>, \<^verbatim>\<open>fuzz\<close> and \<^verbatim>\<open>e2e_tests/tests\<close>, which generate code and
  inputs or run the service on concrete ones.
\<close>

section \<open>The five providers in one service\<close>

text \<open>The front end that the service builder assembles over any of the five providers keeps tenants apart.\<close>

lemma shared_front_end_isolated:
  assumes ps: "set ps \<subseteq> set (five_providers f)" "distinct (map fst ps)"
    and au: "build_authenticators bs (sc_authenticator config) = Inr as"
    and bh: "build_backend_handlers bs ps as = Some (Inr mp)" and fe: "assemble_front_end config as mp = Inr feh"
  shows "backends_isolated (feh_dispatcher feh) (five_inv f) (five_view f)"
    "authenticators_ok feh (unwrap_or (ac_admins (sc_authenticator config)) [])"
    "hm_get (backends (feh_dispatcher feh)) pid = Some b \<Longrightarrow> beh_converter b = protobuf_converter bs"
proof -
  obtain a where a: "as = [(config_auth_type (sc_authenticator config), a)]"
    "admin_authority a (unwrap_or (ac_admins (sc_authenticator config)) []) (config_auth_type (sc_authenticator config))"
    using build_authenticators_Inr [OF au] by blast
  obtain core where core: "hm_wf mp" "dom (hm_get mp) = insert Core (fst ` set ps)" "cp_prov_list core = map snd ps"
    "\<And>pid b. hm_get mp pid = Some b \<Longrightarrow>
       \<exists>p. serves (protobuf_converter bs) pid p b \<and> (if pid = Core then p = core_provide core else (pid, p) \<in> set ps)"
    using build_backend_handlers_Inr [OF bh ps(2)] by blast
  note F = assemble_front_end_Inr [OF fe [unfolded a(1)] core(1)]
  have core_iso: "tenant_isolation (core_provide core) (five_inv f) (five_view f)"
  proof (rule core_isolated)
    fix p assume "p \<in> set (cp_prov_list core)"
    then obtain pid where "(pid, p) \<in> set ps" by (auto simp: core(3))
    with ps(1) show "tenant_isolation p (five_inv f) (five_view f)" by (intro five_providers_isolated [of pid]) auto
  qed
  have b: "serves (protobuf_converter bs) pid (beh_provider b) b \<and> tenant_isolation (beh_provider b) (five_inv f) (five_view f)"
    if get: "hm_get (backends (feh_dispatcher feh)) pid = Some b" for pid b
  proof -
    obtain p where p: "serves (protobuf_converter bs) pid p b" "if pid = Core then p = core_provide core else (pid, p) \<in> set ps"
      using core(4) get [unfolded F(1)] by blast
    have "tenant_isolation p (five_inv f) (five_view f)"
    proof (cases "pid = Core")
      case False
      with p(2) ps(1) show ?thesis by (intro five_providers_isolated [of pid]) auto
    qed (use p(2) core_iso in simp)
    with p(1) show ?thesis by (simp add: serves_def)
  qed
  then show "backends_isolated (feh_dispatcher feh) (five_inv f) (five_view f)" by (simp add: backends_isolated_def)
  show "hm_get (backends (feh_dispatcher feh)) pid = Some b \<Longrightarrow> beh_converter b = protobuf_converter bs"
    using b by (simp add: serves_def)
  show "authenticators_ok feh (unwrap_or (ac_admins (sc_authenticator config)) [])"
    using a(2) by (auto simp: authenticators_ok_def F(2) hm_get_def split: if_splits)
qed

section \<open>A sample service with five providers\<close>

definition toy_five where
  "toy_five =
     \<lparr>f_codec = sample_codec, f_mbed = toy_provider, f_mbed_keys = toy_keys, f_mbed_id = id,
      f_calib = toy_calib\<lparr>cl_key_info_store := build_client \<lparr>kf_impl = on_disk_impl sample_codec\<rparr> CryptoAuthLib\<rparr>, f_content = id,
      f_ts = toy_ts_provider, f_ts_keys = toy_world_keys, f_tpm = toy_tpm, f_p11 = toy_p11, f_objects = toy_objects\<rparr>"

definition toy_five_state where
  "toy_five_state =
     ((((toy_state, toy_calib_state), toy_ts_state), tpm_new sample_manager ()), toy_p11_state sample_manager [] {})"

lemma toy_five_inv: "five_inv toy_five toy_five_state"
proof -
  have "calib_inv (on_disk_impl sample_codec) odm_inv odm_abs (f_calib toy_five) id toy_calib_state"
    using toy_calib_inv by (simp add: calib_inv_def calib_setup_def toy_five_def build_client_def)
  moreover have "p11_inv (on_disk_impl sample_codec) odm_inv odm_abs toy_p11 toy_objects (toy_p11_state sample_manager [] {})"
    by (rule toy_p11_inv) (simp_all add: sample_facts sample_manager_empty numbered_empty)
  ultimately show ?thesis
    using toy_mbed_inv toy_ts_inv toy_tpm_inv [OF sample_facts(3)]
    by (simp add: five_inv_def four_inv_def three_inv_def two_inv_def pair_inv_def toy_five_def toy_five_state_def
        four_kim_def three_kim_def two_kim_def toy_state_def toy_calib_state_def toy_ts_state_def tpm_new_def toy_p11_state_def)
qed

definition blank_builders :: "(on_disk_manager, 'w) builders" where
  "blank_builders =
     \<lparr>compiled_provider = (\<lambda>_. False), compiled_authenticator = (\<lambda>_. True),
      kim_builder = (\<lambda>_. err_op ''absent''), mbed_builder = (\<lambda>_. err_op ''absent''), pkcs11_slot = (\<lambda>_. None),
      pkcs11_builder = (\<lambda>_ _ _ _ _ _. err_op ''absent''), tcti_parse = (\<lambda>_. True), tcti_initialize = (\<lambda>_ w. (False, w)),
      tpm_builder = (\<lambda>_ _ _. err_op ''absent''), calib_builder_build = (\<lambda>_. err_op ''absent''),
      ts_builder = (\<lambda>_. err_op ''absent''), spiffe_client = (\<lambda>_. None), protobuf_converter = sample_convert,
      crate_version = Some (0, 7, 0), sb_uuid_parse = (\<lambda>_. Some [])\<rparr>"

lemma five_describe:
  "(pid, p) \<in> set (five_providers toy_five) \<Longrightarrow> \<exists>info ops. p_describe p = Some (Inr (info, ops))"
  by (auto simp: five_providers_def five_left_def four_left_def three_left_def two_left_def provide_part_def toy_five_def
      mbed_provide_def calib_provide_def ts_provide_def tpm_provide_def p11_provide_def default_provide_def mbed_describe_def
      calib_describe_def ts_describe_def tpm_describe_def p11_describe_def toy_provider_def toy_calib_def toy_ts_provider_def
      toy_tpm_def toy_p11_def)

lemma describe_all_total:
  "(\<And>p. p \<in> set ps \<Longrightarrow> \<exists>info ops. p_describe p = Some (Inr (info, ops))) \<Longrightarrow> \<exists>x. describe_all ps opcodes infos = Some (Inr x)"
proof (induction ps arbitrary: opcodes infos)
  case (Cons p ps)
  obtain info ops where "p_describe p = Some (Inr (info, ops))" using Cons.prems by fastforce
  with Cons show ?case by simp
qed simp

lemma add_providers_eq:
  "\<exists>mp'. add_providers c ps builder mp = Inr (builder\<lparr>cb_prov_list := cb_prov_list builder @ map snd ps\<rparr>, mp')"
proof (induction ps arbitrary: builder mp)
  case (Cons x ps)
  obtain pid p where "x = (pid, p)" by fastforce
  with Cons [of "core_with_provider builder p"] show ?case by (simp add: provider_backend_eq core_with_provider_def)
qed simp

lemma toy_five_back_ends:
  "\<exists>mp. build_backend_handlers blank_builders (five_providers toy_five) [(Direct, direct_authenticator_impl (direct_new []))] =
     Some (Inr mp)"
proof -
  let ?a = "direct_authenticator_impl (direct_new [])"
  obtain info where a: "au_describe ?a = Inr info" by (simp add: direct_authenticator_impl_def direct_describe_def)
  let ?b = "with_authenticator_info (with_wire_protocol_version core_builder_new 0 1) info"
  obtain mp where ps: "add_providers sample_convert (five_providers toy_five) ?b [] =
      Inr (?b\<lparr>cb_prov_list := cb_prov_list ?b @ map snd (five_providers toy_five)\<rparr>, mp)"
    using add_providers_eq by blast
  obtain y z where d: "describe_all (map snd (five_providers toy_five)) (hm_insert Core (fset_of_list core_supported_opcodes) []) [] =
      Some (Inr (y, z))"
    using describe_all_total [of "map snd (five_providers toy_five)"] five_describe by (fastforce simp: image_iff)
  show ?thesis
    using ps d by (simp add: build_backend_handlers_def a blank_builders_def core_build_def core_builder_new_def
        with_wire_protocol_version_def with_authenticator_info_def provider_backend_eq)
qed

section \<open>Properties\<close>

text \<open>
  C1: The providers of a service keep the tenants apart even though they share one key info manager. Take any of the Mbed Crypto,
  CryptoAuthLib, Trusted Service, TPM and PKCS 11 providers over the same on-disk store, and the front end that the service builder assembles over
  them and the core provider. Whatever connections are served, and in whatever order, the invariants of all five
  providers hold, and what an application has with each of them (its mappings, and the keys behind them) stays the same unless a connection
  was authenticated as this application or was a request of a configured administrator to delete a client.
\<close>

theorem shared_service_isolated:
  assumes "set ps \<subseteq> set (five_providers f)" and "distinct (map fst ps)"
    and "build_authenticators bs (sc_authenticator config) = Inr as"
    and "build_backend_handlers bs ps as = Some (Inr mp)" and "assemble_front_end config as mp = Inr feh"
    and "is_admin_opcode ifc DeleteClient"
    and "\<And>body opc x. body_to_operation (protobuf_converter bs) body opc = Inr (OpDeleteClient x) \<Longrightarrow> opc = DeleteClient"
    and "five_inv f w"
    and "\<forall>conn \<in> set conns.
      \<not> authenticated_as ifc wire feh (unwrap_or (ac_admins (sc_authenticator config)) []) n conn"
  shows "five_inv f (serve ifc wire feh conns w) \<and> five_view f n (serve ifc wire feh conns w) = five_view f n w"
proof -
  note B = shared_front_end_isolated [OF assms(1-5)]
  show ?thesis
    by (rule serve_isolated [OF B(1,2) assms(6) _ assms(8,9)]) (use B(3) assms(7) in auto)
qed

theorem shared_service_isolated_witness:
  "\<exists>mp feh. build_backend_handlers blank_builders (five_providers toy_five) [(Direct, direct_authenticator_impl (direct_new []))] =
       Some (Inr mp) \<and>
     assemble_front_end toy_config [(Direct, direct_authenticator_impl (direct_new []))] mp = Inr feh \<and>
     five_inv toy_five (serve sample_interface toy_wire feh [toy_conn] toy_five_state) \<and>
     five_view toy_five ''b'' (serve sample_interface toy_wire feh [toy_conn] toy_five_state) = five_view toy_five ''b'' toy_five_state"
proof -
  let ?as = "[(Direct, direct_authenticator_impl (direct_new []))]"
  obtain mp where bh: "build_backend_handlers blank_builders (five_providers toy_five) ?as = Some (Inr mp)"
    using toy_five_back_ends by blast
  obtain feh where fe: "assemble_front_end toy_config ?as mp = Inr feh" "feh_authenticators feh = ?as"
    using assemble_front_end_eq [of mp toy_config Direct] by fastforce
  have au: "build_authenticators blank_builders (sc_authenticator toy_config) = Inr ?as"
    by (simp add: build_authenticators_def toy_config_def blank_builders_def unwrap_or_def)
  have "au_authenticate (direct_authenticator_impl (direct_new [])) [97] (conn_metadata toy_conn) =
      Inr \<lparr>app_name = ''a'', app_is_admin = False\<rparr>"
    by code_simp
  then have n: "\<forall>conn \<in> set [toy_conn]. \<not> authenticated_as sample_interface toy_wire feh
      (unwrap_or (ac_admins (sc_authenticator toy_config)) []) ''b'' conn"
    by (simp add: authenticated_as_def toy_wire_def authenticate_request_def sample_request_def
        sample_interface_def fe(2) hm_get_def toy_config_def unwrap_or_def)
  have conv: "opc = DeleteClient"
    if "body_to_operation (protobuf_converter blank_builders) body opc = Inr (OpDeleteClient x)" for body opc x
    using that by (auto simp: blank_builders_def sample_convert_def split: if_splits)
  have adm: "is_admin_opcode sample_interface DeleteClient" by (simp add: sample_interface_def)
  have dist: "distinct (map fst (five_providers toy_five))" by (simp add: five_providers_def)
  have "five_inv toy_five (serve sample_interface toy_wire feh [toy_conn] toy_five_state) \<and>
     five_view toy_five ''b'' (serve sample_interface toy_wire feh [toy_conn] toy_five_state) = five_view toy_five ''b'' toy_five_state"
    by (rule shared_service_isolated [OF subset_refl dist au bh fe(1) adm _ toy_five_inv n]) (rule conv)
  with bh fe(1) show ?thesis by blast
qed

end
